(* ===== verification/JsPrelude.thy ===== *)
theory JsPrelude
  imports Complex_Main "HOL-Library.Sublist"
begin

text \<open>
  Shared vocabulary of the development: JavaScript strings and the string functions the web
  console uses (\<open>trim\<close>, \<open>replace\<close>, \<open>join\<close>, \<open>startsWith\<close>, template literals), decimal
  digits, and the generic list lemmas.

  A JavaScript string is modelled by the UTF-8 encoding of its text, a list of bytes
  (\<open>string\<close>): the literals of the source are ASCII, every operation used on
  non-ASCII text works on whole encoded characters, and white space is the ECMAScript set.
  Lone surrogates, which have no UTF-8 form, are outside the model.
\<close>

named_theorems js_simps "evaluation rules for the JavaScript primitives"

section \<open>White space and trimming\<close>

text \<open>The white space and line terminators that \<open>String.prototype.trim\<close> removes.\<close>

definition ws_seqs :: "string list" where
  "ws_seqs =
     [[CHR 0x20], [CHR 0x09], [CHR 0x0A], [CHR 0x0B], [CHR 0x0C], [CHR 0x0D],
      [CHR 0xC2, CHR 0xA0], [CHR 0xE1, CHR 0x9A, CHR 0x80],
      [CHR 0xE2, CHR 0x80, CHR 0x80], [CHR 0xE2, CHR 0x80, CHR 0x81],
      [CHR 0xE2, CHR 0x80, CHR 0x82], [CHR 0xE2, CHR 0x80, CHR 0x83],
      [CHR 0xE2, CHR 0x80, CHR 0x84], [CHR 0xE2, CHR 0x80, CHR 0x85],
      [CHR 0xE2, CHR 0x80, CHR 0x86], [CHR 0xE2, CHR 0x80, CHR 0x87],
      [CHR 0xE2, CHR 0x80, CHR 0x88], [CHR 0xE2, CHR 0x80, CHR 0x89],
      [CHR 0xE2, CHR 0x80, CHR 0x8A], [CHR 0xE2, CHR 0x80, CHR 0xA8],
      [CHR 0xE2, CHR 0x80, CHR 0xA9], [CHR 0xE2, CHR 0x80, CHR 0xAF],
      [CHR 0xE2, CHR 0x81, CHR 0x9F], [CHR 0xE3, CHR 0x80, CHR 0x80],
      [CHR 0xEF, CHR 0xBB, CHR 0xBF]]"

text \<open>Removes leading occurrences of the given byte sequences.\<close>

function strip :: "string list \<Rightarrow> string \<Rightarrow> string" where
  "strip ws s =
     (case find (\<lambda>w. w \<noteq> [] \<and> prefix w s) ws of
        None \<Rightarrow> s
      | Some w \<Rightarrow> strip ws (drop (length w) s))"
  by pat_completeness auto
termination
proof (relation "measure (\<lambda>(ws, s). length s)", simp)
  fix ws :: "string list" and s w :: string
  assume "find (\<lambda>w. w \<noteq> [] \<and> prefix w s) ws = Some w"
  then have "w \<noteq> []" "prefix w s"
    by (auto simp: find_Some_iff)
  then show "((ws, drop (length w) s), (ws, s)) \<in> measure (\<lambda>(ws, s). length s)"
    by (auto simp: prefix_def)
qed

declare strip.simps [simp del]

definition trim :: "string \<Rightarrow> string" where
  "trim s = rev (strip (map rev ws_seqs) (rev (strip ws_seqs s)))"

definition starts_clean :: "string list \<Rightarrow> string \<Rightarrow> bool" where
  "starts_clean ws s \<longleftrightarrow> (\<forall>w \<in> set ws. w \<noteq> [] \<longrightarrow> \<not> prefix w s)"

lemma strip_clean: "starts_clean ws (strip ws s)"
proof (induction ws s rule: strip.induct)
  case (1 ws s)
  show ?case
  proof (cases "find (\<lambda>w. w \<noteq> [] \<and> prefix w s) ws")
    case None
    then have "strip ws s = s" by (simp add: strip.simps [of ws s])
    with None show ?thesis by (auto simp: starts_clean_def find_None_iff)
  next
    case (Some w)
    with 1 show ?thesis by (simp add: strip.simps [of ws s])
  qed
qed

lemma strip_id: "starts_clean ws s \<Longrightarrow> strip ws s = s"
proof -
  assume "starts_clean ws s"
  then have "find (\<lambda>w. w \<noteq> [] \<and> prefix w s) ws = None"
    by (auto simp: starts_clean_def find_None_iff)
  then show ?thesis by (subst strip.simps) simp
qed

lemma strip_suffix: "suffix (strip ws s) s"
proof (induction ws s rule: strip.induct)
  case (1 ws s)
  show ?case
  proof (cases "find (\<lambda>w. w \<noteq> [] \<and> prefix w s) ws")
    case None
    then show ?thesis by (subst strip.simps) simp
  next
    case (Some w)
    with 1 have "suffix (strip ws (drop (length w) s)) (drop (length w) s)" by simp
    then have "suffix (strip ws (drop (length w) s)) s"
      using suffix_drop suffix_order.trans by blast
    with Some show ?thesis by (subst strip.simps) simp
  qed
qed

lemma starts_clean_prefix: "starts_clean ws s \<Longrightarrow> prefix t s \<Longrightarrow> starts_clean ws t"
  unfolding starts_clean_def using prefix_order.trans by blast

lemma trim_iff:
  "trim s = s \<longleftrightarrow> starts_clean ws_seqs s \<and> starts_clean (map rev ws_seqs) (rev s)"
proof
  assume eq: "trim s = s"
  let ?t = "strip ws_seqs s" and ?u = "strip (map rev ws_seqs) (rev (strip ws_seqs s))"
  have s: "s = rev ?u" using eq by (simp add: trim_def)
  have "suffix ?u (rev ?t)" by (rule strip_suffix)
  then have "prefix (rev ?u) ?t" by (simp add: suffix_to_prefix)
  then have "starts_clean ws_seqs s"
    using s strip_clean starts_clean_prefix by metis
  moreover have "starts_clean (map rev ws_seqs) (rev s)"
    using s strip_clean by (metis rev_rev_ident)
  ultimately show "starts_clean ws_seqs s \<and> starts_clean (map rev ws_seqs) (rev s)" ..
next
  assume "starts_clean ws_seqs s \<and> starts_clean (map rev ws_seqs) (rev s)"
  then show "trim s = s" by (simp add: trim_def strip_id)
qed

lemma trim_trim [simp]: "trim (trim s) = trim s"
proof -
  let ?t = "strip ws_seqs s" and ?u = "strip (map rev ws_seqs) (rev (strip ws_seqs s))"
  have "suffix ?u (rev ?t)" by (rule strip_suffix)
  then have "prefix (rev ?u) ?t" by (simp add: suffix_to_prefix)
  then have "starts_clean ws_seqs (trim s)"
    unfolding trim_def using strip_clean starts_clean_prefix by metis
  moreover have "starts_clean (map rev ws_seqs) (rev (trim s))"
    unfolding trim_def by (simp add: strip_clean)
  ultimately show ?thesis by (simp add: trim_iff)
qed

lemma trim_Nil [simp]: "trim [] = []"
  by (simp add: trim_iff starts_clean_def ws_seqs_def)

text \<open>
  A convenient sufficient condition: text whose first and last byte are printable ASCII
  other than the space is its own trimmed form.
\<close>

definition plain_char :: "char \<Rightarrow> bool" where
  "plain_char c \<longleftrightarrow> 32 < (of_char c :: nat) \<and> (of_char c :: nat) < 128"

lemma plain_char_ws:
  assumes "plain_char c" and "w \<in> set ws_seqs"
  shows "w \<noteq> [] \<and> hd w \<noteq> c \<and> last w \<noteq> c"
  using assms by (auto simp: ws_seqs_def plain_char_def)

lemma prefix_hd: "prefix w s \<Longrightarrow> w \<noteq> [] \<Longrightarrow> s \<noteq> [] \<and> hd w = hd s"
  by (cases w) (auto simp: prefix_def)

lemma trim_plain:
  assumes "s \<noteq> [] \<Longrightarrow> plain_char (hd s) \<and> plain_char (last s)"
  shows "trim s = s"
  unfolding trim_iff starts_clean_def
proof safe
  fix w assume "w \<in> set ws_seqs" "w \<noteq> []" "prefix w s"
  then show False using prefix_hd [of w s] plain_char_ws [of "hd s" w] assms by auto
next
  fix w assume w: "w \<in> set (map rev ws_seqs)" "w \<noteq> []" "prefix w (rev s)"
  then obtain v where v: "v \<in> set ws_seqs" "w = rev v" by auto
  from w have "s \<noteq> []" "hd w = last s" using prefix_hd [of w "rev s"] by (auto simp: hd_rev)
  with v have "last v = last s" by (simp add: hd_rev)
  then show False using plain_char_ws [of "last s" v] v assms \<open>s \<noteq> []\<close> by auto
qed

section \<open>Other string functions\<close>

fun join :: "string \<Rightarrow> string list \<Rightarrow> string" where
  "join sep [] = []"
| "join sep [x] = x"
| "join sep (x # y # ys) = x @ sep @ join sep (y # ys)"

text \<open>
  \<open>s.replace(pat, rep)\<close> with a string pattern replaces the first occurrence. The
  replacement texts of the source are decimal numerals, which hold none of the special
  \<open>$\<close> patterns.
\<close>

fun replace_first :: "string \<Rightarrow> string \<Rightarrow> string \<Rightarrow> string" where
  "replace_first pat rep [] = (if pat = [] then rep else [])"
| "replace_first pat rep (c # cs) =
     (if prefix pat (c # cs) then rep @ drop (length pat) (c # cs)
      else c # replace_first pat rep cs)"

lemma replace_first_hit:
  "prefix pat s \<Longrightarrow> replace_first pat rep s = rep @ drop (length pat) s"
  by (cases s) auto

abbreviation startsWith :: "string \<Rightarrow> string \<Rightarrow> bool" where
  "startsWith s p \<equiv> prefix p s"

section \<open>Decimal digits\<close>

definition is_digit :: "char \<Rightarrow> bool" where
  "is_digit c \<longleftrightarrow> 48 \<le> (of_char c :: nat) \<and> (of_char c :: nat) \<le> 57"

definition digit_val :: "char \<Rightarrow> nat" where
  "digit_val c = of_char c - 48"

definition digit :: "nat \<Rightarrow> char" where
  "digit d = char_of (48 + d)"

fun dec :: "nat \<Rightarrow> string" where
  "dec n = (if n < 10 then [digit n] else dec (n div 10) @ [digit (n mod 10)])"

declare dec.simps [simp del]

definition undec :: "string \<Rightarrow> nat" where
  "undec s = foldl (\<lambda>a c. 10 * a + digit_val c) 0 s"

definition dec_int :: "int \<Rightarrow> string" where
  "dec_int i = (if i < 0 then CHR ''-'' # dec (nat (- i)) else dec (nat i))"

lemma of_char_digit: "d < 10 \<Longrightarrow> (of_char (digit d) :: nat) = 48 + d"
  by (simp add: digit_def of_char_of)

lemma is_digit_digit [simp]: "d < 10 \<Longrightarrow> is_digit (digit d)"
  by (simp add: is_digit_def of_char_digit)

lemma digit_val_digit [simp]: "d < 10 \<Longrightarrow> digit_val (digit d) = d"
  by (simp add: digit_val_def of_char_digit)

lemma undec_Nil [simp]: "undec [] = 0"
  by (simp add: undec_def)

lemma undec_snoc [simp]: "undec (s @ [c]) = 10 * undec s + digit_val c"
  by (simp add: undec_def)

lemma undec_append: "undec (s @ t) = undec s * 10 ^ length t + undec t"
proof (induction t rule: rev_induct)
  case (snoc c t)
  have "undec (s @ t @ [c]) = 10 * undec (s @ t) + digit_val c"
    using undec_snoc [of "s @ t" c] by simp
  with snoc show ?case by (simp add: algebra_simps)
qed simp

lemma undec_dec [simp]: "undec (dec n) = n"
  by (induction n rule: dec.induct) (subst dec.simps, auto simp: undec_def)

lemma dec_digits: "list_all is_digit (dec n)"
  by (induction n rule: dec.induct) (subst dec.simps, auto)

lemma dec_not_Nil [simp]: "dec n \<noteq> []"
  by (subst dec.simps) auto

lemma dec_inject [simp]: "dec m = dec n \<longleftrightarrow> m = n"
  by (metis undec_dec)

lemma hd_dec: "0 < n \<Longrightarrow> hd (dec n) \<noteq> CHR ''0''"
proof (induction n rule: dec.induct)
  case (1 n)
  show ?case
  proof (cases "n < 10")
    case True
    then have "(of_char (digit n) :: nat) \<noteq> of_char (CHR ''0'')"
      using 1 by (simp add: of_char_digit)
    then have "digit n \<noteq> CHR ''0''" by metis
    with True show ?thesis by (subst dec.simps) simp
  next
    case False
    with 1 show ?thesis by (subst dec.simps) (auto simp: hd_append)
  qed
qed

lemma dec_0: "dec 0 = ''0''"
  by code_simp

lemma undec_replicate_0 [simp]: "undec (replicate k (CHR ''0'')) = 0"
proof (induction k)
  case (Suc k)
  have "undec (replicate k (CHR ''0'') @ [CHR ''0'']) = 0"
    using Suc by (simp add: digit_val_def)
  then show ?case by (simp add: replicate_append_same)
qed simp

lemma undec_zeros [simp]: "undec (replicate k (CHR ''0'') @ s) = undec s"
  by (simp add: undec_append)

lemma length_dec_pos [simp]: "0 < length (dec n)"
  by simp

lemma dec_bounds: "0 < n \<Longrightarrow> 10 ^ (length (dec n) - 1) \<le> n \<and> n < 10 ^ length (dec n)"
proof (induction n rule: dec.induct)
  case (1 n)
  show ?case
  proof (cases "n < 10")
    case True
    with 1 show ?thesis by (subst (1 2) dec.simps) simp
  next
    case False
    let ?m = "n div 10"
    have len: "length (dec n) = Suc (length (dec ?m))"
      using False by (subst dec.simps) simp
    have ih: "10 ^ (length (dec ?m) - 1) \<le> ?m \<and> ?m < 10 ^ length (dec ?m)"
      using 1 False by simp
    then have "10 * 10 ^ (length (dec ?m) - 1) \<le> n" by linarith
    moreover have "10 * 10 ^ (length (dec ?m) - 1) = (10::nat) ^ length (dec ?m)"
      using length_dec_pos [of ?m] by (metis Suc_diff_1 power_Suc)
    moreover have "n < 10 * 10 ^ length (dec ?m)" using ih by linarith
    ultimately show ?thesis by (simp add: len)
  qed
qed

section \<open>Lists of rows with a key\<close>

text \<open>\<open>rows.map(row => row.key === k ? change(row) : row)\<close>\<close>

definition update_where :: "('a \<Rightarrow> bool) \<Rightarrow> ('a \<Rightarrow> 'a) \<Rightarrow> 'a list \<Rightarrow> 'a list" where
  "update_where p f xs = map (\<lambda>x. if p x then f x else x) xs"

lemma length_update_where [simp]: "length (update_where p f xs) = length xs"
  by (simp add: update_where_def)

lemma map_update_where: "(\<And>x. p x \<Longrightarrow> k (f x) = k x) \<Longrightarrow> map k (update_where p f xs) = map k xs"
  by (simp add: update_where_def)

lemma nth_update_where: "i < length xs \<Longrightarrow> update_where p f xs ! i = (if p (xs ! i) then f (xs ! i) else xs ! i)"
  by (simp add: update_where_def)

lemma distinct_map_filter: "distinct (map f xs) \<Longrightarrow> distinct (map f (filter p xs))"
  by (induction xs) auto

end
