(* ===== verification/JsNumber.thy ===== *)
theory JsNumber
  imports JsPrelude "HOL-Library.Log_Nat"
begin

text \<open>
  JavaScript numbers: IEEE binary64 values as exact rationals (the two zeros are identified,
  no operation of the source tells them apart), rounding of a rational to the nearest
  binary64 value with ties to even, \<open>Number(text)\<close>, \<open>String(number)\<close> (the shortest
  decimal that reads back as the same value) and the predicates \<open>Number.isInteger\<close> and
  \<open>Number.isFinite\<close>. The main result is the round trip: reading the text of a number
  gives the number back.
\<close>

datatype jsnum = NaN | PosInf | NegInf | Fin rat

section \<open>Logarithms of rationals\<close>

text \<open>The greatest \<open>e\<close> with \<open>b\<^sup>e \<le> a\<close>, for \<open>a > 0\<close>.\<close>

definition ilog :: "nat \<Rightarrow> rat \<Rightarrow> int" where
  "ilog b a =
     (let (n, d) = quotient_of a;
          l = int (floorlog b (nat n)) - int (floorlog b (nat d))
      in if of_nat b powi l \<le> a then l else l - 1)"

lemma floorlog_le: "1 < b \<Longrightarrow> 0 < x \<Longrightarrow> (of_nat b :: rat) powi (int (floorlog b x) - 1) \<le> of_nat x"
  and floorlog_gt: "1 < b \<Longrightarrow> 0 < x \<Longrightarrow> of_nat x < (of_nat b :: rat) powi int (floorlog b x)"
proof -
  assume b: "1 < b" and x: "0 < x"
  have *: "b ^ (floorlog b x - 1) \<le> x \<and> x < b ^ floorlog b x"
    using floorlog_bounds [of x b] b x by simp
  have pos: "0 < floorlog b x" using b x by (simp add: floorlog_def)
  have "(of_nat b :: rat) powi (int (floorlog b x) - 1) = of_nat (b ^ (floorlog b x - 1))"
    using pos by (simp add: power_int_def nat_diff_distrib)
  with * show "(of_nat b :: rat) powi (int (floorlog b x) - 1) \<le> of_nat x"
    by (simp only: of_nat_le_iff)
  have "(of_nat b :: rat) powi int (floorlog b x) = of_nat (b ^ floorlog b x)"
    by simp
  with * show "of_nat x < (of_nat b :: rat) powi int (floorlog b x)"
    by (simp only: of_nat_less_iff)
qed

lemma ilog_bounds:
  assumes b: "1 < b" and a: "0 < a"
  shows "of_nat b powi ilog b a \<le> a \<and> a < of_nat b powi (ilog b a + 1)"
proof -
  obtain n d where q: "quotient_of a = (n, d)" by force
  have d: "0 < d" using q by (rule quotient_of_denom_pos)
  have ad: "a = of_int n / of_int d" using q by (rule quotient_of_div)
  then have n: "0 < n" using a d by (simp add: zero_less_divide_iff)
  let ?n = "nat n" and ?d = "nat d" and ?b = "of_nat b :: rat"
  have nd: "a = of_nat ?n / of_nat ?d" using ad n d by simp
  define ln where "ln = int (floorlog b ?n)"
  define ld where "ld = int (floorlog b ?d)"
  have b0: "0 < ?b" "1 < ?b" using b by auto
  have 1: "?b powi (ln - 1) \<le> of_nat ?n" "of_nat ?n < ?b powi ln"
    using floorlog_le [of b ?n] floorlog_gt [of b ?n] b n by (auto simp: ln_def)
  have 2: "?b powi (ld - 1) \<le> of_nat ?d" "of_nat ?d < ?b powi ld"
    using floorlog_le [of b ?d] floorlog_gt [of b ?d] b d by (auto simp: ld_def)
  have dpos: "0 < (of_nat ?d :: rat)" using d by simp
  have upper: "a < ?b powi (ln - ld + 1)"
  proof -
    have "a < ?b powi ln / of_nat ?d"
      unfolding nd using 1 dpos by (simp add: divide_strict_right_mono)
    also have "\<dots> \<le> ?b powi ln / ?b powi (ld - 1)"
      using 2 b0 dpos by (intro divide_left_mono mult_pos_pos zero_less_power_int) auto
    also have "\<dots> = ?b powi (ln - ld + 1)"
      using b0 by (simp add: power_int_diff [symmetric] algebra_simps)
    finally show ?thesis .
  qed
  have lower: "?b powi (ln - ld - 1) \<le> a"
  proof -
    have "?b powi (ln - ld - 1) = ?b powi (ln - 1) / ?b powi ld"
      using b0 by (simp add: power_int_diff [symmetric] algebra_simps)
    also have "\<dots> \<le> of_nat ?n / ?b powi ld"
      using 1 b0 by (intro divide_right_mono) auto
    also have "\<dots> \<le> of_nat ?n / of_nat ?d"
      using 2 b0 dpos by (intro divide_left_mono) auto
    finally show ?thesis by (simp add: nd)
  qed
  show ?thesis
    using upper lower unfolding ilog_def q by (simp add: Let_def ln_def ld_def)
qed

lemma powi_less_cancel:
  assumes "1 < (b::rat)" "b powi i < b powi j" shows "i < j"
proof (rule ccontr)
  assume "\<not> i < j"
  then have "b powi j \<le> b powi i" using assms by (intro power_int_increasing) auto
  with assms show False by simp
qed

lemma ilog_unique:
  assumes "1 < b" "0 < a" "of_nat b powi i \<le> a" "a < of_nat b powi (i + 1)"
  shows "ilog b a = i"
proof -
  have b: "1 < (of_nat b :: rat)" using assms by simp
  note bd = ilog_bounds [OF assms(1,2)]
  have "of_nat b powi ilog b a < (of_nat b :: rat) powi (i + 1)" using bd assms by linarith
  then have "ilog b a < i + 1" by (rule powi_less_cancel [OF b])
  moreover have "of_nat b powi i < (of_nat b :: rat) powi (ilog b a + 1)" using bd assms by linarith
  then have "i < ilog b a + 1" by (rule powi_less_cancel [OF b])
  ultimately show ?thesis by linarith
qed

section \<open>Rounding to binary64\<close>

text \<open>The integer nearest to a rational, the even one of two equally near.\<close>

definition rhe :: "rat \<Rightarrow> int" where
  "rhe x =
     (let f = floor x; d = x - of_int f
      in if d < 1/2 then f else if 1/2 < d then f + 1 else if even f then f else f + 1)"

lemma rhe_of_int [simp]: "rhe (of_int i) = i"
  by (simp add: rhe_def)

lemma rhe_bounds: "floor x \<le> rhe x \<and> rhe x \<le> floor x + 1"
  by (auto simp: rhe_def Let_def)

definition max_double_bound :: rat where
  "max_double_bound = 2 ^ 1024"

definition rnd :: "rat \<Rightarrow> jsnum" where
  "rnd r =
     (if r = 0 then Fin 0
      else let a = \<bar>r\<bar>;
               e = max (- 1074) (ilog 2 a - 52);
               v = of_int (rhe (a / 2 powi e)) * 2 powi e
           in if max_double_bound \<le> v then (if 0 < r then PosInf else NegInf)
              else Fin (if 0 < r then v else - v))"

definition is_double :: "rat \<Rightarrow> bool" where
  "is_double x \<longleftrightarrow> rnd x = Fin x"

text \<open>The shape of binary64 values: an integer of at most 53 bits times a power of two.\<close>

definition double_form :: "rat \<Rightarrow> int \<Rightarrow> int \<Rightarrow> bool" where
  "double_form x m e \<longleftrightarrow> x = of_int m * 2 powi e \<and> - 1074 \<le> e \<and> \<bar>m\<bar> \<le> 2 ^ 53 \<and> \<bar>x\<bar> < max_double_bound"

lemma powi_nonneg_int: "0 \<le> e \<Longrightarrow> (2::rat) powi e = of_int (2 ^ nat e)"
  by (simp add: power_int_def)

lemma double_form_rnd:
  assumes "double_form x m e"
  shows "rnd x = Fin x"
proof (cases "x = 0")
  case True
  then show ?thesis by (simp add: rnd_def)
next
  case False
  define a where "a = \<bar>x\<bar>"
  have a0: "0 < a" using False by (simp add: a_def)
  have xm: "x = of_int m * 2 powi e" and m: "\<bar>m\<bar> \<le> 2 ^ 53" and e: "- 1074 \<le> e"
    and lt: "a < max_double_bound"
    using assms unfolding double_form_def a_def by blast+
  have am: "a = of_int \<bar>m\<bar> * 2 powi e"
    unfolding a_def xm by (simp add: abs_mult)
  define L where "L = ilog 2 a"
  have L: "2 powi L \<le> a" "a < 2 powi (L + 1)"
    using ilog_bounds [of 2 a] a0 by (auto simp: L_def)
  define E where "E = max (- 1074) (L - 52)"
  have "\<exists>k. a / 2 powi E = of_int k"
  proof (cases "E \<le> e")
    case True
    have "a / 2 powi E = of_int \<bar>m\<bar> * (2 powi (e - E))"
      by (simp add: am power_int_diff)
    also have "\<dots> = of_int (\<bar>m\<bar> * 2 ^ nat (e - E))"
      using True by (simp add: powi_nonneg_int)
    finally show ?thesis by blast
  next
    case False
    then have EL: "E = L - 52" "e + 53 \<le> L" using e by (auto simp: E_def)
    have m': "(of_int \<bar>m\<bar> :: rat) \<le> 2 ^ 53" using m by (metis of_int_le_iff of_int_numeral of_int_power)
    then have "a \<le> 2 ^ 53 * 2 powi e" unfolding am by (intro mult_right_mono) auto
    also have "\<dots> = 2 powi (e + 53)" by (simp add: power_int_add)
    finally have "a \<le> 2 powi (e + 53)" .
    moreover have "2 powi (e + 53) \<le> (2::rat) powi L"
      using EL by (intro power_int_increasing) auto
    ultimately have "a = 2 powi L" using L by linarith
    then have "a / 2 powi E = of_int (2 ^ 52)"
      by (simp add: EL power_int_diff)
    then show ?thesis by blast
  qed
  then obtain k where k: "a / 2 powi E = of_int k" by blast
  then have "of_int (rhe (a / 2 powi E)) * 2 powi E = a"
    by (simp add: field_simps)
  then show ?thesis
    using False lt unfolding rnd_def Let_def
    by (auto simp: a_def [symmetric] L_def [symmetric] E_def [symmetric])
      (auto simp: a_def abs_if split: if_splits)
qed

lemma double_form_uminus: "double_form x m e \<Longrightarrow> double_form (- x) (- m) e"
  unfolding double_form_def by (elim conjE, intro conjI) simp_all

lemma rnd_double_form:
  assumes "rnd r = Fin x"
  shows "\<exists>m e. double_form x m e"
proof (cases "r = 0")
  case True
  with assms have "x = 0" by (simp add: rnd_def)
  then have "double_form x 0 0" by (simp add: double_form_def max_double_bound_def)
  then show ?thesis by blast
next
  case False
  define a where "a = \<bar>r\<bar>"
  have a0: "0 < a" using False by (simp add: a_def)
  define e where "e = max (- 1074) (ilog 2 a - 52)"
  define m where "m = rhe (a / 2 powi e)"
  define v where "v = of_int m * (2::rat) powi e"
  have lt: "v < max_double_bound" and x: "x = (if 0 < r then v else - v)"
    using assms False unfolding rnd_def Let_def a_def [symmetric] e_def [symmetric] m_def [symmetric] v_def [symmetric]
    by (auto split: if_splits)
  have "a < 2 powi (ilog 2 a + 1)" using ilog_bounds [of 2 a] a0 by simp
  also have "\<dots> \<le> 2 powi (e + 53)" by (intro power_int_increasing) (auto simp: e_def)
  also have "\<dots> = 2 ^ 53 * 2 powi e" by (simp add: power_int_add)
  finally have q: "a / 2 powi e < 2 ^ 53" by (simp add: field_simps)
  then have "floor (a / 2 powi e) < 2 ^ 53" by (simp add: floor_less_iff del: of_int_numeral)
  moreover have "m \<le> floor (a / 2 powi e) + 1" using rhe_bounds by (simp add: m_def)
  ultimately have mU: "m \<le> 2 ^ 53" by linarith
  have "0 \<le> floor (a / 2 powi e)" using a0 by simp
  then have m0: "0 \<le> m" using rhe_bounds [of "a / 2 powi e"] unfolding m_def by linarith
  then have "0 \<le> v" by (simp add: v_def)
  then have "double_form v m e"
    using lt mU m0 by (simp add: double_form_def v_def e_def)
  then show ?thesis using x double_form_uminus by metis
qed

theorem is_double_iff: "is_double x \<longleftrightarrow> (\<exists>m e. double_form x m e)"
  unfolding is_double_def using double_form_rnd rnd_double_form by blast

lemma rnd_is_double: "rnd r = Fin x \<Longrightarrow> is_double x"
  using is_double_iff rnd_double_form by blast

lemma is_double_uminus: "is_double x \<Longrightarrow> is_double (- x)"
  using double_form_uminus is_double_iff by blast

lemma is_double_of_int: "\<bar>i\<bar> \<le> 2 ^ 53 \<Longrightarrow> is_double (of_int i)"
proof -
  assume i: "\<bar>i\<bar> \<le> 2 ^ 53"
  then have "(of_int \<bar>i\<bar> :: rat) \<le> 2 ^ 53" by (metis of_int_le_iff of_int_numeral of_int_power)
  moreover have "(2::rat) ^ 53 < 2 ^ 1024" by (rule power_strict_increasing) auto
  ultimately have "double_form (of_int i) i 0"
    using i by (simp add: double_form_def max_double_bound_def)
  then show ?thesis using is_double_iff by blast
qed

lemma rnd_of_int [simp]: "\<bar>i\<bar> \<le> 2 ^ 53 \<Longrightarrow> rnd (of_int i) = Fin (of_int i)"
  using is_double_of_int by (simp add: is_double_def)

lemma rnd_uminus: "rnd x = Fin y \<Longrightarrow> rnd (- x) = Fin (- y)"
  by (auto simp: rnd_def Let_def split: if_splits)

section \<open>Reading decimals\<close>

definition frac_val :: "string \<Rightarrow> string \<Rightarrow> int \<Rightarrow> rat" where
  "frac_val ip fp e = of_nat (undec (ip @ fp)) * 10 powi (e - int (length fp))"

fun scan_sign :: "string \<Rightarrow> int \<times> string" where
  "scan_sign [] = (1, [])"
| "scan_sign (c # cs) =
     (if c = CHR ''-'' then (- 1, cs) else if c = CHR ''+'' then (1, cs) else (1, c # cs))"

text \<open>An optional exponent part; \<open>None\<close> when the marker has no digits.\<close>

fun scan_exp :: "string \<Rightarrow> (int \<times> string) option" where
  "scan_exp [] = Some (0, [])"
| "scan_exp (c # cs) =
     (if c = CHR ''e'' \<or> c = CHR ''E'' then
        (let (sg, r) = scan_sign cs; ds = takeWhile is_digit r
         in if ds = [] then None else Some (sg * int (undec ds), dropWhile is_digit r))
      else Some (0, c # cs))"

fun scan_frac :: "string \<Rightarrow> string \<times> string" where
  "scan_frac [] = ([], [])"
| "scan_frac (c # cs) =
     (if c = CHR ''.'' then (takeWhile is_digit cs, dropWhile is_digit cs) else ([], c # cs))"

definition scan_decimal :: "string \<Rightarrow> (rat \<times> string) option" where
  "scan_decimal s =
     (let ip = takeWhile is_digit s; (fp, r) = scan_frac (dropWhile is_digit s)
      in if ip = [] \<and> fp = [] then None
         else map_option (\<lambda>(e, r'). (frac_val ip fp e, r')) (scan_exp r))"

definition char_val :: "char \<Rightarrow> nat" where
  "char_val c =
     (let n = of_char c :: nat
      in if 48 \<le> n \<and> n \<le> 57 then n - 48
         else if 97 \<le> n \<and> n \<le> 122 then n - 87
         else if 65 \<le> n \<and> n \<le> 90 then n - 55 else 99)"

definition radix_number :: "nat \<Rightarrow> string \<Rightarrow> jsnum" where
  "radix_number b s =
     (if s = [] \<or> \<not> list_all (\<lambda>c. char_val c < b) s then NaN
      else rnd (of_nat (foldl (\<lambda>a c. b * a + char_val c) 0 s)))"

text \<open>\<open>Number(text)\<close>\<close>

definition Number :: "string \<Rightarrow> jsnum" where
  "Number s =
     (let t = trim s
      in if t = [] then Fin 0
         else if prefix ''0x'' t \<or> prefix ''0X'' t then radix_number 16 (drop 2 t)
         else if prefix ''0o'' t \<or> prefix ''0O'' t then radix_number 8 (drop 2 t)
         else if prefix ''0b'' t \<or> prefix ''0B'' t then radix_number 2 (drop 2 t)
         else let (sg, u) = scan_sign t
              in if u = ''Infinity'' then (if sg < 0 then NegInf else PosInf)
                 else case scan_decimal u of
                        Some (v, []) \<Rightarrow> rnd (of_int sg * v)
                      | _ \<Rightarrow> NaN)"

text \<open>The number production of the JSON grammar: the number and the text after it.\<close>

definition json_unsigned :: "string \<Rightarrow> (rat \<times> string) option" where
  "json_unsigned s =
     (let ip = takeWhile is_digit s; r = dropWhile is_digit s; (fp, r') = scan_frac r
      in if ip = [] \<or> (hd ip = CHR ''0'' \<and> tl ip \<noteq> []) then None
         else if r \<noteq> [] \<and> hd r = CHR ''.'' \<and> fp = [] then None
         else map_option (\<lambda>(e, r''). (frac_val ip fp e, r'')) (scan_exp r'))"

fun json_number :: "string \<Rightarrow> (jsnum \<times> string) option" where
  "json_number [] = None"
| "json_number (c # cs) =
     (if c = CHR ''-'' then map_option (\<lambda>(v, r). (rnd (- v), r)) (json_unsigned cs)
      else map_option (\<lambda>(v, r). (rnd v, r)) (json_unsigned (c # cs)))"

section \<open>Printing decimals\<close>

text \<open>
  The shortest digit string: for \<open>k = 1, 2, \<dots>\<close> digits, the two neighbours of the value
  on the grid of \<open>k\<close> significant digits, the nearer one first, until one rounds back.
\<close>

definition nearest_two :: "rat \<Rightarrow> int list" where
  "nearest_two q =
     (let lo = floor q; d = 2 * (q - of_int lo)
      in if d < 1 \<or> (d = 1 \<and> even lo) then [lo, lo + 1] else [lo + 1, lo])"

definition digits_hit :: "nat \<Rightarrow> rat \<Rightarrow> int \<Rightarrow> int option" where
  "digits_hit k x n =
     (let u = 10 powi (n - int k)
      in find (\<lambda>s. rnd (of_int s * u) = Fin x) (nearest_two (x / u)))"

fun shortest :: "nat \<Rightarrow> nat \<Rightarrow> rat \<Rightarrow> int \<Rightarrow> (nat \<times> int) option" where
  "shortest 0 k x n = None"
| "shortest (Suc f) k x n =
     (case digits_hit k x n of
        Some s \<Rightarrow> Some (if s = 10 ^ k then (10 ^ (k - 1), n + 1) else (nat s, n))
      | None \<Rightarrow> shortest f (Suc k) x n)"

definition fmt_parts :: "nat \<Rightarrow> int \<Rightarrow> string \<times> string \<times> int option" where
  "fmt_parts s n =
     (let ds = dec s; k = int (length ds)
      in if k \<le> n \<and> n \<le> 21 then (ds @ replicate (nat (n - k)) (CHR ''0''), [], None)
         else if 0 < n \<and> n \<le> 21 then (take (nat n) ds, drop (nat n) ds, None)
         else if - 6 < n \<and> n \<le> 0 then (''0'', replicate (nat (- n)) (CHR ''0'') @ ds, None)
         else ([hd ds], tl ds, Some (n - 1)))"

fun render_parts :: "string \<times> string \<times> int option \<Rightarrow> string" where
  "render_parts (ip, fp, eo) =
     ip @ (if fp = [] then [] else CHR ''.'' # fp) @
     (case eo of None \<Rightarrow> []
      | Some e \<Rightarrow> CHR ''e'' # (if e < 0 then CHR ''-'' else CHR ''+'') # dec (nat \<bar>e\<bar>))"

definition pos_str :: "rat \<Rightarrow> string" where
  "pos_str x =
     (case shortest 1400 1 x (ilog 10 x + 1) of
        Some (s, n) \<Rightarrow> render_parts (fmt_parts s n)
      | None \<Rightarrow> [])"

text \<open>\<open>String(number)\<close>\<close>

fun num_str :: "jsnum \<Rightarrow> string" where
  "num_str NaN = ''NaN''"
| "num_str PosInf = ''Infinity''"
| "num_str NegInf = ''-Infinity''"
| "num_str (Fin x) =
     (if x = 0 then ''0'' else if x < 0 then CHR ''-'' # pos_str (- x) else pos_str x)"

section \<open>Predicates\<close>

fun isFinite :: "jsnum \<Rightarrow> bool" where
  "isFinite (Fin x) = True"
| "isFinite _ = False"

fun isInteger :: "jsnum \<Rightarrow> bool" where
  "isInteger (Fin x) = (of_int (floor x) = x)"
| "isInteger _ = False"

fun num_lt :: "jsnum \<Rightarrow> jsnum \<Rightarrow> bool" where
  "num_lt (Fin x) (Fin y) = (x < y)"
| "num_lt NaN _ = False"
| "num_lt _ NaN = False"
| "num_lt NegInf y = (y \<noteq> NegInf)"
| "num_lt _ NegInf = False"
| "num_lt PosInf _ = False"
| "num_lt (Fin x) PosInf = True"

fun num_wf :: "jsnum \<Rightarrow> bool" where
  "num_wf (Fin x) = is_double x"
| "num_wf _ = True"

section \<open>The round trip\<close>

lemma is_double_scaled_int:
  assumes "is_double x" and "1074 \<le> j"
  shows "\<exists>i::int. x * 10 ^ j = of_int i"
proof -
  obtain m e where f: "double_form x m e" using assms is_double_iff by blast
  then have x: "x = of_int m * 2 powi e" and e: "- 1074 \<le> e"
    by (auto simp: double_form_def)
  have "x * 10 ^ j = of_int m * (2 powi e * 2 powi int j) * 5 ^ j"
    unfolding x by (simp add: power_mult_distrib [symmetric])
  also have "2 powi e * 2 powi int j = (2::rat) powi (e + int j)"
    by (simp add: power_int_add)
  also have "\<dots> = of_int (2 ^ nat (e + int j))"
    using e assms by (intro powi_nonneg_int) simp
  finally have "x * 10 ^ j = of_int (m * 2 ^ nat (e + int j) * 5 ^ j)" by simp
  then show ?thesis ..
qed

lemma ilog10_double_bound:
  assumes "is_double x" "0 < x" shows "ilog 10 x \<le> 308"
proof -
  obtain m e where f: "double_form x m e" using assms is_double_iff by blast
  then have "\<bar>x\<bar> < max_double_bound" unfolding double_form_def by blast
  then have "x < 2 ^ 1024" using assms by (simp add: max_double_bound_def)
  also have "(2::rat) ^ 1024 \<le> 10 ^ 309" by simp
  finally have "x < 10 powi 309" by simp
  moreover have "10 powi ilog 10 x \<le> x" using ilog_bounds [of 10 x] assms by simp
  ultimately have "(10::rat) powi ilog 10 x < 10 powi 309" by linarith
  then show ?thesis using powi_less_cancel [of 10 "ilog 10 x" 309] by simp
qed

lemma length_dec_eq:
  assumes "10 ^ (k - 1) \<le> s" "s < 10 ^ k" "0 < k"
  shows "length (dec s) = k"
proof -
  have s: "0 < s" using assms(1) by (metis gr0I le_zero_eq power_not_zero zero_neq_numeral)
  note b = dec_bounds [OF s]
  have "(10::nat) ^ (k - 1) < 10 ^ length (dec s)" using b assms by linarith
  then have "k - 1 < length (dec s)" by (rule power_less_imp_less_exp [rotated]) simp
  moreover have "(10::nat) ^ (length (dec s) - 1) < 10 ^ k" using b assms by linarith
  then have "length (dec s) - 1 < k" by (rule power_less_imp_less_exp [rotated]) simp
  ultimately show ?thesis using assms(3) length_dec_pos [of s] by linarith
qed

lemma digits_hit_SomeD:
  assumes "digits_hit k x n = Some t"
  shows "rnd (of_int t * 10 powi (n - int k)) = Fin x \<and>
    (t = floor (x / 10 powi (n - int k)) \<or> t = floor (x / 10 powi (n - int k)) + 1)"
proof -
  let ?u = "10 powi (n - int k) :: rat"
  have "t \<in> set (nearest_two (x / ?u)) \<and> rnd (of_int t * ?u) = Fin x"
    using assms unfolding digits_hit_def Let_def find_Some_iff by (metis nth_mem)
  then show ?thesis by (auto simp: nearest_two_def Let_def split: if_splits)
qed

lemma digits_hit_exact:
  assumes "x / 10 powi (n - int k) = of_int i" "is_double x"
  shows "digits_hit k x n \<noteq> None"
proof -
  let ?u = "10 powi (n - int k) :: rat"
  have "of_int i * ?u = x" using assms(1) by (simp add: field_simps)
  then have "rnd (of_int i * ?u) = Fin x" using assms(2) by (simp add: is_double_def)
  moreover have "i \<in> set (nearest_two (x / ?u))"
    unfolding assms(1) by (simp add: nearest_two_def)
  ultimately show ?thesis unfolding digits_hit_def Let_def find_None_iff by blast
qed

lemma digits_hit_digits:
  assumes "digits_hit k x n = Some t" "10 powi (n - 1) \<le> x" "x < 10 powi n" "0 < k"
  shows "10 ^ (k - 1) \<le> t \<and> t \<le> 10 ^ k"
proof -
  define u where "u = (10::rat) powi (n - int k)"
  have u0: "0 < u" by (simp add: u_def)
  have "10 powi (n - 1) / u \<le> x / u" using assms u0 by (intro divide_right_mono) auto
  moreover have "10 powi (n - 1) / u = 10 powi (int (k - 1))"
    using assms(4) by (simp add: u_def power_int_diff [symmetric] of_nat_diff)
  then have "10 powi (n - 1) / u = of_int (10 ^ (k - 1))" by simp
  ultimately have lo1: "10 ^ (k - 1) \<le> floor (x / u)"
    by (simp add: le_floor_iff del: of_int_power)
  have "x / u < 10 powi n / u" using assms u0 by (intro divide_strict_right_mono) auto
  moreover have "10 powi n / u = of_int (10 ^ k)"
    by (simp add: u_def power_int_diff [symmetric])
  ultimately have lo2: "floor (x / u) < 10 ^ k"
    by (simp add: floor_less_iff del: of_int_power)
  show ?thesis using lo1 lo2 digits_hit_SomeD [OF assms(1)] unfolding u_def by linarith
qed

lemma shortest_sound:
  assumes "shortest f k x n = Some (s, n')" "10 powi (n - 1) \<le> x" "x < 10 powi n" "0 < k"
  shows "0 < s \<and> rnd (of_nat s * 10 powi (n' - int (length (dec s)))) = Fin x"
  using assms
proof (induction f arbitrary: k)
  case (Suc f)
  show ?case
  proof (cases "digits_hit k x n")
    case None
    with Suc show ?thesis by simp
  next
    case (Some t)
    have r: "rnd (of_int t * 10 powi (n - int k)) = Fin x" using digits_hit_SomeD [OF Some] by blast
    have tk: "10 ^ (k - 1) \<le> t" "t \<le> 10 ^ k"
      using digits_hit_digits [OF Some Suc.prems(2-4)] by auto
    have sn: "(s, n') = (if t = 10 ^ k then (10 ^ (k - 1), n + 1) else (nat t, n))"
      using Suc.prems(1) Some by simp
    show ?thesis
    proof (cases "t = 10 ^ k")
      case True
      then have s: "s = 10 ^ (k - 1)" "n' = n + 1" using sn by simp_all
      have len: "length (dec s) = k" using s Suc.prems(4) by (intro length_dec_eq) auto
      have "of_nat s * 10 powi (n' - int (length (dec s))) = (10::rat) powi int (k - 1) * 10 powi (n + 1 - int k)"
        using s len by simp
      also have "\<dots> = 10 powi n" using Suc.prems(4) by (simp add: power_int_add [symmetric] of_nat_diff)
      also have "\<dots> = of_int t * 10 powi (n - int k)" using True by (simp add: power_int_diff)
      finally show ?thesis using r s by simp
    next
      case False
      then have tk': "t < 10 ^ k" using tk by simp
      have t0: "0 < t" using tk(1) by (meson less_le_trans zero_less_numeral zero_less_power)
      have s: "s = nat t" "n' = n" using sn False by simp_all
      have "int (10 ^ (k - 1)) \<le> int s" "int s < int (10 ^ k)"
        using tk tk' t0 s by simp_all
      then have "10 ^ (k - 1) \<le> s" "s < 10 ^ k" by (simp_all only: of_nat_le_iff of_nat_less_iff)
      then have len: "length (dec s) = k" using Suc.prems(4) by (rule length_dec_eq)
      show ?thesis using r s t0 len by simp
    qed
  qed
qed simp

lemma shortest_total:
  assumes "\<exists>j \<ge> k. j < k + f \<and> (\<exists>i. x / 10 powi (n - int j) = of_int i)" and "is_double x"
  shows "\<exists>s n'. shortest f k x n = Some (s, n')"
  using assms
proof (induction f arbitrary: k)
  case (Suc f)
  show ?case
  proof (cases "digits_hit k x n")
    case (Some t)
    then show ?thesis by auto
  next
    case None
    obtain j i where j: "k \<le> j" "j < k + Suc f" "x / 10 powi (n - int j) = of_int i"
      using Suc.prems(1) by blast
    then have "j \<noteq> k" using None Suc.prems(2) digits_hit_exact by blast
    then have "\<exists>s n'. shortest f (Suc k) x n = Some (s, n')"
      using j Suc.prems(2) by (intro Suc.IH exI [of _ j] conjI exI [of _ i]) auto
    with None show ?thesis by simp
  qed
qed auto

lemma pos_str_parts:
  assumes "is_double x" "0 < x"
  shows "\<exists>s n. pos_str x = render_parts (fmt_parts s n) \<and> 0 < s \<and>
           rnd (of_nat s * 10 powi (n - int (length (dec s)))) = Fin x"
proof -
  define n where "n = ilog 10 x + 1"
  have bd: "10 powi (n - 1) \<le> x" "x < 10 powi n"
    using ilog_bounds [of 10 x] assms by (auto simp: n_def)
  define j where "j = nat (max 1 (n + 1074))"
  have j: "1 \<le> j" "j < 1 + 1400" "n + 1074 \<le> int j"
    using ilog10_double_bound [OF assms] by (auto simp: j_def n_def)
  have "x / 10 powi (n - int j) = x * 10 ^ nat (int j - n)"
  proof -
    have "10 powi (n - int j) = inverse ((10::rat) ^ nat (int j - n))"
      using j by (auto simp: power_int_def power_one_over inverse_eq_divide)
    then show ?thesis by (simp add: field_simps)
  qed
  moreover have "\<exists>i::int. x * 10 ^ nat (int j - n) = of_int i"
    using assms(1) j by (intro is_double_scaled_int) auto
  ultimately have "\<exists>s n'. shortest 1400 1 x n = Some (s, n')"
    using j assms(1) by (intro shortest_total) auto
  then obtain s n' where s: "shortest 1400 1 x n = Some (s, n')" by blast
  from shortest_sound [OF s bd] show ?thesis
    using s by (auto simp: pos_str_def n_def)
qed

lemma is_digit_spans:
  assumes "list_all is_digit ds" "r = [] \<or> \<not> is_digit (hd r)"
  shows "takeWhile is_digit (ds @ r) = ds" "dropWhile is_digit (ds @ r) = r"
  using assms by (induction ds) (cases r; simp)+

text \<open>Text at which a number ends: no digit, point or exponent marker follows.\<close>

definition num_stop :: "string \<Rightarrow> bool" where
  "num_stop r \<longleftrightarrow> r = [] \<or> \<not> is_digit (hd r) \<and> hd r \<noteq> CHR ''.'' \<and> hd r \<noteq> CHR ''e'' \<and> hd r \<noteq> CHR ''E''"

definition parts_ok :: "string \<times> string \<times> int option \<Rightarrow> bool" where
  "parts_ok = (\<lambda>(ip, fp, eo). list_all is_digit ip \<and> list_all is_digit fp \<and> ip \<noteq> [] \<and>
      (hd ip = CHR ''0'' \<longrightarrow> tl ip = []))"

fun parts_val :: "string \<times> string \<times> int option \<Rightarrow> rat" where
  "parts_val (ip, fp, eo) = frac_val ip fp (case eo of None \<Rightarrow> 0 | Some e \<Rightarrow> e)"

lemma is_digit_simps [simp]:
  "\<not> is_digit (CHR ''.'')" "\<not> is_digit (CHR ''e'')" "\<not> is_digit (CHR ''-'')" "\<not> is_digit (CHR ''+'')"
  "is_digit (CHR ''0'')"
  by (simp_all add: is_digit_def)

definition exp_text :: "int option \<Rightarrow> string" where
  "exp_text eo = (case eo of None \<Rightarrow> []
      | Some e \<Rightarrow> CHR ''e'' # (if e < 0 then CHR ''-'' else CHR ''+'') # dec (nat \<bar>e\<bar>))"

definition frac_text :: "string \<Rightarrow> string" where
  "frac_text fp = (if fp = [] then [] else CHR ''.'' # fp)"

lemma render_parts_eq: "render_parts (ip, fp, eo) = ip @ frac_text fp @ exp_text eo"
  by (simp add: frac_text_def exp_text_def)

lemma scan_exp_text:
  assumes "num_stop r"
  shows "scan_exp (exp_text eo @ r) = Some (case eo of None \<Rightarrow> 0 | Some e \<Rightarrow> e, r)"
proof (cases eo)
  case None
  with assms show ?thesis by (cases r) (auto simp: exp_text_def num_stop_def)
next
  case (Some e)
  have "r = [] \<or> \<not> is_digit (hd r)" using assms by (auto simp: num_stop_def)
  note sp = is_digit_spans [OF dec_digits [of "nat \<bar>e\<bar>"] this]
  show ?thesis using sp by (cases "e < 0") (simp_all add: Some exp_text_def)
qed

lemma scan_frac_text:
  assumes "num_stop r" "list_all is_digit fp"
  shows "scan_frac (frac_text fp @ exp_text eo @ r) = (fp, exp_text eo @ r)"
proof -
  have hd: "exp_text eo @ r = [] \<or> \<not> is_digit (hd (exp_text eo @ r))"
    using assms(1) by (auto simp: exp_text_def num_stop_def split: option.splits)
  show ?thesis
  proof (cases "fp = []")
    case True
    then show ?thesis
      using assms(1) by (cases r) (auto simp: frac_text_def exp_text_def num_stop_def split: option.splits)
  next
    case False
    with is_digit_spans [OF assms(2) hd] show ?thesis by (simp add: frac_text_def)
  qed
qed

lemma render_span:
  assumes "num_stop r" "list_all is_digit ip"
  shows "takeWhile is_digit (ip @ frac_text fp @ exp_text eo @ r) = ip"
    and "dropWhile is_digit (ip @ frac_text fp @ exp_text eo @ r) = frac_text fp @ exp_text eo @ r"
proof -
  have "frac_text fp @ exp_text eo @ r = [] \<or> \<not> is_digit (hd (frac_text fp @ exp_text eo @ r))"
    using assms(1) by (auto simp: frac_text_def exp_text_def num_stop_def split: option.splits)
  from is_digit_spans [OF assms(2) this]
  show "takeWhile is_digit (ip @ frac_text fp @ exp_text eo @ r) = ip"
    and "dropWhile is_digit (ip @ frac_text fp @ exp_text eo @ r) = frac_text fp @ exp_text eo @ r"
    by simp_all
qed

lemma scan_decimal_render:
  assumes "parts_ok p" "num_stop r"
  shows "scan_decimal (render_parts p @ r) = Some (parts_val p, r)"
proof -
  obtain ip fp eo where p: "p = (ip, fp, eo)" by (cases p) auto
  then have ok: "list_all is_digit ip" "list_all is_digit fp" "ip \<noteq> []"
    using assms(1) by (auto simp: parts_ok_def)
  show ?thesis
    unfolding p render_parts_eq scan_decimal_def append_assoc render_span [OF assms(2) ok(1)]
      scan_frac_text [OF assms(2) ok(2)]
    using ok(3) by (simp add: scan_exp_text [OF assms(2)])
qed

lemma json_unsigned_render:
  assumes "parts_ok p" "num_stop r"
  shows "json_unsigned (render_parts p @ r) = Some (parts_val p, r)"
proof -
  obtain ip fp eo where p: "p = (ip, fp, eo)" by (cases p) auto
  then have ok: "list_all is_digit ip" "list_all is_digit fp" "ip \<noteq> []"
    "hd ip = CHR ''0'' \<longrightarrow> tl ip = []"
    using assms(1) by (auto simp: parts_ok_def)
  have "\<not> (frac_text fp @ exp_text eo @ r \<noteq> [] \<and> hd (frac_text fp @ exp_text eo @ r) = CHR ''.'' \<and> fp = [])"
    using assms(2) by (auto simp: frac_text_def exp_text_def num_stop_def split: option.splits)
  then show ?thesis
    unfolding p render_parts_eq json_unsigned_def append_assoc render_span [OF assms(2) ok(1)]
      scan_frac_text [OF assms(2) ok(2)] Let_def prod.case
    using ok(3,4) by (simp add: scan_exp_text [OF assms(2)])
qed

lemma list_all_hd: "list_all P xs \<Longrightarrow> xs \<noteq> [] \<Longrightarrow> P (hd xs)"
  by (cases xs) auto

lemma list_all_sub:
  assumes "list_all P xs"
  shows "list_all P (take k xs)" "list_all P (drop k xs)" "list_all P (tl xs)"
  using assms by (auto simp: list_all_iff dest: in_set_takeD in_set_dropD)
    (metis list.set_sel(2) tl_Nil)

lemma zeros_digits [simp]: "list_all is_digit (replicate k (CHR ''0''))"
  by (simp add: list_all_iff)

lemma fmt_parts_ok: "0 < s \<Longrightarrow> parts_ok (fmt_parts s n)"
  using list_all_sub [OF dec_digits [of s]] list_all_hd [OF dec_digits [of s] dec_not_Nil]
    dec_digits [of s] hd_dec [of s] dec_not_Nil [of s]
  by (auto simp: fmt_parts_def parts_ok_def Let_def)

lemma fmt_parts_val: "parts_val (fmt_parts s n) = of_nat s * 10 powi (n - int (length (dec s)))"
proof -
  define ds where "ds = dec s"
  define k where "k = int (length ds)"
  have und: "undec ds = s" by (simp add: ds_def)
  have k0: "0 < k" using length_dec_pos [of s] by (simp add: k_def ds_def)
  consider (a) "k \<le> n" "n \<le> 21" | (b) "0 < n" "n \<le> 21" "n < k" | (c) "- 6 < n" "n \<le> 0"
    | (d) "\<not> (k \<le> n \<and> n \<le> 21)" "\<not> (0 < n \<and> n \<le> 21)" "\<not> (- 6 < n \<and> n \<le> 0)"
    using k0 by linarith
  then show ?thesis
  proof cases
    case a
    have "undec (ds @ replicate (nat (n - k)) (CHR ''0'')) = s * 10 ^ nat (n - k)"
      by (simp add: undec_append und)
    with a show ?thesis
      by (simp add: fmt_parts_def Let_def ds_def [symmetric] k_def [symmetric] frac_val_def power_int_def)
  next
    case b
    have "take (nat n) ds @ drop (nat n) ds = ds" by simp
    moreover have "int (length (drop (nat n) ds)) = k - n" using b by (simp add: k_def)
    ultimately show ?thesis
      using b by (simp add: fmt_parts_def Let_def ds_def [symmetric] k_def [symmetric] frac_val_def und)
  next
    case c
    have "undec (''0'' @ replicate (nat (- n)) (CHR ''0'') @ ds) = s"
      using undec_zeros [of "Suc (nat (- n))" ds] by (simp add: und)
    with c k0 show ?thesis
      by (simp add: fmt_parts_def Let_def ds_def [symmetric] k_def [symmetric] frac_val_def
          algebra_simps)
  next
    case d
    have "ds \<noteq> []" by (simp add: ds_def)
    then have "[hd ds] @ tl ds = ds" "int (length (tl ds)) = k - 1" by (cases ds; simp add: k_def)+
    moreover have "fmt_parts s n = ([hd ds], tl ds, Some (n - 1))"
      using d unfolding fmt_parts_def Let_def ds_def [symmetric] k_def [symmetric] by (metis (full_types))
    ultimately show ?thesis using und by (simp add: ds_def [symmetric] k_def [symmetric] frac_val_def)
  qed
qed

lemma pos_str_reads:
  assumes "is_double x" "0 < x" "num_stop r"
  shows "\<exists>v. scan_decimal (pos_str x @ r) = Some (v, r) \<and> json_unsigned (pos_str x @ r) = Some (v, r)
            \<and> rnd v = Fin x"
proof -
  obtain s n where sn: "pos_str x = render_parts (fmt_parts s n)" "0 < s"
    "rnd (of_nat s * 10 powi (n - int (length (dec s)))) = Fin x"
    using pos_str_parts [OF assms(1,2)] by blast
  show ?thesis
    using scan_decimal_render [OF fmt_parts_ok [OF sn(2)] assms(3)]
      json_unsigned_render [OF fmt_parts_ok [OF sn(2)] assms(3)] sn(1,3)
    by (simp add: fmt_parts_val)
qed

definition num_char :: "char \<Rightarrow> bool" where
  "num_char c \<longleftrightarrow> is_digit c \<or> c = CHR ''.'' \<or> c = CHR ''e'' \<or> c = CHR ''+'' \<or> c = CHR ''-''"

lemma num_char_plain: "num_char c \<Longrightarrow> plain_char c"
  by (auto simp: num_char_def plain_char_def is_digit_def)

lemma render_chars:
  assumes "parts_ok p"
  shows "list_all num_char (render_parts p) \<and> render_parts p \<noteq> [] \<and> is_digit (hd (render_parts p))"
proof -
  obtain ip fp eo where p: "p = (ip, fp, eo)" by (cases p) auto
  have "list_all is_digit (dec k)" for k by (rule dec_digits)
  with assms show ?thesis
    by (cases ip) (auto simp: p parts_ok_def list_all_iff num_char_def split: option.splits)
qed

lemma pos_str_chars:
  assumes "is_double x" "0 < x"
  shows "list_all num_char (pos_str x) \<and> pos_str x \<noteq> [] \<and> is_digit (hd (pos_str x))"
proof -
  obtain s n where "pos_str x = render_parts (fmt_parts s n)" "0 < s"
    using pos_str_parts [OF assms] by blast
  with render_chars [OF fmt_parts_ok] show ?thesis by simp
qed

lemma num_str_chars:
  assumes "is_double x"
  shows "list_all num_char (num_str (Fin x)) \<and> num_str (Fin x) \<noteq> []"
  using pos_str_chars [OF assms] pos_str_chars [OF is_double_uminus [OF assms]]
  by (auto simp: num_char_def)

lemma trim_num_str:
  assumes "is_double x"
  shows "trim (num_str (Fin x)) = num_str (Fin x)"
proof (rule trim_plain)
  have "list_all num_char (num_str (Fin x))" "num_str (Fin x) \<noteq> []"
    using num_str_chars [OF assms] by blast+
  then show "plain_char (hd (num_str (Fin x))) \<and> plain_char (last (num_str (Fin x)))"
    by (metis list_all_iff hd_in_set last_in_set num_char_plain)
qed

lemma num_chars_not_prefix:
  assumes "list_all num_char t" "\<not> list_all num_char p"
  shows "\<not> prefix p t"
  using assms by (auto simp: prefix_def)

lemma scan_sign_digit: "s \<noteq> [] \<Longrightarrow> is_digit (hd s) \<Longrightarrow> scan_sign s = (1, s)"
  by (cases s) auto

theorem Number_num_str:
  assumes "is_double x"
  shows "Number (num_str (Fin x)) = Fin x"
proof -
  define t where "t = num_str (Fin x)"
  have t: "list_all num_char t" "t \<noteq> []" "trim t = t"
    unfolding t_def using num_str_chars [OF assms] trim_num_str [OF assms] by blast+
  have np: "\<not> prefix p t" if "p \<in> {''0x'', ''0X'', ''0o'', ''0O'', ''0b'', ''0B''}" for p
    using that by (intro num_chars_not_prefix [OF t(1)]) (auto simp: num_char_def is_digit_def)
  have stop: "num_stop []" by (simp add: num_stop_def)
  obtain sg u v where su: "scan_sign t = (sg, u)" "list_all num_char u"
    and v: "scan_decimal u = Some (v, [])" "rnd (of_int sg * v) = Fin x"
  proof (cases "x = 0")
    case True
    have "scan_decimal ''0'' = Some (0, [])" by (simp add: scan_decimal_def frac_val_def undec_def digit_val_def)
    then show thesis
      using True t(1) by (intro that [of 1 "''0''" 0]) (auto simp: t_def rnd_def)
  next
    case False
    show thesis
    proof (cases "0 < x")
      case True
      obtain v where "scan_decimal (pos_str x) = Some (v, [])" "rnd v = Fin x"
        using pos_str_reads [OF assms True stop] by auto
      with True pos_str_chars [OF assms True] show thesis
        by (intro that [of 1 "pos_str x" v]) (auto simp: t_def scan_sign_digit)
    next
      case neg: False
      then have "0 < - x" using False by simp
      note d = is_double_uminus [OF assms] this
      obtain v where "scan_decimal (pos_str (- x)) = Some (v, [])" "rnd v = Fin (- x)"
        using pos_str_reads [OF d stop] by auto
      with neg False pos_str_chars [OF d] rnd_uminus [of v "- x"] show thesis
        by (intro that [of "- 1" "pos_str (- x)" v]) (auto simp: t_def)
    qed
  qed
  have "u \<noteq> ''Infinity''" using su(2) by (auto simp: num_char_def is_digit_def)
  with t np su v show ?thesis
    unfolding t_def [symmetric] Number_def by (simp add: Let_def)
qed

theorem json_number_num_str:
  assumes "is_double x" "num_stop r"
  shows "json_number (num_str (Fin x) @ r) = Some (Fin x, r)"
proof (cases "x = 0")
  case True
  have "parts_ok (''0'', [], None)" by (simp add: parts_ok_def)
  from json_unsigned_render [OF this assms(2)]
  have "json_unsigned (CHR ''0'' # r) = Some (0, r)" by (simp add: frac_val_def undec_def digit_val_def)
  with True show ?thesis by (simp add: rnd_def)
next
  case False
  show ?thesis
  proof (cases "0 < x")
    case True
    obtain v where "json_unsigned (pos_str x @ r) = Some (v, r)" "rnd v = Fin x"
      using pos_str_reads [OF assms(1) True assms(2)] by auto
    with True pos_str_chars [OF assms(1) True] show ?thesis
      by (cases "pos_str x") auto
  next
    case neg: False
    then have "0 < - x" using False by simp
    note d = is_double_uminus [OF assms(1)] this
    obtain v where "json_unsigned (pos_str (- x) @ r) = Some (v, r)" "rnd v = Fin (- x)"
      using pos_str_reads [OF d assms(2)] by auto
    with neg False rnd_uminus [of v "- x"] show ?thesis by auto
  qed
qed

lemma num_str_head:
  assumes "is_double x"
  shows "num_str (Fin x) \<noteq> [] \<and> (is_digit (hd (num_str (Fin x))) \<or> hd (num_str (Fin x)) = CHR ''-'')"
  using pos_str_chars [OF assms] by auto

section \<open>Whole numbers\<close>

text \<open>
  The text of a whole number below \<open>10\<^sup>1\<^sup>5\<close> is its decimal numeral: page numbers, counts and
  versions are printed with \<open>dec\<close> in the models of the pages.
\<close>

lemma dec_times_10: "0 < s \<Longrightarrow> dec (s * 10) = dec s @ ''0''"
  by (subst dec.simps) (simp add: digit_def, code_simp)

lemma dec_times_pow: "0 < s \<Longrightarrow> dec (s * 10 ^ j) = dec s @ replicate j (CHR ''0'')"
proof (induction j)
  case (Suc j)
  have "dec (s * 10 ^ Suc j) = dec (s * 10 ^ j * 10)" by (simp add: mult.assoc mult.commute)
  also have "\<dots> = dec (s * 10 ^ j) @ ''0''" using Suc.prems by (simp add: dec_times_10)
  finally show ?case using Suc by (simp add: replicate_append_same)
qed simp

lemma rnd_small_nat: "m \<le> 10 ^ 15 \<Longrightarrow> rnd (of_nat m) = Fin (of_nat m)"
  using rnd_of_int [of "int m"] by simp

lemma digits_hit_nat:
  assumes N: "0 < N" "N < 10 ^ 15" and k: "1 \<le> k" "k \<le> length (dec N)"
    and h: "digits_hit k (of_nat N) (int (length (dec N))) = Some t"
  shows "t < 10 ^ k \<and> 0 < t \<and> N = nat t * 10 ^ (length (dec N) - k)"
proof -
  define l where "l = length (dec N)"
  define u where "u = (10::nat) ^ (l - k)"
  have b: "10 ^ (l - 1) \<le> N" "N < 10 ^ l" using dec_bounds [OF N(1)] by (simp_all add: l_def)
  have u: "(10::rat) powi (int l - int k) = of_nat u"
    using k by (simp add: u_def l_def power_int_def nat_diff_distrib)
  have lk: "(10::nat) ^ l = 10 ^ k * u"
    using k by (simp add: u_def l_def power_add [symmetric])
  have l15: "l \<le> 15"
  proof (rule ccontr)
    assume "\<not> l \<le> 15"
    then have "(10::nat) ^ 15 \<le> 10 ^ (l - 1)" by (intro power_increasing) auto
    with b N show False by linarith
  qed
  have bb: "10 powi (int l - 1) \<le> (of_nat N :: rat)"
  proof -
    have "(10::rat) powi (int l - 1) = of_nat (10 ^ (l - 1))"
      using k by (simp add: l_def power_int_def nat_diff_distrib)
    then show ?thesis using b(1) by (simp only: of_nat_le_iff)
  qed
  have bt: "(of_nat N :: rat) < 10 powi int l"
  proof -
    have "(10::rat) powi int l = of_nat (10 ^ l)" by simp
    then show ?thesis using b(2) by (simp only: of_nat_less_iff)
  qed
  from digits_hit_digits [OF h [folded l_def] bb bt] k
  have t: "10 ^ (k - 1) \<le> t" "t \<le> 10 ^ k" by auto
  then have t0: "0 < t" by (meson less_le_trans zero_less_numeral zero_less_power)
  have "nat t * u \<le> 10 ^ k * u" using t t0 by (simp add: nat_le_iff)
  also have "\<dots> \<le> 10 ^ 15" unfolding lk [symmetric] using l15 by (intro power_increasing) auto
  finally have "rnd (of_nat (nat t * u)) = Fin (of_nat (nat t * u))" by (rule rnd_small_nat)
  moreover have "rnd (of_nat (nat t * u)) = Fin (of_nat N)"
    using digits_hit_SomeD [OF h [folded l_def]] t0 by (simp add: u)
  ultimately have eq: "N = nat t * u" by (metis jsnum.inject of_nat_eq_iff)
  then have "nat t * u < 10 ^ k * u" using b lk by simp
  then have "nat t < 10 ^ k" by simp
  then have "t < 10 ^ k" using t0 by (metis int_nat_eq less_imp_le of_nat_less_iff of_nat_numeral of_nat_power)
  with t0 eq show ?thesis by (simp add: u_def l_def)
qed

lemma shortest_nat:
  assumes N: "0 < N" "N < 10 ^ 15" and k: "1 \<le> k" "k \<le> length (dec N)"
    and s: "shortest f k (of_nat N) (int (length (dec N))) = Some (s, n')"
    and f: "length (dec N) < k + f"
  shows "n' = int (length (dec N)) \<and> 0 < s \<and> (\<exists>j. N = s * 10 ^ j \<and> j \<le> length (dec N))"
  using k s f
proof (induction f arbitrary: k)
  case (Suc f)
  show ?case
  proof (cases "digits_hit k (of_nat N) (int (length (dec N)))")
    case (Some t)
    note d = digits_hit_nat [OF N Suc.prems(1,2) Some]
    then show ?thesis using Suc.prems(3) Some
      by (auto intro!: exI [of _ "length (dec N) - k"])
  next
    case None
    have "k \<noteq> length (dec N)"
    proof
      assume "k = length (dec N)"
      then have "(of_nat N :: rat) / 10 powi (int (length (dec N)) - int k) = of_int (int N)" by simp
      moreover have "is_double (of_nat N)" using rnd_small_nat [of N] N by (simp add: is_double_def)
      ultimately show False using digits_hit_exact None by blast
    qed
    then have "Suc k \<le> length (dec N)" using Suc.prems(2) by simp
    with Suc.IH [of "Suc k"] Suc.prems None show ?thesis by simp
  qed
qed simp

lemma ilog10_nat: "0 < N \<Longrightarrow> ilog 10 (of_nat N) + 1 = int (length (dec N))"
proof -
  assume N: "0 < N"
  note b = dec_bounds [OF N]
  have "ilog 10 (of_nat N) = int (length (dec N)) - 1"
  proof (rule ilog_unique)
    have "(10::rat) powi (int (length (dec N)) - 1) = of_nat (10 ^ (length (dec N) - 1))"
      using length_dec_pos [of N] by (simp add: power_int_def nat_diff_distrib)
    then show "of_nat 10 powi (int (length (dec N)) - 1) \<le> (of_nat N :: rat)"
      using b by (simp only: of_nat_numeral of_nat_le_iff)
    have "(10::rat) powi (int (length (dec N)) - 1 + 1) = of_nat (10 ^ length (dec N))" by simp
    then show "(of_nat N :: rat) < of_nat 10 powi (int (length (dec N)) - 1 + 1)"
      using b by (simp only: of_nat_numeral of_nat_less_iff)
  qed (use N in auto)
  then show ?thesis by simp
qed

theorem num_str_nat:
  assumes "N < 10 ^ 15"
  shows "num_str (Fin (of_nat N)) = dec N"
proof (cases "N = 0")
  case True
  then show ?thesis by (simp add: dec_0)
next
  case False
  then have N: "0 < N" by simp
  have dbl: "is_double (of_nat N)" using rnd_small_nat [of N] assms by (simp add: is_double_def)
  have len: "length (dec N) \<le> 15"
  proof (rule ccontr)
    assume "\<not> length (dec N) \<le> 15"
    then have "(10::nat) ^ 15 \<le> 10 ^ (length (dec N) - 1)" by (intro power_increasing) auto
    with dec_bounds [OF N] assms show False by linarith
  qed
  let ?n = "int (length (dec N))"
  have "\<exists>s n'. shortest 1400 1 (of_nat N) ?n = Some (s, n')"
    by (rule shortest_total [OF _ dbl])
      (use len length_dec_pos [of N] in \<open>auto intro!: exI [of _ "length (dec N)"] exI [of _ "int N"]
        simp del: length_dec_pos simp: Suc_le_eq\<close>)
  then obtain s n' where s: "shortest 1400 1 (of_nat N) ?n = Some (s, n')" by blast
  from shortest_nat [OF N assms _ _ s] len length_dec_pos [of N]
  obtain j where j: "n' = ?n" "0 < s" "N = s * 10 ^ j"
    by (auto simp: Suc_le_eq simp del: length_dec_pos length_greater_0_conv)
  have "dec N = dec s @ replicate j (CHR ''0'')" using j dec_times_pow by simp
  then have "render_parts (fmt_parts s n') = dec N"
    using j len by (auto simp: fmt_parts_def Let_def)
  then show ?thesis using s N by (simp add: pos_str_def ilog10_nat)
qed

corollary Number_dec: "N < 10 ^ 15 \<Longrightarrow> Number (dec N) = Fin (of_nat N)"
  using Number_num_str [of "of_nat N"] num_str_nat [of N] rnd_small_nat [of N]
  by (simp add: is_double_def)

lemma is_double_small_nat: "N \<le> 10 ^ 15 \<Longrightarrow> is_double (of_nat N)"
  using rnd_small_nat by (simp add: is_double_def)

end
