(* ===== verification/JsValue.thy ===== *)
theory JsValue
  imports JsNumber
begin

text \<open>
  JSON-shaped JavaScript values: the values that cross the HTTP boundary and that the pages
  read with \<open>typeof\<close> checks. An object is the list of its own properties in the order in
  which \<open>Object.entries\<close> enumerates them: array-index keys ascending first, then the other
  keys in the order of their creation. A missing property is \<open>None\<close>; no value of the source
  stores \<open>undefined\<close> in such an object.
\<close>

datatype js =
    JNull
  | JBool bool
  | JNum jsnum
  | JStr string
  | JArr "js list"
  | JObj "(string \<times> js) list"

type_synonym js_object = "(string \<times> js) list"

section \<open>Own properties\<close>

definition is_index_key :: "string \<Rightarrow> bool" where
  "is_index_key k \<longleftrightarrow>
     k \<noteq> [] \<and> list_all is_digit k \<and> (hd k = CHR ''0'' \<longrightarrow> tl k = []) \<and> undec k \<le> 4294967294"

text \<open>The order of enumeration: \<open>key_before a b\<close> when \<open>a\<close> may stand before \<open>b\<close>.\<close>

definition key_before :: "string \<Rightarrow> string \<Rightarrow> bool" where
  "key_before a b \<longleftrightarrow> (is_index_key b \<longrightarrow> is_index_key a \<and> undec a < undec b)"

text \<open>Defining (or overwriting) an own property, as \<open>{...o, [k]: v}\<close> and \<open>JSON.parse\<close> do.\<close>

fun obj_put :: "string \<Rightarrow> 'v \<Rightarrow> (string \<times> 'v) list \<Rightarrow> (string \<times> 'v) list" where
  "obj_put k v [] = [(k, v)]"
| "obj_put k v ((k', v') # r) =
     (if k = k' then (k, v) # r
      else if is_index_key k \<and> (is_index_key k' \<longrightarrow> undec k < undec k') then (k, v) # (k', v') # r
      else (k', v') # obj_put k v r)"

text \<open>
  Assignment \<open>o[k] = v\<close>: the key \<open>__proto__\<close> reaches the accessor of
  \<open>Object.prototype\<close> and creates no own property.
\<close>

definition obj_assign :: "string \<Rightarrow> 'v \<Rightarrow> (string \<times> 'v) list \<Rightarrow> (string \<times> 'v) list" where
  "obj_assign k v ob = (if k = ''__proto__'' then ob else obj_put k v ob)"

abbreviation obj_get :: "(string \<times> 'v) list \<Rightarrow> string \<Rightarrow> 'v option" where
  "obj_get ob k \<equiv> map_of ob k"

text \<open>\<open>{...a, ...b}\<close>\<close>

definition obj_spread :: "(string \<times> 'v) list \<Rightarrow> (string \<times> 'v) list \<Rightarrow> (string \<times> 'v) list" where
  "obj_spread a b = foldl (\<lambda>ob (k, v). obj_put k v ob) a b"

text \<open>Deleting a property, \<open>delete o[k]\<close>.\<close>

definition obj_delete :: "string \<Rightarrow> (string \<times> 'v) list \<Rightarrow> (string \<times> 'v) list" where
  "obj_delete k ob = filter (\<lambda>(k', v). k' \<noteq> k) ob"

definition obj_ok :: "(string \<times> 'v) list \<Rightarrow> bool" where
  "obj_ok ob \<longleftrightarrow> distinct (map fst ob) \<and> sorted_wrt key_before (map fst ob)"

lemma obj_ok_Nil [simp]: "obj_ok []"
  by (simp add: obj_ok_def)

lemma obj_ok_plain:
  "distinct (map fst ob) \<Longrightarrow> list_all (\<lambda>k. \<not> is_index_key k) (map fst ob) \<Longrightarrow> obj_ok ob"
  by (induction ob) (auto simp: obj_ok_def key_before_def list_all_iff)

text \<open>A key that starts with a letter is no array index.\<close>

lemma not_index_key: "k = [] \<or> \<not> is_digit (hd k) \<Longrightarrow> \<not> is_index_key k"
  by (cases k) (auto simp: is_index_key_def)

lemma set_keys_obj_put: "set (map fst (obj_put k v ob)) = insert k (set (map fst ob))"
  by (induction ob rule: obj_put.induct [of _ k v]) (auto split: if_splits)

lemma set_obj_put: "set (obj_put k v ob) \<subseteq> insert (k, v) (set ob)"
  by (induction ob rule: obj_put.induct [of _ k v]) (auto split: if_splits)

lemma index_key_inj: "is_index_key a \<Longrightarrow> is_index_key b \<Longrightarrow> undec a = undec b \<Longrightarrow> a = b"
proof -
  have canon: "k = dec (undec k)" if "is_index_key k" for k
  proof -
    from that have k: "k \<noteq> []" "list_all is_digit k" "hd k = CHR ''0'' \<longrightarrow> tl k = []"
      by (auto simp: is_index_key_def)
    show ?thesis using k
    proof (induction k rule: rev_induct)
      case (snoc c k)
      have c: "digit_val c < 10" "digit (digit_val c) = c"
        using snoc.prems(2) by (auto simp: digit_val_def digit_def is_digit_def)
      show ?case
      proof (cases "k = []")
        case True
        then show ?thesis using c by (simp add: dec.simps [of "digit_val c"] undec_def)
      next
        case False
        then have h: "hd k \<noteq> CHR ''0''" using snoc.prems by (cases k) auto
        have ih: "k = dec (undec k)" using snoc False h by (cases k) auto
        have "undec k \<noteq> 0"
        proof
          assume "undec k = 0"
          then have "k = ''0''" using ih dec_0 by metis
          with h show False by simp
        qed
        then have "\<not> undec (k @ [c]) < 10" by simp
        moreover have "undec (k @ [c]) div 10 = undec k" "undec (k @ [c]) mod 10 = digit_val c"
          using c by simp_all
        ultimately have "dec (undec (k @ [c])) = dec (undec k) @ [digit (digit_val c)]"
          by (subst dec.simps) simp
        then show ?thesis using ih c by simp
      qed
    qed simp
  qed
  then show "is_index_key a \<Longrightarrow> is_index_key b \<Longrightarrow> undec a = undec b \<Longrightarrow> a = b" by metis
qed

lemma obj_put_ok:
  assumes "obj_ok ob" shows "obj_ok (obj_put k v ob)"
  using assms
proof (induction ob rule: obj_put.induct [of _ k v])
  case (2 k v k' v' r)
  then have r: "obj_ok r" "k' \<notin> set (map fst r)" "\<forall>b \<in> set (map fst r). key_before k' b"
    by (auto simp: obj_ok_def)
  show ?case
  proof (cases "k = k'")
    case True
    with 2 show ?thesis by (simp add: obj_ok_def)
  next
    case ne: False
    show ?thesis
    proof (cases "is_index_key k \<and> (is_index_key k' \<longrightarrow> undec k < undec k')")
      case True
      have "key_before k b" if "b \<in> set (map fst r)" for b
        using that r(3) True by (force simp: key_before_def)
      moreover have "k \<notin> set (map fst r)"
        using r(3) True by (force simp: key_before_def)
      ultimately show ?thesis using 2 ne True by (auto simp: obj_ok_def key_before_def)
    next
      case False
      have "undec k \<noteq> undec k'" if "is_index_key k" "is_index_key k'"
        using ne index_key_inj that by blast
      then have "key_before k' k" using False by (auto simp: key_before_def)
      moreover have "obj_ok (obj_put k v r)" using 2 ne False r by simp
      ultimately show ?thesis
        using ne False r set_keys_obj_put [of k v r] by (auto simp: obj_ok_def)
    qed
  qed
qed (simp add: obj_ok_def)

lemma obj_get_put [simp]: "obj_get (obj_put k v ob) = (obj_get ob)(k \<mapsto> v)"
proof (induction ob rule: obj_put.induct [of _ k v])
  case (2 k v k' v' r)
  then show ?case by (auto simp: fun_eq_iff)
qed simp

lemma obj_put_fresh:
  "\<not> is_index_key k \<Longrightarrow> k \<notin> set (map fst ob) \<Longrightarrow> obj_put k v ob = ob @ [(k, v)]"
  by (induction ob rule: obj_put.induct [of _ k v]) auto

lemma obj_put_last:
  assumes "obj_ok (ob @ [(k, v)])"
  shows "obj_put k v ob = ob @ [(k, v)]"
proof -
  have "\<forall>a \<in> set (map fst ob). key_before a k \<and> a \<noteq> k"
    using assms by (auto simp: obj_ok_def sorted_wrt_append)
  then show ?thesis
    by (induction ob rule: obj_put.induct [of _ k v]) (auto simp: key_before_def)
qed

lemma obj_ok_append: "obj_ok (a @ b) \<Longrightarrow> obj_ok a"
  by (simp add: obj_ok_def sorted_wrt_append)

lemma foldl_obj_put_id:
  "obj_ok (a @ b) \<Longrightarrow> foldl (\<lambda>ob (k, v). obj_put k v ob) a b = a @ b"
proof (induction b arbitrary: a)
  case (Cons x b)
  obtain k v where x: "x = (k, v)" by force
  have "obj_ok ((a @ [(k, v)]) @ b)" using Cons.prems x by simp
  then have "obj_put k v a = a @ [(k, v)]" by (intro obj_put_last) (rule obj_ok_append)
  with Cons.IH [of "a @ [(k, v)]"] Cons.prems x show ?case by simp
qed simp

lemma obj_spread_Nil: "obj_ok b \<Longrightarrow> obj_spread [] b = b"
  using foldl_obj_put_id [of "[]" b] by (simp add: obj_spread_def)

lemma obj_spread_ok: "obj_ok a \<Longrightarrow> obj_ok (obj_spread a b)"
  unfolding obj_spread_def by (induction b arbitrary: a) (auto simp: obj_put_ok)

lemma obj_get_spread: "distinct (map fst b) \<Longrightarrow> obj_get (obj_spread a b) = obj_get a ++ obj_get b"
proof (induction b arbitrary: a)
  case Nil
  then show ?case by (simp add: obj_spread_def)
next
  case (Cons x b)
  obtain k v where x: "x = (k, v)" by force
  have "obj_spread a (x # b) = obj_spread (obj_put k v a) b" by (simp add: obj_spread_def x)
  moreover have "obj_get b k = None" using Cons.prems x by (simp add: map_of_eq_None_iff)
  ultimately show ?case using Cons x
    by (auto simp: fun_eq_iff map_add_def split: option.split)
qed

lemma obj_assign_ok: "obj_ok ob \<Longrightarrow> obj_ok (obj_assign k v ob)"
  by (simp add: obj_assign_def obj_put_ok)

lemma obj_get_assign:
  "obj_get (obj_assign k v ob) = (if k = ''__proto__'' then obj_get ob else (obj_get ob)(k \<mapsto> v))"
  by (auto simp: obj_assign_def)

lemma obj_delete_ok: "obj_ok ob \<Longrightarrow> obj_ok (obj_delete k ob)"
proof (induction ob)
  case (Cons x ob)
  then show ?case by (cases x) (auto simp: obj_ok_def obj_delete_def)
qed (simp add: obj_delete_def)

lemma obj_get_delete: "obj_get (obj_delete k ob) = (obj_get ob)(k := None)"
  by (induction ob) (auto simp: obj_delete_def fun_eq_iff)

text \<open>The interface of an object store, proved of the ordered representation.\<close>

locale keyed_object =
  fixes put :: "string \<Rightarrow> 'v \<Rightarrow> 'o \<Rightarrow> 'o"
    and look :: "'o \<Rightarrow> string \<Rightarrow> 'v option"
    and inv :: "'o \<Rightarrow> bool"
    and admits :: "string \<Rightarrow> bool"
  assumes inv_put: "inv ob \<Longrightarrow> inv (put k v ob)"
    and look_put: "inv ob \<Longrightarrow> admits k \<Longrightarrow> look (put k v ob) = (look ob)(k \<mapsto> v)"
begin

text \<open>Writing a list of entries one after the other: the last entry of a key wins.\<close>

definition put_all :: "(string \<times> 'v) list \<Rightarrow> 'o \<Rightarrow> 'o" where
  "put_all es ob = foldl (\<lambda>acc (k, v). put k v acc) ob es"

lemma inv_put_all: "inv ob \<Longrightarrow> inv (put_all es ob)"
  unfolding put_all_def by (induction es arbitrary: ob) (auto simp: inv_put)

lemma look_put_all:
  "inv ob \<Longrightarrow> list_all (\<lambda>(k, v). admits k) es \<Longrightarrow>
     look (put_all es ob) k = (case map_of (rev es) k of Some v \<Rightarrow> Some v | None \<Rightarrow> look ob k)"
proof (induction es rule: rev_induct)
  case Nil
  then show ?case by (simp add: put_all_def)
next
  case (snoc e es)
  obtain k' v' where e: "e = (k', v')" by force
  have "put_all (es @ [e]) ob = put k' v' (put_all es ob)" by (simp add: put_all_def e)
  with snoc e show ?case by (simp add: look_put inv_put_all)
qed

end

interpretation obj_define: keyed_object obj_put map_of obj_ok "\<lambda>_. True"
  by unfold_locales (auto simp: obj_put_ok)

interpretation obj_write: keyed_object obj_assign map_of obj_ok "\<lambda>k. k \<noteq> ''__proto__''"
  by unfold_locales (auto simp: obj_assign_ok obj_get_assign)

section \<open>Well-formed values\<close>

text \<open>Numbers are finite binary64 values and objects are in enumeration order.\<close>

fun js_wf :: "js \<Rightarrow> bool"
and js_wf_list :: "js list \<Rightarrow> bool"
and js_wf_members :: "js_object \<Rightarrow> bool" where
  "js_wf JNull = True"
| "js_wf (JBool b) = True"
| "js_wf (JNum n) = (case n of Fin x \<Rightarrow> is_double x | _ \<Rightarrow> False)"
| "js_wf (JStr s) = True"
| "js_wf (JArr xs) = js_wf_list xs"
| "js_wf (JObj ob) = (obj_ok ob \<and> js_wf_members ob)"
| "js_wf_list [] = True"
| "js_wf_list (x # xs) = (js_wf x \<and> js_wf_list xs)"
| "js_wf_members [] = True"
| "js_wf_members ((k, v) # r) = (js_wf v \<and> js_wf_members r)"

lemma js_wf_members_iff: "js_wf_members ob \<longleftrightarrow> (\<forall>(k, v) \<in> set ob. js_wf v)"
  by (induction ob) auto

lemma js_wf_members_put: "js_wf_members ob \<Longrightarrow> js_wf v \<Longrightarrow> js_wf_members (obj_put k v ob)"
  using set_obj_put [of k v ob] by (fastforce simp: js_wf_members_iff)

section \<open>Conversions and type tests\<close>

text \<open>\<open>String(value)\<close>\<close>

fun js_str :: "js \<Rightarrow> string"
and js_str_list :: "js list \<Rightarrow> string list" where
  "js_str JNull = ''null''"
| "js_str (JBool b) = (if b then ''true'' else ''false'')"
| "js_str (JNum n) = num_str n"
| "js_str (JStr s) = s"
| "js_str (JArr xs) = join '','' (js_str_list xs)"
| "js_str (JObj ob) = ''[object Object]''"
| "js_str_list [] = []"
| "js_str_list (x # xs) = (if x = JNull then [] else js_str x) # js_str_list xs"

text \<open>\<open>Boolean(value)\<close>\<close>

fun truthy :: "js \<Rightarrow> bool" where
  "truthy JNull = False"
| "truthy (JBool b) = b"
| "truthy (JNum n) = (n \<noteq> NaN \<and> n \<noteq> Fin 0)"
| "truthy (JStr s) = (s \<noteq> [])"
| "truthy _ = True"

fun js_typeof :: "js \<Rightarrow> string" where
  "js_typeof (JBool _) = ''boolean''"
| "js_typeof (JNum _) = ''number''"
| "js_typeof (JStr _) = ''string''"
| "js_typeof _ = ''object''"

text \<open>The own properties of a plain object, or \<open>None\<close> for any other value.\<close>

fun as_object :: "js \<Rightarrow> js_object option" where
  "as_object (JObj ob) = Some ob"
| "as_object _ = None"

end
