(* ===== verification/JsonText.thy ===== *)
theory JsonText
  imports JsValue
begin

text \<open>
  \<open>JSON.stringify\<close> (compact, and with the two-space indentation the pages use) and
  \<open>JSON.parse\<close>, with the round trip: parsing the text of a well-formed value gives the value
  back. The parser spends one unit of fuel per call and starts with twice the length of its
  input; \<open>parse_value_fuel\<close> shows that more fuel never changes its answer.
\<close>

section \<open>Writing\<close>

definition hex_digit :: "nat \<Rightarrow> char" where
  "hex_digit d = (if d < 10 then char_of (48 + d) else char_of (87 + d))"

definition escape_char :: "char \<Rightarrow> string" where
  "escape_char c =
     (let n = of_char c :: nat
      in if n = 34 then [CHR 0x5C, CHR 0x22]
         else if n = 92 then [CHR 0x5C, CHR 0x5C]
         else if n = 8 then [CHR 0x5C, CHR ''b'']
         else if n = 12 then [CHR 0x5C, CHR ''f'']
         else if n = 10 then [CHR 0x5C, CHR ''n'']
         else if n = 13 then [CHR 0x5C, CHR ''r'']
         else if n = 9 then [CHR 0x5C, CHR ''t'']
         else if n < 32 then
           [CHR 0x5C, CHR ''u'', CHR ''0'', CHR ''0'', hex_digit (n div 16), hex_digit (n mod 16)]
         else [c])"

definition json_quote :: "string \<Rightarrow> string" where
  "json_quote s = CHR 0x22 # concat (map escape_char s) @ [CHR 0x22]"

text \<open>The line break before an item at a given indentation; none when the gap is empty.\<close>

definition brk :: "string \<Rightarrow> string \<Rightarrow> string" where
  "brk gap ind = (if gap = [] then [] else CHR 0x0A # ind)"

definition key_colon :: "string \<Rightarrow> string \<Rightarrow> string" where
  "key_colon gap k = json_quote k @ (if gap = [] then '':'' else '': '')"

fun ser :: "string \<Rightarrow> string \<Rightarrow> js \<Rightarrow> string"
and ser_list :: "string \<Rightarrow> string \<Rightarrow> js list \<Rightarrow> string list"
and ser_members :: "string \<Rightarrow> string \<Rightarrow> js_object \<Rightarrow> string list" where
  "ser gap ind JNull = ''null''"
| "ser gap ind (JBool b) = (if b then ''true'' else ''false'')"
| "ser gap ind (JNum n) = (if isFinite n then num_str n else ''null'')"
| "ser gap ind (JStr s) = json_quote s"
| "ser gap ind (JArr xs) =
     (if xs = [] then ''[]''
      else CHR ''['' # brk gap (ind @ gap) @
             join (CHR '','' # brk gap (ind @ gap)) (ser_list gap (ind @ gap) xs) @
             brk gap ind @ '']'')"
| "ser gap ind (JObj ob) =
     (if ob = [] then ''{}''
      else CHR ''{'' # brk gap (ind @ gap) @
             join (CHR '','' # brk gap (ind @ gap)) (ser_members gap (ind @ gap) ob) @
             brk gap ind @ ''}'')"
| "ser_list gap ind [] = []"
| "ser_list gap ind (x # xs) = ser gap ind x # ser_list gap ind xs"
| "ser_members gap ind [] = []"
| "ser_members gap ind ((k, v) # r) = (key_colon gap k @ ser gap ind v) # ser_members gap ind r"

text \<open>\<open>JSON.stringify(v)\<close> and \<open>JSON.stringify(v, null, 2)\<close>\<close>

definition json_compact :: "js \<Rightarrow> string" where
  "json_compact v = ser [] [] v"

definition json_pretty :: "js \<Rightarrow> string" where
  "json_pretty v = ser ''  '' [] v"

section \<open>Reading\<close>

definition is_json_ws :: "char \<Rightarrow> bool" where
  "is_json_ws c \<longleftrightarrow> (of_char c :: nat) \<in> {9, 10, 13, 32}"

definition skip_ws :: "string \<Rightarrow> string" where
  "skip_ws s = dropWhile is_json_ws s"

text \<open>UTF-8 encoding of a code point.\<close>

definition utf8 :: "nat \<Rightarrow> string" where
  "utf8 n =
     (if n < 128 then [char_of n]
      else if n < 2048 then [char_of (192 + n div 64), char_of (128 + n mod 64)]
      else if n < 65536 then
        [char_of (224 + n div 4096), char_of (128 + n div 64 mod 64), char_of (128 + n mod 64)]
      else [char_of (240 + n div 262144), char_of (128 + n div 4096 mod 64),
            char_of (128 + n div 64 mod 64), char_of (128 + n mod 64)])"

definition is_hex :: "char \<Rightarrow> bool" where
  "is_hex c \<longleftrightarrow> char_val c < 16"

fun hex4 :: "string \<Rightarrow> (nat \<times> string) option" where
  "hex4 (a # b # c # d # r) =
     (if is_hex a \<and> is_hex b \<and> is_hex c \<and> is_hex d
      then Some (((char_val a * 16 + char_val b) * 16 + char_val c) * 16 + char_val d, r)
      else None)"
| "hex4 _ = None"

text \<open>The character named by \<open>\\uXXXX\<close>; a surrogate pair is one character.\<close>

definition unicode_item :: "string \<Rightarrow> (string \<times> string) option" where
  "unicode_item s =
     (case hex4 s of
        None \<Rightarrow> None
      | Some (u, r) \<Rightarrow>
          (if 55296 \<le> u \<and> u < 56320 \<and> prefix [CHR 0x5C, CHR ''u''] r then
             (case hex4 (drop 2 r) of
                Some (v, r') \<Rightarrow>
                  (if 56320 \<le> v \<and> v < 57344
                   then Some (utf8 (65536 + (u - 55296) * 1024 + (v - 56320)), r')
                   else Some (utf8 u, r))
              | None \<Rightarrow> None)
           else Some (utf8 u, r)))"

fun string_item :: "string \<Rightarrow> (string \<times> string) option" where
  "string_item [] = None"
| "string_item (c # cs) =
     (if (of_char c :: nat) < 32 then None
      else if c \<noteq> CHR 0x5C then Some ([c], cs)
      else (case cs of
              [] \<Rightarrow> None
            | e # r \<Rightarrow>
                (if e = CHR 0x22 \<or> e = CHR 0x5C \<or> e = CHR ''/'' then Some ([e], r)
                 else if e = CHR ''b'' then Some ([CHR 0x08], r)
                 else if e = CHR ''f'' then Some ([CHR 0x0C], r)
                 else if e = CHR ''n'' then Some ([CHR 0x0A], r)
                 else if e = CHR ''r'' then Some ([CHR 0x0D], r)
                 else if e = CHR ''t'' then Some ([CHR 0x09], r)
                 else if e = CHR ''u'' then unicode_item r
                 else None)))"

lemma hex4_shorter: "hex4 s = Some (u, r) \<Longrightarrow> length r < length s"
  by (cases s rule: hex4.cases) (auto split: if_splits)

lemma unicode_item_shorter:
  assumes "unicode_item s = Some (b, r)" shows "length r < length s"
proof -
  obtain u q where u: "hex4 s = Some (u, q)"
    using assms by (auto simp: unicode_item_def split: option.splits)
  then have q: "length q < length s" by (rule hex4_shorter)
  show ?thesis
  proof (cases "hex4 (drop 2 q)")
    case None
    then show ?thesis using assms u q by (auto simp: unicode_item_def split: if_splits)
  next
    case (Some p)
    obtain v r' where p: "p = (v, r')" by force
    from hex4_shorter [OF Some [unfolded p]] have "length r' < length q" by simp
    then show ?thesis using assms u q Some p by (auto simp: unicode_item_def split: if_splits)
  qed
qed

lemma string_item_shorter: "string_item s = Some (b, r) \<Longrightarrow> length r < length s"
  by (cases s) (auto split: if_splits list.splits dest!: unicode_item_shorter)

declare string_item.simps [simp del] hex4.simps [simp del]

text \<open>The rest of a string literal after its opening quote.\<close>

function parse_string :: "string \<Rightarrow> (string \<times> string) option" where
  "parse_string s =
     (case s of
        [] \<Rightarrow> None
      | c # cs \<Rightarrow>
          (if c = CHR 0x22 then Some ([], cs)
           else (case string_item s of
                   None \<Rightarrow> None
                 | Some (b, r) \<Rightarrow> map_option (\<lambda>(t, q). (b @ t, q)) (parse_string r))))"
  by pat_completeness auto
termination
  by (relation "measure length") (auto dest: string_item_shorter)

declare parse_string.simps [simp del]

lemma parse_string_quote: "parse_string (CHR 0x22 # cs) = Some ([], cs)"
  by (simp add: parse_string.simps)

lemma parse_string_item:
  "string_item (c # cs) = Some (b, r) \<Longrightarrow> c \<noteq> CHR 0x22 \<Longrightarrow>
   parse_string (c # cs) = map_option (\<lambda>(t, q). (b @ t, q)) (parse_string r)"
  by (subst parse_string.simps) simp

fun parse_value :: "nat \<Rightarrow> string \<Rightarrow> (js \<times> string) option"
and parse_elems :: "nat \<Rightarrow> js list \<Rightarrow> string \<Rightarrow> (js \<times> string) option"
and parse_members :: "nat \<Rightarrow> js_object \<Rightarrow> string \<Rightarrow> (js \<times> string) option" where
  "parse_value 0 s = None"
| "parse_value (Suc f) s =
     (case skip_ws s of
        [] \<Rightarrow> None
      | c # cs \<Rightarrow>
          (if c = CHR ''{'' then
             (if prefix ''}'' (skip_ws cs) then Some (JObj [], tl (skip_ws cs))
              else parse_members f [] cs)
           else if c = CHR ''['' then
             (if prefix '']'' (skip_ws cs) then Some (JArr [], tl (skip_ws cs))
              else parse_elems f [] cs)
           else if c = CHR 0x22 then map_option (\<lambda>(t, r). (JStr t, r)) (parse_string cs)
           else if prefix ''null'' (c # cs) then Some (JNull, drop 3 cs)
           else if prefix ''true'' (c # cs) then Some (JBool True, drop 3 cs)
           else if prefix ''false'' (c # cs) then Some (JBool False, drop 4 cs)
           else map_option (\<lambda>(n, r). (JNum n, r)) (json_number (c # cs))))"
| "parse_elems 0 acc s = None"
| "parse_elems (Suc f) acc s =
     (case parse_value f s of
        None \<Rightarrow> None
      | Some (v, r) \<Rightarrow>
          (case skip_ws r of
             [] \<Rightarrow> None
           | c # cs \<Rightarrow>
               (if c = CHR '','' then parse_elems f (acc @ [v]) cs
                else if c = CHR '']'' then Some (JArr (acc @ [v]), cs)
                else None)))"
| "parse_members 0 ob s = None"
| "parse_members (Suc f) ob s =
     (case skip_ws s of
        [] \<Rightarrow> None
      | q # qs \<Rightarrow>
          (if q \<noteq> CHR 0x22 then None
           else (case parse_string qs of
                   None \<Rightarrow> None
                 | Some (k, r) \<Rightarrow>
                     (case skip_ws r of
                        [] \<Rightarrow> None
                      | c # cs \<Rightarrow>
                          (if c \<noteq> CHR '':'' then None
                           else (case parse_value f cs of
                                   None \<Rightarrow> None
                                 | Some (v, r') \<Rightarrow>
                                     (case skip_ws r' of
                                        [] \<Rightarrow> None
                                      | d # ds \<Rightarrow>
                                          (if d = CHR '','' then parse_members f (obj_put k v ob) ds
                                           else if d = CHR ''}'' then Some (JObj (obj_put k v ob), ds)
                                           else None))))))))"

definition json_parse :: "string \<Rightarrow> js option" where
  "json_parse s =
     (case parse_value (2 * length s + 2) s of
        Some (v, r) \<Rightarrow> (if skip_ws r = [] then Some v else None)
      | None \<Rightarrow> None)"

section \<open>Fuel\<close>

lemma skip_ws_le: "length (skip_ws s) \<le> length s"
  by (simp add: skip_ws_def length_dropWhile_le)

lemma skip_ws_Cons: "skip_ws s = c # cs \<Longrightarrow> length cs < length s"
  using skip_ws_le [of s] by simp

lemma parse_string_shorter: "parse_string s = Some (t, r) \<Longrightarrow> length r < length s"
proof (induction s arbitrary: t rule: parse_string.induct)
  case (1 s)
  show ?case
  proof (cases s)
    case Nil
    with 1 show ?thesis by (simp add: parse_string.simps)
  next
    case (Cons c cs)
    show ?thesis
    proof (cases "c = CHR 0x22")
      case True
      with 1 Cons show ?thesis by (simp add: parse_string.simps)
    next
      case False
      with 1(2) Cons obtain b q t' where q: "string_item s = Some (b, q)" "parse_string q = Some (t', r)"
        by (auto simp: parse_string.simps [of "c # cs"] split: option.splits)
      from "1.IH" [OF Cons False q(1) refl q(2)] string_item_shorter [OF q(1)]
      show ?thesis by simp
    qed
  qed
qed

lemma scan_frac_le: "length (snd (scan_frac s)) \<le> length s"
  by (cases s) (auto simp: length_dropWhile_le le_SucI)

lemma scan_sign_le: "length (snd (scan_sign s)) \<le> length s"
  by (cases s) auto

lemma scan_exp_le: "scan_exp s = Some (e, r) \<Longrightarrow> length r \<le> length s"
proof (cases s)
  case (Cons c cs)
  assume e: "scan_exp s = Some (e, r)"
  obtain sg q where q: "scan_sign cs = (sg, q)" by force
  have "length (dropWhile is_digit q) \<le> length cs"
    using scan_sign_le [of cs] length_dropWhile_le [of is_digit q] q by simp
  then show ?thesis using e Cons q by (auto simp: Let_def split: if_splits)
qed simp

lemma json_unsigned_shorter:
  assumes "json_unsigned s = Some (v, r)" shows "length r < length s"
proof -
  let ?ip = "takeWhile is_digit s" and ?r = "dropWhile is_digit s"
  obtain fp r' where f: "scan_frac ?r = (fp, r')" by force
  obtain e where e: "scan_exp r' = Some (e, r)" and ip: "?ip \<noteq> []"
    using assms f by (auto simp: json_unsigned_def Let_def split: if_splits)
  have "length s = length ?ip + length ?r" by (metis length_append takeWhile_dropWhile_id)
  then have "length ?r < length s" using ip by simp
  then show ?thesis using scan_frac_le [of ?r] f scan_exp_le [OF e] by simp
qed

lemma json_number_shorter: "json_number s = Some (v, r) \<Longrightarrow> length r < length s"
  by (cases s) (auto split: if_splits dest!: json_unsigned_shorter)

lemma tl_shorter: "length (tl (skip_ws cs)) < Suc (length cs)"
  using skip_ws_le [of cs] by simp


text \<open>The scalar branch of \<open>parse_value\<close>: everything but arrays and objects.\<close>

definition parse_scalar :: "char \<Rightarrow> string \<Rightarrow> (js \<times> string) option" where
  "parse_scalar c cs =
     (if c = CHR 0x22 then map_option (\<lambda>(t, r). (JStr t, r)) (parse_string cs)
      else if prefix ''null'' (c # cs) then Some (JNull, drop 3 cs)
      else if prefix ''true'' (c # cs) then Some (JBool True, drop 3 cs)
      else if prefix ''false'' (c # cs) then Some (JBool False, drop 4 cs)
      else map_option (\<lambda>(n, r). (JNum n, r)) (json_number (c # cs)))"

lemma parse_value_Nil: "skip_ws s = [] \<Longrightarrow> parse_value (Suc f) s = None"
  by simp

lemma parse_value_obj:
  "skip_ws s = CHR ''{'' # cs \<Longrightarrow> parse_value (Suc f) s =
     (if prefix ''}'' (skip_ws cs) then Some (JObj [], tl (skip_ws cs)) else parse_members f [] cs)"
  by simp

lemma parse_value_arr:
  "skip_ws s = CHR ''['' # cs \<Longrightarrow> parse_value (Suc f) s =
     (if prefix '']'' (skip_ws cs) then Some (JArr [], tl (skip_ws cs)) else parse_elems f [] cs)"
  by simp

lemma parse_value_scalar:
  "skip_ws s = c # cs \<Longrightarrow> c \<noteq> CHR ''{'' \<Longrightarrow> c \<noteq> CHR ''['' \<Longrightarrow>
     parse_value (Suc f) s = parse_scalar c cs"
  by (simp add: parse_scalar_def del: json_number.simps)

lemma parse_scalar_shorter:
  assumes "parse_scalar c cs = Some (v, r)" shows "length r < Suc (length cs)"
proof (cases "json_number (c # cs)")
  case None
  with assms show ?thesis
    by (auto simp: parse_scalar_def simp del: json_number.simps split: if_splits dest!: parse_string_shorter)
next
  case (Some p)
  obtain n q where p: "p = (n, q)" by force
  from json_number_shorter [OF Some [unfolded p]] Some p assms show ?thesis
    by (auto simp: parse_scalar_def simp del: json_number.simps split: if_splits dest!: parse_string_shorter)
qed

lemma skip_cases:
  obtains (Nil) "skip_ws s = []"
  | (Obj) cs where "skip_ws s = CHR ''{'' # cs"
  | (Arr) cs where "skip_ws s = CHR ''['' # cs"
  | (Scalar) c cs where "skip_ws s = c # cs" "c \<noteq> CHR ''{''" "c \<noteq> CHR ''[''"
  by (cases "skip_ws s") auto

declare parse_value.simps(2) [simp del]

lemma parse_shorter:
  "parse_value f s = Some (v, r) \<Longrightarrow> length r < length s"
  "parse_elems f acc s = Some (v, r) \<Longrightarrow> length r < length s"
  "parse_members f ob s = Some (v, r) \<Longrightarrow> length r < length s"
proof (induction f s and f acc s and f ob s arbitrary: v r and v r and v r
    rule: parse_value_parse_elems_parse_members.induct)
  case (2 f s)
  show ?case
  proof (cases s rule: skip_cases)
    case Nil
    then show ?thesis using "2.prems" by (simp add: parse_value_Nil)
  next
    case (Obj cs)
    show ?thesis
    proof (cases "prefix ''}'' (skip_ws cs)")
      case True
      then show ?thesis using "2.prems" skip_ws_Cons [OF Obj] tl_shorter [of cs]
        by (simp add: parse_value_obj [OF Obj])
    next
      case False
      then show ?thesis using "2.prems" "2.IH"(1) [OF Obj refl False] skip_ws_Cons [OF Obj]
        by (force simp add: parse_value_obj [OF Obj])
    qed
  next
    case (Arr cs)
    show ?thesis
    proof (cases "prefix '']'' (skip_ws cs)")
      case True
      then show ?thesis using "2.prems" skip_ws_Cons [OF Arr] tl_shorter [of cs]
        by (simp add: parse_value_arr [OF Arr])
    next
      case False
      then show ?thesis using "2.prems" "2.IH"(2) [OF Arr _ refl False] skip_ws_Cons [OF Arr]
        by (force simp add: parse_value_arr [OF Arr])
    qed
  next
    case (Scalar c cs)
    then show ?thesis using "2.prems" parse_scalar_shorter [of c cs v r] skip_ws_Cons [OF Scalar(1)]
      by (simp add: parse_value_scalar [OF Scalar])
  qed
next
  case (4 f acc s)
  from "4.prems" obtain v' r' where v: "parse_value f s = Some (v', r')" by (auto split: option.splits)
  with "4.prems" obtain c cs where c: "skip_ws r' = c # cs" by (auto split: list.splits)
  from "4.IH"(1) [OF v] skip_ws_Cons [OF c] have cs: "length cs < length s" by simp
  show ?case
  proof (cases "c = CHR '',''")
    case True
    then have "length r < length cs" using "4.prems" "4.IH"(2) [OF v refl c True] v c by simp
    with cs show ?thesis by simp
  next
    case False
    then show ?thesis using "4.prems" v c cs by (simp split: if_splits)
  qed
next
  case (6 f ob s)
  from "6.prems" obtain qs where q: "skip_ws s = CHR 0x22 # qs" by (auto split: list.splits if_splits)
  with "6.prems" obtain k r1 where k: "parse_string qs = Some (k, r1)" by (auto split: option.splits)
  with "6.prems" q obtain cs where c: "skip_ws r1 = CHR '':'' # cs"
    by (auto split: list.splits if_splits)
  with "6.prems" q k obtain v' r2 where v: "parse_value f cs = Some (v', r2)"
    by (auto split: option.splits)
  with "6.prems" q k c obtain d ds where d: "skip_ws r2 = d # ds" by (auto split: list.splits)
  have "length r2 < length cs" using "6.IH"(1) [OF q _ k refl c _ v] by simp
  then have ds: "length ds < length s"
    using skip_ws_Cons [OF q] parse_string_shorter [OF k] skip_ws_Cons [OF c] skip_ws_Cons [OF d] by simp
  show ?case
  proof (cases "d = CHR '',''")
    case True
    then have "length r < length ds"
      using "6.prems" "6.IH"(2) [OF q _ k refl c _ v refl d True] q k c v d by simp
    with ds show ?thesis by simp
  next
    case False
    then show ?thesis using "6.prems" q k c v d ds by (simp split: if_splits)
  qed
qed simp_all

text \<open>More fuel never changes an answer.\<close>

lemma parse_fuel:
  "2 * length s + 1 \<le> f \<Longrightarrow> 2 * length s + 1 \<le> g \<Longrightarrow> parse_value f s = parse_value g s"
  "2 * length s + 2 \<le> f \<Longrightarrow> 2 * length s + 2 \<le> g \<Longrightarrow> parse_elems f acc s = parse_elems g acc s"
  "2 * length s + 2 \<le> f \<Longrightarrow> 2 * length s + 2 \<le> g \<Longrightarrow> parse_members f ob s = parse_members g ob s"
proof (induction f s and f acc s and f ob s arbitrary: g and g and g
    rule: parse_value_parse_elems_parse_members.induct)
  case (2 f s)
  from "2.prems" obtain g' where g: "g = Suc g'" by (cases g) auto
  show ?case
  proof (cases s rule: skip_cases)
    case Nil
    then show ?thesis by (simp add: g parse_value_Nil)
  next
    case (Obj cs)
    have b: "2 * length cs + 2 \<le> f" "2 * length cs + 2 \<le> g'"
      using skip_ws_Cons [OF Obj] "2.prems" g by simp_all
    show ?thesis using "2.IH"(1) [OF Obj refl _ b] by (simp add: g parse_value_obj [OF Obj])
  next
    case (Arr cs)
    have b: "2 * length cs + 2 \<le> f" "2 * length cs + 2 \<le> g'"
      using skip_ws_Cons [OF Arr] "2.prems" g by simp_all
    show ?thesis using "2.IH"(2) [OF Arr _ refl _ b] by (simp add: g parse_value_arr [OF Arr])
  next
    case (Scalar c cs)
    then show ?thesis by (simp add: g parse_value_scalar [OF Scalar])
  qed
next
  case (4 f acc s)
  from "4.prems" obtain g' where g: "g = Suc g'" by (cases g) auto
  have v: "parse_value f s = parse_value g' s" by (rule "4.IH"(1)) (use "4.prems" g in simp_all)
  show ?case
  proof (cases "parse_value f s")
    case None
    then show ?thesis using v by (simp add: g)
  next
    case (Some p)
    obtain v' r' where p: "p = (v', r')" by force
    note vf = Some [unfolded p]
    have vg: "parse_value g' s = Some (v', r')" using v vf by simp
    show ?thesis
    proof (cases "skip_ws r'")
      case Nil
      then show ?thesis using vg vf by (simp add: g)
    next
      case (Cons c cs)
      have "length cs < length s" using parse_shorter(1) [OF vf] skip_ws_Cons [OF Cons] by simp
      then have b: "2 * length cs + 2 \<le> f" "2 * length cs + 2 \<le> g'" using "4.prems" g by simp_all
      have "c = CHR '','' \<Longrightarrow> parse_elems f (acc @ [v']) cs = parse_elems g' (acc @ [v']) cs"
        using "4.IH"(2) [OF vf refl Cons _ b] by simp
      then show ?thesis using vg vf Cons by (simp add: g)
    qed
  qed
next
  case (6 f ob s)
  from "6.prems" obtain g' where g: "g = Suc g'" by (cases g) auto
  show ?case
  proof (cases "\<exists>qs k r1 cs. skip_ws s = CHR 0x22 # qs \<and> parse_string qs = Some (k, r1) \<and>
      skip_ws r1 = CHR '':'' # cs")
    case False
    then show ?thesis by (auto simp: g split: list.splits option.splits)
  next
    case True
    then obtain qs k r1 cs where q: "skip_ws s = CHR 0x22 # qs" and k: "parse_string qs = Some (k, r1)"
      and c: "skip_ws r1 = CHR '':'' # cs" by blast
    have cs: "length cs < length s"
      using skip_ws_Cons [OF q] parse_string_shorter [OF k] skip_ws_Cons [OF c] by simp
    have v: "parse_value f cs = parse_value g' cs"
      by (rule "6.IH"(1) [OF q _ k refl c]) (use cs "6.prems" g in simp_all)
    show ?thesis
    proof (cases "parse_value f cs")
      case None
      then show ?thesis using v q k c by (simp add: g)
    next
      case (Some p)
      obtain v' r2 where p: "p = (v', r2)" by force
      note vf = Some [unfolded p]
      have vg: "parse_value g' cs = Some (v', r2)" using v vf by simp
      show ?thesis
      proof (cases "skip_ws r2")
        case Nil
        then show ?thesis using vg q k c vf by (simp add: g)
      next
        case (Cons d ds)
        have "length ds < length s"
          using cs parse_shorter(1) [OF vf] skip_ws_Cons [OF Cons] by simp
        then have b: "2 * length ds + 2 \<le> f" "2 * length ds + 2 \<le> g'" using "6.prems" g by simp_all
        have "d = CHR '','' \<Longrightarrow>
            parse_members f (obj_put k v' ob) ds = parse_members g' (obj_put k v' ob) ds"
          using "6.IH"(2) [OF q _ k refl c _ vf refl Cons _ b] by simp
        then show ?thesis using vg q k c vf Cons by (simp add: g)
      qed
    qed
  qed
qed simp_all

lemmas parse_value_fuel = parse_fuel(1)

section \<open>Reading back what was written\<close>

lemma hex_digit_ok:
  assumes "d < 16" shows "is_hex (hex_digit d)" "char_val (hex_digit d) = d"
proof -
  have "d \<in> set [0, 1, 2, 3, 4, 5, 6, 7, 8, 9, 10, 11, 12, 13, 14, 15]" using assms by simp arith
  then show v: "char_val (hex_digit d) = d"
    by (elim set_ConsD [THEN disjE] set_ConsD)
      (auto simp: hex_digit_def char_val_def Let_def of_char_of)
  then show "is_hex (hex_digit d)" using assms by (simp add: is_hex_def)
qed

lemma code_ne: "c \<noteq> d \<Longrightarrow> (of_char c :: nat) \<noteq> of_char (d :: char)"
  by (metis char_of_char)

lemma control_item:
  assumes "(of_char c :: nat) < 32"
  shows "string_item (CHR 0x5C # CHR ''u'' # CHR ''0'' # CHR ''0'' # hex_digit (of_char c div 16) #
           hex_digit (of_char c mod 16) # r) = Some ([c], r)"
proof -
  let ?n = "of_char c :: nat"
  have d: "?n div 16 < 16" "?n mod 16 < 16" using assms by simp_all
  have z: "is_hex (CHR ''0'')" "char_val (CHR ''0'') = 0" by (simp_all add: is_hex_def char_val_def)
  have "hex4 (CHR ''0'' # CHR ''0'' # hex_digit (?n div 16) # hex_digit (?n mod 16) # r) = Some (?n, r)"
    using hex_digit_ok [OF d(1)] hex_digit_ok [OF d(2)] z by (simp add: hex4.simps)
  then show ?thesis using assms by (simp add: string_item.simps unicode_item_def utf8_def)
qed

lemma escape_char_item:
  "string_item (escape_char c @ r) = Some ([c], r) \<and> escape_char c \<noteq> [] \<and> hd (escape_char c) \<noteq> CHR 0x22"
proof -
  consider "c = CHR 0x22" | "c = CHR 0x5C" | "c = CHR 0x08" | "c = CHR 0x0C" | "c = CHR 0x0A"
    | "c = CHR 0x0D" | "c = CHR 0x09"
    | "c \<notin> {CHR 0x22, CHR 0x5C, CHR 0x08, CHR 0x0C, CHR 0x0A, CHR 0x0D, CHR 0x09}" "(of_char c :: nat) < 32"
    | "c \<notin> {CHR 0x22, CHR 0x5C, CHR 0x08, CHR 0x0C, CHR 0x0A, CHR 0x0D, CHR 0x09}" "\<not> (of_char c :: nat) < 32"
    by blast
  then show ?thesis
  proof cases
    case 8
    then have "(of_char c :: nat) \<noteq> 34" "(of_char c :: nat) \<noteq> 92" "(of_char c :: nat) \<noteq> 8" "(of_char c :: nat) \<noteq> 12"
      "(of_char c :: nat) \<noteq> 10" "(of_char c :: nat) \<noteq> 13" "(of_char c :: nat) \<noteq> 9"
      using code_ne [of c "CHR 0x22"] code_ne [of c "CHR 0x5C"] code_ne [of c "CHR 0x08"]
        code_ne [of c "CHR 0x0C"] code_ne [of c "CHR 0x0A"] code_ne [of c "CHR 0x0D"]
        code_ne [of c "CHR 0x09"] by simp_all
    then show ?thesis using 8 control_item [of c r] by (simp add: escape_char_def Let_def)
  next
    case 9
    then have "(of_char c :: nat) \<noteq> 34" "(of_char c :: nat) \<noteq> 92"
      using code_ne [of c "CHR 0x22"] code_ne [of c "CHR 0x5C"] by simp_all
    then show ?thesis using 9 by (simp add: escape_char_def Let_def string_item.simps)
  qed (simp_all add: escape_char_def string_item.simps)
qed

lemma parse_string_escaped:
  "parse_string (concat (map escape_char s) @ CHR 0x22 # r) = Some (s, r)"
proof (induction s)
  case (Cons c s)
  let ?t = "concat (map escape_char s) @ CHR 0x22 # r"
  obtain a as where e: "escape_char c = a # as" "a \<noteq> CHR 0x22"
    using escape_char_item [of c "[]"] by (cases "escape_char c") auto
  have "string_item (a # as @ ?t) = Some ([c], ?t)"
    using escape_char_item [of c ?t] e by simp
  with Cons show ?case by (simp add: e(1) parse_string_item [OF _ e(2)])
qed (simp add: parse_string_quote)

text \<open>White space between the tokens.\<close>

definition blank :: "string \<Rightarrow> bool" where
  "blank w \<longleftrightarrow> list_all is_json_ws w"

lemma skip_blank: "blank w \<Longrightarrow> skip_ws (w @ s) = skip_ws s"
  by (induction w) (auto simp: blank_def skip_ws_def)

lemma skip_token: "\<not> is_json_ws c \<Longrightarrow> skip_ws (c # s) = c # s"
  by (simp add: skip_ws_def)

lemma skip_blank_token: "blank w \<Longrightarrow> \<not> is_json_ws c \<Longrightarrow> skip_ws (w @ c # s) = c # s"
  by (simp add: skip_blank skip_token)

lemma blank_simps [simp]:
  "blank []" "blank (a @ b) \<longleftrightarrow> blank a \<and> blank b" "blank gap \<Longrightarrow> blank ind \<Longrightarrow> blank (brk gap ind)"
  by (auto simp: blank_def brk_def is_json_ws_def)

lemma ws_tokens [simp]:
  "\<not> is_json_ws (CHR ''['')" "\<not> is_json_ws (CHR '']'')" "\<not> is_json_ws (CHR ''{'')"
  "\<not> is_json_ws (CHR ''}'')" "\<not> is_json_ws (CHR '','')" "\<not> is_json_ws (CHR '':'')"
  "\<not> is_json_ws (CHR 0x22)" "\<not> is_json_ws (CHR ''n'')" "\<not> is_json_ws (CHR ''t'')"
  "\<not> is_json_ws (CHR ''f'')" "\<not> is_json_ws (CHR ''-'')" "is_json_ws (CHR 0x20)"
  by (simp_all add: is_json_ws_def)

lemma ws_not_num_char: "num_char c \<Longrightarrow> \<not> is_json_ws c"
  by (auto simp: num_char_def is_json_ws_def is_digit_def)

lemma num_stop_token [simp]:
  "num_stop []" "num_stop (CHR '','' # r)" "num_stop (CHR '']'' # r)" "num_stop (CHR ''}'' # r)"
  by (simp_all add: num_stop_def is_digit_def)

lemma num_stop_brk: "num_stop r \<Longrightarrow> num_stop (brk gap ind @ r)"
  by (simp add: brk_def num_stop_def is_digit_def)

lemma num_stop_blank: "blank w \<Longrightarrow> num_stop r \<Longrightarrow> num_stop (w @ r)"
  by (cases w) (auto simp: num_stop_def blank_def is_json_ws_def is_digit_def)

text \<open>
  \<open>reads p s v r\<close>: with enough fuel the parser \<open>p\<close> reads \<open>v\<close> from \<open>s\<close> and leaves \<open>r\<close>.
\<close>

definition reads :: "(nat \<Rightarrow> string \<Rightarrow> (js \<times> string) option) \<Rightarrow> string \<Rightarrow> js \<Rightarrow> string \<Rightarrow> bool" where
  "reads p s v r \<longleftrightarrow> (\<exists>n. \<forall>f \<ge> n. p f s = Some (v, r))"

lemma readsI: "(\<And>f. p (Suc f) s = Some (v, r)) \<Longrightarrow> reads p s v r"
  unfolding reads_def by (metis Suc_le_D)

lemma reads_step:
  assumes "reads p s v r" "\<And>f. p f s = Some (v, r) \<Longrightarrow> q (Suc f) s' = Some (v', r')"
  shows "reads q s' v' r'"
proof -
  obtain n where n: "\<forall>f \<ge> n. p f s = Some (v, r)" using assms(1) by (auto simp: reads_def)
  have "q f s' = Some (v', r')" if "Suc n \<le> f" for f
    using that n assms(2) by (cases f) auto
  then show ?thesis unfolding reads_def by blast
qed

lemma reads_step2:
  assumes "reads p s v r" "reads p' s1 v1 r1"
    and "\<And>f. p f s = Some (v, r) \<Longrightarrow> p' f s1 = Some (v1, r1) \<Longrightarrow> q (Suc f) s' = Some (v', r')"
  shows "reads q s' v' r'"
proof -
  obtain n m where n: "\<forall>f \<ge> n. p f s = Some (v, r)" and m: "\<forall>f \<ge> m. p' f s1 = Some (v1, r1)"
    using assms by (auto simp: reads_def)
  have "q f s' = Some (v', r')" if "Suc (max n m) \<le> f" for f
    using that n m assms(3) by (cases f) auto
  then show ?thesis unfolding reads_def by blast
qed

lemma ser_head:
  assumes "js_wf v"
  shows "\<exists>c cs. ser gap ind v = c # cs \<and> \<not> is_json_ws c \<and> c \<noteq> CHR '']''"
proof (cases v)
  case (JNum n)
  then obtain x where x: "n = Fin x" "is_double x" using assms by (cases n) auto
  from num_str_chars [OF x(2)] obtain c cs where "num_str n = c # cs" "num_char c"
    using x by (cases "num_str n") auto
  then show ?thesis using JNum x ws_not_num_char [of c] by (auto simp: num_char_def is_digit_def)
qed (auto simp: json_quote_def)

lemma join_Cons: "join sep (x # xs) = x @ (if xs = [] then [] else sep @ join sep xs)"
  by (cases xs) auto

lemma ser_list_Nil [simp]: "ser_list gap ind xs = [] \<longleftrightarrow> xs = []"
  by (cases xs) auto

lemma ser_members_Nil [simp]: "ser_members gap ind ob = [] \<longleftrightarrow> ob = []"
  by (cases ob) auto

lemma scalar_number:
  assumes "is_double x" "num_stop rest" "num_str (Fin x) = c # cs"
  shows "parse_scalar c (cs @ rest) = Some (JNum (Fin x), rest)"
proof -
  have "num_char c" using num_str_chars [OF assms(1)] assms(3) by simp
  then have "c \<noteq> CHR 0x22" "c \<noteq> CHR ''n''" "c \<noteq> CHR ''t''" "c \<noteq> CHR ''f''"
    by (auto simp: num_char_def is_digit_def)
  then show ?thesis using json_number_num_str [OF assms(1,2)] assms(3)
    by (simp add: parse_scalar_def del: json_number.simps)
qed

lemma reads_scalar:
  assumes "blank w" "\<not> is_json_ws c" "c \<noteq> CHR ''{''" "c \<noteq> CHR ''[''" "parse_scalar c cs = Some (v, rest)"
  shows "reads parse_value (w @ c # cs) v rest"
  by (rule readsI) (simp add: parse_value_scalar [OF skip_blank_token [OF assms(1,2)] assms(3,4)] assms(5))

lemma reads_ser:
  "js_wf v \<Longrightarrow> blank gap \<Longrightarrow> blank ind \<Longrightarrow> blank w \<Longrightarrow> num_stop rest \<Longrightarrow>
     reads parse_value (w @ ser gap ind v @ rest) v rest"
  "js_wf_list xs \<Longrightarrow> xs \<noteq> [] \<Longrightarrow> blank gap \<Longrightarrow> blank ind \<Longrightarrow> blank w \<Longrightarrow> blank w2 \<Longrightarrow>
     reads (\<lambda>f. parse_elems f acc)
       (w @ join (CHR '','' # brk gap ind) (ser_list gap ind xs) @ w2 @ CHR '']'' # rest)
       (JArr (acc @ xs)) rest"
  "js_wf_members ob \<Longrightarrow> ob \<noteq> [] \<Longrightarrow> blank gap \<Longrightarrow> blank ind \<Longrightarrow> blank w \<Longrightarrow> blank w2 \<Longrightarrow>
     reads (\<lambda>f. parse_members f ob0)
       (w @ join (CHR '','' # brk gap ind) (ser_members gap ind ob) @ w2 @ CHR ''}'' # rest)
       (JObj (foldl (\<lambda>o' (k, v). obj_put k v o') ob0 ob)) rest"
proof (induction gap ind v and gap ind xs and gap ind ob arbitrary: w rest and w w2 rest acc and w w2 rest ob0
    rule: ser_ser_list_ser_members.induct)
  case (1 gap ind)
  then show ?case
    using reads_scalar [of w "CHR ''n''" "''ull'' @ rest"] by (simp add: parse_scalar_def)
next
  case (2 gap ind b)
  then show ?case
    using reads_scalar [of w "CHR ''t''" "''rue'' @ rest"] reads_scalar [of w "CHR ''f''" "''alse'' @ rest"]
    by (simp add: parse_scalar_def)
next
  case (3 gap ind n)
  then obtain x where x: "n = Fin x" "is_double x" by (cases n) auto
  obtain c cs where c: "num_str (Fin x) = c # cs" "num_char c"
    using num_str_chars [OF x(2)] by (cases "num_str (Fin x)") auto
  have "reads parse_value (w @ c # cs @ rest) (JNum (Fin x)) rest"
    using c(2) by (intro reads_scalar scalar_number [OF x(2) 3(5) c(1)] 3(4) ws_not_num_char)
      (auto simp: num_char_def is_digit_def)
  then show ?case using x c by simp
next
  case (4 gap ind s)
  then show ?case
    using reads_scalar [of w "CHR 0x22" "concat (map escape_char s) @ CHR 0x22 # rest"]
    by (simp add: json_quote_def parse_scalar_def parse_string_escaped)
next
  case (5 gap ind xs)
  show ?case
  proof (cases xs)
    case Nil
    show ?thesis
      by (rule readsI) (use 5 Nil in \<open>simp add: parse_value_arr [OF skip_blank_token] skip_token\<close>)
  next
    case (Cons y ys)
    let ?cs = "brk gap (ind @ gap) @ join (CHR '','' # brk gap (ind @ gap)) (ser_list gap (ind @ gap) xs) @
      brk gap ind @ CHR '']'' # rest"
    obtain c cs where c: "ser gap (ind @ gap) y = c # cs" "\<not> is_json_ws c" "c \<noteq> CHR '']''"
      using ser_head [of y gap "ind @ gap"] 5 Cons by auto
    have np: "\<not> prefix '']'' (skip_ws ?cs)"
      using 5 c by (simp add: Cons join_Cons skip_blank skip_token)
    have "reads (\<lambda>f. parse_elems f []) ?cs (JArr ([] @ xs)) rest"
      by (rule "5.IH") (use 5 Cons in simp_all)
    then have "reads parse_value (w @ CHR ''['' # ?cs) (JArr xs) rest"
      by (rule reads_step) (simp add: parse_value_arr [OF skip_blank_token] 5 np)
    then show ?thesis using Cons by simp
  qed
next
  case (6 gap ind ob)
  show ?case
  proof (cases ob)
    case Nil
    show ?thesis
      by (rule readsI) (use 6 Nil in \<open>simp add: parse_value_obj [OF skip_blank_token] skip_token\<close>)
  next
    case (Cons y ys)
    let ?cs = "brk gap (ind @ gap) @ join (CHR '','' # brk gap (ind @ gap)) (ser_members gap (ind @ gap) ob) @
      brk gap ind @ CHR ''}'' # rest"
    obtain k v where y: "y = (k, v)" by force
    have np: "\<not> prefix ''}'' (skip_ws ?cs)"
      using 6 by (simp add: Cons y join_Cons skip_blank skip_token key_colon_def json_quote_def)
    have "reads (\<lambda>f. parse_members f []) ?cs (JObj (foldl (\<lambda>o' (k, v). obj_put k v o') [] ob)) rest"
      by (rule "6.IH") (use 6 Cons in simp_all)
    then have "reads (\<lambda>f. parse_members f []) ?cs (JObj ob) rest"
      using 6 foldl_obj_put_id [of "[]" ob] by simp
    then have "reads parse_value (w @ CHR ''{'' # ?cs) (JObj ob) rest"
      by (rule reads_step) (simp add: parse_value_obj [OF skip_blank_token] 6 np)
    then show ?thesis using Cons by simp
  qed
next
  case (8 gap ind x xs)
  show ?case
  proof (cases "xs = []")
    case True
    have "reads parse_value (w @ ser gap ind x @ w2 @ CHR '']'' # rest) x (w2 @ CHR '']'' # rest)"
      by (rule "8.IH") (use 8 in \<open>simp_all add: num_stop_blank\<close>)
    then show ?thesis
      by (rule reads_step) (use True 8 in \<open>simp add: skip_blank_token\<close>)
  next
    case False
    let ?t = "CHR '','' # brk gap ind @ join (CHR '','' # brk gap ind) (ser_list gap ind xs) @
      w2 @ CHR '']'' # rest"
    have a: "reads parse_value (w @ ser gap ind x @ ?t) x ?t"
      by (rule "8.IH") (use 8 in simp_all)
    have b: "reads (\<lambda>f. parse_elems f (acc @ [x])) (tl ?t) (JArr ((acc @ [x]) @ xs)) rest"
      unfolding list.sel by (rule "8.IH") (use 8 False in simp_all)
    show ?thesis
      by (rule reads_step2 [OF a b]) (use False in \<open>simp add: join_Cons skip_token\<close>)
  qed
next
  case (10 gap ind k v r)
  let ?v = "(if gap = [] then [] else '' '')"
  have kc: "key_colon gap k @ z = CHR 0x22 # concat (map escape_char k) @ CHR 0x22 # CHR '':'' # ?v @ z" for z
    by (simp add: key_colon_def json_quote_def)
  have bv: "blank ?v" by (simp add: blank_def)
  show ?case
  proof (cases "r = []")
    case True
    have "reads parse_value (?v @ ser gap ind v @ w2 @ CHR ''}'' # rest) v (w2 @ CHR ''}'' # rest)"
      by (rule "10.IH") (use 10 bv in \<open>simp_all add: num_stop_blank\<close>)
    then show ?thesis
      by (rule reads_step)
        (use True 10 in \<open>simp add: kc skip_blank_token skip_token parse_string_escaped\<close>)
  next
    case False
    let ?t = "CHR '','' # brk gap ind @ join (CHR '','' # brk gap ind) (ser_members gap ind r) @
      w2 @ CHR ''}'' # rest"
    have a: "reads parse_value (?v @ ser gap ind v @ ?t) v ?t"
      by (rule "10.IH") (use 10 bv in simp_all)
    have b: "reads (\<lambda>f. parse_members f (obj_put k v ob0)) (tl ?t)
        (JObj (foldl (\<lambda>o' (k, v). obj_put k v o') (obj_put k v ob0) r)) rest"
      unfolding list.sel by (rule "10.IH") (use 10 False in simp_all)
    show ?thesis
      by (rule reads_step2 [OF a b])
        (use False 10 in \<open>simp add: join_Cons kc skip_blank_token skip_token parse_string_escaped\<close>)
  qed
qed simp_all

text \<open>Parsing the text of a well-formed value, compact or indented, gives the value back.\<close>

lemma json_parse_ser:
  assumes "js_wf v" "blank gap"
  shows "json_parse (ser gap [] v) = Some v"
proof -
  have "reads parse_value ([] @ ser gap [] v @ []) v []" by (rule reads_ser) (use assms in simp_all)
  then obtain n where n: "\<forall>f \<ge> n. parse_value f (ser gap [] v) = Some (v, [])"
    by (auto simp: reads_def)
  let ?m = "2 * length (ser gap [] v) + 2"
  have "parse_value ?m (ser gap [] v) = parse_value (max n ?m) (ser gap [] v)"
    by (rule parse_value_fuel) simp_all
  with n show ?thesis by (simp add: json_parse_def skip_ws_def)
qed

theorem json_parse_compact: "js_wf v \<Longrightarrow> json_parse (json_compact v) = Some v"
  by (simp add: json_compact_def json_parse_ser)

theorem json_parse_pretty: "js_wf v \<Longrightarrow> json_parse (json_pretty v) = Some v"
  by (simp add: json_pretty_def json_parse_ser blank_def)

end
