(* ===== verification/ReactMonad.thy ===== *)
theory ReactMonad
  imports JsonText
begin

text \<open>
  How the event handlers and effects of the pages run. A handler is an \<open>async\<close> function over
  the component's state: it reads the values captured by the render that created it, sets
  state, shows notifications, navigates and awaits requests. Its model is a function from the
  state to an outcome (a value, or the exception it throws), the new state, and the list of
  the observable effects in order. Everything that may happen while a request is awaited
  (other handlers, the server) is part of the answer of the request parameter, which returns
  the state in which the handler resumes.
\<close>

named_theorems act_simps "symbolic execution of handlers"

section \<open>Exceptions, requests and effects\<close>

text \<open>
  What a \<open>catch\<close> clause may receive: the \<open>ApiError\<close> of the HTTP client, another \<open>Error\<close>
  with a known message, the \<open>SyntaxError\<close> of \<open>JSON.parse\<close> and any other \<open>Error\<close> whose
  message the engine or a library chose, or a thrown value that is no \<open>Error\<close>.
\<close>

datatype js_exn =
    ApiError string jsnum
  | PlainError string
  | SyntaxError
  | EngineError
  | NonError

datatype http_method = GET | POST | PUT | PATCH | DELETE

record api_options =
  opt_method :: "http_method option"
  opt_data :: "js option"
  opt_params :: "js_object option"

record 'd api_response =
  resp_msg :: string
  resp_code :: jsnum
  resp_data :: "'d option"

record 'i page_result =
  pr_items :: "'i list"
  pr_total :: int
  pr_page :: int
  pr_page_size :: int

type_synonym http_request = "string \<times> api_options"

datatype notice_kind = NSuccess | NWarning | NError

text \<open>The \<open>description\<close> of a notification: none, a text, or a text of the engine's.\<close>

datatype description = NoDescription | Description string | EngineDescription

datatype effect =
    Sent http_request
  | Notice notice_kind string description
  | Navigate string
  | Asked string
  | Copied string

text \<open>\<open>error instanceof Error ? error.message : undefined\<close>\<close>

fun error_description :: "js_exn \<Rightarrow> description" where
  "error_description (ApiError m c) = Description m"
| "error_description (PlainError m) = Description m"
| "error_description SyntaxError = EngineDescription"
| "error_description EngineError = EngineDescription"
| "error_description NonError = NoDescription"

section \<open>Handlers\<close>

datatype 'a outcome = Done 'a | Threw js_exn

type_synonym ('s, 'a) act = "'s \<Rightarrow> 'a outcome \<times> 's \<times> effect list"

text \<open>
  The \<open>request\<close> function of the runtime at one response type, with the server behind it: the
  response or the exception, and the state at the moment the handler resumes.
\<close>

type_synonym ('s, 'd) request = "http_request \<Rightarrow> 's \<Rightarrow> (js_exn + 'd api_response) \<times> 's"

abbreviation outcome_of :: "'a outcome \<times> 's \<times> effect list \<Rightarrow> 'a outcome" where
  "outcome_of r \<equiv> fst r"

abbreviation state_of :: "'a outcome \<times> 's \<times> effect list \<Rightarrow> 's" where
  "state_of r \<equiv> fst (snd r)"

abbreviation effects_of :: "'a outcome \<times> 's \<times> effect list \<Rightarrow> effect list" where
  "effects_of r \<equiv> snd (snd r)"

definition prepend :: "effect list \<Rightarrow> 'a outcome \<times> 's \<times> effect list \<Rightarrow> 'a outcome \<times> 's \<times> effect list" where
  "prepend es r = (outcome_of r, state_of r, es @ effects_of r)"

definition ret :: "'a \<Rightarrow> ('s, 'a) act" where
  "ret a = (\<lambda>s. (Done a, s, []))"

definition throw :: "js_exn \<Rightarrow> ('s, 'a) act" where
  "throw e = (\<lambda>s. (Threw e, s, []))"

definition bind :: "('s, 'a) act \<Rightarrow> ('a \<Rightarrow> ('s, 'b) act) \<Rightarrow> ('s, 'b) act" where
  "bind m k = (\<lambda>s. case m s of
       (Done a, s', es) \<Rightarrow> prepend es (k a s')
     | (Threw e, s', es) \<Rightarrow> (Threw e, s', es))"

text \<open>Statements one after the other.\<close>

fun steps :: "('s, unit) act list \<Rightarrow> ('s, unit) act" where
  "steps [] = ret ()"
| "steps [m] = m"
| "steps (m # n # ms) = bind m (\<lambda>_. steps (n # ms))"

definition update :: "('s \<Rightarrow> 's) \<Rightarrow> ('s, unit) act" where
  "update f = (\<lambda>s. (Done (), f s, []))"

definition current :: "('s, 's) act" where
  "current = (\<lambda>s. (Done s, s, []))"

definition emit :: "effect \<Rightarrow> ('s, unit) act" where
  "emit e = (\<lambda>s. (Done (), s, [e]))"

definition only_if :: "bool \<Rightarrow> ('s, unit) act \<Rightarrow> ('s, unit) act" where
  "only_if b m = (if b then m else ret ())"

definition send :: "('s, 'd) request \<Rightarrow> http_request \<Rightarrow> ('s, 'd api_response) act" where
  "send rq r = (\<lambda>s. case rq r s of
       (Inl e, s') \<Rightarrow> (Threw e, s', [Sent r])
     | (Inr d, s') \<Rightarrow> (Done d, s', [Sent r]))"

definition try_catch :: "('s, 'a) act \<Rightarrow> (js_exn \<Rightarrow> ('s, 'a) act) \<Rightarrow> ('s, 'a) act" where
  "try_catch m h = (\<lambda>s. case m s of
       (Done a, s', es) \<Rightarrow> (Done a, s', es)
     | (Threw e, s', es) \<Rightarrow> prepend es (h e s'))"

text \<open>\<open>try { m } finally { f }\<close> where \<open>f\<close> only sets state.\<close>

definition finally_set :: "('s, 'a) act \<Rightarrow> ('s \<Rightarrow> 's) \<Rightarrow> ('s, 'a) act" where
  "finally_set m f = (\<lambda>s. (outcome_of (m s), f (state_of (m s)), effects_of (m s)))"

definition success :: "string \<Rightarrow> ('s, unit) act" where
  "success key = emit (Notice NSuccess key NoDescription)"

definition failure :: "string \<Rightarrow> js_exn \<Rightarrow> ('s, unit) act" where
  "failure key e = emit (Notice NError key (error_description e))"

text \<open>A synchronous computation that may throw.\<close>

definition lift_sum :: "js_exn + 'a \<Rightarrow> ('s, 'a) act" where
  "lift_sum r = (case r of Inl e \<Rightarrow> throw e | Inr a \<Rightarrow> ret a)"

text \<open>\<open>window.confirm(t(key))\<close>, answered by the user.\<close>

definition confirm :: "(string \<Rightarrow> 's \<Rightarrow> bool) \<Rightarrow> string \<Rightarrow> ('s, bool) act" where
  "confirm user key = (\<lambda>s. (Done (user key s), s, [Asked key]))"

section \<open>Symbolic execution\<close>

lemma prepend_simps [simp]:
  "outcome_of (prepend es r) = outcome_of r" "state_of (prepend es r) = state_of r"
  "effects_of (prepend es r) = es @ effects_of r" "prepend [] r = r"
  "prepend es (a, s, es') = (a, s, es @ es')"
  by (simp_all add: prepend_def)

lemma bind_ret [act_simps]: "bind (ret a) k = k a"
  by (simp add: bind_def ret_def fun_eq_iff)

lemma bind_throw [act_simps]: "bind (throw e) k = throw e"
  by (simp add: bind_def throw_def fun_eq_iff)

lemma bind_update [act_simps]: "bind (update f) k s = k () (f s)"
  by (simp add: bind_def update_def)

lemma bind_emit [act_simps]: "bind (emit e) k s = prepend [e] (k () s)"
  by (simp add: bind_def emit_def)

lemma lift_sum_simps [simp]: "lift_sum (Inl e) = throw e" "lift_sum (Inr a) = ret a"
  by (simp_all add: lift_sum_def)

lemma steps_Cons: "ms \<noteq> [] \<Longrightarrow> steps (m # ms) = bind m (\<lambda>_. steps ms)"
  by (cases ms) auto

lemmas run_defs = ret_def throw_def bind_def update_def current_def emit_def only_if_def send_def
  try_catch_def finally_set_def success_def failure_def confirm_def

lemma run_cases:
  obtains (Done) a s' es where "m s = (Done a, s', es)" | (Threw) e s' es where "m s = (Threw e, s', es)"
  by (cases "m s", rename_tac r s' es, case_tac r) auto

lemma bind_known:
  "m s = (Done a, s', es) \<Longrightarrow> bind m k s = prepend es (k a s')"
  "m s = (Threw e, s', es) \<Longrightarrow> bind m k s = (Threw e, s', es)"
  by (simp_all add: bind_def)

lemma try_known:
  "m s = (Done a, s', es) \<Longrightarrow> try_catch m h s = (Done a, s', es)"
  "m s = (Threw e, s', es) \<Longrightarrow> try_catch m h s = prepend es (h e s')"
  by (simp_all add: try_catch_def)

text \<open>The evaluation of every primitive at a state.\<close>

lemma run_prims:
  "ret a s = (Done a, s, [])" "throw e s = (Threw e, s, [])" "update f s = (Done (), f s, [])"
  "current s = (Done s, s, [])" "emit x s = (Done (), s, [x])"
  "success k s = (Done (), s, [Notice NSuccess k NoDescription])"
  "failure k e s = (Done (), s, [Notice NError k (error_description e)])"
  "confirm u k s = (Done (u k s), s, [Asked k])"
  "finally_set m f s = (outcome_of (m s), f (state_of (m s)), effects_of (m s))"
  by (simp_all add: run_defs)

lemma finally_set_state: "state_of (finally_set m f s) = f (state_of (m s))"
  by (simp add: finally_set_def)

lemma finally_set_outcome: "outcome_of (finally_set m f s) = outcome_of (m s)"
  by (simp add: finally_set_def)

lemma finally_set_effects: "effects_of (finally_set m f s) = effects_of (m s)"
  by (simp add: finally_set_def)

section \<open>What a handler may do\<close>

text \<open>Every effect satisfies \<open>P\<close>.\<close>

definition emits :: "(effect \<Rightarrow> bool) \<Rightarrow> ('s, 'a) act \<Rightarrow> bool" where
  "emits P m \<longleftrightarrow> (\<forall>s. list_all P (effects_of (m s)))"

text \<open>The handler never throws.\<close>

definition safe :: "('s, 'a) act \<Rightarrow> bool" where
  "safe m \<longleftrightarrow> (\<forall>s. \<exists>a. outcome_of (m s) = Done a)"

text \<open>The handler keeps an invariant of the state, also when it throws.\<close>

definition keeps :: "('s \<Rightarrow> bool) \<Rightarrow> ('s, 'a) act \<Rightarrow> bool" where
  "keeps P m \<longleftrightarrow> (\<forall>s. P s \<longrightarrow> P (state_of (m s)))"

text \<open>The request parameter keeps an invariant: the interference during an await does.\<close>

definition quiet :: "('s \<Rightarrow> bool) \<Rightarrow> ('s, 'd) request \<Rightarrow> bool" where
  "quiet P rq \<longleftrightarrow> (\<forall>r s. P s \<longrightarrow> P (snd (rq r s)))"

named_theorems emits_rules "composition rules of emits"
named_theorems safe_rules "composition rules of safe"
named_theorems keeps_rules "composition rules of keeps"

lemma emits_ret [emits_rules]: "emits P (ret a)"
  by (simp add: emits_def ret_def)

lemma emits_throw [emits_rules]: "emits P (throw e)"
  by (simp add: emits_def throw_def)

lemma emits_update [emits_rules]: "emits P (update f)"
  by (simp add: emits_def update_def)

lemma emits_emit: "emits P (emit e) \<longleftrightarrow> P e"
  by (simp add: emits_def emit_def)

lemma emits_bind [emits_rules]: "emits P m \<Longrightarrow> (\<And>a. emits P (k a)) \<Longrightarrow> emits P (bind m k)"
  by (unfold emits_def, intro allI, rule_tac m = m and s = s in run_cases)
    (drule_tac x = s in spec, simp add: bind_def)+

lemma emits_steps_Nil [emits_rules]: "emits P (steps [])"
  by (simp add: emits_ret)

lemma emits_steps [emits_rules]: "emits P m \<Longrightarrow> emits P (steps ms) \<Longrightarrow> emits P (steps (m # ms))"
  by (cases ms) (auto intro: emits_bind)

lemma emits_only_if [emits_rules]: "(b \<Longrightarrow> emits P m) \<Longrightarrow> emits P (only_if b m)"
  by (simp add: only_if_def emits_ret)

lemma emits_send: "P (Sent r) \<Longrightarrow> emits P (send rq r)"
  by (auto simp: emits_def send_def split: sum.splits prod.splits)

lemma emits_try [emits_rules]: "emits P m \<Longrightarrow> (\<And>e. emits P (h e)) \<Longrightarrow> emits P (try_catch m h)"
  by (unfold emits_def, intro allI, rule_tac m = m and s = s in run_cases)
    (drule_tac x = s in spec, simp add: try_catch_def)+

lemma emits_finally [emits_rules]: "emits P m \<Longrightarrow> emits P (finally_set m f)"
  by (simp add: emits_def finally_set_effects)

lemma emits_if [emits_rules]: "(b \<Longrightarrow> emits P m) \<Longrightarrow> (\<not> b \<Longrightarrow> emits P n) \<Longrightarrow> emits P (if b then m else n)"
  by simp

lemma safe_ret [safe_rules]: "safe (ret a)"
  by (simp add: safe_def ret_def)

lemma safe_update [safe_rules]: "safe (update f)"
  by (simp add: safe_def update_def)

lemma safe_emit [safe_rules]: "safe (emit e)"
  by (simp add: safe_def emit_def)

lemma safe_success [safe_rules]: "safe (success k)" "safe (failure k e)"
  by (simp_all add: success_def failure_def safe_emit)

lemma safe_confirm [safe_rules]: "safe (confirm u k)"
  by (simp add: safe_def confirm_def)

lemma safe_bind [safe_rules]: "safe m \<Longrightarrow> (\<And>a. safe (k a)) \<Longrightarrow> safe (bind m k)"
  by (unfold safe_def, intro allI, rule_tac m = m and s = s in run_cases)
    (drule_tac x = s in spec, simp add: bind_def)+

lemma safe_steps_Nil [safe_rules]: "safe (steps [])"
  by (simp add: safe_ret)

lemma safe_steps [safe_rules]: "safe m \<Longrightarrow> safe (steps ms) \<Longrightarrow> safe (steps (m # ms))"
  by (cases ms) (auto intro: safe_bind)

lemma safe_only_if [safe_rules]: "(b \<Longrightarrow> safe m) \<Longrightarrow> safe (only_if b m)"
  by (simp add: only_if_def safe_ret)

lemma safe_try [safe_rules]: "(\<And>e. safe (h e)) \<Longrightarrow> safe (try_catch m h)"
  by (unfold safe_def, intro allI, rule_tac m = m and s = s in run_cases) (simp_all add: try_catch_def)

lemma safe_finally [safe_rules]: "safe m \<Longrightarrow> safe (finally_set m f)"
  by (simp add: safe_def finally_set_outcome)

lemma safe_if [safe_rules]: "(b \<Longrightarrow> safe m) \<Longrightarrow> (\<not> b \<Longrightarrow> safe n) \<Longrightarrow> safe (if b then m else n)"
  by simp

lemma keeps_ret [keeps_rules]: "keeps P (ret a)"
  by (simp add: keeps_def ret_def)

lemma keeps_throw [keeps_rules]: "keeps P (throw e)"
  by (simp add: keeps_def throw_def)

lemma keeps_emit [keeps_rules]: "keeps P (emit e)"
  by (simp add: keeps_def emit_def)

lemma keeps_notice [keeps_rules]: "keeps P (success k)" "keeps P (failure k e)"
  by (simp_all add: success_def failure_def keeps_emit)

lemma keeps_confirm [keeps_rules]: "keeps P (confirm u k)"
  by (simp add: keeps_def confirm_def)

lemma keeps_update: "(\<And>s. P s \<Longrightarrow> P (f s)) \<Longrightarrow> keeps P (update f)"
  by (simp add: keeps_def update_def)

lemma keeps_bind [keeps_rules]: "keeps P m \<Longrightarrow> (\<And>a. keeps P (k a)) \<Longrightarrow> keeps P (bind m k)"
  by (unfold keeps_def, intro allI impI, rule_tac m = m and s = s in run_cases)
    (drule_tac x = s in spec, simp add: bind_def)+

lemma keeps_steps_Nil [keeps_rules]: "keeps P (steps [])"
  by (simp add: keeps_ret)

lemma keeps_steps [keeps_rules]: "keeps P m \<Longrightarrow> keeps P (steps ms) \<Longrightarrow> keeps P (steps (m # ms))"
  by (cases ms) (auto intro: keeps_bind)

lemma keeps_only_if [keeps_rules]: "(b \<Longrightarrow> keeps P m) \<Longrightarrow> keeps P (only_if b m)"
  by (simp add: only_if_def keeps_ret)

lemma state_send: "state_of (send rq r s) = snd (rq r s)"
  by (simp add: send_def split: prod.split sum.split)

lemma keeps_send: "quiet P rq \<Longrightarrow> keeps P (send rq r)"
  by (cases r) (simp add: keeps_def state_send quiet_def)

lemma keeps_try [keeps_rules]: "keeps P m \<Longrightarrow> (\<And>e. keeps P (h e)) \<Longrightarrow> keeps P (try_catch m h)"
  by (unfold keeps_def, intro allI impI, rule_tac m = m and s = s in run_cases)
    (drule_tac x = s in spec, simp add: try_catch_def)+

lemma keeps_finally: "keeps P m \<Longrightarrow> (\<And>s. P s \<Longrightarrow> P (f s)) \<Longrightarrow> keeps P (finally_set m f)"
  by (simp add: keeps_def finally_set_state)

lemma keeps_if [keeps_rules]: "(b \<Longrightarrow> keeps P m) \<Longrightarrow> (\<not> b \<Longrightarrow> keeps P n) \<Longrightarrow> keeps P (if b then m else n)"
  by simp

text \<open>The requests of a run, in order.\<close>

fun requests :: "effect list \<Rightarrow> http_request list" where
  "requests [] = []"
| "requests (Sent r # es) = r # requests es"
| "requests (_ # es) = requests es"

lemma requests_append [simp]: "requests (es @ es') = requests es @ requests es'"
  by (induction es rule: requests.induct) auto

lemma set_requests: "r \<in> set (requests es) \<longleftrightarrow> Sent r \<in> set es"
  by (induction es rule: requests.induct) auto

end
