(* ===== verification/Services.thy ===== *)
theory Services
  imports ReactMonad
begin

text \<open>
  The HTTP client (\<open>services/http\<close>) and the service modules (\<open>services/*.ts\<close>): the data
  types of the API as records, and one function per endpoint that builds the request. The
  runtime's \<open>request\<close> is the parameter \<open>rq\<close>. Property names carry a prefix per type where the
  source uses the same name in several types. A request body is the JSON value the code
  passes; an optional property that is \<open>undefined\<close> is not part of it.
\<close>

section \<open>The HTTP client\<close>

fun num_le :: "jsnum \<Rightarrow> jsnum \<Rightarrow> bool" where
  "num_le NaN _ = False"
| "num_le _ NaN = False"
| "num_le (Fin x) (Fin y) = (x \<le> y)"
| "num_le NegInf _ = True"
| "num_le _ PosInf = True"
| "num_le _ _ = False"

definition isSuccessCode :: "jsnum \<Rightarrow> bool" where
  "isSuccessCode code \<longleftrightarrow> num_le (Fin 200) code \<and> num_lt code (Fin 300)"

definition apiRequest :: "('s, 'd) request \<Rightarrow> string \<Rightarrow> api_options \<Rightarrow> ('s, 'd) act" where
  "apiRequest rq url options =
     bind (send rq (url, options)) (\<lambda>response.
       if \<not> isSuccessCode (resp_code response)
       then throw (ApiError (resp_msg response) (resp_code response))
       else case resp_data response of
              None \<Rightarrow> throw (ApiError ''Empty response data'' (resp_code response))
            | Some d \<Rightarrow> ret d)"

text \<open>The option objects that the service modules write.\<close>

definition with_params :: "http_method \<Rightarrow> js_object \<Rightarrow> api_options" where
  "with_params m ps = \<lparr>opt_method = Some m, opt_data = None, opt_params = Some ps\<rparr>"

definition with_data :: "http_method \<Rightarrow> js_object \<Rightarrow> api_options" where
  "with_data m body = \<lparr>opt_method = Some m, opt_data = Some (JObj body), opt_params = None\<rparr>"

definition bare :: "http_method \<Rightarrow> api_options" where
  "bare m = \<lparr>opt_method = Some m, opt_data = None, opt_params = None\<rparr>"

definition jint :: "int \<Rightarrow> js" where
  "jint i = JNum (Fin (of_int i))"

text \<open>An optional property: absent when \<open>undefined\<close>.\<close>

definition opt_entry :: "string \<Rightarrow> 'a option \<Rightarrow> ('a \<Rightarrow> js) \<Rightarrow> js_object" where
  "opt_entry k v f = (case v of None \<Rightarrow> [] | Some x \<Rightarrow> [(k, f x)])"

section \<open>Authentication\<close>

record auth_credentials =
  cred_email :: string
  cred_password :: string

record auth_result =
  ar_user_id :: string
  ar_email :: string
  ar_role :: string
  ar_access_token :: string
  ar_token_type :: string

record logout_result =
  lo_revoked :: bool

definition credentials_body :: "auth_credentials \<Rightarrow> js_object" where
  "credentials_body b = [(''email'', JStr (cred_email b)),
      (''password'', JStr (cred_password b))]"

definition login :: "('s, auth_result) request \<Rightarrow> auth_credentials \<Rightarrow> ('s, auth_result) act" where
  "login rq body =
     apiRequest rq ''/api/v1/auth/login'' (with_data POST (credentials_body body))"

definition register :: "('s, auth_result) request \<Rightarrow> auth_credentials \<Rightarrow> ('s, auth_result) act" where
  "register rq body =
     apiRequest rq ''/api/v1/auth/register'' (with_data POST (credentials_body body))"

definition logout :: "('s, logout_result) request \<Rightarrow> ('s, logout_result) act" where
  "logout rq =
     apiRequest rq ''/api/v1/auth/logout'' (bare POST)"

section \<open>Tenants\<close>

text \<open>\<open>TenantStatus\<close>, \<open>ProductStatus\<close> and \<open>DeviceStatus\<close> are the same union of literals.\<close>

datatype entity_status = Active | Disabled

fun status_text :: "entity_status \<Rightarrow> string" where
  "status_text Active = ''active''"
| "status_text Disabled = ''disabled''"

record tenant =
  tn_id :: string
  tn_owner_user_id :: string
  tn_slug :: string
  tn_name :: string
  tn_status :: entity_status
  tn_created_at :: string
  tn_updated_at :: string

record page_params =
  pp_page :: int
  pp_page_size :: int

record tenant_create_input =
  tc_slug :: string
  tc_name :: string

record tenant_update_input =
  tu_name :: string
  tu_status :: entity_status

record delete_result =
  dr_deleted :: bool

definition page_params_query :: "page_params \<Rightarrow> js_object" where
  "page_params_query p = [(''page'', jint (pp_page p)),
      (''page_size'', jint (pp_page_size p))]"

definition tenant_create_body :: "tenant_create_input \<Rightarrow> js_object" where
  "tenant_create_body b = [(''tenant_slug'', JStr (tc_slug b)),
      (''tenant_name'', JStr (tc_name b))]"

definition tenant_update_body :: "tenant_update_input \<Rightarrow> js_object" where
  "tenant_update_body b = [(''tenant_name'', JStr (tu_name b)),
      (''status'', JStr (status_text (tu_status b)))]"

definition listTenants :: "('s, tenant page_result) request \<Rightarrow> page_params \<Rightarrow> ('s, tenant page_result) act" where
  "listTenants rq params =
     apiRequest rq ''/api/v1/tenants'' (with_params GET (page_params_query params))"

definition createTenant :: "('s, tenant) request \<Rightarrow> tenant_create_input \<Rightarrow> ('s, tenant) act" where
  "createTenant rq body =
     apiRequest rq ''/api/v1/tenants'' (with_data POST (tenant_create_body body))"

definition updateTenant :: "('s, tenant) request \<Rightarrow> string \<Rightarrow> tenant_update_input \<Rightarrow> ('s, tenant) act" where
  "updateTenant rq tenantId body =
     apiRequest rq (''/api/v1/tenants/'' @ tenantId) (with_data PUT (tenant_update_body body))"

definition deleteTenant :: "('s, delete_result) request \<Rightarrow> string \<Rightarrow> ('s, delete_result) act" where
  "deleteTenant rq tenantId =
     apiRequest rq (''/api/v1/tenants/'' @ tenantId) (bare DELETE)"

section \<open>Products\<close>

datatype node_type = Direct | Gateway | SubDevice

datatype auth_type = Secret | Certificate | Anonymous

datatype protocol_type = Mqtt | Http | Coap | Modbus | Opcua | Lora

fun node_type_text :: "node_type \<Rightarrow> string" where
  "node_type_text Direct = ''direct''"
| "node_type_text Gateway = ''gateway''"
| "node_type_text SubDevice = ''sub_device''"

fun auth_type_text :: "auth_type \<Rightarrow> string" where
  "auth_type_text Secret = ''secret''"
| "auth_type_text Certificate = ''certificate''"
| "auth_type_text Anonymous = ''anonymous''"

fun protocol_type_text :: "protocol_type \<Rightarrow> string" where
  "protocol_type_text Mqtt = ''mqtt''"
| "protocol_type_text Http = ''http''"
| "protocol_type_text Coap = ''coap''"
| "protocol_type_text Modbus = ''modbus''"
| "protocol_type_text Opcua = ''opcua''"
| "protocol_type_text Lora = ''lora''"

record product =
  pd_id :: string
  pd_tenant_id :: string
  pd_key :: string
  pd_name :: string
  pd_description :: string
  pd_node_type :: node_type
  pd_auth_type :: auth_type
  pd_protocol_type :: protocol_type
  pd_status :: entity_status
  pd_created_at :: string
  pd_updated_at :: string

record product_list_params =
  plp_tenant_id :: string
  plp_page :: int
  plp_page_size :: int

record product_create_input =
  pc_tenant_id :: string
  pc_key :: string
  pc_name :: string
  pc_description :: string
  pc_node_type :: node_type
  pc_auth_type :: auth_type
  pc_protocol_type :: protocol_type

record product_update_input =
  pu_name :: string
  pu_description :: string
  pu_node_type :: node_type
  pu_auth_type :: auth_type
  pu_protocol_type :: protocol_type
  pu_status :: entity_status

definition product_list_query :: "product_list_params \<Rightarrow> js_object" where
  "product_list_query p = [(''tenant_id'', JStr (plp_tenant_id p)),
      (''page'', jint (plp_page p)),
      (''page_size'', jint (plp_page_size p))]"

definition product_create_body :: "product_create_input \<Rightarrow> js_object" where
  "product_create_body b = [(''tenant_id'', JStr (pc_tenant_id b)),
      (''product_key'', JStr (pc_key b)),
      (''product_name'', JStr (pc_name b)),
      (''description'', JStr (pc_description b)),
      (''node_type'', JStr (node_type_text (pc_node_type b))),
      (''auth_type'', JStr (auth_type_text (pc_auth_type b))),
      (''protocol_type'', JStr (protocol_type_text (pc_protocol_type b)))]"

definition product_update_body :: "product_update_input \<Rightarrow> js_object" where
  "product_update_body b = [(''product_name'', JStr (pu_name b)),
      (''description'', JStr (pu_description b)),
      (''node_type'', JStr (node_type_text (pu_node_type b))),
      (''auth_type'', JStr (auth_type_text (pu_auth_type b))),
      (''protocol_type'', JStr (protocol_type_text (pu_protocol_type b))),
      (''status'', JStr (status_text (pu_status b)))]"

definition listProducts :: "('s, product page_result) request \<Rightarrow> product_list_params \<Rightarrow> ('s, product page_result) act" where
  "listProducts rq params =
     apiRequest rq ''/api/v1/products'' (with_params GET (product_list_query params))"

definition createProduct :: "('s, product) request \<Rightarrow> product_create_input \<Rightarrow> ('s, product) act" where
  "createProduct rq body =
     apiRequest rq ''/api/v1/products'' (with_data POST (product_create_body body))"

definition updateProduct :: "('s, product) request \<Rightarrow> string \<Rightarrow> product_update_input \<Rightarrow> ('s, product) act" where
  "updateProduct rq productId body =
     apiRequest rq (''/api/v1/products/'' @ productId) (with_data PUT (product_update_body body))"

definition deleteProduct :: "('s, delete_result) request \<Rightarrow> string \<Rightarrow> ('s, delete_result) act" where
  "deleteProduct rq productId =
     apiRequest rq (''/api/v1/products/'' @ productId) (bare DELETE)"

section \<open>Things models\<close>

datatype model_status = Draft | Published | Deprecated

fun model_status_text :: "model_status \<Rightarrow> string" where
  "model_status_text Draft = ''draft''"
| "model_status_text Published = ''published''"
| "model_status_text Deprecated = ''deprecated''"

record things_model =
  tm_id :: string
  tm_tenant_id :: string
  tm_product_id :: string
  tm_version :: int
  tm_name :: string
  tm_description :: string
  tm_status :: model_status
  tm_is_current :: bool
  tm_properties :: js_object
  tm_events :: js_object
  tm_services :: js_object
  tm_published_at :: "string option"
  tm_created_at :: string
  tm_updated_at :: string

record model_list_params =
  mlp_tenant_id :: string
  mlp_product_id :: "string option"
  mlp_page :: int
  mlp_page_size :: int

record model_create_input =
  mc_tenant_id :: string
  mc_product_id :: string
  mc_version :: jsnum
  mc_name :: string
  mc_description :: string
  mc_status :: model_status
  mc_is_current :: bool
  mc_properties :: js_object
  mc_events :: js_object
  mc_services :: js_object

record model_update_input =
  mu_name :: string
  mu_description :: string
  mu_status :: model_status
  mu_is_current :: bool
  mu_properties :: js_object
  mu_events :: js_object
  mu_services :: js_object

definition model_list_query :: "model_list_params \<Rightarrow> js_object" where
  "model_list_query p = 
     [(''tenant_id'', JStr (mlp_tenant_id p))] @ opt_entry ''product_id'' (mlp_product_id p) JStr @
     [(''page'', jint (mlp_page p)), (''page_size'', jint (mlp_page_size p))]"

definition model_create_body :: "model_create_input \<Rightarrow> js_object" where
  "model_create_body b = [(''tenant_id'', JStr (mc_tenant_id b)),
      (''product_id'', JStr (mc_product_id b)),
      (''model_version'', JNum (mc_version b)),
      (''model_name'', JStr (mc_name b)),
      (''description'', JStr (mc_description b)),
      (''status'', JStr (model_status_text (mc_status b))),
      (''is_current'', JBool (mc_is_current b)),
      (''properties'', JObj (mc_properties b)),
      (''events'', JObj (mc_events b)),
      (''services'', JObj (mc_services b))]"

definition model_update_body :: "model_update_input \<Rightarrow> js_object" where
  "model_update_body b = [(''model_name'', JStr (mu_name b)),
      (''description'', JStr (mu_description b)),
      (''status'', JStr (model_status_text (mu_status b))),
      (''is_current'', JBool (mu_is_current b)),
      (''properties'', JObj (mu_properties b)),
      (''events'', JObj (mu_events b)),
      (''services'', JObj (mu_services b))]"

definition listThingsModels :: "('s, things_model page_result) request \<Rightarrow> model_list_params \<Rightarrow> ('s, things_model page_result) act" where
  "listThingsModels rq params =
     apiRequest rq ''/api/v1/thingsmodels'' (with_params GET (model_list_query params))"

definition createThingsModel :: "('s, things_model) request \<Rightarrow> model_create_input \<Rightarrow> ('s, things_model) act" where
  "createThingsModel rq body =
     apiRequest rq ''/api/v1/thingsmodels'' (with_data POST (model_create_body body))"

definition updateThingsModel :: "('s, things_model) request \<Rightarrow> string \<Rightarrow> model_update_input \<Rightarrow> ('s, things_model) act" where
  "updateThingsModel rq thingsModelId body =
     apiRequest rq (''/api/v1/thingsmodels/'' @ thingsModelId) (with_data PUT (model_update_body body))"

definition deleteThingsModel :: "('s, delete_result) request \<Rightarrow> string \<Rightarrow> ('s, delete_result) act" where
  "deleteThingsModel rq thingsModelId =
     apiRequest rq (''/api/v1/thingsmodels/'' @ thingsModelId) (bare DELETE)"

section \<open>Audit logs\<close>

datatype audit_result = AuditSuccess | AuditFailure

record audit_log =
  al_id :: string
  al_actor_user_id :: string
  al_actor_role :: string
  al_action :: string
  al_resource_type :: string
  al_resource_id :: string
  al_result :: audit_result
  al_error_code :: string
  al_method :: string
  al_path :: string
  al_status_code :: int
  al_duration_ms :: int
  al_ip :: string
  al_user_agent :: string
  al_request_id :: string
  al_trace_id :: string
  al_operation_id :: string
  al_metadata :: js_object
  al_created_at :: string

definition listAuditLogs :: "('s, audit_log page_result) request \<Rightarrow> page_params \<Rightarrow> ('s, audit_log page_result) act" where
  "listAuditLogs rq params =
     apiRequest rq ''/api/v1/audit-logs'' (with_params GET (page_params_query params))"

section \<open>Devices\<close>

datatype connection_status = Online | Offline

record device =
  dv_id :: string
  dv_tenant_id :: string
  dv_product_id :: string
  dv_slug :: string
  dv_name :: string
  dv_description :: string
  dv_status :: entity_status
  dv_connection_status :: connection_status
  dv_gateway_device_id :: "string option"
  dv_firmware_version :: "string option"
  dv_ip_address :: "string option"
  dv_last_seen_at :: "string option"
  dv_created_at :: string
  dv_updated_at :: string

record device_create_result =
  dcr_device :: device
  dcr_device_secret :: "string option"

record latest_properties =
  lp_id :: string
  lp_tenant_id :: string
  lp_product_id :: string
  lp_product_key :: string
  lp_device_slug :: string
  lp_reported :: bool
  lp_properties :: js_object
  lp_occurred_at :: "string option"
  lp_received_at :: "string option"

record trend_point =
  tp_bucket_at :: string
  tp_value :: jsnum
  tp_min :: jsnum
  tp_max :: jsnum
  tp_count :: int

record trend_series =
  ts_property :: string
  ts_points :: "trend_point list"

record property_trend =
  pt_device_id :: string
  pt_tenant_id :: string
  pt_product_id :: string
  pt_product_key :: string
  pt_device_slug :: string
  pt_properties :: "string list"
  pt_from :: string
  pt_to :: string
  pt_bucket_seconds :: int
  pt_agg :: string
  pt_series :: "trend_series list"

record event_entry =
  ee_event_id :: string
  ee_tenant_id :: string
  ee_product_id :: string
  ee_product_key :: string
  ee_device_slug :: string
  ee_event_name :: string
  ee_params :: js_object
  ee_occurred_at :: string
  ee_received_at :: string

datatype ack_status = AckSuccess | AckFailed | AckPending

record service_call_result =
  scr_command_id :: string
  scr_topic :: string
  scr_service_name :: string
  scr_input :: js_object
  scr_sent_at :: string

record property_set_result =
  psr_command_id :: string
  psr_topic :: string
  psr_properties :: js_object
  psr_sent_at :: string

record property_set_entry =
  pse_command_id :: string
  pse_tenant_id :: string
  pse_product_id :: string
  pse_product_key :: string
  pse_device_slug :: string
  pse_topic :: string
  pse_properties :: js_object
  pse_occurred_at :: string
  pse_ack_deadline_at :: string
  pse_ack_status :: ack_status
  pse_ack_event_id :: "string option"
  pse_ack_success :: "bool option"
  pse_ack_code :: "string option"
  pse_ack_message :: "string option"
  pse_ack_properties :: "js_object option"
  pse_ack_occurred_at :: "string option"
  pse_ack_received_at :: "string option"
  pse_ack_deadline_seconds :: int

record service_call_entry =
  sce_command_id :: string
  sce_tenant_id :: string
  sce_product_id :: string
  sce_product_key :: string
  sce_device_slug :: string
  sce_service_name :: string
  sce_topic :: string
  sce_input :: js_object
  sce_occurred_at :: string
  sce_ack_deadline_at :: string
  sce_ack_status :: ack_status
  sce_ack_event_id :: "string option"
  sce_ack_success :: "bool option"
  sce_ack_code :: "string option"
  sce_ack_message :: "string option"
  sce_ack_output :: "js_object option"
  sce_ack_occurred_at :: "string option"
  sce_ack_received_at :: "string option"
  sce_ack_deadline_seconds :: int

record device_list_params =
  dlp_tenant_id :: string
  dlp_product_id :: "string option"
  dlp_page :: int
  dlp_page_size :: int

record event_history_params =
  ehp_event_name :: "string option"
  ehp_page :: int
  ehp_page_size :: int

record trend_params =
  trp_properties :: string
  trp_from :: string
  trp_to :: string
  trp_bucket_seconds :: int
  trp_agg :: string

record service_history_params =
  shp_service_name :: "string option"
  shp_ack_deadline_seconds :: int
  shp_page :: int
  shp_page_size :: int

record set_history_params =
  sth_property_name :: "string option"
  sth_ack_deadline_seconds :: int
  sth_page :: int
  sth_page_size :: int

record device_create_input =
  dc_tenant_id :: string
  dc_product_id :: string
  dc_slug :: string
  dc_name :: string
  dc_description :: string
  dc_gateway_device_id :: string

record device_update_input =
  du_name :: string
  du_description :: string
  du_status :: entity_status
  du_gateway_device_id :: string

definition device_list_query :: "device_list_params \<Rightarrow> js_object" where
  "device_list_query p = 
     [(''tenant_id'', JStr (dlp_tenant_id p))] @ opt_entry ''product_id'' (dlp_product_id p) JStr @
     [(''page'', jint (dlp_page p)), (''page_size'', jint (dlp_page_size p))]"

definition event_history_query :: "event_history_params \<Rightarrow> js_object" where
  "event_history_query p = 
     opt_entry ''event_name'' (ehp_event_name p) JStr @
     [(''page'', jint (ehp_page p)), (''page_size'', jint (ehp_page_size p))]"

definition trend_query :: "trend_params \<Rightarrow> js_object" where
  "trend_query p = [(''properties'', JStr (trp_properties p)),
      (''from'', JStr (trp_from p)),
      (''to'', JStr (trp_to p)),
      (''bucket_seconds'', jint (trp_bucket_seconds p)),
      (''agg'', JStr (trp_agg p))]"

definition service_history_query :: "service_history_params \<Rightarrow> js_object" where
  "service_history_query p = 
     opt_entry ''service_name'' (shp_service_name p) JStr @
     [(''ack_deadline_seconds'', jint (shp_ack_deadline_seconds p)), (''page'', jint (shp_page p)),
      (''page_size'', jint (shp_page_size p))]"

definition set_history_query :: "set_history_params \<Rightarrow> js_object" where
  "set_history_query p = 
     opt_entry ''property_name'' (sth_property_name p) JStr @
     [(''ack_deadline_seconds'', jint (sth_ack_deadline_seconds p)), (''page'', jint (sth_page p)),
      (''page_size'', jint (sth_page_size p))]"

definition device_create_body :: "device_create_input \<Rightarrow> js_object" where
  "device_create_body b = [(''tenant_id'', JStr (dc_tenant_id b)),
      (''product_id'', JStr (dc_product_id b)),
      (''device_slug'', JStr (dc_slug b)),
      (''device_name'', JStr (dc_name b)),
      (''description'', JStr (dc_description b)),
      (''gateway_device_id'', JStr (dc_gateway_device_id b))]"

definition device_update_body :: "device_update_input \<Rightarrow> js_object" where
  "device_update_body b = [(''device_name'', JStr (du_name b)),
      (''description'', JStr (du_description b)),
      (''status'', JStr (status_text (du_status b))),
      (''gateway_device_id'', JStr (du_gateway_device_id b))]"

definition listDevices :: "('s, device page_result) request \<Rightarrow> device_list_params \<Rightarrow> ('s, device page_result) act" where
  "listDevices rq params =
     apiRequest rq ''/api/v1/devices'' (with_params GET (device_list_query params))"

definition getDeviceLatestProperties :: "('s, latest_properties) request \<Rightarrow> string \<Rightarrow> ('s, latest_properties) act" where
  "getDeviceLatestProperties rq deviceId =
     apiRequest rq (''/api/v1/devices/'' @ deviceId @ ''/properties/latest'') (bare GET)"

definition getDevicePropertyTrend :: "('s, property_trend) request \<Rightarrow> string \<Rightarrow> trend_params \<Rightarrow> ('s, property_trend) act" where
  "getDevicePropertyTrend rq deviceId params =
     apiRequest rq (''/api/v1/devices/'' @ deviceId @ ''/properties/trend'') (with_params GET (trend_query params))"

definition listDeviceEvents :: "('s, event_entry page_result) request \<Rightarrow> string \<Rightarrow> event_history_params \<Rightarrow> ('s, event_entry page_result) act" where
  "listDeviceEvents rq deviceId params =
     apiRequest rq (''/api/v1/devices/'' @ deviceId @ ''/events'') (with_params GET (event_history_query params))"

definition callDeviceService :: "('s, service_call_result) request \<Rightarrow> string \<Rightarrow> string \<Rightarrow> js_object \<Rightarrow> ('s, service_call_result) act" where
  "callDeviceService rq deviceId serviceName input =
     apiRequest rq 
       (''/api/v1/devices/'' @ deviceId @ ''/services/'' @ serviceName @ ''/call'') (with_data POST [(''input'', JObj input)])"

definition setDeviceProperties :: "('s, property_set_result) request \<Rightarrow> string \<Rightarrow> js_object \<Rightarrow> ('s, property_set_result) act" where
  "setDeviceProperties rq deviceId properties =
     apiRequest rq (''/api/v1/devices/'' @ deviceId @ ''/property/set'') (with_data POST [(''properties'', JObj properties)])"

definition listDeviceServiceCalls :: "('s, service_call_entry page_result) request \<Rightarrow> string \<Rightarrow> service_history_params \<Rightarrow> ('s, service_call_entry page_result) act" where
  "listDeviceServiceCalls rq deviceId params =
     apiRequest rq (''/api/v1/devices/'' @ deviceId @ ''/services/history'') (with_params GET (service_history_query params))"

definition listDevicePropertySets :: "('s, property_set_entry page_result) request \<Rightarrow> string \<Rightarrow> set_history_params \<Rightarrow> ('s, property_set_entry page_result) act" where
  "listDevicePropertySets rq deviceId params =
     apiRequest rq (''/api/v1/devices/'' @ deviceId @ ''/property/set/history'') (with_params GET (set_history_query params))"

definition createDevice :: "('s, device_create_result) request \<Rightarrow> device_create_input \<Rightarrow> ('s, device_create_result) act" where
  "createDevice rq body =
     apiRequest rq ''/api/v1/devices'' (with_data POST (device_create_body body))"

definition updateDevice :: "('s, device) request \<Rightarrow> string \<Rightarrow> device_update_input \<Rightarrow> ('s, device) act" where
  "updateDevice rq deviceId body =
     apiRequest rq (''/api/v1/devices/'' @ deviceId) (with_data PUT (device_update_body body))"

definition deleteDevice :: "('s, delete_result) request \<Rightarrow> string \<Rightarrow> ('s, delete_result) act" where
  "deleteDevice rq deviceId =
     apiRequest rq (''/api/v1/devices/'' @ deviceId) (bare DELETE)"

section \<open>What the services send\<close>

text \<open>One request, and the answer read as \<open>apiRequest\<close> reads it.\<close>

fun api_outcome :: "js_exn + 'd api_response \<Rightarrow> 'd outcome" where
  "api_outcome (Inl e) = Threw e"
| "api_outcome (Inr r) =
     (if isSuccessCode (resp_code r)
      then (case resp_data r of Some d \<Rightarrow> Done d | None \<Rightarrow> Threw (ApiError ''Empty response data'' (resp_code r)))
      else Threw (ApiError (resp_msg r) (resp_code r)))"

lemma apiRequest_run [act_simps]:
  "apiRequest rq url opts s =
     (case rq (url, opts) s of (a, s') \<Rightarrow> (api_outcome a, s', [Sent (url, opts)]))"
  by (cases "rq (url, opts) s", rename_tac a s', case_tac a)
    (auto simp: apiRequest_def bind_def send_def throw_def ret_def prepend_def split: option.split)

lemma emits_apiRequest: "P (Sent (url, opts)) \<Longrightarrow> emits P (apiRequest rq url opts)"
  by (simp add: emits_def apiRequest_run split: prod.split)

lemma keeps_apiRequest: "quiet P rq \<Longrightarrow> keeps P (apiRequest rq url opts)"
  by (simp add: keeps_def apiRequest_run quiet_def split: prod.split) (metis snd_conv)

lemmas service_defs =
  login_def register_def logout_def
  listTenants_def createTenant_def updateTenant_def deleteTenant_def
  listProducts_def createProduct_def updateProduct_def deleteProduct_def
  listThingsModels_def createThingsModel_def updateThingsModel_def deleteThingsModel_def
  listAuditLogs_def
  listDevices_def getDeviceLatestProperties_def getDevicePropertyTrend_def listDeviceEvents_def
  callDeviceService_def setDeviceProperties_def listDeviceServiceCalls_def
  listDevicePropertySets_def createDevice_def updateDevice_def deleteDevice_def

lemmas body_defs =
  credentials_body_def tenant_create_body_def tenant_update_body_def product_create_body_def
  product_update_body_def model_create_body_def model_update_body_def device_create_body_def
  device_update_body_def

text \<open>The bodies are well-formed JSON, so the text on the wire reads back as the same value.\<close>

lemma jint_wf: "\<bar>i\<bar> \<le> 2 ^ 53 \<Longrightarrow> js_wf (jint i)"
  by (simp add: jint_def is_double_of_int)

lemma body_ok:
  "obj_ok (model_create_body m)" "obj_ok (model_update_body u)"
  by (rule obj_ok_plain; simp add: body_defs not_index_key is_digit_def)+

lemma model_create_wire:
  assumes "js_wf (JNum (mc_version b))"
    and "js_wf (JObj (mc_properties b))" "js_wf (JObj (mc_events b))" "js_wf (JObj (mc_services b))"
  shows "json_parse (json_compact (JObj (model_create_body b))) = Some (JObj (model_create_body b))"
proof (rule json_parse_compact)
  show "js_wf (JObj (model_create_body b))"
    using assms body_ok(1) [of b] by (simp add: model_create_body_def)
qed

text \<open>A path segment that holds no slash can be read back from a path.\<close>

lemma segment_unique:
  assumes "CHR ''/'' \<notin> set a" "CHR ''/'' \<notin> set b" "a @ CHR ''/'' # x = b @ CHR ''/'' # y"
  shows "a = b \<and> x = y"
  using assms
proof (induction a arbitrary: b)
  case Nil
  then show ?case by (cases b) auto
next
  case (Cons c a)
  then show ?case by (cases b) auto
qed

end
