(* ===== verification/ThingsModelDrafts.thy ===== *)
theory ThingsModelDrafts
  imports Services
begin

text \<open>
  The editor model of a things model (\<open>pages/Admin/ThingsModelManagement.tsx\<close>, the functions
  before the component): draft rows, the conversions between rows and the JSON object that is
  stored, and the text forms. Draft rows are records that extend one another as the interfaces
  do. \<open>createLocalId\<close> draws identifiers from the runtime's random source: the model takes a
  supply \<open>fresh\<close> and a position in it.
\<close>

section \<open>Results\<close>

definition sum_bind :: "'e + 'a \<Rightarrow> ('a \<Rightarrow> 'e + 'b) \<Rightarrow> 'e + 'b" where
  "sum_bind m k = (case m of Inl e \<Rightarrow> Inl e | Inr a \<Rightarrow> k a)"

fun sum_fold :: "('b \<Rightarrow> 'a \<Rightarrow> 'e + 'b) \<Rightarrow> 'b \<Rightarrow> 'a list \<Rightarrow> 'e + 'b" where
  "sum_fold f acc [] = Inr acc"
| "sum_fold f acc (x # xs) = sum_bind (f acc x) (\<lambda>acc'. sum_fold f acc' xs)"

lemma sum_bind_simps [simp]: "sum_bind (Inl e) k = Inl e" "sum_bind (Inr a) k = k a"
  by (simp_all add: sum_bind_def)

lemma sum_bind_Inr: "sum_bind m k = Inr b \<longleftrightarrow> (\<exists>a. m = Inr a \<and> k a = Inr b)"
  by (cases m) auto

lemma sum_fold_append:
  "sum_fold f acc (xs @ ys) = sum_bind (sum_fold f acc xs) (\<lambda>a. sum_fold f a ys)"
proof (induction xs arbitrary: acc)
  case (Cons x xs)
  then show ?case by (cases "f acc x") auto
qed simp

section \<open>Drafts\<close>

datatype data_type = TInt | TFloat | TDouble | TBool | TString

datatype access_mode = Read | Write | ReadWrite

datatype event_level = Info | Warning | ErrorLevel

datatype call_type = Sync | Async

fun data_type_text :: "data_type \<Rightarrow> string" where
  "data_type_text TInt = ''int''"
| "data_type_text TFloat = ''float''"
| "data_type_text TDouble = ''double''"
| "data_type_text TBool = ''bool''"
| "data_type_text TString = ''string''"

fun access_mode_text :: "access_mode \<Rightarrow> string" where
  "access_mode_text Read = ''read''"
| "access_mode_text Write = ''write''"
| "access_mode_text ReadWrite = ''readwrite''"

fun event_level_text :: "event_level \<Rightarrow> string" where
  "event_level_text Info = ''info''"
| "event_level_text Warning = ''warning''"
| "event_level_text ErrorLevel = ''error''"

fun call_type_text :: "call_type \<Rightarrow> string" where
  "call_type_text Sync = ''sync''"
| "call_type_text Async = ''async''"

record param_draft =
  dr_identifier :: string
  dr_name :: string
  dr_dataType :: data_type
  dr_required :: bool
  dr_min :: string
  dr_max :: string
  dr_step :: string
  dr_unit :: string
  dr_precision :: string

record param_row = param_draft +
  pr_localId :: string

record property_draft = param_draft +
  dr_accessMode :: access_mode

record property_row = property_draft +
  pw_localId :: string

record event_draft =
  ed_identifier :: string
  ed_name :: string
  ed_desc :: string
  ed_level :: event_level

record event_row = event_draft +
  ew_localId :: string
  ew_outputParams :: "param_row list"

record service_draft =
  sd_identifier :: string
  sd_name :: string
  sd_desc :: string
  sd_callType :: call_type

record service_row = service_draft +
  sw_localId :: string
  sw_inputParams :: "param_row list"
  sw_outputParams :: "param_row list"

definition emptyObjectText :: string where
  "emptyObjectText = ''{}''"

definition emptyParamDraft :: param_draft where
  "emptyParamDraft = \<lparr>dr_identifier = [], dr_name = [], dr_dataType = TString, dr_required = False,
     dr_min = [], dr_max = [], dr_step = [], dr_unit = [], dr_precision = []\<rparr>"

definition emptyPropertyDraft :: property_draft where
  "emptyPropertyDraft = param_draft.extend emptyParamDraft (property_draft.fields ReadWrite)"

definition emptyEventDraft :: event_draft where
  "emptyEventDraft = \<lparr>ed_identifier = [], ed_name = [], ed_desc = [], ed_level = Info\<rparr>"

definition emptyServiceDraft :: service_draft where
  "emptyServiceDraft = \<lparr>sd_identifier = [], sd_name = [], sd_desc = [], sd_callType = Sync\<rparr>"

definition createParamDraftRow :: "string \<Rightarrow> param_row" where
  "createParamDraftRow localId = param_draft.extend emptyParamDraft (param_row.fields localId)"

definition createPropertyDraftRow :: "string \<Rightarrow> property_draft \<Rightarrow> property_row" where
  "createPropertyDraftRow localId draft = property_draft.extend draft (property_row.fields localId)"

definition createEventDraftRow :: "string \<Rightarrow> event_draft \<Rightarrow> param_row list \<Rightarrow> event_row" where
  "createEventDraftRow localId draft outputParams =
     event_draft.extend draft (event_row.fields localId outputParams)"

definition createServiceDraftRow ::
  "string \<Rightarrow> service_draft \<Rightarrow> param_row list \<Rightarrow> param_row list \<Rightarrow> service_row" where
  "createServiceDraftRow localId draft inputParams outputParams =
     service_draft.extend draft (service_row.fields localId inputParams outputParams)"

section \<open>Text forms of objects\<close>

definition stringifyObject :: "js_object \<Rightarrow> string" where
  "stringifyObject value = json_pretty (JObj value)"

fun isPlainObject :: "js \<Rightarrow> bool" where
  "isPlainObject (JObj ob) = True"
| "isPlainObject _ = False"

text \<open>The engine chooses the message of the \<open>SyntaxError\<close> of \<open>JSON.parse\<close>.\<close>

definition parseObjectField :: "string \<Rightarrow> js_exn + js_object" where
  "parseObjectField value =
     (case json_parse value of
        None \<Rightarrow> Inl SyntaxError
      | Some (JObj ob) \<Rightarrow> Inr ob
      | Some _ \<Rightarrow> Inl (PlainError ''json object required''))"

definition setObjectEntry :: "string \<Rightarrow> string \<Rightarrow> js_object \<Rightarrow> js_exn + string" where
  "setObjectEntry raw key value =
     sum_bind (parseObjectField raw) (\<lambda>current. Inr (stringifyObject (obj_put key (JObj value) current)))"

definition mergeObjectTemplate :: "string \<Rightarrow> js_object \<Rightarrow> js_exn + string" where
  "mergeObjectTemplate raw template =
     sum_bind (parseObjectField raw) (\<lambda>current. Inr (stringifyObject (obj_spread current template)))"

text \<open>
  The object under a key, or an empty one. (The inherited entries of \<open>Object.prototype\<close> are
  functions, or the prototype itself, which has no own enumerable property.)
\<close>

definition objectEntry :: "js_object \<Rightarrow> string \<Rightarrow> js_object" where
  "objectEntry value key = (case obj_get value key of Some (JObj ob) \<Rightarrow> ob | _ \<Rightarrow> [])"

section \<open>Reading fields\<close>

definition numberOrUndefined :: "string \<Rightarrow> js_exn + jsnum option" where
  "numberOrUndefined value =
     (let trimmed = trim value
      in if trimmed = [] then Inr None
         else let nextValue = Number trimmed
              in if \<not> isFinite nextValue then Inl (PlainError ''numeric spec fields must be valid numbers'')
                 else Inr (Some nextValue))"

definition intOrUndefined :: "string \<Rightarrow> js_exn + jsnum option" where
  "intOrUndefined value =
     (let trimmed = trim value
      in if trimmed = [] then Inr None
         else let nextValue = Number trimmed
              in if \<not> isInteger nextValue \<or> num_lt nextValue (Fin 0)
                 then Inl (PlainError ''precision must be a non-negative integer'')
                 else Inr (Some nextValue))"

text \<open>The argument is \<open>None\<close> when the property is missing.\<close>

fun stringFromUnknown :: "js option \<Rightarrow> string" where
  "stringFromUnknown (Some (JStr s)) = s"
| "stringFromUnknown _ = []"

fun boolFromUnknown :: "js option \<Rightarrow> bool" where
  "boolFromUnknown (Some (JBool b)) = b"
| "boolFromUnknown _ = False"

definition dataTypeFromUnknown :: "js option \<Rightarrow> data_type" where
  "dataTypeFromUnknown value =
     (if value = Some (JStr ''int'') then TInt
      else if value = Some (JStr ''float'') then TFloat
      else if value = Some (JStr ''double'') then TDouble
      else if value = Some (JStr ''bool'') then TBool
      else TString)"

definition accessModeFromUnknown :: "js option \<Rightarrow> access_mode" where
  "accessModeFromUnknown value =
     (if value = Some (JStr ''read'') then Read
      else if value = Some (JStr ''write'') then Write
      else ReadWrite)"

definition eventLevelFromUnknown :: "js option \<Rightarrow> event_level" where
  "eventLevelFromUnknown value =
     (if value = Some (JStr ''warning'') then Warning
      else if value = Some (JStr ''error'') then ErrorLevel
      else Info)"

definition callTypeFromUnknown :: "js option \<Rightarrow> call_type" where
  "callTypeFromUnknown value = (if value = Some (JStr ''async'') then Async else Sync)"

text \<open>\<open>isPlainObject(v) ? v : {}\<close>\<close>

fun object_or_empty :: "js option \<Rightarrow> js_object" where
  "object_or_empty (Some (JObj ob)) = ob"
| "object_or_empty _ = []"

definition spec_text :: "js option \<Rightarrow> string" where
  "spec_text v = (case v of None \<Rightarrow> [] | Some x \<Rightarrow> js_str x)"

section \<open>Rows from objects\<close>

definition draftFromParamDefinition :: "string \<Rightarrow> string \<Rightarrow> js \<Rightarrow> param_row" where
  "draftFromParamDefinition localId identifier defn =
     (let body = object_or_empty (Some defn);
          spec = object_or_empty (obj_get body ''spec'')
      in \<lparr>dr_identifier = identifier,
          dr_name = stringFromUnknown (obj_get body ''name''),
          dr_dataType = dataTypeFromUnknown (obj_get body ''data_type''),
          dr_required = boolFromUnknown (obj_get body ''required''),
          dr_min = spec_text (obj_get spec ''min''),
          dr_max = spec_text (obj_get spec ''max''),
          dr_step = spec_text (obj_get spec ''step''),
          dr_unit = stringFromUnknown (obj_get spec ''unit''),
          dr_precision = spec_text (obj_get spec ''precision''),
          pr_localId = localId\<rparr>)"

text \<open>\<open>map\<close> with a function that draws identifiers from the supply.\<close>

fun map_ids :: "(nat \<Rightarrow> 'a \<Rightarrow> 'b \<times> nat) \<Rightarrow> nat \<Rightarrow> 'a list \<Rightarrow> 'b list \<times> nat" where
  "map_ids f n [] = ([], n)"
| "map_ids f n (x # xs) =
     (case f n x of (y, n') \<Rightarrow> case map_ids f n' xs of (ys, n'') \<Rightarrow> (y # ys, n''))"

definition paramRowsFromObject :: "(nat \<Rightarrow> string) \<Rightarrow> nat \<Rightarrow> js_object \<Rightarrow> param_row list \<times> nat" where
  "paramRowsFromObject fresh n value =
     map_ids (\<lambda>n (identifier, d). (draftFromParamDefinition (fresh n) identifier d, Suc n)) n value"

definition propertyRowsFromObject :: "(nat \<Rightarrow> string) \<Rightarrow> nat \<Rightarrow> js_object \<Rightarrow> property_row list \<times> nat" where
  "propertyRowsFromObject fresh n value =
     map_ids (\<lambda>n (identifier, d).
       (let param = draftFromParamDefinition (fresh n) identifier d;
            body = object_or_empty (Some d)
        in (property_draft.extend
             (param_draft.extend (param_draft.truncate param)
                (property_draft.fields (accessModeFromUnknown (obj_get body ''access_mode''))))
             (property_row.fields (pr_localId param)), Suc n))) n value"

definition eventRowsFromObject :: "(nat \<Rightarrow> string) \<Rightarrow> nat \<Rightarrow> js_object \<Rightarrow> event_row list \<times> nat" where
  "eventRowsFromObject fresh n value =
     map_ids (\<lambda>n (identifier, d).
       (let body = object_or_empty (Some d);
            output = object_or_empty (obj_get body ''output'')
        in case paramRowsFromObject fresh n output of (outputParams, n') \<Rightarrow>
             (createEventDraftRow (fresh n')
                \<lparr>ed_identifier = identifier, ed_name = stringFromUnknown (obj_get body ''name''),
                 ed_desc = stringFromUnknown (obj_get body ''desc''),
                 ed_level = eventLevelFromUnknown (obj_get body ''level'')\<rparr> outputParams, Suc n'))) n value"

definition serviceRowsFromObject :: "(nat \<Rightarrow> string) \<Rightarrow> nat \<Rightarrow> js_object \<Rightarrow> service_row list \<times> nat" where
  "serviceRowsFromObject fresh n value =
     map_ids (\<lambda>n (identifier, d).
       (let body = object_or_empty (Some d);
            input = object_or_empty (obj_get body ''input'');
            output = object_or_empty (obj_get body ''output'')
        in case paramRowsFromObject fresh n input of (inputParams, n1) \<Rightarrow>
           case paramRowsFromObject fresh n1 output of (outputParams, n2) \<Rightarrow>
             (createServiceDraftRow (fresh n2)
                \<lparr>sd_identifier = identifier, sd_name = stringFromUnknown (obj_get body ''name''),
                 sd_desc = stringFromUnknown (obj_get body ''desc''),
                 sd_callType = callTypeFromUnknown (obj_get body ''call_type'')\<rparr>
                inputParams outputParams, Suc n2))) n value"

section \<open>Objects from rows\<close>

definition assign_some :: "string \<Rightarrow> 'a option \<Rightarrow> ('a \<Rightarrow> js) \<Rightarrow> js_object \<Rightarrow> js_object" where
  "assign_some k v f ob = (case v of None \<Rightarrow> ob | Some x \<Rightarrow> obj_assign k (f x) ob)"

definition paramSpecFromDraft :: "'a param_draft_scheme \<Rightarrow> js_exn + js_object" where
  "paramSpecFromDraft draft =
     sum_bind (numberOrUndefined (dr_min draft)) (\<lambda>mn.
     sum_bind (numberOrUndefined (dr_max draft)) (\<lambda>mx.
     sum_bind (numberOrUndefined (dr_step draft)) (\<lambda>st.
     sum_bind (intOrUndefined (dr_precision draft)) (\<lambda>precision.
       let unt = trim (dr_unit draft)
       in Inr (assign_some ''precision'' precision JNum
                (assign_some ''unit'' (if unt \<noteq> [] then Some unt else None) JStr
                  (assign_some ''step'' st JNum
                    (assign_some ''max'' mx JNum
                      (assign_some ''min'' mn JNum [])))))))))"

definition paramDefinitionFromDraft :: "'a param_draft_scheme \<Rightarrow> js_exn + js_object" where
  "paramDefinitionFromDraft draft =
     sum_bind (paramSpecFromDraft draft) (\<lambda>spec.
       let defn = [(''name'', JStr (trim (dr_name draft))),
              (''data_type'', JStr (data_type_text (dr_dataType draft))),
              (''required'', JBool (dr_required draft))]
       in Inr (if 0 < length spec then obj_assign ''spec'' (JObj spec) defn else defn))"

definition propertyDefinitionFromDraft :: "'a property_draft_scheme \<Rightarrow> js_exn + js_object" where
  "propertyDefinitionFromDraft draft =
     sum_bind (paramDefinitionFromDraft draft) (\<lambda>d.
       Inr (obj_put ''access_mode'' (JStr (access_mode_text (dr_accessMode draft))) d))"

text \<open>
  The shape of the \<open>reduce\<close> calls: rows without an identifier are skipped, the others are
  assigned under their trimmed identifier.
\<close>

definition reduce_rows ::
  "('r \<Rightarrow> string) \<Rightarrow> ('r \<Rightarrow> js_exn + js_object) \<Rightarrow> 'r list \<Rightarrow> js_exn + js_object" where
  "reduce_rows identifier_of build rows =
     sum_fold (\<lambda>result row.
       let identifier = trim (identifier_of row)
       in if identifier = [] then Inr result
          else sum_bind (build row) (\<lambda>d. Inr (obj_assign identifier (JObj d) result))) [] rows"

definition objectFromParamRows :: "param_row list \<Rightarrow> js_exn + js_object" where
  "objectFromParamRows rows = reduce_rows dr_identifier paramDefinitionFromDraft rows"

definition objectFromPropertyRows :: "property_row list \<Rightarrow> js_exn + js_object" where
  "objectFromPropertyRows rows = reduce_rows dr_identifier propertyDefinitionFromDraft rows"

definition eventDefinitionFromRow :: "event_row \<Rightarrow> js_exn + js_object" where
  "eventDefinitionFromRow row =
     sum_bind (objectFromParamRows (ew_outputParams row)) (\<lambda>output.
       Inr [(''name'', JStr (trim (ed_name row))), (''level'', JStr (event_level_text (ed_level row))),
            (''desc'', JStr (trim (ed_desc row))), (''output'', JObj output)])"

definition objectFromEventRows :: "event_row list \<Rightarrow> js_exn + js_object" where
  "objectFromEventRows rows = reduce_rows ed_identifier eventDefinitionFromRow rows"

definition serviceDefinitionFromRow :: "service_row \<Rightarrow> js_exn + js_object" where
  "serviceDefinitionFromRow row =
     sum_bind (objectFromParamRows (sw_inputParams row)) (\<lambda>input.
     sum_bind (objectFromParamRows (sw_outputParams row)) (\<lambda>output.
       Inr [(''name'', JStr (trim (sd_name row))), (''call_type'', JStr (call_type_text (sd_callType row))),
            (''desc'', JStr (trim (sd_desc row))), (''input'', JObj input), (''output'', JObj output)]))"

definition objectFromServiceRows :: "service_row list \<Rightarrow> js_exn + js_object" where
  "objectFromServiceRows rows = reduce_rows sd_identifier serviceDefinitionFromRow rows"

text \<open>\<open>engine\<close> is the message of an error that the engine raised.\<close>

fun preview_error :: "string \<Rightarrow> js_exn \<Rightarrow> string" where
  "preview_error engine (ApiError m c) = m"
| "preview_error engine (PlainError m) = m"
| "preview_error engine SyntaxError = engine"
| "preview_error engine EngineError = engine"
| "preview_error engine NonError = ''invalid definition''"

definition safeDefinitionPreview :: "string \<Rightarrow> js_exn + js_object \<Rightarrow> string" where
  "safeDefinitionPreview engine build =
     (case build of
        Inr ob \<Rightarrow> stringifyObject ob
      | Inl e \<Rightarrow> stringifyObject [(''error'', JStr (preview_error engine e))])"

section \<open>Merging into a stored definition\<close>

definition merge_params :: "js_object \<Rightarrow> 'a param_draft_scheme list \<Rightarrow> js_exn + js_object" where
  "merge_params start params =
     sum_fold (\<lambda>result p. sum_bind (paramDefinitionFromDraft p) (\<lambda>d.
       Inr (obj_put (trim (dr_identifier p)) (JObj d) result))) start params"

definition mergeEventDefinition ::
  "string \<Rightarrow> string \<Rightarrow> 'e event_draft_scheme \<Rightarrow> 'a param_draft_scheme list \<Rightarrow> js_exn + string" where
  "mergeEventDefinition raw eventKey event outputParams =
     sum_bind (parseObjectField raw) (\<lambda>current.
       let existing = objectEntry current eventKey; output = objectEntry existing ''output''
       in sum_bind (merge_params output outputParams) (\<lambda>nextOutput.
            Inr (stringifyObject (obj_put eventKey (JObj
              (obj_put ''output'' (JObj nextOutput)
                (obj_put ''desc'' (JStr (trim (ed_desc event)))
                  (obj_put ''level'' (JStr (event_level_text (ed_level event)))
                    (obj_put ''name'' (JStr (trim (ed_name event))) existing))))) current))))"

definition mergeServiceDefinition ::
  "string \<Rightarrow> string \<Rightarrow> 's service_draft_scheme \<Rightarrow> 'a param_draft_scheme list \<Rightarrow> 'b param_draft_scheme list \<Rightarrow>
     js_exn + string" where
  "mergeServiceDefinition raw serviceKey service inputParams outputParams =
     sum_bind (parseObjectField raw) (\<lambda>current.
       let existing = objectEntry current serviceKey;
           input = objectEntry existing ''input''; output = objectEntry existing ''output''
       in sum_bind (merge_params input inputParams) (\<lambda>nextInput.
          sum_bind (merge_params output outputParams) (\<lambda>nextOutput.
            Inr (stringifyObject (obj_put serviceKey (JObj
              (obj_put ''output'' (JObj nextOutput)
                (obj_put ''input'' (JObj nextInput)
                  (obj_put ''desc'' (JStr (trim (sd_desc service)))
                    (obj_put ''call_type'' (JStr (call_type_text (sd_callType service)))
                      (obj_put ''name'' (JStr (trim (sd_name service))) existing)))))) current)))))"

definition objectKeyCount :: "js_object \<Rightarrow> nat" where
  "objectKeyCount value = length (map fst value)"

section \<open>Numbers in a specification\<close>

lemma Number_double: "Number s = Fin x \<Longrightarrow> is_double x"
  by (auto simp: Number_def radix_number_def Let_def is_double_of_int [of 0, simplified]
      split: if_splits prod.splits option.splits list.splits dest: rnd_is_double)

lemma numberOrUndefined_Some:
  assumes "numberOrUndefined s = Inr (Some n)"
  shows "\<exists>x. n = Fin x \<and> is_double x"
  using assms by (cases n) (auto simp: numberOrUndefined_def Let_def Number_double split: if_splits)

lemma intOrUndefined_Some:
  assumes "intOrUndefined s = Inr (Some n)"
  shows "\<exists>x. n = Fin x \<and> is_double x \<and> isInteger n \<and> 0 \<le> x"
  using assms by (cases n) (auto simp: intOrUndefined_def Let_def Number_double split: if_splits)

lemma num_str_trimmed:
  assumes "is_double x"
  shows "trim (num_str (Fin x)) = num_str (Fin x)" "num_str (Fin x) \<noteq> []" "Number (num_str (Fin x)) = Fin x"
  using trim_num_str [OF assms] num_str_head [OF assms] Number_num_str [OF assms] by auto

text \<open>The text of a number in a stored specification reads back as the number.\<close>

definition num_text :: "jsnum option \<Rightarrow> string" where
  "num_text n = (case n of None \<Rightarrow> [] | Some m \<Rightarrow> num_str m)"

lemma numberOrUndefined_again:
  assumes "numberOrUndefined s = Inr n"
  shows "numberOrUndefined (num_text n) = Inr n"
proof (cases n)
  case None
  then show ?thesis by (simp add: num_text_def numberOrUndefined_def)
next
  case (Some m)
  then obtain x where x: "m = Fin x" "is_double x" using numberOrUndefined_Some assms by blast
  show ?thesis using num_str_trimmed [OF x(2)] Some x(1)
    by (simp add: num_text_def numberOrUndefined_def Let_def del: num_str.simps)
qed

lemma intOrUndefined_again:
  assumes "intOrUndefined s = Inr n"
  shows "intOrUndefined (num_text n) = Inr n"
proof (cases n)
  case None
  then show ?thesis by (simp add: num_text_def intOrUndefined_def)
next
  case (Some m)
  then obtain x where x: "m = Fin x" "is_double x" "isInteger m" "0 \<le> x"
    using intOrUndefined_Some assms by blast
  show ?thesis using num_str_trimmed [OF x(2)] Some x(1,3,4)
    by (simp add: num_text_def intOrUndefined_def Let_def del: num_str.simps isInteger.simps)
qed

section \<open>Parameter definitions read back\<close>

text \<open>The specification object, and what each of its fields holds.\<close>

definition spec_object :: "jsnum option \<Rightarrow> jsnum option \<Rightarrow> jsnum option \<Rightarrow> string \<Rightarrow> jsnum option \<Rightarrow> js_object" where
  "spec_object mn mx st u pr =
     opt_entry ''min'' mn JNum @ opt_entry ''max'' mx JNum @ opt_entry ''step'' st JNum @
     opt_entry ''unit'' (if u \<noteq> [] then Some u else None) JStr @ opt_entry ''precision'' pr JNum"

lemma plain_keys [simp]:
  "\<not> is_index_key ''min''" "\<not> is_index_key ''max''" "\<not> is_index_key ''step''"
  "\<not> is_index_key ''unit''" "\<not> is_index_key ''precision''" "\<not> is_index_key ''name''"
  "\<not> is_index_key ''data_type''" "\<not> is_index_key ''required''" "\<not> is_index_key ''spec''"
  "\<not> is_index_key ''access_mode''" "\<not> is_index_key ''level''" "\<not> is_index_key ''desc''"
  "\<not> is_index_key ''output''" "\<not> is_index_key ''input''" "\<not> is_index_key ''call_type''"
  "\<not> is_index_key ''error''"
  by (simp_all add: not_index_key is_digit_def)

lemma paramSpec_eq:
  "paramSpecFromDraft d =
     sum_bind (numberOrUndefined (dr_min d)) (\<lambda>mn.
     sum_bind (numberOrUndefined (dr_max d)) (\<lambda>mx.
     sum_bind (numberOrUndefined (dr_step d)) (\<lambda>st.
     sum_bind (intOrUndefined (dr_precision d)) (\<lambda>pr.
       Inr (spec_object mn mx st (trim (dr_unit d)) pr)))))"
  unfolding paramSpecFromDraft_def
  by (intro arg_cong2 [of _ _ _ _ sum_bind] refl ext)
    (auto simp: spec_object_def assign_some_def opt_entry_def obj_assign_def obj_put_fresh split: option.splits)

lemma spec_object_get:
  "obj_get (spec_object mn mx st u pr) ''min'' = map_option JNum mn"
  "obj_get (spec_object mn mx st u pr) ''max'' = map_option JNum mx"
  "obj_get (spec_object mn mx st u pr) ''step'' = map_option JNum st"
  "obj_get (spec_object mn mx st u pr) ''unit'' = (if u \<noteq> [] then Some (JStr u) else None)"
  "obj_get (spec_object mn mx st u pr) ''precision'' = map_option JNum pr"
  by (auto simp: spec_object_def opt_entry_def split: option.splits)

definition param_object :: "string \<Rightarrow> data_type \<Rightarrow> bool \<Rightarrow> js_object \<Rightarrow> js_object" where
  "param_object nm ty rq spec =
     [(''name'', JStr nm), (''data_type'', JStr (data_type_text ty)), (''required'', JBool rq)] @
     (if spec = [] then [] else [(''spec'', JObj spec)])"

lemma paramDefinition_eq:
  "paramDefinitionFromDraft d = sum_bind (paramSpecFromDraft d) (\<lambda>spec.
     Inr (param_object (trim (dr_name d)) (dr_dataType d) (dr_required d) spec))"
  unfolding paramDefinitionFromDraft_def
  by (intro arg_cong2 [of _ _ _ _ sum_bind] refl ext)
    (simp add: param_object_def obj_assign_def obj_put_fresh Let_def)

lemma param_object_get:
  "obj_get (param_object nm ty rq spec) ''name'' = Some (JStr nm)"
  "obj_get (param_object nm ty rq spec) ''data_type'' = Some (JStr (data_type_text ty))"
  "obj_get (param_object nm ty rq spec) ''required'' = Some (JBool rq)"
  "object_or_empty (obj_get (param_object nm ty rq spec) ''spec'') = spec"
  by (auto simp: param_object_def)

lemma data_type_read [simp]: "dataTypeFromUnknown (Some (JStr (data_type_text ty))) = ty"
  by (cases ty) (simp_all add: dataTypeFromUnknown_def)

lemma access_mode_read [simp]: "accessModeFromUnknown (Some (JStr (access_mode_text am))) = am"
  by (cases am) (simp_all add: accessModeFromUnknown_def)

lemma event_level_read [simp]: "eventLevelFromUnknown (Some (JStr (event_level_text lv))) = lv"
  by (cases lv) (simp_all add: eventLevelFromUnknown_def)

lemma call_type_read [simp]: "callTypeFromUnknown (Some (JStr (call_type_text ct))) = ct"
  by (cases ct) (simp_all add: callTypeFromUnknown_def)

lemma spec_text_num: "spec_text (map_option JNum n) = num_text n"
  by (cases n) (simp_all add: spec_text_def num_text_def)

text \<open>
  Reading a definition that a draft produced gives a draft that produces the same definition,
  whatever object the definition is part of.
\<close>

lemma paramDefinition_again:
  assumes d: "paramDefinitionFromDraft d = Inr ob"
    and r: "dr_name r = stringFromUnknown (obj_get ob' ''name'')"
      "dr_dataType r = dataTypeFromUnknown (obj_get ob' ''data_type'')"
      "dr_required r = boolFromUnknown (obj_get ob' ''required'')"
      "dr_min r = spec_text (obj_get (object_or_empty (obj_get ob' ''spec'')) ''min'')"
      "dr_max r = spec_text (obj_get (object_or_empty (obj_get ob' ''spec'')) ''max'')"
      "dr_step r = spec_text (obj_get (object_or_empty (obj_get ob' ''spec'')) ''step'')"
      "dr_unit r = stringFromUnknown (obj_get (object_or_empty (obj_get ob' ''spec'')) ''unit'')"
      "dr_precision r = spec_text (obj_get (object_or_empty (obj_get ob' ''spec'')) ''precision'')"
    and same: "\<And>k. k \<in> {''name'', ''data_type'', ''required'', ''spec''} \<Longrightarrow> obj_get ob' k = obj_get ob k"
  shows "paramDefinitionFromDraft r = Inr ob"
proof -
  obtain mn mx st pr where n: "numberOrUndefined (dr_min d) = Inr mn" "numberOrUndefined (dr_max d) = Inr mx"
      "numberOrUndefined (dr_step d) = Inr st" "intOrUndefined (dr_precision d) = Inr pr"
    and ob: "ob = param_object (trim (dr_name d)) (dr_dataType d) (dr_required d)
        (spec_object mn mx st (trim (dr_unit d)) pr)"
    using d by (auto simp: paramDefinition_eq paramSpec_eq sum_bind_Inr)
  have u: "stringFromUnknown (if u \<noteq> [] then Some (JStr u) else None) = u" for u by simp
  have "paramSpecFromDraft r = Inr (spec_object mn mx st (trim (dr_unit d)) pr)"
    using n(1-3) [THEN numberOrUndefined_again] n(4) [THEN intOrUndefined_again]
    by (simp add: paramSpec_eq r same ob param_object_get spec_object_get spec_text_num u)
  then show ?thesis by (simp add: paramDefinition_eq r same ob param_object_get)
qed

section \<open>Rows and objects\<close>

text \<open>The fold behind \<open>reduce_rows\<close>, from any object.\<close>

definition reduce_from ::
  "('r \<Rightarrow> string) \<Rightarrow> ('r \<Rightarrow> js_exn + js_object) \<Rightarrow> js_object \<Rightarrow> 'r list \<Rightarrow> js_exn + js_object" where
  "reduce_from idf build ob rows =
     sum_fold (\<lambda>result row.
       let identifier = trim (idf row)
       in if identifier = [] then Inr result
          else sum_bind (build row) (\<lambda>d. Inr (obj_assign identifier (JObj d) result))) ob rows"

lemma reduce_rows_from: "reduce_rows idf build rows = reduce_from idf build [] rows"
  by (simp add: reduce_rows_def reduce_from_def)

lemma reduce_from_Nil [simp]: "reduce_from idf build ob [] = Inr ob"
  by (simp add: reduce_from_def)

lemma reduce_from_Cons:
  "reduce_from idf build ob (row # rows) =
     (if trim (idf row) = [] then reduce_from idf build ob rows
      else sum_bind (build row) (\<lambda>d. reduce_from idf build (obj_assign (trim (idf row)) (JObj d) ob) rows))"
  by (cases "build row") (simp_all add: reduce_from_def Let_def)

text \<open>What a member of the result is.\<close>

definition built :: "('r \<Rightarrow> js_exn + js_object) \<Rightarrow> js_object \<Rightarrow> bool" where
  "built build ob \<longleftrightarrow> obj_ok ob \<and>
     (\<forall>(k, v) \<in> set ob. k \<noteq> [] \<and> trim k = k \<and> k \<noteq> ''__proto__'' \<and> (\<exists>row d. build row = Inr d \<and> v = JObj d))"

lemma built_assign:
  assumes "built build ob" "build row = Inr d" "trim k \<noteq> []"
  shows "built build (obj_assign (trim k) (JObj d) ob)"
proof (cases "trim k = ''__proto__''")
  case False
  have "obj_ok (obj_put (trim k) (JObj d) ob)" using assms(1) by (simp add: built_def obj_put_ok)
  moreover have "k' \<noteq> [] \<and> trim k' = k' \<and> k' \<noteq> ''__proto__'' \<and> (\<exists>row d. build row = Inr d \<and> v = JObj d)"
    if "(k', v) \<in> set (obj_put (trim k) (JObj d) ob)" for k' v
  proof (cases "(k', v) \<in> set ob")
    case True
    with assms(1) show ?thesis by (auto simp: built_def)
  next
    case new: False
    then have "k' = trim k" "v = JObj d" using that set_obj_put [of "trim k" "JObj d" ob] by auto
    with assms(2,3) False show ?thesis by auto
  qed
  ultimately show ?thesis using False by (auto simp: built_def obj_assign_def)
qed (use assms in \<open>simp add: obj_assign_def\<close>)

lemma reduce_built:
  "reduce_from idf build ob rows = Inr ob' \<Longrightarrow> built build ob \<Longrightarrow> built build ob'"
proof (induction rows arbitrary: ob)
  case (Cons row rows)
  show ?case
  proof (cases "trim (idf row) = []")
    case True
    then show ?thesis using Cons by (simp add: reduce_from_Cons)
  next
    case False
    then obtain d where d: "build row = Inr d"
        "reduce_from idf build (obj_assign (trim (idf row)) (JObj d) ob) rows = Inr ob'"
      using Cons.prems(1) by (auto simp: reduce_from_Cons sum_bind_Inr)
    show ?thesis by (rule Cons.IH [OF d(2)]) (rule built_assign [OF Cons.prems(2) d(1) False])
  qed
qed simp

text \<open>Rows that stand for the members of an object, in order, build that object.\<close>

lemma rebuild:
  assumes "list_all2 (\<lambda>row (k, v). idf row = k \<and> (\<exists>d. build row = Inr d \<and> v = JObj d)) rows ob'"
    and "built build (ob @ ob')"
  shows "reduce_from idf build ob rows = Inr (ob @ ob')"
  using assms
proof (induction rows arbitrary: ob ob')
  case (Cons row rows)
  then obtain k v r where r: "ob' = (k, v) # r" by (cases ob') auto
  then obtain d where d: "idf row = k" "build row = Inr d" "v = JObj d"
      "list_all2 (\<lambda>row (k, v). idf row = k \<and> (\<exists>d. build row = Inr d \<and> v = JObj d)) rows r"
    using Cons.prems(1) by auto
  have k: "k \<noteq> []" "trim k = k" "k \<noteq> ''__proto__''" using Cons.prems(2) r by (auto simp: built_def)
  have b: "built build ((ob @ [(k, v)]) @ r)" using Cons.prems(2) r by simp
  then have "obj_ok (ob @ [(k, v)])" unfolding built_def by (metis obj_ok_append)
  then have "obj_assign k v ob = ob @ [(k, v)]" using k by (simp add: obj_assign_def obj_put_last)
  then show ?case using Cons.IH [OF d(4) b] k d(1-3) r by (simp add: reduce_from_Cons)
qed simp

lemma map_ids_rows:
  assumes "\<And>n x. x \<in> set xs \<Longrightarrow> Q (fst (f n x)) x"
  shows "list_all2 Q (fst (map_ids f n xs)) xs"
  using assms
proof (induction xs arbitrary: n)
  case (Cons x xs)
  obtain y n' where y: "f n x = (y, n')" by force
  obtain ys n'' where ys: "map_ids f n' xs = (ys, n'')" by force
  have "Q y x" using Cons.prems [of x n] y by simp
  moreover have "list_all2 Q ys xs" using Cons.IH [of n'] Cons.prems ys by simp
  ultimately show ?case by (simp add: y ys)
qed simp

text \<open>
  The interface between rows and stored objects: how a row is identified, built and read back.
  Whatever rows were saved, reading the saved object and saving again gives the same object.
\<close>

locale row_codec =
  fixes idf :: "'r \<Rightarrow> string"
    and build :: "'r \<Rightarrow> js_exn + js_object"
    and read :: "nat \<Rightarrow> string \<times> js \<Rightarrow> 'r \<times> nat"
  assumes read_identifier: "idf (fst (read n (k, v))) = k"
    and build_again: "build row = Inr d \<Longrightarrow> build (fst (read n (k, JObj d))) = Inr d"
begin

lemma saved_built: "reduce_rows idf build rows = Inr ob \<Longrightarrow> built build ob"
  by (rule reduce_built [of idf build "[]" rows]) (simp_all add: reduce_rows_from built_def)

lemma built_again:
  assumes b: "built build ob"
  shows "reduce_rows idf build (fst (map_ids read n ob)) = Inr ob"
proof -
  have "list_all2 (\<lambda>row (k, v). idf row = k \<and> (\<exists>d. build row = Inr d \<and> v = JObj d)) (fst (map_ids read n ob)) ob"
  proof (rule map_ids_rows)
    fix m x assume x: "x \<in> set ob"
    obtain k v where kv: "x = (k, v)" by force
    then obtain row d where d: "build row = Inr d" "v = JObj d" using b x by (fastforce simp: built_def)
    show "case x of (k, v) \<Rightarrow> idf (fst (read m x)) = k \<and> (\<exists>d. build (fst (read m x)) = Inr d \<and> v = JObj d)"
      using build_again [OF d(1)] d(2) kv by (simp add: read_identifier)
  qed
  then show ?thesis using rebuild [of idf build _ ob "[]"] b by (simp add: reduce_rows_from)
qed

lemma save_again: "reduce_rows idf build rows = Inr ob \<Longrightarrow> reduce_rows idf build (fst (map_ids read n ob)) = Inr ob"
  by (rule built_again) (rule saved_built)

text \<open>The result of a save holds, under each identifier, what the last row with it builds.\<close>

lemma saved_lookup:
  "reduce_from idf build ob rows = Inr ob' \<Longrightarrow> k \<noteq> ''__proto__'' \<Longrightarrow> k \<noteq> [] \<Longrightarrow>
     obj_get ob' k = (case find (\<lambda>row. trim (idf row) = k) (rev rows) of
        Some row \<Rightarrow> (case build row of Inr d \<Rightarrow> Some (JObj d) | Inl _ \<Rightarrow> None)
      | None \<Rightarrow> obj_get ob k)"
proof (induction rows arbitrary: ob' rule: rev_induct)
  case (snoc row rows)
  have split: "reduce_from idf build ob (rows @ [row]) =
      sum_bind (reduce_from idf build ob rows) (\<lambda>a. reduce_from idf build a [row])"
    by (simp add: reduce_from_def sum_fold_append)
  then obtain a where a: "reduce_from idf build ob rows = Inr a" "reduce_from idf build a [row] = Inr ob'"
    using snoc.prems(1) [unfolded split sum_bind_Inr] by blast
  show ?case
  proof (cases "trim (idf row) = []")
    case True
    then show ?thesis using a snoc.IH [OF a(1) snoc.prems(2,3)] snoc.prems(3)
      by (simp add: reduce_from_Cons)
  next
    case False
    then obtain d where d: "build row = Inr d" "ob' = obj_assign (trim (idf row)) (JObj d) a"
      using a(2) by (auto simp: reduce_from_Cons sum_bind_Inr)
    then show ?thesis using snoc.IH [OF a(1) snoc.prems(2,3)] snoc.prems(2)
      by (auto simp: obj_get_assign)
  qed
qed simp

lemma saved_fails:
  "(\<exists>e. reduce_from idf build ob rows = Inl e) \<longleftrightarrow>
     (\<exists>row \<in> set rows. trim (idf row) \<noteq> [] \<and> (\<exists>e. build row = Inl e))"
proof (induction rows arbitrary: ob)
  case (Cons row rows)
  show ?case by (cases "build row") (auto simp: reduce_from_Cons Cons.IH)
qed simp

end

definition read_param :: "(nat \<Rightarrow> string) \<Rightarrow> nat \<Rightarrow> string \<times> js \<Rightarrow> param_row \<times> nat" where
  "read_param fresh n x = (draftFromParamDefinition (fresh n) (fst x) (snd x), Suc n)"

lemma paramRows_read: "paramRowsFromObject fresh n ob = map_ids (read_param fresh) n ob"
proof -
  have "(\<lambda>n (identifier, d). (draftFromParamDefinition (fresh n) identifier d, Suc n)) = read_param fresh"
    by (auto simp: fun_eq_iff read_param_def)
  then show ?thesis by (simp add: paramRowsFromObject_def)
qed

interpretation params: row_codec dr_identifier paramDefinitionFromDraft "read_param fresh" for fresh
proof
  fix n k v
  show "dr_identifier (fst (read_param fresh n (k, v))) = k"
    by (simp add: read_param_def draftFromParamDefinition_def Let_def)
next
  fix row :: param_row and d n k
  assume "paramDefinitionFromDraft row = Inr d"
  then show "paramDefinitionFromDraft (fst (read_param fresh n (k, JObj d))) = Inr d"
    by (rule paramDefinition_again [where ob' = d]) (simp_all add: read_param_def draftFromParamDefinition_def Let_def)
qed

definition read_property :: "(nat \<Rightarrow> string) \<Rightarrow> nat \<Rightarrow> string \<times> js \<Rightarrow> property_row \<times> nat" where
  "read_property fresh n x =
     (let param = draftFromParamDefinition (fresh n) (fst x) (snd x);
          body = object_or_empty (Some (snd x))
      in (property_draft.extend
           (param_draft.extend (param_draft.truncate param)
              (property_draft.fields (accessModeFromUnknown (obj_get body ''access_mode''))))
           (property_row.fields (pr_localId param)), Suc n))"

lemma propertyRows_read: "propertyRowsFromObject fresh n ob = map_ids (read_property fresh) n ob"
proof -
  have "read_property fresh = (\<lambda>n (identifier, d).
       (let param = draftFromParamDefinition (fresh n) identifier d;
            body = object_or_empty (Some d)
        in (property_draft.extend
             (param_draft.extend (param_draft.truncate param)
                (property_draft.fields (accessModeFromUnknown (obj_get body ''access_mode''))))
             (property_row.fields (pr_localId param)), Suc n)))"
    by (auto simp: fun_eq_iff read_property_def)
  then show ?thesis by (simp add: propertyRowsFromObject_def)
qed

lemma read_property_fields:
  "fst (read_property fresh n (k, JObj d)) =
     \<lparr>dr_identifier = k, dr_name = stringFromUnknown (obj_get d ''name''),
      dr_dataType = dataTypeFromUnknown (obj_get d ''data_type''),
      dr_required = boolFromUnknown (obj_get d ''required''),
      dr_min = spec_text (obj_get (object_or_empty (obj_get d ''spec'')) ''min''),
      dr_max = spec_text (obj_get (object_or_empty (obj_get d ''spec'')) ''max''),
      dr_step = spec_text (obj_get (object_or_empty (obj_get d ''spec'')) ''step''),
      dr_unit = stringFromUnknown (obj_get (object_or_empty (obj_get d ''spec'')) ''unit''),
      dr_precision = spec_text (obj_get (object_or_empty (obj_get d ''spec'')) ''precision''),
      dr_accessMode = accessModeFromUnknown (obj_get d ''access_mode''), pw_localId = fresh n\<rparr>"
  by (simp add: read_property_def draftFromParamDefinition_def Let_def param_draft.defs property_draft.defs
      property_row.defs)

interpretation properties: row_codec dr_identifier propertyDefinitionFromDraft "read_property fresh" for fresh
proof
  fix n k v
  show "dr_identifier (fst (read_property fresh n (k, v))) = k"
    by (simp add: read_property_def draftFromParamDefinition_def Let_def param_draft.defs property_draft.defs
      property_row.defs)
next
  fix row :: property_row and d n k
  assume "propertyDefinitionFromDraft row = Inr d"
  then obtain d0 where d0: "paramDefinitionFromDraft row = Inr d0"
    and d: "d = obj_put ''access_mode'' (JStr (access_mode_text (dr_accessMode row))) d0"
    by (auto simp: propertyDefinitionFromDraft_def sum_bind_Inr)
  have "paramDefinitionFromDraft (fst (read_property fresh n (k, JObj d))) = Inr d0"
    by (rule paramDefinition_again [OF d0, where ob' = d]) (auto simp: read_property_fields d)
  then show "propertyDefinitionFromDraft (fst (read_property fresh n (k, JObj d))) = Inr d"
    by (simp add: propertyDefinitionFromDraft_def read_property_fields d)
qed

definition read_event :: "(nat \<Rightarrow> string) \<Rightarrow> nat \<Rightarrow> string \<times> js \<Rightarrow> event_row \<times> nat" where
  "read_event fresh n x =
     (let body = object_or_empty (Some (snd x));
          output = object_or_empty (obj_get body ''output'')
      in case paramRowsFromObject fresh n output of (outputParams, n') \<Rightarrow>
           (createEventDraftRow (fresh n')
              \<lparr>ed_identifier = fst x, ed_name = stringFromUnknown (obj_get body ''name''),
               ed_desc = stringFromUnknown (obj_get body ''desc''),
               ed_level = eventLevelFromUnknown (obj_get body ''level'')\<rparr> outputParams, Suc n'))"

lemma eventRows_read: "eventRowsFromObject fresh n ob = map_ids (read_event fresh) n ob"
  unfolding eventRowsFromObject_def
  by (rule arg_cong [of _ _ "\<lambda>f. map_ids f n ob"]) (auto simp: fun_eq_iff read_event_def)

lemma read_event_fields:
  "ed_identifier (fst (read_event fresh n (k, v))) = k"
  "ed_name (fst (read_event fresh n (k, JObj d))) = stringFromUnknown (obj_get d ''name'')"
  "ed_desc (fst (read_event fresh n (k, JObj d))) = stringFromUnknown (obj_get d ''desc'')"
  "ed_level (fst (read_event fresh n (k, JObj d))) = eventLevelFromUnknown (obj_get d ''level'')"
  "ew_outputParams (fst (read_event fresh n (k, JObj d))) =
     fst (paramRowsFromObject fresh n (object_or_empty (obj_get d ''output'')))"
  by (simp_all add: read_event_def createEventDraftRow_def event_draft.defs event_row.defs Let_def
      split: prod.split)

interpretation events: row_codec ed_identifier eventDefinitionFromRow "read_event fresh" for fresh
proof
  fix n k v
  show "ed_identifier (fst (read_event fresh n (k, v))) = k" by (rule read_event_fields)
next
  fix row :: event_row and d n k
  assume "eventDefinitionFromRow row = Inr d"
  then obtain out where out: "objectFromParamRows (ew_outputParams row) = Inr out"
    and d: "d = [(''name'', JStr (trim (ed_name row))), (''level'', JStr (event_level_text (ed_level row))),
            (''desc'', JStr (trim (ed_desc row))), (''output'', JObj out)]"
    by (auto simp: eventDefinitionFromRow_def sum_bind_Inr)
  have "objectFromParamRows (fst (paramRowsFromObject fresh n out)) = Inr out"
    unfolding objectFromParamRows_def paramRows_read
    by (rule params.save_again) (use out in \<open>simp add: objectFromParamRows_def\<close>)
  then show "eventDefinitionFromRow (fst (read_event fresh n (k, JObj d))) = Inr d"
    by (simp add: eventDefinitionFromRow_def read_event_fields d)
qed

definition read_service :: "(nat \<Rightarrow> string) \<Rightarrow> nat \<Rightarrow> string \<times> js \<Rightarrow> service_row \<times> nat" where
  "read_service fresh n x =
     (let body = object_or_empty (Some (snd x));
          input = object_or_empty (obj_get body ''input'');
          output = object_or_empty (obj_get body ''output'')
      in case paramRowsFromObject fresh n input of (inputParams, n1) \<Rightarrow>
         case paramRowsFromObject fresh n1 output of (outputParams, n2) \<Rightarrow>
           (createServiceDraftRow (fresh n2)
              \<lparr>sd_identifier = fst x, sd_name = stringFromUnknown (obj_get body ''name''),
               sd_desc = stringFromUnknown (obj_get body ''desc''),
               sd_callType = callTypeFromUnknown (obj_get body ''call_type'')\<rparr>
              inputParams outputParams, Suc n2))"

lemma serviceRows_read: "serviceRowsFromObject fresh n ob = map_ids (read_service fresh) n ob"
  unfolding serviceRowsFromObject_def
  by (rule arg_cong [of _ _ "\<lambda>f. map_ids f n ob"]) (auto simp: fun_eq_iff read_service_def)

lemma read_service_fields:
  "sd_identifier (fst (read_service fresh n (k, v))) = k"
  "sd_name (fst (read_service fresh n (k, JObj d))) = stringFromUnknown (obj_get d ''name'')"
  "sd_desc (fst (read_service fresh n (k, JObj d))) = stringFromUnknown (obj_get d ''desc'')"
  "sd_callType (fst (read_service fresh n (k, JObj d))) = callTypeFromUnknown (obj_get d ''call_type'')"
  "sw_inputParams (fst (read_service fresh n (k, JObj d))) =
     fst (paramRowsFromObject fresh n (object_or_empty (obj_get d ''input'')))"
  "sw_outputParams (fst (read_service fresh n (k, JObj d))) =
     fst (paramRowsFromObject fresh (snd (paramRowsFromObject fresh n (object_or_empty (obj_get d ''input''))))
       (object_or_empty (obj_get d ''output'')))"
  by (simp_all add: read_service_def createServiceDraftRow_def service_draft.defs service_row.defs Let_def
      split: prod.split)

interpretation services: row_codec sd_identifier serviceDefinitionFromRow "read_service fresh" for fresh
proof
  fix n k v
  show "sd_identifier (fst (read_service fresh n (k, v))) = k" by (rule read_service_fields)
next
  fix row :: service_row and d n k
  assume "serviceDefinitionFromRow row = Inr d"
  then obtain inp out where io: "objectFromParamRows (sw_inputParams row) = Inr inp"
      "objectFromParamRows (sw_outputParams row) = Inr out"
    and d: "d = [(''name'', JStr (trim (sd_name row))), (''call_type'', JStr (call_type_text (sd_callType row))),
            (''desc'', JStr (trim (sd_desc row))), (''input'', JObj inp), (''output'', JObj out)]"
    by (auto simp: serviceDefinitionFromRow_def sum_bind_Inr)
  have again: "objectFromParamRows rows = Inr ob \<Longrightarrow> objectFromParamRows (fst (paramRowsFromObject fresh m ob)) = Inr ob"
    for rows ob m
    unfolding objectFromParamRows_def paramRows_read by (rule params.save_again)
  show "serviceDefinitionFromRow (fst (read_service fresh n (k, JObj d))) = Inr d"
    using again [OF io(1), of n] again [OF io(2)] by (simp add: serviceDefinitionFromRow_def read_service_fields d)
qed

section \<open>Stored objects are well-formed JSON\<close>

lemma opt_num_wf:
  assumes "numberOrUndefined s = Inr n" shows "js_wf_members (opt_entry k n JNum)"
  using assms numberOrUndefined_Some by (cases n) (fastforce simp: opt_entry_def)+

lemma opt_int_wf:
  assumes "intOrUndefined s = Inr n" shows "js_wf_members (opt_entry k n JNum)"
  using assms intOrUndefined_Some by (cases n) (fastforce simp: opt_entry_def)+

lemma opt_str_wf: "js_wf_members (opt_entry k v JStr)"
  by (cases v) (simp_all add: opt_entry_def)

lemma js_wf_members_append [simp]: "js_wf_members (a @ b) \<longleftrightarrow> js_wf_members a \<and> js_wf_members b"
  by (induction a) auto

lemma opt_entry_keys: "set (map fst (opt_entry k v f)) \<subseteq> {k}"
  by (cases v) (simp_all add: opt_entry_def)

lemma spec_object_keys:
  "set (map fst (spec_object mn mx st u pr)) \<subseteq> {''min'', ''max'', ''step'', ''unit'', ''precision''}"
  unfolding spec_object_def map_append set_append
  by (intro Un_least; rule order_trans [OF opt_entry_keys]; simp)

lemma spec_object_ok: "obj_ok (spec_object mn mx st u pr)"
  by (rule obj_ok_plain) (auto simp: spec_object_def opt_entry_def split: option.splits)

lemma paramDefinition_wf:
  assumes "paramDefinitionFromDraft d = Inr ob" shows "js_wf (JObj ob)"
proof -
  obtain mn mx st pr where n: "numberOrUndefined (dr_min d) = Inr mn" "numberOrUndefined (dr_max d) = Inr mx"
      "numberOrUndefined (dr_step d) = Inr st" "intOrUndefined (dr_precision d) = Inr pr"
    and ob: "ob = param_object (trim (dr_name d)) (dr_dataType d) (dr_required d)
        (spec_object mn mx st (trim (dr_unit d)) pr)"
    using assms by (auto simp: paramDefinition_eq paramSpec_eq sum_bind_Inr)
  have "js_wf_members (spec_object mn mx st (trim (dr_unit d)) pr)"
    using n(1-3) [THEN opt_num_wf] n(4) [THEN opt_int_wf]
    by (simp add: spec_object_def opt_str_wf)
  moreover have "obj_ok ob"
    by (rule obj_ok_plain) (auto simp: ob param_object_def)
  ultimately show ?thesis using spec_object_ok by (simp add: ob) (simp add: param_object_def)
qed

lemma built_wf:
  assumes "built build ob" "\<And>row d. build row = Inr d \<Longrightarrow> js_wf (JObj d)"
  shows "js_wf (JObj ob)"
  using assms by (fastforce simp: built_def js_wf_members_iff)

lemma paramRows_wf: "objectFromParamRows rows = Inr ob \<Longrightarrow> js_wf (JObj ob)"
  unfolding objectFromParamRows_def
  by (rule built_wf [OF params.saved_built]) (auto dest: paramDefinition_wf)

lemma propertyDefinition_wf: "propertyDefinitionFromDraft d = Inr ob \<Longrightarrow> js_wf (JObj ob)"
  using paramDefinition_wf [of d]
  by (auto simp: propertyDefinitionFromDraft_def sum_bind_Inr obj_put_ok js_wf_members_put)

lemma eventDefinition_wf: "eventDefinitionFromRow row = Inr ob \<Longrightarrow> js_wf (JObj ob)"
  using paramRows_wf
  by (auto simp: eventDefinitionFromRow_def sum_bind_Inr intro!: obj_ok_plain)

lemma serviceDefinition_wf: "serviceDefinitionFromRow row = Inr ob \<Longrightarrow> js_wf (JObj ob)"
  using paramRows_wf
  by (auto simp: serviceDefinitionFromRow_def sum_bind_Inr intro!: obj_ok_plain)

lemma saved_wf:
  "objectFromPropertyRows pr = Inr ob \<Longrightarrow> js_wf (JObj ob)"
  "objectFromEventRows er = Inr ob \<Longrightarrow> js_wf (JObj ob)"
  "objectFromServiceRows sr = Inr ob \<Longrightarrow> js_wf (JObj ob)"
  unfolding objectFromPropertyRows_def objectFromEventRows_def objectFromServiceRows_def
  by (rule built_wf [OF properties.saved_built propertyDefinition_wf] built_wf [OF events.saved_built eventDefinition_wf]
      built_wf [OF services.saved_built serviceDefinition_wf]; assumption)+

section \<open>Properties\<close>

text \<open>
  C1: opening a saved model and saving it without edits stores the same properties, events and
  services, byte for byte in content and order: whatever rows were saved, the rows read from the
  stored object (with any new local ids) save to that object again. Numbers pass through their
  decimal text on the way.
\<close>

theorem editor_resave:
  "(objectFromPropertyRows pr = Inr ob1 \<longrightarrow> objectFromPropertyRows (fst (propertyRowsFromObject fresh n1 ob1)) = Inr ob1) \<and>
   (objectFromEventRows er = Inr ob2 \<longrightarrow> objectFromEventRows (fst (eventRowsFromObject fresh n2 ob2)) = Inr ob2) \<and>
   (objectFromServiceRows sr = Inr ob3 \<longrightarrow> objectFromServiceRows (fst (serviceRowsFromObject fresh n3 ob3)) = Inr ob3)"
  unfolding objectFromPropertyRows_def objectFromEventRows_def objectFromServiceRows_def
    propertyRows_read eventRows_read serviceRows_read
  using properties.save_again events.save_again services.save_again by blast

definition sample_row :: property_row where
  "sample_row = \<lparr>dr_identifier = '' temp '', dr_name = ''T'', dr_dataType = TFloat, dr_required = True,
     dr_min = [], dr_max = dec 125, dr_step = [], dr_unit = ''C'', dr_precision = dec 2,
     dr_accessMode = Read, pw_localId = ''a''\<rparr>"

definition sample_object :: js_object where
  "sample_object = [(''temp'', JObj [(''name'', JStr ''T''), (''data_type'', JStr ''float''), (''required'', JBool True),
     (''spec'', JObj [(''max'', JNum (Fin 125)), (''unit'', JStr ''C''), (''precision'', JNum (Fin 2))]),
     (''access_mode'', JStr ''read'')])]"

lemma dec_trim: "trim (dec n) = dec n"
proof (rule trim_plain)
  have "plain_char c" if "is_digit c" for c using that by (auto simp: is_digit_def plain_char_def)
  moreover have "is_digit (hd (dec n))" "is_digit (last (dec n))"
    using dec_digits [of n] dec_not_Nil [of n] by (auto simp: list_all_iff)
  ultimately show "plain_char (hd (dec n)) \<and> plain_char (last (dec n))" by simp
qed

lemma sample_saved: "objectFromPropertyRows [sample_row] = Inr sample_object"
proof -
  have t: "trim '' temp '' = ''temp''" by code_simp
  have u: "trim ''T'' = ''T''" "trim ''C'' = ''C''" by (rule trim_plain; simp add: plain_char_def)+
  have n: "Number (dec 125) = Fin 125" "Number (dec 2) = Fin 2"
    using Number_dec [of 125] Number_dec [of 2] by simp_all
  have "paramSpecFromDraft sample_row = Inr (spec_object None (Some (Fin 125)) None ''C'' (Some (Fin 2)))"
    by (simp add: paramSpec_eq sample_row_def numberOrUndefined_def intOrUndefined_def dec_trim n u Let_def)
  then have "propertyDefinitionFromDraft sample_row = Inr (obj_put ''access_mode'' (JStr ''read'')
      (param_object ''T'' TFloat True (spec_object None (Some (Fin 125)) None ''C'' (Some (Fin 2)))))"
    by (simp add: propertyDefinitionFromDraft_def paramDefinition_eq) (simp add: sample_row_def u)
  then show ?thesis
    by (simp add: objectFromPropertyRows_def reduce_rows_from reduce_from_Cons)
      (simp add: sample_row_def t obj_assign_def sample_object_def param_object_def spec_object_def opt_entry_def obj_put_fresh)
qed

lemma editor_resave_witness:
  "objectFromPropertyRows (fst (propertyRowsFromObject (\<lambda>n. dec n) 0 sample_object)) = Inr sample_object"
  using editor_resave [of "[sample_row]" sample_object "\<lambda>n. dec n" 0] sample_saved by blast

text \<open>
  C25: what the editor saves survives the wire: the JSON text of the saved properties, events or
  services, indented as in the previews or compact as in the request body, parses back to exactly
  the saved object.
\<close>

theorem saved_object_survives_text:
  assumes "objectFromPropertyRows pr = Inr ob \<or> objectFromEventRows er = Inr ob \<or> objectFromServiceRows sr = Inr ob"
  shows "parseObjectField (stringifyObject ob) = Inr ob \<and> json_parse (json_compact (JObj ob)) = Some (JObj ob)"
proof -
  have "js_wf (JObj ob)" using assms saved_wf by blast
  then show ?thesis
    using json_parse_pretty [of "JObj ob"] json_parse_compact [of "JObj ob"]
    by (simp add: parseObjectField_def stringifyObject_def)
qed

lemma saved_object_survives_text_witness: "parseObjectField (stringifyObject sample_object) = Inr sample_object"
  using saved_object_survives_text [of "[sample_row]" sample_object] sample_saved by blast



text \<open>
  A row whose identifier is \<open>__proto__\<close> is lost without an error: the assignment reaches the
  prototype instead of an own property.
\<close>

lemma proto_row_lost:
  assumes "propertyDefinitionFromDraft row = Inr d" "trim (dr_identifier row) = ''__proto__''"
  shows "objectFromPropertyRows [row] = Inr []"
  using assms by (simp add: objectFromPropertyRows_def reduce_rows_from reduce_from_Cons obj_assign_def)

text \<open>A numeric field that is neither empty nor a number.\<close>

definition bad_number :: "string \<Rightarrow> bool" where
  "bad_number s \<longleftrightarrow> trim s \<noteq> [] \<and> \<not> isFinite (Number (trim s))"

definition bad_precision :: "string \<Rightarrow> bool" where
  "bad_precision s \<longleftrightarrow> trim s \<noteq> [] \<and> (\<not> isInteger (Number (trim s)) \<or> num_lt (Number (trim s)) (Fin 0))"

lemma numberOrUndefined_error:
  "(case numberOrUndefined s of Inl e \<Rightarrow> bad_number s \<and> e = PlainError ''numeric spec fields must be valid numbers''
    | Inr _ \<Rightarrow> \<not> bad_number s)"
  by (simp add: numberOrUndefined_def bad_number_def Let_def)

lemma intOrUndefined_error:
  "(case intOrUndefined s of Inl e \<Rightarrow> bad_precision s \<and> e = PlainError ''precision must be a non-negative integer''
    | Inr _ \<Rightarrow> \<not> bad_precision s)"
  by (simp add: intOrUndefined_def bad_precision_def Let_def)

lemma paramSpec_error:
  "(\<exists>e. paramSpecFromDraft d = Inl e) \<longleftrightarrow>
     bad_number (dr_min d) \<or> bad_number (dr_max d) \<or> bad_number (dr_step d) \<or> bad_precision (dr_precision d)"
  using numberOrUndefined_error [of "dr_min d"] numberOrUndefined_error [of "dr_max d"]
    numberOrUndefined_error [of "dr_step d"] intOrUndefined_error [of "dr_precision d"]
  by (auto simp: paramSpec_eq split: sum.splits)

lemma paramSpec_message:
  "paramSpecFromDraft d = Inl e \<Longrightarrow>
     e = PlainError ''numeric spec fields must be valid numbers'' \<or> e = PlainError ''precision must be a non-negative integer''"
  using numberOrUndefined_error [of "dr_min d"] numberOrUndefined_error [of "dr_max d"]
    numberOrUndefined_error [of "dr_step d"] intOrUndefined_error [of "dr_precision d"]
  by (auto simp: paramSpec_eq sum_bind_def split: sum.splits)

lemma propertyDefinition_error:
  "(\<exists>e. propertyDefinitionFromDraft d = Inl e) \<longleftrightarrow> (\<exists>e. paramSpecFromDraft d = Inl e)"
  by (cases "paramSpecFromDraft d") (auto simp: propertyDefinitionFromDraft_def paramDefinition_eq)

text \<open>
  C38: building the properties fails exactly when a row that has an identifier has a numeric field
  that is neither blank nor a finite number, or a precision that is not a non-negative integer;
  rows without an identifier are never looked at.
\<close>

theorem property_save_fails_iff:
  "(\<exists>e. objectFromPropertyRows rows = Inl e) \<longleftrightarrow>
     (\<exists>row \<in> set rows. trim (dr_identifier row) \<noteq> [] \<and>
        (bad_number (dr_min row) \<or> bad_number (dr_max row) \<or> bad_number (dr_step row) \<or> bad_precision (dr_precision row)))"
  using properties.saved_fails [of "[]" rows]
  by (simp add: objectFromPropertyRows_def reduce_rows_from propertyDefinition_error paramSpec_error)

text \<open>
  The editor stores only the members it shows. Every definition of a saved properties object
  consists of name, data type, required flag, access mode and, when a limit, step, unit or
  precision is given, the specification with those; any other member of a definition that was
  loaded is gone after a save.
\<close>

theorem only_known_members_saved:
  assumes "objectFromPropertyRows rows = Inr ob" "obj_get ob k = Some v"
  shows "\<exists>d. v = JObj d \<and>
     set (map fst d) \<subseteq> {''name'', ''data_type'', ''required'', ''access_mode'', ''spec''} \<and>
     set (map fst (object_or_empty (obj_get d ''spec''))) \<subseteq> {''min'', ''max'', ''step'', ''unit'', ''precision''}"
proof -
  have "built (propertyDefinitionFromDraft :: property_row \<Rightarrow> _) ob"
    using assms(1) unfolding objectFromPropertyRows_def by (rule properties.saved_built)
  moreover have "(k, v) \<in> set ob" using assms(2) by (rule map_of_SomeD)
  ultimately obtain row :: property_row and d where d: "propertyDefinitionFromDraft row = Inr d" "v = JObj d"
    by (fastforce simp: built_def)
  then obtain sp where sp: "paramSpecFromDraft row = Inr sp"
      "d = obj_put ''access_mode'' (JStr (access_mode_text (dr_accessMode row)))
         (param_object (trim (dr_name row)) (dr_dataType row) (dr_required row) sp)"
    by (auto simp: propertyDefinitionFromDraft_def paramDefinition_eq sum_bind_Inr)
  have "set (map fst sp) \<subseteq> {''min'', ''max'', ''step'', ''unit'', ''precision''}"
  proof -
    obtain mn mx st u pr where "sp = spec_object mn mx st u pr"
      using sp(1) by (auto simp: paramSpec_eq sum_bind_Inr)
    then show ?thesis by (simp only: spec_object_keys)
  qed
  moreover have "object_or_empty (obj_get d ''spec'') = sp" by (simp add: sp(2) param_object_get)
  moreover have "set (map fst d) \<subseteq> {''name'', ''data_type'', ''required'', ''access_mode'', ''spec''}"
    unfolding sp(2) set_keys_obj_put by (auto simp: param_object_def)
  ultimately show ?thesis using d(2) by auto
qed

lemma only_known_members_saved_witness:
  "\<exists>d. the (obj_get sample_object ''temp'') = JObj d \<and>
     set (map fst d) \<subseteq> {''name'', ''data_type'', ''required'', ''access_mode'', ''spec''}"
  using only_known_members_saved [OF sample_saved, of "''temp''"] by (simp add: sample_object_def)

text \<open>
  Merging one event into the stored text touches nothing else: every other event keeps its
  definition, and the merged event keeps the members that the form does not edit as well as the
  output parameters that are not given again.
\<close>

theorem merge_event_is_local:
  assumes "js_wf (JObj cur)" "mergeEventDefinition (stringifyObject cur) k ev ps = Inr text"
  shows "\<exists>new d out. text = stringifyObject new \<and> obj_get new = (obj_get cur)(k \<mapsto> JObj d) \<and>
     (\<forall>m. m \<notin> {''name'', ''level'', ''desc'', ''output''} \<longrightarrow> obj_get d m = obj_get (objectEntry cur k) m) \<and>
     obj_get d ''output'' = Some (JObj out) \<and>
     (\<forall>i. i \<notin> (\<lambda>p. trim (dr_identifier p)) ` set ps \<longrightarrow>
        obj_get out i = obj_get (objectEntry (objectEntry cur k) ''output'') i)"
proof -
  have other: "obj_get out i = obj_get start i"
    if "merge_params start ps = Inr out" "i \<notin> (\<lambda>p. trim (dr_identifier p)) ` set ps" for start out i
    using that
  proof (induction ps arbitrary: start)
    case Nil
    then show ?case by (simp add: merge_params_def)
  next
    case (Cons p ps)
    then obtain d where d: "paramDefinitionFromDraft p = Inr d"
        "merge_params (obj_put (trim (dr_identifier p)) (JObj d) start) ps = Inr out"
      by (auto simp: merge_params_def sum_bind_Inr)
    have ne: "i \<noteq> trim (dr_identifier p)" "i \<notin> (\<lambda>p. trim (dr_identifier p)) ` set ps" using Cons.prems(2) by auto
    have "obj_get out i = obj_get (obj_put (trim (dr_identifier p)) (JObj d) start) i" by (rule Cons.IH [OF d(2) ne(2)])
    then show ?case using ne(1) by simp
  qed
  have "parseObjectField (stringifyObject cur) = Inr cur"
    using json_parse_pretty [OF assms(1)] by (simp add: parseObjectField_def stringifyObject_def)
  then obtain out where out: "merge_params (objectEntry (objectEntry cur k) ''output'') ps = Inr out"
    and t: "text = stringifyObject (obj_put k (JObj
              (obj_put ''output'' (JObj out)
                (obj_put ''desc'' (JStr (trim (ed_desc ev)))
                  (obj_put ''level'' (JStr (event_level_text (ed_level ev)))
                    (obj_put ''name'' (JStr (trim (ed_name ev))) (objectEntry cur k)))))) cur)"
    using assms(2) by (auto simp: mergeEventDefinition_def Let_def sum_bind_Inr)
  show ?thesis
    by (intro exI conjI, rule t) (use other [OF out] in \<open>auto simp: fun_eq_iff\<close>)
qed

lemma merge_event_is_local_witness:
  "\<exists>text new d. mergeEventDefinition (stringifyObject [(''a'', JNull)]) ''b'' emptyEventDraft ([] :: param_draft list) = Inr text \<and>
     text = stringifyObject new \<and> obj_get new = (obj_get [(''a'', JNull)])(''b'' \<mapsto> JObj d)"
proof -
  have w: "js_wf (JObj [(''a'', JNull)])" by (simp add: obj_ok_def)
  have p: "parseObjectField (stringifyObject [(''a'', JNull)]) = Inr [(''a'', JNull)]"
    using json_parse_pretty [OF w] by (simp add: parseObjectField_def stringifyObject_def)
  then obtain res where "mergeEventDefinition (stringifyObject [(''a'', JNull)]) ''b'' emptyEventDraft ([] :: param_draft list) = Inr res"
    by (simp add: mergeEventDefinition_def Let_def merge_params_def)
  with merge_event_is_local [OF w this] show ?thesis by metis
qed

end
