(* ===== verification/StateMachine.thy ===== *)
theory StateMachine
  imports JsPrelude
begin

text \<open>
  The interface that the stores and the realtime connection share: a machine with an initial
  state and a step function, and an invariant that every step keeps. What holds of every
  reachable state is proved once here.
\<close>

locale invariant_machine =
  fixes init :: "'s"
    and step :: "'e \<Rightarrow> 's \<Rightarrow> 's"
    and inv :: "'s \<Rightarrow> bool"
  assumes inv_init: "inv init"
    and inv_step: "inv s \<Longrightarrow> inv (step e s)"
begin

definition run :: "'e list \<Rightarrow> 's" where
  "run es = fold step es init"

lemma run_snoc: "run (es @ [e]) = step e (run es)"
  by (simp add: run_def)

lemma inv_fold: "inv s \<Longrightarrow> inv (fold step es s)"
  by (induction es arbitrary: s) (auto intro: inv_step)

lemma inv_run: "inv (run es)"
  unfolding run_def by (rule inv_fold) (rule inv_init)

inductive reachable :: "'s \<Rightarrow> bool" where
  reach_init: "reachable init"
| reach_step: "reachable s \<Longrightarrow> reachable (step e s)"

lemma reachable_inv: "reachable s \<Longrightarrow> inv s"
  by (induction rule: reachable.induct) (auto intro: inv_init inv_step)

lemma reachable_run: "reachable (run es)"
  by (induction es rule: rev_induct) (auto simp: run_snoc run_def intro: reachable.intros)

lemma reachable_iff: "reachable s \<longleftrightarrow> (\<exists>es. s = run es)"
proof
  assume "reachable s"
  then show "\<exists>es. s = run es"
  proof (induction rule: reachable.induct)
    case reach_init
    show ?case by (rule exI [of _ "[]"]) (simp add: run_def)
  next
    case (reach_step s e)
    then show ?case by (metis run_snoc)
  qed
qed (auto intro: reachable_run)

end

end
