(* ===== verification/ThingsModelRows.thy ===== *)
theory ThingsModelRows
  imports ThingsModelDrafts StateMachine
begin

text \<open>
  The rows of the things model editor (\<open>pages/Admin/ThingsModelManagement.tsx\<close>): the state
  setters of the property, event and service rows and of the parameter rows nested in them. Rows
  are addressed by their \<open>localId\<close>. The locale states what the setters share: a field edit keeps
  the local id, so an update changes one row and a removal drops one.
\<close>

section \<open>Field edits\<close>

text \<open>A key of a draft with the new value: the pair \<open>key, value\<close> of the setters.\<close>

datatype param_edit =
    SetIdentifier string
  | SetName string
  | SetDataType data_type
  | SetRequired bool
  | SetMin string
  | SetMax string
  | SetStep string
  | SetUnit string
  | SetPrecision string

datatype property_edit = SetParam param_edit | SetAccessMode access_mode

datatype event_edit =
    SetEventIdentifier string
  | SetEventName string
  | SetEventDesc string
  | SetEventLevel event_level

datatype service_edit =
    SetServiceIdentifier string
  | SetServiceName string
  | SetServiceDesc string
  | SetServiceCallType call_type

fun edit_param :: "param_edit \<Rightarrow> 'a param_draft_scheme \<Rightarrow> 'a param_draft_scheme" where
  "edit_param (SetIdentifier v) row = row\<lparr>dr_identifier := v\<rparr>"
| "edit_param (SetName v) row = row\<lparr>dr_name := v\<rparr>"
| "edit_param (SetDataType v) row = row\<lparr>dr_dataType := v\<rparr>"
| "edit_param (SetRequired v) row = row\<lparr>dr_required := v\<rparr>"
| "edit_param (SetMin v) row = row\<lparr>dr_min := v\<rparr>"
| "edit_param (SetMax v) row = row\<lparr>dr_max := v\<rparr>"
| "edit_param (SetStep v) row = row\<lparr>dr_step := v\<rparr>"
| "edit_param (SetUnit v) row = row\<lparr>dr_unit := v\<rparr>"
| "edit_param (SetPrecision v) row = row\<lparr>dr_precision := v\<rparr>"

fun edit_property :: "property_edit \<Rightarrow> 'a property_draft_scheme \<Rightarrow> 'a property_draft_scheme" where
  "edit_property (SetParam e) row = edit_param e row"
| "edit_property (SetAccessMode v) row = row\<lparr>dr_accessMode := v\<rparr>"

fun edit_event :: "event_edit \<Rightarrow> 'a event_draft_scheme \<Rightarrow> 'a event_draft_scheme" where
  "edit_event (SetEventIdentifier v) row = row\<lparr>ed_identifier := v\<rparr>"
| "edit_event (SetEventName v) row = row\<lparr>ed_name := v\<rparr>"
| "edit_event (SetEventDesc v) row = row\<lparr>ed_desc := v\<rparr>"
| "edit_event (SetEventLevel v) row = row\<lparr>ed_level := v\<rparr>"

fun edit_service :: "service_edit \<Rightarrow> 'a service_draft_scheme \<Rightarrow> 'a service_draft_scheme" where
  "edit_service (SetServiceIdentifier v) row = row\<lparr>sd_identifier := v\<rparr>"
| "edit_service (SetServiceName v) row = row\<lparr>sd_name := v\<rparr>"
| "edit_service (SetServiceDesc v) row = row\<lparr>sd_desc := v\<rparr>"
| "edit_service (SetServiceCallType v) row = row\<lparr>sd_callType := v\<rparr>"

section \<open>Rows by local id\<close>

text \<open>\<open>rows.map((row) => row.localId === localId ? f row : row)\<close> and the matching filter.\<close>

definition update_row :: "('r \<Rightarrow> string) \<Rightarrow> string \<Rightarrow> ('r \<Rightarrow> 'r) \<Rightarrow> 'r list \<Rightarrow> 'r list" where
  "update_row key localId f rows = map (\<lambda>row. if key row = localId then f row else row) rows"

definition remove_row :: "('r \<Rightarrow> string) \<Rightarrow> string \<Rightarrow> 'r list \<Rightarrow> 'r list" where
  "remove_row key localId rows = filter (\<lambda>row. key row \<noteq> localId) rows"

definition updatePropertyRow :: "string \<Rightarrow> property_edit \<Rightarrow> property_row list \<Rightarrow> property_row list" where
  "updatePropertyRow localId e = update_row pw_localId localId (edit_property e)"

definition updateEventRow :: "string \<Rightarrow> event_edit \<Rightarrow> event_row list \<Rightarrow> event_row list" where
  "updateEventRow localId e = update_row ew_localId localId (edit_event e)"

definition addEventOutputParam :: "string \<Rightarrow> string \<Rightarrow> event_row list \<Rightarrow> event_row list" where
  "addEventOutputParam newId eventLocalId =
     update_row ew_localId eventLocalId (\<lambda>row. row\<lparr>ew_outputParams := ew_outputParams row @ [createParamDraftRow newId]\<rparr>)"

definition updateEventOutputParam :: "string \<Rightarrow> string \<Rightarrow> param_edit \<Rightarrow> event_row list \<Rightarrow> event_row list" where
  "updateEventOutputParam eventLocalId localId e =
     update_row ew_localId eventLocalId
       (\<lambda>row. row\<lparr>ew_outputParams := update_row pr_localId localId (edit_param e) (ew_outputParams row)\<rparr>)"

definition removeEventOutputParam :: "string \<Rightarrow> string \<Rightarrow> event_row list \<Rightarrow> event_row list" where
  "removeEventOutputParam eventLocalId localId =
     update_row ew_localId eventLocalId
       (\<lambda>row. row\<lparr>ew_outputParams := remove_row pr_localId localId (ew_outputParams row)\<rparr>)"

definition updateServiceRow :: "string \<Rightarrow> service_edit \<Rightarrow> service_row list \<Rightarrow> service_row list" where
  "updateServiceRow localId e = update_row sw_localId localId (edit_service e)"

definition addServiceInputParam :: "string \<Rightarrow> string \<Rightarrow> service_row list \<Rightarrow> service_row list" where
  "addServiceInputParam newId serviceLocalId =
     update_row sw_localId serviceLocalId (\<lambda>row. row\<lparr>sw_inputParams := sw_inputParams row @ [createParamDraftRow newId]\<rparr>)"

definition updateServiceInputParam :: "string \<Rightarrow> string \<Rightarrow> param_edit \<Rightarrow> service_row list \<Rightarrow> service_row list" where
  "updateServiceInputParam serviceLocalId localId e =
     update_row sw_localId serviceLocalId
       (\<lambda>row. row\<lparr>sw_inputParams := update_row pr_localId localId (edit_param e) (sw_inputParams row)\<rparr>)"

definition removeServiceInputParam :: "string \<Rightarrow> string \<Rightarrow> service_row list \<Rightarrow> service_row list" where
  "removeServiceInputParam serviceLocalId localId =
     update_row sw_localId serviceLocalId
       (\<lambda>row. row\<lparr>sw_inputParams := remove_row pr_localId localId (sw_inputParams row)\<rparr>)"

definition addServiceOutputParam :: "string \<Rightarrow> string \<Rightarrow> service_row list \<Rightarrow> service_row list" where
  "addServiceOutputParam newId serviceLocalId =
     update_row sw_localId serviceLocalId (\<lambda>row. row\<lparr>sw_outputParams := sw_outputParams row @ [createParamDraftRow newId]\<rparr>)"

definition updateServiceOutputParam :: "string \<Rightarrow> string \<Rightarrow> param_edit \<Rightarrow> service_row list \<Rightarrow> service_row list" where
  "updateServiceOutputParam serviceLocalId localId e =
     update_row sw_localId serviceLocalId
       (\<lambda>row. row\<lparr>sw_outputParams := update_row pr_localId localId (edit_param e) (sw_outputParams row)\<rparr>)"

definition removeServiceOutputParam :: "string \<Rightarrow> string \<Rightarrow> service_row list \<Rightarrow> service_row list" where
  "removeServiceOutputParam serviceLocalId localId =
     update_row sw_localId serviceLocalId
       (\<lambda>row. row\<lparr>sw_outputParams := remove_row pr_localId localId (sw_outputParams row)\<rparr>)"

section \<open>Validation\<close>

definition validateParamRows :: "'a param_draft_scheme list \<Rightarrow> bool" where
  "validateParamRows params = list_all (\<lambda>param. trim (dr_identifier param) \<noteq> [] \<and> trim (dr_name param) \<noteq> []) params"

definition valid_event_row :: "event_row \<Rightarrow> bool" where
  "valid_event_row row \<longleftrightarrow> trim (ed_identifier row) \<noteq> [] \<and> trim (ed_name row) \<noteq> [] \<and>
     validateParamRows (ew_outputParams row)"

definition valid_service_row :: "service_row \<Rightarrow> bool" where
  "valid_service_row row \<longleftrightarrow> trim (sd_identifier row) \<noteq> [] \<and> trim (sd_name row) \<noteq> [] \<and>
     validateParamRows (sw_inputParams row) \<and> validateParamRows (sw_outputParams row)"

definition validateDefinitionRows :: "property_row list \<Rightarrow> event_row list \<Rightarrow> service_row list \<Rightarrow> bool" where
  "validateDefinitionRows propertyRows eventRows serviceRows \<longleftrightarrow>
     list_all (\<lambda>row. trim (dr_identifier row) \<noteq> [] \<and> trim (dr_name row) \<noteq> []) propertyRows \<and>
     list_all valid_event_row eventRows \<and> list_all valid_service_row serviceRows"

section \<open>The interface of the setters\<close>

locale draft_rows =
  fixes key :: "'r \<Rightarrow> string" and edit :: "'e \<Rightarrow> 'r \<Rightarrow> 'r"
  assumes edit_key: "key (edit e r) = key r"
begin

lemma update_keys: "map key (update_row key i (edit e) rows) = map key rows"
  by (simp add: update_row_def edit_key)

lemma remove_keys: "map key (remove_row key i rows) = filter (\<lambda>k. k \<noteq> i) (map key rows)"
  by (simp add: remove_row_def filter_map o_def)

lemma update_one:
  assumes "distinct (map key (us @ r # vs))"
  shows "update_row key (key r) (edit e) (us @ r # vs) = us @ edit e r # vs"
proof -
  have "key x \<noteq> key r" if "x \<in> set us \<union> set vs" for x
    using assms that by (auto simp: image_iff)
  then show ?thesis by (auto simp: update_row_def intro!: map_idI)
qed

lemma remove_one:
  assumes "distinct (map key (us @ r # vs))"
  shows "remove_row key (key r) (us @ r # vs) = us @ vs"
proof -
  have "key x \<noteq> key r" if "x \<in> set us \<union> set vs" for x
    using assms that by (auto simp: image_iff)
  then show ?thesis by (simp add: remove_row_def filter_id_conv)
qed

end

lemma edit_param_key: "param_draft.more (edit_param e row) = param_draft.more row"
  by (cases e) simp_all

lemma edit_param_localId: "pr_localId (edit_param e row) = pr_localId row"
  by (cases e) simp_all

lemma edit_property_localId: "pw_localId (edit_property e row) = pw_localId row"
proof (cases e)
  case (SetParam pe)
  then show ?thesis by (cases pe) simp_all
qed simp

lemma edit_event_localId: "ew_localId (edit_event e row) = ew_localId row"
  by (cases e) simp_all

lemma edit_service_localId: "sw_localId (edit_service e row) = sw_localId row"
  by (cases e) simp_all

interpretation param_rows: draft_rows pr_localId edit_param
  by unfold_locales (rule edit_param_localId)

interpretation property_rows: draft_rows pw_localId edit_property
  by unfold_locales (rule edit_property_localId)

interpretation event_rows: draft_rows ew_localId edit_event
  by unfold_locales (rule edit_event_localId)

interpretation service_rows: draft_rows sw_localId edit_service
  by unfold_locales (rule edit_service_localId)

end
