(* ===== verification/PageEffects.thy ===== *)
theory PageEffects
  imports Services
begin

text \<open>
  The data-loading effects of the pages. Each runs an \<open>async\<close> function that may start a
  request, and returns a cleanup that sets the \<open>cancelled\<close> flag of that run; the runtime
  (React) calls the cleanup before the effect runs again and when the component goes away. The
  locale takes the three pieces of an effect from a page and proves once that late answers are
  harmless: an answer changes the page only when it belongs to the latest run.
\<close>

record ('s, 'p) fx =
  fx_state :: 's
  fx_runs :: "(nat \<times> 'p \<times> bool) list"
  fx_next :: nat
  fx_current :: "(nat \<times> 'p) option"
  fx_log :: "effect list"

datatype ('s, 'p, 'd) fx_event =
    Run 'p
  | Settle nat "js_exn + 'd"
  | Gone
  | Other 's

text \<open>The initial state of an effect that has not run.\<close>

definition fx_init :: "'s \<Rightarrow> ('s, 'p) fx" where
  "fx_init s = \<lparr>fx_state = s, fx_runs = [], fx_next = 0, fx_current = None, fx_log = []\<rparr>"

definition fx_cancel :: "('s, 'p) fx \<Rightarrow> ('s, 'p) fx" where
  "fx_cancel m = m\<lparr>fx_runs := map (\<lambda>(i, p, c). (i, p, True)) (fx_runs m), fx_current := None\<rparr>"

locale fetch_effect =
  fixes starts :: "'p \<Rightarrow> 's \<Rightarrow> 's"
    and asks :: "'p \<Rightarrow> http_request option"
    and settles :: "bool \<Rightarrow> 'p \<Rightarrow> js_exn + 'd \<Rightarrow> 's \<Rightarrow> 's \<times> effect list"
  assumes settles_cancelled: "settles True p a s = (s, [])"
begin

inductive fx_step :: "('s, 'p) fx \<Rightarrow> ('s, 'p, 'd) fx_event \<Rightarrow> ('s, 'p) fx \<Rightarrow> bool" where
  run_none: "asks p = None \<Longrightarrow> fx_step m (Run p) ((fx_cancel m)\<lparr>fx_state := starts p (fx_state m)\<rparr>)"
| run_some: "asks p = Some r \<Longrightarrow> fx_step m (Run p)
    ((fx_cancel m)\<lparr>fx_state := starts p (fx_state m), fx_runs := fx_runs (fx_cancel m) @ [(fx_next m, p, False)],
       fx_next := Suc (fx_next m), fx_current := Some (fx_next m, p), fx_log := fx_log m @ [Sent r]\<rparr>)"
| settle: "(i, p, c) \<in> set (fx_runs m) \<Longrightarrow> settles c p a (fx_state m) = (s', es) \<Longrightarrow>
    fx_step m (Settle i a) (m\<lparr>fx_state := s', fx_log := fx_log m @ es,
       fx_runs := filter (\<lambda>(j, q, d). j \<noteq> i) (fx_runs m)\<rparr>)"
| gone: "fx_step m Gone (fx_cancel m)"
| other: "fx_step m (Other s') (m\<lparr>fx_state := s'\<rparr>)"

inductive fx_reachable :: "'s \<Rightarrow> ('s, 'p) fx \<Rightarrow> bool" for s0 where
  fx_start: "fx_reachable s0 (fx_init s0)"
| fx_next: "fx_reachable s0 m \<Longrightarrow> fx_step m ev m' \<Longrightarrow> fx_reachable s0 m'"

definition fx_inv :: "('s, 'p) fx \<Rightarrow> bool" where
  "fx_inv m \<longleftrightarrow> (\<forall>i p. (i, p, False) \<in> set (fx_runs m) \<longrightarrow> fx_current m = Some (i, p)) \<and>
     distinct (map fst (fx_runs m)) \<and> (\<forall>i p c. (i, p, c) \<in> set (fx_runs m) \<longrightarrow> i < fx_next m)"

lemma cancel_runs:
  "map fst (fx_runs (fx_cancel m)) = map fst (fx_runs m)"
  "(i, p, c) \<in> set (fx_runs (fx_cancel m)) \<longleftrightarrow> c \<and> (\<exists>d. (i, p, d) \<in> set (fx_runs m))"
  "fx_next (fx_cancel m) = fx_next m" "fx_current (fx_cancel m) = None"
  by (force simp: fx_cancel_def)+

lemma fx_step_inv: "fx_step m ev m' \<Longrightarrow> fx_inv m \<Longrightarrow> fx_inv m'"
proof (induction rule: fx_step.induct)
  case (run_none p m)
  then have "fx_inv (fx_cancel m)" by (auto simp: fx_inv_def cancel_runs)
  then show ?case by (simp add: fx_inv_def)
next
  case (run_some p r m)
  have n: "fx_next m \<notin> set (map fst (fx_runs (fx_cancel m)))"
    using run_some.prems by (force simp: fx_inv_def cancel_runs(1))
  have "i < Suc (fx_next m)" if "(i, q, c) \<in> set (fx_runs (fx_cancel m))" for i q c
  proof -
    have "\<exists>d. (i, q, d) \<in> set (fx_runs m)" using that by (simp add: cancel_runs(2))
    then have "i < fx_next m" using run_some.prems unfolding fx_inv_def by blast
    then show ?thesis by simp
  qed
  then show ?case using run_some.prems n by (auto simp: fx_inv_def cancel_runs)
next
  case (settle i p c m a s' es)
  then show ?case by (auto simp: fx_inv_def intro: distinct_map_filter)
next
  case (gone m)
  then show ?case by (auto simp: fx_inv_def cancel_runs)
qed (simp add: fx_inv_def)

lemma fx_reachable_inv: "fx_reachable s0 m \<Longrightarrow> fx_inv m"
proof (induction rule: fx_reachable.induct)
  case fx_start
  show ?case by (simp add: fx_inv_def fx_init_def)
next
  case (fx_next m ev m')
  then show ?case using fx_step_inv by blast
qed

text \<open>An answer that changes the page, or shows anything, answers the latest run.\<close>

lemma late_answers_dropped:
  assumes "fx_reachable s0 m" "fx_step m (Settle i a) m'"
  shows "(\<exists>p. fx_current m = Some (i, p)) \<or> fx_state m' = fx_state m \<and> fx_log m' = fx_log m"
  using assms(2)
proof (cases rule: fx_step.cases)
  case (settle p c s' es)
  show ?thesis
  proof (cases c)
    case True
    then show ?thesis using settle by (simp add: settles_cancelled)
  next
    case False
    then show ?thesis using settle fx_reachable_inv [OF assms(1)] by (auto simp: fx_inv_def)
  qed
qed

text \<open>And what it does is what the page does with the answer to the parameters of that run.\<close>

lemma latest_answer_applied:
  assumes "fx_reachable s0 m" "fx_step m (Settle i a) m'" "fx_state m' \<noteq> fx_state m"
  shows "\<exists>p. fx_current m = Some (i, p) \<and> fx_state m' = fst (settles False p a (fx_state m))"
  using assms(2)
proof (cases rule: fx_step.cases)
  case (settle p c s' es)
  show ?thesis
  proof (cases c)
    case True
    then show ?thesis using settle assms(3) by (simp add: settles_cancelled)
  next
    case False
    then show ?thesis using settle fx_reachable_inv [OF assms(1)] by (auto simp: fx_inv_def)
  qed
qed

lemma gone_is_final:
  assumes "fx_reachable s0 m" "fx_step m Gone m1" "fx_step m1 (Settle i a) m2"
  shows "fx_state m2 = fx_state m1 \<and> fx_log m2 = fx_log m1"
proof -
  have "fx_reachable s0 m1" using assms(1,2) by (rule fx_next)
  moreover have "fx_current m1 = None" using assms(2) by (cases rule: fx_step.cases) (simp add: fx_cancel_def)
  ultimately show ?thesis using late_answers_dropped [OF _ assms(3)] by fastforce
qed

end

end
