(* ===== verification/Pagination.thy ===== *)
theory Pagination
  imports Services
begin

text \<open>
  The table of the management pages (\<open>components/AdminDataTable.tsx\<close>): the page count, the
  jump box, the previous and next buttons, the row numbers and which of the placeholders is
  shown. The page count divides in binary64 arithmetic, as the code does; the section on
  rounding shows that the quotient never crosses an integer for totals below \<open>2^53\<close>.
\<close>

section \<open>JavaScript arithmetic\<close>

fun js_div :: "jsnum \<Rightarrow> jsnum \<Rightarrow> jsnum" where
  "js_div (Fin x) (Fin y) =
     (if y \<noteq> 0 then rnd (x / y) else if x = 0 then NaN else if 0 < x then PosInf else NegInf)"
| "js_div NaN _ = NaN"
| "js_div _ NaN = NaN"
| "js_div (Fin x) _ = Fin 0"
| "js_div PosInf (Fin y) = (if 0 \<le> y then PosInf else NegInf)"
| "js_div NegInf (Fin y) = (if 0 \<le> y then NegInf else PosInf)"
| "js_div _ _ = NaN"

fun js_ceil :: "jsnum \<Rightarrow> jsnum" where
  "js_ceil (Fin x) = Fin (of_int (ceiling x))"
| "js_ceil n = n"

definition js_max :: "jsnum \<Rightarrow> jsnum \<Rightarrow> jsnum" where
  "js_max a b = (if a = NaN \<or> b = NaN then NaN else if num_lt a b then b else a)"

definition js_min :: "jsnum \<Rightarrow> jsnum \<Rightarrow> jsnum" where
  "js_min a b = (if a = NaN \<or> b = NaN then NaN else if num_lt b a then b else a)"

abbreviation jsint :: "int \<Rightarrow> jsnum" where
  "jsint i \<equiv> Fin (of_int i)"

section \<open>The pagination bar\<close>

definition totalPages :: "int \<Rightarrow> int \<Rightarrow> jsnum" where
  "totalPages cnt pageSize = js_max (Fin 1) (js_ceil (js_div (jsint cnt) (jsint pageSize)))"

text \<open>
  \<open>handleJumpPage\<close>: the new text of the jump box and the page that \<open>onPageChange\<close> is called
  with, if it is called.
\<close>

definition handleJumpPage :: "int \<Rightarrow> int \<Rightarrow> string \<Rightarrow> string \<times> jsnum option" where
  "handleJumpPage cnt pageSize jumpPage =
     (let nextPage = Number jumpPage
      in if \<not> isInteger nextPage \<or> num_lt nextPage (Fin 1) then (jumpPage, None)
         else ([], Some (js_min nextPage (totalPages cnt pageSize))))"

definition jump_disabled :: "bool \<Rightarrow> string \<Rightarrow> bool" where
  "jump_disabled loading jumpPage \<longleftrightarrow> loading \<or> jumpPage = []"

definition prev_disabled :: "bool \<Rightarrow> int \<Rightarrow> bool" where
  "prev_disabled loading page \<longleftrightarrow> page \<le> 1 \<or> loading"

definition next_disabled :: "bool \<Rightarrow> int \<Rightarrow> int \<Rightarrow> int \<Rightarrow> bool" where
  "next_disabled loading page cnt pageSize \<longleftrightarrow> num_le (totalPages cnt pageSize) (jsint page) \<or> loading"

definition prev_click :: "int \<Rightarrow> jsnum" where
  "prev_click page = js_max (Fin 1) (jsint (page - 1))"

definition next_click :: "int \<Rightarrow> int \<Rightarrow> int \<Rightarrow> jsnum" where
  "next_click page cnt pageSize = js_min (totalPages cnt pageSize) (jsint (page + 1))"

section \<open>The table\<close>

definition rowOffset :: "int \<Rightarrow> int \<Rightarrow> int" where
  "rowOffset page pageSize = (page - 1) * pageSize"

definition row_numbers :: "int \<Rightarrow> int \<Rightarrow> 'a list \<Rightarrow> int list" where
  "row_numbers page pageSize items = map (\<lambda>index. rowOffset page pageSize + int index + 1) [0..<length items]"

definition shows_mobile :: "'a list \<Rightarrow> bool" where
  "shows_mobile items \<longleftrightarrow> 0 < length items"

definition shows_loading :: "bool \<Rightarrow> 'a list \<Rightarrow> bool" where
  "shows_loading loading items \<longleftrightarrow> loading \<and> length items = 0"

definition shows_empty :: "bool \<Rightarrow> 'a list \<Rightarrow> bool" where
  "shows_empty loading items \<longleftrightarrow> \<not> loading \<and> length items = 0"

section \<open>Rounding\<close>

lemma rhe_near: "\<bar>of_int (rhe x) - x\<bar> \<le> 1 / 2"
proof -
  have "of_int (floor x) \<le> x" "x < of_int (floor x) + 1" by linarith+
  then show ?thesis unfolding rhe_def Let_def by auto
qed

text \<open>In the normal range rounding changes a value by at most its \<open>2^53\<close>rd part.\<close>

lemma rnd_close:
  assumes "2 powi (- 1000) \<le> a" "a < (2::rat) powi 1000"
  shows "\<exists>v. rnd a = Fin v \<and> \<bar>v - a\<bar> * 2 ^ 53 \<le> a"
proof -
  have p: "(0::rat) < 2 powi (- 1000)" by simp
  have a0: "0 < a" using assms(1) p by linarith
  define l where "l = ilog 2 a"
  have b: "2 powi l \<le> a" "a < 2 powi (l + 1)" using ilog_bounds [of 2 a] a0 by (simp_all add: l_def)
  have "(2::rat) powi (- 1000) < 2 powi (l + 1)" using assms(1) b(2) by linarith
  then have l1: "- 1000 < l + 1" by (rule powi_less_cancel [rotated]) simp
  have "(2::rat) powi l < 2 powi 1000" using assms(2) b(1) by linarith
  then have l2: "l < 1000" by (rule powi_less_cancel [rotated]) simp
  define u :: rat where "u = 2 powi (l - 52)"
  have u: "0 < u" "u * 2 ^ 52 = 2 powi l"
    unfolding u_def by (simp_all add: power_int_diff)
  define v where "v = of_int (rhe (a / u)) * u"
  have "v - a = (of_int (rhe (a / u)) - a / u) * u" using u(1) by (simp add: v_def left_diff_distrib)
  then have "\<bar>v - a\<bar> = \<bar>of_int (rhe (a / u)) - a / u\<bar> * u" using u(1) by (simp add: abs_mult)
  also have "\<dots> \<le> 1 / 2 * u" using rhe_near [of "a / u"] u(1) by (intro mult_right_mono) auto
  finally have err: "\<bar>v - a\<bar> \<le> u / 2" by simp
  then have close: "\<bar>v - a\<bar> * 2 ^ 53 \<le> a" using u(2) b(1) by simp
  have "\<bar>v - a\<bar> * 1 \<le> \<bar>v - a\<bar> * 2 ^ 53" by (intro mult_left_mono) simp_all
  then have "\<bar>v - a\<bar> \<le> a" using close by (metis mult_1_right order_trans)
  then have "v \<le> 2 * a" by linarith
  also have "\<dots> < 2 * 2 powi 1000" using assms(2) by simp
  also have "\<dots> < max_double_bound" by (simp add: max_double_bound_def)
  finally have small: "\<not> max_double_bound \<le> v" by simp
  have "max (- 1074) (l - 52) = l - 52" using l1 by simp
  then have "rnd a = Fin v"
    using a0 small unfolding rnd_def v_def u_def l_def Let_def by simp
  with close show ?thesis by blast
qed

lemma powi_bounds: "(2::rat) powi (- 1000) \<le> 1 / 2 ^ 53" "(2::rat) ^ 53 < 2 powi 1000"
  by (simp_all add: power_int_def field_simps)

text \<open>The ceiling of the rounded quotient is the ceiling of the quotient.\<close>

lemma ceil_div:
  assumes "0 \<le> t" "t < 2 ^ 53" "0 < (n::int)" "n \<le> 2 ^ 53"
  shows "js_ceil (js_div (jsint t) (jsint n)) = jsint ((t + n - 1) div n)"
proof (cases "t = 0")
  case True
  have "(n - 1) div n = 0" using assms(3) by simp
  then show ?thesis using True assms(3) by (simp add: rnd_def)
next
  case False
  define q where "q = (of_int t / of_int n :: rat)"
  define k where "k = (t + n - 1) div n"
  have n: "(0::rat) < of_int n" using assms(3) by simp
  have t53: "(of_int t :: rat) < 2 ^ 53" "(of_int n :: rat) \<le> 2 ^ 53"
    using assms(2,4) by (metis of_int_less_iff of_int_numeral of_int_power, metis of_int_le_iff of_int_numeral of_int_power)
  have t1: "(1::rat) \<le> of_int t" using False assms(1) by simp
  have qlo: "1 / 2 ^ 53 \<le> q"
    unfolding q_def using t1 t53(2) n by (intro frac_le) auto
  have qhi: "q < 2 ^ 53"
  proof -
    have "q \<le> of_int t" unfolding q_def using n t1 assms(3) by (simp add: divide_le_eq)
    with t53(1) show ?thesis by simp
  qed
  obtain v where v: "rnd q = Fin v" "\<bar>v - q\<bar> * 2 ^ 53 \<le> q"
    using rnd_close [of q] qlo qhi powi_bounds by fastforce
  have "(q - v) * 2 ^ 53 \<le> \<bar>v - q\<bar> * 2 ^ 53" "(v - q) * 2 ^ 53 \<le> \<bar>v - q\<bar> * 2 ^ 53"
    by (intro mult_right_mono; simp)+
  then have vq: "(q - v) * 2 ^ 53 \<le> q" "(v - q) * 2 ^ 53 \<le> q" using v(2) by linarith+
  have qn: "q * of_int n = of_int t" using n by (simp add: q_def)
  have kn: "(k - 1) * n < t" "t \<le> k * n"
  proof -
    have "t + n - 1 = k * n + (t + n - 1) mod n" by (simp add: k_def)
    moreover have "0 \<le> (t + n - 1) mod n" "(t + n - 1) mod n < n" using assms(3) by simp_all
    ultimately show "(k - 1) * n < t" "t \<le> k * n" by (simp_all add: algebra_simps)
  qed
  have lower: "of_int (k - 1) < v"
  proof -
    have "((k - 1) * n) + 1 \<le> t" using kn(1) by simp
    then have "of_int ((k - 1) * n + 1) \<le> (of_int t :: rat)" by (simp only: of_int_le_iff)
    then have "of_int (k - 1) * of_int n + 1 \<le> q * of_int n" using qn by simp
    then have gap: "1 \<le> (q - of_int (k - 1)) * of_int n" by (simp add: algebra_simps)
    have "(q - v) * 2 ^ 53 * of_int n \<le> q * of_int n" using vq(1) n by (intro mult_right_mono) simp_all
    also have "\<dots> < 2 ^ 53" using qn t53 by simp
    finally have "((q - v) * of_int n) * 2 ^ 53 < 1 * 2 ^ 53" by (simp only: mult.assoc mult.commute [of "of_int n"] mult_1)
    then have "(q - v) * of_int n < 1" by (rule mult_right_less_imp_less) simp
    with gap have "(q - v) * of_int n < (q - of_int (k - 1)) * of_int n" by simp
    then have "q - v < q - of_int (k - 1)" using n by (simp add: mult_less_cancel_right_disj)
    then show ?thesis by simp
  qed
  have upper: "v \<le> of_int k"
  proof (cases "t = k * n")
    case True
    then have "q = of_int k" using n by (simp add: q_def)
    moreover have "\<bar>k\<bar> \<le> 2 ^ 53"
    proof -
      have "0 \<le> k" using assms(1,3) by (simp add: k_def pos_imp_zdiv_nonneg_iff)
      moreover have "k \<le> t" using True assms(3) \<open>0 \<le> k\<close> by (simp add: mult_le_cancel_left1)
      ultimately show ?thesis using assms(2) by simp
    qed
    ultimately show ?thesis using v(1) rnd_of_int [of k] by simp
  next
    case False
    then have "t + 1 \<le> k * n" using kn(2) by simp
    then have "of_int (t + 1) \<le> (of_int (k * n) :: rat)" by (simp only: of_int_le_iff)
    then have gap: "1 \<le> (of_int k - q) * of_int n" using qn by (simp add: algebra_simps)
    have "(v - q) * 2 ^ 53 * of_int n \<le> q * of_int n" using vq(2) n by (intro mult_right_mono) simp_all
    also have "\<dots> < 2 ^ 53" using qn t53 by simp
    finally have "((v - q) * of_int n) * 2 ^ 53 < 1 * 2 ^ 53" by (simp only: mult.assoc mult.commute [of "of_int n"] mult_1)
    then have "(v - q) * of_int n < 1" by (rule mult_right_less_imp_less) simp
    with gap have "(v - q) * of_int n < (of_int k - q) * of_int n" by simp
    then have "v - q < of_int k - q" using n by (simp add: mult_less_cancel_right_disj)
    then show ?thesis by simp
  qed
  have "ceiling v = k" using lower upper by (intro ceiling_unique) auto
  then show ?thesis using v(1) n by (simp add: q_def k_def)
qed

lemma totalPages_int:
  assumes "0 \<le> cnt" "cnt < 2 ^ 53" "0 < psz" "psz \<le> 2 ^ 53"
  shows "totalPages cnt psz = jsint (max 1 ((cnt + psz - 1) div psz))"
  unfolding totalPages_def ceil_div [OF assms] by (simp add: js_max_def max_def)

lemma js_min_int: "js_min (jsint a) (jsint b) = jsint (min a b)"
  by (simp add: js_min_def min_def)

lemma js_max_int: "js_max (jsint a) (jsint b) = jsint (max a b)"
  by (simp add: js_max_def max_def)

section \<open>Properties\<close>

text \<open>
  C32: the page count is exact in spite of the binary64 division: for every total below \<open>2^53\<close>
  and every page size from 1 up, the number of pages is the least number that is at least one and
  holds all rows.
\<close>

theorem totalPages_exact:
  assumes "0 \<le> cnt" "cnt < 2 ^ 53" "0 < psz" "psz \<le> 2 ^ 53"
  shows "\<exists>n. totalPages cnt psz = jsint n \<and> 1 \<le> n \<and> cnt \<le> n * psz \<and> (1 < n \<longrightarrow> (n - 1) * psz < cnt)"
proof -
  define k where "k = (cnt + psz - 1) div psz"
  have e: "cnt + psz - 1 = k * psz + (cnt + psz - 1) mod psz" by (simp add: k_def)
  have m: "0 \<le> (cnt + psz - 1) mod psz" "(cnt + psz - 1) mod psz < psz" using assms(3) by simp_all
  have k: "cnt \<le> k * psz" "k * psz - psz < cnt" using e m by linarith+
  have t: "totalPages cnt psz = jsint (max 1 k)" unfolding k_def by (rule totalPages_int [OF assms])
  show ?thesis
  proof (cases "1 \<le> k")
    case True
    then show ?thesis using k t by (intro exI [of _ k]) (simp add: max_def algebra_simps)
  next
    case False
    then have "k * psz \<le> 0" using assms(3) by (simp add: mult_nonpos_nonneg)
    then show ?thesis using False k t assms(3) by (intro exI [of _ 1]) (simp add: max_def)
  qed
qed

lemma totalPages_exact_witness:
  "\<exists>n. totalPages 21 10 = jsint n \<and> 1 \<le> n \<and> 21 \<le> n * 10 \<and> (1 < n \<longrightarrow> (n - 1) * 10 < 21)"
  using totalPages_exact [of 21 10] by simp

text \<open>
  The jump box. Whatever is typed, the page asked for is an integer between one and the page
  count, and the box is emptied exactly when a page is asked for; typing the decimal numeral of
  a page number asks for that page, or for the last page when there are fewer.
\<close>

theorem jump_stays_in_range:
  assumes "0 \<le> cnt" "cnt < 2 ^ 53" "0 < psz" "psz \<le> 2 ^ 53"
  shows "(case handleJumpPage cnt psz text of
      (text', None) \<Rightarrow> text' = text
    | (text', Some p) \<Rightarrow> text' = [] \<and>
        (\<exists>n. p = jsint n \<and> 1 \<le> n \<and> n \<le> max 1 ((cnt + psz - 1) div psz))) \<and>
    (1 \<le> n \<and> n < 10 ^ 15 \<longrightarrow> handleJumpPage cnt psz (dec n) =
      ([], Some (jsint (min (int n) (max 1 ((cnt + psz - 1) div psz))))))"
proof (intro conjI impI)
  let ?k = "max 1 ((cnt + psz - 1) div psz)"
  show "case handleJumpPage cnt psz text of (text', None) \<Rightarrow> text' = text
    | (text', Some p) \<Rightarrow> text' = [] \<and> (\<exists>n. p = jsint n \<and> 1 \<le> n \<and> n \<le> ?k)"
  proof (cases "\<not> isInteger (Number text) \<or> num_lt (Number text) (Fin 1)")
    case True
    then show ?thesis by (simp add: handleJumpPage_def Let_def)
  next
    case False
    then obtain x where x: "Number text = Fin x" "of_int (floor x) = x" by (cases "Number text") auto
    have N: "Number text = jsint (floor x)" by (simp only: x)
    then have f: "1 \<le> floor x" using False by simp
    have "handleJumpPage cnt psz text = ([], Some (js_min (jsint (floor x)) (jsint ?k)))"
      using False totalPages_int [OF assms] unfolding N by (simp only: handleJumpPage_def Let_def N if_False)
    then show ?thesis using f by (simp add: js_min_int del: of_int_min of_int_max)
  qed
  show "handleJumpPage cnt psz (dec n) = ([], Some (jsint (min (int n) ?k)))" if n': "1 \<le> n \<and> n < 10 ^ 15"
  proof -
    from n' have n: "1 \<le> n" "n < 10 ^ 15" by simp_all
    have "Number (dec n) = jsint (int n)" using Number_dec [of n] n by simp
    moreover have "isInteger (jsint (int n))" by simp
    moreover have "\<not> num_lt (jsint (int n)) (Fin 1)" using n by simp
    ultimately have "handleJumpPage cnt psz (dec n) = ([], Some (js_min (jsint (int n)) (jsint ?k)))"
      using totalPages_int [OF assms] by (simp only: handleJumpPage_def Let_def if_False simp_thms)
    then show ?thesis by (simp only: js_min_int)
  qed
qed

lemma jump_stays_in_range_witness:
  "handleJumpPage 95 10 (dec 12) = ([], Some (jsint 10))"
  using jump_stays_in_range [of 95 10 "[]" 12] by simp

text \<open>
  The previous and next buttons, whenever they are enabled, move by exactly one page and stay
  between the first and the last page.
\<close>

theorem page_buttons_move_by_one:
  assumes "0 \<le> cnt" "cnt < 2 ^ 53" "0 < psz" "psz \<le> 2 ^ 53" "1 \<le> page"
  shows "(\<not> prev_disabled loading page \<longrightarrow> prev_click page = jsint (page - 1) \<and> 1 \<le> page - 1) \<and>
    (\<not> next_disabled loading page cnt psz \<longrightarrow>
       next_click page cnt psz = jsint (page + 1) \<and> page + 1 \<le> max 1 ((cnt + psz - 1) div psz))"
proof -
  define k where "k = max 1 ((cnt + psz - 1) div psz)"
  have t: "totalPages cnt psz = jsint k" unfolding k_def by (rule totalPages_int [OF assms(1-4)])
  have "prev_click page = jsint (max 1 (page - 1))"
    using js_max_int [of 1 "page - 1"] by (simp add: prev_click_def)
  moreover have "next_click page cnt psz = jsint (min k (page + 1))"
    using js_min_int [of k "page + 1"] by (simp add: next_click_def t)
  ultimately show ?thesis unfolding k_def [symmetric]
    by (auto simp: prev_disabled_def next_disabled_def t max_def min_def)
qed

lemma page_buttons_move_by_one_witness: "next_click 2 95 10 = jsint 3"
proof -
  have "\<not> next_disabled False 2 95 10"
    using totalPages_int [of 95 10] by (simp add: next_disabled_def)
  then show ?thesis using page_buttons_move_by_one [of 95 10 2 False] by simp
qed

text \<open>
  The table numbers the rows of the whole listing without gaps or repetitions: the rows of
  the first \<open>n\<close> pages, all but the last of them full, are numbered one to their total number.
\<close>

theorem row_numbers_contiguous:
  assumes "\<forall>p \<in> set (butlast pages). int (length p) = psz"
  shows "concat (map (\<lambda>i. row_numbers (int i + 1) psz (pages ! i)) [0..<length pages]) =
    [1..int (length (concat pages))]"
  using assms
proof (induction pages rule: rev_induct)
  case Nil
  then show ?case by simp
next
  case (snoc p pages)
  have full: "\<forall>q \<in> set pages. int (length q) = psz" using snoc.prems by simp
  then have len: "int (length (concat pages)) = int (length pages) * psz"
    by (induction pages) (auto simp: algebra_simps)
  have "\<forall>q \<in> set (butlast pages). int (length q) = psz" using full in_set_butlastD by fastforce
  note ih = snoc.IH [OF this]
  let ?f = "\<lambda>ps i. row_numbers (int i + 1) psz (ps ! i)"
  have a: "map (?f (pages @ [p])) [0..<length pages] = map (?f pages) [0..<length pages]"
    by (simp add: nth_append)
  have b: "row_numbers (int (length pages) + 1) psz p =
      map (\<lambda>i. int (length (concat pages)) + int i + 1) [0..<length p]"
    by (simp add: row_numbers_def rowOffset_def len)
  have c: "[1..a] @ map (\<lambda>i. a + int i + 1) [0..<m] = [1..a + int m]" if "0 \<le> a" for a m
  proof (induction m)
    case (Suc m)
    have "[1..a + int (Suc m)] = [1..a + int m] @ [a + int m + 1]"
      using upto_rec2 [of 1 "a + int (Suc m)"] that by (simp add: algebra_simps)
    then show ?case using Suc by (simp add: algebra_simps)
  qed simp
  have "concat (map (?f (pages @ [p])) [0..<length (pages @ [p])]) =
      concat (map (?f (pages @ [p])) [0..<length pages]) @ row_numbers (int (length pages) + 1) psz p"
    by simp
  also have "\<dots> = [1..int (length (concat pages)) + int (length p)]"
    unfolding a ih b by (rule c) simp
  finally show ?case by simp
qed

lemma row_numbers_contiguous_witness:
  "row_numbers 1 2 [''a'', ''b''] @ row_numbers 2 2 [''c''] = [1, 2, 3]"
  using row_numbers_contiguous [of "[[''a'', ''b''], [''c'']]" 2] by (simp add: upto_rec_numeral upto.simps)

text \<open>Below the header exactly one thing is shown: the rows, the loading note or the empty note.\<close>

theorem table_shows_one_thing:
  "length (filter id [shows_mobile items, shows_loading loading items, shows_empty loading items]) = 1"
  by (cases items; cases loading) (simp_all add: shows_mobile_def shows_loading_def shows_empty_def)

end
