(* ===== verification/TenantPage.thy ===== *)
theory TenantPage
  imports PageEffects Pagination
begin

text \<open>
  The tenant page (\<open>pages/Admin/TenantManagement.tsx\<close>): its state, the loading effect and the
  handlers. \<open>cl\<close> is the state captured by the render that created a handler; the request
  functions and the answer to \<open>window.confirm\<close> are the fields of \<open>api\<close>.
\<close>

datatype form_mode = Create | Edit

record tenant_form =
  tf_slug :: string
  tf_name :: string
  tf_status :: entity_status

record tenant_page =
  tg_tenants :: "tenant list"
  tg_total :: int
  tg_page :: int
  tg_pageSize :: int
  tg_loading :: bool
  tg_saving :: bool
  tg_deletingId :: "string option"
  tg_formMode :: "form_mode option"
  tg_editing :: "tenant option"
  tg_form :: tenant_form

record 's tenant_api =
  ta_list :: "('s, tenant page_result) request"
  ta_tenant :: "('s, tenant) request"
  ta_delete :: "('s, delete_result) request"
  ta_user :: "string \<Rightarrow> 's \<Rightarrow> bool"

definition tenant_emptyForm :: tenant_form where
  "tenant_emptyForm = \<lparr>tf_slug = [], tf_name = [], tf_status = Active\<rparr>"

definition tenant_init :: tenant_page where
  "tenant_init = \<lparr>tg_tenants = [], tg_total = 0, tg_page = 1, tg_pageSize = 10, tg_loading = False,
     tg_saving = False, tg_deletingId = None, tg_formMode = None, tg_editing = None,
     tg_form = tenant_emptyForm\<rparr>"

fun tenant_statusLabelKey :: "entity_status \<Rightarrow> string" where
  "tenant_statusLabelKey Active = ''adminTenantStatusActive''"
| "tenant_statusLabelKey Disabled = ''adminTenantStatusDisabled''"

definition tenant_toFormState :: "tenant \<Rightarrow> tenant_form" where
  "tenant_toFormState tenant =
     \<lparr>tf_slug = tn_slug tenant, tf_name = tn_name tenant, tf_status = tn_status tenant\<rparr>"

section \<open>Loading\<close>

definition tenant_loaded :: "tenant page_result \<Rightarrow> 'w tenant_page_scheme \<Rightarrow> 'w tenant_page_scheme" where
  "tenant_loaded result s = s\<lparr>tg_tenants := pr_items result, tg_total := pr_total result,
     tg_page := pr_page result, tg_pageSize := pr_page_size result\<rparr>"

definition loadTenants ::
  "'w tenant_page_scheme tenant_api \<Rightarrow> int \<Rightarrow> int \<Rightarrow> ('w tenant_page_scheme, unit) act" where
  "loadTenants api nextPage nextPageSize =
     steps [update (\<lambda>s. s\<lparr>tg_loading := True\<rparr>),
       finally_set
         (try_catch
           (bind (listTenants (ta_list api) \<lparr>pp_page = nextPage, pp_page_size = nextPageSize\<rparr>)
             (\<lambda>result. update (tenant_loaded result)))
           (\<lambda>e. failure ''adminTenantLoadFailed'' e))
         (\<lambda>s. s\<lparr>tg_loading := False\<rparr>)]"

text \<open>
  The effect, for the page and page size of the render: what runs at once, the request, and what
  runs when the request settles.
\<close>

definition tenant_effect_starts :: "int \<times> int \<Rightarrow> 'w tenant_page_scheme \<Rightarrow> 'w tenant_page_scheme" where
  "tenant_effect_starts p s = s\<lparr>tg_loading := True\<rparr>"

definition tenant_effect_asks :: "int \<times> int \<Rightarrow> http_request option" where
  "tenant_effect_asks p = Some (''/api/v1/tenants'',
     with_params GET (page_params_query \<lparr>pp_page = fst p, pp_page_size = snd p\<rparr>))"

definition tenant_effect_settles ::
  "bool \<Rightarrow> int \<times> int \<Rightarrow> js_exn + tenant page_result \<Rightarrow> 'w tenant_page_scheme \<Rightarrow> 'w tenant_page_scheme \<times> effect list" where
  "tenant_effect_settles cancelled p answer s =
     (if cancelled then (s, [])
      else case answer of
             Inr result \<Rightarrow> ((tenant_loaded result s)\<lparr>tg_loading := False\<rparr>, [])
           | Inl e \<Rightarrow> (s\<lparr>tg_loading := False\<rparr>, [Notice NError ''adminTenantLoadFailed'' (error_description e)]))"

section \<open>The form\<close>

definition tenant_openCreateForm :: "'w tenant_page_scheme \<Rightarrow> 'w tenant_page_scheme" where
  "tenant_openCreateForm s = s\<lparr>tg_editing := None, tg_form := tenant_emptyForm, tg_formMode := Some Create\<rparr>"

definition tenant_openEditForm :: "tenant \<Rightarrow> 'w tenant_page_scheme \<Rightarrow> 'w tenant_page_scheme" where
  "tenant_openEditForm tenant s =
     s\<lparr>tg_editing := Some tenant, tg_form := tenant_toFormState tenant, tg_formMode := Some Edit\<rparr>"

definition tenant_closeForm :: "'w tenant_page_scheme \<Rightarrow> 'w tenant_page_scheme" where
  "tenant_closeForm s = s\<lparr>tg_formMode := None, tg_editing := None, tg_form := tenant_emptyForm\<rparr>"

definition tenant_updateFormField :: "(tenant_form \<Rightarrow> tenant_form) \<Rightarrow> 'w tenant_page_scheme \<Rightarrow> 'w tenant_page_scheme" where
  "tenant_updateFormField set_field s = s\<lparr>tg_form := set_field (tg_form s)\<rparr>"

definition tenant_create_request :: "'w tenant_page_scheme \<Rightarrow> tenant_create_input" where
  "tenant_create_request cl = \<lparr>tc_slug = trim (tf_slug (tg_form cl)), tc_name = trim (tf_name (tg_form cl))\<rparr>"

definition tenant_update_request :: "'w tenant_page_scheme \<Rightarrow> tenant_update_input" where
  "tenant_update_request cl = \<lparr>tu_name = trim (tf_name (tg_form cl)), tu_status = tf_status (tg_form cl)\<rparr>"

definition tenant_handleSubmit ::
  "'w tenant_page_scheme tenant_api \<Rightarrow> 'w tenant_page_scheme \<Rightarrow> ('w tenant_page_scheme, unit) act" where
  "tenant_handleSubmit api cl =
     steps [update (\<lambda>s. s\<lparr>tg_saving := True\<rparr>),
       finally_set
         (try_catch
           (steps [
              only_if (tg_formMode cl = Some Create)
                (bind (createTenant (ta_tenant api) (tenant_create_request cl)) (\<lambda>_.
                   steps [success ''adminTenantCreateSuccess'', update (\<lambda>s. s\<lparr>tg_page := 1\<rparr>)])),
              (case tg_editing cl of
                 Some tenant \<Rightarrow>
                   only_if (tg_formMode cl = Some Edit)
                     (bind (updateTenant (ta_tenant api) (tn_id tenant) (tenant_update_request cl)) (\<lambda>_.
                        success ''adminTenantUpdateSuccess''))
               | None \<Rightarrow> ret ()),
              update tenant_closeForm,
              loadTenants api (if tg_formMode cl = Some Create then 1 else tg_page cl) (tg_pageSize cl)])
           (\<lambda>e. failure (if tg_formMode cl = Some Create then ''adminTenantCreateFailed'' else ''adminTenantUpdateFailed'') e))
         (\<lambda>s. s\<lparr>tg_saving := False\<rparr>)]"

definition tenant_handleDelete ::
  "'w tenant_page_scheme tenant_api \<Rightarrow> 'w tenant_page_scheme \<Rightarrow> tenant \<Rightarrow> ('w tenant_page_scheme, unit) act" where
  "tenant_handleDelete api cl tenant =
     bind (confirm (ta_user api) ''adminTenantDeleteConfirm'') (\<lambda>ok.
       if \<not> ok then ret ()
       else steps [update (\<lambda>s. s\<lparr>tg_deletingId := Some (tn_id tenant)\<rparr>),
         finally_set
           (try_catch
             (bind (deleteTenant (ta_delete api) (tn_id tenant)) (\<lambda>_.
                steps [success ''adminTenantDeleteSuccess'',
                  (if length (tg_tenants cl) = 1 \<and> 1 < tg_page cl
                   then update (\<lambda>s. s\<lparr>tg_page := tg_page s - 1\<rparr>)
                   else loadTenants api (tg_page cl) (tg_pageSize cl))]))
             (\<lambda>e. failure ''adminTenantDeleteFailed'' e))
           (\<lambda>s. s\<lparr>tg_deletingId := None\<rparr>)])"

section \<open>What the handlers do\<close>

lemmas tenant_defs = loadTenants_def tenant_handleSubmit_def tenant_handleDelete_def

definition tenant_list_request :: "int \<Rightarrow> int \<Rightarrow> http_request" where
  "tenant_list_request page psz = (''/api/v1/tenants'',
     with_params GET (page_params_query \<lparr>pp_page = page, pp_page_size = psz\<rparr>))"

lemma loadTenants_run:
  "loadTenants api page psz s =
     (case ta_list api (tenant_list_request page psz) (s\<lparr>tg_loading := True\<rparr>) of (a, s') \<Rightarrow>
        (case api_outcome a of
           Done r \<Rightarrow> (Done (), (tenant_loaded r s')\<lparr>tg_loading := False\<rparr>, [Sent (tenant_list_request page psz)])
         | Threw e \<Rightarrow> (Done (), s'\<lparr>tg_loading := False\<rparr>, [Sent (tenant_list_request page psz),
             Notice NError ''adminTenantLoadFailed'' (error_description e)])))"
  by (simp add: loadTenants_def listTenants_def tenant_list_request_def apiRequest_run run_defs
      split: prod.split outcome.split)

lemma loadTenants_done: "outcome_of (loadTenants api page psz s) = Done ()"
  by (simp add: loadTenants_run split: prod.split outcome.split)

lemma loadTenants_requests:
  "requests (effects_of (loadTenants api page psz s)) = [tenant_list_request page psz]"
  by (simp add: loadTenants_run split: prod.split outcome.split)

lemma tenant_create_run:
  assumes "tg_formMode cl = Some Create"
  shows "tenant_handleSubmit api cl s =
     (let req = (''/api/v1/tenants'', with_data POST (tenant_create_body (tenant_create_request cl)))
      in case ta_tenant api req (s\<lparr>tg_saving := True\<rparr>) of (a, s1) \<Rightarrow>
        (case api_outcome a of
           Done t \<Rightarrow> (let out = loadTenants api 1 (tg_pageSize cl) (tenant_closeForm (s1\<lparr>tg_page := 1\<rparr>))
                     in (Done (), (state_of out)\<lparr>tg_saving := False\<rparr>,
                         Sent req # Notice NSuccess ''adminTenantCreateSuccess'' NoDescription # effects_of out))
         | Threw e \<Rightarrow> (Done (), s1\<lparr>tg_saving := False\<rparr>,
             [Sent req, Notice NError ''adminTenantCreateFailed'' (error_description e)])))"
proof -
  let ?req = "(''/api/v1/tenants'', with_data POST (tenant_create_body (tenant_create_request cl)))"
  obtain a s1 where q: "ta_tenant api ?req (s\<lparr>tg_saving := True\<rparr>) = (a, s1)" by force
  obtain s2 es where l: "loadTenants api 1 (tg_pageSize cl) (tenant_closeForm (s1\<lparr>tg_page := 1\<rparr>)) = (Done (), s2, es)"
    using loadTenants_done [of api 1 "tg_pageSize cl"] by (metis prod.collapse)
  have c: "createTenant (ta_tenant api) (tenant_create_request cl) (s\<lparr>tg_saving := True\<rparr>) = (api_outcome a, s1, [Sent ?req])"
    by (simp add: createTenant_def apiRequest_run q)
  show ?thesis
    by (cases "api_outcome a") (simp_all add: tenant_handleSubmit_def assms only_if_def run_prims
      bind_known try_known q l c split: option.split)
qed

lemma tenant_edit_run:
  assumes "tg_formMode cl = Some Edit" "tg_editing cl = Some tenant"
  shows "tenant_handleSubmit api cl s =
     (let req = (''/api/v1/tenants/'' @ tn_id tenant, with_data PUT (tenant_update_body (tenant_update_request cl)))
      in case ta_tenant api req (s\<lparr>tg_saving := True\<rparr>) of (a, s1) \<Rightarrow>
        (case api_outcome a of
           Done t \<Rightarrow> (let out = loadTenants api (tg_page cl) (tg_pageSize cl) (tenant_closeForm s1)
                     in (Done (), (state_of out)\<lparr>tg_saving := False\<rparr>,
                         Sent req # Notice NSuccess ''adminTenantUpdateSuccess'' NoDescription # effects_of out))
         | Threw e \<Rightarrow> (Done (), s1\<lparr>tg_saving := False\<rparr>,
             [Sent req, Notice NError ''adminTenantUpdateFailed'' (error_description e)])))"
proof -
  let ?req = "(''/api/v1/tenants/'' @ tn_id tenant, with_data PUT (tenant_update_body (tenant_update_request cl)))"
  obtain a s1 where q: "ta_tenant api ?req (s\<lparr>tg_saving := True\<rparr>) = (a, s1)" by force
  obtain s2 es where l: "loadTenants api (tg_page cl) (tg_pageSize cl) (tenant_closeForm s1) = (Done (), s2, es)"
    using loadTenants_done [of api "tg_page cl" "tg_pageSize cl"] by (metis prod.collapse)
  have c: "updateTenant (ta_tenant api) (tn_id tenant) (tenant_update_request cl) (s\<lparr>tg_saving := True\<rparr>) =
      (api_outcome a, s1, [Sent ?req])"
    using q by (simp add: updateTenant_def apiRequest_run)
  show ?thesis using q
    by (cases "api_outcome a") (simp_all add: tenant_handleSubmit_def assms only_if_def run_prims
      bind_known try_known l c Let_def)
qed

lemma tenant_delete_run:
  "tenant_handleDelete api cl tenant s =
     (if \<not> ta_user api ''adminTenantDeleteConfirm'' s then (Done (), s, [Asked ''adminTenantDeleteConfirm''])
      else let req = (''/api/v1/tenants/'' @ tn_id tenant, bare DELETE)
      in case ta_delete api req (s\<lparr>tg_deletingId := Some (tn_id tenant)\<rparr>) of (a, s1) \<Rightarrow>
        (case api_outcome a of
           Done t \<Rightarrow>
             (if length (tg_tenants cl) = 1 \<and> 1 < tg_page cl
              then (Done (), s1\<lparr>tg_page := tg_page s1 - 1, tg_deletingId := None\<rparr>,
                    [Asked ''adminTenantDeleteConfirm'', Sent req, Notice NSuccess ''adminTenantDeleteSuccess'' NoDescription])
              else let out = loadTenants api (tg_page cl) (tg_pageSize cl) s1
                   in (Done (), (state_of out)\<lparr>tg_deletingId := None\<rparr>,
                       [Asked ''adminTenantDeleteConfirm'', Sent req, Notice NSuccess ''adminTenantDeleteSuccess'' NoDescription]
                         @ effects_of out))
         | Threw e \<Rightarrow> (Done (), s1\<lparr>tg_deletingId := None\<rparr>,
             [Asked ''adminTenantDeleteConfirm'', Sent req, Notice NError ''adminTenantDeleteFailed'' (error_description e)])))"
proof -
  let ?req = "(''/api/v1/tenants/'' @ tn_id tenant, bare DELETE)"
  obtain a s1 where q: "ta_delete api ?req (s\<lparr>tg_deletingId := Some (tn_id tenant)\<rparr>) = (a, s1)" by force
  obtain s2 es where l: "loadTenants api (tg_page cl) (tg_pageSize cl) s1 = (Done (), s2, es)"
    using loadTenants_done [of api "tg_page cl" "tg_pageSize cl"] by (metis prod.collapse)
  have c: "deleteTenant (ta_delete api) (tn_id tenant) (s\<lparr>tg_deletingId := Some (tn_id tenant)\<rparr>) = (api_outcome a, s1, [Sent ?req])"
    using q by (simp add: deleteTenant_def apiRequest_run)
  show ?thesis using q
    by (cases "api_outcome a") (simp_all add: tenant_handleDelete_def run_prims bind_known try_known l c Let_def)
qed

interpretation tenant_fx: fetch_effect tenant_effect_starts tenant_effect_asks tenant_effect_settles
  by unfold_locales (simp add: tenant_effect_settles_def)

section \<open>Properties\<close>

text \<open>
  Submitting the tenant form. Whatever happens while the requests run, the handler never
  throws and the saving flag ends cleared. The first request creates the tenant with the trimmed
  slug and name, or updates the edited tenant with the trimmed name and the status. If the server
  accepts it, one success notice is shown, the form is reset and the list is loaded (the first page
  after a creation); if not, there is no second request, one error notice with the message of the
  server is shown, and the form stays as it was with its text.
\<close>

theorem tenant_submit_behaviour:
  assumes "tg_formMode cl = Some Create \<or> tg_formMode cl = Some Edit \<and> tg_editing cl = Some tenant"
    and "req = (if tg_formMode cl = Some Create
       then (''/api/v1/tenants'', with_data POST (tenant_create_body (tenant_create_request cl)))
       else (''/api/v1/tenants/'' @ tn_id tenant, with_data PUT (tenant_update_body (tenant_update_request cl))))"
    and "ta_tenant api req (s\<lparr>tg_saving := True\<rparr>) = (a, s1)"
    and "out = tenant_handleSubmit api cl s"
  shows "outcome_of out = Done () \<and> \<not> tg_saving (state_of out) \<and>
    (case api_outcome a of
       Done _ \<Rightarrow> requests (effects_of out) =
           [req, tenant_list_request (if tg_formMode cl = Some Create then 1 else tg_page cl) (tg_pageSize cl)]
     | Threw e \<Rightarrow> requests (effects_of out) = [req] \<and> tg_form (state_of out) = tg_form s1 \<and>
         tg_formMode (state_of out) = tg_formMode s1 \<and>
         (\<exists>key. last (effects_of out) = Notice NError key (error_description e)))"
  using assms(1)
proof
  assume m: "tg_formMode cl = Some Create"
  then show ?thesis using assms(2-)
    by (simp add: tenant_create_run Let_def loadTenants_requests split: outcome.split)
next
  assume m: "tg_formMode cl = Some Edit \<and> tg_editing cl = Some tenant"
  then show ?thesis using assms(2-)
    by (simp add: tenant_edit_run [OF conjunct1 [OF m] conjunct2 [OF m]] Let_def loadTenants_requests split: outcome.split)
qed

definition sample_tenant :: tenant where
  "sample_tenant = \<lparr>tn_id = ''t1'', tn_owner_user_id = ''u'', tn_slug = ''s'', tn_name = ''n'', tn_status = Active,
     tn_created_at = [], tn_updated_at = []\<rparr>"

definition sample_tenant_api :: "tenant_page tenant_api" where
  "sample_tenant_api = \<lparr>
     ta_list = (\<lambda>r s. (Inr \<lparr>resp_msg = ''ok'', resp_code = Fin 200,
        resp_data = Some \<lparr>pr_items = [sample_tenant], pr_total = 1, pr_page = 1, pr_page_size = 10\<rparr>\<rparr>, s)),
     ta_tenant = (\<lambda>r s. (Inl (ApiError ''slug taken'' (Fin 409)), s)),
     ta_delete = (\<lambda>r s. (Inr \<lparr>resp_msg = ''ok'', resp_code = Fin 200, resp_data = Some \<lparr>dr_deleted = True\<rparr>\<rparr>, s)),
     ta_user = (\<lambda>q s. True)\<rparr>"

lemma tenant_submit_behaviour_witness:
  "tg_formMode (state_of (tenant_handleSubmit sample_tenant_api (tenant_openCreateForm tenant_init) (tenant_openCreateForm tenant_init)))
     = Some Create"
  using tenant_submit_behaviour [of "tenant_openCreateForm tenant_init" sample_tenant, OF _ refl _ refl,
      of sample_tenant_api "tenant_openCreateForm tenant_init"
         "Inl (ApiError ''slug taken'' (Fin 409))" "(tenant_openCreateForm tenant_init)\<lparr>tg_saving := True\<rparr>"]
  by (simp add: tenant_openCreateForm_def sample_tenant_api_def)

text \<open>
  Deleting a tenant. Nothing is sent unless the user confirms, and then exactly one DELETE for
  that tenant comes first; the handler never throws and the row is no longer marked as being
  deleted at the end. After a success the list is reloaded, except when the row was the only one of
  a page after the first: then the page number goes down by one and the page's loading effect
  fetches that page. After a failure nothing is reloaded and the error is shown.
\<close>

theorem tenant_delete_behaviour:
  "let out = tenant_handleDelete api cl tenant s; req = (''/api/v1/tenants/'' @ tn_id tenant, bare DELETE)
   in outcome_of out = Done () \<and>
     (if \<not> ta_user api ''adminTenantDeleteConfirm'' s then state_of out = s \<and> requests (effects_of out) = []
      else tg_deletingId (state_of out) = None \<and>
        (case ta_delete api req (s\<lparr>tg_deletingId := Some (tn_id tenant)\<rparr>) of (a, s1) \<Rightarrow>
           case api_outcome a of
             Done _ \<Rightarrow>
               if length (tg_tenants cl) = 1 \<and> 1 < tg_page cl
               then requests (effects_of out) = [req] \<and> tg_page (state_of out) = tg_page s1 - 1
               else requests (effects_of out) = [req, tenant_list_request (tg_page cl) (tg_pageSize cl)]
           | Threw e \<Rightarrow> requests (effects_of out) = [req] \<and>
               last (effects_of out) = Notice NError ''adminTenantDeleteFailed'' (error_description e)))"
  by (auto simp: tenant_delete_run Let_def loadTenants_requests split: prod.split outcome.split)



end
