(* ===== verification/ProductPage.thy ===== *)
theory ProductPage
  imports TenantPage
begin

text \<open>
  The product page (\<open>pages/Admin/ProductManagement.tsx\<close>): the tenant selector and its loading
  effect, the product list of the selected tenant, the form and the handlers. An empty
  \<open>tenantId\<close> means that no tenant is selected yet.
\<close>

record product_form =
  pf_key :: string
  pf_name :: string
  pf_description :: string
  pf_node_type :: node_type
  pf_auth_type :: auth_type
  pf_protocol_type :: protocol_type
  pf_status :: entity_status

record product_page =
  pg_tenants :: "tenant list"
  pg_tenantId :: string
  pg_products :: "product list"
  pg_total :: int
  pg_page :: int
  pg_pageSize :: int
  pg_loading :: bool
  pg_saving :: bool
  pg_deletingId :: "string option"
  pg_formMode :: "form_mode option"
  pg_editing :: "product option"
  pg_form :: product_form

record 's product_api =
  pa_list :: "('s, product page_result) request"
  pa_product :: "('s, product) request"
  pa_delete :: "('s, delete_result) request"
  pa_user :: "string \<Rightarrow> 's \<Rightarrow> bool"

definition product_emptyForm :: product_form where
  "product_emptyForm = \<lparr>pf_key = [], pf_name = [], pf_description = [], pf_node_type = Direct,
     pf_auth_type = Secret, pf_protocol_type = Mqtt, pf_status = Active\<rparr>"

definition product_init :: product_page where
  "product_init = \<lparr>pg_tenants = [], pg_tenantId = [], pg_products = [], pg_total = 0, pg_page = 1,
     pg_pageSize = 10, pg_loading = False, pg_saving = False, pg_deletingId = None,
     pg_formMode = None, pg_editing = None, pg_form = product_emptyForm\<rparr>"

fun productStatusLabelKey :: "entity_status \<Rightarrow> string" where
  "productStatusLabelKey Active = ''adminProductStatusActive''"
| "productStatusLabelKey Disabled = ''adminProductStatusDisabled''"

fun nodeTypeLabelKey :: "node_type \<Rightarrow> string" where
  "nodeTypeLabelKey Direct = ''adminProductNodeDirect''"
| "nodeTypeLabelKey Gateway = ''adminProductNodeGateway''"
| "nodeTypeLabelKey SubDevice = ''adminProductNodeSubDevice''"

fun authTypeLabelKey :: "auth_type \<Rightarrow> string" where
  "authTypeLabelKey Secret = ''adminProductAuthSecret''"
| "authTypeLabelKey Certificate = ''adminProductAuthCertificate''"
| "authTypeLabelKey Anonymous = ''adminProductAuthAnonymous''"

definition product_toFormState :: "product \<Rightarrow> product_form" where
  "product_toFormState product =
     \<lparr>pf_key = pd_key product, pf_name = pd_name product, pf_description = pd_description product,
      pf_node_type = pd_node_type product, pf_auth_type = pd_auth_type product,
      pf_protocol_type = pd_protocol_type product, pf_status = pd_status product\<rparr>"

section \<open>The tenant selector\<close>

text \<open>\<open>current || result.items[0]?.id || ''\<close>\<close>

definition default_tenant :: "string \<Rightarrow> tenant list \<Rightarrow> string" where
  "default_tenant cur items = (if cur \<noteq> [] then cur else case items of [] \<Rightarrow> [] | t # _ \<Rightarrow> tn_id t)"

text \<open>
  The same for products (\<open>current || items[0]?.id || ''\<close>), as the model and device pages use it,
  and \<open>s || undefined\<close>, as their list requests use it.
\<close>

definition default_product :: "string \<Rightarrow> product list \<Rightarrow> string" where
  "default_product cur items = (if cur \<noteq> [] then cur else case items of [] \<Rightarrow> [] | p # _ \<Rightarrow> pd_id p)"

definition or_undefined :: "string \<Rightarrow> string option" where
  "or_undefined v = (if v = [] then None else Some v)"

definition product_tenants_asks :: "unit \<Rightarrow> http_request option" where
  "product_tenants_asks p = Some (tenant_list_request 1 50)"

definition product_tenants_settles ::
  "bool \<Rightarrow> unit \<Rightarrow> js_exn + tenant page_result \<Rightarrow> 'w product_page_scheme \<Rightarrow> 'w product_page_scheme \<times> effect list" where
  "product_tenants_settles cancelled p answer s =
     (if cancelled then (s, [])
      else case answer of
             Inr result \<Rightarrow> (s\<lparr>pg_tenants := pr_items result,
                              pg_tenantId := default_tenant (pg_tenantId s) (pr_items result)\<rparr>, [])
           | Inl e \<Rightarrow> (s, [Notice NError ''adminTenantLoadFailed'' (error_description e)]))"

section \<open>Loading\<close>

definition product_list_request :: "string \<Rightarrow> int \<Rightarrow> int \<Rightarrow> http_request" where
  "product_list_request tenantId page psz = (''/api/v1/products'', with_params GET (product_list_query
     \<lparr>plp_tenant_id = tenantId, plp_page = page, plp_page_size = psz\<rparr>))"

definition product_loaded :: "product page_result \<Rightarrow> 'w product_page_scheme \<Rightarrow> 'w product_page_scheme" where
  "product_loaded result s = s\<lparr>pg_products := pr_items result, pg_total := pr_total result,
     pg_page := pr_page result, pg_pageSize := pr_page_size result\<rparr>"

definition product_cleared :: "'w product_page_scheme \<Rightarrow> 'w product_page_scheme" where
  "product_cleared s = s\<lparr>pg_products := [], pg_total := 0\<rparr>"

definition loadProducts ::
  "'w product_page_scheme product_api \<Rightarrow> 'w product_page_scheme \<Rightarrow> int \<Rightarrow> int \<Rightarrow> ('w product_page_scheme, unit) act" where
  "loadProducts api cl nextPage nextPageSize =
     (if pg_tenantId cl = [] then update product_cleared
      else steps [update (\<lambda>s. s\<lparr>pg_loading := True\<rparr>),
        finally_set
          (try_catch
            (bind (listProducts (pa_list api) \<lparr>plp_tenant_id = pg_tenantId cl, plp_page = nextPage, plp_page_size = nextPageSize\<rparr>)
              (\<lambda>result. update (product_loaded result)))
            (\<lambda>e. failure ''adminProductLoadFailed'' e))
          (\<lambda>s. s\<lparr>pg_loading := False\<rparr>)])"

text \<open>The effect, for tenant, page and page size of the render.\<close>

definition product_effect_starts :: "string \<times> int \<times> int \<Rightarrow> 'w product_page_scheme \<Rightarrow> 'w product_page_scheme" where
  "product_effect_starts p s = (if fst p = [] then product_cleared s else s\<lparr>pg_loading := True\<rparr>)"

definition product_effect_asks :: "string \<times> int \<times> int \<Rightarrow> http_request option" where
  "product_effect_asks p =
     (if fst p = [] then None else Some (product_list_request (fst p) (fst (snd p)) (snd (snd p))))"

definition product_effect_settles ::
  "bool \<Rightarrow> string \<times> int \<times> int \<Rightarrow> js_exn + product page_result \<Rightarrow> 'w product_page_scheme \<Rightarrow>
     'w product_page_scheme \<times> effect list" where
  "product_effect_settles cancelled p answer s =
     (if cancelled then (s, [])
      else case answer of
             Inr result \<Rightarrow> ((product_loaded result s)\<lparr>pg_loading := False\<rparr>, [])
           | Inl e \<Rightarrow> (s\<lparr>pg_loading := False\<rparr>, [Notice NError ''adminProductLoadFailed'' (error_description e)]))"

section \<open>The form and the handlers\<close>

definition product_updateFormField :: "(product_form \<Rightarrow> product_form) \<Rightarrow> 'w product_page_scheme \<Rightarrow> 'w product_page_scheme" where
  "product_updateFormField set_field s = s\<lparr>pg_form := set_field (pg_form s)\<rparr>"

definition product_openCreateForm :: "'w product_page_scheme \<Rightarrow> 'w product_page_scheme" where
  "product_openCreateForm s = s\<lparr>pg_editing := None, pg_form := product_emptyForm, pg_formMode := Some Create\<rparr>"

definition product_openEditForm :: "product \<Rightarrow> 'w product_page_scheme \<Rightarrow> 'w product_page_scheme" where
  "product_openEditForm product s =
     s\<lparr>pg_editing := Some product, pg_form := product_toFormState product, pg_formMode := Some Edit\<rparr>"

definition product_closeForm :: "'w product_page_scheme \<Rightarrow> 'w product_page_scheme" where
  "product_closeForm s = s\<lparr>pg_formMode := None, pg_editing := None, pg_form := product_emptyForm\<rparr>"

definition product_handleTenantChange :: "string \<Rightarrow> 'w product_page_scheme \<Rightarrow> 'w product_page_scheme" where
  "product_handleTenantChange nextTenantId s =
     product_closeForm (s\<lparr>pg_tenantId := nextTenantId, pg_page := 1\<rparr>)"

definition product_create_request :: "'w product_page_scheme \<Rightarrow> product_create_input" where
  "product_create_request cl =
     \<lparr>pc_tenant_id = pg_tenantId cl, pc_key = trim (pf_key (pg_form cl)), pc_name = trim (pf_name (pg_form cl)),
      pc_description = trim (pf_description (pg_form cl)), pc_node_type = pf_node_type (pg_form cl),
      pc_auth_type = pf_auth_type (pg_form cl), pc_protocol_type = pf_protocol_type (pg_form cl)\<rparr>"

definition product_update_request :: "'w product_page_scheme \<Rightarrow> product_update_input" where
  "product_update_request cl =
     \<lparr>pu_name = trim (pf_name (pg_form cl)), pu_description = trim (pf_description (pg_form cl)),
      pu_node_type = pf_node_type (pg_form cl), pu_auth_type = pf_auth_type (pg_form cl),
      pu_protocol_type = pf_protocol_type (pg_form cl), pu_status = pf_status (pg_form cl)\<rparr>"

definition product_handleSubmit ::
  "'w product_page_scheme product_api \<Rightarrow> 'w product_page_scheme \<Rightarrow> ('w product_page_scheme, unit) act" where
  "product_handleSubmit api cl =
     (if pg_tenantId cl = [] then ret ()
      else steps [update (\<lambda>s. s\<lparr>pg_saving := True\<rparr>),
       finally_set
         (try_catch
           (steps [
              only_if (pg_formMode cl = Some Create)
                (bind (createProduct (pa_product api) (product_create_request cl)) (\<lambda>_.
                   steps [success ''adminProductCreateSuccess'', update (\<lambda>s. s\<lparr>pg_page := 1\<rparr>)])),
              (case pg_editing cl of
                 Some product \<Rightarrow>
                   only_if (pg_formMode cl = Some Edit)
                     (bind (updateProduct (pa_product api) (pd_id product) (product_update_request cl)) (\<lambda>_.
                        success ''adminProductUpdateSuccess''))
               | None \<Rightarrow> ret ()),
              update product_closeForm,
              loadProducts api cl (if pg_formMode cl = Some Create then 1 else pg_page cl) (pg_pageSize cl)])
           (\<lambda>e. failure (if pg_formMode cl = Some Create then ''adminProductCreateFailed'' else ''adminProductUpdateFailed'') e))
         (\<lambda>s. s\<lparr>pg_saving := False\<rparr>)])"

definition product_handleDelete ::
  "'w product_page_scheme product_api \<Rightarrow> 'w product_page_scheme \<Rightarrow> product \<Rightarrow> ('w product_page_scheme, unit) act" where
  "product_handleDelete api cl product =
     bind (confirm (pa_user api) ''adminProductDeleteConfirm'') (\<lambda>ok.
       if \<not> ok then ret ()
       else steps [update (\<lambda>s. s\<lparr>pg_deletingId := Some (pd_id product)\<rparr>),
         finally_set
           (try_catch
             (bind (deleteProduct (pa_delete api) (pd_id product)) (\<lambda>_.
                steps [success ''adminProductDeleteSuccess'',
                  (if length (pg_products cl) = 1 \<and> 1 < pg_page cl
                   then update (\<lambda>s. s\<lparr>pg_page := pg_page s - 1\<rparr>)
                   else loadProducts api cl (pg_page cl) (pg_pageSize cl))]))
             (\<lambda>e. failure ''adminProductDeleteFailed'' e))
           (\<lambda>s. s\<lparr>pg_deletingId := None\<rparr>)])"

section \<open>What the handlers do\<close>

lemma loadProducts_run:
  "loadProducts api cl page psz s =
     (if pg_tenantId cl = [] then (Done (), product_cleared s, [])
      else case pa_list api (product_list_request (pg_tenantId cl) page psz) (s\<lparr>pg_loading := True\<rparr>) of (a, s') \<Rightarrow>
        (case api_outcome a of
           Done r \<Rightarrow> (Done (), (product_loaded r s')\<lparr>pg_loading := False\<rparr>, [Sent (product_list_request (pg_tenantId cl) page psz)])
         | Threw e \<Rightarrow> (Done (), s'\<lparr>pg_loading := False\<rparr>, [Sent (product_list_request (pg_tenantId cl) page psz),
             Notice NError ''adminProductLoadFailed'' (error_description e)])))"
  by (simp add: loadProducts_def listProducts_def product_list_request_def apiRequest_run run_defs
      split: prod.split outcome.split)

lemma loadProducts_done: "outcome_of (loadProducts api cl page psz s) = Done ()"
  by (simp add: loadProducts_run split: prod.split outcome.split)

lemma loadProducts_requests:
  "pg_tenantId cl \<noteq> [] \<Longrightarrow>
   requests (effects_of (loadProducts api cl page psz s)) = [product_list_request (pg_tenantId cl) page psz]"
  by (simp add: loadProducts_run split: prod.split outcome.split)

lemma product_create_run:
  assumes "pg_formMode cl = Some Create" "pg_tenantId cl \<noteq> []"
  shows "product_handleSubmit api cl s =
     (let req = (''/api/v1/products'', with_data POST (product_create_body (product_create_request cl)))
      in case pa_product api req (s\<lparr>pg_saving := True\<rparr>) of (a, s1) \<Rightarrow>
        (case api_outcome a of
           Done t \<Rightarrow> (let out = loadProducts api cl 1 (pg_pageSize cl) (product_closeForm (s1\<lparr>pg_page := 1\<rparr>))
                     in (Done (), (state_of out)\<lparr>pg_saving := False\<rparr>,
                         Sent req # Notice NSuccess ''adminProductCreateSuccess'' NoDescription # effects_of out))
         | Threw e \<Rightarrow> (Done (), s1\<lparr>pg_saving := False\<rparr>,
             [Sent req, Notice NError ''adminProductCreateFailed'' (error_description e)])))"
proof -
  let ?req = "(''/api/v1/products'', with_data POST (product_create_body (product_create_request cl)))"
  obtain a s1 where q: "pa_product api ?req (s\<lparr>pg_saving := True\<rparr>) = (a, s1)" by force
  obtain s2 es where l: "loadProducts api cl 1 (pg_pageSize cl) (product_closeForm (s1\<lparr>pg_page := 1\<rparr>)) = (Done (), s2, es)"
    using loadProducts_done [of api cl 1 "pg_pageSize cl"] by (metis prod.collapse)
  have c: "createProduct (pa_product api) (product_create_request cl) (s\<lparr>pg_saving := True\<rparr>) = (api_outcome a, s1, [Sent ?req])"
    by (simp add: createProduct_def apiRequest_run q)
  show ?thesis
    by (cases "api_outcome a") (simp_all add: product_handleSubmit_def assms only_if_def run_prims
      bind_known try_known q l c Let_def split: option.split)
qed

lemma product_edit_run:
  assumes "pg_formMode cl = Some Edit" "pg_editing cl = Some product" "pg_tenantId cl \<noteq> []"
  shows "product_handleSubmit api cl s =
     (let req = (''/api/v1/products/'' @ pd_id product, with_data PUT (product_update_body (product_update_request cl)))
      in case pa_product api req (s\<lparr>pg_saving := True\<rparr>) of (a, s1) \<Rightarrow>
        (case api_outcome a of
           Done t \<Rightarrow> (let out = loadProducts api cl (pg_page cl) (pg_pageSize cl) (product_closeForm s1)
                     in (Done (), (state_of out)\<lparr>pg_saving := False\<rparr>,
                         Sent req # Notice NSuccess ''adminProductUpdateSuccess'' NoDescription # effects_of out))
         | Threw e \<Rightarrow> (Done (), s1\<lparr>pg_saving := False\<rparr>,
             [Sent req, Notice NError ''adminProductUpdateFailed'' (error_description e)])))"
proof -
  let ?req = "(''/api/v1/products/'' @ pd_id product, with_data PUT (product_update_body (product_update_request cl)))"
  obtain a s1 where q: "pa_product api ?req (s\<lparr>pg_saving := True\<rparr>) = (a, s1)" by force
  obtain s2 es where l: "loadProducts api cl (pg_page cl) (pg_pageSize cl) (product_closeForm s1) = (Done (), s2, es)"
    using loadProducts_done [of api cl "pg_page cl" "pg_pageSize cl"] by (metis prod.collapse)
  have c: "updateProduct (pa_product api) (pd_id product) (product_update_request cl) (s\<lparr>pg_saving := True\<rparr>) =
      (api_outcome a, s1, [Sent ?req])"
    using q by (simp add: updateProduct_def apiRequest_run)
  show ?thesis using q
    by (cases "api_outcome a") (simp_all add: product_handleSubmit_def assms only_if_def run_prims
      bind_known try_known l c Let_def)
qed

lemma product_delete_run:
  "product_handleDelete api cl product s =
     (if \<not> pa_user api ''adminProductDeleteConfirm'' s then (Done (), s, [Asked ''adminProductDeleteConfirm''])
      else let req = (''/api/v1/products/'' @ pd_id product, bare DELETE)
      in case pa_delete api req (s\<lparr>pg_deletingId := Some (pd_id product)\<rparr>) of (a, s1) \<Rightarrow>
        (case api_outcome a of
           Done t \<Rightarrow>
             (if length (pg_products cl) = 1 \<and> 1 < pg_page cl
              then (Done (), s1\<lparr>pg_page := pg_page s1 - 1, pg_deletingId := None\<rparr>,
                    [Asked ''adminProductDeleteConfirm'', Sent req, Notice NSuccess ''adminProductDeleteSuccess'' NoDescription])
              else let out = loadProducts api cl (pg_page cl) (pg_pageSize cl) s1
                   in (Done (), (state_of out)\<lparr>pg_deletingId := None\<rparr>,
                       [Asked ''adminProductDeleteConfirm'', Sent req, Notice NSuccess ''adminProductDeleteSuccess'' NoDescription]
                         @ effects_of out))
         | Threw e \<Rightarrow> (Done (), s1\<lparr>pg_deletingId := None\<rparr>,
             [Asked ''adminProductDeleteConfirm'', Sent req, Notice NError ''adminProductDeleteFailed'' (error_description e)])))"
proof -
  let ?req = "(''/api/v1/products/'' @ pd_id product, bare DELETE)"
  obtain a s1 where q: "pa_delete api ?req (s\<lparr>pg_deletingId := Some (pd_id product)\<rparr>) = (a, s1)" by force
  obtain s2 es where l: "loadProducts api cl (pg_page cl) (pg_pageSize cl) s1 = (Done (), s2, es)"
    using loadProducts_done [of api cl "pg_page cl" "pg_pageSize cl"] by (metis prod.collapse)
  have c: "deleteProduct (pa_delete api) (pd_id product) (s\<lparr>pg_deletingId := Some (pd_id product)\<rparr>) = (api_outcome a, s1, [Sent ?req])"
    using q by (simp add: deleteProduct_def apiRequest_run)
  show ?thesis using q
    by (cases "api_outcome a") (simp_all add: product_handleDelete_def run_prims bind_known try_known l c Let_def)
qed

definition no_start :: "'p \<Rightarrow> 's \<Rightarrow> 's" where
  "no_start p s = s"

interpretation product_tenants_fx: fetch_effect no_start product_tenants_asks product_tenants_settles
  by unfold_locales (simp add: product_tenants_settles_def)

interpretation product_fx: fetch_effect product_effect_starts product_effect_asks product_effect_settles
  by unfold_locales (simp add: product_effect_settles_def)

section \<open>Properties\<close>

text \<open>
  The products of one tenant never appear under another. In every run of the loading effect,
  whatever tenants and pages are selected one after the other and in whatever order the answers
  come, an answer changes the page only if it was asked for the tenant, page and size of the
  latest run, and no answer changes it after a run without a tenant.
\<close>

theorem product_list_not_stale:
  assumes "product_fx.fx_reachable s0 m" "product_fx.fx_step m (Settle i answer) m'" "fx_state m' \<noteq> fx_state m"
  shows "\<exists>tenantId page psz. fx_current m = Some (i, tenantId, page, psz) \<and>
     fx_state m' = fst (product_effect_settles False (tenantId, page, psz) answer (fx_state m))"
  using product_fx.latest_answer_applied [OF assms] by auto

lemma product_list_not_stale_witness:
  "\<exists>m (m' :: (product_page, string \<times> int \<times> int) fx). product_fx.fx_reachable product_init m \<and> fx_current m = Some (0, ''t'', 1, 10) \<and> fx_state m' \<noteq> fx_state m \<and>
     (\<exists>tenantId page psz. fx_current m = Some (0, tenantId, page, psz) \<and>
        fx_state m' = fst (product_effect_settles False (tenantId, page, psz) (Inl NonError) (fx_state m)))"
proof -
  let ?m0 = "fx_init product_init :: (product_page, string \<times> int \<times> int) fx" and ?p = "(''t'', 1, 10) :: string \<times> int \<times> int"
  obtain r where r: "product_effect_asks ?p = Some r" by (simp add: product_effect_asks_def)
  define m1 where "m1 = (fx_cancel ?m0)\<lparr>fx_state := product_effect_starts ?p (fx_state ?m0),
     fx_runs := fx_runs (fx_cancel ?m0) @ [(fx_next ?m0, ?p, False)],
     fx_next := Suc (fx_next ?m0), fx_current := Some (fx_next ?m0, ?p), fx_log := fx_log ?m0 @ [Sent r]\<rparr>"
  have s1: "product_fx.fx_step ?m0 (Run ?p) m1" unfolding m1_def by (rule product_fx.run_some [OF r])
  have r1: "product_fx.fx_reachable product_init m1" by (rule product_fx.fx_next [OF product_fx.fx_start s1])
  have m1: "fx_runs m1 = [(0, ?p, False)]" "fx_state m1 = product_init\<lparr>pg_loading := True\<rparr>" "fx_current m1 = Some (0, ?p)"
    by (simp_all add: m1_def fx_cancel_def fx_init_def product_effect_starts_def)
  define m2 where "m2 = m1\<lparr>fx_state := product_init, fx_log := fx_log m1 @ [Notice NError ''adminProductLoadFailed'' NoDescription],
     fx_runs := filter (\<lambda>(j, q, d). j \<noteq> 0) (fx_runs m1)\<rparr>"
  have s2: "product_fx.fx_step m1 (Settle 0 (Inl NonError)) m2" unfolding m2_def
    by (rule product_fx.settle [of 0 ?p False]) (simp_all add: m1 product_effect_settles_def product_init_def)
  have ne: "fx_state m2 \<noteq> fx_state m1" by (simp add: m2_def m1 product_init_def)
  note r = product_list_not_stale [OF r1 s2 ne]
  show ?thesis by (rule exI [of _ m1], rule exI [of _ m2]) (use r1 ne m1(3) r in simp)
qed

text \<open>
  Submitting the product form. Without a selected tenant nothing happens. Otherwise the first
  request creates the product in that tenant or updates the edited product, with the texts trimmed;
  only after its success the form closes and the list of the same tenant is loaded; a failure shows
  one error and keeps the form; the saving flag ends cleared and nothing is thrown.
\<close>

theorem product_submit_behaviour:
  assumes "pg_formMode cl = Some Create \<or> pg_formMode cl = Some Edit \<and> pg_editing cl = Some product"
    and "req = (if pg_formMode cl = Some Create
       then (''/api/v1/products'', with_data POST (product_create_body (product_create_request cl)))
       else (''/api/v1/products/'' @ pd_id product, with_data PUT (product_update_body (product_update_request cl))))"
    and "pa_product api req (s\<lparr>pg_saving := True\<rparr>) = (a, s1)"
    and "out = product_handleSubmit api cl s"
  shows "if pg_tenantId cl = [] then out = (Done (), s, [])
    else outcome_of out = Done () \<and> \<not> pg_saving (state_of out) \<and>
    (case api_outcome a of
       Done _ \<Rightarrow> requests (effects_of out) =
           [req, product_list_request (pg_tenantId cl) (if pg_formMode cl = Some Create then 1 else pg_page cl) (pg_pageSize cl)]
     | Threw e \<Rightarrow> requests (effects_of out) = [req] \<and> pg_form (state_of out) = pg_form s1 \<and>
         pg_formMode (state_of out) = pg_formMode s1 \<and>
         (\<exists>key. last (effects_of out) = Notice NError key (error_description e)))"
proof (cases "pg_tenantId cl = []")
  case True
  then show ?thesis using assms(4) by (simp add: product_handleSubmit_def run_prims)
next
  case t: False
  show ?thesis using assms(1)
  proof
    assume m: "pg_formMode cl = Some Create"
    then show ?thesis using t assms(2-)
      by (simp add: product_create_run Let_def loadProducts_requests split: outcome.split)
  next
    assume m: "pg_formMode cl = Some Edit \<and> pg_editing cl = Some product"
    then show ?thesis using t assms(2-)
      by (simp add: product_edit_run [OF conjunct1 [OF m] conjunct2 [OF m] t] Let_def loadProducts_requests split: outcome.split)
  qed
qed

definition sample_product_api :: "product_page product_api" where
  "sample_product_api = \<lparr>pa_list = (\<lambda>r s. (Inl EngineError, s)), pa_product = (\<lambda>r s. (Inl (PlainError ''offline''), s)),
     pa_delete = (\<lambda>r s. (Inl NonError, s)), pa_user = (\<lambda>q s. False)\<rparr>"

definition sample_product :: product where
  "sample_product = \<lparr>pd_id = ''p1'', pd_tenant_id = ''t1'', pd_key = ''k'', pd_name = ''n'', pd_description = [],
     pd_node_type = Direct, pd_auth_type = Secret, pd_protocol_type = Mqtt, pd_status = Active, pd_created_at = [], pd_updated_at = []\<rparr>"

lemma product_submit_behaviour_witness:
  "pg_formMode (state_of (product_handleSubmit sample_product_api
      (product_openCreateForm (product_init\<lparr>pg_tenantId := ''t''\<rparr>)) (product_openCreateForm (product_init\<lparr>pg_tenantId := ''t''\<rparr>))))
     = Some Create"
  using product_submit_behaviour [of "product_openCreateForm (product_init\<lparr>pg_tenantId := ''t''\<rparr>)" sample_product, OF _ refl _ refl,
      of sample_product_api "product_openCreateForm (product_init\<lparr>pg_tenantId := ''t''\<rparr>)"
         "Inl (PlainError ''offline'')" "(product_openCreateForm (product_init\<lparr>pg_tenantId := ''t''\<rparr>))\<lparr>pg_saving := True\<rparr>"]
  by (simp add: product_openCreateForm_def sample_product_api_def)

end
