(* ===== verification/ThingsModelPage.thy ===== *)
theory ThingsModelPage
  imports ThingsModelRows ProductPage
begin

text \<open>
  The things model page (\<open>pages/Admin/ThingsModelManagement.tsx\<close>): the tenant and product
  selectors, the model list, the editor with its rows, and the handlers. \<open>fresh\<close> gives the local
  ids that \<open>createLocalId\<close> draws from \<open>crypto.randomUUID\<close>, one after the other; \<open>mg_ids\<close>
  counts how many were drawn.
\<close>

record model_form =
  mf_product_id :: string
  mf_version :: string
  mf_name :: string
  mf_description :: string
  mf_status :: model_status
  mf_is_current :: bool
  mf_properties :: string
  mf_events :: string
  mf_services :: string

datatype definition_tab = PropertiesTab | EventsTab | ServicesTab

record model_page =
  mg_tenants :: "tenant list"
  mg_tenantId :: string
  mg_products :: "product list"
  mg_productFilter :: string
  mg_models :: "things_model list"
  mg_total :: int
  mg_page :: int
  mg_pageSize :: int
  mg_loading :: bool
  mg_saving :: bool
  mg_deletingId :: "string option"
  mg_formMode :: "form_mode option"
  mg_editing :: "things_model option"
  mg_form :: model_form
  mg_tab :: definition_tab
  mg_propertyRows :: "property_row list"
  mg_eventRows :: "event_row list"
  mg_serviceRows :: "service_row list"
  mg_ids :: nat

record 's model_api =
  ma_list :: "('s, things_model page_result) request"
  ma_model :: "('s, things_model) request"
  ma_delete :: "('s, delete_result) request"
  ma_user :: "string \<Rightarrow> 's \<Rightarrow> bool"

definition model_emptyForm :: model_form where
  "model_emptyForm = \<lparr>mf_product_id = [], mf_version = ''1'', mf_name = [], mf_description = [],
     mf_status = Draft, mf_is_current = False, mf_properties = emptyObjectText,
     mf_events = emptyObjectText, mf_services = emptyObjectText\<rparr>"

definition model_init :: model_page where
  "model_init = \<lparr>mg_tenants = [], mg_tenantId = [], mg_products = [], mg_productFilter = [], mg_models = [],
     mg_total = 0, mg_page = 1, mg_pageSize = 10, mg_loading = False, mg_saving = False, mg_deletingId = None,
     mg_formMode = None, mg_editing = None, mg_form = model_emptyForm, mg_tab = PropertiesTab,
     mg_propertyRows = [], mg_eventRows = [], mg_serviceRows = [], mg_ids = 0\<rparr>"

fun modelStatusLabelKey :: "model_status \<Rightarrow> string" where
  "modelStatusLabelKey Draft = ''adminThingsModelStatusDraft''"
| "modelStatusLabelKey Published = ''adminThingsModelStatusPublished''"
| "modelStatusLabelKey Deprecated = ''adminThingsModelStatusDeprecated''"

definition model_toFormState :: "things_model \<Rightarrow> model_form" where
  "model_toFormState model =
     \<lparr>mf_product_id = tm_product_id model, mf_version = num_str (Fin (of_int (tm_version model))),
      mf_name = tm_name model, mf_description = tm_description model, mf_status = tm_status model,
      mf_is_current = tm_is_current model, mf_properties = stringifyObject (tm_properties model),
      mf_events = stringifyObject (tm_events model), mf_services = stringifyObject (tm_services model)\<rparr>"

section \<open>The selectors\<close>

definition model_tenants_asks :: "unit \<Rightarrow> http_request option" where
  "model_tenants_asks p = Some (tenant_list_request 1 50)"

definition model_tenants_settles ::
  "bool \<Rightarrow> unit \<Rightarrow> js_exn + tenant page_result \<Rightarrow> 'w model_page_scheme \<Rightarrow> 'w model_page_scheme \<times> effect list" where
  "model_tenants_settles cancelled p answer s =
     (if cancelled then (s, [])
      else case answer of
             Inr result \<Rightarrow> (s\<lparr>mg_tenants := pr_items result,
                              mg_tenantId := default_tenant (mg_tenantId s) (pr_items result)\<rparr>, [])
           | Inl e \<Rightarrow> (s, [Notice NError ''adminTenantLoadFailed'' (error_description e)]))"

text \<open>The products of the selected tenant, by \<open>tenantId\<close> of the render.\<close>

definition model_products_starts :: "string \<Rightarrow> 'w model_page_scheme \<Rightarrow> 'w model_page_scheme" where
  "model_products_starts tenantId s = (if tenantId = [] then s\<lparr>mg_products := [], mg_productFilter := []\<rparr> else s)"

definition model_products_asks :: "string \<Rightarrow> http_request option" where
  "model_products_asks tenantId = (if tenantId = [] then None else Some (product_list_request tenantId 1 100))"

definition model_products_settles ::
  "bool \<Rightarrow> string \<Rightarrow> js_exn + product page_result \<Rightarrow> 'w model_page_scheme \<Rightarrow> 'w model_page_scheme \<times> effect list" where
  "model_products_settles cancelled tenantId answer s =
     (if cancelled then (s, [])
      else case answer of
             Inr result \<Rightarrow> (s\<lparr>mg_products := pr_items result,
                 mg_form := (mg_form s)\<lparr>mf_product_id := default_product (mf_product_id (mg_form s)) (pr_items result)\<rparr>\<rparr>, [])
           | Inl e \<Rightarrow> (s, [Notice NError ''adminProductLoadFailed'' (error_description e)]))"

section \<open>Loading\<close>

definition model_list_request :: "string \<Rightarrow> string \<Rightarrow> int \<Rightarrow> int \<Rightarrow> http_request" where
  "model_list_request tenantId productFilter page psz = (''/api/v1/thingsmodels'', with_params GET (model_list_query
     \<lparr>mlp_tenant_id = tenantId, mlp_product_id = or_undefined productFilter, mlp_page = page, mlp_page_size = psz\<rparr>))"

definition model_loaded :: "things_model page_result \<Rightarrow> 'w model_page_scheme \<Rightarrow> 'w model_page_scheme" where
  "model_loaded result s = s\<lparr>mg_models := pr_items result, mg_total := pr_total result,
     mg_page := pr_page result, mg_pageSize := pr_page_size result\<rparr>"

definition model_cleared :: "'w model_page_scheme \<Rightarrow> 'w model_page_scheme" where
  "model_cleared s = s\<lparr>mg_models := [], mg_total := 0\<rparr>"

definition loadModels ::
  "'w model_page_scheme model_api \<Rightarrow> 'w model_page_scheme \<Rightarrow> int \<Rightarrow> int \<Rightarrow> ('w model_page_scheme, unit) act" where
  "loadModels api cl nextPage nextPageSize =
     (if mg_tenantId cl = [] then update model_cleared
      else steps [update (\<lambda>s. s\<lparr>mg_loading := True\<rparr>),
        finally_set
          (try_catch
            (bind (listThingsModels (ma_list api)
                \<lparr>mlp_tenant_id = mg_tenantId cl, mlp_product_id = or_undefined (mg_productFilter cl),
                 mlp_page = nextPage, mlp_page_size = nextPageSize\<rparr>)
              (\<lambda>result. update (model_loaded result)))
            (\<lambda>e. failure ''adminThingsModelLoadFailed'' e))
          (\<lambda>s. s\<lparr>mg_loading := False\<rparr>)])"

text \<open>The effect, for tenant, product filter, page and page size of the render.\<close>

definition model_effect_starts :: "string \<times> string \<times> int \<times> int \<Rightarrow> 'w model_page_scheme \<Rightarrow> 'w model_page_scheme" where
  "model_effect_starts p s = (if fst p = [] then model_cleared s else s\<lparr>mg_loading := True\<rparr>)"

definition model_effect_asks :: "string \<times> string \<times> int \<times> int \<Rightarrow> http_request option" where
  "model_effect_asks p = (case p of (tenantId, productFilter, page, psz) \<Rightarrow>
     if tenantId = [] then None else Some (model_list_request tenantId productFilter page psz))"

definition model_effect_settles ::
  "bool \<Rightarrow> string \<times> string \<times> int \<times> int \<Rightarrow> js_exn + things_model page_result \<Rightarrow> 'w model_page_scheme \<Rightarrow>
     'w model_page_scheme \<times> effect list" where
  "model_effect_settles cancelled p answer s =
     (if cancelled then (s, [])
      else case answer of
             Inr result \<Rightarrow> ((model_loaded result s)\<lparr>mg_loading := False\<rparr>, [])
           | Inl e \<Rightarrow> (s\<lparr>mg_loading := False\<rparr>, [Notice NError ''adminThingsModelLoadFailed'' (error_description e)]))"

section \<open>The editor\<close>

definition model_updateFormField :: "(model_form \<Rightarrow> model_form) \<Rightarrow> 'w model_page_scheme \<Rightarrow> 'w model_page_scheme" where
  "model_updateFormField set_field s = s\<lparr>mg_form := set_field (mg_form s)\<rparr>"

text \<open>\<open>productFilter || products[0]?.id || ''\<close> is \<open>default_product\<close>.\<close>

definition model_openCreateForm :: "(nat \<Rightarrow> string) \<Rightarrow> 'v model_page_scheme \<Rightarrow> 'w model_page_scheme \<Rightarrow> 'w model_page_scheme" where
  "model_openCreateForm fresh cl s =
     s\<lparr>mg_editing := None, mg_tab := PropertiesTab,
       mg_propertyRows := [createPropertyDraftRow (fresh (mg_ids s)) emptyPropertyDraft],
       mg_eventRows := [createEventDraftRow (fresh (mg_ids s + 1)) emptyEventDraft []],
       mg_serviceRows := [createServiceDraftRow (fresh (mg_ids s + 2)) emptyServiceDraft [] []],
       mg_ids := mg_ids s + 3,
       mg_form := model_emptyForm\<lparr>mf_product_id := default_product (mg_productFilter cl) (mg_products cl)\<rparr>,
       mg_formMode := Some Create\<rparr>"

definition model_openEditForm :: "(nat \<Rightarrow> string) \<Rightarrow> things_model \<Rightarrow> 'w model_page_scheme \<Rightarrow> 'w model_page_scheme" where
  "model_openEditForm fresh model s =
     (case propertyRowsFromObject fresh (mg_ids s) (tm_properties model) of (ps, n1) \<Rightarrow>
      case eventRowsFromObject fresh n1 (tm_events model) of (es, n2) \<Rightarrow>
      case serviceRowsFromObject fresh n2 (tm_services model) of (svs, n3) \<Rightarrow>
        s\<lparr>mg_editing := Some model, mg_tab := PropertiesTab, mg_propertyRows := ps, mg_eventRows := es,
          mg_serviceRows := svs, mg_ids := n3, mg_form := model_toFormState model, mg_formMode := Some Edit\<rparr>)"

definition model_closeForm :: "'w model_page_scheme \<Rightarrow> 'w model_page_scheme" where
  "model_closeForm s = s\<lparr>mg_formMode := None, mg_editing := None, mg_tab := PropertiesTab,
     mg_propertyRows := [], mg_eventRows := [], mg_serviceRows := [], mg_form := model_emptyForm\<rparr>"

definition model_handleTenantChange :: "string \<Rightarrow> 'w model_page_scheme \<Rightarrow> 'w model_page_scheme" where
  "model_handleTenantChange nextTenantId s =
     model_closeForm (s\<lparr>mg_tenantId := nextTenantId, mg_productFilter := [], mg_page := 1\<rparr>)"

definition handleStatusChange :: "model_status \<Rightarrow> 'w model_page_scheme \<Rightarrow> 'w model_page_scheme" where
  "handleStatusChange status s = s\<lparr>mg_form := (mg_form s)\<lparr>mf_status := status,
     mf_is_current := (if status = Published then mf_is_current (mg_form s) else False)\<rparr>\<rparr>"

definition handleApplyPreset ::
  "(nat \<Rightarrow> string) \<Rightarrow> definition_tab \<Rightarrow> js_object \<Rightarrow> 'w model_page_scheme \<Rightarrow> 'w model_page_scheme" where
  "handleApplyPreset fresh field template s =
     (case field of
        PropertiesTab \<Rightarrow> (case propertyRowsFromObject fresh (mg_ids s) template of (rows, n) \<Rightarrow>
          s\<lparr>mg_propertyRows := mg_propertyRows s @ rows, mg_ids := n\<rparr>)
      | EventsTab \<Rightarrow> (case eventRowsFromObject fresh (mg_ids s) template of (rows, n) \<Rightarrow>
          s\<lparr>mg_eventRows := mg_eventRows s @ rows, mg_ids := n\<rparr>)
      | ServicesTab \<Rightarrow> (case serviceRowsFromObject fresh (mg_ids s) template of (rows, n) \<Rightarrow>
          s\<lparr>mg_serviceRows := mg_serviceRows s @ rows, mg_ids := n\<rparr>))"

definition handleAddProperty :: "(nat \<Rightarrow> string) \<Rightarrow> 'w model_page_scheme \<Rightarrow> 'w model_page_scheme" where
  "handleAddProperty fresh s = s\<lparr>mg_propertyRows := mg_propertyRows s @
     [createPropertyDraftRow (fresh (mg_ids s)) emptyPropertyDraft], mg_ids := mg_ids s + 1\<rparr>"

definition handleRemoveProperty :: "string \<Rightarrow> 'w model_page_scheme \<Rightarrow> 'w model_page_scheme" where
  "handleRemoveProperty localId s = s\<lparr>mg_propertyRows := remove_row pw_localId localId (mg_propertyRows s)\<rparr>"

definition handleAddEvent :: "(nat \<Rightarrow> string) \<Rightarrow> 'w model_page_scheme \<Rightarrow> 'w model_page_scheme" where
  "handleAddEvent fresh s = s\<lparr>mg_eventRows := mg_eventRows s @
     [createEventDraftRow (fresh (mg_ids s)) emptyEventDraft []], mg_ids := mg_ids s + 1\<rparr>"

definition handleRemoveEvent :: "string \<Rightarrow> 'w model_page_scheme \<Rightarrow> 'w model_page_scheme" where
  "handleRemoveEvent localId s = s\<lparr>mg_eventRows := remove_row ew_localId localId (mg_eventRows s)\<rparr>"

definition handleAddService :: "(nat \<Rightarrow> string) \<Rightarrow> 'w model_page_scheme \<Rightarrow> 'w model_page_scheme" where
  "handleAddService fresh s = s\<lparr>mg_serviceRows := mg_serviceRows s @
     [createServiceDraftRow (fresh (mg_ids s)) emptyServiceDraft [] []], mg_ids := mg_ids s + 1\<rparr>"

definition handleRemoveService :: "string \<Rightarrow> 'w model_page_scheme \<Rightarrow> 'w model_page_scheme" where
  "handleRemoveService localId s = s\<lparr>mg_serviceRows := remove_row sw_localId localId (mg_serviceRows s)\<rparr>"

section \<open>Saving and deleting\<close>

definition model_create_request :: "'w model_page_scheme \<Rightarrow> js_object \<Rightarrow> js_object \<Rightarrow> js_object \<Rightarrow> model_create_input" where
  "model_create_request cl properties events services =
     \<lparr>mc_tenant_id = mg_tenantId cl, mc_product_id = mf_product_id (mg_form cl),
      mc_version = Number (mf_version (mg_form cl)), mc_name = trim (mf_name (mg_form cl)),
      mc_description = trim (mf_description (mg_form cl)), mc_status = mf_status (mg_form cl),
      mc_is_current = (mf_status (mg_form cl) = Published \<and> mf_is_current (mg_form cl)),
      mc_properties = properties, mc_events = events, mc_services = services\<rparr>"

definition model_update_request :: "'w model_page_scheme \<Rightarrow> js_object \<Rightarrow> js_object \<Rightarrow> js_object \<Rightarrow> model_update_input" where
  "model_update_request cl properties events services =
     \<lparr>mu_name = trim (mf_name (mg_form cl)), mu_description = trim (mf_description (mg_form cl)),
      mu_status = mf_status (mg_form cl),
      mu_is_current = (mf_status (mg_form cl) = Published \<and> mf_is_current (mg_form cl)),
      mu_properties = properties, mu_events = events, mu_services = services\<rparr>"

definition model_submit_error :: "'w model_page_scheme \<Rightarrow> js_exn \<Rightarrow> string" where
  "model_submit_error cl e =
     (if e = SyntaxError then ''adminThingsModelJSONInvalid''
      else if mg_formMode cl = Some Create then ''adminThingsModelCreateFailed''
      else ''adminThingsModelUpdateFailed'')"

definition model_handleSubmit ::
  "'w model_page_scheme model_api \<Rightarrow> 'w model_page_scheme \<Rightarrow> ('w model_page_scheme, unit) act" where
  "model_handleSubmit api cl =
     (if mg_tenantId cl = [] then ret ()
      else if \<not> validateDefinitionRows (mg_propertyRows cl) (mg_eventRows cl) (mg_serviceRows cl)
      then emit (Notice NWarning ''adminThingsModelDefinitionRequired'' NoDescription)
      else steps [update (\<lambda>s. s\<lparr>mg_saving := True\<rparr>),
       finally_set
         (try_catch
           (bind (lift_sum (objectFromPropertyRows (mg_propertyRows cl))) (\<lambda>properties.
            bind (lift_sum (objectFromEventRows (mg_eventRows cl))) (\<lambda>events.
            bind (lift_sum (objectFromServiceRows (mg_serviceRows cl))) (\<lambda>services.
            steps [
              only_if (mg_formMode cl = Some Create)
                (bind (createThingsModel (ma_model api) (model_create_request cl properties events services)) (\<lambda>_.
                   steps [success ''adminThingsModelCreateSuccess'', update (\<lambda>s. s\<lparr>mg_page := 1\<rparr>)])),
              (case mg_editing cl of
                 Some model \<Rightarrow>
                   only_if (mg_formMode cl = Some Edit)
                     (bind (updateThingsModel (ma_model api) (tm_id model) (model_update_request cl properties events services)) (\<lambda>_.
                        success ''adminThingsModelUpdateSuccess''))
               | None \<Rightarrow> ret ()),
              update model_closeForm,
              loadModels api cl (if mg_formMode cl = Some Create then 1 else mg_page cl) (mg_pageSize cl)]))))
           (\<lambda>e. failure (model_submit_error cl e) e))
         (\<lambda>s. s\<lparr>mg_saving := False\<rparr>)])"

definition model_handleDelete ::
  "'w model_page_scheme model_api \<Rightarrow> 'w model_page_scheme \<Rightarrow> things_model \<Rightarrow> ('w model_page_scheme, unit) act" where
  "model_handleDelete api cl model =
     bind (confirm (ma_user api) ''adminThingsModelDeleteConfirm'') (\<lambda>ok.
       if \<not> ok then ret ()
       else steps [update (\<lambda>s. s\<lparr>mg_deletingId := Some (tm_id model)\<rparr>),
         finally_set
           (try_catch
             (bind (deleteThingsModel (ma_delete api) (tm_id model)) (\<lambda>_.
                steps [success ''adminThingsModelDeleteSuccess'',
                  (if length (mg_models cl) = 1 \<and> 1 < mg_page cl
                   then update (\<lambda>s. s\<lparr>mg_page := mg_page s - 1\<rparr>)
                   else loadModels api cl (mg_page cl) (mg_pageSize cl))]))
             (\<lambda>e. failure ''adminThingsModelDeleteFailed'' e))
           (\<lambda>s. s\<lparr>mg_deletingId := None\<rparr>)])"

section \<open>What the handlers do\<close>

lemma loadModels_run:
  "loadModels api cl page psz s =
     (if mg_tenantId cl = [] then (Done (), model_cleared s, [])
      else case ma_list api (model_list_request (mg_tenantId cl) (mg_productFilter cl) page psz) (s\<lparr>mg_loading := True\<rparr>) of (a, s') \<Rightarrow>
        (case api_outcome a of
           Done r \<Rightarrow> (Done (), (model_loaded r s')\<lparr>mg_loading := False\<rparr>,
             [Sent (model_list_request (mg_tenantId cl) (mg_productFilter cl) page psz)])
         | Threw e \<Rightarrow> (Done (), s'\<lparr>mg_loading := False\<rparr>,
             [Sent (model_list_request (mg_tenantId cl) (mg_productFilter cl) page psz),
              Notice NError ''adminThingsModelLoadFailed'' (error_description e)])))"
  by (simp add: loadModels_def listThingsModels_def model_list_request_def apiRequest_run run_defs
      split: prod.split outcome.split)

lemma loadModels_done: "outcome_of (loadModels api cl page psz s) = Done ()"
  by (simp add: loadModels_run split: prod.split outcome.split)

lemma loadModels_requests:
  "mg_tenantId cl \<noteq> [] \<Longrightarrow> requests (effects_of (loadModels api cl page psz s)) =
     [model_list_request (mg_tenantId cl) (mg_productFilter cl) page psz]"
  by (simp add: loadModels_run split: prod.split outcome.split)

text \<open>The three definition objects of the rows, in the order in which they are built.\<close>

definition built_definitions :: "'w model_page_scheme \<Rightarrow> js_exn + js_object \<times> js_object \<times> js_object" where
  "built_definitions cl = sum_bind (objectFromPropertyRows (mg_propertyRows cl)) (\<lambda>properties.
     sum_bind (objectFromEventRows (mg_eventRows cl)) (\<lambda>events.
     sum_bind (objectFromServiceRows (mg_serviceRows cl)) (\<lambda>services. Inr (properties, events, services))))"

lemma bind_built:
  "bind (lift_sum (objectFromPropertyRows (mg_propertyRows cl))) (\<lambda>properties.
   bind (lift_sum (objectFromEventRows (mg_eventRows cl))) (\<lambda>events.
   bind (lift_sum (objectFromServiceRows (mg_serviceRows cl))) (\<lambda>services. k properties events services))) =
   bind (lift_sum (built_definitions cl)) (\<lambda>(properties, events, services). k properties events services)"
proof (cases "objectFromPropertyRows (mg_propertyRows cl)")
  case (Inr properties)
  then show ?thesis
    by (cases "objectFromEventRows (mg_eventRows cl)"; cases "objectFromServiceRows (mg_serviceRows cl)")
      (simp_all add: built_definitions_def bind_ret bind_throw)
qed (simp add: built_definitions_def bind_throw)

definition rows_valid :: "'w model_page_scheme \<Rightarrow> bool" where
  "rows_valid cl \<longleftrightarrow> validateDefinitionRows (mg_propertyRows cl) (mg_eventRows cl) (mg_serviceRows cl)"

lemma model_unbuilt_run:
  assumes "mg_tenantId cl \<noteq> []" "rows_valid cl" "built_definitions cl = Inl e"
  shows "model_handleSubmit api cl s = (Done (), s\<lparr>mg_saving := False\<rparr>,
     [Notice NError (model_submit_error cl e) (error_description e)])"
  using assms by (simp add: model_handleSubmit_def rows_valid_def bind_built bind_throw run_prims bind_known try_known)

lemma model_create_run:
  assumes "mg_tenantId cl \<noteq> []" "rows_valid cl" "built_definitions cl = Inr (ps, es, svs)" "mg_formMode cl = Some Create"
  shows "model_handleSubmit api cl s =
     (let req = (''/api/v1/thingsmodels'', with_data POST (model_create_body (model_create_request cl ps es svs)))
      in case ma_model api req (s\<lparr>mg_saving := True\<rparr>) of (a, s1) \<Rightarrow>
        (case api_outcome a of
           Done t \<Rightarrow> (let out = loadModels api cl 1 (mg_pageSize cl) (model_closeForm (s1\<lparr>mg_page := 1\<rparr>))
                     in (Done (), (state_of out)\<lparr>mg_saving := False\<rparr>,
                         Sent req # Notice NSuccess ''adminThingsModelCreateSuccess'' NoDescription # effects_of out))
         | Threw e \<Rightarrow> (Done (), s1\<lparr>mg_saving := False\<rparr>,
             [Sent req, Notice NError (model_submit_error cl e) (error_description e)])))"
proof -
  let ?req = "(''/api/v1/thingsmodels'', with_data POST (model_create_body (model_create_request cl ps es svs)))"
  obtain a s1 where q: "ma_model api ?req (s\<lparr>mg_saving := True\<rparr>) = (a, s1)" by force
  obtain s2 es2 where l: "loadModels api cl 1 (mg_pageSize cl) (model_closeForm (s1\<lparr>mg_page := 1\<rparr>)) = (Done (), s2, es2)"
    using loadModels_done [of api cl 1 "mg_pageSize cl"] by (metis prod.collapse)
  have c: "createThingsModel (ma_model api) (model_create_request cl ps es svs) (s\<lparr>mg_saving := True\<rparr>) = (api_outcome a, s1, [Sent ?req])"
    by (simp add: createThingsModel_def apiRequest_run q)
  show ?thesis using assms
    by (cases "api_outcome a") (simp_all add: model_handleSubmit_def rows_valid_def bind_built bind_ret only_if_def run_prims
      bind_known try_known q l c Let_def split: option.split)
qed

lemma model_edit_run:
  assumes "mg_tenantId cl \<noteq> []" "rows_valid cl" "built_definitions cl = Inr (ps, es, svs)"
    and "mg_formMode cl = Some Edit" "mg_editing cl = Some model"
  shows "model_handleSubmit api cl s =
     (let req = (''/api/v1/thingsmodels/'' @ tm_id model, with_data PUT (model_update_body (model_update_request cl ps es svs)))
      in case ma_model api req (s\<lparr>mg_saving := True\<rparr>) of (a, s1) \<Rightarrow>
        (case api_outcome a of
           Done t \<Rightarrow> (let out = loadModels api cl (mg_page cl) (mg_pageSize cl) (model_closeForm s1)
                     in (Done (), (state_of out)\<lparr>mg_saving := False\<rparr>,
                         Sent req # Notice NSuccess ''adminThingsModelUpdateSuccess'' NoDescription # effects_of out))
         | Threw e \<Rightarrow> (Done (), s1\<lparr>mg_saving := False\<rparr>,
             [Sent req, Notice NError (model_submit_error cl e) (error_description e)])))"
proof -
  let ?req = "(''/api/v1/thingsmodels/'' @ tm_id model, with_data PUT (model_update_body (model_update_request cl ps es svs)))"
  obtain a s1 where q: "ma_model api ?req (s\<lparr>mg_saving := True\<rparr>) = (a, s1)" by force
  obtain s2 es2 where l: "loadModels api cl (mg_page cl) (mg_pageSize cl) (model_closeForm s1) = (Done (), s2, es2)"
    using loadModels_done [of api cl "mg_page cl" "mg_pageSize cl"] by (metis prod.collapse)
  have c: "updateThingsModel (ma_model api) (tm_id model) (model_update_request cl ps es svs) (s\<lparr>mg_saving := True\<rparr>) = (api_outcome a, s1, [Sent ?req])"
    using q by (simp add: updateThingsModel_def apiRequest_run)
  show ?thesis using assms q
    by (cases "api_outcome a") (simp_all add: model_handleSubmit_def rows_valid_def bind_built bind_ret only_if_def run_prims
      bind_known try_known l c Let_def)
qed

lemma model_delete_run:
  "model_handleDelete api cl model s =
     (if \<not> ma_user api ''adminThingsModelDeleteConfirm'' s then (Done (), s, [Asked ''adminThingsModelDeleteConfirm''])
      else let req = (''/api/v1/thingsmodels/'' @ tm_id model, bare DELETE)
      in case ma_delete api req (s\<lparr>mg_deletingId := Some (tm_id model)\<rparr>) of (a, s1) \<Rightarrow>
        (case api_outcome a of
           Done t \<Rightarrow>
             (if length (mg_models cl) = 1 \<and> 1 < mg_page cl
              then (Done (), s1\<lparr>mg_page := mg_page s1 - 1, mg_deletingId := None\<rparr>,
                    [Asked ''adminThingsModelDeleteConfirm'', Sent req, Notice NSuccess ''adminThingsModelDeleteSuccess'' NoDescription])
              else let out = loadModels api cl (mg_page cl) (mg_pageSize cl) s1
                   in (Done (), (state_of out)\<lparr>mg_deletingId := None\<rparr>,
                       [Asked ''adminThingsModelDeleteConfirm'', Sent req, Notice NSuccess ''adminThingsModelDeleteSuccess'' NoDescription]
                         @ effects_of out))
         | Threw e \<Rightarrow> (Done (), s1\<lparr>mg_deletingId := None\<rparr>,
             [Asked ''adminThingsModelDeleteConfirm'', Sent req, Notice NError ''adminThingsModelDeleteFailed'' (error_description e)])))"
proof -
  let ?req = "(''/api/v1/thingsmodels/'' @ tm_id model, bare DELETE)"
  obtain a s1 where q: "ma_delete api ?req (s\<lparr>mg_deletingId := Some (tm_id model)\<rparr>) = (a, s1)" by force
  obtain s2 es where l: "loadModels api cl (mg_page cl) (mg_pageSize cl) s1 = (Done (), s2, es)"
    using loadModels_done [of api cl "mg_page cl" "mg_pageSize cl"] by (metis prod.collapse)
  have c: "deleteThingsModel (ma_delete api) (tm_id model) (s\<lparr>mg_deletingId := Some (tm_id model)\<rparr>) = (api_outcome a, s1, [Sent ?req])"
    using q by (simp add: deleteThingsModel_def apiRequest_run)
  show ?thesis using q
    by (cases "api_outcome a") (simp_all add: model_handleDelete_def run_prims bind_known try_known l c Let_def)
qed

interpretation model_tenants_fx: fetch_effect no_start model_tenants_asks model_tenants_settles
  by unfold_locales (simp add: model_tenants_settles_def)

interpretation model_products_fx: fetch_effect model_products_starts model_products_asks model_products_settles
  by unfold_locales (simp add: model_products_settles_def)

interpretation model_fx: fetch_effect model_effect_starts model_effect_asks model_effect_settles
  by unfold_locales (simp add: model_effect_settles_def)

end
