(* ===== verification/ThingsModelSave.thy ===== *)
theory ThingsModelSave
  imports ThingsModelPage
begin

text \<open>
  Saving and reopening things models (\<open>pages/Admin/ThingsModelManagement.tsx\<close>). The codec
  locale of the drafts is extended by the validation of the editor: rows read back from what
  valid rows saved are valid again. With the behaviour of the submit handler it follows that
  opening a saved model and submitting it unchanged sends the model as it is stored.
\<close>

section \<open>Validation of reopened rows\<close>

locale valid_codec = row_codec +
  fixes valid :: "'a \<Rightarrow> bool"
  assumes valid_again: "build row = Inr d \<Longrightarrow> valid row \<Longrightarrow> valid (fst (read n (k, JObj d)))"
begin

definition strict :: "'a \<Rightarrow> js_exn + js_object" where
  "strict row = (if valid row then build row else Inl NonError)"

lemma reduce_strict: "list_all valid rows \<Longrightarrow> reduce_from idf strict ob rows = reduce_from idf build ob rows"
proof (induction rows arbitrary: ob)
  case (Cons row rows)
  then show ?case by (cases "build row") (simp_all add: reduce_from_Cons strict_def)
qed simp

lemma reopened_valid:
  assumes "reduce_rows idf build rows = Inr ob" "list_all valid rows"
  shows "list_all (\<lambda>row. trim (idf row) \<noteq> [] \<and> valid row) (fst (map_ids read n ob))"
proof -
  have "reduce_from idf strict [] rows = Inr ob"
    using assms by (simp add: reduce_strict reduce_rows_from)
  then have b: "built strict ob" using reduce_built [of idf strict "[]" rows ob] by (simp add: built_def)
  have "list_all2 (\<lambda>row x. trim (idf row) \<noteq> [] \<and> valid row) (fst (map_ids read n ob)) ob"
  proof (rule map_ids_rows)
    fix m x assume x: "x \<in> set ob"
    obtain k v where kv: "x = (k, v)" by force
    then obtain row d where d: "strict row = Inr d" "v = JObj d" and k: "k \<noteq> []" "trim k = k"
      using b x by (fastforce simp: built_def)
    then have "build row = Inr d" "valid row" by (simp_all add: strict_def split: if_splits)
    then show "trim (idf (fst (read m x))) \<noteq> [] \<and> valid (fst (read m x))"
      using valid_again [of row d m k] k d(2) kv by (simp add: read_identifier)
  qed
  then show ?thesis by (auto simp: list_all2_conv_all_nth list_all_length)
qed

end

lemma paramDefinition_name:
  "paramDefinitionFromDraft d = Inr ob \<Longrightarrow> obj_get ob ''name'' = Some (JStr (trim (dr_name d)))"
  by (auto simp: paramDefinition_eq sum_bind_Inr param_object_get)

interpretation valid_params: valid_codec dr_identifier paramDefinitionFromDraft "read_param fresh"
  "\<lambda>row. trim (dr_name row) \<noteq> []" for fresh
proof
  fix row :: param_row and d n k
  assume "paramDefinitionFromDraft row = Inr d" "trim (dr_name row) \<noteq> []"
  then show "trim (dr_name (fst (read_param fresh n (k, JObj d)))) \<noteq> []"
    by (simp add: read_param_def draftFromParamDefinition_def Let_def paramDefinition_name)
qed

lemma params_reopened:
  assumes "objectFromParamRows rows = Inr ob" "validateParamRows rows"
  shows "validateParamRows (fst (paramRowsFromObject fresh n ob))"
  using valid_params.reopened_valid [of rows ob fresh n] assms
  by (simp add: objectFromParamRows_def paramRows_read validateParamRows_def list_all_iff)

interpretation valid_properties: valid_codec dr_identifier propertyDefinitionFromDraft "read_property fresh"
  "\<lambda>row. trim (dr_name row) \<noteq> []" for fresh
proof
  fix row :: property_row and d n k
  assume "propertyDefinitionFromDraft row = Inr d" "trim (dr_name row) \<noteq> []"
  then show "trim (dr_name (fst (read_property fresh n (k, JObj d)))) \<noteq> []"
    by (auto simp: propertyDefinitionFromDraft_def sum_bind_Inr read_property_fields paramDefinition_name)
qed

interpretation valid_events: valid_codec ed_identifier eventDefinitionFromRow "read_event fresh"
  "\<lambda>row. trim (ed_name row) \<noteq> [] \<and> validateParamRows (ew_outputParams row)" for fresh
proof
  fix row :: event_row and d n k
  assume "eventDefinitionFromRow row = Inr d" "trim (ed_name row) \<noteq> [] \<and> validateParamRows (ew_outputParams row)"
  then show "trim (ed_name (fst (read_event fresh n (k, JObj d)))) \<noteq> [] \<and>
      validateParamRows (ew_outputParams (fst (read_event fresh n (k, JObj d))))"
    by (auto simp: eventDefinitionFromRow_def sum_bind_Inr read_event_fields intro: params_reopened)
qed

interpretation valid_services: valid_codec sd_identifier serviceDefinitionFromRow "read_service fresh"
  "\<lambda>row. trim (sd_name row) \<noteq> [] \<and> validateParamRows (sw_inputParams row) \<and> validateParamRows (sw_outputParams row)" for fresh
proof
  fix row :: service_row and d n k
  assume "serviceDefinitionFromRow row = Inr d"
    "trim (sd_name row) \<noteq> [] \<and> validateParamRows (sw_inputParams row) \<and> validateParamRows (sw_outputParams row)"
  then show "trim (sd_name (fst (read_service fresh n (k, JObj d)))) \<noteq> [] \<and>
      validateParamRows (sw_inputParams (fst (read_service fresh n (k, JObj d)))) \<and>
      validateParamRows (sw_outputParams (fst (read_service fresh n (k, JObj d))))"
    by (auto simp: serviceDefinitionFromRow_def sum_bind_Inr read_service_fields intro: params_reopened)
qed

text \<open>A model as the editor saves it.\<close>

definition saved_model :: "property_row list \<Rightarrow> event_row list \<Rightarrow> service_row list \<Rightarrow> things_model \<Rightarrow> bool" where
  "saved_model prs ers srs model \<longleftrightarrow> validateDefinitionRows prs ers srs \<and>
     objectFromPropertyRows prs = Inr (tm_properties model) \<and> objectFromEventRows ers = Inr (tm_events model) \<and>
     objectFromServiceRows srs = Inr (tm_services model) \<and> trim (tm_name model) = tm_name model \<and>
     trim (tm_description model) = tm_description model \<and> (tm_is_current model \<longrightarrow> tm_status model = Published)"

lemma reopened_rows:
  assumes "saved_model prs ers srs model"
  shows "rows_valid (model_openEditForm fresh model s)"
    "built_definitions (model_openEditForm fresh model s) = Inr (tm_properties model, tm_events model, tm_services model)"
proof -
  obtain ps n1 where p: "propertyRowsFromObject fresh (mg_ids s) (tm_properties model) = (ps, n1)" by force
  obtain es n2 where e: "eventRowsFromObject fresh n1 (tm_events model) = (es, n2)" by force
  obtain svs n3 where v: "serviceRowsFromObject fresh n2 (tm_services model) = (svs, n3)" by force
  note r = p e v
  have a: "list_all (\<lambda>row. trim (dr_name row) \<noteq> []) prs"
      "list_all (\<lambda>row. trim (ed_name row) \<noteq> [] \<and> validateParamRows (ew_outputParams row)) ers"
      "list_all (\<lambda>row. trim (sd_name row) \<noteq> [] \<and> validateParamRows (sw_inputParams row) \<and> validateParamRows (sw_outputParams row)) srs"
    using assms by (simp_all add: saved_model_def validateDefinitionRows_def list_all_iff valid_event_row_def valid_service_row_def)
  have b: "reduce_rows dr_identifier propertyDefinitionFromDraft prs = Inr (tm_properties model)"
      "reduce_rows ed_identifier eventDefinitionFromRow ers = Inr (tm_events model)"
      "reduce_rows sd_identifier serviceDefinitionFromRow srs = Inr (tm_services model)"
    using assms by (simp_all add: saved_model_def objectFromPropertyRows_def objectFromEventRows_def objectFromServiceRows_def)
  have "validateDefinitionRows ps es svs"
    using valid_properties.reopened_valid [OF b(1) a(1), of fresh "mg_ids s"]
      valid_events.reopened_valid [OF b(2) a(2), of fresh n1] valid_services.reopened_valid [OF b(3) a(3), of fresh n2] r
    by (simp add: validateDefinitionRows_def valid_event_row_def [abs_def] valid_service_row_def [abs_def]
      propertyRows_read eventRows_read serviceRows_read list_all_iff)
  then show "rows_valid (model_openEditForm fresh model s)"
    by (simp add: rows_valid_def model_openEditForm_def r)
  show "built_definitions (model_openEditForm fresh model s) = Inr (tm_properties model, tm_events model, tm_services model)"
    using properties.save_again [OF b(1), of fresh "mg_ids s"] events.save_again [OF b(2), of fresh n1]
      services.save_again [OF b(3), of fresh n2] r
    by (simp add: built_definitions_def model_openEditForm_def objectFromPropertyRows_def objectFromEventRows_def
      objectFromServiceRows_def propertyRows_read eventRows_read serviceRows_read)
qed

section \<open>Properties\<close>

text \<open>
  C13: opening a saved model and submitting it at once changes nothing: whatever rows it was saved
  from, the form is valid and the update request carries the name, description, status, current
  flag, properties, events and services that are stored, whichever local ids the rows get.
\<close>

theorem unchanged_edit_resends:
  assumes "saved_model prs ers srs model" "mg_tenantId s \<noteq> []" "cl = model_openEditForm fresh model s"
  shows "\<exists>rest. requests (effects_of (model_handleSubmit api cl s')) =
    (''/api/v1/thingsmodels/'' @ tm_id model, with_data PUT (model_update_body
       \<lparr>mu_name = tm_name model, mu_description = tm_description model, mu_status = tm_status model,
        mu_is_current = tm_is_current model, mu_properties = tm_properties model, mu_events = tm_events model,
        mu_services = tm_services model\<rparr>)) # rest"
proof -
  have f: "mg_formMode cl = Some Edit" "mg_editing cl = Some model" "mg_form cl = model_toFormState model"
      "mg_tenantId cl = mg_tenantId s"
    by (simp_all add: assms(3) model_openEditForm_def split: prod.split)
  have u: "model_update_request cl (tm_properties model) (tm_events model) (tm_services model) =
     \<lparr>mu_name = tm_name model, mu_description = tm_description model, mu_status = tm_status model,
      mu_is_current = tm_is_current model, mu_properties = tm_properties model, mu_events = tm_events model,
      mu_services = tm_services model\<rparr>"
    using assms(1) by (auto simp: model_update_request_def f model_toFormState_def saved_model_def)
  show ?thesis
    using model_edit_run [of cl "tm_properties model" "tm_events model" "tm_services model" model api s']
      reopened_rows [OF assms(1), of fresh s] assms(2,3) f u
    by (simp add: Let_def split: prod.split outcome.split)
qed

definition sample_model :: things_model where
  "sample_model = \<lparr>tm_id = ''m1'', tm_tenant_id = ''t1'', tm_product_id = ''p1'', tm_version = 1, tm_name = ''T'',
     tm_description = [], tm_status = Draft, tm_is_current = False, tm_properties = sample_object,
     tm_events = [], tm_services = [], tm_published_at = None, tm_created_at = [], tm_updated_at = []\<rparr>"

definition sample_model_api :: "model_page model_api" where
  "sample_model_api = \<lparr>ma_list = (\<lambda>r s. (Inl EngineError, s)), ma_model = (\<lambda>r s. (Inl (PlainError ''offline''), s)),
     ma_delete = (\<lambda>r s. (Inl NonError, s)), ma_user = (\<lambda>q s. False)\<rparr>"

lemma sample_trims: "trim ''T'' = ''T''" "trim '' temp '' = ''temp''"
  by (rule trim_plain, simp add: plain_char_def) code_simp

lemma sample_saved_model: "saved_model [sample_row] [] [] sample_model"
proof -
  have "objectFromEventRows [] = Inr []" "objectFromServiceRows [] = Inr []"
    by (simp_all add: objectFromEventRows_def objectFromServiceRows_def reduce_rows_def)
  then show ?thesis
    using sample_saved by (simp add: saved_model_def sample_model_def validateDefinitionRows_def sample_row_def sample_trims)
qed

lemma unchanged_edit_resends_witness:
  "\<exists>rest. requests (effects_of (model_handleSubmit sample_model_api
      (model_openEditForm dec sample_model (model_init\<lparr>mg_tenantId := ''t1''\<rparr>)) model_init)) =
    (''/api/v1/thingsmodels/m1'', with_data PUT (model_update_body
       \<lparr>mu_name = ''T'', mu_description = [], mu_status = Draft, mu_is_current = False, mu_properties = sample_object,
        mu_events = [], mu_services = []\<rparr>)) # rest"
  using unchanged_edit_resends [OF sample_saved_model _ refl, of "model_init\<lparr>mg_tenantId := ''t1''\<rparr>" sample_model_api dec model_init]
  by (simp add: sample_model_def)



end
