(* ===== verification/ThingsModelIds.thy ===== *)
theory ThingsModelIds
  imports ThingsModelPage "HOL-Library.Multiset"
begin

text \<open>
  The local ids of the editor rows (\<open>pages/Admin/ThingsModelManagement.tsx\<close>). Every operation
  of the editor keeps some of the ids in use and adds some of those it draws, so the ids of all
  rows and nested parameter rows stay different and an edit addressed by a local id changes one
  row. The argument counts ids as multisets.
\<close>

section \<open>Ids of rows read and changed\<close>

lemma update_row_cases:
  assumes "distinct (map key rows)"
  obtains "update_row key i f rows = rows"
  | us r vs where "rows = us @ r # vs" "key r = i" "update_row key i f rows = us @ f r # vs"
proof (cases "i \<in> set (map key rows)")
  case False
  then have "update_row key i f rows = rows" by (auto simp: update_row_def intro!: map_idI)
  then show ?thesis by (rule that(1))
next
  case True
  then obtain r where "r \<in> set rows" "key r = i" by auto
  then obtain us vs where r: "rows = us @ r # vs" "key r = i" by (metis split_list)
  have "key x \<noteq> i" if "x \<in> set us \<union> set vs" for x using assms r that by (auto simp: image_iff)
  then have "update_row key i f rows = us @ f r # vs" using r by (auto simp: update_row_def intro!: map_idI)
  then show ?thesis by (rule that(2) [OF r])
qed

lemma ids_grow:
  assumes "inj fresh" "distinct L" "set L \<subseteq> fresh ` {..<n}" "n \<le> n'"
    and "mset L' \<subseteq># mset L + mset (map fresh [n..<n'])"
  shows "distinct L' \<and> set L' \<subseteq> fresh ` {..<n'}"
proof -
  have d: "distinct (L @ map fresh [n..<n'])"
    using assms(1-3) by (fastforce simp: distinct_map inj_def inj_on_def)
  have le: "mset L' \<subseteq># mset (L @ map fresh [n..<n'])" using assms(5) by simp
  have "count (mset L') a \<le> 1" for a
  proof -
    have "count (mset L') a \<le> count (mset (L @ map fresh [n..<n'])) a" using le by (rule mset_subset_eq_count)
    also have "\<dots> \<le> 1" using d unfolding distinct_count_atmost_1 by simp
    finally show ?thesis .
  qed
  then have "distinct L'"
    by (metis count_greater_eq_one_iff distinct_count_atmost_1 le_antisym not_in_iff set_mset_mset)
  moreover have "set L' \<subseteq> set (L @ map fresh [n..<n'])" using set_mset_mono [OF le] by simp
  then have "set L' \<subseteq> fresh ` {..<n'}" using assms(3,4) by fastforce
  ultimately show ?thesis by simp
qed

lemma map_ids_drawn:
  assumes "\<And>n x. n \<le> snd (f n x) \<and> mset (ids (fst (f n x))) = mset (map fresh [n..<snd (f n x)])"
  shows "n \<le> snd (map_ids f n xs) \<and>
    mset (concat (map ids (fst (map_ids f n xs)))) = mset (map fresh [n..<snd (map_ids f n xs)])"
proof (induction xs arbitrary: n)
  case (Cons x xs)
  obtain y n1 where y: "f n x = (y, n1)" by force
  obtain ys n2 where ys: "map_ids f n1 xs = (ys, n2)" by force
  have a: "n \<le> n1" "mset (ids y) = mset (map fresh [n..<n1])" using assms [of n x] y by simp_all
  have b: "n1 \<le> n2" "mset (concat (map ids ys)) = mset (map fresh [n1..<n2])" using Cons.IH [of n1] ys by simp_all
  have "[n..<n2] = [n..<n1] @ [n1..<n2]" using a(1) b(1) by (metis upt_add_eq_append le_add_diff_inverse)
  then show ?case using a b by (simp add: y ys)
qed simp

definition event_ids :: "event_row \<Rightarrow> string list" where
  "event_ids row = ew_localId row # map pr_localId (ew_outputParams row)"

definition service_ids :: "service_row \<Rightarrow> string list" where
  "service_ids row = sw_localId row # map pr_localId (sw_inputParams row) @ map pr_localId (sw_outputParams row)"

definition page_ids :: "'w model_page_scheme \<Rightarrow> string list" where
  "page_ids s = map pw_localId (mg_propertyRows s) @ concat (map event_ids (mg_eventRows s)) @
     concat (map service_ids (mg_serviceRows s))"

definition ids_ok :: "(nat \<Rightarrow> string) \<Rightarrow> 'w model_page_scheme \<Rightarrow> bool" where
  "ids_ok fresh s \<longleftrightarrow> distinct (page_ids s) \<and> set (page_ids s) \<subseteq> fresh ` {..<mg_ids s}"

lemma ids_ok_grow:
  assumes "inj fresh" "ids_ok fresh s" "mg_ids s \<le> mg_ids s'"
    and "mset (page_ids s') \<subseteq># mset (page_ids s) + mset (map fresh [mg_ids s..<mg_ids s'])"
  shows "ids_ok fresh s'"
  using ids_grow [OF assms(1) _ _ assms(3,4)] assms(2) by (simp add: ids_ok_def)

lemma ids_ok_same: "ids_ok fresh s \<Longrightarrow> page_ids s' = page_ids s \<Longrightarrow> mg_ids s' = mg_ids s \<Longrightarrow> ids_ok fresh s'"
  by (simp add: ids_ok_def)

lemma concat_keys:
  "distinct (concat (map ids rows)) \<Longrightarrow> (\<And>r. \<exists>is. ids r = key r # is) \<Longrightarrow> distinct (map key rows)"
proof (induction rows)
  case (Cons r rows)
  have k: "key x \<in> set (ids x)" for x using Cons.prems(2) [of x] by auto
  have "key r \<noteq> key x" if "x \<in> set rows" for x
  proof
    assume "key r = key x"
    then have "key r \<in> set (ids r) \<inter> set (concat (map ids rows))" using k [of r] k [of x] that by auto
    then show False using Cons.prems(1) by auto
  qed
  then have "key r \<notin> key ` set rows" by auto
  moreover have "distinct (map key rows)" using Cons.IH [OF _ Cons.prems(2)] Cons.prems(1) by simp
  ultimately show ?case by simp
qed simp

lemma param_drawn: "n \<le> snd (read_param fresh n x) \<and>
   mset [pr_localId (fst (read_param fresh n x))] = mset (map fresh [n..<snd (read_param fresh n x)])"
  by (simp add: read_param_def draftFromParamDefinition_def Let_def)

lemma params_drawn:
  "n \<le> snd (paramRowsFromObject fresh n ob) \<and>
   mset (map pr_localId (fst (paramRowsFromObject fresh n ob))) = mset (map fresh [n..<snd (paramRowsFromObject fresh n ob)])"
proof -
  have c: "concat (map (\<lambda>r. [pr_localId r]) rows) = map pr_localId rows" for rows by (induction rows) simp_all
  show ?thesis
    using map_ids_drawn [of "read_param fresh" "\<lambda>r. [pr_localId r]" fresh n ob, OF param_drawn]
    unfolding paramRows_read c .
qed

lemma properties_drawn:
  "n \<le> snd (propertyRowsFromObject fresh n ob) \<and>
   mset (map pw_localId (fst (propertyRowsFromObject fresh n ob))) = mset (map fresh [n..<snd (propertyRowsFromObject fresh n ob)])"
proof -
  have c: "concat (map (\<lambda>r. [pw_localId r]) rows) = map pw_localId rows" for rows by (induction rows) simp_all
  have d: "n \<le> snd (read_property fresh n x) \<and>
     mset [pw_localId (fst (read_property fresh n x))] = mset (map fresh [n..<snd (read_property fresh n x)])" for n x
    by (simp add: read_property_def draftFromParamDefinition_def Let_def param_draft.defs property_draft.defs property_row.defs)
  show ?thesis
    using map_ids_drawn [of "read_property fresh" "\<lambda>r. [pw_localId r]" fresh n ob, OF d]
    unfolding propertyRows_read c .
qed

lemma drawn_append:
  "n \<le> n1 \<Longrightarrow> n1 \<le> n2 \<Longrightarrow> mset (map f [n..<n2]) = mset (map f [n..<n1]) + mset (map f [n1..<n2])"
  by (metis le_add_diff_inverse map_append mset_append upt_add_eq_append)

lemma events_drawn:
  "n \<le> snd (eventRowsFromObject fresh n ob) \<and>
   mset (concat (map event_ids (fst (eventRowsFromObject fresh n ob)))) = mset (map fresh [n..<snd (eventRowsFromObject fresh n ob)])"
proof -
  have d: "n \<le> snd (read_event fresh n x) \<and>
     mset (event_ids (fst (read_event fresh n x))) = mset (map fresh [n..<snd (read_event fresh n x)])" for n x
  proof -
    let ?ob = "object_or_empty (obj_get (object_or_empty (Some (snd x))) ''output'')"
    obtain ps n' where p: "paramRowsFromObject fresh n ?ob = (ps, n')" by force
    then show ?thesis using params_drawn [of n fresh ?ob]
      by (simp add: read_event_def Let_def event_ids_def createEventDraftRow_def event_draft.defs event_row.defs)
  qed
  show ?thesis using map_ids_drawn [of "read_event fresh" event_ids fresh n ob, OF d]
    unfolding eventRows_read .
qed

lemma services_drawn:
  "n \<le> snd (serviceRowsFromObject fresh n ob) \<and>
   mset (concat (map service_ids (fst (serviceRowsFromObject fresh n ob)))) = mset (map fresh [n..<snd (serviceRowsFromObject fresh n ob)])"
proof -
  have d: "n \<le> snd (read_service fresh n x) \<and>
     mset (service_ids (fst (read_service fresh n x))) = mset (map fresh [n..<snd (read_service fresh n x)])" for n x
  proof -
    let ?body = "object_or_empty (Some (snd x))"
    let ?i = "object_or_empty (obj_get ?body ''input'')" and ?o = "object_or_empty (obj_get ?body ''output'')"
    obtain ps n1 where p: "paramRowsFromObject fresh n ?i = (ps, n1)" by force
    obtain qs n2 where q: "paramRowsFromObject fresh n1 ?o = (qs, n2)" by force
    show ?thesis using params_drawn [of n fresh ?i] params_drawn [of n1 fresh ?o] p q drawn_append [of n n1 n2 fresh]
      by (simp add: read_service_def Let_def service_ids_def createServiceDraftRow_def service_draft.defs service_row.defs)
  qed
  show ?thesis using map_ids_drawn [of "read_service fresh" service_ids fresh n ob, OF d]
    unfolding serviceRows_read .
qed

section \<open>The operations of the editor\<close>

datatype model_op =
    UpdateProperty string property_edit
  | UpdateEvent string event_edit
  | AddEventOutput string
  | UpdateEventOutput string string param_edit
  | RemoveEventOutput string string
  | UpdateService string service_edit
  | AddServiceInput string
  | UpdateServiceInput string string param_edit
  | RemoveServiceInput string string
  | AddServiceOutput string
  | UpdateServiceOutput string string param_edit
  | RemoveServiceOutput string string
  | OpenCreate model_page
  | OpenEdit things_model
  | CloseForm
  | TenantChange string
  | StatusChange model_status
  | ApplyPreset definition_tab js_object
  | AddProperty
  | RemoveProperty string
  | AddEvent
  | RemoveEvent string
  | AddService
  | RemoveService string

definition on_events :: "(event_row list \<Rightarrow> event_row list) \<Rightarrow> 'w model_page_scheme \<Rightarrow> 'w model_page_scheme" where
  "on_events f s = s\<lparr>mg_eventRows := f (mg_eventRows s)\<rparr>"

definition on_services :: "(service_row list \<Rightarrow> service_row list) \<Rightarrow> 'w model_page_scheme \<Rightarrow> 'w model_page_scheme" where
  "on_services f s = s\<lparr>mg_serviceRows := f (mg_serviceRows s)\<rparr>"

text \<open>An operation that draws one local id.\<close>

definition drawing :: "(nat \<Rightarrow> string) \<Rightarrow> (string \<Rightarrow> 'w model_page_scheme \<Rightarrow> 'w model_page_scheme) \<Rightarrow>
    'w model_page_scheme \<Rightarrow> 'w model_page_scheme" where
  "drawing fresh f s = (f (fresh (mg_ids s)) s)\<lparr>mg_ids := mg_ids s + 1\<rparr>"

fun model_exec :: "(nat \<Rightarrow> string) \<Rightarrow> model_op \<Rightarrow> 'w model_page_scheme \<Rightarrow> 'w model_page_scheme" where
  "model_exec fresh (UpdateProperty i e) s = s\<lparr>mg_propertyRows := updatePropertyRow i e (mg_propertyRows s)\<rparr>"
| "model_exec fresh (UpdateEvent i e) s = on_events (updateEventRow i e) s"
| "model_exec fresh (AddEventOutput i) s = drawing fresh (\<lambda>new. on_events (addEventOutputParam new i)) s"
| "model_exec fresh (UpdateEventOutput i j e) s = on_events (updateEventOutputParam i j e) s"
| "model_exec fresh (RemoveEventOutput i j) s = on_events (removeEventOutputParam i j) s"
| "model_exec fresh (UpdateService i e) s = on_services (updateServiceRow i e) s"
| "model_exec fresh (AddServiceInput i) s = drawing fresh (\<lambda>new. on_services (addServiceInputParam new i)) s"
| "model_exec fresh (UpdateServiceInput i j e) s = on_services (updateServiceInputParam i j e) s"
| "model_exec fresh (RemoveServiceInput i j) s = on_services (removeServiceInputParam i j) s"
| "model_exec fresh (AddServiceOutput i) s = drawing fresh (\<lambda>new. on_services (addServiceOutputParam new i)) s"
| "model_exec fresh (UpdateServiceOutput i j e) s = on_services (updateServiceOutputParam i j e) s"
| "model_exec fresh (RemoveServiceOutput i j) s = on_services (removeServiceOutputParam i j) s"
| "model_exec fresh (OpenCreate cl) s = model_openCreateForm fresh cl s"
| "model_exec fresh (OpenEdit model) s = model_openEditForm fresh model s"
| "model_exec fresh CloseForm s = model_closeForm s"
| "model_exec fresh (TenantChange i) s = model_handleTenantChange i s"
| "model_exec fresh (StatusChange st) s = handleStatusChange st s"
| "model_exec fresh (ApplyPreset field template) s = handleApplyPreset fresh field template s"
| "model_exec fresh AddProperty s = handleAddProperty fresh s"
| "model_exec fresh (RemoveProperty i) s = handleRemoveProperty i s"
| "model_exec fresh AddEvent s = handleAddEvent fresh s"
| "model_exec fresh (RemoveEvent i) s = handleRemoveEvent i s"
| "model_exec fresh AddService s = handleAddService fresh s"
| "model_exec fresh (RemoveService i) s = handleRemoveService i s"

text \<open>Each operation keeps some of the ids and adds some of those it draws.\<close>

definition draws :: "(nat \<Rightarrow> string) \<Rightarrow> 'w model_page_scheme \<Rightarrow> 'w model_page_scheme \<Rightarrow> bool" where
  "draws fresh s s' \<longleftrightarrow> mg_ids s \<le> mg_ids s' \<and>
     mset (page_ids s') \<subseteq># mset (page_ids s) + mset (map fresh [mg_ids s..<mg_ids s'])"

lemma row_change_ids:
  assumes "distinct (concat (map ids rows))" "\<And>r. \<exists>is. ids r = key r # is"
    and "\<And>r. mset (ids (f r)) \<subseteq># mset (ids r) + extra"
  shows "mset (concat (map ids (update_row key i f rows))) \<subseteq># mset (concat (map ids rows)) + extra"
  using concat_keys [where key = key, OF assms(1,2)]
proof (cases rule: update_row_cases [where f = f and i = i])
  case (2 us r vs)
  then show ?thesis using assms(3) [of r] by (simp add: subset_mset.add_mono ac_simps)
qed simp

lemma event_key: "\<exists>is. event_ids r = ew_localId r # is"
  by (simp add: event_ids_def)

lemma service_key: "\<exists>is. service_ids r = sw_localId r # is"
  by (simp add: service_ids_def)

lemma page_parts:
  "mset (page_ids s) = mset (map pw_localId (mg_propertyRows s)) + mset (concat (map event_ids (mg_eventRows s))) +
     mset (concat (map service_ids (mg_serviceRows s)))"
  by (simp add: page_ids_def ac_simps)

lemma draws_events:
  assumes "ids_ok fresh s" "\<And>r. mset (event_ids (f r)) \<subseteq># mset (event_ids r)"
  shows "draws fresh s (on_events (update_row ew_localId i f) s)"
  using row_change_ids [of event_ids "mg_eventRows s" ew_localId f "{#}" i, OF _ event_key] assms
  by (simp add: draws_def page_parts on_events_def ids_ok_def page_ids_def subset_mset.add_mono)

lemma draws_event_new:
  assumes "ids_ok fresh s" "\<And>r new. mset (event_ids (f new r)) \<subseteq># mset (event_ids r) + {#new#}"
  shows "draws fresh s (drawing fresh (\<lambda>new. on_events (update_row ew_localId i (f new))) s)"
  using row_change_ids [of event_ids "mg_eventRows s" ew_localId "f (fresh (mg_ids s))" "{#fresh (mg_ids s)#}" i, OF _ event_key] assms
  by (simp add: draws_def page_parts on_events_def drawing_def ids_ok_def page_ids_def subset_mset.add_mono)

lemma draws_services:
  assumes "ids_ok fresh s" "\<And>r. mset (service_ids (f r)) \<subseteq># mset (service_ids r)"
  shows "draws fresh s (on_services (update_row sw_localId i f) s)"
  using row_change_ids [of service_ids "mg_serviceRows s" sw_localId f "{#}" i, OF _ service_key] assms
  by (simp add: draws_def page_parts on_services_def ids_ok_def page_ids_def subset_mset.add_mono)

lemma draws_service_new:
  assumes "ids_ok fresh s" "\<And>r new. mset (service_ids (f new r)) \<subseteq># mset (service_ids r) + {#new#}"
  shows "draws fresh s (drawing fresh (\<lambda>new. on_services (update_row sw_localId i (f new))) s)"
  using row_change_ids [of service_ids "mg_serviceRows s" sw_localId "f (fresh (mg_ids s))" "{#fresh (mg_ids s)#}" i, OF _ service_key] assms
  by (simp add: draws_def page_parts on_services_def drawing_def ids_ok_def page_ids_def subset_mset.add_mono)

lemma edited_ids:
  "event_ids (edit_event e r) = event_ids r" "service_ids (edit_service e2 r2) = service_ids r2"
  by (cases e; simp add: event_ids_def) (cases e2; simp add: service_ids_def)

lemma edited_params: "map pr_localId (update_row pr_localId j (edit_param e) ps) = map pr_localId ps"
  by (rule param_rows.update_keys)

lemma removed_params: "mset (map pr_localId (remove_row pr_localId j ps)) \<subseteq># mset (map pr_localId ps)"
  by (simp add: remove_row_def image_mset_subseteq_mono multiset_filter_subset)

lemma removed_rows: "mset (concat (map ids (remove_row key j rows))) \<subseteq># mset (concat (map ids rows))"
  by (induction rows) (auto simp: remove_row_def intro: subset_mset.add_mono subset_mset.order_trans [OF _ mset_subset_eq_add_right])

lemma removed_keys: "mset (map key (remove_row key j rows)) \<subseteq># mset (map key rows)"
  by (simp add: remove_row_def image_mset_subseteq_mono multiset_filter_subset)

lemma added_param: "map pr_localId (ps @ [createParamDraftRow new]) = map pr_localId ps @ [new]"
  by (simp add: createParamDraftRow_def param_row.defs param_draft.defs)

lemma model_exec_draws:
  assumes "ids_ok fresh s"
  shows "draws fresh s (model_exec fresh op s)"
proof (cases op)
  case (UpdateProperty i e)
  then show ?thesis
    by (simp add: draws_def page_parts updatePropertyRow_def property_rows.update_keys flip: mset_map)
next
  case (UpdateEvent i e)
  then show ?thesis using draws_events [OF assms, of "edit_event e" i]
    by (simp add: updateEventRow_def edited_ids)
next
  case (AddEventOutput i)
  then show ?thesis
    by (simp add: addEventOutputParam_def, intro draws_event_new assms) (simp add: event_ids_def added_param del: map_append)
next
  case (UpdateEventOutput i j e)
  then show ?thesis
    by (simp add: updateEventOutputParam_def, intro draws_events assms) (simp add: event_ids_def edited_params del: mset_map)
next
  case (RemoveEventOutput i j)
  then show ?thesis
    by (simp add: removeEventOutputParam_def, intro draws_events assms) (simp add: event_ids_def removed_params del: mset_map)
next
  case (UpdateService i e)
  then show ?thesis using draws_services [OF assms, of "edit_service e" i]
    by (simp add: updateServiceRow_def edited_ids)
next
  case (AddServiceInput i)
  then show ?thesis
    by (simp add: addServiceInputParam_def, intro draws_service_new assms) (simp add: service_ids_def added_param del: map_append)
next
  case (UpdateServiceInput i j e)
  then show ?thesis
    by (simp add: updateServiceInputParam_def, intro draws_services assms) (simp add: service_ids_def edited_params del: mset_map)
next
  case (RemoveServiceInput i j)
  then show ?thesis
    by (simp add: removeServiceInputParam_def, intro draws_services assms) (simp add: service_ids_def removed_params del: mset_map)
next
  case (AddServiceOutput i)
  then show ?thesis
    by (simp add: addServiceOutputParam_def, intro draws_service_new assms) (simp add: service_ids_def added_param del: map_append)
next
  case (UpdateServiceOutput i j e)
  then show ?thesis
    by (simp add: updateServiceOutputParam_def, intro draws_services assms) (simp add: service_ids_def edited_params del: mset_map)
next
  case (RemoveServiceOutput i j)
  then show ?thesis
    by (simp add: removeServiceOutputParam_def, intro draws_services assms) (simp add: service_ids_def removed_params del: mset_map)
next
  case (OpenCreate cl)
  have "[mg_ids s..<mg_ids s + 3] = [mg_ids s, mg_ids s + 1, mg_ids s + 2]" by (simp add: upt_rec)
  then show ?thesis using OpenCreate
    by (simp add: draws_def page_parts model_openCreateForm_def event_ids_def service_ids_def createPropertyDraftRow_def
      createEventDraftRow_def createServiceDraftRow_def property_row.defs event_row.defs service_row.defs
      property_draft.defs event_draft.defs service_draft.defs)
next
  case (OpenEdit model)
  obtain ps n1 where p: "propertyRowsFromObject fresh (mg_ids s) (tm_properties model) = (ps, n1)" by force
  obtain es n2 where e: "eventRowsFromObject fresh n1 (tm_events model) = (es, n2)" by force
  obtain svs n3 where v: "serviceRowsFromObject fresh n2 (tm_services model) = (svs, n3)" by force
  show ?thesis using OpenEdit p e v properties_drawn [of "mg_ids s" fresh "tm_properties model"]
      events_drawn [of n1 fresh "tm_events model"] services_drawn [of n2 fresh "tm_services model"]
      drawn_append [of "mg_ids s" n1 n3 fresh] drawn_append [of n1 n2 n3 fresh]
    by (simp add: draws_def page_parts model_openEditForm_def ac_simps)
next
  case (ApplyPreset field template)
  then show ?thesis
    using properties_drawn [of "mg_ids s" fresh template] events_drawn [of "mg_ids s" fresh template]
      services_drawn [of "mg_ids s" fresh template]
    by (cases field) (simp_all add: handleApplyPreset_def draws_def page_parts ac_simps case_prod_beta)
next
  case (RemoveProperty i)
  then show ?thesis
    by (simp add: handleRemoveProperty_def draws_def page_parts removed_keys subset_mset.add_mono flip: mset_map)
next
  case (RemoveEvent i)
  then show ?thesis
    by (simp add: handleRemoveEvent_def draws_def page_parts removed_rows subset_mset.add_mono del: mset_concat)
next
  case (RemoveService i)
  then show ?thesis
    by (simp add: handleRemoveService_def draws_def page_parts removed_rows subset_mset.add_mono del: mset_concat)
qed (simp_all add: draws_def page_parts model_closeForm_def model_handleTenantChange_def handleStatusChange_def
  handleAddProperty_def handleAddEvent_def handleAddService_def event_ids_def service_ids_def createPropertyDraftRow_def
  createEventDraftRow_def createServiceDraftRow_def property_row.defs event_row.defs service_row.defs
  property_draft.defs event_draft.defs service_draft.defs)

section \<open>Properties\<close>

interpretation model_editor: invariant_machine model_init "model_exec fresh" "\<lambda>s. inj fresh \<longrightarrow> ids_ok fresh s" for fresh
proof
  show "inj fresh \<longrightarrow> ids_ok fresh model_init"
    by (simp add: ids_ok_def page_ids_def model_init_def)
next
  fix s :: model_page and op assume "inj fresh \<longrightarrow> ids_ok fresh s"
  then show "inj fresh \<longrightarrow> ids_ok fresh (model_exec fresh op s)"
    using ids_ok_grow model_exec_draws unfolding draws_def by blast
qed

lemma distinct_rows:
  assumes "ids_ok fresh s"
  shows "distinct (map pw_localId (mg_propertyRows s))" "distinct (map ew_localId (mg_eventRows s))"
    "distinct (map sw_localId (mg_serviceRows s))"
  using assms concat_keys [of event_ids _ ew_localId, OF _ event_key] concat_keys [of service_ids _ sw_localId, OF _ service_key]
  by (simp_all add: ids_ok_def page_ids_def)

text \<open>
  C22: an edit reaches exactly one row. After any sequence of editor operations (opening, presets,
  adding, removing and editing rows) the local ids of all rows and parameter rows are different,
  provided that \<open>createLocalId\<close> never repeats itself; so an edit or a removal addressed by a
  row's local id changes that row and no other.
\<close>

theorem edits_hit_one_row:
  assumes "inj fresh" and "s = fold (model_exec fresh) ops model_init"
  shows "distinct (page_ids s) \<and>
    (mg_propertyRows s = us @ r # vs \<longrightarrow>
       mg_propertyRows (model_exec fresh (UpdateProperty (pw_localId r) e) s) = us @ edit_property e r # vs \<and>
       mg_propertyRows (model_exec fresh (RemoveProperty (pw_localId r)) s) = us @ vs) \<and>
    (mg_eventRows s = eus @ er # evs \<longrightarrow>
       mg_eventRows (model_exec fresh (UpdateEvent (ew_localId er) ee) s) = eus @ edit_event ee er # evs \<and>
       mg_eventRows (model_exec fresh (RemoveEvent (ew_localId er)) s) = eus @ evs) \<and>
    (mg_serviceRows s = sus @ sr # svs \<longrightarrow>
       mg_serviceRows (model_exec fresh (UpdateService (sw_localId sr) se) s) = sus @ edit_service se sr # svs \<and>
       mg_serviceRows (model_exec fresh (RemoveService (sw_localId sr)) s) = sus @ svs)"
proof -
  have ok: "ids_ok fresh s"
    using model_editor.inv_run [of fresh ops] assms by (simp add: model_editor.run_def)
  note d = distinct_rows [OF ok]
  have "distinct (page_ids s)" using ok by (simp add: ids_ok_def)
  then show ?thesis
    using property_rows.update_one [of us r vs e] property_rows.remove_one [of us r vs]
      event_rows.update_one [of eus er evs ee] event_rows.remove_one [of eus er evs]
      service_rows.update_one [of sus sr svs se] service_rows.remove_one [of sus sr svs] d
    by (auto simp: updatePropertyRow_def handleRemoveProperty_def on_events_def updateEventRow_def handleRemoveEvent_def
      on_services_def updateServiceRow_def handleRemoveService_def)
qed

lemma edits_hit_one_row_witness:
  "mg_propertyRows (model_exec (\<lambda>n. replicate n CHR ''i'') (UpdateProperty ''i'' (SetAccessMode Read))
     (fold (model_exec (\<lambda>n. replicate n CHR ''i'')) [AddProperty, AddProperty, AddProperty] model_init))
   = [createPropertyDraftRow [] emptyPropertyDraft, (createPropertyDraftRow ''i'' emptyPropertyDraft)\<lparr>dr_accessMode := Read\<rparr>,
      createPropertyDraftRow ''ii'' emptyPropertyDraft]"
proof -
  let ?f = "\<lambda>n. replicate n CHR ''i''"
  let ?r = "\<lambda>i. createPropertyDraftRow i emptyPropertyDraft"
  have inj: "inj ?f" by (rule injI) (metis length_replicate)
  have s: "mg_propertyRows (fold (model_exec ?f) [AddProperty, AddProperty, AddProperty] model_init) = [?r []] @ ?r ''i'' # [?r ''ii'']"
    by (simp add: handleAddProperty_def model_init_def numeral_2_eq_2)
  have k: "pw_localId (?r ''i'') = ''i''" by (simp add: createPropertyDraftRow_def property_row.defs property_draft.defs)
  show ?thesis
    using edits_hit_one_row [of ?f _ "[AddProperty, AddProperty, AddProperty]" "[?r []]" "?r ''i''" "[?r ''ii'']"
      "SetAccessMode Read", OF inj refl] s k by simp
qed

end
