(* ===== verification/ThingsModelPresets.thy ===== *)
theory ThingsModelPresets
  imports ThingsModelPage
begin

text \<open>
  The built-in presets of the things model editor (\<open>ThingsModelManagement.tsx\<close>): the three
  tables, and the proof that a preset that is applied and saved is stored as the table has it.
  The Chinese display names are written as their UTF-8 bytes, and \<open>0.1\<close> as the binary64 value
  nearest to one tenth.
\<close>

record preset =
  ps_labelKey :: string
  ps_template :: js_object

definition propertyPresets :: "preset list" where
  "propertyPresets = [
     \<lparr>ps_labelKey = ''adminThingsModelPresetTemperature'',
      ps_template = [
        (''temperature'', JObj [
          (''name'', JStr [CHR 0xE6, CHR 0xB8, CHR 0xA9, CHR 0xE5, CHR 0xBA, CHR 0xA6]),
          (''data_type'', JStr ''float''),
          (''access_mode'', JStr ''read''),
          (''required'', JBool False),
          (''spec'', JObj [
            (''min'', JNum (Fin (- 40))),
            (''max'', JNum (Fin 125)),
            (''step'', JNum (rnd (1 / 10))),
            (''unit'', JStr ''celsius''),
            (''precision'', JNum (Fin 1))])])]\<rparr>,
     \<lparr>ps_labelKey = ''adminThingsModelPresetHumidity'',
      ps_template = [
        (''humidity'', JObj [
          (''name'', JStr [CHR 0xE6, CHR 0xB9, CHR 0xBF, CHR 0xE5, CHR 0xBA, CHR 0xA6]),
          (''data_type'', JStr ''float''),
          (''access_mode'', JStr ''read''),
          (''required'', JBool False),
          (''spec'', JObj [
            (''min'', JNum (Fin 0)),
            (''max'', JNum (Fin 100)),
            (''step'', JNum (rnd (1 / 10))),
            (''unit'', JStr ''percent''),
            (''precision'', JNum (Fin 1))])])]\<rparr>,
     \<lparr>ps_labelKey = ''adminThingsModelPresetBattery'',
      ps_template = [
        (''battery_level'', JObj [
          (''name'', JStr [CHR 0xE7, CHR 0x94, CHR 0xB5, CHR 0xE9, CHR 0x87, CHR 0x8F]),
          (''data_type'', JStr ''int''),
          (''access_mode'', JStr ''read''),
          (''required'', JBool False),
          (''spec'', JObj [
            (''min'', JNum (Fin 0)),
            (''max'', JNum (Fin 100)),
            (''step'', JNum (Fin 1)),
            (''unit'', JStr ''percent'')])])]\<rparr>,
     \<lparr>ps_labelKey = ''adminThingsModelPresetSwitch'',
      ps_template = [
        (''switch_state'', JObj [
          (''name'', JStr [
              CHR 0xE5, CHR 0xBC, CHR 0x80, CHR 0xE5, CHR 0x85, CHR 0xB3, CHR 0xE7, CHR 0x8A, CHR 0xB6, CHR 0xE6,
              CHR 0x80, CHR 0x81]),
          (''data_type'', JStr ''bool''),
          (''access_mode'', JStr ''readwrite''),
          (''required'', JBool False)])]\<rparr>]"

definition eventPresets :: "preset list" where
  "eventPresets = [
     \<lparr>ps_labelKey = ''adminThingsModelPresetTemperatureAlarm'',
      ps_template = [
        (''temperature_alarm'', JObj [
          (''name'', JStr [
              CHR 0xE6, CHR 0xB8, CHR 0xA9, CHR 0xE5, CHR 0xBA, CHR 0xA6, CHR 0xE6, CHR 0x8A, CHR 0xA5, CHR 0xE8,
              CHR 0xAD, CHR 0xA6]),
          (''level'', JStr ''warning''),
          (''desc'', JStr [
              CHR 0xE8, CHR 0xAE, CHR 0xBE, CHR 0xE5, CHR 0xA4, CHR 0x87, CHR 0xE6, CHR 0xA3, CHR 0x80, CHR 0xE6,
              CHR 0xB5, CHR 0x8B, CHR 0xE5, CHR 0x88, CHR 0xB0, CHR 0xE6, CHR 0xB8, CHR 0xA9, CHR 0xE5, CHR 0xBA,
              CHR 0xA6, CHR 0xE8, CHR 0xB6, CHR 0x85, CHR 0xE8, CHR 0xBF, CHR 0x87, CHR 0xE5, CHR 0xAE, CHR 0x89,
              CHR 0xE5, CHR 0x85, CHR 0xA8, CHR 0xE9, CHR 0x98, CHR 0x88, CHR 0xE5, CHR 0x80, CHR 0xBC]),
          (''output'', JObj [
            (''temperature'', JObj [
              (''name'', JStr [
                  CHR 0xE5, CHR 0xBD, CHR 0x93, CHR 0xE5, CHR 0x89, CHR 0x8D, CHR 0xE6, CHR 0xB8, CHR 0xA9,
                  CHR 0xE5, CHR 0xBA, CHR 0xA6]),
              (''data_type'', JStr ''float''),
              (''required'', JBool True),
              (''spec'', JObj [
                (''min'', JNum (Fin (- 40))),
                (''max'', JNum (Fin 125)),
                (''step'', JNum (rnd (1 / 10))),
                (''unit'', JStr ''celsius''),
                (''precision'', JNum (Fin 1))])]),
            (''threshold'', JObj [
              (''name'', JStr [
                  CHR 0xE6, CHR 0x8A, CHR 0xA5, CHR 0xE8, CHR 0xAD, CHR 0xA6, CHR 0xE9, CHR 0x98, CHR 0x88,
                  CHR 0xE5, CHR 0x80, CHR 0xBC]),
              (''data_type'', JStr ''float''),
              (''required'', JBool False),
              (''spec'', JObj [(''unit'', JStr ''celsius''), (''precision'', JNum (Fin 1))])])])])]\<rparr>,
     \<lparr>ps_labelKey = ''adminThingsModelPresetLowBattery'',
      ps_template = [
        (''low_battery'', JObj [
          (''name'', JStr [
              CHR 0xE4, CHR 0xBD, CHR 0x8E, CHR 0xE7, CHR 0x94, CHR 0xB5, CHR 0xE9, CHR 0x87, CHR 0x8F, CHR 0xE5,
              CHR 0x91, CHR 0x8A, CHR 0xE8, CHR 0xAD, CHR 0xA6]),
          (''level'', JStr ''warning''),
          (''desc'', JStr [
              CHR 0xE8, CHR 0xAE, CHR 0xBE, CHR 0xE5, CHR 0xA4, CHR 0x87, CHR 0xE7, CHR 0x94, CHR 0xB5, CHR 0xE9,
              CHR 0x87, CHR 0x8F, CHR 0xE4, CHR 0xBD, CHR 0x8E, CHR 0xE4, CHR 0xBA, CHR 0x8E, CHR 0xE8, CHR 0xAE,
              CHR 0xBE, CHR 0xE5, CHR 0xAE, CHR 0x9A, CHR 0xE9, CHR 0x98, CHR 0x88, CHR 0xE5, CHR 0x80, CHR 0xBC]),
          (''output'', JObj [
            (''battery_level'', JObj [
              (''name'', JStr [
                  CHR 0xE5, CHR 0xBD, CHR 0x93, CHR 0xE5, CHR 0x89, CHR 0x8D, CHR 0xE7, CHR 0x94, CHR 0xB5,
                  CHR 0xE9, CHR 0x87, CHR 0x8F]),
              (''data_type'', JStr ''int''),
              (''required'', JBool True),
              (''spec'', JObj [
                (''min'', JNum (Fin 0)),
                (''max'', JNum (Fin 100)),
                (''step'', JNum (Fin 1)),
                (''unit'', JStr ''percent'')])])])])]\<rparr>,
     \<lparr>ps_labelKey = ''adminThingsModelPresetFaultReport'',
      ps_template = [
        (''fault_report'', JObj [
          (''name'', JStr [
              CHR 0xE6, CHR 0x95, CHR 0x85, CHR 0xE9, CHR 0x9A, CHR 0x9C, CHR 0xE4, CHR 0xB8, CHR 0x8A, CHR 0xE6,
              CHR 0x8A, CHR 0xA5]),
          (''level'', JStr ''error''),
          (''desc'', JStr [
              CHR 0xE8, CHR 0xAE, CHR 0xBE, CHR 0xE5, CHR 0xA4, CHR 0x87, CHR 0xE4, CHR 0xB8, CHR 0x8A, CHR 0xE6,
              CHR 0x8A, CHR 0xA5, CHR 0xE6, CHR 0x95, CHR 0x85, CHR 0xE9, CHR 0x9A, CHR 0x9C, CHR 0xE7, CHR 0xA0,
              CHR 0x81, CHR 0xE5, CHR 0x92, CHR 0x8C, CHR 0xE6, CHR 0x95, CHR 0x85, CHR 0xE9, CHR 0x9A, CHR 0x9C,
              CHR 0xE4, CHR 0xBF, CHR 0xA1, CHR 0xE6, CHR 0x81, CHR 0xAF]),
          (''output'', JObj [
            (''code'', JObj [
              (''name'', JStr [CHR 0xE6, CHR 0x95, CHR 0x85, CHR 0xE9, CHR 0x9A, CHR 0x9C, CHR 0xE7, CHR 0xA0, CHR 0x81]),
              (''data_type'', JStr ''string''),
              (''required'', JBool True)]),
            (''message'', JObj [
              (''name'', JStr [
                  CHR 0xE6, CHR 0x95, CHR 0x85, CHR 0xE9, CHR 0x9A, CHR 0x9C, CHR 0xE4, CHR 0xBF, CHR 0xA1,
                  CHR 0xE6, CHR 0x81, CHR 0xAF]),
              (''data_type'', JStr ''string''),
              (''required'', JBool False)])])])]\<rparr>]"

definition servicePresets :: "preset list" where
  "servicePresets = [
     \<lparr>ps_labelKey = ''adminThingsModelPresetReboot'',
      ps_template = [
        (''reboot'', JObj [
          (''name'', JStr [
              CHR 0xE9, CHR 0x87, CHR 0x8D, CHR 0xE5, CHR 0x90, CHR 0xAF, CHR 0xE8, CHR 0xAE, CHR 0xBE, CHR 0xE5,
              CHR 0xA4, CHR 0x87]),
          (''call_type'', JStr ''async''),
          (''desc'', JStr [
              CHR 0xE5, CHR 0xB9, CHR 0xB3, CHR 0xE5, CHR 0x8F, CHR 0xB0, CHR 0xE4, CHR 0xB8, CHR 0x8B, CHR 0xE5,
              CHR 0x8F, CHR 0x91, CHR 0xE9, CHR 0x87, CHR 0x8D, CHR 0xE5, CHR 0x90, CHR 0xAF, CHR 0xE5, CHR 0x91,
              CHR 0xBD, CHR 0xE4, CHR 0xBB, CHR 0xA4, CHR 0xEF, CHR 0xBC, CHR 0x8C, CHR 0xE8, CHR 0xAE, CHR 0xBE,
              CHR 0xE5, CHR 0xA4, CHR 0x87, CHR 0xE8, CHR 0xBF, CHR 0x94, CHR 0xE5, CHR 0x9B, CHR 0x9E, CHR 0xE6,
              CHR 0x89, CHR 0xA7, CHR 0xE8, CHR 0xA1, CHR 0x8C, CHR 0xE7, CHR 0xBB, CHR 0x93, CHR 0xE6, CHR 0x9E,
              CHR 0x9C]),
          (''input'', JObj []),
          (''output'', JObj [
            (''accepted'', JObj [
              (''name'', JStr [
                  CHR 0xE6, CHR 0x98, CHR 0xAF, CHR 0xE5, CHR 0x90, CHR 0xA6, CHR 0xE6, CHR 0x8E, CHR 0xA5,
                  CHR 0xE5, CHR 0x8F, CHR 0x97]),
              (''data_type'', JStr ''bool''),
              (''required'', JBool True)])])])]\<rparr>,
     \<lparr>ps_labelKey = ''adminThingsModelPresetReportInterval'',
      ps_template = [
        (''set_report_interval'', JObj [
          (''name'', JStr [
              CHR 0xE8, CHR 0xAE, CHR 0xBE, CHR 0xE7, CHR 0xBD, CHR 0xAE, CHR 0xE4, CHR 0xB8, CHR 0x8A, CHR 0xE6,
              CHR 0x8A, CHR 0xA5, CHR 0xE5, CHR 0x91, CHR 0xA8, CHR 0xE6, CHR 0x9C, CHR 0x9F]),
          (''call_type'', JStr ''sync''),
          (''desc'', JStr [
              CHR 0xE8, CHR 0xAE, CHR 0xBE, CHR 0xE7, CHR 0xBD, CHR 0xAE, CHR 0xE8, CHR 0xAE, CHR 0xBE, CHR 0xE5,
              CHR 0xA4, CHR 0x87, CHR 0xE5, CHR 0xB1, CHR 0x9E, CHR 0xE6, CHR 0x80, CHR 0xA7, CHR 0xE4, CHR 0xB8,
              CHR 0x8A, CHR 0xE6, CHR 0x8A, CHR 0xA5, CHR 0xE9, CHR 0x97, CHR 0xB4, CHR 0xE9, CHR 0x9A, CHR 0x94]),
          (''input'', JObj [
            (''interval_seconds'', JObj [
              (''name'', JStr [
                  CHR 0xE4, CHR 0xB8, CHR 0x8A, CHR 0xE6, CHR 0x8A, CHR 0xA5, CHR 0xE9, CHR 0x97, CHR 0xB4,
                  CHR 0xE9, CHR 0x9A, CHR 0x94]),
              (''data_type'', JStr ''int''),
              (''required'', JBool True),
              (''spec'', JObj [
                (''min'', JNum (Fin 1)),
                (''max'', JNum (Fin 86400)),
                (''step'', JNum (Fin 1)),
                (''unit'', JStr ''second'')])])]),
          (''output'', JObj [
            (''applied'', JObj [
              (''name'', JStr [
                  CHR 0xE6, CHR 0x98, CHR 0xAF, CHR 0xE5, CHR 0x90, CHR 0xA6, CHR 0xE7, CHR 0x94, CHR 0x9F,
                  CHR 0xE6, CHR 0x95, CHR 0x88]),
              (''data_type'', JStr ''bool''),
              (''required'', JBool True)])])])]\<rparr>,
     \<lparr>ps_labelKey = ''adminThingsModelPresetSwitchService'',
      ps_template = [
        (''set_switch_state'', JObj [
          (''name'', JStr [
              CHR 0xE8, CHR 0xAE, CHR 0xBE, CHR 0xE7, CHR 0xBD, CHR 0xAE, CHR 0xE5, CHR 0xBC, CHR 0x80, CHR 0xE5,
              CHR 0x85, CHR 0xB3]),
          (''call_type'', JStr ''sync''),
          (''desc'', JStr [
              CHR 0xE5, CHR 0xB9, CHR 0xB3, CHR 0xE5, CHR 0x8F, CHR 0xB0, CHR 0xE8, CHR 0xAE, CHR 0xBE, CHR 0xE7,
              CHR 0xBD, CHR 0xAE, CHR 0xE8, CHR 0xAE, CHR 0xBE, CHR 0xE5, CHR 0xA4, CHR 0x87, CHR 0xE5, CHR 0xBC,
              CHR 0x80, CHR 0xE5, CHR 0x85, CHR 0xB3, CHR 0xE7, CHR 0x8A, CHR 0xB6, CHR 0xE6, CHR 0x80, CHR 0x81]),
          (''input'', JObj [
            (''switch_state'', JObj [
              (''name'', JStr [
                  CHR 0xE7, CHR 0x9B, CHR 0xAE, CHR 0xE6, CHR 0xA0, CHR 0x87, CHR 0xE5, CHR 0xBC, CHR 0x80,
                  CHR 0xE5, CHR 0x85, CHR 0xB3, CHR 0xE7, CHR 0x8A, CHR 0xB6, CHR 0xE6, CHR 0x80, CHR 0x81]),
              (''data_type'', JStr ''bool''),
              (''required'', JBool True)])]),
          (''output'', JObj [
            (''applied'', JObj [
              (''name'', JStr [
                  CHR 0xE6, CHR 0x98, CHR 0xAF, CHR 0xE5, CHR 0x90, CHR 0xA6, CHR 0xE7, CHR 0x94, CHR 0x9F,
                  CHR 0xE6, CHR 0x95, CHR 0x88]),
              (''data_type'', JStr ''bool''),
              (''required'', JBool True)])])])]\<rparr>]"

section \<open>Templates that rows can stand for\<close>

text \<open>
  A template in the form in which the editor writes it: the members in its order, texts without
  surrounding blanks, numbers that are binary64 values.
\<close>

definition num_member :: "js_object \<Rightarrow> string \<Rightarrow> jsnum option" where
  "num_member ob k = (case obj_get ob k of Some (JNum n) \<Rightarrow> Some n | _ \<Rightarrow> None)"

fun double_option :: "jsnum option \<Rightarrow> bool" where
  "double_option (Some (Fin x)) = is_double x"
| "double_option None = True"
| "double_option _ = False"

fun count_option :: "jsnum option \<Rightarrow> bool" where
  "count_option (Some (Fin x)) = (is_double x \<and> isInteger (Fin x) \<and> 0 \<le> x)"
| "count_option None = True"
| "count_option _ = False"

definition canonical_spec :: "js_object \<Rightarrow> bool" where
  "canonical_spec sp \<longleftrightarrow>
     sp = spec_object (num_member sp ''min'') (num_member sp ''max'') (num_member sp ''step'')
            (stringFromUnknown (obj_get sp ''unit'')) (num_member sp ''precision'') \<and>
     double_option (num_member sp ''min'') \<and> double_option (num_member sp ''max'') \<and>
     double_option (num_member sp ''step'') \<and> count_option (num_member sp ''precision'') \<and>
     trim (stringFromUnknown (obj_get sp ''unit'')) = stringFromUnknown (obj_get sp ''unit'')"

definition canonical_text :: "js option \<Rightarrow> bool" where
  "canonical_text v \<longleftrightarrow> trim (stringFromUnknown v) = stringFromUnknown v \<and> stringFromUnknown v \<noteq> []"

definition canonical_param :: "js_object \<Rightarrow> bool" where
  "canonical_param d \<longleftrightarrow>
     d = param_object (stringFromUnknown (obj_get d ''name'')) (dataTypeFromUnknown (obj_get d ''data_type''))
           (boolFromUnknown (obj_get d ''required'')) (object_or_empty (obj_get d ''spec'')) \<and>
     canonical_text (obj_get d ''name'') \<and> canonical_spec (object_or_empty (obj_get d ''spec''))"

definition canonical_key :: "string \<Rightarrow> bool" where
  "canonical_key k \<longleftrightarrow> k \<noteq> [] \<and> trim k = k \<and> k \<noteq> ''__proto__'' \<and> \<not> is_index_key k"

definition canonical_members :: "(js_object \<Rightarrow> bool) \<Rightarrow> js_object \<Rightarrow> bool" where
  "canonical_members P ob \<longleftrightarrow> distinct (map fst ob) \<and>
     list_all (\<lambda>(k, v). canonical_key k \<and> v = JObj (object_or_empty (Some v)) \<and> P (object_or_empty (Some v))) ob"

lemma number_reads: "double_option n \<Longrightarrow> numberOrUndefined (num_text n) = Inr n"
  using num_str_trimmed
  by (cases n rule: double_option.cases) (simp_all add: num_text_def numberOrUndefined_def Let_def del: num_str.simps)

lemma count_reads: "count_option n \<Longrightarrow> intOrUndefined (num_text n) = Inr n"
  using num_str_trimmed
  by (cases n rule: count_option.cases) (simp_all add: num_text_def intOrUndefined_def Let_def del: num_str.simps isInteger.simps)

lemma canonical_param_built: "canonical_param d \<Longrightarrow> \<exists>draft :: param_draft. paramDefinitionFromDraft draft = Inr d"
proof -
  assume d: "canonical_param d"
  let ?sp = "object_or_empty (obj_get d ''spec'')"
  let ?draft = "\<lparr>dr_identifier = [], dr_name = stringFromUnknown (obj_get d ''name''),
    dr_dataType = dataTypeFromUnknown (obj_get d ''data_type''), dr_required = boolFromUnknown (obj_get d ''required''),
    dr_min = num_text (num_member ?sp ''min''), dr_max = num_text (num_member ?sp ''max''),
    dr_step = num_text (num_member ?sp ''step''), dr_unit = stringFromUnknown (obj_get ?sp ''unit''),
    dr_precision = num_text (num_member ?sp ''precision'')\<rparr>"
  have "paramSpecFromDraft ?draft = Inr ?sp"
    using d number_reads count_reads by (simp add: paramSpec_eq canonical_param_def canonical_spec_def)
  then have "paramDefinitionFromDraft ?draft = Inr d"
    using d by (simp add: paramDefinition_eq canonical_param_def canonical_text_def)
  then show ?thesis by blast
qed

section \<open>Such templates are saved as they are\<close>

definition member_object :: "js \<Rightarrow> js_object" where
  "member_object v = object_or_empty (Some v)"

lemma rebuild_canonical:
  assumes ob: "canonical_members P ob"
    and build: "\<And>n k d. P d \<Longrightarrow> build (fst (read n (k, JObj d))) = Inr (saved d)"
    and idf: "\<And>n k v. idf (fst (read n (k, v))) = k"
  shows "reduce_rows idf build (fst (map_ids read n ob)) = Inr (map (\<lambda>(k, v). (k, JObj (saved (member_object v)))) ob)"
proof -
  let ?out = "map (\<lambda>(k, v). (k, JObj (saved (member_object v)))) ob"
  have mem: "canonical_key k \<and> v = JObj (member_object v) \<and> P (member_object v)" if "(k, v) \<in> set ob" for k v
    using ob that by (auto simp: canonical_members_def list_all_iff member_object_def)
  have "list_all2 (\<lambda>row (k, v). idf row = k \<and> build row = Inr (saved (member_object v))) (fst (map_ids read n ob)) ob"
  proof (rule map_ids_rows)
    fix m x assume "x \<in> set ob"
    then obtain k v where kv: "x = (k, v)" "v = JObj (member_object v)" "P (member_object v)"
      using mem [of "fst x" "snd x"] by (metis prod.collapse)
    have "build (fst (read m (k, JObj (member_object v)))) = Inr (saved (member_object v))" using build kv(3) by blast
    then show "case x of (k, v) \<Rightarrow> idf (fst (read m x)) = k \<and> build (fst (read m x)) = Inr (saved (member_object v))"
      using idf kv(1,2) by simp
  qed
  then have rows: "list_all2 (\<lambda>row (k, v). idf row = k \<and> (\<exists>d. build row = Inr d \<and> v = JObj d)) (fst (map_ids read n ob)) ?out"
    unfolding list.rel_map by (rule list_all2_mono) auto
  have keys: "map fst ?out = map fst ob" by (simp add: o_def split_beta)
  have "obj_ok ?out"
  proof (rule obj_ok_plain)
    show "distinct (map fst ?out)" unfolding keys using ob by (simp add: canonical_members_def)
    show "list_all (\<lambda>k. \<not> is_index_key k) (map fst ?out)"
      unfolding keys using mem by (force simp: list_all_iff canonical_key_def)
  qed
  moreover have "\<exists>row. build row = Inr (saved (member_object v))" if "(k, v) \<in> set ob" for k v
    using mem [OF that] build by blast
  ultimately have "built build ([] @ ?out)" using mem by (auto simp: built_def canonical_key_def)
  from rebuild [OF rows this] show ?thesis by (simp add: reduce_rows_from)
qed

lemma canonical_same:
  assumes "canonical_members P ob"
  shows "map (\<lambda>(k, v). (k, JObj (member_object v))) ob = ob"
  using assms by (intro map_idI) (auto simp: canonical_members_def list_all_iff member_object_def)

lemma canonical_param_read: "canonical_param d \<Longrightarrow> paramDefinitionFromDraft (fst (read_param fresh n (k, JObj d))) = Inr d"
proof -
  assume "canonical_param d"
  then obtain draft :: param_draft where "paramDefinitionFromDraft draft = Inr d" using canonical_param_built by blast
  then show ?thesis
    by (rule paramDefinition_again [where ob' = d]) (simp_all add: read_param_def draftFromParamDefinition_def Let_def)
qed

lemma canonical_params_saved:
  assumes "canonical_members canonical_param ob"
  shows "objectFromParamRows (fst (paramRowsFromObject fresh n ob)) = Inr ob"
  unfolding objectFromParamRows_def paramRows_read
  using rebuild_canonical [where P = canonical_param and build = paramDefinitionFromDraft and read = "read_param fresh"
      and saved = "\<lambda>d. d" and idf = dr_identifier and n = n, OF assms canonical_param_read params.read_identifier]
  by (simp only: canonical_same [OF assms])

definition canonical_property :: "js_object \<Rightarrow> bool" where
  "canonical_property d \<longleftrightarrow> canonical_param (filter (\<lambda>(k, v). k \<noteq> ''access_mode'') d) \<and>
     obj_get d ''access_mode'' = Some (JStr (access_mode_text (accessModeFromUnknown (obj_get d ''access_mode''))))"

text \<open>The saved form of a property: the access mode comes last.\<close>

definition access_mode_last :: "js_object \<Rightarrow> js_object" where
  "access_mode_last d = obj_put ''access_mode'' (JStr (access_mode_text (accessModeFromUnknown (obj_get d ''access_mode''))))
     (filter (\<lambda>(k, v). k \<noteq> ''access_mode'') d)"

lemma get_without: "k \<noteq> i \<Longrightarrow> obj_get (filter (\<lambda>(k, v). k \<noteq> i) d) k = obj_get d k"
  by (induction d) auto

lemma canonical_property_read:
  assumes "canonical_property d"
  shows "propertyDefinitionFromDraft (fst (read_property fresh n (k, JObj d))) = Inr (access_mode_last d)"
proof -
  let ?d = "filter (\<lambda>(k, v). k \<noteq> ''access_mode'') d"
  obtain draft :: param_draft where draft: "paramDefinitionFromDraft draft = Inr ?d"
    using assms canonical_param_built by (auto simp: canonical_property_def)
  have "paramDefinitionFromDraft (fst (read_property fresh n (k, JObj d))) = Inr ?d"
    by (rule paramDefinition_again [OF draft, where ob' = d]) (auto simp: read_property_fields get_without)
  then show ?thesis by (simp add: propertyDefinitionFromDraft_def read_property_fields access_mode_last_def)
qed

definition canonical_event :: "js_object \<Rightarrow> bool" where
  "canonical_event d \<longleftrightarrow>
     d = [(''name'', JStr (stringFromUnknown (obj_get d ''name''))),
          (''level'', JStr (event_level_text (eventLevelFromUnknown (obj_get d ''level'')))),
          (''desc'', JStr (stringFromUnknown (obj_get d ''desc''))),
          (''output'', JObj (object_or_empty (obj_get d ''output'')))] \<and>
     canonical_text (obj_get d ''name'') \<and> canonical_text (obj_get d ''desc'') \<and>
     canonical_members canonical_param (object_or_empty (obj_get d ''output''))"

lemma canonical_event_read:
  assumes "canonical_event d"
  shows "eventDefinitionFromRow (fst (read_event fresh n (k, JObj d))) = Inr d"
proof -
  obtain nm lv ds out where d: "d = [(''name'', JStr nm), (''level'', JStr (event_level_text lv)), (''desc'', JStr ds),
      (''output'', JObj out)]"
    using assms unfolding canonical_event_def by blast
  then have "trim nm = nm" "trim ds = ds" "canonical_members canonical_param out"
    using assms by (simp_all add: canonical_event_def canonical_text_def)
  then show ?thesis using canonical_params_saved [of out]
    by (simp add: eventDefinitionFromRow_def read_event_fields d)
qed

definition canonical_service :: "js_object \<Rightarrow> bool" where
  "canonical_service d \<longleftrightarrow>
     d = [(''name'', JStr (stringFromUnknown (obj_get d ''name''))),
          (''call_type'', JStr (call_type_text (callTypeFromUnknown (obj_get d ''call_type'')))),
          (''desc'', JStr (stringFromUnknown (obj_get d ''desc''))),
          (''input'', JObj (object_or_empty (obj_get d ''input''))),
          (''output'', JObj (object_or_empty (obj_get d ''output'')))] \<and>
     canonical_text (obj_get d ''name'') \<and> canonical_text (obj_get d ''desc'') \<and>
     canonical_members canonical_param (object_or_empty (obj_get d ''input'')) \<and>
     canonical_members canonical_param (object_or_empty (obj_get d ''output''))"

lemma canonical_service_read:
  assumes "canonical_service d"
  shows "serviceDefinitionFromRow (fst (read_service fresh n (k, JObj d))) = Inr d"
proof -
  obtain nm ct ds inp out where d: "d = [(''name'', JStr nm), (''call_type'', JStr (call_type_text ct)), (''desc'', JStr ds),
      (''input'', JObj inp), (''output'', JObj out)]"
    using assms unfolding canonical_service_def by blast
  then have "trim nm = nm" "trim ds = ds" "canonical_members canonical_param inp" "canonical_members canonical_param out"
    using assms by (simp_all add: canonical_service_def canonical_text_def)
  then show ?thesis using canonical_params_saved [of out] canonical_params_saved [of inp]
    by (simp add: serviceDefinitionFromRow_def read_service_fields d)
qed

section \<open>The presets\<close>

lemma canonical_members_simps:
  "canonical_members P []"
  "canonical_members P ((k, JObj d) # ob) \<longleftrightarrow> k \<notin> set (map fst ob) \<and> canonical_key k \<and> P d \<and> canonical_members P ob"
  by (auto simp: canonical_members_def)

text \<open>The nearest binary64 value to one tenth is finite.\<close>

lemma tenth_double: "double_option (Some (rnd (1 / 10)))"
proof -
  have "isFinite (rnd (1 / 10))" by code_simp
  then show ?thesis using rnd_is_double [of "1 / 10"] by (cases "rnd (1 / 10)") auto
qed

lemma preset_numbers:
  "is_double 0" "is_double 1" "is_double 100" "is_double 125" "is_double (- 40)" "is_double 86400"
  using is_double_of_int [of 0] is_double_of_int [of 1] is_double_of_int [of 100] is_double_of_int [of 125]
    is_double_of_int [of "- 40"] is_double_of_int [of 86400] by simp_all

lemmas trimmed_text = trim_iff starts_clean_def ws_seqs_def

lemmas check_param = canonical_param_def param_object_def canonical_text_def canonical_spec_def num_member_def
  spec_object_def opt_entry_def preset_numbers tenth_double dataTypeFromUnknown_def trimmed_text

lemmas check_members = canonical_members_simps canonical_key_def not_index_key is_digit_def

lemma property_presets_canonical: "list_all (\<lambda>p. canonical_members canonical_property (ps_template p)) propertyPresets"
  unfolding propertyPresets_def list.pred_inject preset.simps canonical_members_simps
  by (intro conjI) (simp_all add: check_members check_param canonical_property_def accessModeFromUnknown_def)

lemma event_presets_canonical: "list_all (\<lambda>p. canonical_members canonical_event (ps_template p)) eventPresets"
  unfolding eventPresets_def list.pred_inject preset.simps canonical_members_simps
  by (intro conjI) (simp_all add: check_members check_param canonical_event_def eventLevelFromUnknown_def)

lemma service_presets_canonical: "list_all (\<lambda>p. canonical_members canonical_service (ps_template p)) servicePresets"
  unfolding servicePresets_def list.pred_inject preset.simps canonical_members_simps
  by (intro conjI) (simp_all add: check_members check_param canonical_service_def callTypeFromUnknown_def)

section \<open>They pass the validation\<close>

lemma rows_all:
  assumes "canonical_members P ob" "\<And>n k d. canonical_key k \<Longrightarrow> P d \<Longrightarrow> Q (fst (f n (k, JObj d)))"
  shows "list_all Q (fst (map_ids f n ob))"
proof -
  have "list_all2 (\<lambda>row x. Q row) (fst (map_ids f n ob)) ob"
  proof (rule map_ids_rows)
    fix m x assume "x \<in> set ob"
    then have "canonical_key (fst x)" "snd x = JObj (object_or_empty (Some (snd x)))" "P (object_or_empty (Some (snd x)))"
      using assms(1) by (auto simp: canonical_members_def list_all_iff)
    then show "Q (fst (f m x))" using assms(2) by (metis prod.collapse)
  qed
  then show ?thesis by (auto simp: list_all_length list_all2_conv_all_nth)
qed

lemma canonical_params_valid:
  assumes "canonical_members canonical_param ob"
  shows "validateParamRows (fst (paramRowsFromObject fresh n ob))"
  unfolding validateParamRows_def paramRows_read
  by (rule rows_all [OF assms])
    (simp add: read_param_def draftFromParamDefinition_def Let_def canonical_key_def canonical_param_def canonical_text_def)

lemma canonical_property_name: "canonical_property d \<Longrightarrow> canonical_text (obj_get d ''name'')"
proof -
  assume "canonical_property d"
  then have "canonical_text (obj_get (filter (\<lambda>(k, v). k \<noteq> ''access_mode'') d) ''name'')"
    unfolding canonical_property_def canonical_param_def by blast
  then show ?thesis by (simp add: get_without)
qed

lemma canonical_properties_valid:
  assumes "canonical_members canonical_property ob"
  shows "validateDefinitionRows (fst (propertyRowsFromObject fresh n ob)) [] []"
  using rows_all [OF assms, of "\<lambda>row. trim (dr_identifier row) \<noteq> [] \<and> trim (dr_name row) \<noteq> []" "read_property fresh" n]
    canonical_property_name
  by (simp add: validateDefinitionRows_def propertyRows_read read_property_fields canonical_key_def canonical_text_def)

lemma canonical_events_valid:
  assumes "canonical_members canonical_event ob"
  shows "validateDefinitionRows [] (fst (eventRowsFromObject fresh n ob)) []"
proof -
  have "valid_event_row (fst (read_event fresh m (k, JObj d)))" if "canonical_key k" "canonical_event d" for m k d
    using that canonical_params_valid
    unfolding valid_event_row_def read_event_fields canonical_event_def canonical_key_def canonical_text_def by metis
  from rows_all [where Q = valid_event_row and f = "read_event fresh" and n = n, OF assms this]
  show ?thesis by (simp add: validateDefinitionRows_def eventRows_read)
qed

lemma canonical_services_valid:
  assumes "canonical_members canonical_service ob"
  shows "validateDefinitionRows [] [] (fst (serviceRowsFromObject fresh n ob))"
proof -
  have "valid_service_row (fst (read_service fresh m (k, JObj d)))" if "canonical_key k" "canonical_service d" for m k d
    using that canonical_params_valid
    unfolding valid_service_row_def read_service_fields canonical_service_def canonical_key_def canonical_text_def by metis
  from rows_all [where Q = valid_service_row and f = "read_service fresh" and n = n, OF assms this]
  show ?thesis by (simp add: validateDefinitionRows_def serviceRows_read)
qed

section \<open>Property\<close>

text \<open>The rows that a preset adds to an empty table, from any page.\<close>

definition preset_property_rows :: "(nat \<Rightarrow> string) \<Rightarrow> model_page \<Rightarrow> preset \<Rightarrow> property_row list" where
  "preset_property_rows fresh s p =
     mg_propertyRows (handleApplyPreset fresh PropertiesTab (ps_template p) (s\<lparr>mg_propertyRows := []\<rparr>))"

definition preset_event_rows :: "(nat \<Rightarrow> string) \<Rightarrow> model_page \<Rightarrow> preset \<Rightarrow> event_row list" where
  "preset_event_rows fresh s p = mg_eventRows (handleApplyPreset fresh EventsTab (ps_template p) (s\<lparr>mg_eventRows := []\<rparr>))"

definition preset_service_rows :: "(nat \<Rightarrow> string) \<Rightarrow> model_page \<Rightarrow> preset \<Rightarrow> service_row list" where
  "preset_service_rows fresh s p =
     mg_serviceRows (handleApplyPreset fresh ServicesTab (ps_template p) (s\<lparr>mg_serviceRows := []\<rparr>))"

text \<open>
  C34: the presets are stored as they are written. For every built-in preset of the editor, the
  rows that a click on it adds pass the validation of the form, and saving them stores exactly the
  preset: its events and services member by member, its properties with the same members and the
  access mode last. The numbers, \<open>0.1\<close> included, survive their way through the text fields.
\<close>

theorem presets_saved_exactly:
  "list_all (\<lambda>p. validateDefinitionRows (preset_property_rows fresh s p) [] [] \<and>
      objectFromPropertyRows (preset_property_rows fresh s p) =
        Inr (map (\<lambda>(k, v). (k, JObj (access_mode_last (member_object v)))) (ps_template p))) propertyPresets \<and>
   list_all (\<lambda>p. validateDefinitionRows [] (preset_event_rows fresh s p) [] \<and>
      objectFromEventRows (preset_event_rows fresh s p) = Inr (ps_template p)) eventPresets \<and>
   list_all (\<lambda>p. validateDefinitionRows [] [] (preset_service_rows fresh s p) \<and>
      objectFromServiceRows (preset_service_rows fresh s p) = Inr (ps_template p)) servicePresets"
proof -
  have rows: "preset_property_rows fresh s p = fst (propertyRowsFromObject fresh (mg_ids s) (ps_template p))"
      "preset_event_rows fresh s p = fst (eventRowsFromObject fresh (mg_ids s) (ps_template p))"
      "preset_service_rows fresh s p = fst (serviceRowsFromObject fresh (mg_ids s) (ps_template p))" for p
    by (simp_all add: preset_property_rows_def preset_event_rows_def preset_service_rows_def handleApplyPreset_def
      split: prod.split)
  note saved = rebuild_canonical [where n = "mg_ids s" and saved = access_mode_last and P = canonical_property
      and build = propertyDefinitionFromDraft and idf = dr_identifier and read = "read_property fresh",
      OF _ canonical_property_read properties.read_identifier]
    rebuild_canonical [where n = "mg_ids s" and saved = "\<lambda>d. d" and P = canonical_event and build = eventDefinitionFromRow
      and idf = ed_identifier and read = "read_event fresh", OF _ canonical_event_read events.read_identifier]
    rebuild_canonical [where n = "mg_ids s" and saved = "\<lambda>d. d" and P = canonical_service and build = serviceDefinitionFromRow
      and idf = sd_identifier and read = "read_service fresh", OF _ canonical_service_read services.read_identifier]
  show ?thesis
    unfolding rows objectFromPropertyRows_def objectFromEventRows_def objectFromServiceRows_def
      propertyRows_read eventRows_read serviceRows_read
    using property_presets_canonical event_presets_canonical service_presets_canonical
    by (auto simp: list_all_iff saved canonical_same canonical_properties_valid [unfolded propertyRows_read]
      canonical_events_valid [unfolded eventRows_read] canonical_services_valid [unfolded serviceRows_read])
qed

end
