(* ===== verification/Uri.thy ===== *)
theory Uri
  imports JsonText
begin

text \<open>
  \<open>encodeURIComponent\<close> and \<open>URLSearchParams.prototype.get\<close> of the language's runtime, on the
  UTF-8 bytes of a string, with the round trip the redirect parameter relies on.
\<close>

definition uri_unreserved :: "char \<Rightarrow> bool" where
  "uri_unreserved c \<longleftrightarrow>
     (let n = of_char c :: nat
      in is_digit c \<or> 65 \<le> n \<and> n \<le> 90 \<or> 97 \<le> n \<and> n \<le> 122 \<or> c \<in> set ''-_.!~*'' \<or> n = 39 \<or> n = 40 \<or> n = 41)"

definition hex_upper :: "nat \<Rightarrow> char" where
  "hex_upper d = (if d < 10 then char_of (48 + d) else char_of (55 + d))"

definition encode_char :: "char \<Rightarrow> string" where
  "encode_char c =
     (if uri_unreserved c then [c]
      else [CHR ''%'', hex_upper (of_char c div 16), hex_upper (of_char c mod 16)])"

definition encodeURIComponent :: "string \<Rightarrow> string" where
  "encodeURIComponent s = concat (map encode_char s)"

fun percent_decode :: "string \<Rightarrow> string" where
  "percent_decode [] = []"
| "percent_decode (c # cs) =
     (if c = CHR ''%'' then
        (case cs of
           a # b # r \<Rightarrow>
             (if is_hex a \<and> is_hex b then char_of (char_val a * 16 + char_val b) # percent_decode r
              else c # percent_decode cs)
         | _ \<Rightarrow> c # percent_decode cs)
      else c # percent_decode cs)"

definition form_decode :: "string \<Rightarrow> string" where
  "form_decode s = percent_decode (map (\<lambda>c. if c = CHR ''+'' then CHR '' '' else c) s)"

fun split_on :: "char \<Rightarrow> string \<Rightarrow> string list" where
  "split_on c [] = [[]]"
| "split_on c (x # xs) =
     (if x = c then [] # split_on c xs
      else (case split_on c xs of y # ys \<Rightarrow> (x # y) # ys | [] \<Rightarrow> [[x]]))"

definition form_entry :: "string \<Rightarrow> string \<times> string" where
  "form_entry seg =
     (form_decode (takeWhile (\<lambda>c. c \<noteq> CHR ''='') seg), form_decode (drop 1 (dropWhile (\<lambda>c. c \<noteq> CHR ''='') seg)))"

definition search_get :: "string \<Rightarrow> string \<Rightarrow> string option" where
  "search_get name search =
     (let query = (if prefix ''?'' search then tl search else search)
      in map_of (map form_entry (filter (\<lambda>seg. seg \<noteq> []) (split_on (CHR ''&'') query))) name)"

section \<open>The round trip\<close>

definition plain_query :: "char \<Rightarrow> bool" where
  "plain_query c \<longleftrightarrow> c \<noteq> CHR ''&'' \<and> c \<noteq> CHR ''+'' \<and> c \<noteq> CHR ''=''"

lemma hex_upper_ok:
  assumes "d < 16"
  shows "char_val (hex_upper d) = d" "is_hex (hex_upper d)" "plain_query (hex_upper d)"
proof -
  have d: "d \<in> set [0, 1, 2, 3, 4, 5, 6, 7, 8, 9, 10, 11, 12, 13, 14, 15]" using assms by simp arith
  show v: "char_val (hex_upper d) = d"
    using d by (elim set_ConsD [THEN disjE] set_ConsD) (auto simp: hex_upper_def char_val_def Let_def of_char_of)
  then show "is_hex (hex_upper d)" using assms by (simp add: is_hex_def)
  have "char_val (CHR ''&'') = 99" "char_val (CHR ''+'') = 99" "char_val (CHR ''='') = 99"
    by (simp_all add: char_val_def)
  with v assms show "plain_query (hex_upper d)" by (auto simp: plain_query_def)
qed

lemma unreserved_plain: "uri_unreserved c \<Longrightarrow> plain_query c \<and> c \<noteq> CHR ''%''"
  by (auto simp: uri_unreserved_def plain_query_def Let_def is_digit_def)

lemma of_char_halves: "(of_char (c :: char) :: nat) div 16 < 16" "(of_char (c :: char) :: nat) mod 16 < 16"
proof -
  have "(of_char c :: nat) < 256" by simp
  then show "(of_char c :: nat) div 16 < 16" by (simp add: less_mult_imp_div_less)
qed simp

lemma encode_char_plain: "list_all plain_query (encode_char c)"
  using hex_upper_ok(3) [OF of_char_halves(1)] hex_upper_ok(3) [OF of_char_halves(2)] unreserved_plain [of c]
  by (auto simp: encode_char_def plain_query_def)

lemma encode_plain: "list_all plain_query (encodeURIComponent s)"
  unfolding encodeURIComponent_def using encode_char_plain by (induction s) auto

lemma decode_encode_char: "percent_decode (encode_char c @ r) = c # percent_decode r"
proof (cases "uri_unreserved c")
  case True
  then show ?thesis using unreserved_plain [of c] by (simp add: encode_char_def)
next
  case False
  have "of_char c div 16 * 16 + of_char c mod 16 = (of_char c :: nat)" by simp
  then have "char_of (of_char c div 16 * 16 + of_char c mod 16 :: nat) = c" by simp
  then show ?thesis
    using False hex_upper_ok [OF of_char_halves(1) [of c]] hex_upper_ok [OF of_char_halves(2) [of c]]
    by (simp add: encode_char_def)
qed

lemma decode_encode: "percent_decode (encodeURIComponent s) = s"
  unfolding encodeURIComponent_def
  by (induction s) (simp_all add: decode_encode_char)

lemma form_decode_plain: "list_all plain_query s \<Longrightarrow> form_decode s = percent_decode s"
  unfolding form_decode_def
  by (rule arg_cong [of _ _ percent_decode], rule map_idI) (auto simp: list_all_iff plain_query_def)

lemma split_on_none: "c \<notin> set s \<Longrightarrow> split_on c s = [s]"
  by (induction s) auto

text \<open>A query that holds one encoded parameter.\<close>

lemma search_get_single:
  assumes "list_all plain_query name" "name \<noteq> []" "percent_decode name = name" "\<not> prefix ''?'' name"
  shows "search_get name (CHR ''?'' # name @ CHR ''='' # encodeURIComponent v) = Some v"
proof -
  have na: "\<forall>c \<in> set name. c \<noteq> CHR ''='' \<and> c \<noteq> CHR ''&''"
    using assms(1) by (auto simp: list_all_iff plain_query_def)
  have nv: "CHR ''&'' \<notin> set (encodeURIComponent v)"
    using encode_plain [of v] by (auto simp: list_all_iff plain_query_def)
  have "takeWhile (\<lambda>c. c \<noteq> CHR ''='') (name @ CHR ''='' # encodeURIComponent v) = name"
    "dropWhile (\<lambda>c. c \<noteq> CHR ''='') (name @ CHR ''='' # encodeURIComponent v) = CHR ''='' # encodeURIComponent v"
    using na by (induction name) auto
  then have "form_entry (name @ CHR ''='' # encodeURIComponent v) = (name, v)"
    using assms(3) by (simp add: form_entry_def form_decode_plain [OF assms(1)] form_decode_plain [OF encode_plain] decode_encode)
  moreover have "split_on (CHR ''&'') (name @ CHR ''='' # encodeURIComponent v) = [name @ CHR ''='' # encodeURIComponent v]"
    by (rule split_on_none) (use na nv in auto)
  ultimately show ?thesis using assms(2) by (simp add: search_get_def)
qed

lemma search_get_redirect: "search_get ''redirect'' (''?redirect='' @ encodeURIComponent v) = Some v"
  using search_get_single [of "''redirect''" v] by (simp add: plain_query_def)

end
