(* ===== verification/AuthStore.thy ===== *)
theory AuthStore
  imports Services StateMachine
begin

text \<open>
  The session store (\<open>stores/authStore.ts\<close>). Its two operations replace the whole session.
\<close>

record auth_user =
  au_user_id :: string
  au_email :: string
  au_role :: string

record auth_state =
  as_token :: "string option"
  as_authenticated :: bool
  as_user :: "auth_user option"

definition toAuthUser :: "auth_result \<Rightarrow> auth_user" where
  "toAuthUser result =
     \<lparr>au_user_id = ar_user_id result, au_email = ar_email result, au_role = ar_role result\<rparr>"

definition auth_init :: auth_state where
  "auth_init = \<lparr>as_token = None, as_authenticated = False, as_user = None\<rparr>"

definition clearSession :: "auth_state \<Rightarrow> auth_state" where
  "clearSession st = st\<lparr>as_token := None, as_authenticated := False, as_user := None\<rparr>"

definition setSession :: "auth_result \<Rightarrow> auth_state \<Rightarrow> auth_state" where
  "setSession result st =
     st\<lparr>as_token := Some (ar_access_token result), as_authenticated := True,
        as_user := Some (toAuthUser result)\<rparr>"

datatype auth_action = Clear | SetSession auth_result

fun auth_step :: "auth_action \<Rightarrow> auth_state \<Rightarrow> auth_state" where
  "auth_step Clear st = clearSession st"
| "auth_step (SetSession r) st = setSession r st"

text \<open>The three members of the store never disagree.\<close>

definition auth_inv :: "auth_state \<Rightarrow> bool" where
  "auth_inv st \<longleftrightarrow> (as_authenticated st \<longleftrightarrow> as_token st \<noteq> None) \<and>
     (as_authenticated st \<longleftrightarrow> as_user st \<noteq> None)"

interpretation auth: invariant_machine auth_init auth_step auth_inv
proof
  show "auth_inv auth_init" by (simp add: auth_inv_def auth_init_def)
next
  fix st a assume "auth_inv st"
  then show "auth_inv (auth_step a st)"
    by (cases a) (auto simp: auth_inv_def clearSession_def setSession_def)
qed

end
