(* ===== verification/AppShell.thy ===== *)
theory AppShell
  imports Uri AuthStore
begin

text \<open>
  The runtime configuration of the application (\<open>app.tsx\<close>): the error handler that every
  failed request reaches, the redirect to the login page, the interceptor that adds the
  access token; the route guard (\<open>wrappers/AuthGuard.tsx\<close>) and \<open>access.ts\<close>.
\<close>

section \<open>Reading an error\<close>

text \<open>
  \<open>RequestErrorLike\<close>: what the handler reads of the thrown object; an absent property is
  \<open>None\<close>, and nothing is assumed of the type of a present one.
\<close>

record response_like =
  rl_status :: "js option"
  rl_data :: "js option"

record request_error =
  re_message :: "js option"
  re_response :: "response_like option"

fun isApiErrorBody :: "js option \<Rightarrow> bool" where
  "isApiErrorBody (Some (JObj ob)) = (obj_get ob ''msg'' \<noteq> None \<or> obj_get ob ''code'' \<noteq> None)"
| "isApiErrorBody _ = False"

fun body_prop :: "js option \<Rightarrow> string \<Rightarrow> js option" where
  "body_prop (Some (JObj ob)) k = obj_get ob k"
| "body_prop _ k = None"

definition error_body :: "request_error \<Rightarrow> js option" where
  "error_body e = (case re_response e of Some r \<Rightarrow> rl_data r | None \<Rightarrow> None)"

definition getRequestErrorMessage :: "request_error \<Rightarrow> string" where
  "getRequestErrorMessage e =
     (case (if isApiErrorBody (error_body e) then body_prop (error_body e) ''msg'' else None) of
        Some (JStr m) \<Rightarrow> m
      | _ \<Rightarrow> (case re_message e of
                Some (JStr m) \<Rightarrow> (if m \<noteq> [] then m else ''Request failed'')
              | _ \<Rightarrow> ''Request failed''))"

definition getRequestErrorStatus :: "request_error \<Rightarrow> jsnum option" where
  "getRequestErrorStatus e =
     (case (case re_response e of Some r \<Rightarrow> rl_status r | None \<Rightarrow> None) of
        Some (JNum n) \<Rightarrow> Some n
      | _ \<Rightarrow> (case (if isApiErrorBody (error_body e) then body_prop (error_body e) ''code'' else None) of
                Some (JNum n) \<Rightarrow> Some n
              | _ \<Rightarrow> None))"

section \<open>Redirecting to the login page\<close>

record app_location =
  loc_pathname :: string
  loc_search :: string
  loc_hash :: string

record app_state =
  ap_location :: app_location
  ap_auth :: auth_state

definition login_path :: "string \<Rightarrow> string" where
  "login_path redirect = ''/login?redirect='' @ encodeURIComponent redirect"

definition redirectToLogin :: "('w app_state_scheme, unit) act" where
  "redirectToLogin = bind current (\<lambda>st.
     let loc = ap_location st; pathname = loc_pathname loc
     in if pathname = ''/login'' \<or> pathname = ''/register'' then ret ()
        else let redirect = pathname @ loc_search loc @ loc_hash loc
             in steps [update (\<lambda>s. s\<lparr>ap_auth := clearSession (ap_auth s)\<rparr>),
                       emit (Navigate (login_path redirect))])"

definition errorHandler :: "request_error \<Rightarrow> ('w app_state_scheme, unit) act" where
  "errorHandler e =
     (if getRequestErrorStatus e = Some (Fin 401) then redirectToLogin
      else emit (Notice NError ''Request failed'' (Description (getRequestErrorMessage e))))"

section \<open>The request interceptor\<close>

record request_config =
  cfg_headers :: "js_object option"

definition requestInterceptor :: "auth_state \<Rightarrow> 'c request_config_scheme \<Rightarrow> 'c request_config_scheme" where
  "requestInterceptor auth config =
     (case as_token auth of
        None \<Rightarrow> config
      | Some token \<Rightarrow>
          (if token = [] then config
           else config\<lparr>cfg_headers :=
             Some (obj_put ''Authorization'' (JStr (''Bearer '' @ token))
                    (case cfg_headers config of Some h \<Rightarrow> h | None \<Rightarrow> []))\<rparr>))"

section \<open>Guards\<close>

datatype guard_result = RedirectReplace string | Outlet

definition AuthGuard :: "auth_state \<Rightarrow> app_location \<Rightarrow> guard_result" where
  "AuthGuard auth loc =
     (if as_token auth = None \<or> as_token auth = Some []
      then RedirectReplace (login_path (loc_pathname loc @ loc_search loc))
      else Outlet)"

text \<open>\<open>access.ts\<close>: the initial state is absent or has a name.\<close>

definition canSeeAdmin :: "string option \<Rightarrow> bool" where
  "canSeeAdmin initialState = (case initialState of None \<Rightarrow> False | Some name \<Rightarrow> name \<noteq> ''dontHaveAccess'')"

section \<open>Properties\<close>

text \<open>
  What a failed request does. A 401 (the HTTP status, or the \<open>code\<close> of the body when the
  status is missing) outside the login and register pages ends the session and navigates to the
  login page; on those two pages it does nothing at all. Every other error leaves session
  and location alone and shows exactly one notification.
\<close>

theorem error_handler_behaviour:
  "errorHandler e s =
     (if getRequestErrorStatus e = Some (Fin 401) then
        if loc_pathname (ap_location s) \<in> {''/login'', ''/register''} then (Done (), s, [])
        else (Done (), s\<lparr>ap_auth := clearSession (ap_auth s)\<rparr>,
              [Navigate (login_path (loc_pathname (ap_location s) @ loc_search (ap_location s) @ loc_hash (ap_location s)))])
      else (Done (), s, [Notice NError ''Request failed'' (Description (getRequestErrorMessage e))]))"
  by (simp add: errorHandler_def redirectToLogin_def run_defs Let_def)

lemma interceptor_headers:
  "as_token auth = Some t \<Longrightarrow> t \<noteq> [] \<Longrightarrow>
   cfg_headers (requestInterceptor auth config) =
     Some (obj_put ''Authorization'' (JStr (''Bearer '' @ t)) (case cfg_headers config of Some h \<Rightarrow> h | None \<Rightarrow> []))"
  by (simp add: requestInterceptor_def)

text \<open>
  C39: the interceptor and the route guard agree on what a session is: after any sequence of
  logins and logouts, a route is shown exactly when requests carry the bearer token; the other
  headers and members of the configuration are untouched, and after a logout nothing is added.
\<close>

theorem guard_matches_interceptor:
  fixes config :: "'c request_config_scheme"
  shows
  "let auth = fold auth_step acts auth_init;
       added = (\<lambda>k. case cfg_headers (requestInterceptor auth config) of Some h \<Rightarrow> obj_get h k | None \<Rightarrow> None);
       old = (\<lambda>k. case cfg_headers config of Some h \<Rightarrow> obj_get h k | None \<Rightarrow> None)
   in (if AuthGuard auth loc = Outlet
       then as_authenticated auth \<and> added = old(''Authorization'' \<mapsto> JStr (''Bearer '' @ the (as_token auth)))
       else added = old) \<and>
      request_config.more (requestInterceptor auth config) = request_config.more config \<and>
      requestInterceptor (clearSession auth) config = config"
proof -
  have inv: "auth_inv (fold auth_step acts auth_init)"
    using auth.inv_run [of acts] by (simp add: auth.run_def)
  show ?thesis
    using inv by (auto simp: Let_def auth_inv_def AuthGuard_def requestInterceptor_def clearSession_def
      split: option.split)
qed

end
