(* ===== verification/AuthPages.thy ===== *)
theory AuthPages
  imports AppShell
begin

text \<open>
  The login and register pages (\<open>pages/Auth/Login.tsx\<close>, \<open>Register.tsx\<close>): the form state, the
  submit handlers and the links that carry the redirect parameter. The session store is the
  field \<open>lg_auth\<close> (\<open>rg_auth\<close>); \<open>search\<close> is the query of the page's location, fixed while
  the page is shown, and \<open>cl\<close> the state captured by the render.
\<close>

section \<open>Login\<close>

record login_state =
  lg_email :: string
  lg_password :: string
  lg_submitting :: bool
  lg_auth :: auth_state

definition login_init :: "auth_state \<Rightarrow> login_state" where
  "login_init auth = \<lparr>lg_email = [], lg_password = [], lg_submitting = False, lg_auth = auth\<rparr>"

text \<open>A redirect parameter that is missing or empty counts as none.\<close>

definition redirect_of :: "string \<Rightarrow> string option" where
  "redirect_of search =
     (case search_get ''redirect'' search of Some r \<Rightarrow> (if r = [] then None else Some r) | None \<Rightarrow> None)"

definition registerPath :: "string \<Rightarrow> string" where
  "registerPath search =
     (case redirect_of search of Some r \<Rightarrow> ''/register?redirect='' @ encodeURIComponent r | None \<Rightarrow> ''/register'')"

definition login_canSubmit :: "'w login_state_scheme \<Rightarrow> bool" where
  "login_canSubmit cl \<longleftrightarrow> trim (lg_email cl) \<noteq> [] \<and> lg_password cl \<noteq> [] \<and> \<not> lg_submitting cl"

definition after_login :: "string \<Rightarrow> string" where
  "after_login search = (case redirect_of search of Some r \<Rightarrow> r | None \<Rightarrow> ''/admin'')"

definition login_handleSubmit ::
  "('w login_state_scheme, auth_result) request \<Rightarrow> string \<Rightarrow> 'w login_state_scheme \<Rightarrow> ('w login_state_scheme, unit) act" where
  "login_handleSubmit rq search cl =
     (if \<not> login_canSubmit cl then ret ()
      else steps [update (\<lambda>s. s\<lparr>lg_submitting := True\<rparr>),
        finally_set
          (bind (login rq \<lparr>cred_email = trim (lg_email cl), cred_password = lg_password cl\<rparr>) (\<lambda>result.
             steps [update (\<lambda>s. s\<lparr>lg_auth := setSession result (lg_auth s)\<rparr>),
                    success ''loginSuccess'',
                    emit (Navigate (after_login search))]))
          (\<lambda>s. s\<lparr>lg_submitting := False\<rparr>)])"

section \<open>Registration\<close>

record register_state =
  rg_email :: string
  rg_password :: string
  rg_confirm :: string
  rg_submitting :: bool
  rg_auth :: auth_state

definition loginPath :: "string \<Rightarrow> string" where
  "loginPath search =
     (case redirect_of search of Some r \<Rightarrow> ''/login?redirect='' @ encodeURIComponent r | None \<Rightarrow> ''/login'')"

definition passwordMatches :: "'w register_state_scheme \<Rightarrow> bool" where
  "passwordMatches cl \<longleftrightarrow> rg_password cl = rg_confirm cl"

definition showPasswordMismatch :: "'w register_state_scheme \<Rightarrow> bool" where
  "showPasswordMismatch cl \<longleftrightarrow> rg_confirm cl \<noteq> [] \<and> \<not> passwordMatches cl"

definition register_canSubmit :: "'w register_state_scheme \<Rightarrow> bool" where
  "register_canSubmit cl \<longleftrightarrow>
     trim (rg_email cl) \<noteq> [] \<and> rg_password cl \<noteq> [] \<and> rg_confirm cl \<noteq> [] \<and> passwordMatches cl \<and>
     \<not> rg_submitting cl"

definition register_handleSubmit ::
  "('w register_state_scheme, auth_result) request \<Rightarrow> string \<Rightarrow> 'w register_state_scheme \<Rightarrow> ('w register_state_scheme, unit) act" where
  "register_handleSubmit rq search cl =
     (if \<not> register_canSubmit cl then ret ()
      else steps [update (\<lambda>s. s\<lparr>rg_submitting := True\<rparr>),
        finally_set
          (bind (register rq \<lparr>cred_email = trim (rg_email cl), cred_password = rg_password cl\<rparr>) (\<lambda>result.
             steps [update (\<lambda>s. s\<lparr>rg_auth := setSession result (rg_auth s)\<rparr>),
                    success ''registerSuccess'',
                    emit (Navigate (after_login search))]))
          (\<lambda>s. s\<lparr>rg_submitting := False\<rparr>)])"

section \<open>Properties\<close>

text \<open>The query that carries a redirect target.\<close>

definition redirect_query :: "string \<Rightarrow> string" where
  "redirect_query r = ''?redirect='' @ encodeURIComponent r"

lemma redirect_param: "r \<noteq> [] \<Longrightarrow> redirect_of (redirect_query r) = Some r"
  by (simp only: redirect_of_def redirect_query_def search_get_redirect) simp

lemma redirect_target: "r \<noteq> [] \<Longrightarrow> after_login (redirect_query r) = r"
  by (simp add: after_login_def redirect_param)

lemma redirect_paths:
  "login_path r = ''/login'' @ redirect_query r"
  "r \<noteq> [] \<Longrightarrow> registerPath (redirect_query r) = ''/register'' @ redirect_query r"
  "r \<noteq> [] \<Longrightarrow> loginPath (redirect_query r) = ''/login'' @ redirect_query r"
  by (simp_all add: login_path_def registerPath_def loginPath_def redirect_param)
    (simp_all add: redirect_query_def)

lemma login_run:
  "login_canSubmit cl \<Longrightarrow> login_handleSubmit rq search cl s =
     (let body = \<lparr>cred_email = trim (lg_email cl), cred_password = lg_password cl\<rparr>;
          req = (''/api/v1/auth/login'', with_data POST (credentials_body body))
      in case rq req (s\<lparr>lg_submitting := True\<rparr>) of (a, s') \<Rightarrow>
           (case api_outcome a of
              Done r \<Rightarrow> (Done (), s'\<lparr>lg_auth := setSession r (lg_auth s'), lg_submitting := False\<rparr>,
                 [Sent req, Notice NSuccess ''loginSuccess'' NoDescription, Navigate (after_login search)])
            | Threw e \<Rightarrow> (Threw e, s'\<lparr>lg_submitting := False\<rparr>, [Sent req])))"
  by (auto simp: login_handleSubmit_def login_def Let_def apiRequest_run run_defs
      split: prod.split outcome.split)

text \<open>
  C2: a session that expires is resumed where it ended. When a request fails with 401 on any
  page but login and register, the handler navigates to the login page with the path, query
  and fragment of that page in the redirect parameter; a login that succeeds there starts the
  session of its answer, clears the busy flag and navigates to exactly that path, query and
  fragment, which may hold any characters.
\<close>

theorem expired_session_resumes:
  assumes "getRequestErrorStatus e = Some (Fin 401)"
    and "loc_pathname (ap_location s) \<notin> {''/login'', ''/register''}" and "loc_pathname (ap_location s) \<noteq> []"
    and "login_canSubmit cl" "rq (''/api/v1/auth/login'', with_data POST
           (credentials_body \<lparr>cred_email = trim (lg_email cl), cred_password = lg_password cl\<rparr>))
           (p\<lparr>lg_submitting := True\<rparr>) = (Inr resp, p')"
    and "isSuccessCode (resp_code resp)" "resp_data resp = Some result"
  shows "\<exists>query. effects_of (errorHandler e s) = [Navigate (''/login'' @ query)] \<and>
     as_token (ap_auth (state_of (errorHandler e s))) = None \<and>
     (let out = login_handleSubmit rq query cl p
      in last (effects_of out) = Navigate (loc_pathname (ap_location s) @ loc_search (ap_location s) @ loc_hash (ap_location s)) \<and>
         as_token (lg_auth (state_of out)) = Some (ar_access_token result) \<and>
         \<not> lg_submitting (state_of out))"
proof -
  let ?r = "loc_pathname (ap_location s) @ loc_search (ap_location s) @ loc_hash (ap_location s)"
  let ?q = "redirect_query ?r"
  have "effects_of (errorHandler e s) = [Navigate (''/login'' @ ?q)] \<and>
      as_token (ap_auth (state_of (errorHandler e s))) = None"
    using assms(1,2) by (simp add: errorHandler_def redirectToLogin_def run_defs Let_def redirect_paths clearSession_def)
  moreover have "after_login ?q = ?r" by (rule redirect_target) (use assms(3) in simp)
  ultimately show ?thesis
    using assms(4-) by (intro exI [of _ ?q]) (simp add: login_run Let_def setSession_def)
qed

lemma expired_session_resumes_witness:
  "\<exists>query. effects_of (errorHandler
       \<lparr>re_message = None, re_response = Some \<lparr>rl_status = Some (JNum (Fin 401)), rl_data = None\<rparr>\<rparr>
       \<lparr>ap_location = \<lparr>loc_pathname = ''/admin/tenants'', loc_search = ''?a=1&b'', loc_hash = ''#x''\<rparr>,
        ap_auth = auth_init\<rparr>) = [Navigate (''/login'' @ query)] \<and>
     last (effects_of (login_handleSubmit
        (\<lambda>r s. (Inr \<lparr>resp_msg = ''ok'', resp_code = Fin 200,
            resp_data = Some \<lparr>ar_user_id = ''u'', ar_email = ''e'', ar_role = ''r'', ar_access_token = ''t'', ar_token_type = ''b''\<rparr>\<rparr>, s))
        query \<lparr>lg_email = ''a@b'', lg_password = ''p'', lg_submitting = False, lg_auth = auth_init\<rparr>
        \<lparr>lg_email = ''a@b'', lg_password = ''p'', lg_submitting = False, lg_auth = auth_init\<rparr>)) =
     Navigate (''/admin/tenants?a=1&b#x'')"
proof -
  let ?p = "\<lparr>lg_email = ''a@b'', lg_password = ''p'', lg_submitting = False, lg_auth = auth_init\<rparr>"
  let ?res = "\<lparr>ar_user_id = ''u'', ar_email = ''e'', ar_role = ''r'', ar_access_token = ''t'', ar_token_type = ''b''\<rparr>"
  have "trim ''a@b'' = ''a@b''" by (rule trim_plain) (simp add: plain_char_def)
  then show ?thesis
    using expired_session_resumes [where e = "\<lparr>re_message = None, re_response = Some \<lparr>rl_status = Some (JNum (Fin 401)), rl_data = None\<rparr>\<rparr>"
      and s = "\<lparr>ap_location = \<lparr>loc_pathname = ''/admin/tenants'', loc_search = ''?a=1&b'', loc_hash = ''#x''\<rparr>, ap_auth = auth_init\<rparr>"
      and cl = ?p and p = ?p and p' = "?p\<lparr>lg_submitting := True\<rparr>"
      and rq = "\<lambda>r s. (Inr \<lparr>resp_msg = ''ok'', resp_code = Fin 200, resp_data = Some ?res\<rparr>, s)"
      and resp = "\<lparr>resp_msg = ''ok'', resp_code = Fin 200, resp_data = Some ?res\<rparr>" and result = ?res]
    by (auto simp: getRequestErrorStatus_def login_canSubmit_def isSuccessCode_def Let_def)
qed

text \<open>
  Submitting the login form. Nothing is sent, changed or shown unless the trimmed e-mail and
  the password are non-empty and no submission is running; otherwise exactly one request goes
  out, the busy flag is cleared on every path, and the session changes, with one success
  notice and one navigation, exactly when the server accepts the credentials.
\<close>

theorem login_submit_behaviour:
  "(\<not> login_canSubmit cl \<longrightarrow> login_handleSubmit rq search cl s = (Done (), s, [])) \<and>
   (login_canSubmit cl \<longrightarrow>
      (let out = login_handleSubmit rq search cl s
       in length (requests (effects_of out)) = 1 \<and> \<not> lg_submitting (state_of out) \<and>
          (case outcome_of out of
             Done _ \<Rightarrow> length (effects_of out) = 3 \<and> as_authenticated (lg_auth (state_of out))
           | Threw e \<Rightarrow> effects_of out = map Sent (requests (effects_of out)))))"
proof (cases "login_canSubmit cl")
  case True
  then show ?thesis by (auto simp: login_run Let_def setSession_def split: prod.split outcome.split)
next
  case False
  then show ?thesis by (simp add: login_handleSubmit_def ret_def)
qed

lemma login_submit_behaviour_witness:
  "login_handleSubmit (\<lambda>r s. (Inl NonError, s)) [] ((login_init auth_init)\<lparr>lg_email := '' ''\<rparr>) (login_init auth_init) =
     (Done (), login_init auth_init, [])"
proof -
  have "trim '' '' = []" by code_simp
  then show ?thesis
    using login_submit_behaviour [of "(login_init auth_init)\<lparr>lg_email := '' ''\<rparr>"
      "\<lambda>r s. (Inl NonError, s)" "[]" "login_init auth_init"]
    by (simp add: login_canSubmit_def)
qed

text \<open>
  The links between the two pages carry the redirect target along: following the link to
  the register page and then the link back gives the same query, so the target that a successful
  login or registration navigates to stays the same.
\<close>

theorem redirect_survives_links:
  assumes "r \<noteq> []"
  shows "registerPath (redirect_query r) = ''/register'' @ redirect_query r \<and>
     loginPath (redirect_query r) = ''/login'' @ redirect_query r \<and> after_login (redirect_query r) = r"
  using redirect_paths(2,3) [OF assms] redirect_target [OF assms] by simp

lemma redirect_survives_links_witness:
  "registerPath (redirect_query ''/admin?x=1'') = ''/register'' @ redirect_query ''/admin?x=1'' \<and>
   loginPath (redirect_query ''/admin?x=1'') = ''/login'' @ redirect_query ''/admin?x=1'' \<and>
   after_login (redirect_query ''/admin?x=1'') = ''/admin?x=1''"
  by (rule redirect_survives_links) simp

end
