(* ===== verification/AdminUiStore.thy ===== *)
theory AdminUiStore
  imports JsonText StateMachine
begin

text \<open>
  The interface settings (\<open>stores/adminUiStore.ts\<close>): theme, locale, sidebar and visited tabs,
  kept in the browser's storage by the persist middleware. Values that come back from the
  storage are not checked except for the tabs, so the other members hold JavaScript values.
  The middleware itself (third party) stores \<open>JSON.stringify\<close> of the members and gives the
  parsed value to \<open>merge\<close>.
\<close>

definition validSectionIds :: "string list" where
  "validSectionIds =
     [''overview'', ''tenants'', ''products'', ''thingsModels'', ''devices'', ''deviceProperties'',
      ''auditLogs'', ''settings'']"

record ui_state =
  ui_dark :: js
  ui_locale :: js
  ui_sidebar :: js
  ui_tabs :: "string list"

text \<open>A value, or a function of the current value.\<close>

datatype 'a setter = Value 'a | Updater "'a \<Rightarrow> 'a"

fun resolveValue :: "'a setter \<Rightarrow> 'a \<Rightarrow> 'a" where
  "resolveValue (Updater f) current = f current"
| "resolveValue (Value v) current = v"

fun isAdminSectionId :: "js \<Rightarrow> bool" where
  "isAdminSectionId (JStr s) = (s \<in> set validSectionIds)"
| "isAdminSectionId _ = False"

fun tab_text :: "js \<Rightarrow> string" where
  "tab_text (JStr s) = s"
| "tab_text _ = []"

text \<open>\<open>undefined\<close> is \<open>None\<close>.\<close>

fun normalizeVisitedTabs :: "js option \<Rightarrow> string list" where
  "normalizeVisitedTabs (Some (JArr value)) =
     (let tabs = map tab_text (filter isAdminSectionId value)
      in if tabs \<noteq> [] then tabs else [''overview''])"
| "normalizeVisitedTabs _ = [''overview'']"

definition ui_init :: ui_state where
  "ui_init = \<lparr>ui_dark = JBool False, ui_locale = JStr ''zh-CN'', ui_sidebar = JBool False,
     ui_tabs = [''overview'']\<rparr>"

definition addVisitedTab :: "string \<Rightarrow> ui_state \<Rightarrow> ui_state" where
  "addVisitedTab tab st =
     (if tab \<in> set (ui_tabs st) then st else st\<lparr>ui_tabs := ui_tabs st @ [tab]\<rparr>)"

definition removeVisitedTab :: "string \<Rightarrow> ui_state \<Rightarrow> ui_state" where
  "removeVisitedTab tab st =
     (let visitedTabs = filter (\<lambda>tabId. tabId \<noteq> tab) (ui_tabs st)
      in st\<lparr>ui_tabs := (if visitedTabs \<noteq> [] then visitedTabs else [''overview''])\<rparr>)"

definition setDarkMode :: "js setter \<Rightarrow> ui_state \<Rightarrow> ui_state" where
  "setDarkMode v st = st\<lparr>ui_dark := resolveValue v (ui_dark st)\<rparr>"

definition setLocale :: "js setter \<Rightarrow> ui_state \<Rightarrow> ui_state" where
  "setLocale v st = st\<lparr>ui_locale := resolveValue v (ui_locale st)\<rparr>"

definition setSidebarExpanded :: "js setter \<Rightarrow> ui_state \<Rightarrow> ui_state" where
  "setSidebarExpanded v st = st\<lparr>ui_sidebar := resolveValue v (ui_sidebar st)\<rparr>"

definition toggleDarkMode :: "ui_state \<Rightarrow> ui_state" where
  "toggleDarkMode st = st\<lparr>ui_dark := JBool (\<not> truthy (ui_dark st))\<rparr>"

text \<open>\<open>{...currentState, ...state, visitedTabs}\<close>: a member that is absent keeps its value.\<close>

definition spread_member :: "js \<Rightarrow> js_object \<Rightarrow> string \<Rightarrow> js" where
  "spread_member cur ob k = (case obj_get ob k of Some v \<Rightarrow> v | None \<Rightarrow> cur)"

fun ui_merge :: "js \<Rightarrow> ui_state \<Rightarrow> ui_state" where
  "ui_merge (JObj state) cur =
     cur\<lparr>ui_dark := spread_member (ui_dark cur) state ''darkMode'',
         ui_locale := spread_member (ui_locale cur) state ''locale'',
         ui_sidebar := spread_member (ui_sidebar cur) state ''sidebarExpanded'',
         ui_tabs := normalizeVisitedTabs (obj_get state ''visitedTabs'')\<rparr>"
| "ui_merge (JArr xs) cur = cur\<lparr>ui_tabs := normalizeVisitedTabs None\<rparr>"
| "ui_merge _ cur = cur"

text \<open>The members that \<open>JSON.stringify\<close> writes; it leaves the functions out.\<close>

definition ui_persisted :: "ui_state \<Rightarrow> js" where
  "ui_persisted st = JObj [(''darkMode'', ui_dark st), (''locale'', ui_locale st),
     (''sidebarExpanded'', ui_sidebar st), (''visitedTabs'', JArr (map JStr (ui_tabs st)))]"

section \<open>The invariant\<close>

datatype ui_action =
    AddTab string | RemoveTab string | SetDark "js setter" | SetLocale "js setter"
  | SetSidebar "js setter" | ToggleDark | Rehydrate js

text \<open>The typed interface passes section ids only.\<close>

fun ui_step :: "ui_action \<Rightarrow> ui_state \<Rightarrow> ui_state" where
  "ui_step (AddTab i) st = (if i \<in> set validSectionIds then addVisitedTab i st else st)"
| "ui_step (RemoveTab i) st = removeVisitedTab i st"
| "ui_step (SetDark v) st = setDarkMode v st"
| "ui_step (SetLocale v) st = setLocale v st"
| "ui_step (SetSidebar v) st = setSidebarExpanded v st"
| "ui_step ToggleDark st = toggleDarkMode st"
| "ui_step (Rehydrate p) st = ui_merge p st"

definition ui_inv :: "ui_state \<Rightarrow> bool" where
  "ui_inv st \<longleftrightarrow> ui_tabs st \<noteq> [] \<and> set (ui_tabs st) \<subseteq> set validSectionIds"

lemma overview_valid: "''overview'' \<in> set validSectionIds"
  by (simp add: validSectionIds_def)

lemma section_text: "isAdminSectionId v \<Longrightarrow> v = JStr (tab_text v) \<and> tab_text v \<in> set validSectionIds"
  by (cases v) auto

lemma normalize_inv:
  "normalizeVisitedTabs v \<noteq> [] \<and> set (normalizeVisitedTabs v) \<subseteq> set validSectionIds"
  by (cases v rule: normalizeVisitedTabs.cases) (auto simp: Let_def overview_valid section_text)

lemma normalize_valid:
  assumes "tabs \<noteq> []" "set tabs \<subseteq> set validSectionIds"
  shows "normalizeVisitedTabs (Some (JArr (map JStr tabs))) = tabs"
proof -
  have "filter isAdminSectionId (map JStr tabs) = map JStr tabs"
    using assms(2) by (auto simp: filter_id_conv)
  then show ?thesis using assms(1) by (simp add: Let_def comp_def)
qed

lemma ui_merge_inv: "ui_inv st \<Longrightarrow> ui_inv (ui_merge p st)"
  using normalize_inv overview_valid by (cases p) (auto simp: ui_inv_def)

lemma ui_step_inv:
  assumes "ui_inv st" shows "ui_inv (ui_step a st)"
proof (cases a)
  case (RemoveTab i)
  then show ?thesis using assms overview_valid by (auto simp: ui_inv_def removeVisitedTab_def Let_def)
next
  case (Rehydrate p)
  then show ?thesis using ui_merge_inv [OF assms] by simp
qed (use assms in \<open>auto simp: ui_inv_def addVisitedTab_def setDarkMode_def setLocale_def
  setSidebarExpanded_def toggleDarkMode_def\<close>)

interpretation ui: invariant_machine ui_init ui_step ui_inv
  by unfold_locales (simp add: ui_inv_def ui_init_def overview_valid, rule ui_step_inv)

section \<open>Properties\<close>

text \<open>
  Whatever the storage gives back and whatever the user does, the tab bar always has at
  least one tab and every tab names a section of the console.
\<close>

theorem tabs_always_valid:
  "let st = fold ui_step acts ui_init
   in ui_tabs st \<noteq> [] \<and> list_all (\<lambda>tab. tab \<in> set validSectionIds) (ui_tabs st)"
  using ui.inv_run [of acts] by (auto simp: ui_inv_def ui.run_def list_all_iff Let_def)

text \<open>
  C36: reloading the page restores the settings: the text that is written to the storage for a
  state with valid tabs and serialisable members parses, and merging it into the initial state
  gives back exactly that state.
\<close>

theorem settings_survive_reload:
  assumes "ui_tabs st \<noteq> []" "list_all (\<lambda>tab. tab \<in> set validSectionIds) (ui_tabs st)"
    and "js_wf (ui_dark st)" "js_wf (ui_locale st)" "js_wf (ui_sidebar st)"
  shows "map_option (\<lambda>p. ui_merge p ui_init) (json_parse (json_compact (ui_persisted st))) = Some st"
proof -
  let ?m = "[(''darkMode'', ui_dark st), (''locale'', ui_locale st),
     (''sidebarExpanded'', ui_sidebar st), (''visitedTabs'', JArr (map JStr (ui_tabs st)))]"
  have tabs: "js_wf_list (map JStr ts)" for ts by (induction ts) auto
  have "obj_ok ?m" by (rule obj_ok_plain; simp add: not_index_key is_digit_def)
  then have "js_wf (ui_persisted st)" using assms tabs by (simp add: ui_persisted_def)
  then have "json_parse (json_compact (ui_persisted st)) = Some (ui_persisted st)"
    by (rule json_parse_compact)
  moreover have "ui_merge (ui_persisted st) ui_init = st"
    using normalize_valid [of "ui_tabs st"] assms(1,2)
    by (simp add: ui_persisted_def spread_member_def ui_init_def list_all_iff subset_iff)
  ultimately show ?thesis by simp
qed

lemma settings_survive_reload_witness:
  "map_option (\<lambda>p. ui_merge p ui_init) (json_parse (json_compact (ui_persisted
     \<lparr>ui_dark = JBool True, ui_locale = JStr ''en-US'', ui_sidebar = JBool False,
      ui_tabs = [''devices'', ''tenants'']\<rparr>))) =
   Some \<lparr>ui_dark = JBool True, ui_locale = JStr ''en-US'', ui_sidebar = JBool False,
      ui_tabs = [''devices'', ''tenants'']\<rparr>"
  by (rule settings_survive_reload) (simp_all add: validSectionIds_def)

end
