(* ===== verification/EventInbox.thy ===== *)
theory EventInbox
  imports StateMachine
begin

text \<open>
  The event inbox (\<open>stores/eventInboxStore.ts\<close>): the last device events with their read marks.
  The payload's own properties, which the store copies and never reads, are the field
  \<open>ib_payload\<close>; the clock (\<open>new Date().toISOString()\<close>) is an argument of \<open>pushEvent\<close>.
\<close>

record 'p inbox_item =
  ib_payload :: 'p
  ib_event_id :: string
  ib_occurred_at :: string
  ib_received_at :: string
  ib_read :: bool

record 'p inbox_state =
  ib_items :: "'p inbox_item list"
  ib_unread :: nat

record event_meta =
  em_event_id :: string
  em_occurred_at :: string

definition maxInboxItems :: nat where
  "maxInboxItems = 20"

definition countUnread :: "'p inbox_item list \<Rightarrow> nat" where
  "countUnread items = foldl (\<lambda>total item. total + (if ib_read item then 0 else 1)) 0 items"

definition inbox_init :: "'p inbox_state" where
  "inbox_init = \<lparr>ib_items = [], ib_unread = 0\<rparr>"

definition pushEvent :: "string \<Rightarrow> 'p \<Rightarrow> event_meta \<Rightarrow> 'p inbox_state \<Rightarrow> 'p inbox_state" where
  "pushEvent now payload meta state =
     (if list_ex (\<lambda>item. ib_event_id item = em_event_id meta) (ib_items state) then state
      else let item = \<lparr>ib_payload = payload, ib_event_id = em_event_id meta,
                        ib_occurred_at = em_occurred_at meta, ib_received_at = now, ib_read = False\<rparr>;
               items = take maxInboxItems (item # ib_items state)
           in \<lparr>ib_items = items, ib_unread = countUnread items\<rparr>)"

definition markAllRead :: "'p inbox_state \<Rightarrow> 'p inbox_state" where
  "markAllRead state =
     \<lparr>ib_items = map (\<lambda>item. if ib_read item then item else item\<lparr>ib_read := True\<rparr>) (ib_items state),
      ib_unread = 0\<rparr>"

definition markRead :: "string \<Rightarrow> 'p inbox_state \<Rightarrow> 'p inbox_state" where
  "markRead eventID state =
     (let items = update_where (\<lambda>item. ib_event_id item = eventID) (\<lambda>item. item\<lparr>ib_read := True\<rparr>) (ib_items state)
      in \<lparr>ib_items = items, ib_unread = countUnread items\<rparr>)"

datatype 'p inbox_action = Push string 'p event_meta | MarkAll | Mark string

fun inbox_step :: "'p inbox_action \<Rightarrow> 'p inbox_state \<Rightarrow> 'p inbox_state" where
  "inbox_step (Push now p m) st = pushEvent now p m st"
| "inbox_step MarkAll st = markAllRead st"
| "inbox_step (Mark i) st = markRead i st"

section \<open>The invariant\<close>

definition inbox_ids :: "'p inbox_state \<Rightarrow> string list" where
  "inbox_ids st = map ib_event_id (ib_items st)"

definition inbox_inv :: "'p inbox_state \<Rightarrow> bool" where
  "inbox_inv st \<longleftrightarrow> length (ib_items st) \<le> maxInboxItems \<and> distinct (inbox_ids st) \<and>
     ib_unread st = countUnread (ib_items st)"

lemma countUnread_filter: "countUnread items = length (filter (\<lambda>i. \<not> ib_read i) items)"
proof -
  have "foldl (\<lambda>t i. t + (if ib_read i then 0 else 1)) n items = n + length (filter (\<lambda>i. \<not> ib_read i) items)"
    for n :: nat by (induction items arbitrary: n) auto
  then show ?thesis by (simp add: countUnread_def)
qed

lemma inbox_inv_init: "inbox_inv inbox_init"
  by (simp add: inbox_inv_def inbox_init_def inbox_ids_def countUnread_def)

lemma pushEvent_fresh:
  assumes "em_event_id m \<notin> set (inbox_ids st)"
  shows "inbox_ids (pushEvent now p m st) = take maxInboxItems (em_event_id m # inbox_ids st)"
    and "ib_unread (pushEvent now p m st) = countUnread (ib_items (pushEvent now p m st))"
    and "length (ib_items (pushEvent now p m st)) \<le> maxInboxItems"
proof -
  have n: "\<not> list_ex (\<lambda>item. ib_event_id item = em_event_id m) (ib_items st)"
    using assms by (force simp: list_ex_iff inbox_ids_def)
  show "inbox_ids (pushEvent now p m st) = take maxInboxItems (em_event_id m # inbox_ids st)"
    using n by (simp add: pushEvent_def inbox_ids_def Let_def take_map [symmetric])
  show "ib_unread (pushEvent now p m st) = countUnread (ib_items (pushEvent now p m st))"
    "length (ib_items (pushEvent now p m st)) \<le> maxInboxItems"
    using n by (simp_all add: pushEvent_def Let_def)
qed

lemma pushEvent_known: "em_event_id m \<in> set (inbox_ids st) \<Longrightarrow> pushEvent now p m st = st"
  by (auto simp: pushEvent_def inbox_ids_def list_ex_iff)

lemma pushEvent_inv: "inbox_inv st \<Longrightarrow> inbox_inv (pushEvent now p m st)"
proof (cases "em_event_id m \<in> set (inbox_ids st)")
  case False
  assume st: "inbox_inv st"
  have d: "distinct (em_event_id m # inbox_ids st)" using st False by (simp add: inbox_inv_def)
  have "distinct (inbox_ids (pushEvent now p m st))"
    by (subst pushEvent_fresh(1) [OF False]) (rule distinct_take [OF d])
  then show ?thesis using pushEvent_fresh [OF False] by (simp add: inbox_inv_def)
qed (simp add: pushEvent_known)

lemma markRead_ids: "inbox_ids (markRead i st) = inbox_ids st"
  by (simp add: markRead_def inbox_ids_def Let_def map_update_where)

lemma markAllRead_ids: "inbox_ids (markAllRead st) = inbox_ids st"
  by (simp add: markAllRead_def inbox_ids_def)

lemma markAllRead_none: "countUnread (ib_items (markAllRead st)) = 0"
  by (auto simp: countUnread_filter markAllRead_def filter_empty_conv)

lemma markRead_inv: "inbox_inv st \<Longrightarrow> inbox_inv (markRead i st)"
  using markRead_ids [of i st] by (simp add: inbox_inv_def) (simp add: markRead_def Let_def)

lemma markAllRead_inv: "inbox_inv st \<Longrightarrow> inbox_inv (markAllRead st)"
  using markAllRead_ids [of st] markAllRead_none [of st]
  by (simp add: inbox_inv_def) (simp add: markAllRead_def)

lemma inbox_step_inv: "inbox_inv st \<Longrightarrow> inbox_inv (inbox_step a st)"
  by (cases a) (auto intro: pushEvent_inv markRead_inv markAllRead_inv)

interpretation inbox: invariant_machine inbox_init inbox_step inbox_inv
  by unfold_locales (auto intro: inbox_inv_init inbox_step_inv)

text \<open>Marking an unread event lowers the counter by one; marking any other changes nothing.\<close>

lemma count_update:
  "distinct (map ib_event_id items) \<Longrightarrow>
   length (filter (\<lambda>x. \<not> ib_read x) items) =
     length (filter (\<lambda>x. \<not> ib_read x)
       (update_where (\<lambda>x. ib_event_id x = i) (\<lambda>x. x\<lparr>ib_read := True\<rparr>) items)) +
     (if \<exists>x \<in> set items. ib_event_id x = i \<and> \<not> ib_read x then 1 else 0)"
proof (induction items)
  case (Cons x items)
  then show ?case
    by (cases "ib_event_id x = i") (auto simp: update_where_def image_iff)
qed (simp add: update_where_def)

section \<open>Properties\<close>

lemma inbox_run_eq: "inbox.run acts = fold inbox_step acts inbox_init"
  by (simp add: inbox.run_def)

text \<open>
  C30: after any sequence of store operations the inbox holds at most 20 events, no event twice,
  and the unread counter shown on the bell is the number of unread events in the list.
\<close>

theorem inbox_always_consistent:
  "let st = fold inbox_step acts inbox_init
   in length (ib_items st) \<le> 20 \<and> distinct (map ib_event_id (ib_items st)) \<and>
      ib_unread st = length (filter (\<lambda>item. \<not> ib_read item) (ib_items st))"
  using inbox.inv_run [of acts]
  by (simp add: inbox_inv_def inbox_run_eq inbox_ids_def maxInboxItems_def countUnread_filter)

text \<open>
  In every reachable inbox, marking an event read lowers the unread counter by exactly one
  when that event is present and unread, and leaves it as it is otherwise; the list of events
  and its order do not change.
\<close>

theorem markRead_counts:
  "let st = fold inbox_step acts inbox_init
   in ib_unread st = ib_unread (markRead i st) +
        (if \<exists>item \<in> set (ib_items st). ib_event_id item = i \<and> \<not> ib_read item then 1 else 0) \<and>
      map ib_event_id (ib_items (markRead i st)) = map ib_event_id (ib_items st)"
proof -
  have inv: "inbox_inv (fold inbox_step acts inbox_init)"
    using inbox.inv_run [of acts] by (simp add: inbox_run_eq)
  then show ?thesis
    using count_update [of "ib_items (fold inbox_step acts inbox_init)" i] markRead_ids [of i]
    by (simp add: inbox_inv_def inbox_ids_def Let_def markRead_def countUnread_filter)
qed

end
