(* ===== verification/AdminShell.thy ===== *)
theory AdminShell
  imports AdminUiStore AuthStore EventInbox "HOL-Library.Sublist"
begin

text \<open>
  The console around the pages (\<open>pages/Admin/index.tsx\<close>): the navigation table, which section a
  path belongs to, the visited tabs, the event inbox button, logging out, and which page is shown.
  The page itself is a machine over the interface settings, the session and the current path.
\<close>

section \<open>Tables\<close>

record nav_item =
  ni_id :: string
  ni_labelKey :: string
  ni_path :: string

record section_content =
  sc_id :: string
  sc_titleKey :: string
  sc_summaryKey :: string
  sc_contentKey :: string

definition navItems :: "nav_item list" where
  "navItems =
     [\<lparr>ni_id = ''overview'', ni_labelKey = ''adminOverviewNav'', ni_path = ''/admin''\<rparr>,
      \<lparr>ni_id = ''tenants'', ni_labelKey = ''adminTenantsNav'', ni_path = ''/admin/tenants''\<rparr>,
      \<lparr>ni_id = ''products'', ni_labelKey = ''adminProductsNav'', ni_path = ''/admin/tenants/products''\<rparr>,
      \<lparr>ni_id = ''thingsModels'', ni_labelKey = ''adminThingsModelsNav'', ni_path = ''/admin/tenants/thingsmodels''\<rparr>,
      \<lparr>ni_id = ''devices'', ni_labelKey = ''adminDevicesNav'', ni_path = ''/admin/tenants/devices''\<rparr>,
      \<lparr>ni_id = ''deviceProperties'', ni_labelKey = ''adminDevicePropertiesNav'', ni_path = ''/admin/tenants/device-properties''\<rparr>,
      \<lparr>ni_id = ''auditLogs'', ni_labelKey = ''adminAuditLogsNav'', ni_path = ''/admin/audit-logs''\<rparr>,
      \<lparr>ni_id = ''settings'', ni_labelKey = ''adminSettingsNav'', ni_path = ''/admin/settings''\<rparr>]"

definition metrics :: "(string \<times> string \<times> string) list" where
  "metrics =
     [(''adminMetricOnlineDevices'', ''0'', ''adminMetricWaitingDevices''),
      (''adminMetricTenants'', ''--'', ''adminMetricWaitingTenants''),
      (''adminMetricActiveProducts'', ''--'', ''adminMetricWaitingProducts'')]"

definition sectionContent :: "(string \<times> section_content) list" where
  "sectionContent =
     [(''overview'', \<lparr>sc_id = ''overview'', sc_titleKey = ''adminOverviewTitle'', sc_summaryKey = ''adminOverviewSummary'', sc_contentKey = ''adminOverviewContent''\<rparr>),
      (''tenants'', \<lparr>sc_id = ''tenants'', sc_titleKey = ''adminTenantsTitle'', sc_summaryKey = ''adminTenantsSummary'', sc_contentKey = ''adminTenantsContent''\<rparr>),
      (''products'', \<lparr>sc_id = ''products'', sc_titleKey = ''adminProductsTitle'', sc_summaryKey = ''adminProductsSummary'', sc_contentKey = ''adminProductsContent''\<rparr>),
      (''thingsModels'', \<lparr>sc_id = ''thingsModels'', sc_titleKey = ''adminThingsModelsTitle'', sc_summaryKey = ''adminThingsModelsSummary'', sc_contentKey = ''adminThingsModelsContent''\<rparr>),
      (''devices'', \<lparr>sc_id = ''devices'', sc_titleKey = ''adminDevicesTitle'', sc_summaryKey = ''adminDevicesSummary'', sc_contentKey = ''adminDevicesContent''\<rparr>),
      (''deviceProperties'', \<lparr>sc_id = ''deviceProperties'', sc_titleKey = ''adminDevicePropertiesTitle'', sc_summaryKey = ''adminDevicePropertiesSummary'', sc_contentKey = ''adminDevicePropertiesContent''\<rparr>),
      (''auditLogs'', \<lparr>sc_id = ''auditLogs'', sc_titleKey = ''adminAuditLogsTitle'', sc_summaryKey = ''adminAuditLogsSummary'', sc_contentKey = ''adminAuditLogsContent''\<rparr>),
      (''settings'', \<lparr>sc_id = ''settings'', sc_titleKey = ''adminSettingsTitle'', sc_summaryKey = ''adminSettingsSummary'', sc_contentKey = ''adminSettingsContent''\<rparr>)]"

definition getActiveSectionId :: "string \<Rightarrow> string" where
  "getActiveSectionId pathname =
     (if prefix ''/admin/tenants'' pathname
      then if prefix ''/admin/tenants/products'' pathname then ''products''
           else if prefix ''/admin/tenants/thingsmodels'' pathname then ''thingsModels''
           else if prefix ''/admin/tenants/devices'' pathname then ''devices''
           else if prefix ''/admin/tenants/device-properties'' pathname then ''deviceProperties''
           else ''tenants''
      else if prefix ''/admin/audit-logs'' pathname then ''auditLogs''
      else if prefix ''/admin/device-management'' pathname then ''devices''
      else if prefix ''/admin/settings'' pathname then ''settings''
      else ''overview'')"

definition getNavItemById :: "string \<Rightarrow> nav_item" where
  "getNavItemById i = (case find (\<lambda>item. ni_id item = i) navItems of Some item \<Rightarrow> item | None \<Rightarrow> hd navItems)"

text \<open>Which page the content area shows.\<close>

datatype admin_view =
    TenantsView | ProductsView | ThingsModelsView | DevicesView | DevicePropertiesView | AuditLogsView | DashboardView

definition shown_page :: "string \<Rightarrow> admin_view" where
  "shown_page i =
     (if i = ''tenants'' then TenantsView
      else if i = ''products'' then ProductsView
      else if i = ''thingsModels'' then ThingsModelsView
      else if i = ''devices'' then DevicesView
      else if i = ''deviceProperties'' then DevicePropertiesView
      else if i = ''auditLogs'' then AuditLogsView
      else DashboardView)"

text \<open>The entry cards of the dashboard; the settings card has no description.\<close>

definition entry_description :: "string \<Rightarrow> string option" where
  "entry_description i =
     (if i = ''settings'' then None
      else Some (if i = ''tenants'' then ''adminEntryTenantsDescription''
        else if i = ''products'' then ''adminEntryProductsDescription''
        else if i = ''thingsModels'' then ''adminEntryThingsModelsDescription''
        else if i = ''devices'' then ''adminEntryDevicesDescription''
        else if i = ''deviceProperties'' then ''adminEntryDevicePropertiesDescription''
        else if i = ''auditLogs'' then ''adminEntryAuditLogsDescription''
        else ''adminEntrySettingsDescription''))"

section \<open>The event inbox button\<close>

definition unread_badge :: "nat \<Rightarrow> string option" where
  "unread_badge unreadCount =
     (if 0 < unreadCount then Some (if 99 < unreadCount then ''99+'' else dec unreadCount) else None)"

definition mark_all_disabled :: "nat \<Rightarrow> bool" where
  "mark_all_disabled unreadCount \<longleftrightarrow> unreadCount = 0"

section \<open>The page\<close>

record shell =
  sh_path :: string
  sh_ui :: ui_state
  sh_auth :: auth_state
  sh_inbox :: "js inbox_state"
  sh_sidebarOpen :: bool

definition activeSectionId :: "shell \<Rightarrow> string" where
  "activeSectionId s = getActiveSectionId (sh_path s)"

text \<open>The effect that follows the active section.\<close>

definition tab_effect :: "shell \<Rightarrow> shell" where
  "tab_effect s = s\<lparr>sh_ui := addVisitedTab (activeSectionId s) (sh_ui s)\<rparr>"

text \<open>
  Another path of the console. The effect runs when the section changes, and when the router
  mounts the page anew.
\<close>

definition navigate :: "bool \<Rightarrow> string \<Rightarrow> shell \<Rightarrow> shell" where
  "navigate remounted path s =
     (let s' = s\<lparr>sh_path := path\<rparr>
      in if remounted \<or> activeSectionId s' \<noteq> activeSectionId s then tab_effect s' else s')"

definition nav_click :: "bool \<Rightarrow> nav_item \<Rightarrow> shell \<Rightarrow> shell" where
  "nav_click remounted item s =
     navigate remounted (ni_path item) (s\<lparr>sh_ui := addVisitedTab (ni_id item) (sh_ui s), sh_sidebarOpen := False\<rparr>)"

definition handleCloseTab :: "bool \<Rightarrow> string \<Rightarrow> shell \<Rightarrow> shell" where
  "handleCloseTab remounted tabId s =
     (let nextTabs = filter (\<lambda>i. i \<noteq> tabId) (ui_tabs (sh_ui s));
          fallbackTab = getNavItemById (if nextTabs = [] then ''overview'' else last nextTabs);
          s' = s\<lparr>sh_ui := removeVisitedTab tabId (sh_ui s)\<rparr>
      in if tabId = activeSectionId s then navigate remounted (ni_path fallbackTab) s' else s')"

definition handleLogout :: "shell \<Rightarrow> shell" where
  "handleLogout s = s\<lparr>sh_auth := clearSession (sh_auth s), sh_path := ''/login''\<rparr>"

definition inbox_click :: "bool \<Rightarrow> string \<Rightarrow> shell \<Rightarrow> shell" where
  "inbox_click remounted eventID s =
     navigate remounted ''/admin/tenants/device-properties'' (s\<lparr>sh_inbox := markRead eventID (sh_inbox s)\<rparr>)"

definition inbox_push :: "string \<Rightarrow> js \<Rightarrow> event_meta \<Rightarrow> shell \<Rightarrow> shell" where
  "inbox_push now payload meta s = s\<lparr>sh_inbox := pushEvent now payload meta (sh_inbox s)\<rparr>"

definition toggle_sidebar :: "shell \<Rightarrow> shell" where
  "toggle_sidebar s = s\<lparr>sh_sidebarOpen := \<not> sh_sidebarOpen s\<rparr>"

definition toggle_expanded :: "shell \<Rightarrow> shell" where
  "toggle_expanded s = s\<lparr>sh_ui := setSidebarExpanded (Updater (\<lambda>v. JBool (\<not> truthy v))) (sh_ui s)\<rparr>"

text \<open>What happens while the console is open.\<close>

datatype shell_event =
    Go bool string
  | NavClick bool nav_item
  | CloseTab bool string
  | InboxClick bool string
  | InboxPush string js event_meta
  | InboxReadAll
  | ToggleSidebar
  | ToggleExpanded
  | ToggleTheme

fun shell_step :: "shell_event \<Rightarrow> shell \<Rightarrow> shell" where
  "shell_step (Go r path) s = navigate r path s"
| "shell_step (NavClick r item) s = (if item \<in> set navItems then nav_click r item s else s)"
| "shell_step (CloseTab r tabId) s = (if tabId \<in> set (ui_tabs (sh_ui s)) then handleCloseTab r tabId s else s)"
| "shell_step (InboxClick r i) s = inbox_click r i s"
| "shell_step (InboxPush now p m) s = inbox_push now p m s"
| "shell_step InboxReadAll s = s\<lparr>sh_inbox := markAllRead (sh_inbox s)\<rparr>"
| "shell_step ToggleSidebar s = toggle_sidebar s"
| "shell_step ToggleExpanded s = toggle_expanded s"
| "shell_step ToggleTheme s = s\<lparr>sh_ui := toggleDarkMode (sh_ui s)\<rparr>"

definition shell_mount :: "string \<Rightarrow> shell" where
  "shell_mount path = tab_effect \<lparr>sh_path = path, sh_ui = ui_init, sh_auth = auth_init,
     sh_inbox = inbox_init, sh_sidebarOpen = False\<rparr>"

section \<open>Paths and sections\<close>

lemma valid_section: "getActiveSectionId path \<in> set validSectionIds"
  by (simp add: getActiveSectionId_def validSectionIds_def)

text \<open>The link of every section leads to that section.\<close>

lemma nav_tables:
  "list_all (\<lambda>i. ni_id (getNavItemById i) = i \<and> getActiveSectionId (ni_path (getNavItemById i)) = i) validSectionIds"
  "list_all (\<lambda>item. ni_id item \<in> set validSectionIds \<and> getActiveSectionId (ni_path item) = ni_id item) navItems"
  by code_simp+

lemma nav_path_section:
  assumes "i \<in> set validSectionIds"
  shows "ni_id (getNavItemById i) = i" "getActiveSectionId (ni_path (getNavItemById i)) = i"
  using assms nav_tables(1) by (simp_all add: list_all_iff)

lemma nav_item_section: "item \<in> set navItems \<Longrightarrow> ni_id item \<in> set validSectionIds \<and> getActiveSectionId (ni_path item) = ni_id item"
  using nav_tables(2) by (simp add: list_all_iff)

definition shell_inv :: "shell \<Rightarrow> bool" where
  "shell_inv s \<longleftrightarrow> distinct (ui_tabs (sh_ui s)) \<and> set (ui_tabs (sh_ui s)) \<subseteq> set validSectionIds \<and>
     activeSectionId s \<in> set (ui_tabs (sh_ui s)) \<and> inbox_inv (sh_inbox s)"

lemma addVisitedTab_tabs:
  "ui_tabs (addVisitedTab i st) = (if i \<in> set (ui_tabs st) then ui_tabs st else ui_tabs st @ [i])"
  by (simp add: addVisitedTab_def)

lemma removeVisitedTab_tabs:
  "ui_tabs (removeVisitedTab i st) =
     (if filter (\<lambda>t. t \<noteq> i) (ui_tabs st) = [] then [''overview''] else filter (\<lambda>t. t \<noteq> i) (ui_tabs st))"
  by (simp add: removeVisitedTab_def Let_def)

lemma navigate_tabs:
  assumes "distinct (ui_tabs (sh_ui s))" "set (ui_tabs (sh_ui s)) \<subseteq> set validSectionIds"
    and "activeSectionId s \<in> set (ui_tabs (sh_ui s)) \<or> getActiveSectionId path \<noteq> activeSectionId s"
  shows "distinct (ui_tabs (sh_ui (navigate r path s)))" "set (ui_tabs (sh_ui (navigate r path s))) \<subseteq> set validSectionIds"
    "activeSectionId (navigate r path s) \<in> set (ui_tabs (sh_ui (navigate r path s)))"
    "sh_inbox (navigate r path s) = sh_inbox s"
  using assms valid_section [of path]
  by (auto simp: navigate_def tab_effect_def activeSectionId_def addVisitedTab_tabs Let_def)

lemma tabs_kept [simp]:
  "ui_tabs (setSidebarExpanded v st) = ui_tabs st" "ui_tabs (toggleDarkMode st) = ui_tabs st"
  by (simp_all add: setSidebarExpanded_def toggleDarkMode_def)

lemma close_inv:
  assumes "shell_inv s" "tabId \<in> set (ui_tabs (sh_ui s))"
  shows "shell_inv (handleCloseTab r tabId s)"
proof -
  define rest where "rest = filter (\<lambda>i. i \<noteq> tabId) (ui_tabs (sh_ui s))"
  define fb where "fb = (if rest = [] then ''overview'' else last rest)"
  define t where "t = s\<lparr>sh_ui := removeVisitedTab tabId (sh_ui s)\<rparr>"
  have tabs: "ui_tabs (sh_ui t) = (if rest = [] then [''overview''] else rest)"
    by (simp add: t_def rest_def removeVisitedTab_tabs)
  have rest: "distinct rest" "set rest \<subseteq> set validSectionIds"
    using assms(1) by (auto simp: shell_inv_def rest_def)
  then have d: "distinct (ui_tabs (sh_ui t))" "set (ui_tabs (sh_ui t)) \<subseteq> set validSectionIds"
    using overview_valid by (simp_all add: tabs)
  have m: "fb \<in> set (ui_tabs (sh_ui t))" by (simp add: tabs fb_def)
  then have p: "getActiveSectionId (ni_path (getNavItemById fb)) = fb" using nav_path_section(2) d(2) by blast
  have box: "inbox_inv (sh_inbox t)" using assms(1) by (simp add: t_def shell_inv_def)
  show ?thesis
  proof (cases "tabId = activeSectionId s")
    case True
    have a: "activeSectionId t \<in> set (ui_tabs (sh_ui t)) \<or> getActiveSectionId (ni_path (getNavItemById fb)) \<noteq> activeSectionId t"
      using m p by (cases "activeSectionId t = fb") auto
    have "handleCloseTab r tabId s = navigate r (ni_path (getNavItemById fb)) t"
      by (simp add: handleCloseTab_def Let_def True rest_def fb_def t_def)
    then show ?thesis using navigate_tabs [OF d a, of r] box by (simp add: shell_inv_def)
  next
    case False
    then have "activeSectionId s \<in> set rest" using assms(1) by (auto simp: shell_inv_def rest_def)
    then have "activeSectionId t \<in> set (ui_tabs (sh_ui t))"
      unfolding tabs by (auto simp: t_def activeSectionId_def)
    moreover have "handleCloseTab r tabId s = t" by (simp add: handleCloseTab_def Let_def False t_def)
    ultimately show ?thesis using d box by (simp add: shell_inv_def)
  qed
qed

lemma shell_step_inv:
  assumes "shell_inv s" shows "shell_inv (shell_step e s)"
proof -
  have nav: "shell_inv (navigate r path t)" if "shell_inv t" for r path t
    using navigate_tabs [of t path r] that by (simp add: shell_inv_def)
  show ?thesis
  proof (cases e)
    case (NavClick r item)
    let ?t = "s\<lparr>sh_ui := addVisitedTab (ni_id item) (sh_ui s), sh_sidebarOpen := False\<rparr>"
    have "shell_inv ?t" if "item \<in> set navItems"
      using assms nav_item_section [OF that] by (auto simp: shell_inv_def addVisitedTab_tabs activeSectionId_def)
    then show ?thesis using NavClick assms nav by (simp add: nav_click_def)
  next
    case (CloseTab r tabId)
    then show ?thesis using assms close_inv by simp
  next
    case (InboxClick r i)
    have "shell_inv (s\<lparr>sh_inbox := markRead i (sh_inbox s)\<rparr>)"
      using assms by (simp add: shell_inv_def activeSectionId_def markRead_inv)
    then show ?thesis using InboxClick nav by (simp add: inbox_click_def)
  qed (use assms nav in \<open>simp_all add: shell_inv_def activeSectionId_def inbox_push_def toggle_sidebar_def
      toggle_expanded_def pushEvent_inv markAllRead_inv\<close>)
qed

interpretation shell: invariant_machine "shell_mount path" shell_step shell_inv for path
proof
  show "shell_inv (shell_mount path)"
    using valid_section [of path] overview_valid
    by (auto simp: shell_mount_def tab_effect_def shell_inv_def activeSectionId_def addVisitedTab_tabs ui_init_def inbox_inv_init)
qed (rule shell_step_inv)

section \<open>Properties\<close>

text \<open>
  C26: the tab bar and the page never disagree. Whatever path the console is opened at and whatever
  the user does (links, tabs, closing tabs, the inbox, typed addresses), the section that is shown
  has a tab, no section has two tabs, every tab's link leads to its own section, and the badge of
  the inbox shows the exact number of unread events.
\<close>

theorem active_section_has_tab:
  "let s = fold shell_step es (shell_mount path); tabs = ui_tabs (sh_ui s)
   in activeSectionId s \<in> set tabs \<and> distinct tabs \<and>
      list_all (\<lambda>tab. getActiveSectionId (ni_path (getNavItemById tab)) = tab) tabs \<and>
      unread_badge (ib_unread (sh_inbox s)) =
        (let n = length (filter (\<lambda>item. \<not> ib_read item) (ib_items (sh_inbox s)))
         in if n = 0 then None else Some (dec n))"
proof -
  define s where "s = fold shell_step es (shell_mount path)"
  have inv: "shell_inv s" unfolding s_def using shell.inv_run [of path es] by (simp add: shell.run_def)
  then have n: "ib_unread (sh_inbox s) = length (filter (\<lambda>item. \<not> ib_read item) (ib_items (sh_inbox s)))"
      "length (ib_items (sh_inbox s)) \<le> 20"
    by (simp_all add: shell_inv_def inbox_inv_def countUnread_filter maxInboxItems_def)
  have "ib_unread (sh_inbox s) \<le> 20" using n length_filter_le order_trans by metis
  then show ?thesis using inv nav_path_section(2) n(1)
    by (auto simp: Let_def unread_badge_def shell_inv_def list_all_iff simp flip: s_def)
qed

text \<open>
  Closing a tab. Closing another tab than the active one removes it and changes nothing else.
  Closing the active tab removes it and shows the section of the last remaining tab, or the overview
  when none remains; the section that was closed does not come back by itself.
\<close>

theorem close_tab_behaviour:
  assumes "s = fold shell_step es (shell_mount path)" "tabId \<in> set (ui_tabs (sh_ui s))"
    and "remaining = filter (\<lambda>i. i \<noteq> tabId) (ui_tabs (sh_ui s))"
    and "s' = handleCloseTab remounted tabId s"
  shows "ui_tabs (sh_ui s') = (if remaining = [] then [''overview''] else remaining) \<and>
    activeSectionId s' = (if tabId \<noteq> activeSectionId s then activeSectionId s
       else if remaining = [] then ''overview'' else last remaining)"
proof -
  have inv: "shell_inv s" unfolding assms(1) using shell.inv_run [of path es] by (simp add: shell.run_def)
  define fb where "fb = (if remaining = [] then ''overview'' else last remaining)"
  define t where "t = s\<lparr>sh_ui := removeVisitedTab tabId (sh_ui s)\<rparr>"
  have tabs: "ui_tabs (sh_ui t) = (if remaining = [] then [''overview''] else remaining)"
    by (simp add: t_def assms(3) removeVisitedTab_tabs)
  have same: "activeSectionId t = activeSectionId s" by (simp add: t_def activeSectionId_def)
  have "set remaining \<subseteq> set validSectionIds" using inv by (auto simp: shell_inv_def assms(3))
  then have "fb \<in> set validSectionIds" using last_in_set [of remaining] overview_valid by (auto simp: fb_def)
  then have p: "getActiveSectionId (ni_path (getNavItemById fb)) = fb" by (rule nav_path_section)
  have m: "fb \<in> set (ui_tabs (sh_ui t))" by (simp add: tabs fb_def)
  show ?thesis
  proof (cases "tabId = activeSectionId s")
    case True
    have n: "navigate r (ni_path (getNavItemById fb)) t = t\<lparr>sh_path := ni_path (getNavItemById fb)\<rparr>" for r
      using m p by (simp add: navigate_def tab_effect_def activeSectionId_def addVisitedTab_def Let_def)
    have "s' = navigate remounted (ni_path (getNavItemById fb)) t"
      by (simp add: assms(3,4) handleCloseTab_def Let_def True fb_def t_def)
    then have "s' = t\<lparr>sh_path := ni_path (getNavItemById fb)\<rparr>" by (simp add: n)
    then show ?thesis using True tabs p by (simp add: activeSectionId_def fb_def)
  next
    case False
    then have "s' = t" by (simp add: assms(4) handleCloseTab_def Let_def t_def)
    then show ?thesis using False tabs same by simp
  qed
qed

lemma close_tab_behaviour_witness:
  "let s = fold shell_step [NavClick False (getNavItemById ''devices'')] (shell_mount ''/admin'')
   in activeSectionId (handleCloseTab False ''devices'' s) = ''overview''"
proof -
  let ?s = "fold shell_step [NavClick False (getNavItemById ''devices'')] (shell_mount ''/admin'')"
  have n: "getNavItemById ''devices'' \<in> set navItems" "ni_id (getNavItemById ''devices'') = ''devices''"
      "getActiveSectionId (ni_path (getNavItemById ''devices'')) = ''devices''" "getActiveSectionId ''/admin'' = ''overview''"
    by code_simp+
  then have t: "ui_tabs (sh_ui ?s) = [''overview'', ''devices'']" "activeSectionId ?s = ''devices''"
    by (simp_all add: nav_click_def navigate_def shell_mount_def tab_effect_def activeSectionId_def
      addVisitedTab_tabs ui_init_def Let_def)
  show ?thesis
    using close_tab_behaviour [OF refl _ refl refl, of "''devices''" "[NavClick False (getNavItemById ''devices'')]" "''/admin''" False] t
    by (simp add: Let_def)
qed

end
