(* ===== verification/AuditPage.thy ===== *)
theory AuditPage
  imports PageEffects Pagination
begin

text \<open>
  The audit log page (\<open>pages/Admin/AuditLogManagement.tsx\<close>): the list with its loading effect,
  the detail dialog, the classes of the tags and the text of the metadata.
\<close>

record audit_page =
  ag_logs :: "audit_log list"
  ag_total :: int
  ag_page :: int
  ag_pageSize :: int
  ag_loading :: bool
  ag_selected :: "audit_log option"

definition audit_init :: audit_page where
  "audit_init = \<lparr>ag_logs = [], ag_total = 0, ag_page = 1, ag_pageSize = 10, ag_loading = False,
     ag_selected = None\<rparr>"

fun resultClassName :: "audit_result \<Rightarrow> string" where
  "resultClassName AuditFailure = ''bg-red-50 text-red-600 dark:bg-red-950/30 dark:text-red-300''"
| "resultClassName AuditSuccess = ''bg-linkflow-primary-soft text-linkflow-primary''"

definition getStatusClassName :: "jsnum \<Rightarrow> string" where
  "getStatusClassName statusCode =
     (if num_le (Fin 500) statusCode then ''bg-red-50 text-red-600 dark:bg-red-950/30 dark:text-red-300''
      else if num_le (Fin 400) statusCode then ''bg-amber-50 text-amber-700 dark:bg-amber-950/40 dark:text-amber-300''
      else if num_le (Fin 300) statusCode then ''bg-violet-50 text-violet-700 dark:bg-violet-950/40 dark:text-violet-300''
      else ''bg-linkflow-primary-soft text-linkflow-primary'')"

definition formatMetadata :: "js_object \<Rightarrow> string" where
  "formatMetadata metadata = (if length metadata = 0 then ''--'' else json_pretty (JObj metadata))"

definition audit_effect_starts :: "int \<times> int \<Rightarrow> audit_page \<Rightarrow> audit_page" where
  "audit_effect_starts p s = s\<lparr>ag_loading := True\<rparr>"

definition audit_effect_asks :: "int \<times> int \<Rightarrow> http_request option" where
  "audit_effect_asks p = Some (''/api/v1/audit-logs'', with_params GET (page_params_query
     \<lparr>pp_page = fst p, pp_page_size = snd p\<rparr>))"

definition audit_effect_settles ::
  "bool \<Rightarrow> int \<times> int \<Rightarrow> js_exn + audit_log page_result \<Rightarrow> audit_page \<Rightarrow> audit_page \<times> effect list" where
  "audit_effect_settles cancelled p answer s =
     (if cancelled then (s, [])
      else case answer of
             Inr result \<Rightarrow> (s\<lparr>ag_logs := pr_items result, ag_total := pr_total result, ag_page := pr_page result,
                 ag_pageSize := pr_page_size result, ag_loading := False\<rparr>, [])
           | Inl e \<Rightarrow> (s\<lparr>ag_loading := False\<rparr>, [Notice NError ''adminAuditLoadFailed'' (error_description e)]))"

definition audit_select :: "audit_log option \<Rightarrow> audit_page \<Rightarrow> audit_page" where
  "audit_select entry s = s\<lparr>ag_selected := entry\<rparr>"

definition audit_onPageSizeChange :: "int \<Rightarrow> audit_page \<Rightarrow> audit_page" where
  "audit_onPageSizeChange nextPageSize s = s\<lparr>ag_page := 1, ag_pageSize := nextPageSize\<rparr>"

interpretation audit_fx: fetch_effect audit_effect_starts audit_effect_asks audit_effect_settles
  by unfold_locales (simp add: audit_effect_settles_def)

text \<open>The request of the effect is the request of the service function.\<close>

lemma audit_request: "audit_effect_asks (page, psz) = Some r \<Longrightarrow>
   requests (effects_of (listAuditLogs rq \<lparr>pp_page = page, pp_page_size = psz\<rparr> s)) = [r]"
  by (simp add: audit_effect_asks_def listAuditLogs_def apiRequest_run split: prod.split)

lemma metadata_readable: "js_wf (JObj m) \<Longrightarrow> m \<noteq> [] \<Longrightarrow> json_parse (formatMetadata m) = Some (JObj m)"
  by (simp add: formatMetadata_def json_parse_pretty)

end
