(* ===== verification/PropertyValues.thy ===== *)
theory PropertyValues
  imports ThingsModelDrafts
begin

text \<open>
  The pure functions of the device property page (\<open>pages/Admin/DevicePropertyManagement.tsx\<close>):
  how values and definitions of a things model are read and shown, the default texts and
  parameters, and how the parameters of a service call become the input object. A value of type
  \<open>unknown\<close> is a \<open>js option\<close>, with \<open>None\<close> for \<open>undefined\<close>.
\<close>

section \<open>Values\<close>

fun valueTypeOf :: "js option \<Rightarrow> string" where
  "valueTypeOf (Some (JArr xs)) = ''array''"
| "valueTypeOf (Some JNull) = ''null''"
| "valueTypeOf (Some v) = js_typeof v"
| "valueTypeOf None = ''undefined''"

text \<open>\<open>JSON.stringify\<close> of \<open>undefined\<close> is \<open>undefined\<close>.\<close>

fun formatPropertyValue :: "js option \<Rightarrow> string option" where
  "formatPropertyValue (Some (JStr s)) = Some s"
| "formatPropertyValue (Some (JNum n)) = Some (js_str (JNum n))"
| "formatPropertyValue (Some (JBool b)) = Some (js_str (JBool b))"
| "formatPropertyValue (Some JNull) = Some (js_str JNull)"
| "formatPropertyValue (Some v) = Some (json_pretty v)"
| "formatPropertyValue None = None"

fun isStructuredPropertyValue :: "js option \<Rightarrow> bool" where
  "isStructuredPropertyValue (Some (JArr xs)) = True"
| "isStructuredPropertyValue (Some (JObj ob)) = True"
| "isStructuredPropertyValue _ = False"

fun isRecord :: "js option \<Rightarrow> bool" where
  "isRecord (Some (JObj ob)) = True"
| "isRecord _ = False"

text \<open>The texts of a JSON preview (\<open>value ?? {}\<close>): the full text and the summary.\<close>

fun or_empty_object :: "js option \<Rightarrow> js" where
  "or_empty_object None = JObj []"
| "or_empty_object (Some JNull) = JObj []"
| "or_empty_object (Some v) = v"

definition JsonPreview :: "js option \<Rightarrow> string \<times> string" where
  "JsonPreview value = (json_pretty (or_empty_object value), json_compact (or_empty_object value))"

definition shortenID :: "string \<Rightarrow> string" where
  "shortenID value =
     (if length value \<le> 18 then value
      else take 8 value @ ''...'' @ drop (length value - 6) value)"

section \<open>Badges\<close>

fun ackStatusClassName :: "ack_status \<Rightarrow> string" where
  "ackStatusClassName AckSuccess = ''bg-emerald-50 text-emerald-700 dark:bg-emerald-950/40 dark:text-emerald-300''"
| "ackStatusClassName AckFailed = ''bg-rose-50 text-rose-700 dark:bg-rose-950/40 dark:text-rose-300''"
| "ackStatusClassName AckPending = ''bg-amber-50 text-amber-700 dark:bg-amber-950/40 dark:text-amber-300''"

fun ackStatusLabelKey :: "ack_status \<Rightarrow> string" where
  "ackStatusLabelKey AckSuccess = ''adminDeviceServiceAckSuccess''"
| "ackStatusLabelKey AckFailed = ''adminDeviceServiceAckFailed''"
| "ackStatusLabelKey AckPending = ''adminDeviceServiceAckPending''"

definition connectionStatusClassName :: "connection_status option \<Rightarrow> string" where
  "connectionStatusClassName status =
     (if status = Some Online
      then ''border-emerald-200 bg-emerald-50 text-emerald-700 dark:border-emerald-900/70 dark:bg-emerald-950/40 dark:text-emerald-300''
      else ''border-rose-200 bg-rose-50 text-rose-700 dark:border-rose-900/70 dark:bg-rose-950/40 dark:text-rose-300'')"

definition connection_badge_key :: "device option \<Rightarrow> string" where
  "connection_badge_key d =
     (case d of
        Some x \<Rightarrow> if dv_connection_status x = Online then ''adminDeviceConnectionOnline'' else ''adminDeviceConnectionOffline''
      | None \<Rightarrow> ''adminDevicePropertyNoDevice'')"

definition valueTypeBadgeClassName :: "string \<Rightarrow> string" where
  "valueTypeBadgeClassName type =
     ''shrink-0 rounded-full px-2.5 py-1 text-xs font-black uppercase leading-none '' @
     (if type = ''number'' then ''bg-emerald-50 text-emerald-700 dark:bg-emerald-950/40 dark:text-emerald-300''
      else if type = ''boolean'' then ''bg-amber-50 text-amber-700 dark:bg-amber-950/40 dark:text-amber-300''
      else if type = ''string'' then ''bg-linkflow-primary-soft text-linkflow-primary dark:bg-linkflow-dark-primary-soft dark:text-linkflow-dark-primary''
      else ''bg-slate-100 text-linkflow-muted dark:bg-slate-800 dark:text-linkflow-dark-muted'')"

section \<open>Definitions of a things model\<close>

text \<open>\<open>definition.key\<close> of a record, and of anything else \<open>None\<close>.\<close>

definition member :: "js option \<Rightarrow> string \<Rightarrow> js option" where
  "member d k = (case d of Some (JObj ob) \<Rightarrow> obj_get ob k | _ \<Rightarrow> None)"

definition propertyDisplayName :: "string \<Rightarrow> js option \<Rightarrow> string" where
  "propertyDisplayName name d =
     (case member d ''name'' of Some (JStr s) \<Rightarrow> if trim s \<noteq> [] then s else name | _ \<Rightarrow> name)"

definition serviceDisplayName :: "string \<Rightarrow> js option \<Rightarrow> string" where
  "serviceDisplayName name d =
     (case member d ''name'' of Some (JStr s) \<Rightarrow> if trim s \<noteq> [] then s else name | _ \<Rightarrow> name)"

definition propertyDataType :: "js option \<Rightarrow> string option" where
  "propertyDataType d = (case member d ''data_type'' of Some (JStr s) \<Rightarrow> Some s | _ \<Rightarrow> None)"

definition propertyUnit :: "js option \<Rightarrow> string option" where
  "propertyUnit d =
     (case member d ''unit'' of
        Some (JStr u) \<Rightarrow> if trim u \<noteq> [] then Some u else
          (case member (member d ''spec'') ''unit'' of Some (JStr v) \<Rightarrow> if trim v \<noteq> [] then Some v else None | _ \<Rightarrow> None)
      | _ \<Rightarrow> (case member (member d ''spec'') ''unit'' of Some (JStr v) \<Rightarrow> if trim v \<noteq> [] then Some v else None | _ \<Rightarrow> None))"

definition isNumericPropertyDefinition :: "js option \<Rightarrow> bool" where
  "isNumericPropertyDefinition d \<longleftrightarrow> propertyDataType d \<in> {Some ''int'', Some ''float'', Some ''double''}"

definition isWritablePropertyDefinition :: "js option \<Rightarrow> bool" where
  "isWritablePropertyDefinition d \<longleftrightarrow>
     (case member d ''access_mode'' of Some (JStr m) \<Rightarrow> m = ''write'' \<or> m = ''readwrite'' | _ \<Rightarrow> False)"

definition writablePropertyEntriesOf :: "things_model option \<Rightarrow> js_object" where
  "writablePropertyEntriesOf model =
     (case model of None \<Rightarrow> [] | Some m \<Rightarrow> filter (\<lambda>(k, d). isWritablePropertyDefinition (Some d)) (tm_properties m))"

definition defaultPropertyValue :: "js option \<Rightarrow> js" where
  "defaultPropertyValue d =
     (case propertyDataType d of
        None \<Rightarrow> JNull
      | Some ty \<Rightarrow> if ty = ''int'' \<or> ty = ''float'' \<or> ty = ''double'' then JNum (Fin 0)
                  else if ty = ''bool'' then JBool False
                  else if ty = ''string'' then JStr []
                  else JNull)"

definition defaultPropertySetText :: "things_model option \<Rightarrow> string" where
  "defaultPropertySetText model =
     (case writablePropertyEntriesOf model of
        [] \<Rightarrow> ''{}''
      | (k, d) # _ \<Rightarrow> json_pretty (JObj [(k, defaultPropertyValue (Some d))]))"

section \<open>Services\<close>

definition serviceEntriesOf :: "things_model option \<Rightarrow> js_object" where
  "serviceEntriesOf model =
     (case model of None \<Rightarrow> [] | Some m \<Rightarrow> filter (\<lambda>(k, d). isRecord (Some d)) (tm_services m))"

definition serviceInputDefinition :: "js option \<Rightarrow> js_object" where
  "serviceInputDefinition d = (case member d ''input'' of Some (JObj ob) \<Rightarrow> ob | _ \<Rightarrow> [])"

datatype input_type = InString | InInt | InFloat | InDouble | InBool | InJson

record input_draft =
  id_id :: string
  id_name :: string
  id_value :: string
  id_valueType :: input_type

definition serviceInputValueType :: "js option \<Rightarrow> input_type" where
  "serviceInputValueType d =
     (case propertyDataType d of
        None \<Rightarrow> InJson
      | Some ty \<Rightarrow> if ty = ''int'' then InInt
                  else if ty = ''float'' then InFloat
                  else if ty = ''double'' then InDouble
                  else if ty = ''bool'' then InBool
                  else if ty = ''string'' then InString
                  else InJson)"

fun defaultServiceInputValue :: "input_type \<Rightarrow> string" where
  "defaultServiceInputValue InInt = ''0''"
| "defaultServiceInputValue InFloat = ''0''"
| "defaultServiceInputValue InDouble = ''0''"
| "defaultServiceInputValue InBool = ''false''"
| "defaultServiceInputValue InString = []"
| "defaultServiceInputValue InJson = ''null''"

definition defaultServiceInputParams :: "(nat \<Rightarrow> string) \<Rightarrow> nat \<Rightarrow> js option \<Rightarrow> input_draft list \<times> nat" where
  "defaultServiceInputParams fresh n d =
     map_ids (\<lambda>n (key, rawField).
         (\<lparr>id_id = fresh n, id_name = key,
           id_value = defaultServiceInputValue (serviceInputValueType (Some rawField)),
           id_valueType = serviceInputValueType (Some rawField)\<rparr>, Suc n)) n
       (filter (\<lambda>(k, rawField). isRecord (Some rawField) \<and> member (Some rawField) ''required'' = Some (JBool True))
          (serviceInputDefinition d))"

text \<open>The value of one parameter, by its type.\<close>

definition input_value :: "string \<Rightarrow> input_draft \<Rightarrow> js_exn + js" where
  "input_value name param =
     (case id_valueType param of
        InInt \<Rightarrow> (if \<not> isInteger (Number (id_value param)) then Inl (PlainError (name @ '' must be an integer''))
                  else Inr (JNum (Number (id_value param))))
      | InFloat \<Rightarrow> (if \<not> isFinite (Number (id_value param)) then Inl (PlainError (name @ '' must be a number''))
                  else Inr (JNum (Number (id_value param))))
      | InDouble \<Rightarrow> (if \<not> isFinite (Number (id_value param)) then Inl (PlainError (name @ '' must be a number''))
                  else Inr (JNum (Number (id_value param))))
      | InBool \<Rightarrow> Inr (JBool (id_value param = ''true''))
      | InJson \<Rightarrow> (case json_parse (if id_value param = [] then ''null'' else id_value param) of
                    None \<Rightarrow> Inl SyntaxError | Some v \<Rightarrow> Inr v)
      | InString \<Rightarrow> Inr (JStr (id_value param)))"

definition input_step :: "js_object \<times> string list \<Rightarrow> input_draft \<Rightarrow> js_exn + js_object \<times> string list" where
  "input_step acc param =
     (let name = trim (id_name param)
      in if name = [] then Inl (PlainError ''Service input parameter name is required'')
         else if name \<in> set (snd acc) then Inl (PlainError (''Duplicate service input parameter: '' @ name))
         else sum_bind (input_value name param) (\<lambda>v. Inr (obj_assign name v (fst acc), snd acc @ [name])))"

definition serviceInputParamsToRecord :: "input_draft list \<Rightarrow> js_exn + js_object" where
  "serviceInputParamsToRecord params =
     sum_bind (sum_fold input_step ([], []) params) (\<lambda>acc. Inr (fst acc))"

text \<open>The empty text is the number zero.\<close>

lemma empty_number_accepted:
  "id_value param = [] \<Longrightarrow> id_valueType param \<in> {InInt, InFloat, InDouble} \<Longrightarrow> input_value name param = Inr (JNum (Fin 0))"
  by (auto simp: input_value_def Number_def)

section \<open>Trends\<close>

datatype trend_aggregate = Avg | Min | Max | Last

fun aggregate_text :: "trend_aggregate \<Rightarrow> string" where
  "aggregate_text Avg = ''avg''"
| "aggregate_text Min = ''min''"
| "aggregate_text Max = ''max''"
| "aggregate_text Last = ''last''"

fun aggregateLabel :: "trend_aggregate \<Rightarrow> string" where
  "aggregateLabel Min = ''adminDevicePropertyTrendAggregateMin''"
| "aggregateLabel Max = ''adminDevicePropertyTrendAggregateMax''"
| "aggregateLabel Last = ''adminDevicePropertyTrendAggregateLast''"
| "aggregateLabel Avg = ''adminDevicePropertyTrendAggregateAvg''"

record trend_option =
  to_key :: string
  to_label :: string
  to_unit :: "string option"

definition trendPropertyOptionsOf :: "things_model option \<Rightarrow> latest_properties option \<Rightarrow> trend_option list" where
  "trendPropertyOptionsOf currentModel latest =
     (let modelProperties = map (\<lambda>(key, d). \<lparr>to_key = key, to_label = propertyDisplayName key (Some d),
                                  to_unit = propertyUnit (Some d)\<rparr>)
            (filter (\<lambda>(k, d). isNumericPropertyDefinition (Some d))
               (case currentModel of None \<Rightarrow> [] | Some m \<Rightarrow> tm_properties m))
      in if 0 < length modelProperties then modelProperties
         else map (\<lambda>(key, v). \<lparr>to_key = key, to_label = key, to_unit = None\<rparr>)
            (filter (\<lambda>(k, v). js_typeof v = ''number'')
               (case latest of None \<Rightarrow> [] | Some l \<Rightarrow> lp_properties l)))"

definition trendSeriesLabel :: "string \<Rightarrow> trend_option list \<Rightarrow> string" where
  "trendSeriesLabel property propertyOptions =
     (case find (\<lambda>item. to_key item = property) propertyOptions of
        None \<Rightarrow> property
      | Some opt \<Rightarrow> (case to_unit opt of
            Some u \<Rightarrow> if u \<noteq> [] then to_label opt @ '' ('' @ u @ '')'' else to_label opt
          | None \<Rightarrow> to_label opt))"

text \<open>\<open>t\<close> translates a message key; the replacements are decimal digits.\<close>

definition formatTrendBucketLabel :: "nat \<Rightarrow> (string \<Rightarrow> string) \<Rightarrow> string" where
  "formatTrendBucketLabel seconds t =
     (if 60 \<le> seconds \<and> seconds mod 60 = 0
      then replace_first ''{minutes}'' (dec (seconds div 60)) (t ''adminDevicePropertyTrendBucketMinutes'')
      else replace_first ''{seconds}'' (dec seconds) (t ''adminDevicePropertyTrendBucketSeconds''))"

text \<open>
  \<open>Date\<close> is a parameter: \<open>parse\<close> reads a local date time as milliseconds, \<open>render\<close>
  formats them (\<open>toISOString\<close>, or \<open>Intl.DateTimeFormat\<close>).
\<close>

definition dateTimeLocalToISOString :: "(string \<Rightarrow> int option) \<Rightarrow> (int \<Rightarrow> string) \<Rightarrow> string \<Rightarrow> string" where
  "dateTimeLocalToISOString parse render value =
     (if value = [] then [] else case parse value of None \<Rightarrow> [] | Some ms \<Rightarrow> render ms)"

definition formatFullDateTime :: "(string \<Rightarrow> int option) \<Rightarrow> (int \<Rightarrow> string) \<Rightarrow> string option \<Rightarrow> string" where
  "formatFullDateTime parse render value =
     (case value of
        None \<Rightarrow> ''--''
      | Some v \<Rightarrow> if v = [] then ''--'' else case parse v of None \<Rightarrow> v | Some ms \<Rightarrow> render ms)"

definition trend_point_count :: "property_trend option \<Rightarrow> nat" where
  "trend_point_count trend =
     (case trend of None \<Rightarrow> 0 | Some x \<Rightarrow> foldl (\<lambda>total series. total + length (ts_points series)) 0 (pt_series x))"

definition formatDateTime :: "(string \<Rightarrow> int option) \<Rightarrow> (int \<Rightarrow> string) \<Rightarrow> string \<Rightarrow> string" where
  "formatDateTime parse render value =
     (if value = [] then ''--'' else case parse value of None \<Rightarrow> value | Some ms \<Rightarrow> render ms)"

section \<open>The input of a service call\<close>

lemma sum_fold_Cons_Inr:
  "sum_fold f acc (x # xs) = Inr r \<longleftrightarrow> (\<exists>acc'. f acc x = Inr acc' \<and> sum_fold f acc' xs = Inr r)"
  by (simp add: sum_bind_Inr)

lemma input_step_Inr:
  "input_step (ob, seen) param = Inr r \<longleftrightarrow>
     trim (id_name param) \<noteq> [] \<and> trim (id_name param) \<notin> set seen \<and>
     (\<exists>v. input_value (trim (id_name param)) param = Inr v \<and>
        r = (obj_assign (trim (id_name param)) v ob, seen @ [trim (id_name param)]))"
  by (auto simp: input_step_def Let_def sum_bind_Inr)

text \<open>What one list of parameters must satisfy after the names \<open>seen\<close>.\<close>

definition inputs_ok :: "string list \<Rightarrow> input_draft list \<Rightarrow> bool" where
  "inputs_ok seen params \<longleftrightarrow>
     list_all (\<lambda>p. trim (id_name p) \<noteq> [] \<and> (\<exists>v. input_value (trim (id_name p)) p = Inr v)) params \<and>
     distinct (map (\<lambda>p. trim (id_name p)) params) \<and> set seen \<inter> set (map (\<lambda>p. trim (id_name p)) params) = {}"

lemma input_fold_ok: "(\<exists>r. sum_fold input_step (ob, seen) params = Inr r) \<longleftrightarrow> inputs_ok seen params"
proof (induction params arbitrary: ob seen)
  case (Cons p ps)
  have "(\<exists>r. sum_fold input_step (ob, seen) (p # ps) = Inr r) \<longleftrightarrow>
      trim (id_name p) \<noteq> [] \<and> trim (id_name p) \<notin> set seen \<and> (\<exists>v. input_value (trim (id_name p)) p = Inr v) \<and>
      inputs_ok (seen @ [trim (id_name p)]) ps"
    unfolding sum_fold_Cons_Inr input_step_Inr using Cons.IH by (auto; blast)
  then show ?case by (auto simp: inputs_ok_def)
qed (simp add: inputs_ok_def)

lemma input_fold_get:
  "sum_fold input_step (ob, seen) params = Inr (ob', seen') \<Longrightarrow> k \<noteq> ''__proto__'' \<Longrightarrow>
     obj_get ob' k = (case find (\<lambda>p. trim (id_name p) = k) params of
        Some p \<Rightarrow> (case input_value k p of Inr v \<Rightarrow> Some v | Inl _ \<Rightarrow> None)
      | None \<Rightarrow> obj_get ob k)"
proof (induction params arbitrary: ob seen)
  case (Cons p ps)
  let ?n = "trim (id_name p)"
  obtain v where v: "input_value ?n p = Inr v"
    and rest: "sum_fold input_step (obj_assign ?n v ob, seen @ [?n]) ps = Inr (ob', seen')"
    using Cons.prems(1) unfolding sum_fold_Cons_Inr input_step_Inr by blast
  have "inputs_ok (seen @ [?n]) ps" using rest input_fold_ok by blast
  then have n: "find (\<lambda>p. trim (id_name p) = ?n) ps = None"
    by (simp add: inputs_ok_def find_None_iff) (metis (mono_tags, lifting) imageI)
  show ?case using Cons.IH [OF rest Cons.prems(2)] v n Cons.prems(2)
    by (cases "?n = k") (simp_all add: obj_get_assign split: option.split)
qed simp

lemma service_input_iff:
  "(\<exists>ob. serviceInputParamsToRecord params = Inr ob) \<longleftrightarrow>
     list_all (\<lambda>p. trim (id_name p) \<noteq> [] \<and> (\<exists>v. input_value (trim (id_name p)) p = Inr v)) params \<and>
     distinct (map (\<lambda>p. trim (id_name p)) params)"
proof -
  have "(\<exists>ob. serviceInputParamsToRecord params = Inr ob) \<longleftrightarrow> (\<exists>r. sum_fold input_step ([], []) params = Inr r)"
    by (auto simp: serviceInputParamsToRecord_def sum_bind_Inr)
  then show ?thesis using input_fold_ok [of "[]" "[]" params] by (simp add: inputs_ok_def)
qed

lemma service_input_get:
  assumes "serviceInputParamsToRecord params = Inr ob" "k \<noteq> ''__proto__''"
  shows "obj_get ob k = (case find (\<lambda>p. trim (id_name p) = k) params of
        Some p \<Rightarrow> (case input_value k p of Inr v \<Rightarrow> Some v | Inl _ \<Rightarrow> None)
      | None \<Rightarrow> None)"
proof -
  obtain seen where "sum_fold input_step ([], []) params = Inr (ob, seen)"
    using assms(1) by (auto simp: serviceInputParamsToRecord_def sum_bind_Inr)
  from input_fold_get [OF this assms(2)] show ?thesis by (simp add: map_of.simps(1) cong: option.case_cong)
qed



section \<open>Default texts and parameters\<close>

definition default_input :: "input_type \<Rightarrow> js" where
  "default_input ty = (case ty of InBool \<Rightarrow> JBool False | InString \<Rightarrow> JStr [] | InJson \<Rightarrow> JNull | _ \<Rightarrow> JNum (Fin 0))"

lemma zero_text: "Number ''0'' = Fin 0"
  using Number_dec [of 0] by (simp add: dec_0)

lemma null_text: "json_parse ''null'' = Some JNull"
  using json_parse_compact [of JNull] by (simp add: json_compact_def)

lemma default_input_value:
  "id_value p = defaultServiceInputValue (id_valueType p) \<Longrightarrow>
     input_value name p = Inr (default_input (id_valueType p))"
  by (cases "id_valueType p")
    (simp_all add: input_value_def default_input_def zero_text null_text)

lemma default_params_rows:
  "list_all2 (\<lambda>p (k, f). id_name p = k \<and> id_valueType p = serviceInputValueType (Some f) \<and>
       id_value p = defaultServiceInputValue (id_valueType p))
     (fst (defaultServiceInputParams fresh n d))
     (filter (\<lambda>(k, f). isRecord (Some f) \<and> member (Some f) ''required'' = Some (JBool True)) (serviceInputDefinition d))"
  unfolding defaultServiceInputParams_def by (rule map_ids_rows) auto

lemma list_all2_left: "list_all2 P xs ys \<Longrightarrow> x \<in> set xs \<Longrightarrow> \<exists>y \<in> set ys. P x y"
  by (induction rule: list_all2_induct) auto

lemma default_params_names:
  "map id_name (fst (defaultServiceInputParams fresh n d)) =
     map fst (filter (\<lambda>(k, f). isRecord (Some f) \<and> member (Some f) ''required'' = Some (JBool True)) (serviceInputDefinition d))"
  using default_params_rows [of fresh n d] by (induction rule: list_all2_induct) auto

text \<open>An input definition as the things model editor stores it.\<close>

lemma saved_service_input:
  assumes "objectFromServiceRows rows = Inr ob" "(name, d) \<in> set ob"
  shows "obj_ok (serviceInputDefinition (Some d)) \<and>
    (\<forall>(k, f) \<in> set (serviceInputDefinition (Some d)). k \<noteq> [] \<and> trim k = k \<and> k \<noteq> ''__proto__'')"
proof -
  have "built serviceDefinitionFromRow ob"
    using assms(1) services.saved_built by (simp add: objectFromServiceRows_def)
  then obtain row sd where sd: "serviceDefinitionFromRow row = Inr sd" "d = JObj sd"
    using assms(2) by (fastforce simp: built_def)
  then obtain inp where inp: "objectFromParamRows (sw_inputParams row) = Inr inp" "obj_get sd ''input'' = Some (JObj inp)"
    by (auto simp: serviceDefinitionFromRow_def sum_bind_Inr)
  have "built (paramDefinitionFromDraft :: param_row \<Rightarrow> _) inp"
    using inp(1) params.saved_built [of "sw_inputParams row" inp] by (simp add: objectFromParamRows_def)
  then show ?thesis using inp(2) sd(2) by (auto simp: serviceInputDefinition_def member_def built_def)
qed

text \<open>
  C33: a service saved by the things model editor can be called as the property page offers it. The
  default parameters of such a service are accepted, and the input holds exactly the required
  parameters, each with the zero value of its type.
\<close>

theorem default_call_ready:
  assumes "objectFromServiceRows rows = Inr services" "(name, d) \<in> set services"
  shows "\<exists>ob. serviceInputParamsToRecord (fst (defaultServiceInputParams fresh n (Some d))) = Inr ob \<and>
    (\<forall>k. k \<noteq> ''__proto__'' \<longrightarrow> obj_get ob k =
       (case find (\<lambda>(k', f). k' = k \<and> isRecord (Some f) \<and> member (Some f) ''required'' = Some (JBool True))
          (serviceInputDefinition (Some d)) of
          Some (k', f) \<Rightarrow> Some (default_input (serviceInputValueType (Some f))) | None \<Rightarrow> None))"
proof -
  let ?req = "\<lambda>(k, f). isRecord (Some f) \<and> member (Some f) ''required'' = Some (JBool True)"
  let ?fields = "filter ?req (serviceInputDefinition (Some d))"
  let ?params = "fst (defaultServiceInputParams fresh n (Some d))"
  note rows = default_params_rows [of fresh n "Some d"]
  have in_ok: "obj_ok (serviceInputDefinition (Some d))"
      "\<forall>(k, f) \<in> set (serviceInputDefinition (Some d)). k \<noteq> [] \<and> trim k = k"
    using saved_service_input [OF assms] by auto
  have p: "trim (id_name p) = id_name p \<and> id_name p \<noteq> [] \<and>
      id_value p = defaultServiceInputValue (id_valueType p)" if mem: "p \<in> set ?params" for p
  proof -
    obtain x where "x \<in> set ?fields" "id_name p = fst x" "id_value p = defaultServiceInputValue (id_valueType p)"
      using list_all2_left [OF rows mem] by auto
    then show ?thesis using in_ok(2) by auto
  qed
  have names: "map (\<lambda>p. trim (id_name p)) ?params = map id_name ?params" using p by simp
  have "distinct (map fst ?fields)" using in_ok(1) by (simp add: obj_ok_def distinct_map_filter)
  then have "distinct (map (\<lambda>p. trim (id_name p)) ?params)" by (simp add: names default_params_names)
  moreover have "list_all (\<lambda>p. trim (id_name p) \<noteq> [] \<and> (\<exists>v. input_value (trim (id_name p)) p = Inr v)) ?params"
    using p default_input_value by (fastforce simp: list_all_iff)
  ultimately obtain ob where ob: "serviceInputParamsToRecord ?params = Inr ob"
    using service_input_iff by blast
  have get: "obj_get ob k = (case find (\<lambda>(k', f). k' = k \<and> isRecord (Some f) \<and> member (Some f) ''required'' = Some (JBool True)) (serviceInputDefinition (Some d)) of
      Some (k', f) \<Rightarrow> Some (default_input (serviceInputValueType (Some f))) | None \<Rightarrow> None)"
    if k: "k \<noteq> ''__proto__''" for k
  proof -
    have src: "find (\<lambda>(k', f). k' = k \<and> isRecord (Some f) \<and> member (Some f) ''required'' = Some (JBool True)) xs = find (\<lambda>x. fst x = k) (filter ?req xs)" for xs
      by (induction xs) auto
    have trims: "find (\<lambda>p. trim (id_name p) = k) ?params = find (\<lambda>p. id_name p = k) ?params"
      using p by (intro find_cong refl) auto
    have both: "(case find (\<lambda>p. id_name p = k) ps of Some p \<Rightarrow> Some (default_input (id_valueType p)) | None \<Rightarrow> None) =
        (case find (\<lambda>x. fst x = k) fs of Some (k', f) \<Rightarrow> Some (default_input (serviceInputValueType (Some f))) | None \<Rightarrow> None)"
      if "list_all2 (\<lambda>p (k, f). id_name p = k \<and> id_valueType p = serviceInputValueType (Some f) \<and>
        id_value p = defaultServiceInputValue (id_valueType p)) ps fs" for ps fs
      using that by (induction rule: list_all2_induct) auto
    have "obj_get ob k = (case find (\<lambda>p. id_name p = k) ?params of
          Some p \<Rightarrow> (case input_value k p of Inr v \<Rightarrow> Some v | Inl _ \<Rightarrow> None) | None \<Rightarrow> None)"
      using service_input_get [OF ob k] by (simp only: trims)
    also have "\<dots> = (case find (\<lambda>p. id_name p = k) ?params of Some p \<Rightarrow> Some (default_input (id_valueType p)) | None \<Rightarrow> None)"
    proof (cases "find (\<lambda>p. id_name p = k) ?params")
      case (Some q)
      then have "q \<in> set ?params" by (auto simp: find_Some_iff)
      then have "input_value k q = Inr (default_input (id_valueType q))" using p default_input_value by blast
      then show ?thesis using Some by simp
    qed simp
    finally show ?thesis by (simp only: both [OF rows] src)
  qed
  show ?thesis by (rule exI [of _ ob], intro conjI allI impI ob get)
qed

definition sample_service :: service_row where
  "sample_service = \<lparr>sd_identifier = ''go'', sd_name = ''T'', sd_desc = [], sd_callType = Sync, sw_localId = [],
     sw_inputParams = [\<lparr>dr_identifier = ''on'', dr_name = ''T'', dr_dataType = TBool, dr_required = True, dr_min = [],
       dr_max = [], dr_step = [], dr_unit = [], dr_precision = [], pr_localId = []\<rparr>], sw_outputParams = []\<rparr>"

definition sample_input :: js where
  "sample_input = JObj [(''name'', JStr ''T''), (''call_type'', JStr ''sync''), (''desc'', JStr []),
     (''input'', JObj [(''on'', JObj [(''name'', JStr ''T''), (''data_type'', JStr ''bool''), (''required'', JBool True)])]),
     (''output'', JObj [])]"

lemma sample_service_saved: "objectFromServiceRows [sample_service] = Inr [(''go'', sample_input)]"
proof -
  have t: "trim ''go'' = ''go''" "trim ''on'' = ''on''" "trim ''T'' = ''T''"
    by (rule trim_plain; simp add: plain_char_def)+
  show ?thesis
    by (simp add: objectFromServiceRows_def reduce_rows_from reduce_from_Cons sample_service_def serviceDefinitionFromRow_def
      objectFromParamRows_def paramDefinition_eq paramSpec_eq numberOrUndefined_def intOrUndefined_def t obj_assign_def
      param_object_def spec_object_def opt_entry_def sample_input_def)
qed

lemma default_call_ready_witness:
  "\<exists>ob. serviceInputParamsToRecord (fst (defaultServiceInputParams dec 0 (Some sample_input))) = Inr ob \<and>
     obj_get ob ''on'' = Some (JBool False)"
proof -
  obtain ob where ob: "serviceInputParamsToRecord (fst (defaultServiceInputParams dec 0 (Some sample_input))) = Inr ob"
    "\<forall>k. k \<noteq> ''__proto__'' \<longrightarrow> obj_get ob k =
       (case find (\<lambda>(k', f). k' = k \<and> isRecord (Some f) \<and> member (Some f) ''required'' = Some (JBool True))
          (serviceInputDefinition (Some sample_input)) of
          Some (k', f) \<Rightarrow> Some (default_input (serviceInputValueType (Some f))) | None \<Rightarrow> None)"
    using default_call_ready [OF sample_service_saved, of "''go''" sample_input dec 0] by auto
  have "obj_get ob ''on'' = Some (JBool False)"
    by (simp add: ob(2) sample_input_def serviceInputDefinition_def member_def serviceInputValueType_def
      propertyDataType_def default_input_def)
  with ob(1) show ?thesis by blast
qed

end
