(* ===== verification/Realtime.thy ===== *)
theory Realtime
  imports JsonText
begin

text \<open>
  The realtime connection (\<open>hooks/useDevicesRealtime.ts\<close>) and the status badge
  (\<open>components/RealtimeStatusBadge.tsx\<close>). One run of the effect is a state machine: the
  variables of its closure, the timers and sockets the browser holds for it, and a step for
  every event the browser may deliver. A socket that lost its handlers delivers nothing more
  and leaves the model. Whether the \<open>WebSocket\<close> constructor succeeds is part of the event.
\<close>

section \<open>State\<close>

datatype realtime_status = Idle | Connecting | Open | Reconnecting | Closed

datatype ready_state = CONNECTING | OPEN | CLOSING

record rt_state =
  rt_status :: realtime_status
  rt_cancelled :: bool
  rt_socket :: "nat option"
  rt_reconnectTimer :: "nat option"
  rt_backoffMs :: nat
  rt_live :: "(nat \<times> ready_state) list"
  rt_pending :: "(nat \<times> nat) list"
  rt_next :: nat
  rt_closes :: "(nat \<times> nat) list"

definition minBackoffMs :: nat where "minBackoffMs = 1000"

definition maxBackoffMs :: nat where "maxBackoffMs = 30000"

definition unauthorizedCloseCode :: nat where "unauthorizedCloseCode = 1008"

definition DEVICE_REALTIME_PATH :: string where
  "DEVICE_REALTIME_PATH = ''/api/v1/ws/devices''"

record window_location =
  wl_protocol :: string
  wl_hostname :: string
  wl_host :: string
  wl_port :: string

definition buildEndpoint :: "window_location option \<Rightarrow> string" where
  "buildEndpoint window =
     (case window of
        None \<Rightarrow> []
      | Some loc \<Rightarrow>
          (let protocol = (if wl_protocol loc = ''https:'' then ''wss:'' else ''ws:'');
               wsHost = (if wl_port loc = ''8000'' then wl_hostname loc @ '':18080'' else wl_host loc)
           in protocol @ ''//'' @ wsHost @ DEVICE_REALTIME_PATH))"

section \<open>The functions of the effect\<close>

definition rt_scheduleReconnect :: "rt_state \<Rightarrow> rt_state" where
  "rt_scheduleReconnect st =
     (if rt_cancelled st then st
      else st\<lparr>rt_status := Reconnecting, rt_pending := rt_pending st @ [(rt_next st, rt_backoffMs st)],
              rt_reconnectTimer := Some (rt_next st), rt_next := Suc (rt_next st)\<rparr>)"

text \<open>\<open>ok\<close>: the constructor returned a socket instead of throwing.\<close>

definition rt_connect :: "window_location option \<Rightarrow> bool \<Rightarrow> rt_state \<Rightarrow> rt_state" where
  "rt_connect window ok st =
     (if rt_cancelled st then st
      else if buildEndpoint window = [] then st\<lparr>rt_status := Idle\<rparr>
      else let st' = st\<lparr>rt_status := Connecting\<rparr>
           in if ok then st'\<lparr>rt_socket := Some (rt_next st), rt_next := Suc (rt_next st),
                             rt_live := rt_live st @ [(rt_next st, CONNECTING)]\<rparr>
              else rt_scheduleReconnect st')"

definition rt_timer :: "window_location option \<Rightarrow> bool \<Rightarrow> rt_state \<Rightarrow> rt_state" where
  "rt_timer window ok st =
     rt_connect window ok (st\<lparr>rt_backoffMs := min (rt_backoffMs st * 2) maxBackoffMs\<rparr>)"

definition rt_onopen :: "rt_state \<Rightarrow> rt_state" where
  "rt_onopen st =
     (if rt_cancelled st then st else st\<lparr>rt_backoffMs := minBackoffMs, rt_status := Open\<rparr>)"

definition rt_onclose :: "nat \<Rightarrow> rt_state \<Rightarrow> rt_state" where
  "rt_onclose code st =
     (let st' = st\<lparr>rt_socket := None\<rparr>
      in if rt_cancelled st' then st'
         else if code = unauthorizedCloseCode then st'\<lparr>rt_status := Closed\<rparr>
         else rt_scheduleReconnect st')"

text \<open>
  \<open>cleanup\<close> clears the timer, takes the handlers off the socket and closes it if it is open or
  connecting; \<open>rt_closes\<close> logs the \<open>close(1000, 'unmount')\<close> calls.
\<close>

definition rt_cleanup :: "rt_state \<Rightarrow> rt_state" where
  "rt_cleanup st =
     (let st1 = (case rt_reconnectTimer st of
                   None \<Rightarrow> st
                 | Some t \<Rightarrow> st\<lparr>rt_pending := filter (\<lambda>(i, d). i \<noteq> t) (rt_pending st), rt_reconnectTimer := None\<rparr>)
      in case rt_socket st1 of
           None \<Rightarrow> st1
         | Some k \<Rightarrow> st1\<lparr>rt_live := filter (\<lambda>(i, r). i \<noteq> k) (rt_live st1), rt_socket := None,
               rt_closes := rt_closes st1 @
                 (case map_of (rt_live st1) k of
                    Some r \<Rightarrow> if r = OPEN \<or> r = CONNECTING then [(k, 1000)] else []
                  | None \<Rightarrow> [])\<rparr>)"

definition rt_unmount :: "rt_state \<Rightarrow> rt_state" where
  "rt_unmount st = (rt_cleanup (st\<lparr>rt_cancelled := True\<rparr>))\<lparr>rt_status := Idle\<rparr>"

definition rt_fresh :: rt_state where
  "rt_fresh = \<lparr>rt_status = Idle, rt_cancelled = False, rt_socket = None, rt_reconnectTimer = None,
     rt_backoffMs = minBackoffMs, rt_live = [], rt_pending = [], rt_next = 0, rt_closes = []\<rparr>"

text \<open>The start of the effect; nothing is set up when it is disabled or there is no window.\<close>

definition rt_start :: "bool \<Rightarrow> window_location option \<Rightarrow> bool \<Rightarrow> rt_state" where
  "rt_start enabled window ok =
     (if \<not> enabled \<or> window = None then rt_fresh else rt_connect window ok rt_fresh)"

section \<open>Messages\<close>

text \<open>The calls of the option callbacks; an absent property is \<open>None\<close>.\<close>

record envelope_meta =
  ev_eventId :: "js option"
  ev_occurredAt :: "js option"
  ev_tenantId :: "js option"

datatype delivery =
    ConnectionChanged "js option" envelope_meta
  | PropertyChanged "js option" envelope_meta
  | EventReceived "js option" envelope_meta

record rt_handlers =
  rh_connection :: bool
  rh_property :: bool
  rh_event :: bool

definition handleMessage :: "rt_handlers \<Rightarrow> string \<Rightarrow> delivery list" where
  "handleMessage handlers raw =
     (case json_parse raw of
        Some (JObj envelope) \<Rightarrow>
          (case obj_get envelope ''event_type'' of
             Some (JStr event_type) \<Rightarrow>
               (let meta = \<lparr>ev_eventId = obj_get envelope ''event_id'',
                            ev_occurredAt = obj_get envelope ''occurred_at'',
                            ev_tenantId = obj_get envelope ''tenant_id''\<rparr>;
                    payload = obj_get envelope ''payload''
                in if event_type = ''device.connection.changed''
                   then (if rh_connection handlers then [ConnectionChanged payload meta] else [])
                   else if event_type = ''device.property.changed''
                   then (if rh_property handlers then [PropertyChanged payload meta] else [])
                   else if event_type = ''device.event.received''
                   then (if rh_event handlers then [EventReceived payload meta] else [])
                   else [])
           | _ \<Rightarrow> [])
      | _ \<Rightarrow> [])"

section \<open>The events of the browser\<close>

definition set_ready :: "nat \<Rightarrow> ready_state \<Rightarrow> rt_state \<Rightarrow> rt_state" where
  "set_ready k r st = st\<lparr>rt_live := map (\<lambda>(i, q). (i, if i = k then r else q)) (rt_live st)\<rparr>"

definition drop_socket :: "nat \<Rightarrow> rt_state \<Rightarrow> rt_state" where
  "drop_socket k st = st\<lparr>rt_live := filter (\<lambda>(i, r). i \<noteq> k) (rt_live st)\<rparr>"

definition drop_timer :: "nat \<Rightarrow> rt_state \<Rightarrow> rt_state" where
  "drop_timer t st = st\<lparr>rt_pending := filter (\<lambda>(i, d). i \<noteq> t) (rt_pending st)\<rparr>"

datatype rt_event =
    SocketOpen nat
  | SocketText nat string
  | SocketClosing nat
  | SocketClose nat nat
  | TimerFires nat bool
  | Unmount

inductive rt_step :: "window_location option \<Rightarrow> rt_state \<Rightarrow> rt_event \<Rightarrow> rt_state \<Rightarrow> bool" where
  step_open: "(k, CONNECTING) \<in> set (rt_live st) \<Longrightarrow>
    rt_step window st (SocketOpen k) (rt_onopen (set_ready k OPEN st))"
| step_text: "(k, OPEN) \<in> set (rt_live st) \<Longrightarrow> rt_step window st (SocketText k raw) st"
| step_closing: "(k, r) \<in> set (rt_live st) \<Longrightarrow> r \<noteq> CLOSING \<Longrightarrow> rt_step window st (SocketClosing k) (set_ready k CLOSING st)"
| step_close: "(k, r) \<in> set (rt_live st) \<Longrightarrow>
    rt_step window st (SocketClose k code) (rt_onclose code (drop_socket k st))"
| step_timer: "(t, d) \<in> set (rt_pending st) \<Longrightarrow>
    rt_step window st (TimerFires t ok) (rt_timer window ok (drop_timer t st))"
| step_unmount: "\<not> rt_cancelled st \<Longrightarrow> rt_step window st Unmount (rt_unmount st)"

inductive_cases rt_stepE: "rt_step window st ev st'"
inductive_simps rt_step_simps:
  "rt_step window st (SocketOpen k) st'" "rt_step window st (SocketText k raw) st'"
  "rt_step window st (SocketClosing k) st'" "rt_step window st (SocketClose k code) st'"
  "rt_step window st (TimerFires t ok) st'" "rt_step window st Unmount st'"

inductive rt_reachable :: "window_location option \<Rightarrow> rt_state \<Rightarrow> bool" for window where
  rt_init: "window \<noteq> None \<Longrightarrow> rt_reachable window (rt_start True window ok)"
| rt_next: "rt_reachable window st \<Longrightarrow> rt_step window st ev st' \<Longrightarrow> rt_reachable window st'"

section \<open>The invariant\<close>

text \<open>What the state looks like, by the status it shows.\<close>

definition rt_shape :: "rt_state \<Rightarrow> bool" where
  "rt_shape st =
     (case rt_status st of
        Idle \<Rightarrow> rt_cancelled st \<and> rt_live st = [] \<and> rt_pending st = [] \<and> rt_socket st = None
      | Connecting \<Rightarrow> \<not> rt_cancelled st \<and> rt_pending st = [] \<and>
          (\<exists>k r. rt_live st = [(k, r)] \<and> rt_socket st = Some k \<and> r \<noteq> OPEN)
      | Open \<Rightarrow> \<not> rt_cancelled st \<and> rt_pending st = [] \<and>
          (\<exists>k r. rt_live st = [(k, r)] \<and> rt_socket st = Some k \<and> r \<noteq> CONNECTING)
      | Reconnecting \<Rightarrow> \<not> rt_cancelled st \<and> rt_live st = [] \<and> rt_socket st = None \<and>
          (\<exists>t. rt_pending st = [(t, rt_backoffMs st)] \<and> rt_reconnectTimer st = Some t)
      | Closed \<Rightarrow> \<not> rt_cancelled st \<and> rt_live st = [] \<and> rt_pending st = [] \<and> rt_socket st = None)"

definition backoff_steps :: "nat list" where
  "backoff_steps = [1000, 2000, 4000, 8000, 16000, 30000]"

definition rt_inv :: "rt_state \<Rightarrow> bool" where
  "rt_inv st \<longleftrightarrow> rt_shape st \<and> rt_backoffMs st \<in> set backoff_steps"

lemma endpoint_nonempty: "window \<noteq> None \<Longrightarrow> buildEndpoint window \<noteq> []"
  by (auto simp: buildEndpoint_def Let_def)

lemmas rt_defs = rt_scheduleReconnect_def rt_connect_def rt_timer_def rt_onopen_def rt_onclose_def
  rt_cleanup_def rt_unmount_def set_ready_def drop_socket_def drop_timer_def Let_def

lemma rt_connect_inv:
  assumes "window \<noteq> None" "\<not> rt_cancelled st" "rt_live st = []" "rt_pending st = []" "rt_socket st = None"
    and "rt_backoffMs st \<in> set backoff_steps"
  shows "rt_inv (rt_connect window ok st)"
  using assms endpoint_nonempty [OF assms(1)]
  by (auto simp: rt_inv_def rt_shape_def rt_connect_def rt_scheduleReconnect_def Let_def)

lemma rt_step_inv:
  assumes "rt_step window st ev st'" "rt_inv st" "window \<noteq> None"
  shows "rt_inv st'"
  using assms(1)
proof (cases rule: rt_step.cases)
  case (step_open k)
  then show ?thesis using assms(2)
    by (auto simp: rt_inv_def rt_shape_def rt_onopen_def set_ready_def minBackoffMs_def backoff_steps_def
        split: realtime_status.splits)
next
  case (step_text k raw)
  then show ?thesis using assms(2) by simp
next
  case (step_closing k r)
  then show ?thesis using assms(2)
    by (auto simp: rt_inv_def rt_shape_def set_ready_def split: realtime_status.splits)
next
  case (step_close k r code)
  then show ?thesis using assms(2)
    by (auto simp: rt_inv_def rt_shape_def rt_onclose_def drop_socket_def rt_scheduleReconnect_def Let_def
        split: realtime_status.splits)
next
  case (step_timer t d ok)
  have s: "rt_status st = Reconnecting"
    using step_timer assms(2) by (auto simp: rt_inv_def rt_shape_def split: realtime_status.splits)
  show ?thesis unfolding step_timer(2) rt_timer_def
    by (rule rt_connect_inv)
      (use s assms(2,3) step_timer in \<open>auto simp: rt_inv_def rt_shape_def drop_timer_def maxBackoffMs_def backoff_steps_def\<close>)
next
  case step_unmount
  then show ?thesis using assms(2)
    by (auto simp: rt_inv_def rt_shape_def rt_unmount_def rt_cleanup_def Let_def
        split: realtime_status.splits option.splits)
qed

lemma rt_reachable_window: "rt_reachable window st \<Longrightarrow> window \<noteq> None"
  by (induction rule: rt_reachable.induct) auto

lemma rt_reachable_inv: "rt_reachable window st \<Longrightarrow> rt_inv st"
proof (induction rule: rt_reachable.induct)
  case (rt_init ok)
  have "rt_inv (rt_connect window ok rt_fresh)"
    by (rule rt_connect_inv [OF rt_init]) (auto simp: rt_fresh_def backoff_steps_def minBackoffMs_def)
  then show ?case using rt_init by (auto simp: rt_start_def)
next
  case (rt_next st ev st')
  then show ?case using rt_step_inv rt_reachable_window by blast
qed

section \<open>The badge\<close>

definition realtimeFallbackRefreshMs :: nat where "realtimeFallbackRefreshMs = 10000"

definition isRealtimeFallbackStatus :: "realtime_status \<Rightarrow> bool" where
  "isRealtimeFallbackStatus status \<longleftrightarrow> status = Reconnecting \<or> status = Closed"

fun realtimeStatusLabelKey :: "realtime_status \<Rightarrow> string" where
  "realtimeStatusLabelKey Idle = ''adminRealtimeIdle''"
| "realtimeStatusLabelKey Connecting = ''adminRealtimeConnecting''"
| "realtimeStatusLabelKey Open = ''adminRealtimeOpen''"
| "realtimeStatusLabelKey Reconnecting = ''adminRealtimeReconnecting''"
| "realtimeStatusLabelKey Closed = ''adminRealtimeClosed''"

fun dotClassName :: "realtime_status \<Rightarrow> string" where
  "dotClassName Open = ''bg-emerald-500''"
| "dotClassName Connecting = ''bg-amber-500''"
| "dotClassName Reconnecting = ''bg-amber-500''"
| "dotClassName _ = ''bg-slate-400''"

section \<open>Properties\<close>


definition sample_window :: "window_location option" where
  "sample_window = Some \<lparr>wl_protocol = ''http:'', wl_hostname = ''h'', wl_host = ''h:8000'', wl_port = ''8000''\<rparr>"


text \<open>
  Nothing happens after the component is gone. From every reachable state, unmounting shows
  \<open>idle\<close>, leaves no timer and no socket with handlers, closes an open or connecting socket
  with code 1000, and no event of the browser reaches the effect afterwards.
\<close>

theorem realtime_unmount_final:
  assumes "rt_reachable window st" "\<not> rt_cancelled st"
  shows "rt_status (rt_unmount st) = Idle \<and> rt_pending (rt_unmount st) = [] \<and> rt_live (rt_unmount st) = [] \<and>
     set (rt_closes (rt_unmount st)) =
       set (rt_closes st) \<union> {(k, 1000) |k. (k, OPEN) \<in> set (rt_live st) \<or> (k, CONNECTING) \<in> set (rt_live st)} \<and>
     \<not> rt_step window (rt_unmount st) ev st'"
proof -
  have shape: "rt_shape st" using rt_reachable_inv [OF assms(1)] by (simp add: rt_inv_def)
  have e: "rt_status (rt_unmount st) = Idle" "rt_pending (rt_unmount st) = []" "rt_live (rt_unmount st) = []"
      "rt_cancelled (rt_unmount st)"
    using shape assms(2)
    by (auto simp: rt_shape_def rt_unmount_def rt_cleanup_def Let_def split: realtime_status.splits option.splits)
  moreover have "\<not> rt_step window (rt_unmount st) ev st'" using e by (auto elim: rt_stepE)
  moreover have "set (rt_closes (rt_unmount st)) =
       set (rt_closes st) \<union> {(k, 1000) |k. (k, OPEN) \<in> set (rt_live st) \<or> (k, CONNECTING) \<in> set (rt_live st)}"
    using shape assms(2)
    by (auto simp: rt_shape_def rt_unmount_def rt_cleanup_def Let_def split: realtime_status.splits option.splits)
  ultimately show ?thesis by blast
qed

lemma realtime_unmount_final_witness:
  "rt_live (rt_unmount (rt_start True sample_window True)) = [] \<and>
   \<not> rt_step sample_window (rt_unmount (rt_start True sample_window True)) (TimerFires 0 True) rt_fresh"
proof -
  have w: "sample_window \<noteq> None" by (simp add: sample_window_def)
  then have "\<not> rt_cancelled (rt_start True sample_window True)"
    using endpoint_nonempty [OF w] by (simp add: rt_start_def rt_connect_def rt_fresh_def Let_def)
  from realtime_unmount_final [OF rt_init [OF w] this] show ?thesis by blast
qed

text \<open>
  A session the server rejects is not retried: when the socket is closed with code 1008 the
  status is \<open>closed\<close>, no timer is set, and the only event left is unmounting. With any other
  code a timer with the current delay is set.
\<close>

theorem realtime_close_codes:
  assumes "rt_reachable window st" "rt_step window st (SocketClose k code) st'"
  shows "if code = 1008 then rt_status st' = Closed \<and> (\<forall>ev st''. rt_step window st' ev st'' \<longrightarrow> ev = Unmount)
         else rt_status st' = Reconnecting \<and> map snd (rt_pending st') = [rt_backoffMs st] \<and>
              rt_backoffMs st' = rt_backoffMs st"
proof -
  have inv: "rt_shape st" "rt_shape st'"
    using rt_reachable_inv [OF assms(1)] rt_reachable_inv [OF rt_next [OF assms]] by (simp_all add: rt_inv_def)
  have live: "rt_live st \<noteq> []" and st': "st' = rt_onclose code (drop_socket k st)"
    using assms(2) by (auto simp: rt_step_simps)
  then have nc: "\<not> rt_cancelled st" and np: "rt_pending st = []"
    using inv(1) by (auto simp: rt_shape_def split: realtime_status.splits)
  show ?thesis
  proof (cases "code = 1008")
    case True
    then have c: "rt_status st' = Closed"
      using nc by (simp add: st' rt_onclose_def drop_socket_def unauthorizedCloseCode_def)
    then have "rt_live st' = []" "rt_pending st' = []" using inv(2) by (auto simp: rt_shape_def)
    then have "rt_step window st' ev st'' \<Longrightarrow> ev = Unmount" for ev st'' by (auto elim: rt_stepE)
    with c True show ?thesis by simp
  next
    case False
    then show ?thesis using nc np
      by (simp add: st' rt_onclose_def drop_socket_def unauthorizedCloseCode_def rt_scheduleReconnect_def)
  qed
qed

lemma realtime_close_codes_witness:
  "rt_status (rt_onclose 1006 (drop_socket 0 (rt_start True sample_window True))) = Reconnecting"
proof -
  have w: "sample_window \<noteq> None" by (simp add: sample_window_def)
  have "rt_live (rt_start True sample_window True) = [(0, CONNECTING)]"
    using endpoint_nonempty [OF w] w by (simp add: rt_start_def rt_connect_def rt_fresh_def Let_def)
  then have "rt_step sample_window (rt_start True sample_window True) (SocketClose 0 1006)
      (rt_onclose 1006 (drop_socket 0 (rt_start True sample_window True)))"
    by (intro step_close [of 0 CONNECTING]) simp
  from realtime_close_codes [OF rt_init [OF w] this] show ?thesis by simp
qed

text \<open>
  The fallback refresh of the pages runs exactly while the hook is mounted without a
  socket, and the badge shows a connected dot only for an open connection.
\<close>

theorem fallback_iff_no_socket:
  assumes "rt_reachable window st"
  shows "(isRealtimeFallbackStatus (rt_status st) \<longleftrightarrow> \<not> rt_cancelled st \<and> rt_live st = []) \<and>
     (dotClassName (rt_status st) = ''bg-emerald-500'' \<longrightarrow> (\<exists>k r. rt_live st = [(k, r)] \<and> r \<noteq> CONNECTING))"
  using rt_reachable_inv [OF assms]
  by (auto simp: rt_inv_def rt_shape_def isRealtimeFallbackStatus_def split: realtime_status.splits)

lemma fallback_iff_no_socket_witness:
  "isRealtimeFallbackStatus (rt_status (rt_start True sample_window False))"
proof -
  have w: "sample_window \<noteq> None" by (simp add: sample_window_def)
  have "\<not> rt_cancelled (rt_start True sample_window False) \<and> rt_live (rt_start True sample_window False) = []"
    using endpoint_nonempty [OF w] w by (simp add: rt_start_def rt_connect_def rt_fresh_def Let_def rt_scheduleReconnect_def)
  then show ?thesis using fallback_iff_no_socket [OF rt_init [OF w]] by blast
qed

text \<open>The state after \<open>n\<close> attempts that all fail in the constructor, each retried by its timer.\<close>

fun rt_failing :: "window_location option \<Rightarrow> nat \<Rightarrow> rt_state" where
  "rt_failing window 0 = rt_start True window False"
| "rt_failing window (Suc n) =
     (let st = rt_failing window n
      in rt_timer window False (drop_timer (the (rt_reconnectTimer st)) st))"

text \<open>
  The delays of consecutive failures double from one second up to the limit of thirty
  seconds, and stay there: before attempt \<open>n + 1\<close> the connection waits
  \<open>min (1000 * 2 ^ n) 30000\<close> milliseconds, for every \<open>n\<close>.
\<close>

theorem backoff_doubles:
  assumes "window \<noteq> None"
  shows "map snd (rt_pending (rt_failing window n)) = [min (1000 * 2 ^ n) 30000] \<and>
     rt_reachable window (rt_failing window n)"
proof -
  have "rt_pending (rt_failing window n) = [(the (rt_reconnectTimer (rt_failing window n)), min (1000 * 2 ^ n) 30000)]
    \<and> rt_backoffMs (rt_failing window n) = min (1000 * 2 ^ n) 30000 \<and> \<not> rt_cancelled (rt_failing window n)
    \<and> rt_reachable window (rt_failing window n)"
  proof (induction n)
    case 0
    show ?case using endpoint_nonempty [OF assms] assms rt_init [OF assms, of False]
      by (simp add: rt_start_def rt_connect_def rt_fresh_def Let_def rt_scheduleReconnect_def minBackoffMs_def)
  next
    case (Suc n)
    let ?st = "rt_failing window n"
    have "rt_step window ?st (TimerFires (the (rt_reconnectTimer ?st)) False) (rt_failing window (Suc n))"
      using Suc by (simp add: Let_def) (rule step_timer [where d = "min (1000 * 2 ^ n) 30000"], simp)
    then have "rt_reachable window (rt_failing window (Suc n))" using Suc rt_next by blast
    then show ?case using Suc endpoint_nonempty [OF assms]
      by (simp add: rt_timer_def rt_connect_def rt_scheduleReconnect_def drop_timer_def Let_def maxBackoffMs_def)
  qed
  then show ?thesis by simp
qed

lemma backoff_doubles_witness: "map snd (rt_pending (rt_failing sample_window 5)) = [30000]"
  using backoff_doubles [of sample_window 5] by (simp add: sample_window_def)

text \<open>The envelope the server writes for an event.\<close>

definition envelope_of :: "string \<Rightarrow> string \<Rightarrow> string \<Rightarrow> string \<Rightarrow> js \<Rightarrow> js" where
  "envelope_of type eid ts tid payload = JObj
     [(''event_id'', JStr eid), (''event_type'', JStr type), (''event_version'', JNum (Fin 1)),
      (''occurred_at'', JStr ts), (''producer'', JStr ''server''), (''tenant_id'', JStr tid), (''payload'', payload)]"

text \<open>
  Message delivery. The text of an envelope of one of the three known types reaches exactly
  the callback of its type with the payload and the identifying members unchanged; any other
  type, and any text that is no JSON object, reaches no callback.
\<close>

theorem message_delivery:
  assumes "js_wf payload"
  shows "handleMessage \<lparr>rh_connection = True, rh_property = True, rh_event = True\<rparr>
       (json_compact (envelope_of type eid ts tid payload)) =
     (let meta = \<lparr>ev_eventId = Some (JStr eid), ev_occurredAt = Some (JStr ts), ev_tenantId = Some (JStr tid)\<rparr>
      in if type = ''device.connection.changed'' then [ConnectionChanged (Some payload) meta]
         else if type = ''device.property.changed'' then [PropertyChanged (Some payload) meta]
         else if type = ''device.event.received'' then [EventReceived (Some payload) meta]
         else []) \<and>
     ((\<forall>ob. json_parse raw \<noteq> Some (JObj ob)) \<longrightarrow> handleMessage h raw = [])"
proof -
  let ?m = "[(''event_id'', JStr eid), (''event_type'', JStr type), (''event_version'', JNum (Fin 1)),
      (''occurred_at'', JStr ts), (''producer'', JStr ''server''), (''tenant_id'', JStr tid), (''payload'', payload)]"
  have "obj_ok ?m" by (rule obj_ok_plain; simp add: not_index_key is_digit_def)
  then have "js_wf (envelope_of type eid ts tid payload)"
    using assms is_double_of_int [of 1] by (simp add: envelope_of_def)
  then have "json_parse (json_compact (envelope_of type eid ts tid payload)) = Some (envelope_of type eid ts tid payload)"
    by (rule json_parse_compact)
  moreover have "handleMessage h raw = []" if "\<forall>ob. json_parse raw \<noteq> Some (JObj ob)" for raw
    using that by (auto simp: handleMessage_def split: option.split js.split)
  ultimately show ?thesis by (simp add: handleMessage_def envelope_of_def Let_def)
qed

lemma message_delivery_witness:
  "handleMessage \<lparr>rh_connection = True, rh_property = True, rh_event = True\<rparr>
       (json_compact (envelope_of ''device.event.received'' ''e'' ''t'' ''n'' JNull)) =
   [EventReceived (Some JNull) \<lparr>ev_eventId = Some (JStr ''e''), ev_occurredAt = Some (JStr ''t''), ev_tenantId = Some (JStr ''n'')\<rparr>]"
  using message_delivery [of JNull "''device.event.received''" "''e''" "''t''" "''n''"] by simp

section \<open>Recovery\<close>

inductive rt_run :: "window_location option \<Rightarrow> rt_state \<Rightarrow> rt_event list \<Rightarrow> rt_state \<Rightarrow> bool" for window where
  run_done: "rt_run window st [] st"
| run_more: "rt_step window st ev st' \<Longrightarrow> rt_run window st' evs st'' \<Longrightarrow> rt_run window st (ev # evs) st''"

text \<open>The state is connected: the shown status is that of an open socket, and the delay is reset.\<close>

definition rt_connected :: "rt_state \<Rightarrow> bool" where
  "rt_connected st \<longleftrightarrow> rt_status st = Open \<and> rt_backoffMs st = minBackoffMs \<and> (\<exists>k. rt_live st = [(k, OPEN)])"

lemma open_connects:
  assumes "rt_live st = [(k, CONNECTING)]" "\<not> rt_cancelled st"
  shows "\<exists>st'. rt_run window st [SocketOpen k] st' \<and> rt_connected st'"
  using assms
  by (intro exI [of _ "rt_onopen (set_ready k OPEN st)"] conjI run_more [OF step_open run_done])
    (simp_all add: rt_connected_def rt_onopen_def set_ready_def)

lemma timer_connects:
  assumes "rt_inv st" "rt_status st = Reconnecting" "window \<noteq> None"
  shows "\<exists>t k st'. rt_run window st [TimerFires t True, SocketOpen k] st' \<and> rt_connected st'"
proof -
  obtain t where t: "rt_pending st = [(t, rt_backoffMs st)]" "\<not> rt_cancelled st" "rt_live st = []"
    using assms(1,2) by (auto simp: rt_inv_def rt_shape_def)
  let ?st = "rt_timer window True (drop_timer t st)"
  have "rt_live ?st = [(rt_next st, CONNECTING)]" "\<not> rt_cancelled ?st"
    using t endpoint_nonempty [OF assms(3)] by (simp_all add: rt_timer_def rt_connect_def drop_timer_def Let_def)
  then obtain st' where "rt_run window ?st [SocketOpen (rt_next st)] st'" "rt_connected st'"
    using open_connects by blast
  moreover have "rt_step window st (TimerFires t True) ?st" by (rule step_timer) (simp add: t(1))
  ultimately show ?thesis using run_more by blast
qed

lemma closing_connects:
  assumes "rt_inv st" "rt_live st = [(k, r)]" "window \<noteq> None" "code \<noteq> unauthorizedCloseCode"
  shows "\<exists>t k' st'. rt_run window st [SocketClose k code, TimerFires t True, SocketOpen k'] st' \<and> rt_connected st'"
proof -
  have s: "rt_step window st (SocketClose k code) (rt_onclose code (drop_socket k st))"
    by (rule step_close [of k r]) (simp add: assms(2))
  have "\<not> rt_cancelled st" using assms(1,2) by (auto simp: rt_inv_def rt_shape_def split: realtime_status.splits)
  then have "rt_status (rt_onclose code (drop_socket k st)) = Reconnecting"
    using assms(4) by (simp add: rt_onclose_def drop_socket_def rt_scheduleReconnect_def)
  then show ?thesis using timer_connects rt_step_inv [OF s assms(1,3)] assms(3) run_more [OF s] by blast
qed

text \<open>
  C6: a lost connection comes back. Unless it was unmounted or refused with code 1008, the
  connection is never stuck: from every reachable state there are at most three events of the
  browser (a close with any other code, the timer, the opening of the new socket) that lead to an
  open socket with the shortest delay again; and while it waits, the only events that can happen
  are the one pending timer, after the current delay, and unmounting.
\<close>

theorem realtime_recovers:
  assumes "rt_reachable window st" "\<not> rt_cancelled st" "rt_status st \<noteq> Closed" "code \<noteq> unauthorizedCloseCode"
  shows "(\<exists>evs st'. rt_run window st evs st' \<and> length evs \<le> 3 \<and> Unmount \<notin> set evs \<and>
      set evs \<subseteq> range (\<lambda>k. SocketClose k code) \<union> range (\<lambda>t. TimerFires t True) \<union> range SocketOpen \<and> rt_connected st') \<and>
    (rt_status st = Reconnecting \<longrightarrow> rt_step window st ev next \<longrightarrow>
       ev = Unmount \<or> (\<exists>t ok. ev = TimerFires t ok \<and> rt_pending st = [(t, rt_backoffMs st)] \<and>
         rt_status next = (if ok then Connecting else Reconnecting)))"
proof -
  have inv: "rt_inv st" and w: "window \<noteq> None" using assms(1) rt_reachable_inv rt_reachable_window by blast+
  have "rt_status st = Reconnecting \<or> (\<exists>k. rt_live st = [(k, CONNECTING)]) \<or> (\<exists>k r. rt_live st = [(k, r)])"
    using inv assms(2,3) by (auto simp: rt_inv_def rt_shape_def split: realtime_status.splits)
  then have "\<exists>evs st'. rt_run window st evs st' \<and> length evs \<le> 3 \<and> Unmount \<notin> set evs \<and>
      set evs \<subseteq> range (\<lambda>k. SocketClose k code) \<union> range (\<lambda>t. TimerFires t True) \<union> range SocketOpen \<and> rt_connected st'"
  proof (elim disjE exE)
    assume "rt_status st = Reconnecting"
    then obtain t k st' where "rt_run window st [TimerFires t True, SocketOpen k] st'" "rt_connected st'"
      using timer_connects inv w by blast
    then show ?thesis by (intro exI [of _ "[TimerFires t True, SocketOpen k]"] exI [of _ st']) simp
  next
    fix k assume "rt_live st = [(k, CONNECTING)]"
    then obtain st' where "rt_run window st [SocketOpen k] st'" "rt_connected st'" using open_connects assms(2) by blast
    then show ?thesis by (intro exI [of _ "[SocketOpen k]"] exI [of _ st']) simp
  next
    fix k r assume "rt_live st = [(k, r)]"
    then obtain t k' st' where "rt_run window st [SocketClose k code, TimerFires t True, SocketOpen k'] st'" "rt_connected st'"
      using closing_connects inv w assms(4) by blast
    then show ?thesis by (intro exI [of _ "[SocketClose k code, TimerFires t True, SocketOpen k']"] exI [of _ st']) simp
  qed
  moreover have "ev = Unmount \<or> (\<exists>t ok. ev = TimerFires t ok \<and> rt_pending st = [(t, rt_backoffMs st)] \<and>
         rt_status next = (if ok then Connecting else Reconnecting))"
    if r: "rt_status st = Reconnecting" and s: "rt_step window st ev next"
    using s
  proof (cases rule: rt_step.cases)
    case (step_timer t d ok)
    then show ?thesis using inv r endpoint_nonempty [OF w]
      by (auto simp: rt_inv_def rt_shape_def rt_timer_def rt_connect_def rt_scheduleReconnect_def drop_timer_def Let_def)
  qed (use inv r in \<open>auto simp: rt_inv_def rt_shape_def\<close>)
  ultimately show ?thesis by blast
qed

lemma realtime_recovers_witness:
  "\<exists>evs st'. rt_run sample_window (rt_start True sample_window False) evs st' \<and> length evs \<le> 3 \<and> rt_connected st'"
proof -
  let ?s = "rt_start True sample_window False"
  have "rt_reachable sample_window ?s" by (rule rt_init) (simp add: sample_window_def)
  moreover have "\<not> rt_cancelled ?s" "rt_status ?s \<noteq> Closed" "(1006 :: nat) \<noteq> unauthorizedCloseCode"
    by (simp_all add: rt_start_def rt_connect_def rt_scheduleReconnect_def rt_fresh_def unauthorizedCloseCode_def Let_def)
  ultimately show ?thesis using realtime_recovers by blast
qed

section \<open>No busy loop\<close>

text \<open>
  The steps that the connection takes by itself: all but the texts, which the server sends, and the
  timer. A socket can take at most three of them, and the unmounting is one.
\<close>

fun is_timer :: "rt_event \<Rightarrow> bool" where
  "is_timer (TimerFires t ok) = True"
| "is_timer _ = False"

fun unpaced :: "rt_event \<Rightarrow> bool" where
  "unpaced (SocketText k raw) = False"
| "unpaced (TimerFires t ok) = False"
| "unpaced _ = True"

fun socket_steps :: "ready_state \<Rightarrow> nat" where
  "socket_steps CONNECTING = 3"
| "socket_steps OPEN = 2"
| "socket_steps CLOSING = 1"

definition rt_budget :: "rt_state \<Rightarrow> nat" where
  "rt_budget st = (if rt_cancelled st then 0 else 1) + (\<Sum>(k, r) \<leftarrow> rt_live st. socket_steps r)"

lemma rt_budget_step:
  assumes "rt_step window st ev st'" "rt_inv st" "window \<noteq> None"
  shows "rt_budget st' + (if unpaced ev then 1 else 0) \<le> rt_budget st + (if is_timer ev then 3 else 0)"
  using assms(1)
proof (cases rule: rt_step.cases)
  case (step_open k)
  then show ?thesis using assms(2)
    by (auto simp: rt_inv_def rt_shape_def rt_budget_def rt_onopen_def set_ready_def split: realtime_status.splits)
next
  case (step_closing k r)
  then show ?thesis using assms(2)
    by (cases r) (auto simp: rt_inv_def rt_shape_def rt_budget_def set_ready_def split: realtime_status.splits)
next
  case (step_close k r code)
  then show ?thesis using assms(2)
    by (cases r) (auto simp: rt_inv_def rt_shape_def rt_budget_def rt_onclose_def drop_socket_def rt_scheduleReconnect_def
      Let_def split: realtime_status.splits)
next
  case (step_timer t d ok)
  then show ?thesis
    by (auto simp: rt_budget_def rt_timer_def rt_connect_def drop_timer_def rt_scheduleReconnect_def Let_def)
next
  case step_unmount
  then show ?thesis using assms(2)
    by (auto simp: rt_inv_def rt_shape_def rt_budget_def rt_unmount_def rt_cleanup_def Let_def
      split: realtime_status.splits option.splits)
qed (simp add: rt_budget_def)

lemma rt_budget_bound: "rt_reachable window st \<Longrightarrow> rt_budget st \<le> 4"
proof -
  assume "rt_reachable window st"
  then have "rt_inv st" by (rule rt_reachable_inv)
  moreover have "socket_steps r \<le> 3" for r by (cases r) simp_all
  ultimately show ?thesis by (auto simp: rt_inv_def rt_shape_def rt_budget_def split: realtime_status.splits)
qed

lemma rt_run_budget:
  "rt_run window st es st' \<Longrightarrow> rt_inv st \<Longrightarrow> window \<noteq> None \<Longrightarrow>
   length (filter unpaced es) + rt_budget st' \<le> rt_budget st + 3 * length (filter is_timer es)"
proof (induction rule: rt_run.induct)
  case (run_more st ev st' evs st'')
  then show ?case
    using rt_budget_step [OF run_more.hyps(1) run_more.prems] rt_step_inv [OF run_more.hyps(1) run_more.prems] by auto
qed simp

text \<open>
  C24: the connection does not spin. Between two firings of the reconnect timer the effect makes only
  a bounded number of steps besides passing on the texts it receives: a course with \<open>n\<close> firings has
  at most \<open>4 + 3 * n\<close> of them, so opening, failing and retrying cannot go on without waiting; and
  without texts and timers every course comes to an end.
\<close>

theorem realtime_no_busy_loop:
  assumes "rt_reachable window st"
  shows "(\<forall>es st'. rt_run window st es st' \<longrightarrow>
      length (filter unpaced es) \<le> 4 + 3 * length (filter is_timer es)) \<and>
    \<not> (\<exists>f. f 0 = st \<and> (\<forall>i. \<exists>ev. unpaced ev \<and> rt_step window (f i) ev (f (Suc i))))"
proof -
  have inv: "rt_inv st" and w: "window \<noteq> None" using assms rt_reachable_inv rt_reachable_window by blast+
  have "length (filter unpaced es) \<le> 4 + 3 * length (filter is_timer es)" if "rt_run window st es st'" for es st'
    using rt_run_budget [OF that inv w] rt_budget_bound [OF assms] by simp
  moreover have False if start: "f 0 = st" and steps: "\<forall>i. \<exists>ev. unpaced ev \<and> rt_step window (f i) ev (f (Suc i))" for f
  proof -
    have "rt_inv (f i) \<and> rt_budget (f i) + i \<le> rt_budget st" for i
    proof (induction i)
      case (Suc i)
      obtain ev where ev: "unpaced ev" "rt_step window (f i) ev (f (Suc i))" using steps by blast
      then have "\<not> is_timer ev" by (cases ev) simp_all
      then show ?case using rt_budget_step [OF ev(2) _ w] rt_step_inv [OF ev(2) _ w] Suc ev(1) by auto
    qed (simp add: start inv)
    from this [of "Suc (rt_budget st)"] show False by simp
  qed
  ultimately show ?thesis by blast
qed

lemma realtime_no_busy_loop_witness:
  "\<not> (\<exists>f. f 0 = rt_start True sample_window True \<and>
      (\<forall>i. \<exists>ev. unpaced ev \<and> rt_step sample_window (f i) ev (f (Suc i))))"
  using realtime_no_busy_loop [OF rt_init [of sample_window True]] by (simp add: sample_window_def)

end
