(* ===== verification/DevicePage.thy ===== *)
theory DevicePage
  imports ProductPage Realtime
begin

text \<open>
  The device page (\<open>pages/Admin/DeviceManagement.tsx\<close>): the tenant and product selectors, the
  device list with its realtime patches and its fallback refresh, the form, the secrets returned
  by device creation, and the handlers.
\<close>

text \<open>The payloads of the realtime callbacks and the envelope (\<open>hooks/useDevicesRealtime.ts\<close>).\<close>

record connection_payload =
  cp_tenant_id :: string
  cp_product_id :: string
  cp_device_id :: string
  cp_tenant_slug :: string
  cp_product_key :: string
  cp_device_slug :: string
  cp_status :: connection_status
  cp_reason :: "string option"

record property_payload =
  pp_tenant_id :: string
  pp_product_id :: string
  pp_device_id :: string
  pp_tenant_slug :: string
  pp_product_key :: string
  pp_device_slug :: string
  pp_properties :: js_object

record realtime_meta =
  rm_occurredAt :: string
  rm_tenantId :: string

record device_form =
  df_product_id :: string
  df_slug :: string
  df_name :: string
  df_description :: string
  df_status :: entity_status
  df_gateway_device_id :: string

record device_page =
  dg_tenants :: "tenant list"
  dg_tenantId :: string
  dg_products :: "product list"
  dg_productFilter :: string
  dg_devices :: "device list"
  dg_total :: int
  dg_page :: int
  dg_pageSize :: int
  dg_loading :: bool
  dg_saving :: bool
  dg_deletingId :: "string option"
  dg_formMode :: "form_mode option"
  dg_editing :: "device option"
  dg_form :: device_form
  dg_createdSecret :: string
  dg_secretsById :: "string \<Rightarrow> string option"
  dg_secretDialog :: "device option"

record 's device_api =
  da_list :: "('s, device page_result) request"
  da_create :: "('s, device_create_result) request"
  da_update :: "('s, device) request"
  da_delete :: "('s, delete_result) request"
  da_clipboard :: "string \<Rightarrow> 's \<Rightarrow> (js_exn + unit) \<times> 's"
  da_user :: "string \<Rightarrow> 's \<Rightarrow> bool"

definition device_emptyForm :: device_form where
  "device_emptyForm = \<lparr>df_product_id = [], df_slug = [], df_name = [], df_description = [],
     df_status = Active, df_gateway_device_id = []\<rparr>"

definition device_init :: device_page where
  "device_init = \<lparr>dg_tenants = [], dg_tenantId = [], dg_products = [], dg_productFilter = [], dg_devices = [],
     dg_total = 0, dg_page = 1, dg_pageSize = 10, dg_loading = False, dg_saving = False, dg_deletingId = None,
     dg_formMode = None, dg_editing = None, dg_form = device_emptyForm, dg_createdSecret = [],
     dg_secretsById = Map.empty, dg_secretDialog = None\<rparr>"

fun deviceStatusLabelKey :: "entity_status \<Rightarrow> string" where
  "deviceStatusLabelKey Active = ''adminDeviceStatusActive''"
| "deviceStatusLabelKey Disabled = ''adminDeviceStatusDisabled''"

fun connectionLabelKey :: "connection_status \<Rightarrow> string" where
  "connectionLabelKey Online = ''adminDeviceConnectionOnline''"
| "connectionLabelKey Offline = ''adminDeviceConnectionOffline''"

definition device_toFormState :: "device \<Rightarrow> device_form" where
  "device_toFormState d =
     \<lparr>df_product_id = dv_product_id d, df_slug = dv_slug d, df_name = dv_name d,
      df_description = dv_description d, df_status = dv_status d,
      df_gateway_device_id = (case dv_gateway_device_id d of None \<Rightarrow> [] | Some g \<Rightarrow> g)\<rparr>"

text \<open>\<open>new Map(products.map((product) => [product.id, product.product_name]))\<close>: the last entry wins.\<close>

definition productNameById :: "product list \<Rightarrow> string \<Rightarrow> string option" where
  "productNameById products = map_of (rev (map (\<lambda>p. (pd_id p, pd_name p)) products))"

definition selectedDeviceSecret :: "'w device_page_scheme \<Rightarrow> string option" where
  "selectedDeviceSecret s =
     (case dg_secretDialog s of Some d \<Rightarrow> dg_secretsById s (dv_id d) | None \<Rightarrow> Some [])"

section \<open>The selectors\<close>

definition device_tenants_asks :: "unit \<Rightarrow> http_request option" where
  "device_tenants_asks p = Some (tenant_list_request 1 50)"

definition device_tenants_settles ::
  "bool \<Rightarrow> unit \<Rightarrow> js_exn + tenant page_result \<Rightarrow> 'w device_page_scheme \<Rightarrow> 'w device_page_scheme \<times> effect list" where
  "device_tenants_settles cancelled p answer s =
     (if cancelled then (s, [])
      else case answer of
             Inr result \<Rightarrow> (s\<lparr>dg_tenants := pr_items result,
                              dg_tenantId := default_tenant (dg_tenantId s) (pr_items result)\<rparr>, [])
           | Inl e \<Rightarrow> (s, [Notice NError ''adminTenantLoadFailed'' (error_description e)]))"

definition device_products_starts :: "string \<Rightarrow> 'w device_page_scheme \<Rightarrow> 'w device_page_scheme" where
  "device_products_starts tenantId s = (if tenantId = [] then s\<lparr>dg_products := [], dg_productFilter := []\<rparr> else s)"

definition device_products_asks :: "string \<Rightarrow> http_request option" where
  "device_products_asks tenantId = (if tenantId = [] then None else Some (product_list_request tenantId 1 100))"

definition known_product :: "product list \<Rightarrow> string \<Rightarrow> bool" where
  "known_product items i \<longleftrightarrow> i \<noteq> [] \<and> list_ex (\<lambda>p. pd_id p = i) items"

definition device_products_settles ::
  "bool \<Rightarrow> string \<Rightarrow> js_exn + product page_result \<Rightarrow> 'w device_page_scheme \<Rightarrow> 'w device_page_scheme \<times> effect list" where
  "device_products_settles cancelled tenantId answer s =
     (if cancelled then (s, [])
      else case answer of
             Inr result \<Rightarrow>
               (let items = pr_items result; cur = df_product_id (dg_form s)
                in (s\<lparr>dg_products := items,
                      dg_productFilter := (if known_product items (dg_productFilter s) then dg_productFilter s else []),
                      dg_form := (dg_form s)\<lparr>df_product_id := (if known_product items cur then cur else default_product [] items)\<rparr>\<rparr>, []))
           | Inl e \<Rightarrow> (s, [Notice NError ''adminProductLoadFailed'' (error_description e)]))"

section \<open>Loading\<close>

definition device_list_request :: "string \<Rightarrow> string \<Rightarrow> int \<Rightarrow> int \<Rightarrow> http_request" where
  "device_list_request tenantId productFilter page psz = (''/api/v1/devices'', with_params GET (device_list_query
     \<lparr>dlp_tenant_id = tenantId, dlp_product_id = or_undefined productFilter, dlp_page = page, dlp_page_size = psz\<rparr>))"

definition device_loaded :: "device page_result \<Rightarrow> 'w device_page_scheme \<Rightarrow> 'w device_page_scheme" where
  "device_loaded result s = s\<lparr>dg_devices := pr_items result, dg_total := pr_total result,
     dg_page := pr_page result, dg_pageSize := pr_page_size result\<rparr>"

definition device_cleared :: "'w device_page_scheme \<Rightarrow> 'w device_page_scheme" where
  "device_cleared s = s\<lparr>dg_devices := [], dg_total := 0\<rparr>"

definition loadDevices ::
  "'w device_page_scheme device_api \<Rightarrow> 'w device_page_scheme \<Rightarrow> int \<Rightarrow> int \<Rightarrow> bool \<Rightarrow> ('w device_page_scheme, unit) act" where
  "loadDevices api cl nextPage nextPageSize silent =
     (if dg_tenantId cl = [] then update device_cleared
      else steps [only_if (\<not> silent) (update (\<lambda>s. s\<lparr>dg_loading := True\<rparr>)),
        finally_set
          (try_catch
            (bind (listDevices (da_list api)
                \<lparr>dlp_tenant_id = dg_tenantId cl, dlp_product_id = or_undefined (dg_productFilter cl),
                 dlp_page = nextPage, dlp_page_size = nextPageSize\<rparr>)
              (\<lambda>result. update (device_loaded result)))
            (\<lambda>e. failure ''adminDeviceLoadFailed'' e))
          (\<lambda>s. if silent then s else s\<lparr>dg_loading := False\<rparr>)])"

definition device_effect_starts :: "string \<times> string \<times> int \<times> int \<Rightarrow> 'w device_page_scheme \<Rightarrow> 'w device_page_scheme" where
  "device_effect_starts p s = (if fst p = [] then device_cleared s else s\<lparr>dg_loading := True\<rparr>)"

definition device_effect_asks :: "string \<times> string \<times> int \<times> int \<Rightarrow> http_request option" where
  "device_effect_asks p = (case p of (tenantId, productFilter, page, psz) \<Rightarrow>
     if tenantId = [] then None else Some (device_list_request tenantId productFilter page psz))"

definition device_effect_settles ::
  "bool \<Rightarrow> string \<times> string \<times> int \<times> int \<Rightarrow> js_exn + device page_result \<Rightarrow> 'w device_page_scheme \<Rightarrow>
     'w device_page_scheme \<times> effect list" where
  "device_effect_settles cancelled p answer s =
     (if cancelled then (s, [])
      else case answer of
             Inr result \<Rightarrow> ((device_loaded result s)\<lparr>dg_loading := False\<rparr>, [])
           | Inl e \<Rightarrow> (s\<lparr>dg_loading := False\<rparr>, [Notice NError ''adminDeviceLoadFailed'' (error_description e)]))"

section \<open>Realtime\<close>

text \<open>The callbacks close over the \<open>tenantId\<close> of the latest render.\<close>

definition device_onConnectionChanged ::
  "string \<Rightarrow> connection_payload \<Rightarrow> realtime_meta \<Rightarrow> 'w device_page_scheme \<Rightarrow> 'w device_page_scheme" where
  "device_onConnectionChanged tenantId payload meta s =
     (if rm_tenantId meta \<noteq> tenantId then s
      else s\<lparr>dg_devices := update_where (\<lambda>d. dv_id d = cp_device_id payload)
        (\<lambda>d. d\<lparr>dv_connection_status := cp_status payload, dv_last_seen_at := Some (rm_occurredAt meta),
               dv_updated_at := rm_occurredAt meta\<rparr>) (dg_devices s)\<rparr>)"

definition device_onPropertyChanged ::
  "string \<Rightarrow> property_payload \<Rightarrow> realtime_meta \<Rightarrow> 'w device_page_scheme \<Rightarrow> 'w device_page_scheme" where
  "device_onPropertyChanged tenantId payload meta s =
     (if rm_tenantId meta \<noteq> tenantId then s
      else s\<lparr>dg_devices := update_where (\<lambda>d. dv_id d = pp_device_id payload)
        (\<lambda>d. d\<lparr>dv_last_seen_at := Some (rm_occurredAt meta), dv_updated_at := rm_occurredAt meta\<rparr>) (dg_devices s)\<rparr>)"

text \<open>Whether the refresh timer runs, and what one tick does; its values are those of the effect.\<close>

definition device_polls :: "string \<Rightarrow> realtime_status \<Rightarrow> bool" where
  "device_polls tenantId status \<longleftrightarrow> tenantId \<noteq> [] \<and> isRealtimeFallbackStatus status"

definition device_poll_tick ::
  "'w device_page_scheme device_api \<Rightarrow> 'w device_page_scheme \<Rightarrow> ('w device_page_scheme, unit) act" where
  "device_poll_tick api cl = loadDevices api cl (dg_page cl) (dg_pageSize cl) True"

section \<open>The form and the handlers\<close>

definition device_updateFormField :: "(device_form \<Rightarrow> device_form) \<Rightarrow> 'w device_page_scheme \<Rightarrow> 'w device_page_scheme" where
  "device_updateFormField set_field s = s\<lparr>dg_form := set_field (dg_form s)\<rparr>"

definition device_openCreateForm :: "'w device_page_scheme \<Rightarrow> 'w device_page_scheme \<Rightarrow> 'w device_page_scheme" where
  "device_openCreateForm cl s = s\<lparr>dg_editing := None, dg_createdSecret := [],
     dg_form := device_emptyForm\<lparr>df_product_id := default_product (dg_productFilter cl) (dg_products cl)\<rparr>,
     dg_formMode := Some Create\<rparr>"

definition device_openEditForm :: "device \<Rightarrow> 'w device_page_scheme \<Rightarrow> 'w device_page_scheme" where
  "device_openEditForm d s = s\<lparr>dg_editing := Some d, dg_createdSecret := [],
     dg_form := device_toFormState d, dg_formMode := Some Edit\<rparr>"

definition device_closeForm :: "'w device_page_scheme \<Rightarrow> 'w device_page_scheme" where
  "device_closeForm s = s\<lparr>dg_formMode := None, dg_editing := None, dg_form := device_emptyForm\<rparr>"

definition device_handleTenantChange :: "string \<Rightarrow> 'w device_page_scheme \<Rightarrow> 'w device_page_scheme" where
  "device_handleTenantChange nextTenantId s =
     device_closeForm (s\<lparr>dg_tenantId := nextTenantId, dg_productFilter := [], dg_page := 1\<rparr>)"

definition device_handleProductFilterChange :: "string \<Rightarrow> 'w device_page_scheme \<Rightarrow> 'w device_page_scheme" where
  "device_handleProductFilterChange nextProductId s = s\<lparr>dg_productFilter := nextProductId, dg_page := 1\<rparr>"

definition device_create_request :: "'w device_page_scheme \<Rightarrow> device_create_input" where
  "device_create_request cl =
     \<lparr>dc_tenant_id = dg_tenantId cl, dc_product_id = df_product_id (dg_form cl),
      dc_slug = trim (df_slug (dg_form cl)), dc_name = trim (df_name (dg_form cl)),
      dc_description = trim (df_description (dg_form cl)),
      dc_gateway_device_id = trim (df_gateway_device_id (dg_form cl))\<rparr>"

definition device_update_request :: "'w device_page_scheme \<Rightarrow> device_update_input" where
  "device_update_request cl =
     \<lparr>du_name = trim (df_name (dg_form cl)), du_description = trim (df_description (dg_form cl)),
      du_status = df_status (dg_form cl), du_gateway_device_id = trim (df_gateway_device_id (dg_form cl))\<rparr>"

text \<open>What a successful creation does before the list is loaded again.\<close>

definition device_created :: "device_create_result \<Rightarrow> 'w device_page_scheme \<Rightarrow> 'w device_page_scheme" where
  "device_created result s =
     (let secret = (case dcr_device_secret result of None \<Rightarrow> [] | Some x \<Rightarrow> x);
          s1 = s\<lparr>dg_createdSecret := secret\<rparr>;
          s2 = (if secret \<noteq> [] then s1\<lparr>dg_secretsById := (dg_secretsById s1)(dv_id (dcr_device result) \<mapsto> secret)\<rparr> else s1)
      in s2\<lparr>dg_page := 1\<rparr>)"

definition device_next_entry :: "'w device_page_scheme \<Rightarrow> 'w device_page_scheme" where
  "device_next_entry s = s\<lparr>dg_form := (dg_form s)\<lparr>df_slug := [], df_name := [], df_description := []\<rparr>\<rparr>"

definition device_handleSubmit ::
  "'w device_page_scheme device_api \<Rightarrow> 'w device_page_scheme \<Rightarrow> ('w device_page_scheme, unit) act" where
  "device_handleSubmit api cl =
     (if dg_tenantId cl = [] then ret ()
      else steps [update (\<lambda>s. s\<lparr>dg_saving := True\<rparr>),
       finally_set
         (try_catch
           (steps [
              only_if (dg_formMode cl = Some Create)
                (bind (createDevice (da_create api) (device_create_request cl)) (\<lambda>result.
                   steps [success ''adminDeviceCreateSuccess'', update (device_created result)])),
              (case dg_editing cl of
                 Some d \<Rightarrow>
                   only_if (dg_formMode cl = Some Edit)
                     (bind (updateDevice (da_update api) (dv_id d) (device_update_request cl)) (\<lambda>_.
                        steps [success ''adminDeviceUpdateSuccess'', update device_closeForm]))
               | None \<Rightarrow> ret ()),
              loadDevices api cl (if dg_formMode cl = Some Create then 1 else dg_page cl) (dg_pageSize cl) False,
              only_if (dg_formMode cl = Some Create) (update device_next_entry)])
           (\<lambda>e. failure (if dg_formMode cl = Some Create then ''adminDeviceCreateFailed'' else ''adminDeviceUpdateFailed'') e))
         (\<lambda>s. s\<lparr>dg_saving := False\<rparr>)])"

definition device_deleted :: "'w device_page_scheme \<Rightarrow> device \<Rightarrow> 'w device_page_scheme \<Rightarrow> 'w device_page_scheme" where
  "device_deleted cl d s =
     (let s1 = s\<lparr>dg_secretsById := (dg_secretsById s)(dv_id d := None)\<rparr>
      in if map_option dv_id (dg_secretDialog cl) = Some (dv_id d) then s1\<lparr>dg_secretDialog := None\<rparr> else s1)"

definition device_handleDelete ::
  "'w device_page_scheme device_api \<Rightarrow> 'w device_page_scheme \<Rightarrow> device \<Rightarrow> ('w device_page_scheme, unit) act" where
  "device_handleDelete api cl d =
     bind (confirm (da_user api) ''adminDeviceDeleteConfirm'') (\<lambda>ok.
       if \<not> ok then ret ()
       else steps [update (\<lambda>s. s\<lparr>dg_deletingId := Some (dv_id d)\<rparr>),
         finally_set
           (try_catch
             (bind (deleteDevice (da_delete api) (dv_id d)) (\<lambda>_.
                steps [success ''adminDeviceDeleteSuccess'',
                  update (device_deleted cl d),
                  (if length (dg_devices cl) = 1 \<and> 1 < dg_page cl
                   then update (\<lambda>s. s\<lparr>dg_page := dg_page s - 1\<rparr>)
                   else loadDevices api cl (dg_page cl) (dg_pageSize cl) False)]))
             (\<lambda>e. failure ''adminDeviceDeleteFailed'' e))
           (\<lambda>s. s\<lparr>dg_deletingId := None\<rparr>)])"

text \<open>\<open>navigator.clipboard.writeText\<close> is a parameter.\<close>

definition write_clipboard :: "'s device_api \<Rightarrow> string \<Rightarrow> ('s, unit) act" where
  "write_clipboard api secret = (\<lambda>s. case da_clipboard api secret s of
       (Inl e, s') \<Rightarrow> (Threw e, s', [])
     | (Inr _, s') \<Rightarrow> (Done (), s', [Copied secret]))"

definition handleCopySecret :: "'s device_api \<Rightarrow> string \<Rightarrow> ('s, unit) act" where
  "handleCopySecret api secret =
     (if secret = [] then ret ()
      else try_catch
        (bind (write_clipboard api secret) (\<lambda>_. success ''adminDeviceSecretCopied''))
        (\<lambda>e. failure ''adminDeviceSecretCopyFailed'' e))"

text \<open>The controls: the secret dialog, the create button and the submit button.\<close>

definition device_showSecret :: "device option \<Rightarrow> 'w device_page_scheme \<Rightarrow> 'w device_page_scheme" where
  "device_showSecret d s = s\<lparr>dg_secretDialog := d\<rparr>"

definition device_create_disabled :: "'w device_page_scheme \<Rightarrow> bool" where
  "device_create_disabled s \<longleftrightarrow> dg_tenantId s = [] \<or> length (dg_products s) = 0"

definition device_submit_disabled :: "'w device_page_scheme \<Rightarrow> bool" where
  "device_submit_disabled s \<longleftrightarrow> dg_saving s \<or> df_product_id (dg_form s) = []"

section \<open>What the handlers do\<close>

lemma loadDevices_run:
  "loadDevices api cl page psz silent s =
     (if dg_tenantId cl = [] then (Done (), device_cleared s, [])
      else case da_list api (device_list_request (dg_tenantId cl) (dg_productFilter cl) page psz)
          (if silent then s else s\<lparr>dg_loading := True\<rparr>) of (a, s') \<Rightarrow>
        (case api_outcome a of
           Done r \<Rightarrow> (Done (), if silent then device_loaded r s' else (device_loaded r s')\<lparr>dg_loading := False\<rparr>,
             [Sent (device_list_request (dg_tenantId cl) (dg_productFilter cl) page psz)])
         | Threw e \<Rightarrow> (Done (), if silent then s' else s'\<lparr>dg_loading := False\<rparr>,
             [Sent (device_list_request (dg_tenantId cl) (dg_productFilter cl) page psz),
              Notice NError ''adminDeviceLoadFailed'' (error_description e)])))"
  by (simp add: loadDevices_def listDevices_def device_list_request_def apiRequest_run run_defs
      split: prod.split outcome.split)

lemma loadDevices_done: "outcome_of (loadDevices api cl page psz silent s) = Done ()"
  by (simp add: loadDevices_run split: prod.split outcome.split)

lemma loadDevices_requests:
  "dg_tenantId cl \<noteq> [] \<Longrightarrow> requests (effects_of (loadDevices api cl page psz silent s)) =
     [device_list_request (dg_tenantId cl) (dg_productFilter cl) page psz]"
  by (simp add: loadDevices_run split: prod.split outcome.split)

lemma device_create_run:
  assumes "dg_formMode cl = Some Create" "dg_tenantId cl \<noteq> []"
  shows "device_handleSubmit api cl s =
     (let req = (''/api/v1/devices'', with_data POST (device_create_body (device_create_request cl)))
      in case da_create api req (s\<lparr>dg_saving := True\<rparr>) of (a, s1) \<Rightarrow>
        (case api_outcome a of
           Done r \<Rightarrow> (let out = loadDevices api cl 1 (dg_pageSize cl) False (device_created r s1)
                     in (Done (), (device_next_entry (state_of out))\<lparr>dg_saving := False\<rparr>,
                         Sent req # Notice NSuccess ''adminDeviceCreateSuccess'' NoDescription # effects_of out))
         | Threw e \<Rightarrow> (Done (), s1\<lparr>dg_saving := False\<rparr>,
             [Sent req, Notice NError ''adminDeviceCreateFailed'' (error_description e)])))"
proof -
  let ?req = "(''/api/v1/devices'', with_data POST (device_create_body (device_create_request cl)))"
  obtain a s1 where q: "da_create api ?req (s\<lparr>dg_saving := True\<rparr>) = (a, s1)" by force
  have c: "createDevice (da_create api) (device_create_request cl) (s\<lparr>dg_saving := True\<rparr>) = (api_outcome a, s1, [Sent ?req])"
    by (simp add: createDevice_def apiRequest_run q)
  show ?thesis
  proof (cases "api_outcome a")
    case (Done r)
    obtain s2 es where l: "loadDevices api cl 1 (dg_pageSize cl) False (device_created r s1) = (Done (), s2, es)"
      using loadDevices_done [of api cl 1 "dg_pageSize cl" False] by (metis prod.collapse)
    show ?thesis using Done
      by (simp add: device_handleSubmit_def assms only_if_def run_prims bind_known try_known q l c Let_def split: option.split)
  next
    case (Threw e)
    then show ?thesis
      by (simp add: device_handleSubmit_def assms only_if_def run_prims bind_known try_known q c Let_def)
  qed
qed

lemma device_edit_run:
  assumes "dg_formMode cl = Some Edit" "dg_editing cl = Some d" "dg_tenantId cl \<noteq> []"
  shows "device_handleSubmit api cl s =
     (let req = (''/api/v1/devices/'' @ dv_id d, with_data PUT (device_update_body (device_update_request cl)))
      in case da_update api req (s\<lparr>dg_saving := True\<rparr>) of (a, s1) \<Rightarrow>
        (case api_outcome a of
           Done r \<Rightarrow> (let out = loadDevices api cl (dg_page cl) (dg_pageSize cl) False (device_closeForm s1)
                     in (Done (), (state_of out)\<lparr>dg_saving := False\<rparr>,
                         Sent req # Notice NSuccess ''adminDeviceUpdateSuccess'' NoDescription # effects_of out))
         | Threw e \<Rightarrow> (Done (), s1\<lparr>dg_saving := False\<rparr>,
             [Sent req, Notice NError ''adminDeviceUpdateFailed'' (error_description e)])))"
proof -
  let ?req = "(''/api/v1/devices/'' @ dv_id d, with_data PUT (device_update_body (device_update_request cl)))"
  obtain a s1 where q: "da_update api ?req (s\<lparr>dg_saving := True\<rparr>) = (a, s1)" by force
  obtain s2 es where l: "loadDevices api cl (dg_page cl) (dg_pageSize cl) False (device_closeForm s1) = (Done (), s2, es)"
    using loadDevices_done [of api cl "dg_page cl" "dg_pageSize cl" False] by (metis prod.collapse)
  have c: "updateDevice (da_update api) (dv_id d) (device_update_request cl) (s\<lparr>dg_saving := True\<rparr>) = (api_outcome a, s1, [Sent ?req])"
    using q by (simp add: updateDevice_def apiRequest_run)
  show ?thesis using q
    by (cases "api_outcome a") (simp_all add: device_handleSubmit_def assms only_if_def run_prims
      bind_known try_known l c Let_def)
qed

lemma device_delete_run:
  "device_handleDelete api cl d s =
     (if \<not> da_user api ''adminDeviceDeleteConfirm'' s then (Done (), s, [Asked ''adminDeviceDeleteConfirm''])
      else let req = (''/api/v1/devices/'' @ dv_id d, bare DELETE)
      in case da_delete api req (s\<lparr>dg_deletingId := Some (dv_id d)\<rparr>) of (a, s1) \<Rightarrow>
        (case api_outcome a of
           Done t \<Rightarrow>
             (if length (dg_devices cl) = 1 \<and> 1 < dg_page cl
              then (Done (), (device_deleted cl d s1)\<lparr>dg_page := dg_page s1 - 1, dg_deletingId := None\<rparr>,
                    [Asked ''adminDeviceDeleteConfirm'', Sent req, Notice NSuccess ''adminDeviceDeleteSuccess'' NoDescription])
              else let out = loadDevices api cl (dg_page cl) (dg_pageSize cl) False (device_deleted cl d s1)
                   in (Done (), (state_of out)\<lparr>dg_deletingId := None\<rparr>,
                       [Asked ''adminDeviceDeleteConfirm'', Sent req, Notice NSuccess ''adminDeviceDeleteSuccess'' NoDescription]
                         @ effects_of out))
         | Threw e \<Rightarrow> (Done (), s1\<lparr>dg_deletingId := None\<rparr>,
             [Asked ''adminDeviceDeleteConfirm'', Sent req, Notice NError ''adminDeviceDeleteFailed'' (error_description e)])))"
proof -
  let ?req = "(''/api/v1/devices/'' @ dv_id d, bare DELETE)"
  obtain a s1 where q: "da_delete api ?req (s\<lparr>dg_deletingId := Some (dv_id d)\<rparr>) = (a, s1)" by force
  obtain s2 es where l: "loadDevices api cl (dg_page cl) (dg_pageSize cl) False (device_deleted cl d s1) = (Done (), s2, es)"
    using loadDevices_done [of api cl "dg_page cl" "dg_pageSize cl" False] by (metis prod.collapse)
  have c: "deleteDevice (da_delete api) (dv_id d) (s\<lparr>dg_deletingId := Some (dv_id d)\<rparr>) = (api_outcome a, s1, [Sent ?req])"
    using q by (simp add: deleteDevice_def apiRequest_run)
  have p: "dg_page (device_deleted cl d s1) = dg_page s1" by (simp add: device_deleted_def Let_def)
  show ?thesis using q
    by (cases "api_outcome a") (simp_all add: device_handleDelete_def run_prims bind_known try_known l c p Let_def)
qed

text \<open>
  A refresh is not cancelled: its answer is stored whatever tenant is selected by then.
\<close>

lemma late_refresh_stored:
  assumes "dg_tenantId cl \<noteq> []"
    and "da_list api (device_list_request (dg_tenantId cl) (dg_productFilter cl) (dg_page cl) (dg_pageSize cl)) s = (a, s')"
    and "api_outcome a = Done r"
  shows "dg_devices (state_of (device_poll_tick api cl s)) = pr_items r \<and>
    dg_tenantId (state_of (device_poll_tick api cl s)) = dg_tenantId s'"
  using assms by (simp add: device_poll_tick_def loadDevices_run device_loaded_def)

interpretation device_tenants_fx: fetch_effect no_start device_tenants_asks device_tenants_settles
  by unfold_locales (simp add: device_tenants_settles_def)

interpretation device_products_fx: fetch_effect device_products_starts device_products_asks device_products_settles
  by unfold_locales (simp add: device_products_settles_def)

interpretation device_fx: fetch_effect device_effect_starts device_effect_asks device_effect_settles
  by unfold_locales (simp add: device_effect_settles_def)

section \<open>Realtime as a log\<close>

text \<open>
  The specification of the realtime patches: what the log of the events of one tenant says about
  a device. The connection status is that of its last connection event, and the time marks are
  those of its last event of either kind.
\<close>

datatype device_event =
    Connection connection_payload realtime_meta
  | Property property_payload realtime_meta

fun event_about :: "string \<Rightarrow> string \<Rightarrow> device_event \<Rightarrow> bool" where
  "event_about tenantId i (Connection p m) \<longleftrightarrow> rm_tenantId m = tenantId \<and> cp_device_id p = i"
| "event_about tenantId i (Property p m) \<longleftrightarrow> rm_tenantId m = tenantId \<and> pp_device_id p = i"

fun event_status :: "device_event \<Rightarrow> connection_status option" where
  "event_status (Connection p m) = Some (cp_status p)"
| "event_status (Property p m) = None"

fun event_time :: "device_event \<Rightarrow> string" where
  "event_time (Connection p m) = rm_occurredAt m"
| "event_time (Property p m) = rm_occurredAt m"

fun apply_event :: "string \<Rightarrow> device_event \<Rightarrow> 'w device_page_scheme \<Rightarrow> 'w device_page_scheme" where
  "apply_event tenantId (Connection p m) s = device_onConnectionChanged tenantId p m s"
| "apply_event tenantId (Property p m) s = device_onPropertyChanged tenantId p m s"

definition logged :: "string \<Rightarrow> device_event list \<Rightarrow> device \<Rightarrow> device" where
  "logged tenantId es d =
     (let mine = rev (filter (event_about tenantId (dv_id d)) es)
      in d\<lparr>dv_connection_status := (case List.map_filter event_status mine of [] \<Rightarrow> dv_connection_status d | st # _ \<Rightarrow> st),
           dv_last_seen_at := (case mine of [] \<Rightarrow> dv_last_seen_at d | e # _ \<Rightarrow> Some (event_time e)),
           dv_updated_at := (case mine of [] \<Rightarrow> dv_updated_at d | e # _ \<Rightarrow> event_time e)\<rparr>)"

lemma logged_id: "dv_id (logged tenantId es d) = dv_id d"
  by (simp add: logged_def Let_def)

lemma logged_snoc:
  "logged tenantId (es @ [e]) d =
     (if \<not> event_about tenantId (dv_id d) e then logged tenantId es d
      else (logged tenantId es d)\<lparr>dv_connection_status := (case event_status e of None \<Rightarrow> dv_connection_status (logged tenantId es d) | Some st \<Rightarrow> st),
             dv_last_seen_at := Some (event_time e), dv_updated_at := event_time e\<rparr>)"
  by (cases e) (simp_all add: logged_def Let_def List.map_filter_simps)

lemma apply_events_logged:
  "fold (apply_event tenantId) es s = s\<lparr>dg_devices := map (logged tenantId es) (dg_devices s)\<rparr>"
proof (induction es rule: rev_induct)
  case Nil
  have "logged tenantId [] = id" by (simp add: fun_eq_iff logged_def List.map_filter_simps)
  then show ?case by simp
next
  case (snoc e es)
  show ?case
    by (cases e) (auto simp: snoc.IH device_onConnectionChanged_def device_onPropertyChanged_def update_where_def
      logged_snoc logged_id o_def intro!: arg_cong [where f = "\<lambda>ds. s\<lparr>dg_devices := ds\<rparr>"])
qed

text \<open>
  C12: the device list refines the event log. After any sequence of realtime events, of any tenants
  and devices and in any order, every listed device is what the log of the selected tenant's events
  about it says, and neither the list's order nor anything else on the page has changed.
\<close>

theorem devices_track_realtime:
  "fold (apply_event tenantId) es s = s\<lparr>dg_devices := map (logged tenantId es) (dg_devices s)\<rparr>"
  by (rule apply_events_logged)

section \<open>Secrets\<close>

text \<open>The list request changes nothing else of the page while it is awaited.\<close>

definition list_only :: "'w device_page_scheme device_api \<Rightarrow> bool" where
  "list_only api \<longleftrightarrow> (\<forall>r s. \<exists>b. snd (da_list api r s) = s\<lparr>dg_loading := b\<rparr>)"

lemma loadDevices_keeps:
  assumes "list_only api" "out = state_of (loadDevices api cl page psz silent s)"
  shows "dg_secretsById out = dg_secretsById s \<and> dg_secretDialog out = dg_secretDialog s \<and>
    dg_createdSecret out = dg_createdSecret s \<and> dg_form out = dg_form s \<and> dg_formMode out = dg_formMode s"
proof (cases "dg_tenantId cl = []")
  case True
  then show ?thesis using assms(2) by (simp add: loadDevices_run device_cleared_def)
next
  case False
  let ?r = "device_list_request (dg_tenantId cl) (dg_productFilter cl) page psz"
  let ?s = "if silent then s else s\<lparr>dg_loading := True\<rparr>"
  obtain a s' where q: "da_list api ?r ?s = (a, s')" by force
  then obtain b where "s' = ?s\<lparr>dg_loading := b\<rparr>" using assms(1) unfolding list_only_def by (metis snd_conv)
  then show ?thesis using assms(2) q False
    by (simp add: loadDevices_run device_loaded_def split: outcome.split)
qed

text \<open>
  C27: the life of a device secret. When a device is created and the server returns its secret, the
  secret is shown and kept under exactly that device, and the form stays open for the next device
  of the same product and gateway with blank texts. When a device is deleted, its secret is
  forgotten and the dialog that shows it closes; the other secrets stay.
\<close>

theorem device_secret_lifecycle:
  assumes "list_only api"
    and "dg_formMode cl = Some Create" "dg_tenantId cl \<noteq> []"
    and "da_create api (''/api/v1/devices'', with_data POST (device_create_body (device_create_request cl)))
           (s\<lparr>dg_saving := True\<rparr>) = (a, made)"
    and "api_outcome a = Done r" "dcr_device_secret r = Some secret" "secret \<noteq> []"
    and "out = state_of (device_handleSubmit api cl s)"
    and "da_user api ''adminDeviceDeleteConfirm'' t"
    and "da_delete api (''/api/v1/devices/'' @ dv_id d, bare DELETE) (t\<lparr>dg_deletingId := Some (dv_id d)\<rparr>) = (b, left)"
    and "api_outcome b = Done x"
    and "gone = state_of (device_handleDelete api cl' d t)"
  shows "dg_secretsById out = (dg_secretsById made)(dv_id (dcr_device r) \<mapsto> secret) \<and> dg_createdSecret out = secret \<and>
      dg_formMode out = dg_formMode made \<and>
      dg_form out = (dg_form made)\<lparr>df_slug := [], df_name := [], df_description := []\<rparr> \<and>
    dg_secretsById gone = (dg_secretsById left)(dv_id d := None) \<and>
      (map_option dv_id (dg_secretDialog cl') = Some (dv_id d) \<longrightarrow> dg_secretDialog gone = None)"
proof -
  let ?l = "loadDevices api cl 1 (dg_pageSize cl) False (device_created r made)"
  have o: "out = (device_next_entry (state_of ?l))\<lparr>dg_saving := False\<rparr>"
    using assms(4,5,8) by (simp add: device_create_run [OF assms(2,3)] Let_def)
  have created: "dg_secretsById out = (dg_secretsById made)(dv_id (dcr_device r) \<mapsto> secret) \<and> dg_createdSecret out = secret \<and>
      dg_formMode out = dg_formMode made \<and>
      dg_form out = (dg_form made)\<lparr>df_slug := [], df_name := [], df_description := []\<rparr>"
    using loadDevices_keeps [OF assms(1), of "state_of ?l"] assms(6,7)
    by (simp add: o device_next_entry_def device_created_def Let_def)
  let ?m = "loadDevices api cl' (dg_page cl') (dg_pageSize cl') False (device_deleted cl' d left)"
  have "gone = (device_deleted cl' d left)\<lparr>dg_page := dg_page left - 1, dg_deletingId := None\<rparr> \<or>
      gone = (state_of ?m)\<lparr>dg_deletingId := None\<rparr>"
    using assms(9-12) by (auto simp: device_delete_run Let_def split: if_splits)
  moreover have "dg_secretsById (state_of ?m) = dg_secretsById (device_deleted cl' d left) \<and>
      dg_secretDialog (state_of ?m) = dg_secretDialog (device_deleted cl' d left)"
    using loadDevices_keeps [OF assms(1), of "state_of ?m"] by blast
  ultimately have "dg_secretsById gone = (dg_secretsById left)(dv_id d := None) \<and>
      (map_option dv_id (dg_secretDialog cl') = Some (dv_id d) \<longrightarrow> dg_secretDialog gone = None)"
    by (auto simp: device_deleted_def Let_def)
  then show ?thesis using created by blast
qed

definition sample_device :: device where
  "sample_device = \<lparr>dv_id = ''d1'', dv_tenant_id = ''t1'', dv_product_id = ''p1'', dv_slug = ''d'', dv_name = ''n'',
     dv_description = [], dv_status = Active, dv_connection_status = Offline, dv_gateway_device_id = None,
     dv_firmware_version = None, dv_ip_address = None, dv_last_seen_at = None, dv_created_at = [], dv_updated_at = []\<rparr>"

definition sample_device_api :: "device_page device_api" where
  "sample_device_api = \<lparr>da_list = (\<lambda>r s. (Inl EngineError, s)),
     da_create = (\<lambda>r s. (Inr \<lparr>resp_msg = [], resp_code = Fin 200,
        resp_data = Some \<lparr>dcr_device = sample_device, dcr_device_secret = Some ''key''\<rparr>\<rparr>, s)),
     da_update = (\<lambda>r s. (Inl EngineError, s)),
     da_delete = (\<lambda>r s. (Inr \<lparr>resp_msg = [], resp_code = Fin 200, resp_data = Some \<lparr>dr_deleted = True\<rparr>\<rparr>, s)),
     da_clipboard = (\<lambda>t s. (Inr (), s)), da_user = (\<lambda>q s. True)\<rparr>"

lemma device_secret_lifecycle_witness:
  "dg_secretsById (state_of (device_handleSubmit sample_device_api
      (device_openCreateForm device_init (device_init\<lparr>dg_tenantId := ''t1''\<rparr>)) device_init)) ''d1'' = Some ''key'' \<and>
   dg_secretsById (state_of (device_handleDelete sample_device_api device_init sample_device
      (device_init\<lparr>dg_secretsById := [''d1'' \<mapsto> ''key'']\<rparr>))) ''d1'' = None"
proof -
  let ?cl = "device_openCreateForm device_init (device_init\<lparr>dg_tenantId := ''t1''\<rparr>)"
  let ?r = "\<lparr>dcr_device = sample_device, dcr_device_secret = Some ''key''\<rparr>"
  let ?t = "device_init\<lparr>dg_secretsById := [''d1'' \<mapsto> ''key'']\<rparr>"
  have l: "list_only sample_device_api"
    unfolding list_only_def sample_device_api_def
    by (intro allI, rule_tac x = "dg_loading s" in exI) simp
  have ok: "isSuccessCode (Fin 200)" by (simp add: isSuccessCode_def)
  show ?thesis
    using device_secret_lifecycle [where api = sample_device_api and cl = ?cl and s = device_init and r = ?r and secret = "''key''"
        and t = ?t and d = sample_device and cl' = device_init and made = "device_init\<lparr>dg_saving := True\<rparr>"
        and left = "?t\<lparr>dg_deletingId := Some ''d1''\<rparr>" and x = "\<lparr>dr_deleted = True\<rparr>", OF l _ _ _ _ _ _ refl _ _ _ refl]
    by (simp add: sample_device_api_def device_openCreateForm_def ok sample_device_def)
qed

end
