(* ===== verification/PropertyPage.thy ===== *)
theory PropertyPage
  imports PropertyValues DevicePage EventInbox
begin

text \<open>
  The device property page (\<open>pages/Admin/DevicePropertyManagement.tsx\<close>): the selectors, the
  current things model, the latest values, the trend, the three history lists, the realtime
  callbacks, the fallback refresh, and the handlers. The loaders of this page are started and not
  awaited, so each is given as what it starts, what it asks and what its answer does; \<open>silent\<close> and
  \<open>cancelled\<close> are its options. A list with its paging and filter is one record.
\<close>

section \<open>State\<close>

datatype property_tab =
    LatestTab | HistoryTab | SetTab | CallTab | SetHistoryTab | CallHistoryTab | EventHistoryTab

record 'e history =
  hs_entries :: "'e list"
  hs_total :: int
  hs_page :: int
  hs_pageSize :: int
  hs_name :: string
  hs_loading :: bool

definition history_init :: "'e history" where
  "history_init = \<lparr>hs_entries = [], hs_total = 0, hs_page = 1, hs_pageSize = 20, hs_name = [], hs_loading = False\<rparr>"

record trend_range =
  tr_from :: string
  tr_to :: string

text \<open>\<open>tz\<close> is \<open>getTimezoneOffset\<close> in minutes, \<open>to_iso\<close> is \<open>toISOString\<close>, both of a time in milliseconds.\<close>

definition dateTimeLocalValue :: "(int \<Rightarrow> int) \<Rightarrow> (int \<Rightarrow> string) \<Rightarrow> int \<Rightarrow> string" where
  "dateTimeLocalValue tz to_iso ms = take 16 (to_iso (ms - tz ms * 60 * 1000))"

definition defaultTrendRange :: "(int \<Rightarrow> int) \<Rightarrow> (int \<Rightarrow> string) \<Rightarrow> int \<Rightarrow> trend_range" where
  "defaultTrendRange tz to_iso now =
     \<lparr>tr_from = dateTimeLocalValue tz to_iso (now - 6 * 60 * 60 * 1000), tr_to = dateTimeLocalValue tz to_iso now\<rparr>"

record values_page =
  vg_tenants :: "tenant list"
  vg_tenantId :: string
  vg_products :: "product list"
  vg_productFilter :: string
  vg_devices :: "device list"
  vg_deviceId :: string
  vg_tab :: property_tab
  vg_latest :: "latest_properties option"
  vg_loadingLatest :: bool
  vg_trend :: "property_trend option"
  vg_loadingTrend :: bool
  vg_trendProperties :: "string list"
  vg_trendRange :: trend_range
  vg_bucketSeconds :: int
  vg_aggregate :: trend_aggregate
  vg_events :: "event_entry history"
  vg_sets :: "property_set_entry history"
  vg_setDeadline :: int
  vg_calls :: "service_call_entry history"
  vg_callDeadline :: int
  vg_model :: "things_model option"
  vg_loadingServices :: bool
  vg_serviceName :: string
  vg_inputs :: "input_draft list"
  vg_calling :: bool
  vg_callResult :: "service_call_result option"
  vg_setText :: string
  vg_setting :: bool
  vg_setResult :: "property_set_result option"
  vg_ids :: nat

definition values_init :: "trend_range \<Rightarrow> values_page" where
  "values_init rng = \<lparr>vg_tenants = [], vg_tenantId = [], vg_products = [], vg_productFilter = [],
     vg_devices = [], vg_deviceId = [], vg_tab = LatestTab, vg_latest = None, vg_loadingLatest = False,
     vg_trend = None, vg_loadingTrend = False, vg_trendProperties = [], vg_trendRange = rng,
     vg_bucketSeconds = 300, vg_aggregate = Avg, vg_events = history_init, vg_sets = history_init, vg_setDeadline = 90,
     vg_calls = history_init, vg_callDeadline = 90, vg_model = None, vg_loadingServices = False, vg_serviceName = [],
     vg_inputs = [], vg_calling = False, vg_callResult = None, vg_setText = ''{}'', vg_setting = False,
     vg_setResult = None, vg_ids = 0\<rparr>"

definition selectedDevice :: "'w values_page_scheme \<Rightarrow> device option" where
  "selectedDevice s = find (\<lambda>d. dv_id d = vg_deviceId s) (vg_devices s)"

definition selectedProductId :: "'w values_page_scheme \<Rightarrow> string" where
  "selectedProductId s =
     (case selectedDevice s of
        Some d \<Rightarrow> if dv_product_id d \<noteq> [] then dv_product_id d else vg_productFilter s
      | None \<Rightarrow> vg_productFilter s)"

definition canSet :: "'w values_page_scheme \<Rightarrow> bool" where
  "canSet s \<longleftrightarrow> (case selectedDevice s of None \<Rightarrow> False
     | Some d \<Rightarrow> dv_status d = Active \<and> dv_connection_status d = Online) \<and>
     0 < length (writablePropertyEntriesOf (vg_model s)) \<and> \<not> vg_setting s"

definition canCall :: "'w values_page_scheme \<Rightarrow> bool" where
  "canCall s \<longleftrightarrow> (case selectedDevice s of None \<Rightarrow> False
     | Some d \<Rightarrow> dv_status d = Active \<and> dv_connection_status d = Online) \<and>
     vg_serviceName s \<noteq> [] \<and> \<not> vg_calling s"

definition generatedInput :: "'w values_page_scheme \<Rightarrow> js_object" where
  "generatedInput s = (case serviceInputParamsToRecord (vg_inputs s) of Inr ob \<Rightarrow> ob | Inl _ \<Rightarrow> [])"

section \<open>Selectors\<close>

definition values_tenants_asks :: "unit \<Rightarrow> http_request option" where
  "values_tenants_asks p = Some (tenant_list_request 1 50)"

definition values_tenants_settles ::
  "bool \<Rightarrow> unit \<Rightarrow> js_exn + tenant page_result \<Rightarrow> 'w values_page_scheme \<Rightarrow> 'w values_page_scheme \<times> effect list" where
  "values_tenants_settles cancelled p answer s =
     (if cancelled then (s, [])
      else case answer of
             Inr result \<Rightarrow> (s\<lparr>vg_tenants := pr_items result,
                              vg_tenantId := default_tenant (vg_tenantId s) (pr_items result)\<rparr>, [])
           | Inl e \<Rightarrow> (s, [Notice NError ''adminTenantLoadFailed'' (error_description e)]))"

definition values_products_starts :: "string \<Rightarrow> 'w values_page_scheme \<Rightarrow> 'w values_page_scheme" where
  "values_products_starts tenantId s = (if tenantId = [] then s\<lparr>vg_products := [], vg_productFilter := []\<rparr> else s)"

definition values_products_asks :: "string \<Rightarrow> http_request option" where
  "values_products_asks tenantId = (if tenantId = [] then None else Some (product_list_request tenantId 1 100))"

definition values_products_settles ::
  "bool \<Rightarrow> string \<Rightarrow> js_exn + product page_result \<Rightarrow> 'w values_page_scheme \<Rightarrow> 'w values_page_scheme \<times> effect list" where
  "values_products_settles cancelled tenantId answer s =
     (if cancelled then (s, [])
      else case answer of
             Inr result \<Rightarrow> (s\<lparr>vg_products := pr_items result,
                 vg_productFilter := (if known_product (pr_items result) (vg_productFilter s) then vg_productFilter s else [])\<rparr>, [])
           | Inl e \<Rightarrow> (s, [Notice NError ''adminProductLoadFailed'' (error_description e)]))"

text \<open>\<open>loadSelectableDevices\<close>, for tenant and product filter of the render.\<close>

definition selectable_starts :: "string \<times> string \<Rightarrow> 'w values_page_scheme \<Rightarrow> 'w values_page_scheme" where
  "selectable_starts p s = (if fst p = [] then s\<lparr>vg_devices := [], vg_deviceId := []\<rparr> else s)"

definition selectable_asks :: "string \<times> string \<Rightarrow> http_request option" where
  "selectable_asks p = (if fst p = [] then None else Some (device_list_request (fst p) (snd p) 1 100))"

definition default_device :: "string \<Rightarrow> device list \<Rightarrow> string" where
  "default_device cur items =
     (if cur \<noteq> [] \<and> list_ex (\<lambda>d. dv_id d = cur) items then cur
      else case items of [] \<Rightarrow> [] | d # _ \<Rightarrow> dv_id d)"

definition loadSelectableDevices ::
  "bool \<Rightarrow> bool \<Rightarrow> js_exn + device page_result \<Rightarrow> 'w values_page_scheme \<Rightarrow> 'w values_page_scheme \<times> effect list" where
  "loadSelectableDevices silent cancelled answer s =
     (case answer of
        Inr result \<Rightarrow> if cancelled then (s, [])
          else (s\<lparr>vg_devices := pr_items result, vg_deviceId := default_device (vg_deviceId s) (pr_items result)\<rparr>, [])
      | Inl e \<Rightarrow> if cancelled \<or> silent then (s, [])
          else (s, [Notice NError ''adminDeviceLoadFailed'' (error_description e)]))"

section \<open>The current things model\<close>

definition model_reset :: "'w values_page_scheme \<Rightarrow> 'w values_page_scheme" where
  "model_reset s = s\<lparr>vg_model := None, vg_serviceName := [], vg_inputs := [], vg_callResult := None,
     vg_setText := ''{}'', vg_setResult := None\<rparr>"

text \<open>For tenant and selected product of the render.\<close>

definition current_model_starts :: "string \<times> string \<Rightarrow> 'w values_page_scheme \<Rightarrow> 'w values_page_scheme" where
  "current_model_starts p s =
     (if fst p = [] \<or> snd p = [] then model_reset s else s\<lparr>vg_loadingServices := True\<rparr>)"

definition current_model_asks :: "string \<times> string \<Rightarrow> http_request option" where
  "current_model_asks p =
     (if fst p = [] \<or> snd p = [] then None
      else Some (''/api/v1/thingsmodels'', with_params GET (model_list_query
        \<lparr>mlp_tenant_id = fst p, mlp_product_id = Some (snd p), mlp_page = 1, mlp_page_size = 100\<rparr>)))"

definition default_inputs ::
  "(nat \<Rightarrow> string) \<Rightarrow> things_model option \<Rightarrow> string \<Rightarrow> 'w values_page_scheme \<Rightarrow> 'w values_page_scheme" where
  "default_inputs fresh model name s =
     (if name = [] then s\<lparr>vg_inputs := []\<rparr>
      else case defaultServiceInputParams fresh (vg_ids s) (case model of None \<Rightarrow> None | Some m \<Rightarrow> obj_get (tm_services m) name) of
             (params, n) \<Rightarrow> s\<lparr>vg_inputs := params, vg_ids := n\<rparr>)"

definition current_model_settles ::
  "(nat \<Rightarrow> string) \<Rightarrow> bool \<Rightarrow> string \<times> string \<Rightarrow> js_exn + things_model page_result \<Rightarrow> 'w values_page_scheme \<Rightarrow>
     'w values_page_scheme \<times> effect list" where
  "current_model_settles fresh cancelled p answer s =
     (if cancelled then (s, [])
      else case answer of
        Inr result \<Rightarrow>
          (let nextModel = find tm_is_current (pr_items result);
               nextServiceName = (case serviceEntriesOf nextModel of [] \<Rightarrow> [] | (name, _) # _ \<Rightarrow> name);
               s1 = s\<lparr>vg_model := nextModel, vg_setText := defaultPropertySetText nextModel, vg_setResult := None,
                      vg_serviceName := nextServiceName\<rparr>
           in ((default_inputs fresh nextModel nextServiceName s1)\<lparr>vg_callResult := None, vg_loadingServices := False\<rparr>, []))
      | Inl e \<Rightarrow> ((model_reset s)\<lparr>vg_loadingServices := False\<rparr>,
          [Notice NError ''adminThingsModelLoadFailed'' (error_description e)]))"

section \<open>Latest values and trend\<close>

definition latest_request :: "string \<Rightarrow> http_request" where
  "latest_request i = (''/api/v1/devices/'' @ i @ ''/properties/latest'', bare GET)"

definition latest_starts :: "string \<Rightarrow> 'w values_page_scheme \<Rightarrow> 'w values_page_scheme" where
  "latest_starts deviceId s = (if deviceId = [] then s\<lparr>vg_latest := None\<rparr> else s\<lparr>vg_loadingLatest := True\<rparr>)"

definition latest_asks :: "string \<Rightarrow> http_request option" where
  "latest_asks deviceId = (if deviceId = [] then None else Some (latest_request deviceId))"

definition latest_settles ::
  "bool \<Rightarrow> string \<Rightarrow> js_exn + latest_properties \<Rightarrow> 'w values_page_scheme \<Rightarrow> 'w values_page_scheme \<times> effect list" where
  "latest_settles cancelled deviceId answer s =
     (if cancelled then (s, [])
      else case answer of
             Inr result \<Rightarrow> (s\<lparr>vg_latest := Some result, vg_loadingLatest := False\<rparr>, [])
           | Inl e \<Rightarrow> (s\<lparr>vg_loadingLatest := False\<rparr>, [Notice NError ''adminDevicePropertyLatestFailed'' (error_description e)]))"

text \<open>The loader itself, as the refresh uses it: its \<open>finally\<close> does not look at the cancellation.\<close>

definition loadLatestProperties ::
  "bool \<Rightarrow> bool \<Rightarrow> js_exn + latest_properties \<Rightarrow> 'w values_page_scheme \<Rightarrow> 'w values_page_scheme \<times> effect list" where
  "loadLatestProperties silent cancelled answer s =
     (let fin = (\<lambda>t. if silent then t else t\<lparr>vg_loadingLatest := False\<rparr>)
      in case answer of
           Inr result \<Rightarrow> (fin (if cancelled then s else s\<lparr>vg_latest := Some result\<rparr>), [])
         | Inl e \<Rightarrow> (fin s, if cancelled \<or> silent then []
              else [Notice NError ''adminDevicePropertyLatestFailed'' (error_description e)]))"

text \<open>
  The trend of a render: tab, device, selected properties, range, bucket and aggregate. \<open>iso\<close>
  stands for \<open>dateTimeLocalToISOString\<close> with the host's \<open>Date\<close>.
\<close>

record trend_view =
  tq_tab :: property_tab
  tq_deviceId :: string
  tq_properties :: "string list"
  tq_range :: trend_range
  tq_bucketSeconds :: int
  tq_aggregate :: trend_aggregate

definition trend_request :: "(string \<Rightarrow> string) \<Rightarrow> trend_view \<Rightarrow> http_request" where
  "trend_request to_iso q =
     (''/api/v1/devices/'' @ tq_deviceId q @ ''/properties/trend'', with_params GET (trend_query
       \<lparr>trp_properties = join '','' (tq_properties q), trp_from = to_iso (tr_from (tq_range q)),
        trp_to = to_iso (tr_to (tq_range q)), trp_bucket_seconds = tq_bucketSeconds q,
        trp_agg = aggregate_text (tq_aggregate q)\<rparr>))"

definition trend_range_ok :: "(string \<Rightarrow> string) \<Rightarrow> trend_view \<Rightarrow> bool" where
  "trend_range_ok to_iso q \<longleftrightarrow> to_iso (tr_from (tq_range q)) \<noteq> [] \<and> to_iso (tr_to (tq_range q)) \<noteq> []"

definition trend_starts :: "(string \<Rightarrow> string) \<Rightarrow> trend_view \<Rightarrow> 'w values_page_scheme \<Rightarrow> 'w values_page_scheme" where
  "trend_starts to_iso q s =
     (if tq_tab q \<noteq> HistoryTab then s
      else if tq_deviceId q = [] \<or> length (tq_properties q) = 0 then s\<lparr>vg_trend := None\<rparr>
      else if \<not> trend_range_ok to_iso q then s\<lparr>vg_trend := None, vg_loadingTrend := False\<rparr>
      else s\<lparr>vg_loadingTrend := True\<rparr>)"

definition trend_asks :: "(string \<Rightarrow> string) \<Rightarrow> trend_view \<Rightarrow> http_request option" where
  "trend_asks to_iso q =
     (if tq_tab q \<noteq> HistoryTab \<or> tq_deviceId q = [] \<or> length (tq_properties q) = 0 \<or> \<not> trend_range_ok to_iso q
      then None else Some (trend_request to_iso q))"

definition trend_settles ::
  "bool \<Rightarrow> trend_view \<Rightarrow> js_exn + property_trend \<Rightarrow> 'w values_page_scheme \<Rightarrow> 'w values_page_scheme \<times> effect list" where
  "trend_settles cancelled q answer s =
     (if cancelled then (s, [])
      else case answer of
             Inr result \<Rightarrow> (s\<lparr>vg_trend := Some result, vg_loadingTrend := False\<rparr>, [])
           | Inl e \<Rightarrow> (s\<lparr>vg_loadingTrend := False\<rparr>, [Notice NError ''adminDevicePropertyTrendFailed'' (error_description e)]))"

definition loadPropertyTrend ::
  "bool \<Rightarrow> bool \<Rightarrow> js_exn + property_trend \<Rightarrow> 'w values_page_scheme \<Rightarrow> 'w values_page_scheme \<times> effect list" where
  "loadPropertyTrend silent cancelled answer s =
     (let fin = (\<lambda>t. if silent then t else t\<lparr>vg_loadingTrend := False\<rparr>)
      in case answer of
           Inr result \<Rightarrow> (fin (if cancelled then s else s\<lparr>vg_trend := Some result\<rparr>), [])
         | Inl e \<Rightarrow> (fin s, if cancelled \<or> silent then []
              else [Notice NError ''adminDevicePropertyTrendFailed'' (error_description e)]))"

text \<open>The effect that follows the options of the trend.\<close>

definition refreshTrendProperties :: "trend_option list \<Rightarrow> string list \<Rightarrow> string list" where
  "refreshTrendProperties options chosen =
     (let kept = filter (\<lambda>property. property \<in> set (map to_key options)) chosen
      in if kept = chosen then chosen
         else if 0 < length kept then kept
         else map to_key (take 2 options))"

definition handleTrendPropertyToggle :: "string \<Rightarrow> string list \<Rightarrow> string list" where
  "handleTrendPropertyToggle property chosen =
     (if property \<in> set chosen then filter (\<lambda>item. item \<noteq> property) chosen
      else if 8 \<le> length chosen then chosen
      else chosen @ [property])"

section \<open>The history lists\<close>

definition history_loaded :: "'e page_result \<Rightarrow> 'e history \<Rightarrow> 'e history" where
  "history_loaded result h = h\<lparr>hs_entries := pr_items result, hs_total := pr_total result,
     hs_page := pr_page result, hs_pageSize := pr_page_size result\<rparr>"

definition history_cleared :: "'e history \<Rightarrow> 'e history" where
  "history_cleared h = h\<lparr>hs_entries := [], hs_total := 0\<rparr>"

text \<open>The device was changed: empty, on the first page.\<close>

definition history_reset :: "'e history \<Rightarrow> 'e history" where
  "history_reset h = h\<lparr>hs_entries := [], hs_total := 0, hs_page := 1\<rparr>"

definition history_starts :: "bool \<Rightarrow> string \<Rightarrow> 'e history \<Rightarrow> 'e history" where
  "history_starts shown deviceId h =
     (if \<not> shown then h else if deviceId = [] then history_cleared h else h\<lparr>hs_loading := True\<rparr>)"

definition history_settles :: "string \<Rightarrow> bool \<Rightarrow> js_exn + 'e page_result \<Rightarrow> 'e history \<Rightarrow> 'e history \<times> effect list" where
  "history_settles key cancelled answer h =
     (if cancelled then (h, [])
      else case answer of
             Inr result \<Rightarrow> ((history_loaded result h)\<lparr>hs_loading := False\<rparr>, [])
           | Inl e \<Rightarrow> (h\<lparr>hs_loading := False\<rparr>, [Notice NError key (error_description e)]))"

definition loadHistory :: "string \<Rightarrow> bool \<Rightarrow> bool \<Rightarrow> js_exn + 'e page_result \<Rightarrow> 'e history \<Rightarrow> 'e history \<times> effect list" where
  "loadHistory key silent cancelled answer h =
     (let fin = (\<lambda>t. if silent then t else t\<lparr>hs_loading := False\<rparr>)
      in case answer of
           Inr result \<Rightarrow> (fin (if cancelled then h else history_loaded result h), [])
         | Inl e \<Rightarrow> (fin h, if cancelled \<or> silent then [] else [Notice NError key (error_description e)]))"

definition event_history_request :: "string \<Rightarrow> string \<Rightarrow> int \<Rightarrow> int \<Rightarrow> http_request" where
  "event_history_request deviceId name page psz =
     (''/api/v1/devices/'' @ deviceId @ ''/events'', with_params GET (event_history_query
       \<lparr>ehp_event_name = or_undefined (trim name), ehp_page = page, ehp_page_size = psz\<rparr>))"

definition set_history_request :: "string \<Rightarrow> string \<Rightarrow> int \<Rightarrow> int \<Rightarrow> int \<Rightarrow> http_request" where
  "set_history_request deviceId name deadline page psz =
     (''/api/v1/devices/'' @ deviceId @ ''/property/set/history'', with_params GET (set_history_query
       \<lparr>sth_property_name = or_undefined (trim name), sth_ack_deadline_seconds = deadline, sth_page = page, sth_page_size = psz\<rparr>))"

definition call_history_request :: "string \<Rightarrow> string \<Rightarrow> int \<Rightarrow> int \<Rightarrow> int \<Rightarrow> http_request" where
  "call_history_request deviceId name deadline page psz =
     (''/api/v1/devices/'' @ deviceId @ ''/services/history'', with_params GET (service_history_query
       \<lparr>shp_service_name = or_undefined (trim name), shp_ack_deadline_seconds = deadline, shp_page = page, shp_page_size = psz\<rparr>))"


text \<open>The view of a list that its effect and its loader read: whether its tab is shown, and its inputs.\<close>

record history_view =
  hv_shown :: bool
  hv_deviceId :: string
  hv_name :: string
  hv_deadline :: int
  hv_page :: int
  hv_pageSize :: int

definition event_view :: "'w values_page_scheme \<Rightarrow> history_view" where
  "event_view v = \<lparr>hv_shown = (vg_tab v = EventHistoryTab), hv_deviceId = vg_deviceId v, hv_name = hs_name (vg_events v),
     hv_deadline = 0, hv_page = hs_page (vg_events v), hv_pageSize = hs_pageSize (vg_events v)\<rparr>"

definition set_view :: "'w values_page_scheme \<Rightarrow> history_view" where
  "set_view v = \<lparr>hv_shown = (vg_tab v = SetHistoryTab), hv_deviceId = vg_deviceId v, hv_name = hs_name (vg_sets v),
     hv_deadline = vg_setDeadline v, hv_page = hs_page (vg_sets v), hv_pageSize = hs_pageSize (vg_sets v)\<rparr>"

definition call_view :: "'w values_page_scheme \<Rightarrow> history_view" where
  "call_view v = \<lparr>hv_shown = (vg_tab v = CallHistoryTab), hv_deviceId = vg_deviceId v, hv_name = hs_name (vg_calls v),
     hv_deadline = vg_callDeadline v, hv_page = hs_page (vg_calls v), hv_pageSize = hs_pageSize (vg_calls v)\<rparr>"

definition history_asks :: "(history_view \<Rightarrow> http_request) \<Rightarrow> history_view \<Rightarrow> http_request option" where
  "history_asks req q = (if \<not> hv_shown q \<or> hv_deviceId q = [] then None else Some (req q))"

definition event_request_of :: "history_view \<Rightarrow> http_request" where
  "event_request_of q = event_history_request (hv_deviceId q) (hv_name q) (hv_page q) (hv_pageSize q)"

definition set_request_of :: "history_view \<Rightarrow> http_request" where
  "set_request_of q = set_history_request (hv_deviceId q) (hv_name q) (hv_deadline q) (hv_page q) (hv_pageSize q)"

definition call_request_of :: "history_view \<Rightarrow> http_request" where
  "call_request_of q = call_history_request (hv_deviceId q) (hv_name q) (hv_deadline q) (hv_page q) (hv_pageSize q)"

text \<open>The three effects, on the page.\<close>

definition events_starts :: "history_view \<Rightarrow> 'w values_page_scheme \<Rightarrow> 'w values_page_scheme" where
  "events_starts q s = s\<lparr>vg_events := history_starts (hv_shown q) (hv_deviceId q) (vg_events s)\<rparr>"

definition sets_starts :: "history_view \<Rightarrow> 'w values_page_scheme \<Rightarrow> 'w values_page_scheme" where
  "sets_starts q s = s\<lparr>vg_sets := history_starts (hv_shown q) (hv_deviceId q) (vg_sets s)\<rparr>"

definition calls_starts :: "history_view \<Rightarrow> 'w values_page_scheme \<Rightarrow> 'w values_page_scheme" where
  "calls_starts q s = s\<lparr>vg_calls := history_starts (hv_shown q) (hv_deviceId q) (vg_calls s)\<rparr>"

definition events_settles ::
  "bool \<Rightarrow> history_view \<Rightarrow> js_exn + event_entry page_result \<Rightarrow> 'w values_page_scheme \<Rightarrow> 'w values_page_scheme \<times> effect list" where
  "events_settles cancelled q answer s =
     (case history_settles ''adminDeviceEventHistoryFailed'' cancelled answer (vg_events s) of
        (h, es) \<Rightarrow> (s\<lparr>vg_events := h\<rparr>, es))"

definition sets_settles ::
  "bool \<Rightarrow> history_view \<Rightarrow> js_exn + property_set_entry page_result \<Rightarrow> 'w values_page_scheme \<Rightarrow> 'w values_page_scheme \<times> effect list" where
  "sets_settles cancelled q answer s =
     (case history_settles ''adminDevicePropertySetHistoryFailed'' cancelled answer (vg_sets s) of
        (h, es) \<Rightarrow> (s\<lparr>vg_sets := h\<rparr>, es))"

definition calls_settles ::
  "bool \<Rightarrow> history_view \<Rightarrow> js_exn + service_call_entry page_result \<Rightarrow> 'w values_page_scheme \<Rightarrow> 'w values_page_scheme \<times> effect list" where
  "calls_settles cancelled q answer s =
     (case history_settles ''adminDeviceServiceHistoryFailed'' cancelled answer (vg_calls s) of
        (h, es) \<Rightarrow> (s\<lparr>vg_calls := h\<rparr>, es))"

text \<open>The loaders, whose answers are those of a silent or a shown load.\<close>

definition loadEventHistory ::
  "bool \<Rightarrow> bool \<Rightarrow> js_exn + event_entry page_result \<Rightarrow> 'w values_page_scheme \<Rightarrow> 'w values_page_scheme \<times> effect list" where
  "loadEventHistory silent cancelled answer s =
     (case loadHistory ''adminDeviceEventHistoryFailed'' silent cancelled answer (vg_events s) of
        (h, es) \<Rightarrow> (s\<lparr>vg_events := h\<rparr>, es))"

definition loadPropertySetHistory ::
  "bool \<Rightarrow> bool \<Rightarrow> js_exn + property_set_entry page_result \<Rightarrow> 'w values_page_scheme \<Rightarrow> 'w values_page_scheme \<times> effect list" where
  "loadPropertySetHistory silent cancelled answer s =
     (case loadHistory ''adminDevicePropertySetHistoryFailed'' silent cancelled answer (vg_sets s) of
        (h, es) \<Rightarrow> (s\<lparr>vg_sets := h\<rparr>, es))"

definition loadServiceHistory ::
  "bool \<Rightarrow> bool \<Rightarrow> js_exn + service_call_entry page_result \<Rightarrow> 'w values_page_scheme \<Rightarrow> 'w values_page_scheme \<times> effect list" where
  "loadServiceHistory silent cancelled answer s =
     (case loadHistory ''adminDeviceServiceHistoryFailed'' silent cancelled answer (vg_calls s) of
        (h, es) \<Rightarrow> (s\<lparr>vg_calls := h\<rparr>, es))"

section \<open>Live events\<close>

record event_payload =
  ep_tenant_id :: string
  ep_product_id :: string
  ep_device_id :: string
  ep_tenant_slug :: string
  ep_product_key :: string
  ep_device_slug :: string
  ep_event_name :: string
  ep_params :: js_object

text \<open>\<open>xs.slice(0, n)\<close>\<close>

definition slice_to :: "int \<Rightarrow> 'a list \<Rightarrow> 'a list" where
  "slice_to n xs = (if 0 \<le> n then take (nat n) xs else take (nat (int (length xs) + n)) xs)"

definition entry_of_inbox :: "event_payload inbox_item \<Rightarrow> event_entry" where
  "entry_of_inbox item =
     \<lparr>ee_event_id = ib_event_id item, ee_tenant_id = ep_tenant_id (ib_payload item),
      ee_product_id = ep_product_id (ib_payload item), ee_product_key = ep_product_key (ib_payload item),
      ee_device_slug = ep_device_slug (ib_payload item), ee_event_name = ep_event_name (ib_payload item),
      ee_params = ep_params (ib_payload item), ee_occurred_at = ib_occurred_at item,
      ee_received_at = ib_received_at item\<rparr>"

definition live_event_shown :: "'w values_page_scheme \<Rightarrow> event_payload inbox_item \<Rightarrow> bool" where
  "live_event_shown v item \<longleftrightarrow>
     vg_tab v = EventHistoryTab \<and> hs_page (vg_events v) = 1 \<and> ep_device_id (ib_payload item) = vg_deviceId v \<and>
     (trim (hs_name (vg_events v)) = [] \<or> ep_event_name (ib_payload item) = trim (hs_name (vg_events v)))"

definition insert_live_event :: "int \<Rightarrow> event_payload inbox_item \<Rightarrow> event_entry list \<Rightarrow> event_entry list" where
  "insert_live_event psz item entries =
     (if list_ex (\<lambda>entry. ee_event_id entry = ib_event_id item) entries then entries
      else slice_to psz (entry_of_inbox item # entries))"

text \<open>\<open>v\<close> is the page of the render, \<open>s\<close> the page now.\<close>

definition live_event_effect ::
  "'v values_page_scheme \<Rightarrow> event_payload inbox_item option \<Rightarrow> 'w values_page_scheme \<Rightarrow> 'w values_page_scheme" where
  "live_event_effect v latestInboxEvent s =
     (case latestInboxEvent of
        None \<Rightarrow> s
      | Some item \<Rightarrow> if \<not> live_event_shown v item then s
          else s\<lparr>vg_events := (vg_events s)\<lparr>
            hs_entries := insert_live_event (hs_pageSize (vg_events v)) item (hs_entries (vg_events s)),
            hs_total := hs_total (vg_events s) + 1\<rparr>\<rparr>)"

section \<open>Realtime and refresh\<close>

definition values_onConnectionChanged ::
  "string \<Rightarrow> connection_payload \<Rightarrow> realtime_meta \<Rightarrow> 'w values_page_scheme \<Rightarrow> 'w values_page_scheme" where
  "values_onConnectionChanged tenantId payload meta s =
     (if rm_tenantId meta \<noteq> tenantId then s
      else s\<lparr>vg_devices := update_where (\<lambda>d. dv_id d = cp_device_id payload)
        (\<lambda>d. d\<lparr>dv_connection_status := cp_status payload, dv_last_seen_at := Some (rm_occurredAt meta),
               dv_updated_at := rm_occurredAt meta\<rparr>) (vg_devices s)\<rparr>)"

definition latest_of_payload :: "property_payload \<Rightarrow> realtime_meta \<Rightarrow> latest_properties" where
  "latest_of_payload payload meta =
     \<lparr>lp_id = pp_device_id payload, lp_tenant_id = pp_tenant_id payload, lp_product_id = pp_product_id payload,
      lp_product_key = pp_product_key payload, lp_device_slug = pp_device_slug payload, lp_reported = True,
      lp_properties = pp_properties payload, lp_occurred_at = Some (rm_occurredAt meta),
      lp_received_at = Some (rm_occurredAt meta)\<rparr>"

text \<open>The page after the callback, and the request it starts.\<close>

definition values_onPropertyChanged ::
  "string \<Rightarrow> string \<Rightarrow> property_payload \<Rightarrow> realtime_meta \<Rightarrow> 'w values_page_scheme \<Rightarrow>
     'w values_page_scheme \<times> effect list" where
  "values_onPropertyChanged tenantId deviceId payload meta s =
     (if rm_tenantId meta \<noteq> tenantId \<or> pp_device_id payload \<noteq> deviceId then (s, [])
      else (s\<lparr>vg_latest := Some (latest_of_payload payload meta)\<rparr>, [Sent (latest_request (pp_device_id payload))]))"

definition values_changed_answer ::
  "js_exn + latest_properties \<Rightarrow> 'w values_page_scheme \<Rightarrow> 'w values_page_scheme \<times> effect list" where
  "values_changed_answer answer s =
     (case answer of
        Inr result \<Rightarrow> (s\<lparr>vg_latest := Some result\<rparr>, [])
      | Inl e \<Rightarrow> (s, [Notice NError ''adminDevicePropertyLatestFailed'' (error_description e)]))"

definition values_polls :: "string \<Rightarrow> realtime_status \<Rightarrow> bool" where
  "values_polls tenantId status \<longleftrightarrow> tenantId \<noteq> [] \<and> isRealtimeFallbackStatus status"

datatype values_load = DevicesLoad | LatestLoad | TrendLoad | EventsLoad | SetsLoad | CallsLoad

definition refresh_loads :: "'w values_page_scheme \<Rightarrow> values_load list" where
  "refresh_loads v =
     DevicesLoad #
     (if vg_deviceId v = [] then []
      else LatestLoad #
        (if vg_tab v = HistoryTab then [TrendLoad] else []) @
        (if vg_tab v = EventHistoryTab then [EventsLoad] else []) @
        (if vg_tab v = SetHistoryTab then [SetsLoad] else []) @
        (if vg_tab v = CallHistoryTab then [CallsLoad] else []))"

definition trend_view_of :: "'w values_page_scheme \<Rightarrow> trend_view" where
  "trend_view_of v = \<lparr>tq_tab = vg_tab v, tq_deviceId = vg_deviceId v, tq_properties = vg_trendProperties v,
     tq_range = vg_trendRange v, tq_bucketSeconds = vg_bucketSeconds v, tq_aggregate = vg_aggregate v\<rparr>"

text \<open>What a load does at once: the trend without a device, a property or a range is cleared.\<close>

definition loadPropertyTrend_asks :: "(string \<Rightarrow> string) \<Rightarrow> trend_view \<Rightarrow> http_request option" where
  "loadPropertyTrend_asks to_iso q =
     (if tq_deviceId q = [] \<or> length (tq_properties q) = 0 \<or> \<not> trend_range_ok to_iso q then None
      else Some (trend_request to_iso q))"

definition loadPropertyTrend_starts ::
  "(string \<Rightarrow> string) \<Rightarrow> bool \<Rightarrow> trend_view \<Rightarrow> 'w values_page_scheme \<Rightarrow> 'w values_page_scheme" where
  "loadPropertyTrend_starts to_iso silent q s =
     (if loadPropertyTrend_asks to_iso q = None then s\<lparr>vg_trend := None\<rparr>
      else if silent then s else s\<lparr>vg_loadingTrend := True\<rparr>)"

text \<open>One silent load of the refresh, for the page \<open>v\<close> of the effect: what it changes and asks at once.\<close>

fun load_starts ::
  "(string \<Rightarrow> string) \<Rightarrow> 'v values_page_scheme \<Rightarrow> values_load \<Rightarrow> 'w values_page_scheme \<Rightarrow> 'w values_page_scheme \<times> effect list" where
  "load_starts to_iso v DevicesLoad s =
     (s, [Sent (device_list_request (vg_tenantId v) (vg_productFilter v) 1 100)])"
| "load_starts to_iso v LatestLoad s = (s, [Sent (latest_request (vg_deviceId v))])"
| "load_starts to_iso v TrendLoad s =
     (loadPropertyTrend_starts to_iso True (trend_view_of v) s,
      case loadPropertyTrend_asks to_iso (trend_view_of v) of None \<Rightarrow> [] | Some r \<Rightarrow> [Sent r])"
| "load_starts to_iso v EventsLoad s = (s, [Sent (event_request_of (event_view v))])"
| "load_starts to_iso v SetsLoad s = (s, [Sent (set_request_of (set_view v))])"
| "load_starts to_iso v CallsLoad s = (s, [Sent (call_request_of (call_view v))])"

definition values_refresh ::
  "(string \<Rightarrow> string) \<Rightarrow> 'v values_page_scheme \<Rightarrow> 'w values_page_scheme \<Rightarrow> 'w values_page_scheme \<times> effect list" where
  "values_refresh to_iso v s =
     foldl (\<lambda>(t, es) l. case load_starts to_iso v l t of (t', es') \<Rightarrow> (t', es @ es')) (s, []) (refresh_loads v)"


text \<open>The reload buttons: the loaders of the shown page, neither silent nor cancelled.\<close>

definition history_reload ::
  "(history_view \<Rightarrow> http_request) \<Rightarrow> history_view \<Rightarrow> 'e history \<Rightarrow> 'e history \<times> effect list" where
  "history_reload req q h =
     (if hv_deviceId q = [] then (history_cleared h, []) else (h\<lparr>hs_loading := True\<rparr>, [Sent (req q)]))"

definition latest_reload :: "string \<Rightarrow> 'w values_page_scheme \<Rightarrow> 'w values_page_scheme \<times> effect list" where
  "latest_reload deviceId s =
     (if deviceId = [] then (s\<lparr>vg_latest := None\<rparr>, [])
      else (s\<lparr>vg_loadingLatest := True\<rparr>, [Sent (latest_request deviceId)]))"

definition latest_reload_disabled :: "'w values_page_scheme \<Rightarrow> bool" where
  "latest_reload_disabled s \<longleftrightarrow> vg_deviceId s = [] \<or> vg_loadingLatest s"

section \<open>Handlers\<close>

text \<open>What every change of the selection forgets.\<close>

definition forget_device :: "'w values_page_scheme \<Rightarrow> 'w values_page_scheme" where
  "forget_device s = s\<lparr>vg_latest := None, vg_trend := None, vg_trendProperties := [],
     vg_events := history_reset (vg_events s), vg_sets := history_reset (vg_sets s),
     vg_calls := history_reset (vg_calls s), vg_callResult := None, vg_setResult := None\<rparr>"

definition values_handleTenantChange :: "string \<Rightarrow> 'w values_page_scheme \<Rightarrow> 'w values_page_scheme" where
  "values_handleTenantChange nextTenantId s =
     forget_device (s\<lparr>vg_tenantId := nextTenantId, vg_productFilter := [], vg_deviceId := []\<rparr>)"

definition values_handleProductFilterChange :: "string \<Rightarrow> 'w values_page_scheme \<Rightarrow> 'w values_page_scheme" where
  "values_handleProductFilterChange nextProductId s =
     forget_device (s\<lparr>vg_productFilter := nextProductId, vg_deviceId := []\<rparr>)"

definition handleDeviceChange :: "string \<Rightarrow> 'w values_page_scheme \<Rightarrow> 'w values_page_scheme" where
  "handleDeviceChange nextDeviceId s = forget_device (s\<lparr>vg_deviceId := nextDeviceId\<rparr>)"

text \<open>The controls of a list: a new filter, page size or deadline goes back to the first page.\<close>

definition history_name_changed :: "string \<Rightarrow> 'e history \<Rightarrow> 'e history" where
  "history_name_changed name h = h\<lparr>hs_name := name, hs_page := 1\<rparr>"

definition history_size_changed :: "int \<Rightarrow> 'e history \<Rightarrow> 'e history" where
  "history_size_changed psz h = h\<lparr>hs_pageSize := psz, hs_page := 1\<rparr>"

definition history_page_changed :: "int \<Rightarrow> 'e history \<Rightarrow> 'e history" where
  "history_page_changed page h = h\<lparr>hs_page := page\<rparr>"

definition handleSetDeadlineChange :: "int \<Rightarrow> 'w values_page_scheme \<Rightarrow> 'w values_page_scheme" where
  "handleSetDeadlineChange secs s = s\<lparr>vg_setDeadline := secs, vg_sets := (vg_sets s)\<lparr>hs_page := 1\<rparr>\<rparr>"

definition handleCallDeadlineChange :: "int \<Rightarrow> 'w values_page_scheme \<Rightarrow> 'w values_page_scheme" where
  "handleCallDeadlineChange secs s = s\<lparr>vg_callDeadline := secs, vg_calls := (vg_calls s)\<lparr>hs_page := 1\<rparr>\<rparr>"

definition handleTrendFromChange :: "string \<Rightarrow> 'w values_page_scheme \<Rightarrow> 'w values_page_scheme" where
  "handleTrendFromChange nextFrom s = s\<lparr>vg_trendRange := (vg_trendRange s)\<lparr>tr_from := nextFrom\<rparr>\<rparr>"

definition handleTrendToChange :: "string \<Rightarrow> 'w values_page_scheme \<Rightarrow> 'w values_page_scheme" where
  "handleTrendToChange nextTo s = s\<lparr>vg_trendRange := (vg_trendRange s)\<lparr>tr_to := nextTo\<rparr>\<rparr>"

text \<open>\<open>cl\<close> is the page of the render the handler belongs to.\<close>

definition handleServiceNameChange ::
  "(nat \<Rightarrow> string) \<Rightarrow> 'v values_page_scheme \<Rightarrow> string \<Rightarrow> 'w values_page_scheme \<Rightarrow> 'w values_page_scheme" where
  "handleServiceNameChange fresh cl nextServiceName s =
     (default_inputs fresh (vg_model cl) nextServiceName (s\<lparr>vg_serviceName := nextServiceName\<rparr>))\<lparr>vg_callResult := None\<rparr>"

definition handleAddServiceInputParam ::
  "(nat \<Rightarrow> string) \<Rightarrow> string \<Rightarrow> js option \<Rightarrow> 'w values_page_scheme \<Rightarrow> 'w values_page_scheme" where
  "handleAddServiceInputParam fresh name d s =
     s\<lparr>vg_inputs := vg_inputs s @ [\<lparr>id_id = fresh (vg_ids s), id_name = name,
          id_value = defaultServiceInputValue (serviceInputValueType d), id_valueType = serviceInputValueType d\<rparr>],
       vg_ids := Suc (vg_ids s)\<rparr>"

definition handleServiceInputParamChange ::
  "string \<Rightarrow> (input_draft \<Rightarrow> input_draft) \<Rightarrow> 'w values_page_scheme \<Rightarrow> 'w values_page_scheme" where
  "handleServiceInputParamChange i patch s =
     s\<lparr>vg_inputs := update_where (\<lambda>param. id_id param = i) patch (vg_inputs s)\<rparr>"

definition handleRemoveServiceInputParam :: "string \<Rightarrow> 'w values_page_scheme \<Rightarrow> 'w values_page_scheme" where
  "handleRemoveServiceInputParam i s = s\<lparr>vg_inputs := filter (\<lambda>param. id_id param \<noteq> i) (vg_inputs s)\<rparr>"

definition handleUseWritableProperty ::
  "'v values_page_scheme \<Rightarrow> string \<Rightarrow> 'w values_page_scheme \<Rightarrow> 'w values_page_scheme" where
  "handleUseWritableProperty cl propertyName s =
     s\<lparr>vg_setText := json_pretty (JObj [(propertyName, defaultPropertyValue
          (case vg_model cl of None \<Rightarrow> None | Some m \<Rightarrow> obj_get (tm_properties m) propertyName))]),
       vg_setResult := None\<rparr>"

record 's values_api =
  va_set :: "('s, property_set_result) request"
  va_call :: "('s, service_call_result) request"

text \<open>The payload of \<open>handleSetProperties\<close>: the object in the text, or what the \<open>try\<close> throws.\<close>

definition set_payload :: "string \<Rightarrow> js_exn + js_object" where
  "set_payload propertySetText =
     (case json_parse (if trim propertySetText \<noteq> [] then trim propertySetText else ''{}'') of
        None \<Rightarrow> Inl SyntaxError
      | Some (JObj ob) \<Rightarrow> Inr ob
      | Some _ \<Rightarrow> Inl (PlainError ''adminDevicePropertySetPayloadMustObject''))"

definition handleSetProperties ::
  "'w values_page_scheme values_api \<Rightarrow> 'w values_page_scheme \<Rightarrow> ('w values_page_scheme, unit) act" where
  "handleSetProperties api cl =
     (if vg_deviceId cl = [] then ret ()
      else case set_payload (vg_setText cl) of
        Inl e \<Rightarrow> failure ''adminDevicePropertySetInvalidPayload'' e
      | Inr properties \<Rightarrow> steps [update (\<lambda>s. s\<lparr>vg_setting := True\<rparr>),
          finally_set
            (try_catch
              (bind (setDeviceProperties (va_set api) (vg_deviceId cl) properties) (\<lambda>result.
                 steps [update (\<lambda>s. s\<lparr>vg_setResult := Some result\<rparr>),
                   emit (Notice NSuccess ''adminDevicePropertySetSuccess'' (Description (psr_command_id result))),
                   emit (Sent (set_request_of ((set_view cl)\<lparr>hv_page := 1\<rparr>)))]))
              (\<lambda>e. failure ''adminDevicePropertySetFailed'' e))
            (\<lambda>s. s\<lparr>vg_setting := False\<rparr>)])"

definition handleCallService ::
  "'w values_page_scheme values_api \<Rightarrow> 'w values_page_scheme \<Rightarrow> ('w values_page_scheme, unit) act" where
  "handleCallService api cl =
     (if vg_deviceId cl = [] \<or> vg_serviceName cl = [] then ret ()
      else case serviceInputParamsToRecord (vg_inputs cl) of
        Inl e \<Rightarrow> failure ''adminDeviceServiceInvalidInput'' e
      | Inr input \<Rightarrow> steps [update (\<lambda>s. s\<lparr>vg_calling := True\<rparr>),
          finally_set
            (try_catch
              (bind (callDeviceService (va_call api) (vg_deviceId cl) (vg_serviceName cl) input) (\<lambda>result.
                 steps [update (\<lambda>s. s\<lparr>vg_callResult := Some result\<rparr>),
                   emit (Notice NSuccess ''adminDeviceServiceCallSuccess'' (Description (scr_command_id result))),
                   only_if (vg_tab cl = CallTab) (emit (Sent (call_request_of ((call_view cl)\<lparr>hv_page := 1\<rparr>))))]))
              (\<lambda>e. failure ''adminDeviceServiceCallFailed'' e))
            (\<lambda>s. s\<lparr>vg_calling := False\<rparr>)])"

section \<open>Late answers\<close>

interpretation values_tenants_fx: fetch_effect no_start values_tenants_asks values_tenants_settles
  by unfold_locales (simp add: values_tenants_settles_def)

interpretation values_products_fx: fetch_effect values_products_starts values_products_asks values_products_settles
  by unfold_locales (simp add: values_products_settles_def)

interpretation values_model_fx: fetch_effect current_model_starts current_model_asks "current_model_settles fresh" for fresh
  by unfold_locales (simp add: current_model_settles_def)

interpretation values_latest_fx: fetch_effect latest_starts latest_asks latest_settles
  by unfold_locales (simp add: latest_settles_def)

interpretation values_trend_fx: fetch_effect "trend_starts to_iso" "trend_asks to_iso" trend_settles for to_iso
  by unfold_locales (simp add: trend_settles_def)

interpretation values_events_fx: fetch_effect events_starts "history_asks event_request_of" events_settles
  by unfold_locales (simp add: events_settles_def history_settles_def)

interpretation values_sets_fx: fetch_effect sets_starts "history_asks set_request_of" sets_settles
  by unfold_locales (simp add: sets_settles_def history_settles_def)

interpretation values_calls_fx: fetch_effect calls_starts "history_asks call_request_of" calls_settles
  by unfold_locales (simp add: calls_settles_def history_settles_def)

text \<open>The device list, whose loader looks at its cancellation itself.\<close>

interpretation values_devices_fx: fetch_effect selectable_starts selectable_asks
    "\<lambda>cancelled (p :: string \<times> string). loadSelectableDevices False cancelled"
  by unfold_locales (simp add: loadSelectableDevices_def split: sum.split)

section \<open>What is not guarded\<close>

text \<open>An empty selection is kept: the first two options are only chosen for one that is lost.\<close>

lemma refreshTrend_empty: "refreshTrendProperties options [] = []"
  by (simp add: refreshTrendProperties_def)

text \<open>The answer to the request of a property event is stored whatever device is selected by then.\<close>

lemma late_change_stored:
  "vg_latest (fst (values_changed_answer (Inr l) (handleDeviceChange d s))) = Some l \<and>
   vg_deviceId (fst (values_changed_answer (Inr l) (handleDeviceChange d s))) = d"
  by (simp add: values_changed_answer_def handleDeviceChange_def forget_device_def)

text \<open>A run for no device does not end the loading that a cancelled run has started.\<close>

lemma loading_left_set:
  assumes "d \<noteq> []"
  shows "vg_loadingLatest (latest_starts [] (fst (latest_settles True d answer (latest_starts d s))))"
  using assms by (simp add: latest_starts_def latest_settles_def)

end
