(* ===== verification/PropertyInvariant.thy ===== *)
theory PropertyInvariant
  imports PropertyPage
begin

text \<open>
  The device property page as a transition system: every effect, answer, realtime callback and
  handler is a step, answers come in any order, cancelled or not, and event handlers run against
  the latest render. The invariant: the selected device is one of the list, the trend shows at
  most eight different properties, the chosen service is one of the current model, and the rows
  of the service form have distinct ids.
\<close>

section \<open>Steps\<close>

text \<open>What the server sends as an object came out of a JSON text or an object literal.\<close>

definition model_objects_ok :: "things_model \<Rightarrow> bool" where
  "model_objects_ok m \<longleftrightarrow> obj_ok (tm_properties m) \<and> obj_ok (tm_services m)"

inductive values_step :: "(nat \<Rightarrow> string) \<Rightarrow> (string \<Rightarrow> string) \<Rightarrow> values_page \<Rightarrow> values_page \<Rightarrow> bool"
  for fresh to_iso where
  tenants_answer: "values_step fresh to_iso s (fst (values_tenants_settles c () tenants s))"
| products_run: "values_step fresh to_iso s (values_products_starts tenantId s)"
| products_answer: "values_step fresh to_iso s (fst (values_products_settles c tenantId products s))"
| devices_run: "values_step fresh to_iso s (selectable_starts p s)"
| devices_answer: "values_step fresh to_iso s (fst (loadSelectableDevices silent c devices s))"
| model_run: "values_step fresh to_iso s (current_model_starts p s)"
| model_answer: "(\<And>r m. models = Inr r \<Longrightarrow> m \<in> set (pr_items r) \<Longrightarrow> model_objects_ok m) \<Longrightarrow>
    values_step fresh to_iso s (fst (current_model_settles fresh c p models s))"
| latest_run: "values_step fresh to_iso s (latest_starts deviceId s)"
| latest_answer: "(\<And>l. latest = Inr l \<Longrightarrow> obj_ok (lp_properties l)) \<Longrightarrow>
    values_step fresh to_iso s (fst (latest_settles c deviceId latest s))"
| latest_loaded: "(\<And>l. latest = Inr l \<Longrightarrow> obj_ok (lp_properties l)) \<Longrightarrow>
    values_step fresh to_iso s (fst (loadLatestProperties silent c latest s))"
| changed_answer: "(\<And>l. latest = Inr l \<Longrightarrow> obj_ok (lp_properties l)) \<Longrightarrow>
    values_step fresh to_iso s (fst (values_changed_answer latest s))"
| trend_properties: "values_step fresh to_iso s (s\<lparr>vg_trendProperties :=
    refreshTrendProperties (trendPropertyOptionsOf (vg_model s) (vg_latest s)) (vg_trendProperties s)\<rparr>)"
| trend_run: "values_step fresh to_iso s (trend_starts to_iso q s)"
| trend_answer: "values_step fresh to_iso s (fst (trend_settles c q trend s))"
| trend_loaded: "values_step fresh to_iso s (fst (loadPropertyTrend silent c trend s))"
| events_step: "values_step fresh to_iso s (s\<lparr>vg_events := h\<rparr>)"
| sets_step: "values_step fresh to_iso s (s\<lparr>vg_sets := h', vg_setDeadline := n\<rparr>)"
| calls_step: "values_step fresh to_iso s (s\<lparr>vg_calls := h'', vg_callDeadline := n\<rparr>)"
| live_event: "values_step fresh to_iso s (live_event_effect (v :: values_page) item s)"
| connection_changed: "values_step fresh to_iso s (values_onConnectionChanged tenantId cp meta s)"
| property_changed: "obj_ok (pp_properties pp) \<Longrightarrow>
    values_step fresh to_iso s (fst (values_onPropertyChanged tenantId deviceId pp meta s))"
| refresh: "values_step fresh to_iso s (fst (values_refresh to_iso (v :: values_page) s))"
| pick_tenant: "values_step fresh to_iso s (values_handleTenantChange tenantId s)"
| pick_product: "values_step fresh to_iso s (values_handleProductFilterChange productId s)"
| pick_device: "d \<in> set (vg_devices s) \<Longrightarrow> values_step fresh to_iso s (handleDeviceChange (dv_id d) s)"
| pick_tab: "values_step fresh to_iso s (s\<lparr>vg_tab := tab\<rparr>)"
| trend_toggle: "values_step fresh to_iso s
    (s\<lparr>vg_trendProperties := handleTrendPropertyToggle property (vg_trendProperties s)\<rparr>)"
| trend_inputs: "values_step fresh to_iso s (s\<lparr>vg_trendRange := rng, vg_bucketSeconds := n, vg_aggregate := agg\<rparr>)"
| pick_service: "name = [] \<or> name \<in> set (map fst (serviceEntriesOf (vg_model s))) \<Longrightarrow>
    values_step fresh to_iso s (handleServiceNameChange fresh s name s)"
| add_input: "values_step fresh to_iso s (handleAddServiceInputParam fresh name d' s)"
| change_input: "(\<And>param. id_id (patch param) = id_id param) \<Longrightarrow>
    values_step fresh to_iso s (handleServiceInputParamChange i patch s)"
| remove_input: "values_step fresh to_iso s (handleRemoveServiceInputParam i s)"
| use_property: "values_step fresh to_iso s (handleUseWritableProperty (v' :: values_page) name s)"
| set_text: "values_step fresh to_iso s (s\<lparr>vg_setText := txt\<rparr>)"
| results: "values_step fresh to_iso s
    (s\<lparr>vg_setting := b, vg_setResult := sr, vg_calling := b', vg_callResult := cr\<rparr>)"

inductive values_reachable :: "(nat \<Rightarrow> string) \<Rightarrow> (string \<Rightarrow> string) \<Rightarrow> values_page \<Rightarrow> bool"
  for fresh to_iso where
  values_start: "values_reachable fresh to_iso (values_init rng)"
| values_next: "values_reachable fresh to_iso s \<Longrightarrow> values_step fresh to_iso s s' \<Longrightarrow> values_reachable fresh to_iso s'"

section \<open>The invariant\<close>

definition device_listed :: "'w values_page_scheme \<Rightarrow> bool" where
  "device_listed s \<longleftrightarrow> vg_deviceId s = [] \<or> vg_deviceId s \<in> set (map dv_id (vg_devices s))"

definition trend_selection_ok :: "'w values_page_scheme \<Rightarrow> bool" where
  "trend_selection_ok s \<longleftrightarrow> distinct (vg_trendProperties s) \<and> length (vg_trendProperties s) \<le> 8 \<and>
     (\<forall>m. vg_model s = Some m \<longrightarrow> model_objects_ok m) \<and> (\<forall>l. vg_latest s = Some l \<longrightarrow> obj_ok (lp_properties l))"

definition service_known :: "'w values_page_scheme \<Rightarrow> bool" where
  "service_known s \<longleftrightarrow> vg_serviceName s = [] \<or> vg_serviceName s \<in> set (map fst (serviceEntriesOf (vg_model s)))"

definition input_ids_ok :: "(nat \<Rightarrow> string) \<Rightarrow> 'w values_page_scheme \<Rightarrow> bool" where
  "input_ids_ok fresh s \<longleftrightarrow> distinct (map id_id (vg_inputs s)) \<and> set (map id_id (vg_inputs s)) \<subseteq> fresh ` {..<vg_ids s}"

definition values_inv :: "(nat \<Rightarrow> string) \<Rightarrow> 'w values_page_scheme \<Rightarrow> bool" where
  "values_inv fresh s \<longleftrightarrow> device_listed s \<and> trend_selection_ok s \<and> service_known s \<and> input_ids_ok fresh s"

text \<open>Steps that leave the fields of the invariant as they are.\<close>

definition same_selection :: "'w values_page_scheme \<Rightarrow> 'w values_page_scheme \<Rightarrow> bool" where
  "same_selection s s' \<longleftrightarrow> vg_deviceId s' = vg_deviceId s \<and> map dv_id (vg_devices s') = map dv_id (vg_devices s) \<and>
     vg_trendProperties s' = vg_trendProperties s \<and> vg_model s' = vg_model s \<and> vg_latest s' = vg_latest s \<and>
     vg_serviceName s' = vg_serviceName s \<and> vg_inputs s' = vg_inputs s \<and> vg_ids s' = vg_ids s"

lemmas values_inv_defs = values_inv_def device_listed_def trend_selection_ok_def service_known_def input_ids_ok_def

lemma same_selection_inv: "same_selection s s' \<Longrightarrow> values_inv fresh s \<Longrightarrow> values_inv fresh s'"
  by (simp add: values_inv_defs same_selection_def)

lemma same_selection_refl: "same_selection s s"
  by (simp add: same_selection_def)

lemma same_selection_trans: "same_selection s t \<Longrightarrow> same_selection t u \<Longrightarrow> same_selection s u"
  by (simp add: same_selection_def)

lemma load_starts_same: "same_selection s (fst (load_starts to_iso v l s))"
  by (cases l) (auto simp: same_selection_def loadPropertyTrend_starts_def)

lemma refresh_same: "same_selection s (fst (values_refresh to_iso v s))"
proof -
  have "same_selection s (fst (foldl (\<lambda>(t, es) l. case load_starts to_iso v l t of (t', es') \<Rightarrow> (t', es @ es')) (t, es) ls))"
    if "same_selection s t" for t es ls
    using that
  proof (induction ls arbitrary: t es)
    case (Cons l ls)
    obtain t' es' where l: "load_starts to_iso v l t = (t', es')" by force
    then have "same_selection s t'" using Cons.prems load_starts_same [of t to_iso v l] same_selection_trans by fastforce
    then show ?case using Cons.IH l by simp
  qed simp
  then show ?thesis unfolding values_refresh_def using same_selection_refl by blast
qed


section \<open>Every step keeps it\<close>

lemma default_device_listed: "default_device cur items = [] \<or> default_device cur items \<in> set (map dv_id items)"
  by (auto simp: default_device_def list_ex_iff split: list.split)

lemma trend_option_keys: "model_objects_ok m \<Longrightarrow> distinct (map to_key (trendPropertyOptionsOf (Some m) latest)) \<or>
    trendPropertyOptionsOf (Some m) latest = trendPropertyOptionsOf None latest"
  by (auto simp: trendPropertyOptionsOf_def Let_def model_objects_ok_def obj_ok_def o_def split_beta distinct_map_filter)

lemma trend_options_distinct:
  assumes "\<forall>m. model = Some m \<longrightarrow> model_objects_ok m" "\<forall>l. latest = Some l \<longrightarrow> obj_ok (lp_properties l)"
  shows "distinct (map to_key (trendPropertyOptionsOf model latest))"
proof -
  have "distinct (map to_key (trendPropertyOptionsOf None latest))"
    using assms(2) by (cases latest) (auto simp: trendPropertyOptionsOf_def obj_ok_def o_def split_beta distinct_map_filter)
  then show ?thesis using assms(1) trend_option_keys [of _ latest] by (cases model) metis+
qed

lemma refreshTrend_ok:
  assumes "distinct chosen" "length chosen \<le> 8" "distinct (map to_key options)"
  shows "distinct (refreshTrendProperties options chosen) \<and> length (refreshTrendProperties options chosen) \<le> 8"
proof -
  let ?kept = "filter (\<lambda>property. property \<in> set (map to_key options)) chosen"
  have "length ?kept \<le> 8" using assms(2) length_filter_le [of _ chosen] le_trans by blast
  moreover have "distinct (map to_key (take 2 options))" using assms(3) by (simp add: take_map [symmetric])
  ultimately show ?thesis using assms by (simp add: refreshTrendProperties_def Let_def min_def)
qed

lemma toggle_ok:
  assumes "distinct chosen" "length chosen \<le> 8"
  shows "distinct (handleTrendPropertyToggle p chosen) \<and> length (handleTrendPropertyToggle p chosen) \<le> 8"
proof -
  have "length (filter (\<lambda>item. item \<noteq> p) chosen) \<le> 8" using assms(2) length_filter_le [of _ chosen] le_trans by blast
  then show ?thesis using assms by (simp add: handleTrendPropertyToggle_def)
qed

lemma map_ids_fresh:
  assumes "\<And>n x. id_id (fst (f n x)) = fresh n \<and> snd (f n x) = Suc n" "map_ids f n xs = (ps, n')"
  shows "map id_id ps = map fresh [n..<n'] \<and> n \<le> n'"
  using assms(2)
proof (induction xs arbitrary: n ps)
  case (Cons x xs)
  obtain p where p: "f n x = (p, Suc n)" "id_id p = fresh n" using assms(1) [of n x] by (metis prod.collapse)
  obtain qs where q: "map_ids f (Suc n) xs = (qs, n')" "ps = p # qs" using Cons.prems p by (auto split: prod.splits)
  then show ?case using Cons.IH [OF q(1)] p by (simp add: upt_conv_Cons)
qed simp

lemma default_params_ids:
  "defaultServiceInputParams fresh n d = (ps, n') \<Longrightarrow> map id_id ps = map fresh [n..<n'] \<and> n \<le> n'"
  unfolding defaultServiceInputParams_def by (erule map_ids_fresh [rotated]) auto

lemma default_inputs_ids:
  assumes "inj fresh"
  shows "input_ids_ok fresh (default_inputs fresh model name s)"
proof -
  obtain ps n' where p: "defaultServiceInputParams fresh (vg_ids s)
      (case model of None \<Rightarrow> None | Some m \<Rightarrow> obj_get (tm_services m) name) = (ps, n')" by force
  have "distinct (map fresh [vg_ids s..<n'])" using assms by (simp add: distinct_map inj_def inj_on_def)
  then show ?thesis using default_params_ids [OF p] p
    by (auto simp: default_inputs_def input_ids_ok_def set_map [symmetric] simp del: set_map) auto
qed

lemma default_inputs_keeps:
  "vg_deviceId (default_inputs fresh model name s) = vg_deviceId s"
  "vg_devices (default_inputs fresh model name s) = vg_devices s"
  "vg_trendProperties (default_inputs fresh model name s) = vg_trendProperties s"
  "vg_model (default_inputs fresh model name s) = vg_model s"
  "vg_latest (default_inputs fresh model name s) = vg_latest s"
  "vg_serviceName (default_inputs fresh model name s) = vg_serviceName s"
  by (simp_all add: default_inputs_def split: prod.split)


text \<open>The steps that touch the selection, one by one.\<close>

lemma forget_device_inv:
  "device_listed s \<Longrightarrow> service_known s \<Longrightarrow> input_ids_ok fresh s \<Longrightarrow> trend_selection_ok s \<Longrightarrow> values_inv fresh (forget_device s)"
  by (simp add: values_inv_defs forget_device_def)

lemma model_reset_inv: "values_inv fresh s \<Longrightarrow> values_inv fresh (model_reset s)"
  by (simp add: values_inv_defs model_reset_def)

lemma default_inputs_inv:
  assumes "inj fresh" "device_listed s" "trend_selection_ok s" "service_known s"
  shows "values_inv fresh (default_inputs fresh model name s)"
  using assms(2-4) default_inputs_ids [OF assms(1), of model name s]
  by (simp add: values_inv_def) (simp add: device_listed_def trend_selection_ok_def service_known_def default_inputs_keeps)

lemma model_settled_inv:
  assumes "inj fresh" "values_inv fresh s" "\<And>r m. a = Inr r \<Longrightarrow> m \<in> set (pr_items r) \<Longrightarrow> model_objects_ok m"
  shows "values_inv fresh (fst (current_model_settles fresh c p a s))"
proof (cases a)
  case (Inl e)
  then show ?thesis using model_reset_inv [OF assms(2)]
    by (simp add: current_model_settles_def assms(2)) (simp add: values_inv_defs)
next
  case (Inr r)
  let ?m = "find tm_is_current (pr_items r)"
  have "\<forall>m. ?m = Some m \<longrightarrow> model_objects_ok m" using assms(3) Inr by (auto simp: find_Some_iff)
  moreover define name where "name = (case serviceEntriesOf ?m of [] \<Rightarrow> [] | (name, _) # _ \<Rightarrow> name)"
  moreover define s1 where "s1 = s\<lparr>vg_model := ?m, vg_setText := defaultPropertySetText ?m, vg_setResult := None,
    vg_serviceName := name\<rparr>"
  ultimately have "device_listed s1" "trend_selection_ok s1" "service_known s1"
    using assms(2) by (auto simp: values_inv_defs split: list.split)
  from default_inputs_inv [OF assms(1) this, of ?m name] assms(2) Inr show ?thesis
    by (simp add: current_model_settles_def Let_def name_def s1_def) (simp add: values_inv_defs)
qed

lemma add_input_inv:
  assumes "inj fresh" "values_inv fresh s"
  shows "values_inv fresh (handleAddServiceInputParam fresh name d s)"
proof -
  have "fresh (vg_ids s) \<notin> fresh ` {..<vg_ids s}" using assms(1) by (auto simp: inj_def)
  then have "fresh (vg_ids s) \<notin> set (map id_id (vg_inputs s))" using assms(2) by (auto simp: values_inv_defs)
  then show ?thesis using assms(2) by (auto simp: values_inv_defs handleAddServiceInputParam_def lessThan_Suc)
qed

lemma change_input_inv:
  assumes "values_inv fresh s" "\<And>param. id_id (patch param) = id_id param"
  shows "values_inv fresh (handleServiceInputParamChange i patch s)"
proof -
  have "map id_id (update_where (\<lambda>param. id_id param = i) patch (vg_inputs s)) = map id_id (vg_inputs s)"
    using assms(2) by (simp add: map_update_where)
  then show ?thesis using assms(1) by (simp add: values_inv_defs handleServiceInputParamChange_def flip: set_map)
qed

lemma pick_service_inv:
  assumes "inj fresh" "values_inv fresh s" "name = [] \<or> name \<in> set (map fst (serviceEntriesOf (vg_model s)))"
  shows "values_inv fresh (handleServiceNameChange fresh s name s)"
proof -
  have "device_listed (s\<lparr>vg_serviceName := name\<rparr>)" "trend_selection_ok (s\<lparr>vg_serviceName := name\<rparr>)"
      "service_known (s\<lparr>vg_serviceName := name\<rparr>)"
    using assms(2,3) by (auto simp: values_inv_defs)
  from default_inputs_inv [OF assms(1) this, of "vg_model s" name] show ?thesis
    by (simp add: handleServiceNameChange_def) (simp add: values_inv_defs)
qed

lemma values_step_inv:
  assumes "inj fresh" "values_step fresh to_iso s s'" "values_inv fresh s"
  shows "values_inv fresh s'"
  using assms(2,3)
proof (induction rule: values_step.induct)
  case (devices_answer s silent c devices)
  then show ?case using default_device_listed
    by (auto simp: loadSelectableDevices_def values_inv_defs split: sum.split simp del: set_map)
next
  case (model_answer models s c p)
  then show ?case using model_settled_inv [OF assms(1)] by blast
next
  case (trend_properties s)
  then have "distinct (map to_key (trendPropertyOptionsOf (vg_model s) (vg_latest s)))"
    by (intro trend_options_distinct) (auto simp: values_inv_defs)
  with trend_properties refreshTrend_ok show ?case by (simp add: values_inv_defs)
next
  case (trend_toggle s property)
  then show ?case using toggle_ok by (simp add: values_inv_defs)
next
  case (refresh s v)
  then show ?case using same_selection_inv refresh_same by blast
next
  case (pick_service name s)
  then show ?case using pick_service_inv [OF assms(1)] by blast
next
  case (add_input s name d')
  then show ?case using add_input_inv [OF assms(1)] by blast
next
  case (change_input patch s i)
  then show ?case using change_input_inv by blast
next
  case (remove_input s i)
  then show ?case by (auto simp: handleRemoveServiceInputParam_def values_inv_defs distinct_map_filter)
next
  case (connection_changed s tenantId cp meta)
  then show ?case by (intro same_selection_inv [OF _ connection_changed])
    (simp add: same_selection_def values_onConnectionChanged_def map_update_where)
qed (auto simp: values_inv_defs forget_device_def model_reset_def values_tenants_settles_def values_products_starts_def
  values_products_settles_def selectable_starts_def current_model_starts_def latest_starts_def latest_settles_def
  loadLatestProperties_def values_changed_answer_def trend_starts_def trend_settles_def loadPropertyTrend_def
  live_event_effect_def values_onPropertyChanged_def latest_of_payload_def values_handleTenantChange_def
  values_handleProductFilterChange_def handleDeviceChange_def handleUseWritableProperty_def Let_def
  split: sum.split option.split)

lemma values_reachable_inv:
  assumes "inj fresh" "values_reachable fresh to_iso s"
  shows "values_inv fresh s"
  using assms(2)
proof (induction rule: values_reachable.induct)
  case (values_start rng)
  show ?case by (simp add: values_inv_defs values_init_def)
next
  case (values_next s s')
  then show ?case using values_step_inv [OF assms(1)] by blast
qed


section \<open>Property\<close>

text \<open>
  C4: the selection of the device property page is always consistent. Whatever was loaded,
  answered late, pushed by the server or clicked, the selected device is none or one of the list
  (so every request of the page is about a listed device), the trend shows at most eight
  properties and none twice, the chosen service is none or one of the current model, and no two
  rows of the service form share an id.
\<close>

theorem selection_consistent:
  assumes "inj fresh" "values_reachable fresh to_iso s"
  shows "(vg_deviceId s \<noteq> [] \<longrightarrow> (\<exists>d. selectedDevice s = Some d \<and> d \<in> set (vg_devices s) \<and> dv_id d = vg_deviceId s)) \<and>
    distinct (vg_trendProperties s) \<and> length (vg_trendProperties s) \<le> 8 \<and>
    (vg_serviceName s \<noteq> [] \<longrightarrow> (\<exists>d. (vg_serviceName s, d) \<in> set (serviceEntriesOf (vg_model s)))) \<and>
    distinct (map id_id (vg_inputs s))"
proof -
  have inv: "values_inv fresh s" using values_reachable_inv assms by blast
  have "\<exists>d. selectedDevice s = Some d \<and> d \<in> set (vg_devices s) \<and> dv_id d = vg_deviceId s" if "vg_deviceId s \<noteq> []"
  proof (cases "selectedDevice s")
    case None
    then show ?thesis using that inv by (auto simp: selectedDevice_def values_inv_defs find_None_iff)
  next
    case (Some d)
    then show ?thesis by (auto simp: selectedDevice_def find_Some_iff)
  qed
  then show ?thesis using inv by (auto simp: values_inv_defs)
qed

definition sample_values :: values_page where
  "sample_values = (values_init \<lparr>tr_from = [], tr_to = []\<rparr>)\<lparr>vg_devices := [sample_device], vg_deviceId := ''d1''\<rparr>"

lemma sample_values_reachable: "values_reachable fresh to_iso sample_values"
proof -
  let ?a = "Inr \<lparr>pr_items = [sample_device], pr_total = 1, pr_page = 1, pr_page_size = 100\<rparr> :: js_exn + device page_result"
  have "sample_values = fst (loadSelectableDevices False False ?a (values_init \<lparr>tr_from = [], tr_to = []\<rparr>))"
    by (simp add: sample_values_def loadSelectableDevices_def default_device_def values_init_def sample_device_def)
  then show ?thesis using values_next [OF values_start devices_answer] by metis
qed

lemma selection_consistent_witness:
  "\<exists>d. selectedDevice (sample_values\<lparr>vg_trendProperties := [''x'']\<rparr>) = Some d \<and> dv_id d = ''d1''"
proof -
  let ?f = "\<lambda>n. replicate n CHR ''x''"
  have i: "inj ?f" by (auto simp: inj_def)
  have "sample_values\<lparr>vg_trendProperties := handleTrendPropertyToggle ''x'' (vg_trendProperties sample_values)\<rparr> =
      sample_values\<lparr>vg_trendProperties := [''x'']\<rparr>"
    by (simp add: handleTrendPropertyToggle_def sample_values_def values_init_def)
  then have r: "values_reachable ?f id (sample_values\<lparr>vg_trendProperties := [''x'']\<rparr>)"
    using values_next [OF sample_values_reachable trend_toggle] by metis
  have "vg_deviceId (sample_values\<lparr>vg_trendProperties := [''x'']\<rparr>) = ''d1''" by (simp add: sample_values_def)
  then show ?thesis using selection_consistent [OF i r] by auto
qed

end
