(* ===== verification/PropertyCommands.thy ===== *)
theory PropertyCommands
  imports PropertyPage
begin

text \<open>
  What the commands of the device property page send: setting properties from the JSON text and
  calling a service from its parameter rows; and what live events do to the event list.
\<close>

section \<open>Setting properties\<close>

lemma pretty_object_trimmed: "trim (json_pretty (JObj ob)) = json_pretty (JObj ob)"
  by (rule trim_plain) (simp add: json_pretty_def plain_char_def)

lemma set_payload_pretty: "js_wf (JObj ob) \<Longrightarrow> set_payload (json_pretty (JObj ob)) = Inr ob"
proof -
  assume wf: "js_wf (JObj ob)"
  have "json_parse (json_pretty (JObj ob)) = Some (JObj ob)"
    unfolding json_pretty_def by (rule json_parse_ser [OF wf]) (simp add: blank_def)
  moreover have "json_pretty (JObj ob) \<noteq> []" by (simp add: json_pretty_def)
  ultimately show ?thesis by (simp add: set_payload_def pretty_object_trimmed)
qed

lemma default_value_wf: "js_wf (defaultPropertyValue d)"
  using is_double_of_int [of 0] by (simp add: defaultPropertyValue_def split: option.split)

text \<open>The object that a default text stands for.\<close>

definition default_set :: "things_model option \<Rightarrow> js_object" where
  "default_set model =
     (case writablePropertyEntriesOf model of [] \<Rightarrow> [] | (k, d) # _ \<Rightarrow> [(k, defaultPropertyValue (Some d))])"

lemma set_payload_default: "set_payload (defaultPropertySetText model) = Inr (default_set model)"
proof (cases "writablePropertyEntriesOf model")
  case Nil
  then have "defaultPropertySetText model = json_pretty (JObj [])"
    by (simp add: defaultPropertySetText_def json_pretty_def)
  then show ?thesis using Nil set_payload_pretty [of "[]"] by (simp add: default_set_def)
next
  case (Cons e rest)
  then show ?thesis using set_payload_pretty [of "[(fst e, defaultPropertyValue (Some (snd e)))]"]
    by (cases e) (simp add: default_set_def defaultPropertySetText_def obj_ok_def default_value_wf)
qed

definition set_request :: "string \<Rightarrow> js_object \<Rightarrow> http_request" where
  "set_request deviceId properties =
     (''/api/v1/devices/'' @ deviceId @ ''/property/set'', with_data POST [(''properties'', JObj properties)])"

lemma set_run:
  assumes "vg_deviceId cl \<noteq> []" "set_payload (vg_setText cl) = Inr properties"
    and "va_set api (set_request (vg_deviceId cl) properties) (s\<lparr>vg_setting := True\<rparr>) = (a, s1)"
  shows "handleSetProperties api cl s =
     (case api_outcome a of
        Done r \<Rightarrow> (Done (), s1\<lparr>vg_setResult := Some r, vg_setting := False\<rparr>,
          [Sent (set_request (vg_deviceId cl) properties),
           Notice NSuccess ''adminDevicePropertySetSuccess'' (Description (psr_command_id r)),
           Sent (set_history_request (vg_deviceId cl) (hs_name (vg_sets cl)) (vg_setDeadline cl) 1 (hs_pageSize (vg_sets cl)))])
      | Threw e \<Rightarrow> (Done (), s1\<lparr>vg_setting := False\<rparr>,
          [Sent (set_request (vg_deviceId cl) properties),
           Notice NError ''adminDevicePropertySetFailed'' (error_description e)]))"
proof -
  have c: "setDeviceProperties (va_set api) (vg_deviceId cl) properties (s\<lparr>vg_setting := True\<rparr>) =
      (api_outcome a, s1, [Sent (set_request (vg_deviceId cl) properties)])"
    using assms(3) by (simp add: setDeviceProperties_def apiRequest_run set_request_def)
  show ?thesis
    by (cases "api_outcome a") (simp_all add: handleSetProperties_def assms(1,2) run_prims bind_known try_known c
      set_request_of_def set_view_def)
qed

lemma set_invalid_run:
  "vg_deviceId cl \<noteq> [] \<Longrightarrow> set_payload (vg_setText cl) = Inl e \<Longrightarrow>
   handleSetProperties api cl s = (Done (), s, [Notice NError ''adminDevicePropertySetInvalidPayload'' (error_description e)])"
  by (simp add: handleSetProperties_def run_prims)

section \<open>Calling a service\<close>

definition call_request :: "string \<Rightarrow> string \<Rightarrow> js_object \<Rightarrow> http_request" where
  "call_request deviceId serviceName input =
     (''/api/v1/devices/'' @ deviceId @ ''/services/'' @ serviceName @ ''/call'', with_data POST [(''input'', JObj input)])"

lemma call_run:
  assumes "vg_deviceId cl \<noteq> []" "vg_serviceName cl \<noteq> []" "serviceInputParamsToRecord (vg_inputs cl) = Inr input"
    and "va_call api (call_request (vg_deviceId cl) (vg_serviceName cl) input) (s\<lparr>vg_calling := True\<rparr>) = (a, s1)"
  shows "handleCallService api cl s =
     (case api_outcome a of
        Done r \<Rightarrow> (Done (), s1\<lparr>vg_callResult := Some r, vg_calling := False\<rparr>,
          [Sent (call_request (vg_deviceId cl) (vg_serviceName cl) input),
           Notice NSuccess ''adminDeviceServiceCallSuccess'' (Description (scr_command_id r))] @
          (if vg_tab cl = CallTab
           then [Sent (call_history_request (vg_deviceId cl) (hs_name (vg_calls cl)) (vg_callDeadline cl) 1 (hs_pageSize (vg_calls cl)))]
           else []))
      | Threw e \<Rightarrow> (Done (), s1\<lparr>vg_calling := False\<rparr>,
          [Sent (call_request (vg_deviceId cl) (vg_serviceName cl) input),
           Notice NError ''adminDeviceServiceCallFailed'' (error_description e)]))"
proof -
  have c: "callDeviceService (va_call api) (vg_deviceId cl) (vg_serviceName cl) input (s\<lparr>vg_calling := True\<rparr>) =
      (api_outcome a, s1, [Sent (call_request (vg_deviceId cl) (vg_serviceName cl) input)])"
    using assms(4) by (simp add: callDeviceService_def apiRequest_run call_request_def)
  show ?thesis
    by (cases "api_outcome a") (simp_all add: handleCallService_def assms(1-3) run_prims only_if_def bind_known try_known c
      call_request_of_def call_view_def)
qed

lemma call_invalid_run:
  "vg_deviceId cl \<noteq> [] \<Longrightarrow> vg_serviceName cl \<noteq> [] \<Longrightarrow> serviceInputParamsToRecord (vg_inputs cl) = Inl e \<Longrightarrow>
   handleCallService api cl s = (Done (), s, [Notice NError ''adminDeviceServiceInvalidInput'' (error_description e)])"
  by (simp add: handleCallService_def run_prims)

text \<open>The result of a command is stored, and shown, also when another device has been selected since.\<close>

lemma late_result_shown:
  assumes "vg_deviceId cl \<noteq> []" "set_payload (vg_setText cl) = Inr properties" "api_outcome a = Done r"
    and "va_set api (set_request (vg_deviceId cl) properties) (s\<lparr>vg_setting := True\<rparr>) = (a, handleDeviceChange other s1)"
  shows "vg_deviceId (state_of (handleSetProperties api cl s)) = other \<and>
    vg_setResult (state_of (handleSetProperties api cl s)) = Some r"
  by (simp add: set_run [OF assms(1,2,4)] assms(3) handleDeviceChange_def forget_device_def)

text \<open>Both commands do nothing without a device.\<close>

lemma no_device_run: "vg_deviceId cl = [] \<Longrightarrow>
    handleSetProperties api cl s = (Done (), s, []) \<and> handleCallService api cl s = (Done (), s, [])"
  by (simp add: handleSetProperties_def handleCallService_def run_prims)

text \<open>
  C21: the editor's default text is a valid command. After the things model has been loaded, setting
  properties with the text as it is sends one request for the selected device, whose body is the
  default value of the first writable property (or the empty object); an accepted command is kept
  and announced with its id and followed by a request for the first page of the command history,
  a refused one gives one error notice, and the button is free again either way.
\<close>

theorem default_set_is_sent:
  assumes "v = fst (current_model_settles fresh False p (Inr result) s0)" "vg_deviceId v \<noteq> []"
    and "va_set api (set_request (vg_deviceId v) (default_set (find tm_is_current (pr_items result)))) (v\<lparr>vg_setting := True\<rparr>) = (a, s1)"
  shows "handleSetProperties api v v =
     (let req = set_request (vg_deviceId v) (default_set (find tm_is_current (pr_items result)))
      in case api_outcome a of
        Done r \<Rightarrow> (Done (), s1\<lparr>vg_setResult := Some r, vg_setting := False\<rparr>,
          [Sent req, Notice NSuccess ''adminDevicePropertySetSuccess'' (Description (psr_command_id r)),
           Sent (set_history_request (vg_deviceId v) (hs_name (vg_sets v)) (vg_setDeadline v) 1 (hs_pageSize (vg_sets v)))])
      | Threw e \<Rightarrow> (Done (), s1\<lparr>vg_setting := False\<rparr>,
          [Sent req, Notice NError ''adminDevicePropertySetFailed'' (error_description e)]))"
proof -
  have "vg_setText v = defaultPropertySetText (find tm_is_current (pr_items result))"
    by (simp add: assms(1) current_model_settles_def Let_def default_inputs_def split: prod.split)
  then have "set_payload (vg_setText v) = Inr (default_set (find tm_is_current (pr_items result)))"
    by (simp only: set_payload_default)
  from set_run [OF assms(2) this assms(3)] show ?thesis by (simp only: Let_def)
qed


definition sample_model :: things_model where
  "sample_model = \<lparr>tm_id = ''m'', tm_tenant_id = ''t1'', tm_product_id = ''p1'', tm_version = 1, tm_name = ''M'',
     tm_description = [], tm_status = Published, tm_is_current = True,
     tm_properties = [(''on'', JObj [(''data_type'', JStr ''bool''), (''access_mode'', JStr ''write'')])],
     tm_events = [], tm_services = [], tm_published_at = None, tm_created_at = [], tm_updated_at = []\<rparr>"

definition sample_refusing_api :: "values_page values_api" where
  "sample_refusing_api = \<lparr>va_set = (\<lambda>r s. (Inl (ApiError ''offline'' (Fin 409)), s)),
     va_call = (\<lambda>r s. (Inl (ApiError ''offline'' (Fin 409)), s))\<rparr>"

lemma default_set_is_sent_witness:
  "let v = fst (current_model_settles dec False (''t1'', ''p1'')
       (Inr \<lparr>pr_items = [sample_model], pr_total = 1, pr_page = 1, pr_page_size = 100\<rparr>)
       ((values_init \<lparr>tr_from = [], tr_to = []\<rparr>)\<lparr>vg_deviceId := ''d1''\<rparr>))
   in effects_of (handleSetProperties sample_refusing_api v v) =
     [Sent (set_request ''d1'' [(''on'', JBool False)]),
      Notice NError ''adminDevicePropertySetFailed'' (Description ''offline'')]"
proof -
  let ?r = "\<lparr>pr_items = [sample_model], pr_total = 1, pr_page = 1, pr_page_size = 100\<rparr>"
  define v where "v = fst (current_model_settles dec False (''t1'', ''p1'') (Inr ?r)
       ((values_init \<lparr>tr_from = [], tr_to = []\<rparr>)\<lparr>vg_deviceId := ''d1''\<rparr>))"
  have d: "vg_deviceId v = ''d1''"
    by (simp add: v_def current_model_settles_def Let_def default_inputs_def split: prod.split)
  have m: "default_set (find tm_is_current (pr_items ?r)) = [(''on'', JBool False)]"
    by (simp add: sample_model_def default_set_def writablePropertyEntriesOf_def isWritablePropertyDefinition_def
      member_def defaultPropertyValue_def propertyDataType_def)
  have "handleSetProperties sample_refusing_api v v = (Done (), v\<lparr>vg_setting := False\<rparr>,
      [Sent (set_request ''d1'' [(''on'', JBool False)]), Notice NError ''adminDevicePropertySetFailed'' (Description ''offline'')])"
    using default_set_is_sent [OF v_def, of sample_refusing_api "Inl (ApiError ''offline'' (Fin 409))" "v\<lparr>vg_setting := True\<rparr>"]
    by (simp only: d m) (simp add: sample_refusing_api_def Let_def)
  then show ?thesis unfolding v_def [symmetric] Let_def by simp
qed

section \<open>Live events\<close>

lemma slice_to_take: "0 \<le> n \<Longrightarrow> slice_to n xs = take (nat n) xs"
  by (simp add: slice_to_def)

lemma insert_live_known:
  "ib_event_id item \<in> set (map ee_event_id entries) \<Longrightarrow> insert_live_event psz item entries = entries"
  by (auto simp: insert_live_event_def list_ex_iff)

lemma insert_live_new:
  "ib_event_id item \<notin> set (map ee_event_id entries) \<Longrightarrow> 0 \<le> psz \<Longrightarrow>
   insert_live_event psz item entries = take (nat psz) (entry_of_inbox item # entries)"
  by (force simp: insert_live_event_def list_ex_iff slice_to_take)

lemma insert_live_ok:
  assumes "distinct (map ee_event_id entries)" "int (length entries) \<le> psz" "1 \<le> psz"
  shows "distinct (map ee_event_id (insert_live_event psz item entries)) \<and>
    int (length (insert_live_event psz item entries)) \<le> psz \<and>
    ib_event_id item \<in> set (map ee_event_id (insert_live_event psz item entries)) \<and>
    set (insert_live_event psz item entries) \<subseteq> insert (entry_of_inbox item) (set entries)"
proof (cases "ib_event_id item \<in> set (map ee_event_id entries)")
  case True
  then show ?thesis using assms by (simp add: insert_live_known subset_insertI)
next
  case False
  have i: "ee_event_id (entry_of_inbox item) = ib_event_id item" by (simp add: entry_of_inbox_def)
  obtain k where k: "nat psz = Suc k" using assms(3) by (cases "nat psz") auto
  have "distinct (map ee_event_id (take k entries))" using assms(1) by (simp add: take_map [symmetric] distinct_take)
  then show ?thesis using False assms(3)
    by (auto simp: insert_live_new i k min_def dest: in_set_takeD) (use k in linarith)+
qed

text \<open>The events that the page takes over, in the order they came.\<close>

definition shown_items :: "'v values_page_scheme \<Rightarrow> event_payload inbox_item list \<Rightarrow> event_payload inbox_item list" where
  "shown_items v items = filter (live_event_shown v) items"

lemma live_events_fold:
  "fold (\<lambda>item. live_event_effect v (Some item)) items s =
     s\<lparr>vg_events := (vg_events s)\<lparr>
        hs_entries := fold (insert_live_event (hs_pageSize (vg_events v))) (shown_items v items) (hs_entries (vg_events s)),
        hs_total := hs_total (vg_events s) + int (length (shown_items v items))\<rparr>\<rparr>"
  by (induction items arbitrary: s) (simp_all add: live_event_effect_def shown_items_def)

lemma insert_all_ok:
  assumes "distinct (map ee_event_id entries)" "int (length entries) \<le> psz" "1 \<le> psz"
  shows "distinct (map ee_event_id (fold (insert_live_event psz) items entries)) \<and>
    int (length (fold (insert_live_event psz) items entries)) \<le> psz \<and>
    (items \<noteq> [] \<longrightarrow> ib_event_id (last items) \<in> set (map ee_event_id (fold (insert_live_event psz) items entries))) \<and>
    set (fold (insert_live_event psz) items entries) \<subseteq> set entries \<union> entry_of_inbox ` set items"
proof (induction items rule: rev_induct)
  case (snoc item items)
  then show ?case using insert_live_ok [OF _ _ assms(3), of "fold (insert_live_event psz) items entries" item]
    by (auto simp del: set_map)
qed (use assms in simp)

text \<open>
  C29: live events and the event list. Starting from a loaded page, any sequence of live events
  keeps the list within the page size and free of duplicates; the newest event that matches the
  device and the filter is in it; and nothing gets into it except such events, so no other
  device's event is ever shown.
\<close>

theorem live_events_bounded:
  assumes "distinct (map ee_event_id (hs_entries (vg_events s)))"
    and "int (length (hs_entries (vg_events s))) \<le> hs_pageSize (vg_events v)" "1 \<le> hs_pageSize (vg_events v)"
    and "after = hs_entries (vg_events (fold (\<lambda>item. live_event_effect v (Some item)) items s))"
  shows "distinct (map ee_event_id after) \<and> int (length after) \<le> hs_pageSize (vg_events v) \<and>
    (\<forall>earlier item later. items = earlier @ item # later \<longrightarrow> live_event_shown v item \<longrightarrow>
       \<not> list_ex (live_event_shown v) later \<longrightarrow> ib_event_id item \<in> set (map ee_event_id after)) \<and>
    (\<forall>entry \<in> set after. entry \<in> set (hs_entries (vg_events s)) \<or>
       (\<exists>item \<in> set items. entry = entry_of_inbox item \<and> ep_device_id (ib_payload item) = vg_deviceId v))"
proof -
  have a: "after = fold (insert_live_event (hs_pageSize (vg_events v))) (shown_items v items) (hs_entries (vg_events s))"
    by (simp add: assms(4) live_events_fold)
  note ok = insert_all_ok [OF assms(1-3), of "shown_items v items", folded a]
  have "last (shown_items v items) = item \<and> shown_items v items \<noteq> []"
    if "items = earlier @ item # later" "live_event_shown v item" "\<not> list_ex (live_event_shown v) later" for earlier item later
    using that by (simp add: shown_items_def list_ex_iff)
  then show ?thesis using ok by (fastforce simp: shown_items_def live_event_shown_def)
qed


definition sample_item :: "string \<Rightarrow> event_payload inbox_item" where
  "sample_item i = \<lparr>ib_payload = \<lparr>ep_tenant_id = ''t1'', ep_product_id = ''p1'', ep_device_id = ''d1'', ep_tenant_slug = ''t'',
     ep_product_key = ''k'', ep_device_slug = ''d'', ep_event_name = ''alarm'', ep_params = []\<rparr>,
     ib_event_id = i, ib_occurred_at = [], ib_received_at = [], ib_read = False\<rparr>"

lemma live_events_bounded_witness:
  "let v = (values_init \<lparr>tr_from = [], tr_to = []\<rparr>)\<lparr>vg_deviceId := ''d1'', vg_tab := EventHistoryTab\<rparr>
   in ''e2'' \<in> set (map ee_event_id (hs_entries (vg_events
        (fold (\<lambda>item. live_event_effect v (Some item)) [sample_item ''e1'', sample_item ''e2''] v))))"
proof -
  let ?v = "(values_init \<lparr>tr_from = [], tr_to = []\<rparr>)\<lparr>vg_deviceId := ''d1'', vg_tab := EventHistoryTab\<rparr>"
  have w: "live_event_shown ?v (sample_item ''e2'')"
    by (simp add: live_event_shown_def sample_item_def values_init_def history_init_def)
  have "\<forall>earlier item later. [sample_item ''e1'', sample_item ''e2''] = earlier @ item # later \<longrightarrow> live_event_shown ?v item \<longrightarrow>
       \<not> list_ex (live_event_shown ?v) later \<longrightarrow> ib_event_id item \<in> set (map ee_event_id (hs_entries (vg_events
        (fold (\<lambda>item. live_event_effect ?v (Some item)) [sample_item ''e1'', sample_item ''e2''] ?v))))"
    using live_events_bounded [of ?v ?v _ "[sample_item ''e1'', sample_item ''e2'']", OF _ _ _ refl]
    by (simp add: values_init_def history_init_def)
  from this [rule_format, of "[sample_item ''e1'']" "sample_item ''e2''" "[]"] w
  show ?thesis by (simp add: Let_def sample_item_def)
qed

end
