(* ===== verification/PropertyViews.thy ===== *)
theory PropertyViews
  imports PropertyPage
begin

text \<open>
  What the panels of the device property page compute from its data: the cards of the latest
  values, the points and the tooltip of the trend chart, the texts of the command panels. The
  host's \<open>Date\<close> is a parameter, as in \<open>PropertyValues\<close>. The elements that show these values are in
  \<open>PropertyPanels\<close>; the tooltip is here, since the page builds it as an HTML text.
\<close>

section \<open>Numbers\<close>

text \<open>\<open>x.toFixed(f)\<close>: the integer nearest to \<open>x * 10 ^ f\<close>, the larger one of two, with a point.\<close>

definition fixed_digits :: "nat \<Rightarrow> nat \<Rightarrow> string" where
  "fixed_digits f n =
     (if f = 0 then dec n
      else let m = replicate (Suc f - length (dec n)) CHR ''0'' @ dec n
           in take (length m - f) m @ ''.'' @ drop (length m - f) m)"

fun toFixed :: "nat \<Rightarrow> jsnum \<Rightarrow> string" where
  "toFixed f (Fin x) =
     (if 10 ^ 21 \<le> \<bar>x\<bar> then num_str (Fin x)
      else (if x < 0 then ''-'' else []) @ fixed_digits f (nat \<lfloor>\<bar>x\<bar> * 10 ^ f + 1 / 2\<rfloor>))"
| "toFixed f n = num_str n"

fun formatTrendNumber :: "js option \<Rightarrow> string" where
  "formatTrendNumber (Some (JNum n)) = (if isFinite n then toFixed 2 n else ''--'')"
| "formatTrendNumber _ = ''--''"

section \<open>The latest values\<close>

datatype card_value = StructuredValue string string | PlainValue "string option" "string option"

record property_card =
  pcd_name :: string
  pcd_alias :: "string option"
  pcd_type :: string
  pcd_value :: card_value
  pcd_time :: string
  pcd_time_title :: string

text \<open>\<open>render\<close> and \<open>full\<close> are the formats of \<open>formatDateTime\<close> and \<open>formatFullDateTime\<close>.\<close>

definition DevicePropertyCard ::
  "(string \<Rightarrow> int option) \<Rightarrow> (int \<Rightarrow> string) \<Rightarrow> (int \<Rightarrow> string) \<Rightarrow> string \<Rightarrow> js option \<Rightarrow> js option \<Rightarrow> string option \<Rightarrow> property_card" where
  "DevicePropertyCard parse render full name value d occurredAt =
     (let displayName = propertyDisplayName name d
      in \<lparr>pcd_name = displayName,
          pcd_alias = (if displayName \<noteq> name then Some name else None),
          pcd_type = (case propertyDataType d of Some ty \<Rightarrow> ty | None \<Rightarrow> valueTypeOf value),
          pcd_value = (if isStructuredPropertyValue value
             then StructuredValue (fst (JsonPreview value)) (snd (JsonPreview value))
             else PlainValue (formatPropertyValue value)
               (case propertyUnit d of Some u \<Rightarrow> if u \<noteq> [] then Some u else None | None \<Rightarrow> None)),
          pcd_time = formatDateTime parse render (case occurredAt of None \<Rightarrow> [] | Some x \<Rightarrow> x),
          pcd_time_title = formatFullDateTime parse full occurredAt\<rparr>)"

datatype latest_view = LatestLoading | LatestEmpty | LatestCards "property_card list"

definition LatestPropertiesPanel ::
  "(string \<Rightarrow> int option) \<Rightarrow> (int \<Rightarrow> string) \<Rightarrow> (int \<Rightarrow> string) \<Rightarrow> latest_properties option \<Rightarrow> bool \<Rightarrow> things_model option \<Rightarrow> latest_view" where
  "LatestPropertiesPanel parse render full latest loading currentModel =
     (case latest of
        None \<Rightarrow> if loading then LatestLoading else LatestEmpty
      | Some l \<Rightarrow>
          if \<not> lp_reported l \<or> length (lp_properties l) = 0 then LatestEmpty
          else LatestCards (map (\<lambda>(key, v). DevicePropertyCard parse render full key (Some v)
                 (case currentModel of None \<Rightarrow> None | Some m \<Rightarrow> obj_get (tm_properties m) key) (lp_occurred_at l))
               (lp_properties l)))"

text \<open>Every reported value has its card, in the order of the object, whatever the model defines.\<close>

lemma latest_cards:
  "lp_reported l \<Longrightarrow> lp_properties l \<noteq> [] \<Longrightarrow>
   \<exists>cards. LatestPropertiesPanel parse render full (Some l) loading m = LatestCards cards \<and>
     list_all2 (\<lambda>card (key, v). pcd_name card = key \<or> pcd_alias card = Some key) cards (lp_properties l)"
  by (auto simp: LatestPropertiesPanel_def DevicePropertyCard_def Let_def list_all2_map1
    intro!: list_all2_refl list.rel_refl split: prod.split if_splits)

section \<open>The trend chart\<close>

text \<open>A point with its series and its time; \<open>None\<close> is a time that is not a number.\<close>

record chart_point =
  ch_point :: trend_point
  ch_property :: string
  ch_time :: "int option"

definition allPoints :: "(string \<Rightarrow> int option) \<Rightarrow> property_trend option \<Rightarrow> chart_point list" where
  "allPoints parse trend =
     (case trend of None \<Rightarrow> []
      | Some x \<Rightarrow> concat (map (\<lambda>series. map (\<lambda>point.
          \<lparr>ch_point = point, ch_property = ts_property series, ch_time = parse (tp_bucket_at point)\<rparr>) (ts_points series))
          (pt_series x)))"

definition validPoints :: "(string \<Rightarrow> int option) \<Rightarrow> property_trend option \<Rightarrow> chart_point list" where
  "validPoints parse trend =
     filter (\<lambda>point. ch_time point \<noteq> None \<and> isFinite (tp_value (ch_point point))) (allPoints parse trend)"

definition chart_shown :: "(string \<Rightarrow> int option) \<Rightarrow> property_trend option \<Rightarrow> bool" where
  "chart_shown parse trend \<longleftrightarrow> 0 < length (validPoints parse trend)"

definition time_num :: "int option \<Rightarrow> jsnum" where
  "time_num ms = (case ms of None \<Rightarrow> NaN | Some x \<Rightarrow> Fin (of_int x))"

text \<open>The data row of a point: time, value, minimum, maximum, count, property, bucket.\<close>

definition chart_row :: "(string \<Rightarrow> int option) \<Rightarrow> string \<Rightarrow> trend_point \<Rightarrow> js" where
  "chart_row parse property point =
     JArr [JNum (time_num (parse (tp_bucket_at point))), JNum (tp_value point), JNum (tp_min point), JNum (tp_max point),
           jint (tp_count point), JStr property, JStr (tp_bucket_at point)]"

definition chart_series ::
  "(string \<Rightarrow> int option) \<Rightarrow> trend_option list \<Rightarrow> property_trend option \<Rightarrow> (string \<times> js list) list" where
  "chart_series parse propertyOptions trend =
     (case trend of None \<Rightarrow> []
      | Some x \<Rightarrow> map (\<lambda>series. (trendSeriesLabel (ts_property series) propertyOptions,
          map (chart_row parse (ts_property series)) (ts_points series))) (pt_series x))"

definition trendLineColors :: "string list" where
  "trendLineColors = [''#128999'', ''#7c3aed'', ''#059669'', ''#f59e0b'', ''#dc2626'', ''#2563eb'', ''#9333ea'', ''#0f766e'']"

text \<open>The labels on the axes: a time that is none is shown as it is.\<close>

definition formatAxisTime :: "(jsnum \<Rightarrow> int option) \<Rightarrow> (int \<Rightarrow> string) \<Rightarrow> jsnum \<Rightarrow> string" where
  "formatAxisTime time_of render value = (case time_of value of None \<Rightarrow> num_str value | Some ms \<Rightarrow> render ms)"

definition axis_value_label :: "jsnum \<Rightarrow> string" where
  "axis_value_label value = toFixed 1 value"

definition axis_name :: "(string \<Rightarrow> string) \<Rightarrow> trend_aggregate \<Rightarrow> nat \<Rightarrow> string" where
  "axis_name t aggregate bucketSeconds =
     t (aggregateLabel aggregate) @ [CHR '' '', CHR 0xC2, CHR 0xB7, CHR '' ''] @ formatTrendBucketLabel bucketSeconds t"

section \<open>The tooltip\<close>

definition formatTooltipTime :: "(string \<Rightarrow> int option) \<Rightarrow> (int \<Rightarrow> string) \<Rightarrow> string \<Rightarrow> string" where
  "formatTooltipTime parse render value = (case parse value of None \<Rightarrow> value | Some ms \<Rightarrow> render ms)"

definition nth_opt :: "js list \<Rightarrow> nat \<Rightarrow> js option" where
  "nth_opt xs i = (if i < length xs then Some (xs ! i) else None)"

definition array_or_empty :: "js option \<Rightarrow> js list" where
  "array_or_empty v = (case v of Some (JArr xs) \<Rightarrow> xs | _ \<Rightarrow> [])"

definition string_or :: "string \<Rightarrow> js option \<Rightarrow> string" where
  "string_or d v = (case v of Some (JStr s) \<Rightarrow> s | _ \<Rightarrow> d)"

definition tooltip_label :: "trend_option list \<Rightarrow> js option \<Rightarrow> string" where
  "tooltip_label propertyOptions item =
     (let property = string_or [] (nth_opt (array_or_empty (member item ''data'')) 5)
      in string_or (trendSeriesLabel property propertyOptions) (member item ''seriesName''))"

definition tooltip_row :: "trend_option list \<Rightarrow> js option \<Rightarrow> string" where
  "tooltip_row propertyOptions item =
     (let row = array_or_empty (member item ''data'');
          label = tooltip_label propertyOptions item;
          color = string_or ''var(--color-linkflow-primary)'' (member item ''color'')
      in concat
        [''<div style=\"display:flex;align-items:center;gap:8px;margin-top:8px;\">'',
         ''<span style=\"width:9px;height:9px;border-radius:999px;background:'' @ color @ '';display:inline-block;\"></span>'',
         ''<strong>'' @ label @ ''</strong>'',
         ''</div>'',
         ''<div style=\"padding-left:17px;line-height:1.7;\">'',
         ''value: '' @ formatTrendNumber (nth_opt row 1) @ ''<br/>'',
         ''min: '' @ formatTrendNumber (nth_opt row 2) @ '' / max: '' @ formatTrendNumber (nth_opt row 3) @ ''<br/>'',
         ''count: '' @ (case nth_opt row 4 of Some (JNum n) \<Rightarrow> num_str n | _ \<Rightarrow> ''--''),
         ''</div>''])"

definition trendTooltipFormatter ::
  "(string \<Rightarrow> int option) \<Rightarrow> (int \<Rightarrow> string) \<Rightarrow> js \<Rightarrow> trend_option list \<Rightarrow> string" where
  "trendTooltipFormatter parse render params propertyOptions =
     (let items = (case params of JArr xs \<Rightarrow> xs | v \<Rightarrow> [v]);
          rows = concat (map (\<lambda>item. tooltip_row propertyOptions (Some item)) (filter (\<lambda>item. isRecord (Some item)) items));
          row = array_or_empty (member (find (\<lambda>item. isRecord (Some item)) items) ''data'');
          time = string_or [] (nth_opt row 6)
      in concat [''<div style=\"font-weight:800;margin-bottom:4px;\">'' @ formatTooltipTime parse render time @ ''</div>'', rows])"


text \<open>
  The label goes into the HTML text as it is: nothing in it is escaped, although it is a display
  name that a user of the tenant has entered in the things model.
\<close>

lemma tooltip_verbatim:
  assumes "item \<in> set items" "isRecord (Some item)"
  shows "\<exists>before after. trendTooltipFormatter parse render (JArr items) propertyOptions =
    before @ ''<strong>'' @ tooltip_label propertyOptions (Some item) @ ''</strong>'' @ after"
proof -
  obtain bs as where split: "filter (\<lambda>item. isRecord (Some item)) items = bs @ item # as"
    using split_list [of item "filter (\<lambda>item. isRecord (Some item)) items"] assms by auto
  define row where "row = (\<lambda>item. tooltip_row propertyOptions (Some item))"
  obtain b' a' where item: "row item = b' @ ''<strong>'' @ tooltip_label propertyOptions (Some item) @ ''</strong>'' @ a'"
    unfolding row_def tooltip_row_def Let_def concat.simps by (metis append.assoc)
  obtain h where "trendTooltipFormatter parse render (JArr items) propertyOptions = h @ concat (map row (bs @ item # as))"
    unfolding trendTooltipFormatter_def Let_def js.case split row_def concat.simps by auto
  then have "trendTooltipFormatter parse render (JArr items) propertyOptions = (h @ concat (map row bs) @ b') @ ''<strong>'' @
      tooltip_label propertyOptions (Some item) @ ''</strong>'' @ (a' @ concat (map row as))"
    by (simp add: item)
  then show ?thesis by blast
qed

end
