(* ===== verification/Views.thy ===== *)
theory Views
  imports ReactMonad
begin

text \<open>
  What the components return. A view is a tree of elements with their text, their attributes and
  the handlers bound to them; a handler is named by an action of its page. Class names and other
  styling attributes are left out. What the browser does with such a tree is \<open>offers\<close>: the
  actions that a user can trigger on it. A disabled control triggers nothing, a \<open>select\<close> gives only
  the values of its options, and a form is submitted only through an enabled submit button and when
  its required controls are filled in. The other constraints of a browser (the least value of a
  number field) are left out, so \<open>offers\<close> may allow more than the browser does. Of the React keys
  only those of rows and cards are kept.
\<close>

section \<open>Trees\<close>

datatype 'a attr =
    Attr string string
  | Flag string bool
  | OnClick 'a
  | OnSubmit 'a
  | OnChange "string \<Rightarrow> 'a"
  | OnCheck "bool \<Rightarrow> 'a"
  | OnEnter 'a

text \<open>\<open>Null\<close> renders nothing, \<open>Many\<close> is an array of nodes, \<open>Icon\<close> an icon component.\<close>

datatype 'a node =
    Null
  | Txt string
  | Icon string
  | Many "'a node list"
  | El string "'a attr list" "'a node list"

abbreviation "when" :: "bool \<Rightarrow> 'a node \<Rightarrow> 'a node" where
  "when c n \<equiv> (if c then n else Null)"

abbreviation button :: "'a attr list \<Rightarrow> 'a \<Rightarrow> 'a node list \<Rightarrow> 'a node" where
  "button as a \<equiv> El ''button'' (Attr ''type'' ''button'' # OnClick a # as)"

text \<open>A link of the router: a click runs its own handler and then goes to its path; \<open>a\<close> names both.\<close>

abbreviation link :: "string \<Rightarrow> 'a \<Rightarrow> 'a attr list \<Rightarrow> 'a node list \<Rightarrow> 'a node" where
  "link path a as ns \<equiv> El ''Link'' (Attr ''to'' path # OnClick a # as) ns"

abbreviation option_node :: "string \<Rightarrow> string \<Rightarrow> 'a node" where
  "option_node value text \<equiv> El ''option'' [Attr ''value'' value] [Txt text]"

text \<open>A control with its label.\<close>

definition field :: "string \<Rightarrow> string \<Rightarrow> 'a attr list \<Rightarrow> string \<Rightarrow> (string \<Rightarrow> 'a) \<Rightarrow> 'a node" where
  "field label tag as value change =
     El ''label'' [] [Txt label, El tag (Attr ''value'' value # OnChange change # as) []]"

definition choice :: "string \<Rightarrow> 'a attr list \<Rightarrow> string \<Rightarrow> (string \<Rightarrow> 'a) \<Rightarrow> (string \<times> string) list \<Rightarrow> 'a node" where
  "choice label as value change options =
     El ''label'' [] [Txt label, El ''select'' (Attr ''value'' value # OnChange change # as)
       (map (\<lambda>(v, text). option_node v text) options)]"

text \<open>
  \<open>event.target.value as T\<close> for a \<open>select\<close> whose options are the texts of the values \<open>all\<close>.
\<close>

definition typed :: "('b \<Rightarrow> string) \<Rightarrow> 'b list \<Rightarrow> string \<Rightarrow> 'b" where
  "typed text all value = (case find (\<lambda>x. text x = value) all of Some x \<Rightarrow> x | None \<Rightarrow> hd all)"

definition flag :: "string \<Rightarrow> 'a attr list \<Rightarrow> bool" where
  "flag k = list_ex (\<lambda>x. case x of Flag k' b \<Rightarrow> k' = k \<and> b | _ \<Rightarrow> False)"

definition attr_value :: "string \<Rightarrow> 'a attr list \<Rightarrow> string" where
  "attr_value k as = (case List.map_filter (\<lambda>x. case x of Attr k' v \<Rightarrow> if k' = k then Some v else None | _ \<Rightarrow> None) as of
      [] \<Rightarrow> [] | v # _ \<Rightarrow> v)"

section \<open>What a user can do\<close>

text \<open>The values of the options below a node; an option without a value attribute has its text.\<close>

fun option_values :: "'a node \<Rightarrow> string list" where
  "option_values (El tag as ns) =
     (if tag = ''option'' \<and> \<not> flag ''disabled'' as then [attr_value ''value'' as] else concat (map option_values ns))"
| "option_values (Many ns) = concat (map option_values ns)"
| "option_values _ = []"

text \<open>An enabled submit button below a node, and the required controls below it all filled in.\<close>

fun can_submit :: "'a node \<Rightarrow> bool" where
  "can_submit (El tag as ns) =
     (tag = ''button'' \<and> attr_value ''type'' as = ''submit'' \<and> \<not> flag ''disabled'' as \<or> list_ex can_submit ns)"
| "can_submit (Many ns) = list_ex can_submit ns"
| "can_submit _ = False"

fun filled_in :: "'a node \<Rightarrow> bool" where
  "filled_in (El tag as ns) =
     ((flag ''required'' as \<and> \<not> flag ''disabled'' as \<and> \<not> flag ''readOnly'' as \<longrightarrow> attr_value ''value'' as \<noteq> []) \<and> list_all filled_in ns)"
| "filled_in (Many ns) = list_all filled_in ns"
| "filled_in _ = True"

fun attr_offers :: "string \<Rightarrow> 'a attr list \<Rightarrow> 'a node list \<Rightarrow> 'a attr \<Rightarrow> 'a \<Rightarrow> bool" where
  "attr_offers tag as ns (OnClick b) a = (a = b)"
| "attr_offers tag as ns (OnSubmit b) a = (a = b \<and> list_ex can_submit ns \<and> list_all filled_in ns)"
| "attr_offers tag as ns (OnChange f) a =
     (if tag = ''select'' then a \<in> f ` set (concat (map option_values ns)) else a \<in> range f)"
| "attr_offers tag as ns (OnCheck f) a = (a = f (\<not> flag ''checked'' as))"
| "attr_offers tag as ns (OnEnter b) a = (a = b)"
| "attr_offers tag as ns _ a = False"

fun offers :: "'a node \<Rightarrow> 'a \<Rightarrow> bool" where
  "offers (El tag as ns) a =
     (\<not> flag ''disabled'' as \<and> list_ex (\<lambda>x. attr_offers tag as ns x a) as \<or> list_ex (\<lambda>n. offers n a) ns)"
| "offers (Many ns) a = list_ex (\<lambda>n. offers n a) ns"
| "offers _ a = False"

text \<open>What a user can read.\<close>

fun texts :: "'a node \<Rightarrow> string list" where
  "texts (El tag as ns) = concat (map texts ns)"
| "texts (Many ns) = concat (map texts ns)"
| "texts (Txt s) = [s]"
| "texts _ = []"

text \<open>The elements of a tag, with their attributes and children.\<close>

fun elements :: "string \<Rightarrow> 'a node \<Rightarrow> ('a attr list \<times> 'a node list) list" where
  "elements t (El tag as ns) = (if tag = t then [(as, ns)] else []) @ concat (map (elements t) ns)"
| "elements t (Many ns) = concat (map (elements t) ns)"
| "elements t _ = []"

section \<open>Simplification\<close>

lemma flag_simps [simp]:
  "flag k [] = False"
  "flag k (Flag k' b # as) = (k' = k \<and> b \<or> flag k as)"
  "flag k (Attr j v # as) = flag k as" "flag k (OnClick a # as) = flag k as"
  "flag k (OnSubmit a # as) = flag k as" "flag k (OnChange f # as) = flag k as"
  "flag k (OnCheck g # as) = flag k as" "flag k (OnEnter a # as) = flag k as"
  by (simp_all add: flag_def)

lemma attr_value_simps [simp]:
  "attr_value k [] = []"
  "attr_value k (Attr k' v # as) = (if k' = k then v else attr_value k as)"
  "attr_value k (Flag j b # as) = attr_value k as" "attr_value k (OnClick a # as) = attr_value k as"
  "attr_value k (OnSubmit a # as) = attr_value k as" "attr_value k (OnChange f # as) = attr_value k as"
  "attr_value k (OnCheck g # as) = attr_value k as" "attr_value k (OnEnter a # as) = attr_value k as"
  by (simp_all add: attr_value_def List.map_filter_simps)

lemma list_ex_const_False [simp]: "list_ex (\<lambda>x. False) xs = False"
  by (induction xs) simp_all

lemma option_values_list [simp]:
  "concat (map option_values (map (\<lambda>(v, text). option_node v text) options)) = map fst options"
  by (induction options) auto

lemma offers_field:
  "tag \<noteq> ''select'' \<Longrightarrow> tag \<noteq> ''label'' \<Longrightarrow> (\<And>x. x \<in> set as \<Longrightarrow> \<exists>k v. x = Attr k v \<or> (\<exists>b. x = Flag k b)) \<Longrightarrow>
   offers (field l tag as value change) a \<longleftrightarrow> \<not> flag ''disabled'' as \<and> a \<in> range change"
  by (force simp: field_def list_ex_iff)

lemma offers_choice:
  "(\<And>x. x \<in> set as \<Longrightarrow> \<exists>k v. x = Attr k v \<or> (\<exists>b. x = Flag k b)) \<Longrightarrow>
   offers (choice l as value change options) a \<longleftrightarrow> \<not> flag ''disabled'' as \<and> a \<in> change ` fst ` set options"
  by (force simp: choice_def list_ex_iff)

text \<open>The tree of a child component, with its actions renamed to those of the parent.\<close>

lemma flag_map [simp]: "flag k (map (map_attr f) as) = flag k as"
  by (induction as) (simp, rename_tac x xs, case_tac x, simp_all)

lemma attr_value_map [simp]: "attr_value k (map (map_attr f) as) = attr_value k as"
  by (induction as) (simp, rename_tac x xs, case_tac x, simp_all)

lemma option_values_map [simp]: "option_values (map_node f n) = option_values n"
  by (induction n) (auto simp: o_def intro!: arg_cong [where f = concat] map_cong)

lemma can_submit_map [simp]: "can_submit (map_node f n) = can_submit n"
  by (induction n) (auto simp: list_ex_iff)

lemma filled_in_map [simp]: "filled_in (map_node f n) = filled_in n"
  by (induction n) (auto simp: list_all_iff)

lemma offers_map: "offers (map_node f n) a \<longleftrightarrow> (\<exists>b. a = f b \<and> offers n b)"
proof (induction n)
  case (El tag as ns)
  have attr: "attr_offers tag (map (map_attr f) as) (map (map_node f) ns) (map_attr f x) a \<longleftrightarrow>
      (\<exists>b. a = f b \<and> attr_offers tag as ns x b)" for x
    by (cases x) (auto simp: o_def list_ex_iff list_all_iff image_iff)
  show ?case using El by (simp add: attr list_ex_iff) blast
qed (auto simp: list_ex_iff)

end
