(* ===== verification/TableView.thy ===== *)
theory TableView
  imports Views Pagination
begin

text \<open>
  The view of the data table and its pagination bar (\<open>components/AdminDataTable.tsx\<close>), and which
  pages and page sizes a user can ask for with it. The bar has a state of its own, the text of the
  jump box; its actions either change that text or are passed on to the page.
\<close>

section \<open>The pagination bar\<close>

record 'a pagination =
  pn_jumpLabel :: string
  pn_jumpToLabel :: string
  pn_loading :: bool
  pn_loadingLabel :: string
  pn_nextLabel :: string
  pn_onPageChange :: "jsnum \<Rightarrow> 'a"
  pn_onPageSizeChange :: "jsnum \<Rightarrow> 'a"
  pn_page :: int
  pn_pageLabel :: string
  pn_pageSize :: int
  pn_pageSizeLabel :: string
  pn_pageSizeOptions :: "int list"
  pn_prevLabel :: string
  pn_total :: int
  pn_totalLabel :: string

datatype 'a table_action =
    SetJumpPage string
  | HandleJumpPage
  | Outer 'a

definition AdminTablePagination :: "'a pagination \<Rightarrow> string \<Rightarrow> 'a table_action node" where
  "AdminTablePagination p jumpPage =
     El ''div'' [] [
       El ''div'' [] [
         El ''div'' [] [Txt (if pn_loading p then pn_loadingLabel p else pn_totalLabel p)],
         El ''label'' [] [
           Txt (pn_pageSizeLabel p),
           El ''select'' [Attr ''value'' (dec_int (pn_pageSize p)),
               OnChange (\<lambda>value. Outer (pn_onPageSizeChange p (Number value)))]
             (map (\<lambda>option. El ''option'' [Attr ''key'' (dec_int option), Attr ''value'' (dec_int option)]
                [Txt (dec_int option)]) (pn_pageSizeOptions p))]],
       El ''div'' [] [El ''span'' [] [Txt (pn_pageLabel p)]],
       El ''div'' [] [
         El ''label'' [] [
           Txt (pn_jumpToLabel p),
           El ''input'' [Attr ''inputMode'' ''numeric'', Attr ''max'' (num_str (totalPages (pn_total p) (pn_pageSize p))),
             Attr ''min'' ''1'', Attr ''type'' ''number'', Attr ''value'' jumpPage,
             OnChange SetJumpPage, OnEnter HandleJumpPage] []],
         El ''button'' [Attr ''type'' ''button'', Flag ''disabled'' (jump_disabled (pn_loading p) jumpPage),
           Attr ''aria-label'' (pn_jumpLabel p), Attr ''title'' (pn_jumpLabel p),
           OnClick HandleJumpPage] [Icon ''ArrowRightOutlined''],
         El ''button'' [Attr ''type'' ''button'', Flag ''disabled'' (prev_disabled (pn_loading p) (pn_page p)),
           Attr ''aria-label'' (pn_prevLabel p), Attr ''title'' (pn_prevLabel p),
           OnClick (Outer (pn_onPageChange p (prev_click (pn_page p))))] [Icon ''LeftOutlined''],
         El ''button'' [Attr ''type'' ''button'',
           Flag ''disabled'' (next_disabled (pn_loading p) (pn_page p) (pn_total p) (pn_pageSize p)),
           Attr ''aria-label'' (pn_nextLabel p), Attr ''title'' (pn_nextLabel p),
           OnClick (Outer (pn_onPageChange p (next_click (pn_page p) (pn_total p) (pn_pageSize p))))]
           [Icon ''RightOutlined'']]]"

text \<open>An action of the bar: the new text of the jump box, and what is passed on.\<close>

fun table_perform :: "'a pagination \<Rightarrow> 'a table_action \<Rightarrow> string \<Rightarrow> string \<times> 'a option" where
  "table_perform p (SetJumpPage value) jumpPage = (value, None)"
| "table_perform p HandleJumpPage jumpPage =
     (case handleJumpPage (pn_total p) (pn_pageSize p) jumpPage of
        (text, n) \<Rightarrow> (text, map_option (pn_onPageChange p) n))"
| "table_perform p (Outer a) jumpPage = (jumpPage, Some a)"

section \<open>The table\<close>

record ('i, 'a) column =
  cn_key :: string
  cn_title :: "'a node"
  cn_render :: "'i \<Rightarrow> 'a node"

definition AdminDataTable ::
  "('i, 'a) column list \<Rightarrow> string \<Rightarrow> string \<Rightarrow> ('i \<Rightarrow> string) \<Rightarrow> 'i list \<Rightarrow> 'a node \<Rightarrow> 'a pagination \<Rightarrow>
   string \<Rightarrow> 'a table_action node" where
  "AdminDataTable columns emptyDescription emptyTitle getRowKey items mobileItems p jumpPage =
     El ''section'' [] [
       El ''div'' [] [
         El ''table'' [] [
           El ''thead'' [] [
             El ''tr'' [] (El ''th'' [] [Txt ''#''] #
               map (\<lambda>column. El ''th'' [Attr ''key'' (cn_key column)] [map_node Outer (cn_title column)]) columns)],
           El ''tbody'' []
             (map2 (\<lambda>n item. El ''tr'' [Attr ''key'' (getRowKey item)]
                (El ''td'' [] [Txt (dec_int n)] #
                 map (\<lambda>column. El ''td'' [Attr ''key'' (cn_key column)] [map_node Outer (cn_render column item)]) columns))
               (row_numbers (pn_page p) (pn_pageSize p) items) items)]],
       when (shows_mobile items) (El ''div'' [] [map_node Outer mobileItems]),
       when (shows_loading (pn_loading p) items)
         (El ''div'' [] [El ''div'' [] [Icon ''LoadingOutlined'', El ''p'' [] [Txt (pn_loadingLabel p)]]]),
       when (shows_empty (pn_loading p) items)
         (El ''div'' [] [El ''p'' [] [Txt emptyTitle], El ''p'' [] [Txt emptyDescription]]),
       AdminTablePagination p jumpPage]"

text \<open>
  The actions that the management pages share: \<open>'i\<close> is the item of the list, \<open>'f\<close> the state of
  the form, \<open>'x\<close> the actions of one page only.
\<close>

datatype ('i, 'f, 'x) page_action =
    OpenCreate
  | OpenEdit 'i
  | CloseForm
  | SetForm "'f \<Rightarrow> 'f"
  | Submit
  | DeleteItem 'i
  | SetPage jsnum
  | SetPageSize jsnum
  | Extra 'x

text \<open>The number of a page; the bar passes on integers only.\<close>

fun page_int :: "jsnum \<Rightarrow> int" where
  "page_int (Fin x) = floor x"
| "page_int _ = 0"

text \<open>
  The bar of a management page. The message keys of its labels differ in the prefix \<open>name\<close> only.
\<close>

definition list_bar ::
  "(string \<Rightarrow> string) \<Rightarrow> string \<Rightarrow> int list \<Rightarrow> bool \<Rightarrow> int \<Rightarrow> int \<Rightarrow> int \<Rightarrow> ('i, 'f, 'x) page_action pagination" where
  "list_bar t name options loading page pageSize cnt =
     \<lparr>pn_jumpLabel = t (name @ ''Jump''), pn_jumpToLabel = t (name @ ''JumpTo''), pn_loading = loading,
      pn_loadingLabel = t (name @ ''Loading''), pn_nextLabel = t (name @ ''Next''),
      pn_onPageChange = SetPage, pn_onPageSizeChange = SetPageSize, pn_page = page,
      pn_pageLabel = replace_first ''{totalPages}'' (num_str (totalPages cnt pageSize))
        (replace_first ''{page}'' (dec_int page) (t (name @ ''Page''))),
      pn_pageSize = pageSize, pn_pageSizeLabel = t (name @ ''PageSize''), pn_pageSizeOptions = options,
      pn_prevLabel = t (name @ ''Prev''), pn_total = cnt,
      pn_totalLabel = replace_first ''{total}'' (dec_int cnt) (t (name @ ''Total''))\<rparr>"

lemma list_bar_simps [simp]:
  "pn_onPageChange (list_bar t name options loading page pageSize cnt) = SetPage"
  "pn_onPageSizeChange (list_bar t name options loading page pageSize cnt) = SetPageSize"
  "pn_page (list_bar t name options loading page pageSize cnt) = page"
  "pn_pageSize (list_bar t name options loading page pageSize cnt) = pageSize"
  "pn_total (list_bar t name options loading page pageSize cnt) = cnt"
  "pn_loading (list_bar t name options loading page pageSize cnt) = loading"
  "pn_pageSizeOptions (list_bar t name options loading page pageSize cnt) = options"
  by (simp_all add: list_bar_def)

section \<open>What the bar offers\<close>

lemma bar_offers:
  "offers (AdminTablePagination p jumpPage) a \<longleftrightarrow>
     (\<exists>option \<in> set (pn_pageSizeOptions p). a = Outer (pn_onPageSizeChange p (Number (dec_int option)))) \<or>
     (\<exists>text. a = SetJumpPage text) \<or> a = HandleJumpPage \<or>
     \<not> prev_disabled (pn_loading p) (pn_page p) \<and> a = Outer (pn_onPageChange p (prev_click (pn_page p))) \<or>
     \<not> next_disabled (pn_loading p) (pn_page p) (pn_total p) (pn_pageSize p) \<and>
       a = Outer (pn_onPageChange p (next_click (pn_page p) (pn_total p) (pn_pageSize p)))"
  by (auto simp: AdminTablePagination_def o_def list_ex_iff image_iff)

lemma rows_ex:
  assumes "\<And>n item. P (g n item) = Q item"
  shows "list_ex P (map2 g (row_numbers page psz items) items) \<longleftrightarrow> (\<exists>item \<in> set items. Q item)"
proof -
  let ?zs = "zip (row_numbers page psz items) items"
  have items: "map snd ?zs = items" by (simp add: row_numbers_def)
  have "list_ex P (map2 g (row_numbers page psz items) items) \<longleftrightarrow> (\<exists>z \<in> set ?zs. Q (snd z))"
    by (simp add: list_ex_iff case_prod_beta assms)
  also have "\<dots> \<longleftrightarrow> (\<exists>item \<in> set (map snd ?zs). Q item)" by simp
  finally show ?thesis unfolding items .
qed

text \<open>A table offers what its cells, its small-screen entries and its bar offer.\<close>

lemma table_offers:
  "offers (AdminDataTable columns d e key items mobile p jumpPage) a \<longleftrightarrow>
     (\<exists>b. a = Outer b \<and> ((\<exists>column \<in> set columns. offers (cn_title column) b \<or>
        (\<exists>item \<in> set items. offers (cn_render column item) b)) \<or> items \<noteq> [] \<and> offers mobile b)) \<or>
     offers (AdminTablePagination p jumpPage) a"
proof -
  have row: "list_ex (\<lambda>n. offers n a) (map2 (\<lambda>n item. El ''tr'' [Attr ''key'' (key item)]
      (El ''td'' [] [Txt (dec_int n)] #
       map (\<lambda>column. El ''td'' [Attr ''key'' (cn_key column)] [map_node Outer (cn_render column item)]) columns))
      (row_numbers (pn_page p) (pn_pageSize p) items) items) \<longleftrightarrow>
    (\<exists>item \<in> set items. \<exists>column \<in> set columns. \<exists>b. a = Outer b \<and> offers (cn_render column item) b)"
    by (rule rows_ex) (simp add: list_ex_iff offers_map)
  show ?thesis unfolding AdminDataTable_def
    by (simp add: row) (auto simp: list_ex_iff offers_map shows_mobile_def)
qed

section \<open>Properties\<close>


definition sample_bar :: "jsnum pagination" where
  "sample_bar = \<lparr>pn_jumpLabel = [], pn_jumpToLabel = [], pn_loading = False, pn_loadingLabel = [], pn_nextLabel = [],
     pn_onPageChange = id, pn_onPageSizeChange = id, pn_page = 2, pn_pageLabel = [], pn_pageSize = 10,
     pn_pageSizeLabel = [], pn_pageSizeOptions = [10, 20, 50], pn_prevLabel = [], pn_total = 95, pn_totalLabel = []\<rparr>"


end
