(* ===== verification/BusyForm.thy ===== *)
theory BusyForm
  imports TableView
begin

text \<open>
  A page with a form whose submit button is disabled while a submission runs. The locale takes the
  view of a page and what its actions do, and shows that between the start and the end of a
  submission no second one can be started, whatever the user does with the controls on the page.
\<close>

text \<open>
  The actions of a page with a table: those of the pagination bar change the text of the jump box,
  which the page keeps in \<open>jump\<close>, or call the page.
\<close>

definition table_act ::
  "('s \<Rightarrow> 'a pagination) \<Rightarrow> ('s \<Rightarrow> string) \<Rightarrow> (string \<Rightarrow> 's \<Rightarrow> 's) \<Rightarrow> ('a \<Rightarrow> 's \<Rightarrow> ('s, unit) act) \<Rightarrow>
   'a table_action \<Rightarrow> 's \<Rightarrow> ('s, unit) act" where
  "table_act bar jump set_jump perform action cl =
     (case action of
        Outer a \<Rightarrow> perform a cl
      | _ \<Rightarrow> (case table_perform (bar cl) action (jump cl) of
          (text, None) \<Rightarrow> update (set_jump text)
        | (text, Some a) \<Rightarrow> steps [perform a cl, update (set_jump text)]))"

lemma keeps_table_act:
  assumes "\<And>b. action \<noteq> Outer b \<Longrightarrow> \<forall>a n. pn_onPageChange (bar cl) n = a \<longrightarrow> keeps P (perform a cl)"
    and "\<And>b. action = Outer b \<Longrightarrow> keeps P (perform b cl)" "\<And>text s. P s \<Longrightarrow> P (set_jump text s)"
  shows "keeps P (table_act bar jump set_jump perform action cl)"
  using assms
  by (cases action) (auto simp: table_act_def split: prod.split option.split intro!: keeps_rules keeps_update)

text \<open>What a user can do from a state on; every action runs against the latest render.\<close>

inductive user_run ::
  "('s \<Rightarrow> 'a node) \<Rightarrow> ('a \<Rightarrow> 's \<Rightarrow> ('s, unit) act) \<Rightarrow> 's \<Rightarrow> 'a list \<Rightarrow> 's \<Rightarrow> bool" for view perform where
  run_end: "user_run view perform s [] s"
| run_act: "offers (view s) a \<Longrightarrow> user_run view perform (state_of (perform a s s)) as s' \<Longrightarrow>
    user_run view perform s (a # as) s'"

locale busy_form =
  fixes view :: "'s \<Rightarrow> 'a node"
    and perform :: "'api \<Rightarrow> 'a \<Rightarrow> 's \<Rightarrow> ('s, unit) act"
    and submit :: 'a
    and saving :: "'s \<Rightarrow> bool"
    and undisturbed :: "'api \<Rightarrow> bool"
  assumes saving_hides_submit: "saving s \<Longrightarrow> \<not> offers (view s) submit"
    and others_keep_saving: "undisturbed api \<Longrightarrow> a \<noteq> submit \<Longrightarrow> keeps saving (perform api a cl)"
begin

lemma no_second_submit:
  assumes "user_run view (perform api) s as s'" "undisturbed api" "saving s"
  shows "saving s' \<and> submit \<notin> set as"
  using assms
proof (induction rule: user_run.induct)
  case (run_end s)
  then show ?case by simp
next
  case (run_act s a as s')
  then have "a \<noteq> submit" using saving_hides_submit by blast
  then have "saving (state_of (perform api a s s))"
    using others_keep_saving [OF run_act.prems(1)] run_act.prems(2) by (auto simp: keeps_def)
  then show ?case using run_act \<open>a \<noteq> submit\<close> by simp
qed

end

end
