(* ===== verification/TenantView.thy ===== *)
theory TenantView
  imports TenantPage BusyForm
begin

text \<open>
  The view of the tenant page (\<open>pages/Admin/TenantManagement.tsx\<close>), its actions and what a user
  can do with it. \<open>t\<close> translates a message key, \<open>fmt\<close> is \<open>formatDateTime\<close>.
\<close>

section \<open>The view\<close>

type_synonym tenant_action = "(tenant, tenant_form, unit) page_action"

text \<open>The class names of a badge depend on the status it shows.\<close>

definition tenantStatusBadgeClassName :: "entity_status \<Rightarrow> string" where
  "tenantStatusBadgeClassName status = ''inline-flex rounded-full px-2.5 py-1 text-xs font-bold '' @
     (if status = Active then ''bg-linkflow-primary-soft text-linkflow-primary''
      else ''bg-slate-100 text-linkflow-muted dark:bg-slate-800 dark:text-linkflow-dark-muted'')"

text \<open>The tenant selector of the other management pages.\<close>

definition tenant_select :: "(string \<Rightarrow> string) \<Rightarrow> tenant list \<Rightarrow> string \<Rightarrow> (string \<Rightarrow> 'a) \<Rightarrow> 'a node" where
  "tenant_select t tenants tenantId onChoose =
     El ''label'' [] [Txt (t ''adminTenantName''),
       El ''select'' [Attr ''value'' tenantId, OnChange onChoose]
         (map (\<lambda>tenant. option_node (tn_id tenant) (tn_name tenant)) tenants)]"

definition tenant_columns ::
  "(string \<Rightarrow> string) \<Rightarrow> (string \<Rightarrow> string) \<Rightarrow> 'w tenant_page_scheme \<Rightarrow> (tenant, tenant_action) column list" where
  "tenant_columns t fmt s =
     [\<lparr>cn_key = ''name'', cn_title = Txt (t ''adminTenantName''),
        cn_render = (\<lambda>tenant. El ''strong'' [] [Txt (tn_name tenant)])\<rparr>,
      \<lparr>cn_key = ''slug'', cn_title = Txt (t ''adminTenantSlug''), cn_render = (\<lambda>tenant. Txt (tn_slug tenant))\<rparr>,
      \<lparr>cn_key = ''status'', cn_title = Txt (t ''adminTenantStatus''),
        cn_render = (\<lambda>tenant. El ''span'' [Attr ''className'' (tenantStatusBadgeClassName (tn_status tenant))]
          [Txt (t (tenant_statusLabelKey (tn_status tenant)))])\<rparr>,
      \<lparr>cn_key = ''createdAt'', cn_title = Txt (t ''adminTenantCreatedAt''),
        cn_render = (\<lambda>tenant. Txt (fmt (tn_created_at tenant)))\<rparr>,
      \<lparr>cn_key = ''updatedAt'', cn_title = Txt (t ''adminTenantUpdatedAt''),
        cn_render = (\<lambda>tenant. Txt (fmt (tn_updated_at tenant)))\<rparr>,
      \<lparr>cn_key = ''actions'', cn_title = Txt (t ''adminTenantActions''),
        cn_render = (\<lambda>tenant. El ''div'' []
          [button [Attr ''aria-label'' (t ''adminTenantEdit'')] (OpenEdit tenant) [Icon ''EditOutlined''],
           button [Attr ''aria-label'' (t ''adminTenantDelete''), Flag ''disabled'' (tg_deletingId s = Some (tn_id tenant))]
             (DeleteItem tenant) [Icon ''DeleteOutlined'']])\<rparr>]"

definition tenant_mobileItems ::
  "(string \<Rightarrow> string) \<Rightarrow> (string \<Rightarrow> string) \<Rightarrow> 'w tenant_page_scheme \<Rightarrow> tenant_action node" where
  "tenant_mobileItems t fmt s = Many (map (\<lambda>tenant.
     El ''article'' [Attr ''key'' (tn_id tenant)] [
       El ''div'' [] [
         El ''div'' [] [El ''h4'' [] [Txt (tn_name tenant)], El ''p'' [] [Txt (tn_slug tenant)]],
         El ''span'' [Attr ''className'' (''shrink-0 '' @ tenantStatusBadgeClassName (tn_status tenant))]
           [Txt (t (tenant_statusLabelKey (tn_status tenant)))]],
       El ''dl'' [] [
         El ''div'' [] [El ''dt'' [] [Txt (t ''adminTenantCreatedAt'')], El ''dd'' [] [Txt (fmt (tn_created_at tenant))]],
         El ''div'' [] [El ''dt'' [] [Txt (t ''adminTenantUpdatedAt'')], El ''dd'' [] [Txt (fmt (tn_updated_at tenant))]]],
       El ''div'' [] [
         button [] (OpenEdit tenant) [Icon ''EditOutlined'', Txt (t ''adminTenantEdit'')],
         button [Flag ''disabled'' (tg_deletingId s = Some (tn_id tenant))] (DeleteItem tenant)
           [Icon ''DeleteOutlined'', Txt (t ''adminTenantDelete'')]]]) (tg_tenants s))"

definition tenant_dialog :: "(string \<Rightarrow> string) \<Rightarrow> form_mode \<Rightarrow> 'w tenant_page_scheme \<Rightarrow> tenant_action node" where
  "tenant_dialog t formMode s =
     El ''div'' [Attr ''role'' ''dialog'', Attr ''aria-modal'' ''true'', Attr ''aria-labelledby'' ''tenant-form-title''] [
       El ''section'' [] [
         El ''div'' [] [
           El ''h3'' [Attr ''id'' ''tenant-form-title'']
             [Txt (if formMode = Create then t ''adminTenantCreateTitle'' else t ''adminTenantEditTitle'')],
           button [Attr ''aria-label'' (t ''adminTenantCancel'')] CloseForm [Icon ''CloseOutlined'']],
         El ''form'' [OnSubmit Submit] [
           El ''label'' [] [Txt (t ''adminTenantSlug''),
             El ''input'' [Attr ''value'' (tf_slug (tg_form s)),
               OnChange (\<lambda>value. SetForm (\<lambda>form. form\<lparr>tf_slug := value\<rparr>)),
               Flag ''disabled'' (formMode = Edit), Flag ''required'' True] []],
           El ''label'' [] [Txt (t ''adminTenantName''),
             El ''input'' [Attr ''value'' (tf_name (tg_form s)),
               OnChange (\<lambda>value. SetForm (\<lambda>form. form\<lparr>tf_name := value\<rparr>)), Flag ''required'' True] []],
           El ''label'' [] [Txt (t ''adminTenantStatus''),
             El ''select'' [Attr ''value'' (status_text (tf_status (tg_form s))),
               OnChange (\<lambda>value. SetForm (\<lambda>form. form\<lparr>tf_status := typed status_text [Active, Disabled] value\<rparr>)),
               Flag ''disabled'' (formMode = Create)]
               [option_node ''active'' (t ''adminTenantStatusActive''),
                option_node ''disabled'' (t ''adminTenantStatusDisabled'')]],
           El ''div'' [] [
             El ''button'' [Attr ''type'' ''submit'', Flag ''disabled'' (tg_saving s)]
               [Icon ''SaveOutlined'', Txt (if tg_saving s then t ''adminTenantSaving'' else t ''adminTenantSave'')],
             button [] CloseForm [Txt (t ''adminTenantCancel'')]]]]]"

definition tenant_pagination :: "(string \<Rightarrow> string) \<Rightarrow> 'w tenant_page_scheme \<Rightarrow> tenant_action pagination" where
  "tenant_pagination t s =
     list_bar t ''adminTenant'' [10, 20, 50] (tg_loading s) (tg_page s) (tg_pageSize s) (tg_total s)"

definition tenant_view ::
  "(string \<Rightarrow> string) \<Rightarrow> (string \<Rightarrow> string) \<Rightarrow> string \<Rightarrow> 'w tenant_page_scheme \<Rightarrow> tenant_action table_action node" where
  "tenant_view t fmt jumpPage s =
     El ''section'' [] [
       El ''div'' [] [button [] (Outer OpenCreate) [Icon ''PlusOutlined'', Txt (t ''adminTenantCreate'')]],
       (case tg_formMode s of None \<Rightarrow> Null | Some m \<Rightarrow> map_node Outer (tenant_dialog t m s)),
       AdminDataTable (tenant_columns t fmt s) (t ''adminTenantEmptyDescription'') (t ''adminTenantEmpty'') tn_id
         (tg_tenants s) (tenant_mobileItems t fmt s) (tenant_pagination t s) jumpPage]"

section \<open>The actions\<close>

fun tenant_perform ::
  "'w tenant_page_scheme tenant_api \<Rightarrow> tenant_action \<Rightarrow> 'w tenant_page_scheme \<Rightarrow> ('w tenant_page_scheme, unit) act" where
  "tenant_perform api OpenCreate cl = update tenant_openCreateForm"
| "tenant_perform api (OpenEdit tenant) cl = update (tenant_openEditForm tenant)"
| "tenant_perform api CloseForm cl = update tenant_closeForm"
| "tenant_perform api (SetForm f) cl = update (tenant_updateFormField f)"
| "tenant_perform api Submit cl = tenant_handleSubmit api cl"
| "tenant_perform api (DeleteItem tenant) cl = tenant_handleDelete api cl tenant"
| "tenant_perform api (SetPage n) cl = update (\<lambda>s. s\<lparr>tg_page := page_int n\<rparr>)"
| "tenant_perform api (SetPageSize n) cl = update (\<lambda>s. s\<lparr>tg_page := 1, tg_pageSize := page_int n\<rparr>)"
| "tenant_perform api (Extra x) cl = ret ()"

section \<open>What a user can do\<close>

lemma tenant_dialog_offers:
  "offers (tenant_dialog t m s) Submit \<longleftrightarrow>
     \<not> tg_saving s \<and> (m = Edit \<or> tf_slug (tg_form s) \<noteq> []) \<and> tf_name (tg_form s) \<noteq> []"
  by (cases m) (auto simp: tenant_dialog_def o_def)

lemma tenant_table_offers:
  "\<not> offers (AdminDataTable (tenant_columns t fmt s) d e tn_id (tg_tenants s) (tenant_mobileItems t fmt s)
     (tenant_pagination t s) jumpPage) (Outer Submit)"
  by (auto simp: table_offers bar_offers tenant_columns_def tenant_mobileItems_def tenant_pagination_def list_ex_iff)

lemma tenant_submit_offered:
  "offers (tenant_view t fmt jumpPage s) (Outer Submit) \<longleftrightarrow>
     (\<exists>m. tg_formMode s = Some m \<and> \<not> tg_saving s \<and> (m = Edit \<or> tf_slug (tg_form s) \<noteq> []) \<and> tf_name (tg_form s) \<noteq> [])"
  by (auto simp: tenant_view_def tenant_table_offers offers_map tenant_dialog_offers split: option.split)

section \<open>One submission at a time\<close>

record tenant_screen = tenant_page +
  ts_jumpPage :: string

definition tenant_shown ::
  "(string \<Rightarrow> string) \<Rightarrow> (string \<Rightarrow> string) \<Rightarrow> tenant_screen \<Rightarrow> tenant_action table_action node" where
  "tenant_shown t fmt s = tenant_view t fmt (ts_jumpPage s) s"

definition tenant_react ::
  "(string \<Rightarrow> string) \<Rightarrow> tenant_screen tenant_api \<Rightarrow> tenant_action table_action \<Rightarrow> tenant_screen \<Rightarrow> (tenant_screen, unit) act" where
  "tenant_react t api =
     table_act (tenant_pagination t) ts_jumpPage (\<lambda>text s. s\<lparr>ts_jumpPage := text\<rparr>) (tenant_perform api)"

text \<open>While a request runs, everything else that happens keeps the saving flag.\<close>

definition tenant_undisturbed :: "tenant_screen tenant_api \<Rightarrow> bool" where
  "tenant_undisturbed api \<longleftrightarrow> quiet tg_saving (ta_list api) \<and> quiet tg_saving (ta_tenant api) \<and> quiet tg_saving (ta_delete api)"

lemma tenant_others_keep:
  "tenant_undisturbed api \<Longrightarrow> a \<noteq> Submit \<Longrightarrow> keeps tg_saving (tenant_perform api a cl)"
  by (cases a)
    (auto simp: tenant_undisturbed_def tenant_handleDelete_def loadTenants_def listTenants_def deleteTenant_def
      tenant_openCreateForm_def tenant_openEditForm_def tenant_closeForm_def tenant_updateFormField_def tenant_loaded_def
      intro!: keeps_rules keeps_update keeps_finally keeps_apiRequest)

interpretation tenant_busy: busy_form "tenant_shown t fmt" "tenant_react t" "Outer Submit" tg_saving tenant_undisturbed
  for t fmt
proof
  show "\<not> offers (tenant_shown t fmt s) (Outer Submit)" if "tg_saving s" for s
    using that by (simp add: tenant_shown_def tenant_submit_offered)
  show "keeps tg_saving (tenant_react t api a cl)" if "tenant_undisturbed api" "a \<noteq> Outer Submit" for api a cl
    unfolding tenant_react_def
    by (rule keeps_table_act) (use that in \<open>auto simp: tenant_pagination_def intro: tenant_others_keep\<close>)
qed


definition idle_tenant_api :: "tenant_screen tenant_api" where
  "idle_tenant_api = \<lparr>ta_list = (\<lambda>r s. (Inl EngineError, s)), ta_tenant = (\<lambda>r s. (Inl EngineError, s)),
     ta_delete = (\<lambda>r s. (Inl EngineError, s)), ta_user = (\<lambda>q s. True)\<rparr>"

definition tenant_screen_init :: tenant_screen where
  "tenant_screen_init = tenant_page.extend tenant_init \<lparr>ts_jumpPage = []\<rparr>"


section \<open>What goes wrong\<close>

text \<open>
  The form can be closed while a submission runs, and another one opened. When the submission
  succeeds it closes whatever form is open then, and its text is lost.
\<close>

lemma reopened_form_lost:
  assumes "tg_formMode cl = Some Create" "quiet (\<lambda>s. tg_formMode s = None \<and> tg_form s = tenant_emptyForm) (ta_list api)"
    and "ta_tenant api (''/api/v1/tenants'', with_data POST (tenant_create_body (tenant_create_request cl)))
      (s\<lparr>tg_saving := True\<rparr>) = (a, s1)" "api_outcome a = Done tenant"
  shows "tg_formMode (state_of (tenant_handleSubmit api cl s)) = None \<and>
    tg_form (state_of (tenant_handleSubmit api cl s)) = tenant_emptyForm"
proof -
  let ?P = "\<lambda>s. tg_formMode s = None \<and> tg_form s = tenant_emptyForm"
  have "keeps ?P (loadTenants api 1 (tg_pageSize cl))"
    unfolding loadTenants_def listTenants_def
    by (intro keeps_rules keeps_finally keeps_apiRequest keeps_update) (auto simp: assms(2) tenant_loaded_def)
  moreover have "?P (tenant_closeForm (s1\<lparr>tg_page := 1\<rparr>))" by (simp add: tenant_closeForm_def)
  ultimately have "?P (state_of (loadTenants api 1 (tg_pageSize cl) (tenant_closeForm (s1\<lparr>tg_page := 1\<rparr>))))"
    by (simp add: keeps_def)
  then show ?thesis using assms(3,4) by (simp add: tenant_create_run [OF assms(1)] Let_def)
qed

text \<open>
  A deletion that ends clears the marker, also when another deletion has been started meanwhile: the
  delete button of the tenant whose deletion still runs is offered again.
\<close>

lemma running_delete_offered_again:
  assumes "ta_user api ''adminTenantDeleteConfirm'' s" "s' = state_of (tenant_handleDelete api cl tenant s)"
    and "other \<in> set (tg_tenants s')"
  shows "offers (tenant_shown t fmt s') (Outer (DeleteItem other))"
proof -
  have "tg_deletingId s' = None"
    using assms(1,2) by (simp add: tenant_delete_run Let_def split: prod.split outcome.split)
  then have "\<exists>column \<in> set (tenant_columns t fmt s'). \<exists>item \<in> set (tg_tenants s'). offers (cn_render column item) (DeleteItem other)"
    using assms(3) by (intro bexI [of _ "tenant_columns t fmt s' ! 5"] bexI [of _ other]) (simp_all add: tenant_columns_def)
  then show ?thesis by (simp add: tenant_shown_def tenant_view_def table_offers) blast
qed

end
