(* ===== verification/DeviceView.thy ===== *)
theory DeviceView
  imports DevicePage TenantView
begin

text \<open>
  The view of the device page (\<open>pages/Admin/DeviceManagement.tsx\<close>) with the dialog for device
  secrets and the realtime badge (\<open>components/RealtimeStatusBadge.tsx\<close>), its actions and what a
  user can do with it.
\<close>

section \<open>The view\<close>

datatype device_extra =
    DeviceTenant string
  | ProductFilter string
  | ShowSecret "device option"
  | CopySecret string

type_synonym device_action = "(device, device_form, device_extra) page_action"

definition badgeClassName :: "realtime_status \<Rightarrow> string" where
  "badgeClassName status = ''inline-flex h-11 items-center gap-2 rounded-md border px-3 text-xs font-bold '' @
     (if status = Open then ''border-emerald-200 bg-emerald-50 text-emerald-700 dark:border-emerald-900/70 dark:bg-emerald-950/40 dark:text-emerald-300''
      else if status = Connecting \<or> status = Reconnecting then ''border-amber-200 bg-amber-50 text-amber-700 dark:border-amber-900/70 dark:bg-amber-950/40 dark:text-amber-300''
      else ''border-linkflow-border bg-white text-linkflow-muted dark:border-linkflow-dark-border dark:bg-linkflow-dark-panel dark:text-linkflow-dark-muted'')"

definition RealtimeStatusBadge :: "(string \<Rightarrow> string) \<Rightarrow> realtime_status \<Rightarrow> 'a node" where
  "RealtimeStatusBadge t status =
     El ''span'' [Attr ''className'' (badgeClassName status), Attr ''title'' (t (realtimeStatusLabelKey status))]
       [El ''span'' [Attr ''className'' (''h-2 w-2 rounded-full '' @ dotClassName status)] [],
        Txt (t (realtimeStatusLabelKey status))]"

text \<open>\<open>productNameById.get(id) ?? '--'\<close>, \<open>firmware_version || '--'\<close>\<close>

definition product_name :: "'w device_page_scheme \<Rightarrow> string \<Rightarrow> string" where
  "product_name s i = (case productNameById (dg_products s) i of None \<Rightarrow> ''--'' | Some n \<Rightarrow> n)"

definition or_dashes :: "string option \<Rightarrow> string" where
  "or_dashes x = (case x of Some (c # cs) \<Rightarrow> c # cs | _ \<Rightarrow> ''--'')"

definition device_statusBadgeClassName :: "entity_status \<Rightarrow> string" where
  "device_statusBadgeClassName status = ''inline-flex rounded-full px-2.5 py-1 text-xs font-bold '' @
     (if status = Active then ''bg-linkflow-primary-soft text-linkflow-primary''
      else ''bg-slate-100 text-linkflow-muted dark:bg-slate-800 dark:text-linkflow-dark-muted'')"

definition connectionBadgeClassName :: "connection_status \<Rightarrow> string" where
  "connectionBadgeClassName status = ''inline-flex rounded-full px-2.5 py-1 text-xs font-bold '' @
     (if status = Online then ''bg-emerald-50 text-emerald-700 dark:bg-emerald-950/40 dark:text-emerald-300''
      else ''bg-slate-100 text-linkflow-muted dark:bg-slate-800 dark:text-linkflow-dark-muted'')"

definition device_columns ::
  "(string \<Rightarrow> string) \<Rightarrow> (string \<Rightarrow> string) \<Rightarrow> 'w device_page_scheme \<Rightarrow> (device, device_action) column list" where
  "device_columns t fmt s =
     [\<lparr>cn_key = ''name'', cn_title = Txt (t ''adminDeviceName''),
        cn_render = (\<lambda>device. El ''div'' []
          [El ''strong'' [] [Txt (dv_name device)], El ''span'' [] [Txt (dv_slug device)]])\<rparr>,
      \<lparr>cn_key = ''product'', cn_title = Txt (t ''adminProductName''),
        cn_render = (\<lambda>device. Txt (product_name s (dv_product_id device)))\<rparr>,
      \<lparr>cn_key = ''status'', cn_title = Txt (t ''adminDeviceStatus''),
        cn_render = (\<lambda>device. El ''span'' [Attr ''className'' (device_statusBadgeClassName (dv_status device))]
            [Txt (t (deviceStatusLabelKey (dv_status device)))])\<rparr>,
      \<lparr>cn_key = ''connection'', cn_title = Txt (t ''adminDeviceConnectionStatus''),
        cn_render = (\<lambda>device. El ''span'' [Attr ''className'' (connectionBadgeClassName (dv_connection_status device))]
            [Txt (t (connectionLabelKey (dv_connection_status device)))])\<rparr>,
      \<lparr>cn_key = ''firmware'', cn_title = Txt (t ''adminDeviceFirmwareVersion''),
        cn_render = (\<lambda>device. Txt (or_dashes (dv_firmware_version device)))\<rparr>,
      \<lparr>cn_key = ''updatedAt'', cn_title = Txt (t ''adminDeviceUpdatedAt''),
        cn_render = (\<lambda>device. Txt (fmt (dv_updated_at device)))\<rparr>,
      \<lparr>cn_key = ''actions'', cn_title = Txt (t ''adminDeviceActions''),
        cn_render = (\<lambda>device. El ''div'' []
          [button [Attr ''aria-label'' (t ''adminDeviceViewSecret''), Attr ''title'' (t ''adminDeviceViewSecret'')]
             (Extra (ShowSecret (Some device))) [Icon ''KeyOutlined''],
           button [Attr ''aria-label'' (t ''adminDeviceEdit'')] (OpenEdit device) [Icon ''EditOutlined''],
           button [Attr ''aria-label'' (t ''adminDeviceDelete''), Flag ''disabled'' (dg_deletingId s = Some (dv_id device))]
             (DeleteItem device) [Icon ''DeleteOutlined'']])\<rparr>]"

definition device_mobileItems ::
  "(string \<Rightarrow> string) \<Rightarrow> (string \<Rightarrow> string) \<Rightarrow> 'w device_page_scheme \<Rightarrow> device_action node" where
  "device_mobileItems t fmt s = Many (map (\<lambda>device.
     El ''article'' [Attr ''key'' (dv_id device)] [
       El ''div'' [] [
         El ''div'' [] [El ''h4'' [] [Txt (dv_name device)], El ''p'' [] [Txt (dv_slug device)]],
         El ''span'' [Attr ''className'' (connectionBadgeClassName (dv_connection_status device))]
            [Txt (t (connectionLabelKey (dv_connection_status device)))]],
       El ''dl'' [] [
         El ''div'' [] [El ''dt'' [] [Txt (t ''adminProductName'')],
           El ''dd'' [] [Txt (product_name s (dv_product_id device))]],
         El ''div'' [] [El ''dt'' [] [Txt (t ''adminDeviceStatus'')],
           El ''dd'' [] [El ''span'' [Attr ''className'' (device_statusBadgeClassName (dv_status device))]
            [Txt (t (deviceStatusLabelKey (dv_status device)))]]],
         El ''div'' [] [El ''dt'' [] [Txt (t ''adminDeviceFirmwareVersion'')],
           El ''dd'' [] [Txt (or_dashes (dv_firmware_version device))]],
         El ''div'' [] [El ''dt'' [] [Txt (t ''adminDeviceUpdatedAt'')],
           El ''dd'' [] [Txt (fmt (dv_updated_at device))]]],
       El ''div'' [] [
         button [] (Extra (ShowSecret (Some device))) [Icon ''KeyOutlined'', Txt (t ''adminDeviceViewSecret'')],
         button [] (OpenEdit device) [Icon ''EditOutlined'', Txt (t ''adminDeviceEdit'')],
         button [Flag ''disabled'' (dg_deletingId s = Some (dv_id device))] (DeleteItem device)
           [Icon ''DeleteOutlined'', Txt (t ''adminDeviceDelete'')]]]) (dg_devices s))"

definition secret_dialog :: "(string \<Rightarrow> string) \<Rightarrow> device \<Rightarrow> 'w device_page_scheme \<Rightarrow> device_action node" where
  "secret_dialog t device s =
     El ''div'' [Attr ''role'' ''dialog'', Attr ''aria-modal'' ''true'', Attr ''aria-labelledby'' ''device-secret-title''] [
       El ''section'' [] [
         El ''div'' [] [
           El ''div'' [] [
             El ''h3'' [Attr ''id'' ''device-secret-title''] [Txt (t ''adminDeviceSecretTitle'')],
             El ''p'' [] [Txt (dv_name device), Txt '' /'', Txt '' '', Txt (dv_slug device)]],
           button [Attr ''aria-label'' (t ''adminDeviceCancel'')] (Extra (ShowSecret None)) [Icon ''CloseOutlined'']],
         (case selectedDeviceSecret s of
            Some (c # cs) \<Rightarrow> El ''div'' [] [
              El ''p'' [] [Txt (t ''adminDeviceSecretAvailableDescription'')],
              El ''code'' [] [Txt (c # cs)],
              button [] (Extra (CopySecret (c # cs))) [Icon ''CopyOutlined'', Txt (t ''adminDeviceCopySecret'')]]
          | _ \<Rightarrow> El ''div'' [] [El ''p'' [] [Txt (t ''adminDeviceSecretUnavailableDescription'')]])]]"

definition device_dialog :: "(string \<Rightarrow> string) \<Rightarrow> form_mode \<Rightarrow> 'w device_page_scheme \<Rightarrow> device_action node" where
  "device_dialog t formMode s =
     El ''div'' [Attr ''role'' ''dialog'', Attr ''aria-modal'' ''true'', Attr ''aria-labelledby'' ''device-form-title''] [
       El ''section'' [] [
         El ''div'' [] [
           El ''h3'' [Attr ''id'' ''device-form-title'']
             [Txt (if formMode = Create then t ''adminDeviceCreateTitle'' else t ''adminDeviceEditTitle'')],
           button [Attr ''aria-label'' (t ''adminDeviceCancel'')] CloseForm [Icon ''CloseOutlined'']],
         when (dg_createdSecret s \<noteq> []) (El ''section'' [] [
           El ''h4'' [] [Txt (t ''adminDeviceSecretTitle'')],
           El ''p'' [] [Txt (t ''adminDeviceSecretDescription'')],
           El ''code'' [] [Txt (dg_createdSecret s)]]),
         El ''form'' [OnSubmit Submit] [
           El ''label'' [] [Txt (t ''adminProductName''),
             El ''select'' [Attr ''value'' (df_product_id (dg_form s)),
               OnChange (\<lambda>value. SetForm (\<lambda>form. form\<lparr>df_product_id := value\<rparr>)),
               Flag ''disabled'' (formMode = Edit), Flag ''required'' True]
               (map (\<lambda>product. option_node (pd_id product) (pd_name product)) (dg_products s))],
           El ''label'' [] [Txt (t ''adminDeviceSlug''),
             El ''input'' [Attr ''value'' (df_slug (dg_form s)),
               OnChange (\<lambda>value. SetForm (\<lambda>form. form\<lparr>df_slug := value\<rparr>)),
               Flag ''disabled'' (formMode = Edit), Flag ''required'' True] []],
           El ''label'' [] [Txt (t ''adminDeviceName''),
             El ''input'' [Attr ''value'' (df_name (dg_form s)),
               OnChange (\<lambda>value. SetForm (\<lambda>form. form\<lparr>df_name := value\<rparr>)), Flag ''required'' True] []],
           when (formMode = Edit) (El ''label'' [] [Txt (t ''adminDeviceStatus''),
             El ''select'' [Attr ''value'' (status_text (df_status (dg_form s))),
               OnChange (\<lambda>value. SetForm (\<lambda>form. form\<lparr>df_status := typed status_text [Active, Disabled] value\<rparr>))]
               [option_node ''active'' (t ''adminDeviceStatusActive''),
                option_node ''disabled'' (t ''adminDeviceStatusDisabled'')]]),
           El ''label'' [] [Txt (t ''adminDeviceGatewayID''),
             El ''input'' [Attr ''value'' (df_gateway_device_id (dg_form s)),
               OnChange (\<lambda>value. SetForm (\<lambda>form. form\<lparr>df_gateway_device_id := value\<rparr>))] []],
           El ''label'' [] [Txt (t ''adminDeviceDescription''),
             El ''textarea'' [Attr ''value'' (df_description (dg_form s)),
               OnChange (\<lambda>value. SetForm (\<lambda>form. form\<lparr>df_description := value\<rparr>))] []],
           El ''div'' [] [
             El ''button'' [Attr ''type'' ''submit'', Flag ''disabled'' (device_submit_disabled s)]
               [Icon ''SaveOutlined'', Txt (if dg_saving s then t ''adminDeviceSaving'' else t ''adminDeviceSave'')],
             button [] CloseForm [Txt (t ''adminDeviceCancel'')]]]]]"

definition device_pagination :: "(string \<Rightarrow> string) \<Rightarrow> 'w device_page_scheme \<Rightarrow> device_action pagination" where
  "device_pagination t s =
     list_bar t ''adminDevice'' [10, 20, 50] (dg_loading s) (dg_page s) (dg_pageSize s) (dg_total s)"

definition device_view ::
  "(string \<Rightarrow> string) \<Rightarrow> (string \<Rightarrow> string) \<Rightarrow> string \<Rightarrow> realtime_status \<Rightarrow> 'w device_page_scheme \<Rightarrow>
   device_action table_action node" where
  "device_view t fmt jumpPage realtimeStatus s =
     El ''section'' [] [
       El ''div'' [] [
         El ''div'' [] [
           tenant_select t (dg_tenants s) (dg_tenantId s) (\<lambda>value. Outer (Extra (DeviceTenant value))),
           El ''label'' [] [Txt (t ''adminProductName''),
             El ''select'' [Attr ''value'' (dg_productFilter s), OnChange (\<lambda>value. Outer (Extra (ProductFilter value)))]
               (option_node [] (t ''adminDeviceAllProducts'') #
                map (\<lambda>product. option_node (pd_id product) (pd_name product)) (dg_products s))]],
         El ''div'' [] [
           RealtimeStatusBadge t realtimeStatus,
           button [Flag ''disabled'' (device_create_disabled s)] (Outer OpenCreate)
             [Icon ''PlusOutlined'', Txt (t ''adminDeviceCreate'')]]],
       (case dg_secretDialog s of None \<Rightarrow> Null | Some d \<Rightarrow> map_node Outer (secret_dialog t d s)),
       (case dg_formMode s of None \<Rightarrow> Null | Some m \<Rightarrow> map_node Outer (device_dialog t m s)),
       AdminDataTable (device_columns t fmt s) (t ''adminDeviceEmptyDescription'') (t ''adminDeviceEmpty'') dv_id
         (dg_devices s) (device_mobileItems t fmt s) (device_pagination t s) jumpPage]"

section \<open>The actions\<close>

fun device_perform ::
  "'w device_page_scheme device_api \<Rightarrow> device_action \<Rightarrow> 'w device_page_scheme \<Rightarrow> ('w device_page_scheme, unit) act" where
  "device_perform api OpenCreate cl = update (device_openCreateForm cl)"
| "device_perform api (OpenEdit device) cl = update (device_openEditForm device)"
| "device_perform api CloseForm cl = update device_closeForm"
| "device_perform api (SetForm f) cl = update (device_updateFormField f)"
| "device_perform api Submit cl = device_handleSubmit api cl"
| "device_perform api (DeleteItem device) cl = device_handleDelete api cl device"
| "device_perform api (SetPage n) cl = update (\<lambda>s. s\<lparr>dg_page := page_int n\<rparr>)"
| "device_perform api (SetPageSize n) cl = update (\<lambda>s. s\<lparr>dg_page := 1, dg_pageSize := page_int n\<rparr>)"
| "device_perform api (Extra (DeviceTenant nextTenantId)) cl = update (device_handleTenantChange nextTenantId)"
| "device_perform api (Extra (ProductFilter nextProductId)) cl = update (device_handleProductFilterChange nextProductId)"
| "device_perform api (Extra (ShowSecret d)) cl = update (device_showSecret d)"
| "device_perform api (Extra (CopySecret secret)) cl = handleCopySecret api secret"

section \<open>What a user can do\<close>

lemma device_dialog_offers:
  "offers (device_dialog t m s) Submit \<longleftrightarrow>
     \<not> dg_saving s \<and> df_product_id (dg_form s) \<noteq> [] \<and> (m = Edit \<or> df_slug (dg_form s) \<noteq> []) \<and> df_name (dg_form s) \<noteq> []"
  by (cases m) (auto simp: device_dialog_def o_def device_submit_disabled_def list_ex_iff list_all_iff)

lemma secret_dialog_offers:
  "offers (secret_dialog t d s) a \<longleftrightarrow> a = Extra (ShowSecret None) \<or>
     (\<exists>secret. selectedDeviceSecret s = Some secret \<and> secret \<noteq> [] \<and> a = Extra (CopySecret secret))"
  by (auto simp: secret_dialog_def split: option.splits list.splits)

lemma device_submit_offered:
  "offers (device_view t fmt jumpPage status s) (Outer Submit) \<longleftrightarrow>
     (\<exists>m. dg_formMode s = Some m \<and> \<not> dg_saving s \<and> df_product_id (dg_form s) \<noteq> [] \<and>
        (m = Edit \<or> df_slug (dg_form s) \<noteq> []) \<and> df_name (dg_form s) \<noteq> [])"
  by (auto simp: device_view_def tenant_select_def RealtimeStatusBadge_def table_offers bar_offers device_columns_def
      device_mobileItems_def device_pagination_def list_ex_iff o_def offers_map device_dialog_offers secret_dialog_offers
      split: option.split)

section \<open>One submission at a time\<close>

record device_screen = device_page +
  ds_jumpPage :: string
  ds_status :: realtime_status

definition device_shown ::
  "(string \<Rightarrow> string) \<Rightarrow> (string \<Rightarrow> string) \<Rightarrow> device_screen \<Rightarrow> device_action table_action node" where
  "device_shown t fmt s = device_view t fmt (ds_jumpPage s) (ds_status s) s"

definition device_react ::
  "(string \<Rightarrow> string) \<Rightarrow> device_screen device_api \<Rightarrow> device_action table_action \<Rightarrow> device_screen \<Rightarrow> (device_screen, unit) act" where
  "device_react t api =
     table_act (device_pagination t) ds_jumpPage (\<lambda>text s. s\<lparr>ds_jumpPage := text\<rparr>) (device_perform api)"

definition device_undisturbed :: "device_screen device_api \<Rightarrow> bool" where
  "device_undisturbed api \<longleftrightarrow> quiet dg_saving (da_list api) \<and> quiet dg_saving (da_create api) \<and>
     quiet dg_saving (da_update api) \<and> quiet dg_saving (da_delete api) \<and>
     (\<forall>x s. dg_saving s \<longrightarrow> dg_saving (snd (da_clipboard api x s)))"

lemma keeps_clipboard:
  "(\<And>s. P s \<Longrightarrow> P (snd (da_clipboard api x s))) \<Longrightarrow> keeps P (write_clipboard api x)"
  by (auto simp: keeps_def write_clipboard_def split: prod.split sum.split) (metis snd_conv)+

lemma device_others_keep:
  "device_undisturbed api \<Longrightarrow> a \<noteq> Submit \<Longrightarrow> keeps dg_saving (device_perform api a cl)"
  by (cases "(api, a, cl)" rule: device_perform.cases)
    (auto simp: device_undisturbed_def device_handleDelete_def loadDevices_def listDevices_def deleteDevice_def
      device_openCreateForm_def device_openEditForm_def device_closeForm_def device_updateFormField_def
      device_handleTenantChange_def device_loaded_def device_cleared_def device_showSecret_def
      device_handleProductFilterChange_def device_deleted_def Let_def handleCopySecret_def
      intro!: keeps_rules keeps_update keeps_finally keeps_apiRequest keeps_clipboard)

interpretation device_busy: busy_form "device_shown t fmt" "device_react t" "Outer Submit" dg_saving device_undisturbed
  for t fmt
proof
  show "\<not> offers (device_shown t fmt s) (Outer Submit)" if "dg_saving s" for s
    using that by (simp add: device_shown_def device_submit_offered)
  show "keeps dg_saving (device_react t api a cl)" if "device_undisturbed api" "a \<noteq> Outer Submit" for api a cl
    unfolding device_react_def
    by (rule keeps_table_act) (use that in \<open>auto simp: device_pagination_def intro: device_others_keep\<close>)
qed

end
