(* ===== verification/PropertyPanels.thy ===== *)
theory PropertyPanels
  imports PropertyViews DeviceView
begin

text \<open>
  The elements of the device property page (\<open>pages/Admin/DevicePropertyManagement.tsx\<close>): badges,
  times and previews, the panel of the latest values and the panel of the trend. Class names that
  depend on the data are kept, the others left out.
\<close>

section \<open>Badges, times and previews\<close>

text \<open>The host: the translation, and \<open>Date\<close> with the formats of \<open>formatDateTime\<close> and \<open>formatFullDateTime\<close>.\<close>

record host =
  ho_t :: "string \<Rightarrow> string"
  ho_parse :: "string \<Rightarrow> int option"
  ho_short :: "int \<Rightarrow> string"
  ho_full :: "int \<Rightarrow> string"

definition short_time :: "host \<Rightarrow> string option \<Rightarrow> string" where
  "short_time h value = formatDateTime (ho_parse h) (ho_short h) (case value of None \<Rightarrow> [] | Some v \<Rightarrow> v)"

text \<open>An attribute whose value may be \<open>undefined\<close>.\<close>

definition optional_attr :: "string \<Rightarrow> string option \<Rightarrow> 'a attr list" where
  "optional_attr k v = (case v of None \<Rightarrow> [] | Some x \<Rightarrow> [Attr k x])"

definition TimeCell :: "host \<Rightarrow> string option \<Rightarrow> 'a node" where
  "TimeCell h value =
     El ''time'' (Attr ''title'' (formatFullDateTime (ho_parse h) (ho_full h) value) # optional_attr ''dateTime'' value)
       [Txt (short_time h value)]"

text \<open>The two forms of \<open>JsonPreview\<close>; the texts are in \<open>PropertyValues\<close>.\<close>

definition compact_preview :: "js option \<Rightarrow> 'a node" where
  "compact_preview value =
     (case JsonPreview value of (formatted, summary) \<Rightarrow>
       El ''details'' [] [
         El ''summary'' [Attr ''title'' formatted] [El ''span'' [] [Txt summary], El ''span'' [] [Icon ''DownOutlined'']],
         El ''pre'' [] [Txt formatted]])"

definition full_preview :: "js option \<Rightarrow> 'a node" where
  "full_preview value =
     (case JsonPreview value of (formatted, summary) \<Rightarrow> El ''pre'' [Attr ''title'' formatted] [Txt formatted])"

definition ShortID :: "string \<Rightarrow> 'a node" where
  "ShortID value = El ''Tooltip'' [Attr ''title'' value] [El ''span'' [] [Txt (shortenID value)]]"

definition AckStatusBadge :: "host \<Rightarrow> ack_status \<Rightarrow> 'a node" where
  "AckStatusBadge h status =
     El ''span'' [Attr ''className'' (''inline-flex h-7 items-center rounded-full px-3 text-xs font-black leading-none '' @
         ackStatusClassName status)] [Txt (ho_t h (ackStatusLabelKey status))]"

definition ConnectionStatusBadge :: "host \<Rightarrow> device option \<Rightarrow> 'a node" where
  "ConnectionStatusBadge h d =
     El ''span'' [Attr ''className''
         (''inline-flex h-10 items-center gap-2 rounded-md border px-3 text-xs font-black leading-none '' @
          connectionStatusClassName (map_option dv_connection_status d))]
       [Icon (if map_option dv_connection_status d = Some Online then ''CheckCircleOutlined'' else ''DisconnectOutlined''),
        Txt (ho_t h (connection_badge_key d))]"

definition model_title :: "things_model \<Rightarrow> string" where
  "model_title m = tm_name m @ '' v'' @ dec_int (tm_version m)"

definition DeviceContextStatusBar :: "host \<Rightarrow> things_model option \<Rightarrow> device option \<Rightarrow> 'a node" where
  "DeviceContextStatusBar h currentModel d =
     El ''div'' [] [
       El ''div'' [] [El ''span'' [] [Txt (ho_t h ''adminDeviceConnectionStatus'')],
         El ''span'' [] [ConnectionStatusBadge h d]],
       El ''div'' [] [El ''span'' [] [Txt (ho_t h ''adminThingsModelCurrent'')],
         (case currentModel of
            None \<Rightarrow> El ''span'' [Attr ''title'' (ho_t h ''adminDeviceServiceNoCurrentModel'')]
              [El ''span'' [] [Txt (ho_t h ''adminDeviceServiceNoCurrentModel'')]]
          | Some m \<Rightarrow> El ''span'' [Attr ''title'' (model_title m)]
              [El ''span'' [] [Txt (tm_name m)], El ''span'' [] [Txt (''v'' @ dec_int (tm_version m))]])]]"

definition tabButtonClassName :: "bool \<Rightarrow> string" where
  "tabButtonClassName active =
     ''inline-flex min-h-11 items-center gap-2 border-b-2 px-3 text-sm font-bold transition '' @
     (if active then ''border-linkflow-primary text-linkflow-primary''
      else ''border-transparent text-linkflow-muted hover:text-linkflow-primary dark:text-linkflow-dark-muted dark:hover:text-linkflow-dark-primary'')"

section \<open>Actions\<close>

datatype history_list = EventList | SetList | CallList

datatype values_action =
    ChooseValuesTenant string
  | ChooseProduct string
  | ChooseDevice string
  | ReloadLatest
  | ShowTab property_tab
  | SetAggregate trend_aggregate
  | SetBucket jsnum
  | SetFrom string
  | SetTo string
  | ToggleProperty string
  | ReloadTrend
  | SetText string
  | SendProperties
  | UseProperty string
  | ChooseService string
  | AddInput string "js option"
  | ChangeName string string
  | ChangeType string input_type
  | ChangeValue string string
  | RemoveInput string
  | CallService
  | HistoryName history_list string
  | HistoryPage history_list jsnum
  | HistorySize history_list jsnum
  | HistoryDeadline history_list jsnum
  | ReloadHistory history_list

section \<open>The latest values\<close>

fun card_value_node :: "card_value \<Rightarrow> 'a node" where
  "card_value_node (StructuredValue formatted summary) =
     El ''details'' [] [
       El ''summary'' [Attr ''title'' formatted] [El ''span'' [] [Txt summary], El ''span'' [] [Icon ''DownOutlined'']],
       El ''pre'' [] [Txt formatted]]"
| "card_value_node (PlainValue text unit) =
     El ''div'' [] [
       El ''p'' (optional_attr ''title'' text) [case text of None \<Rightarrow> Null | Some x \<Rightarrow> Txt x],
       (case unit of None \<Rightarrow> Null | Some u \<Rightarrow> El ''span'' [] [Txt u])]"

definition card_node :: "string \<Rightarrow> string option \<Rightarrow> property_card \<Rightarrow> 'a node" where
  "card_node key occurredAt pcard =
     El ''article'' [Attr ''key'' key] [
       El ''div'' [] [
         El ''div'' [] [
           El ''h4'' [Attr ''title'' (pcd_name pcard)] [Txt (pcd_name pcard)],
           (case pcd_alias pcard of None \<Rightarrow> Null | Some name \<Rightarrow> El ''p'' [Attr ''title'' name] [Txt name])],
         El ''span'' [Attr ''className'' (valueTypeBadgeClassName (pcd_type pcard))] [Txt (pcd_type pcard)]],
       card_value_node (pcd_value pcard),
       El ''time'' (Attr ''title'' (pcd_time_title pcard) # optional_attr ''dateTime'' occurredAt) [Txt (pcd_time pcard)]]"

definition latest_summary :: "host \<Rightarrow> latest_properties \<Rightarrow> 'a node" where
  "latest_summary h l =
     El ''div'' [] [
       El ''article'' [] [El ''p'' [] [Txt (ho_t h ''adminDevicePropertyProductKey'')],
         El ''strong'' [] [Txt (lp_product_key l)]],
       El ''article'' [] [El ''p'' [] [Txt (ho_t h ''adminDevicePropertyDeviceSlug'')],
         El ''strong'' [] [Txt (lp_device_slug l)]],
       El ''article'' [] [El ''p'' [] [Txt (ho_t h ''adminDevicePropertyOccurredAt'')],
         El ''strong'' [] [Txt (short_time h (lp_occurred_at l))]],
       El ''article'' [] [El ''p'' [] [Txt (ho_t h ''adminDevicePropertyReceivedAt'')],
         El ''strong'' [] [Txt (short_time h (lp_received_at l))]]]"

definition latest_panel :: "host \<Rightarrow> latest_properties option \<Rightarrow> bool \<Rightarrow> things_model option \<Rightarrow> 'a node" where
  "latest_panel h latest loading currentModel =
     (case (LatestPropertiesPanel (ho_parse h) (ho_short h) (ho_full h) latest loading currentModel, latest) of
        (LatestCards cards, Some l) \<Rightarrow>
          El ''section'' [] [latest_summary h l,
            El ''div'' [] (map2 (\<lambda>key pcard. card_node key (lp_occurred_at l) pcard) (map fst (lp_properties l)) cards)]
      | (LatestLoading, _) \<Rightarrow> El ''section'' [] [El ''p'' [] [Txt (ho_t h ''adminDevicePropertyLoadingLatest'')]]
      | _ \<Rightarrow> El ''section'' [] [El ''div'' [] [
          El ''p'' [] [Txt (ho_t h ''adminDevicePropertyLatestEmpty'')],
          El ''p'' [] [Txt (ho_t h ''adminDevicePropertyLatestEmptyDescription'')]]])"

section \<open>The trend\<close>

text \<open>The chart itself is drawn by the chart library from \<open>chart_series\<close>.\<close>

definition TrendChart :: "host \<Rightarrow> property_trend option \<Rightarrow> 'a node" where
  "TrendChart h trend =
     (if \<not> chart_shown (ho_parse h) trend
      then El ''div'' [] [El ''div'' [] [Icon ''LineChartOutlined'',
        El ''p'' [] [Txt (ho_t h ''adminDevicePropertyHistoryEmpty'')]]]
      else El ''div'' [] [El ''div'' [Attr ''role'' ''img'',
        Attr ''aria-label'' (ho_t h ''adminDevicePropertyHistoryTitle'')] []])"

definition trend_inputs :: "host \<Rightarrow> 'w values_page_scheme \<Rightarrow> values_action node" where
  "trend_inputs h s =
     El ''div'' [] [
       El ''label'' [] [Txt (ho_t h ''adminDevicePropertyTrendFrom''),
         El ''input'' [Attr ''type'' ''datetime-local'', Attr ''value'' (tr_from (vg_trendRange s)), OnChange SetFrom] []],
       El ''label'' [] [Txt (ho_t h ''adminDevicePropertyTrendTo''),
         El ''input'' [Attr ''type'' ''datetime-local'', Attr ''value'' (tr_to (vg_trendRange s)), OnChange SetTo] []],
       El ''label'' [] [Txt (ho_t h ''adminDevicePropertyTrendBucket''),
         El ''select'' [Attr ''value'' (dec_int (vg_bucketSeconds s)), OnChange (\<lambda>value. SetBucket (Number value))]
           (map (\<lambda>seconds. option_node (dec seconds) (formatTrendBucketLabel seconds (ho_t h))) [60, 300, 900, 3600])],
       El ''label'' [] [Txt (ho_t h ''adminDevicePropertyTrendAggregate''),
         El ''select'' [Attr ''value'' (aggregate_text (vg_aggregate s)),
             OnChange (\<lambda>value. SetAggregate (typed aggregate_text [Avg, Min, Max, Last] value))]
           [option_node ''avg'' (ho_t h ''adminDevicePropertyTrendAggregateAvg''),
            option_node ''min'' (ho_t h ''adminDevicePropertyTrendAggregateMin''),
            option_node ''max'' (ho_t h ''adminDevicePropertyTrendAggregateMax''),
            option_node ''last'' (ho_t h ''adminDevicePropertyTrendAggregateLast'')]]]"

definition trend_checkbox :: "string list \<Rightarrow> nat \<Rightarrow> trend_option \<Rightarrow> values_action node" where
  "trend_checkbox selectedProperties index property =
     El ''label'' [Attr ''key'' (to_key property)] [
       El ''input'' [Attr ''type'' ''checkbox'', Flag ''checked'' (to_key property \<in> set selectedProperties),
         OnCheck (\<lambda>checked. ToggleProperty (to_key property))] [],
       El ''span'' [Attr ''backgroundColor'' (trendLineColors ! (index mod length trendLineColors))] [],
       El ''span'' [] [Txt (to_label property)],
       (case to_unit property of None \<Rightarrow> Null | Some u \<Rightarrow> when (u \<noteq> []) (El ''span'' [] [Txt u]))]"

definition trend_checkboxes :: "host \<Rightarrow> trend_option list \<Rightarrow> string list \<Rightarrow> values_action node" where
  "trend_checkboxes h propertyOptions selectedProperties =
     El ''div'' [] [
       El ''p'' [] [Txt (ho_t h ''adminDevicePropertyTrendProperties'')],
       (if length propertyOptions = 0 then El ''p'' [] [Txt (ho_t h ''adminDevicePropertyTrendNoProperties'')]
        else El ''div'' [] (map2 (trend_checkbox selectedProperties) [0..<length propertyOptions] propertyOptions))]"

definition trend_reload_disabled :: "'w values_page_scheme \<Rightarrow> trend_option list \<Rightarrow> bool" where
  "trend_reload_disabled s propertyOptions \<longleftrightarrow>
     vg_loadingTrend s \<or> length (vg_trendProperties s) = 0 \<or> length propertyOptions = 0"

definition trend_actions :: "host \<Rightarrow> trend_option list \<Rightarrow> 'w values_page_scheme \<Rightarrow> values_action node" where
  "trend_actions h propertyOptions s =
     El ''div'' [] [
       El ''p'' [] [Txt (replace_first ''{count}'' (dec (trend_point_count (vg_trend s)))
         (ho_t h ''adminDevicePropertyTrendPoints''))],
       button [Flag ''disabled'' (trend_reload_disabled s propertyOptions)] ReloadTrend
         [Icon ''ReloadOutlined'', Txt (if vg_loadingTrend s then ho_t h ''adminDevicePropertyTrendLoading''
            else ho_t h ''adminDevicePropertyTrendReload'')]]"

definition HistoryPropertiesPanel :: "host \<Rightarrow> trend_option list \<Rightarrow> 'w values_page_scheme \<Rightarrow> values_action node" where
  "HistoryPropertiesPanel h propertyOptions s =
     El ''section'' [] [
       El ''div'' [] [
         El ''div'' [] [El ''h3'' [] [Txt (ho_t h ''adminDevicePropertyHistoryTitle'')],
           El ''p'' [] [Txt (ho_t h ''adminDevicePropertyHistoryHint'')]],
         Icon ''LineChartOutlined''],
       El ''div'' [] [
         trend_inputs h s,
         trend_checkboxes h propertyOptions (vg_trendProperties s),
         trend_actions h propertyOptions s],
       TrendChart h (vg_trend s)]"

section \<open>What they offer\<close>

lemma shown_only [simp]:
  "\<not> offers (TimeCell h v) a" "\<not> offers (compact_preview j) a" "\<not> offers (full_preview j) a" "\<not> offers (ShortID i) a"
  "\<not> offers (AckStatusBadge h st) a" "\<not> offers (ConnectionStatusBadge h d) a"
  "\<not> offers (DeviceContextStatusBar h m d) a" "\<not> offers (TrendChart h trend) a" "\<not> offers (RealtimeStatusBadge t rs) a"
  by (auto simp: TimeCell_def compact_preview_def full_preview_def ShortID_def AckStatusBadge_def ConnectionStatusBadge_def
      DeviceContextStatusBar_def TrendChart_def RealtimeStatusBadge_def optional_attr_def split: option.split prod.split)

lemma card_offers [simp]: "\<not> offers (card_node key t pcard) a"
  by (cases "pcd_value pcard") (auto simp: card_node_def optional_attr_def split: option.split)

lemma latest_panel_offers [simp]: "\<not> offers (latest_panel h latest loading m) a"
proof -
  have "\<not> list_ex (\<lambda>n. offers n a) (map2 (\<lambda>key pcard. card_node key t pcard) ks cards)" for t ks cards
    by (auto simp: list_ex_iff)
  then show ?thesis by (auto simp: latest_panel_def latest_summary_def split: latest_view.split option.split)
qed

lemma trend_panel_offers:
  assumes "offers (HistoryPropertiesPanel h options s) a"
  shows "(\<exists>k \<in> to_key ` set options. a = ToggleProperty k) \<or> (\<exists>v. a \<in> {SetFrom v, SetTo v}) \<or>
    (\<exists>n \<in> {60, 300, 900, 3600}. a = SetBucket (Number (dec n))) \<or> (\<exists>g. a = SetAggregate g) \<or>
    a = ReloadTrend \<and> \<not> trend_reload_disabled s options"
  using assms
  by (auto simp: HistoryPropertiesPanel_def trend_actions_def trend_inputs_def trend_checkboxes_def trend_checkbox_def list_ex_iff
      dest!: set_zip_rightD split: option.splits if_splits)

end
