(* ===== verification/CommandPanels.thy ===== *)
theory CommandPanels
  imports PropertyPanels
begin

text \<open>
  The two command panels of the device property page: setting properties and calling a service.
\<close>

section \<open>Setting properties\<close>

text \<open>What a sent command shows: its id, its topic and when it was sent.\<close>

definition command_result :: "host \<Rightarrow> string \<Rightarrow> string \<Rightarrow> string \<Rightarrow> string \<Rightarrow> 'a node \<Rightarrow> 'a node" where
  "command_result h titleKey command_id topic sent_at details =
     El ''article'' [] [
       El ''div'' [] [
         El ''div'' [] [El ''p'' [] [Txt (ho_t h titleKey)], El ''div'' [] [ShortID command_id]],
         El ''span'' [] [Txt (ho_t h ''adminDeviceServiceDispatched'')]],
       El ''dl'' [] [
         El ''div'' [] [El ''dt'' [] [Txt (ho_t h ''adminDeviceServiceTopic'')], El ''dd'' [] [Txt topic]],
         El ''div'' [] [El ''dt'' [] [Txt (ho_t h ''adminDeviceServiceSentAt'')],
           El ''dd'' [] [Txt (short_time h (Some sent_at))]]],
       details]"

definition writable_hint :: "host \<Rightarrow> 'w values_page_scheme \<Rightarrow> string" where
  "writable_hint h s =
     (let writableProperties = writablePropertyEntriesOf (vg_model s)
      in if 0 < length writableProperties
         then replace_first ''{count}'' (dec (length writableProperties)) (ho_t h ''adminDevicePropertyWritableCount'')
         else if vg_model s \<noteq> None then ho_t h ''adminDevicePropertySetNoWritable''
         else ho_t h ''adminDeviceServiceNoCurrentModel'')"

text \<open>The label of a property or parameter; \<open>missing\<close> stands for a missing data type.\<close>

definition definition_label :: "string \<Rightarrow> string \<Rightarrow> js \<Rightarrow> 'a node list" where
  "definition_label missing name d =
     [El ''span'' [] [Txt (propertyDisplayName name (Some d))],
      El ''span'' [] [Txt (name @ '' / '' @ (case propertyDataType (Some d) of None \<Rightarrow> missing | Some ty \<Rightarrow> ty))]]"

definition DevicePropertySetPanel :: "host \<Rightarrow> 'w values_page_scheme \<Rightarrow> values_action node" where
  "DevicePropertySetPanel h s =
     (let writableProperties = writablePropertyEntriesOf (vg_model s)
      in El ''section'' [] [
        El ''div'' [] [
          El ''div'' [] [
            El ''div'' [] [El ''p'' [] [Txt (ho_t h ''adminDevicePropertySetTitle'')], El ''p'' [] [Txt (writable_hint h s)]],
            button [Flag ''disabled'' (\<not> canSet s)] SendProperties
              [Icon ''SendOutlined'', Txt (if vg_setting s then ho_t h ''adminDevicePropertySetting''
                 else ho_t h ''adminDevicePropertySetSend'')]],
          El ''div'' [] [
            El ''p'' [] [Txt (ho_t h ''adminDevicePropertyWritableProperties'')],
            (if length writableProperties = 0 then El ''p'' [] [Txt (ho_t h ''adminDevicePropertySetNoWritable'')]
             else El ''div'' [] (map (\<lambda>(name, d). button [Attr ''key'' name] (UseProperty name)
               (definition_label ''unknown'' name d)) writableProperties))],
          El ''label'' [] [Txt (ho_t h ''adminDevicePropertySetPayload''),
            El ''textarea'' [Attr ''value'' (vg_setText s), OnChange SetText,
              Flag ''disabled'' (vg_loadingServices s \<or> length writableProperties = 0)] []]],
        (case vg_setResult s of None \<Rightarrow> Null
         | Some r \<Rightarrow> command_result h ''adminDevicePropertySetResult'' (psr_command_id r) (psr_topic r) (psr_sent_at r)
             (compact_preview (Some (JObj (psr_properties r)))))])"

section \<open>Calling a service\<close>

fun input_type_text :: "input_type \<Rightarrow> string" where
  "input_type_text InString = ''string''"
| "input_type_text InInt = ''int''"
| "input_type_text InFloat = ''float''"
| "input_type_text InDouble = ''double''"
| "input_type_text InBool = ''bool''"
| "input_type_text InJson = ''json''"

definition input_types :: "input_type list" where
  "input_types = [InString, InInt, InFloat, InDouble, InBool, InJson]"

definition service_select :: "host \<Rightarrow> 'w values_page_scheme \<Rightarrow> values_action node" where
  "service_select h s =
     (let services = serviceEntriesOf (vg_model s)
      in El ''label'' [] [Txt (ho_t h ''adminDeviceServiceName''),
           El ''select'' [Attr ''value'' (vg_serviceName s), OnChange ChooseService,
             Flag ''disabled'' (selectedDevice s = None \<or> vg_loadingServices s \<or> length services = 0)]
             (when (length services = 0) (option_node [] (ho_t h ''adminDeviceServiceNoService'')) #
              map (\<lambda>(name, d). option_node name (serviceDisplayName name (Some d) @ '' ('' @ name @ '')'')) services)])"

definition input_definition :: "'w values_page_scheme \<Rightarrow> js_object" where
  "input_definition s =
     serviceInputDefinition (if vg_serviceName s = [] then None
       else case vg_model s of None \<Rightarrow> None | Some m \<Rightarrow> obj_get (tm_services m) (vg_serviceName s))"

definition input_definition_buttons :: "host \<Rightarrow> 'w values_page_scheme \<Rightarrow> values_action node" where
  "input_definition_buttons h s =
     El ''div'' [] [
       El ''p'' [] [Txt (ho_t h ''adminDeviceServiceInputDefinition'')],
       (if length (input_definition s) = 0 then El ''p'' [] [Txt (ho_t h ''adminDeviceServiceNoInputDefinition'')]
        else El ''div'' [] (map (\<lambda>(name, d). button [Attr ''key'' name] (AddInput name (Some d))
          (definition_label ''json'' name d)) (input_definition s)))]"

definition input_row :: "host \<Rightarrow> input_draft \<Rightarrow> values_action node" where
  "input_row h param =
     El ''div'' [Attr ''key'' (id_id param)] [
       El ''label'' [] [Txt (ho_t h ''adminDeviceServiceParamName''),
         El ''input'' [Attr ''value'' (id_name param), OnChange (ChangeName (id_id param))] []],
       El ''label'' [] [Txt (ho_t h ''adminDeviceServiceParamType''),
         El ''select'' [Attr ''value'' (input_type_text (id_valueType param)),
             OnChange (\<lambda>value. ChangeType (id_id param) (typed input_type_text input_types value))]
           (map (\<lambda>type. option_node (input_type_text type) (input_type_text type)) input_types)],
       (if id_valueType param = InBool
        then El ''label'' [] [Txt (ho_t h ''adminDeviceServiceParamValue''),
          El ''select'' [Attr ''value'' (id_value param), OnChange (ChangeValue (id_id param))]
            [option_node ''false'' ''false'', option_node ''true'' ''true'']]
        else El ''label'' [] [Txt (ho_t h ''adminDeviceServiceParamValue''),
          El ''input'' [Attr ''value'' (id_value param), OnChange (ChangeValue (id_id param))] []]),
       button [Attr ''aria-label'' (ho_t h ''adminDeviceServiceRemoveInputParam'')] (RemoveInput (id_id param))
         [Icon ''CloseOutlined'']]"

definition input_rows :: "host \<Rightarrow> 'w values_page_scheme \<Rightarrow> values_action node" where
  "input_rows h s =
     El ''div'' [] [
       El ''div'' [] [El ''p'' [] [Txt (ho_t h ''adminDeviceServiceInputParams'')],
         button [] (AddInput [] None) [Icon ''PlusOutlined'', Txt (ho_t h ''adminDeviceServiceAddInputParam'')]],
       (if length (vg_inputs s) = 0 then El ''div'' [] [Txt (ho_t h ''adminDeviceServiceInputParamsEmpty'')]
        else El ''div'' [] (map (input_row h) (vg_inputs s)))]"

definition generated_input_view :: "host \<Rightarrow> js_object \<Rightarrow> values_action node" where
  "generated_input_view h input =
     El ''div'' [] [El ''p'' [] [Txt (ho_t h ''adminDeviceServiceGeneratedInput'')], full_preview (Some (JObj input))]"

definition call_result_view :: "host \<Rightarrow> service_call_result option \<Rightarrow> values_action node" where
  "call_result_view h result =
     (case result of None \<Rightarrow> Null
      | Some r \<Rightarrow> command_result h ''adminDeviceServiceResult'' (scr_command_id r) (scr_topic r) (scr_sent_at r) Null)"

definition DeviceServiceCallPanel :: "host \<Rightarrow> 'w values_page_scheme \<Rightarrow> values_action node" where
  "DeviceServiceCallPanel h s =
     El ''section'' [] [
       El ''div'' [] [
         El ''div'' [] [
           service_select h s,
           button [Flag ''disabled'' (\<not> canCall s)] CallService
             [Icon ''SendOutlined'', Txt (if vg_calling s then ho_t h ''adminDeviceServiceCalling''
                else ho_t h ''adminDeviceServiceCall'')]],
         input_definition_buttons h s,
         El ''div'' [] [
           input_rows h s,
           generated_input_view h (generatedInput s)]],
       call_result_view h (vg_callResult s)]"

section \<open>What they offer\<close>

lemma command_parts_offer [simp]:
  "offers (command_result h k i tp st n) a \<longleftrightarrow> offers n a"
  "list_ex (\<lambda>n. offers n a) (definition_label x name d) = False"
  by (auto simp: command_result_def definition_label_def)

lemma label_offers_nothing: "n \<in> set (definition_label x name d) \<Longrightarrow> offers n a \<Longrightarrow> False"
  by (auto simp: definition_label_def)

lemma set_panel_offers_iff:
  "offers (DevicePropertySetPanel h s) a \<longleftrightarrow>
     a = SendProperties \<and> canSet s \<or>
     (\<exists>name \<in> fst ` set (writablePropertyEntriesOf (vg_model s)). a = UseProperty name) \<or>
     (\<exists>txt. a = SetText txt) \<and> \<not> vg_loadingServices s \<and> writablePropertyEntriesOf (vg_model s) \<noteq> []"
  by (auto simp: DevicePropertySetPanel_def Let_def list_ex_iff case_prod_unfold
      dest: label_offers_nothing split: option.split)

lemma input_row_offers:
  "offers (input_row h param) a \<Longrightarrow>
     (\<exists>v. a = ChangeName (id_id param) v) \<or> (\<exists>ty. a = ChangeType (id_id param) ty) \<or>
     (\<exists>v. a = ChangeValue (id_id param) v) \<or> a = RemoveInput (id_id param)"
  by (auto simp: input_row_def list_ex_iff split: if_splits)

lemma call_panel_send: "offers (DeviceServiceCallPanel h s) CallService \<longleftrightarrow> canCall s"
proof -
  have "\<not> list_ex (\<lambda>n. offers n CallService) (map (input_row h) (vg_inputs s))"
    using input_row_offers by (fastforce simp: list_ex_iff)
  then show ?thesis
    by (auto simp: DeviceServiceCallPanel_def generated_input_view_def call_result_view_def service_select_def input_definition_buttons_def input_rows_def Let_def
        list_ex_iff case_prod_unfold dest: label_offers_nothing split: option.split)
qed

lemma call_panel_offers_only:
  assumes "offers (DeviceServiceCallPanel h s) a"
  shows "(\<exists>name. a = ChooseService name \<and> (name = [] \<or> name \<in> fst ` set (serviceEntriesOf (vg_model s)))) \<or>
    a = CallService \<and> canCall s \<or> (\<exists>name d. a = AddInput name d) \<or>
    (\<exists>i \<in> id_id ` set (vg_inputs s). (\<exists>v. a \<in> {ChangeName i v, ChangeValue i v, RemoveInput i}) \<or> (\<exists>ty. a = ChangeType i ty))"
proof -
  have rows: "\<exists>param \<in> set (vg_inputs s). offers (input_row h param) a"
    if "list_ex (\<lambda>n. offers n a) (map (input_row h) (vg_inputs s))" using that by (auto simp: list_ex_iff)
  then have "(\<exists>i \<in> id_id ` set (vg_inputs s). (\<exists>v. a \<in> {ChangeName i v, ChangeValue i v, RemoveInput i}) \<or> (\<exists>ty. a = ChangeType i ty))"
    if "list_ex (\<lambda>n. offers n a) (map (input_row h) (vg_inputs s))" using that input_row_offers by fastforce
  moreover have "(\<exists>name. a = ChooseService name \<and> (name = [] \<or> name \<in> fst ` set (serviceEntriesOf (vg_model s)))) \<or>
      a = CallService \<and> canCall s \<or> (\<exists>name d. a = AddInput name d) \<or> list_ex (\<lambda>n. offers n a) (map (input_row h) (vg_inputs s))"
    using assms
    by (auto simp: DeviceServiceCallPanel_def generated_input_view_def call_result_view_def service_select_def input_definition_buttons_def input_rows_def Let_def o_def
        list_ex_iff case_prod_unfold dest: label_offers_nothing split: option.splits if_splits)
  ultimately show ?thesis by blast
qed

end
