(* ===== verification/HistoryPanels.thy ===== *)
theory HistoryPanels
  imports PropertyPanels
begin

text \<open>
  The three history panels of the device property page: events, property sets and service calls.
  Each has a filter, a reload button and a table with its pagination bar.
\<close>

section \<open>Parts of the panels\<close>

definition history_bar ::
  "host \<Rightarrow> string \<Rightarrow> string \<Rightarrow> string \<Rightarrow> history_list \<Rightarrow> 'e history \<Rightarrow> values_action pagination" where
  "history_bar h loadingKey pageKey totalKey which hist =
     \<lparr>pn_jumpLabel = ho_t h ''adminDeviceJump'', pn_jumpToLabel = ho_t h ''adminDeviceJumpTo'',
      pn_loading = hs_loading hist, pn_loadingLabel = ho_t h loadingKey, pn_nextLabel = ho_t h ''adminDeviceNext'',
      pn_onPageChange = HistoryPage which, pn_onPageSizeChange = HistorySize which, pn_page = hs_page hist,
      pn_pageLabel = replace_first ''{totalPages}'' (num_str (totalPages (hs_total hist) (hs_pageSize hist)))
        (replace_first ''{page}'' (dec_int (hs_page hist)) (ho_t h pageKey)),
      pn_pageSize = hs_pageSize hist, pn_pageSizeLabel = ho_t h ''adminDevicePageSize'',
      pn_pageSizeOptions = [10, 20, 50, 100], pn_prevLabel = ho_t h ''adminDevicePrev'', pn_total = hs_total hist,
      pn_totalLabel = replace_first ''{total}'' (dec_int (hs_total hist)) (ho_t h totalKey)\<rparr>"

text \<open>A label with a time below it, in the entries of small screens.\<close>

definition time_entry :: "host \<Rightarrow> string \<Rightarrow> string option \<Rightarrow> 'a node" where
  "time_entry h key value = El ''div'' [] [El ''dt'' [] [Txt (ho_t h key)], El ''dd'' [] [TimeCell h value]]"

text \<open>When a command was acknowledged, or by when it has to be.\<close>

definition ack_time :: "string option \<Rightarrow> string \<Rightarrow> string option" where
  "ack_time occurred deadline = Some (case occurred of None \<Rightarrow> deadline | Some x \<Rightarrow> x)"

definition preview_object :: "js_object option \<Rightarrow> js option" where
  "preview_object ob = Some (JObj (case ob of None \<Rightarrow> [] | Some x \<Rightarrow> x))"

definition deadline_select :: "host \<Rightarrow> history_list \<Rightarrow> int \<Rightarrow> values_action node" where
  "deadline_select h which ackDeadlineSeconds =
     El ''label'' [] [Txt (ho_t h ''adminDeviceServiceAckDeadline''),
       El ''select'' [Attr ''value'' (dec_int ackDeadlineSeconds), OnChange (\<lambda>value. HistoryDeadline which (Number value))]
         (map (\<lambda>seconds. option_node (dec seconds)
            (replace_first ''{seconds}'' (dec seconds) (ho_t h ''adminDeviceServiceAckDeadlineSeconds''))) [30, 60, 90, 180, 300])]"

definition name_filter :: "host \<Rightarrow> history_list \<Rightarrow> string \<Rightarrow> string \<Rightarrow> string \<Rightarrow> values_action node" where
  "name_filter h which labelKey placeholderKey name =
     El ''label'' [] [Txt (ho_t h labelKey),
       El ''input'' [Attr ''value'' name, OnChange (HistoryName which), Attr ''placeholder'' (ho_t h placeholderKey)] []]"

definition reload_button :: "host \<Rightarrow> history_list \<Rightarrow> string \<Rightarrow> bool \<Rightarrow> values_action node" where
  "reload_button h which key loading =
     button [Flag ''disabled'' loading] (ReloadHistory which) [Icon ''ReloadOutlined'', Txt (ho_t h key)]"

section \<open>Events\<close>

definition event_place :: "event_entry \<Rightarrow> string" where
  "event_place entry = ee_product_key entry @ ''/'' @ ee_device_slug entry"

definition event_columns :: "host \<Rightarrow> (event_entry, values_action) column list" where
  "event_columns h =
     [\<lparr>cn_key = ''event_name'', cn_title = Txt (ho_t h ''adminDeviceEventName''),
        cn_render = (\<lambda>entry. El ''div'' [] [El ''p'' [] [Txt (ee_event_name entry)], El ''p'' [] [Txt (event_place entry)]])\<rparr>,
      \<lparr>cn_key = ''occurred_at'', cn_title = Txt (ho_t h ''adminDevicePropertyOccurredAt''),
        cn_render = (\<lambda>entry. TimeCell h (Some (ee_occurred_at entry)))\<rparr>,
      \<lparr>cn_key = ''received_at'', cn_title = Txt (ho_t h ''adminDevicePropertyReceivedAt''),
        cn_render = (\<lambda>entry. TimeCell h (Some (ee_received_at entry)))\<rparr>,
      \<lparr>cn_key = ''params'', cn_title = Txt (ho_t h ''adminDeviceEventParams''),
        cn_render = (\<lambda>entry. compact_preview (Some (JObj (ee_params entry))))\<rparr>]"

definition event_mobileItems :: "host \<Rightarrow> event_entry list \<Rightarrow> values_action node" where
  "event_mobileItems h events = Many (map (\<lambda>entry.
     El ''article'' [Attr ''key'' (ee_event_id entry)] [
       El ''div'' [] [El ''div'' [] [El ''p'' [] [Txt (ee_event_name entry)], El ''p'' [] [Txt (event_place entry)]]],
       El ''dl'' [] [time_entry h ''adminDevicePropertyOccurredAt'' (Some (ee_occurred_at entry)),
         time_entry h ''adminDevicePropertyReceivedAt'' (Some (ee_received_at entry))],
       compact_preview (Some (JObj (ee_params entry)))]) events)"

definition event_bar :: "host \<Rightarrow> event_entry history \<Rightarrow> values_action pagination" where
  "event_bar h = history_bar h ''adminDeviceEventLoadingHistory'' ''adminDeviceEventPage'' ''adminDeviceEventTotal'' EventList"

definition DeviceEventsPanel :: "host \<Rightarrow> string \<Rightarrow> event_entry history \<Rightarrow> values_action table_action node" where
  "DeviceEventsPanel h jumpPage hist =
     El ''section'' [] [
       map_node Outer (El ''div'' [] [
         name_filter h EventList ''adminDeviceEventName'' ''adminDeviceEventAllEvents'' (hs_name hist),
         El ''div'' [] [
           El ''label'' [] [Txt (ho_t h ''adminDevicePageSize''),
             El ''select'' [Attr ''value'' (dec_int (hs_pageSize hist)), OnChange (\<lambda>value. HistorySize EventList (Number value))]
               (map (\<lambda>size. option_node (dec size) (dec size)) [10, 20, 50, 100])],
           reload_button h EventList ''adminDeviceEventLoadHistory'' (hs_loading hist)]]),
       AdminDataTable (event_columns h) (ho_t h ''adminDeviceEventHistoryEmpty'') (ho_t h ''adminDeviceEventHistoryEmpty'')
         ee_event_id (hs_entries hist) (event_mobileItems h (hs_entries hist)) (event_bar h hist) jumpPage]"

section \<open>Service calls\<close>

definition call_columns :: "host \<Rightarrow> (service_call_entry, values_action) column list" where
  "call_columns h =
     [\<lparr>cn_key = ''service_name'', cn_title = Txt (ho_t h ''adminDeviceServiceName''),
        cn_render = (\<lambda>entry. El ''div'' [] [El ''p'' [] [Txt (sce_service_name entry)],
          El ''div'' [] [ShortID (sce_command_id entry)]])\<rparr>,
      \<lparr>cn_key = ''ack_status'', cn_title = Txt (ho_t h ''adminDeviceServiceAckStatus''),
        cn_render = (\<lambda>entry. AckStatusBadge h (sce_ack_status entry))\<rparr>,
      \<lparr>cn_key = ''occurred_at'', cn_title = Txt (ho_t h ''adminDeviceServiceSentAt''),
        cn_render = (\<lambda>entry. TimeCell h (Some (sce_occurred_at entry)))\<rparr>,
      \<lparr>cn_key = ''ack_occurred_at'', cn_title = Txt (ho_t h ''adminDeviceServiceAckAt''),
        cn_render = (\<lambda>entry. TimeCell h (ack_time (sce_ack_occurred_at entry) (sce_ack_deadline_at entry)))\<rparr>,
      \<lparr>cn_key = ''input'', cn_title = Txt (ho_t h ''adminDeviceServiceInput''),
        cn_render = (\<lambda>entry. compact_preview (Some (JObj (sce_input entry))))\<rparr>,
      \<lparr>cn_key = ''ack_output'', cn_title = Txt (ho_t h ''adminDeviceServiceAckOutput''),
        cn_render = (\<lambda>entry. compact_preview (preview_object (sce_ack_output entry)))\<rparr>]"

definition call_mobileItems :: "host \<Rightarrow> service_call_entry list \<Rightarrow> values_action node" where
  "call_mobileItems h calls = Many (map (\<lambda>entry.
     El ''article'' [Attr ''key'' (sce_command_id entry)] [
       El ''div'' [] [
         El ''div'' [] [El ''p'' [] [Txt (sce_service_name entry)], El ''div'' [] [ShortID (sce_command_id entry)]],
         AckStatusBadge h (sce_ack_status entry)],
       El ''dl'' [] [time_entry h ''adminDeviceServiceSentAt'' (Some (sce_occurred_at entry)),
         time_entry h ''adminDeviceServiceAckAt'' (ack_time (sce_ack_occurred_at entry) (sce_ack_deadline_at entry))],
       El ''div'' [] [compact_preview (Some (JObj (sce_input entry))),
         compact_preview (preview_object (sce_ack_output entry))]]) calls)"

definition call_bar :: "host \<Rightarrow> service_call_entry history \<Rightarrow> values_action pagination" where
  "call_bar h =
     history_bar h ''adminDeviceServiceHistoryLoading'' ''adminDeviceServiceHistoryPage'' ''adminDeviceServiceHistoryTotal'' CallList"

definition DeviceServiceHistoryPanel ::
  "host \<Rightarrow> string \<Rightarrow> int \<Rightarrow> service_call_entry history \<Rightarrow> values_action table_action node" where
  "DeviceServiceHistoryPanel h jumpPage ackDeadlineSeconds hist =
     El ''section'' [] [
       map_node Outer (El ''div'' [] [
         El ''div'' [] [
           name_filter h CallList ''adminDeviceServiceName'' ''adminDeviceServiceAllServices'' (hs_name hist),
           deadline_select h CallList ackDeadlineSeconds],
         reload_button h CallList ''adminDeviceServiceHistoryReload'' (hs_loading hist)]),
       AdminDataTable (call_columns h) (ho_t h ''adminDeviceServiceHistoryEmpty'') (ho_t h ''adminDeviceServiceHistoryEmpty'')
         sce_command_id (hs_entries hist) (call_mobileItems h (hs_entries hist)) (call_bar h hist) jumpPage]"

section \<open>Property sets\<close>

definition set_columns :: "host \<Rightarrow> (property_set_entry, values_action) column list" where
  "set_columns h =
     [\<lparr>cn_key = ''command_id'', cn_title = Txt (ho_t h ''adminDevicePropertySetCommand''),
        cn_render = (\<lambda>entry. El ''div'' [] [ShortID (pse_command_id entry)])\<rparr>,
      \<lparr>cn_key = ''ack_status'', cn_title = Txt (ho_t h ''adminDeviceServiceAckStatus''),
        cn_render = (\<lambda>entry. AckStatusBadge h (pse_ack_status entry))\<rparr>,
      \<lparr>cn_key = ''occurred_at'', cn_title = Txt (ho_t h ''adminDeviceServiceSentAt''),
        cn_render = (\<lambda>entry. TimeCell h (Some (pse_occurred_at entry)))\<rparr>,
      \<lparr>cn_key = ''ack_occurred_at'', cn_title = Txt (ho_t h ''adminDeviceServiceAckAt''),
        cn_render = (\<lambda>entry. TimeCell h (ack_time (pse_ack_occurred_at entry) (pse_ack_deadline_at entry)))\<rparr>,
      \<lparr>cn_key = ''properties'', cn_title = Txt (ho_t h ''adminDevicePropertySetPayload''),
        cn_render = (\<lambda>entry. compact_preview (Some (JObj (pse_properties entry))))\<rparr>,
      \<lparr>cn_key = ''ack_properties'', cn_title = Txt (ho_t h ''adminDevicePropertySetAckProperties''),
        cn_render = (\<lambda>entry. compact_preview (preview_object (pse_ack_properties entry)))\<rparr>]"

definition set_mobileItems :: "host \<Rightarrow> property_set_entry list \<Rightarrow> values_action node" where
  "set_mobileItems h sets = Many (map (\<lambda>entry.
     El ''article'' [Attr ''key'' (pse_command_id entry)] [
       El ''div'' [] [ShortID (pse_command_id entry), AckStatusBadge h (pse_ack_status entry)],
       El ''dl'' [] [time_entry h ''adminDeviceServiceSentAt'' (Some (pse_occurred_at entry)),
         time_entry h ''adminDeviceServiceAckAt'' (ack_time (pse_ack_occurred_at entry) (pse_ack_deadline_at entry))],
       El ''div'' [] [compact_preview (Some (JObj (pse_properties entry))),
         compact_preview (preview_object (pse_ack_properties entry))]]) sets)"

definition set_bar :: "host \<Rightarrow> property_set_entry history \<Rightarrow> values_action pagination" where
  "set_bar h = history_bar h ''adminDevicePropertySetHistoryLoading'' ''adminDevicePropertySetHistoryPage''
     ''adminDevicePropertySetHistoryTotal'' SetList"

definition DevicePropertySetHistoryPanel ::
  "host \<Rightarrow> string \<Rightarrow> int \<Rightarrow> property_set_entry history \<Rightarrow> values_action table_action node" where
  "DevicePropertySetHistoryPanel h jumpPage ackDeadlineSeconds hist =
     El ''section'' [] [
       map_node Outer (El ''div'' [] [
         El ''div'' [] [
           name_filter h SetList ''adminDevicePropertySetPropertyName'' ''adminDevicePropertySetAllProperties'' (hs_name hist),
           deadline_select h SetList ackDeadlineSeconds],
         reload_button h SetList ''adminDevicePropertySetHistoryReload'' (hs_loading hist)]),
       AdminDataTable (set_columns h) (ho_t h ''adminDevicePropertySetHistoryEmpty'')
         (ho_t h ''adminDevicePropertySetHistoryEmpty'') pse_command_id (hs_entries hist)
         (set_mobileItems h (hs_entries hist)) (set_bar h hist) jumpPage]"

section \<open>What they offer\<close>

text \<open>The actions on one of the lists.\<close>

fun about_list :: "history_list \<Rightarrow> values_action \<Rightarrow> bool" where
  "about_list which (HistoryName w name) = (w = which)"
| "about_list which (HistoryPage w n) = (w = which)"
| "about_list which (HistorySize w n) = (w = which)"
| "about_list which (HistoryDeadline w n) = (w = which)"
| "about_list which (ReloadHistory w) = (w = which)"
| "about_list which _ = False"

lemma time_entry_offers [simp]: "\<not> offers (time_entry h key v) a"
  by (simp add: time_entry_def)

lemma history_bar_offers:
  "offers (AdminTablePagination (history_bar h k1 k2 k3 which hist) jumpPage) (Outer a) \<Longrightarrow> about_list which a"
  by (auto simp: bar_offers history_bar_def)

lemma history_parts_offer:
  "offers (name_filter h which l p n) a \<Longrightarrow> about_list which a"
  "offers (deadline_select h which d) a \<Longrightarrow> about_list which a"
  "offers (reload_button h which k loading) a \<longleftrightarrow> a = ReloadHistory which \<and> \<not> loading"
  by (auto simp: name_filter_def deadline_select_def reload_button_def)

lemma event_panel_offers: "offers (DeviceEventsPanel h jumpPage hist) (Outer a) \<Longrightarrow> about_list EventList a"
  by (auto simp: DeviceEventsPanel_def table_offers offers_map event_columns_def event_mobileItems_def event_bar_def
      list_ex_iff history_parts_offer dest!: history_parts_offer(1) intro: history_bar_offers)

lemma call_panel_offers: "offers (DeviceServiceHistoryPanel h jumpPage d hist) (Outer a) \<Longrightarrow> about_list CallList a"
  by (auto simp: DeviceServiceHistoryPanel_def table_offers offers_map call_columns_def call_mobileItems_def call_bar_def
      list_ex_iff history_parts_offer dest!: history_parts_offer(1,2) intro: history_bar_offers)

lemma set_panel_offers: "offers (DevicePropertySetHistoryPanel h jumpPage d hist) (Outer a) \<Longrightarrow> about_list SetList a"
  by (auto simp: DevicePropertySetHistoryPanel_def table_offers offers_map set_columns_def set_mobileItems_def set_bar_def
      list_ex_iff history_parts_offer dest!: history_parts_offer(1,2) intro: history_bar_offers)

end
