(* ===== verification/PropertyView.thy ===== *)
theory PropertyView
  imports CommandPanels HistoryPanels PropertyInvariant
begin

text \<open>
  The view of the whole device property page (\<open>pages/Admin/DevicePropertyManagement.tsx\<close>) and its
  actions. What a user can do with the view are steps of the transition system of
  \<open>PropertyInvariant\<close>, whose guards are thus met by the controls themselves.
\<close>

section \<open>The view\<close>

definition product_filter_select :: "host \<Rightarrow> 'w values_page_scheme \<Rightarrow> values_action node" where
  "product_filter_select h s =
     El ''label'' [] [Txt (ho_t h ''adminProductName''),
       El ''select'' [Attr ''value'' (vg_productFilter s), OnChange ChooseProduct]
         (option_node [] (ho_t h ''adminDeviceAllProducts'') #
          map (\<lambda>product. option_node (pd_id product) (pd_name product)) (vg_products s))]"

definition values_device_select :: "host \<Rightarrow> 'w values_page_scheme \<Rightarrow> values_action node" where
  "values_device_select h s =
     El ''label'' [] [Txt (ho_t h ''adminDevicePropertySelectDevice''),
       El ''select'' [Attr ''value'' (vg_deviceId s), OnChange ChooseDevice, Flag ''disabled'' (length (vg_devices s) = 0)]
         (when (length (vg_devices s) = 0) (option_node [] (ho_t h ''adminDevicePropertyNoDevice'')) #
          map (\<lambda>d. option_node (dv_id d) (dv_name d)) (vg_devices s))]"

definition values_tabs :: "(property_tab \<times> string \<times> string) list" where
  "values_tabs =
     [(LatestTab, ''AppstoreOutlined'', ''adminDevicePropertyLatestTab''),
      (HistoryTab, ''FieldTimeOutlined'', ''adminDevicePropertyHistoryTab''),
      (SetTab, ''SendOutlined'', ''adminDevicePropertySetTab''),
      (CallTab, ''ApiOutlined'', ''adminDeviceServiceTab''),
      (SetHistoryTab, ''FieldTimeOutlined'', ''adminDevicePropertySetHistoryTab''),
      (CallHistoryTab, ''FieldTimeOutlined'', ''adminDeviceServiceHistoryTab''),
      (EventHistoryTab, ''LineChartOutlined'', ''adminDeviceEventHistoryTab'')]"

definition tab_list :: "host \<Rightarrow> property_tab \<Rightarrow> values_action node" where
  "tab_list h activeTab =
     El ''div'' [Attr ''role'' ''tablist'', Attr ''aria-label'' (ho_t h ''adminDevicePropertiesNav'')]
       (map (\<lambda>(tab, icon, key). button [Attr ''role'' ''tab'', Flag ''aria-selected'' (activeTab = tab),
            Attr ''className'' (tabButtonClassName (activeTab = tab))] (ShowTab tab) [Icon icon, Txt (ho_t h key)]) values_tabs)"

definition values_options :: "'w values_page_scheme \<Rightarrow> trend_option list" where
  "values_options s = trendPropertyOptionsOf (vg_model s) (vg_latest s)"

fun tab_panel :: "host \<Rightarrow> string \<Rightarrow> property_tab \<Rightarrow> 'w values_page_scheme \<Rightarrow> values_action table_action node" where
  "tab_panel h jumpPage LatestTab s = map_node Outer (latest_panel h (vg_latest s) (vg_loadingLatest s) (vg_model s))"
| "tab_panel h jumpPage HistoryTab s = map_node Outer (HistoryPropertiesPanel h (values_options s) s)"
| "tab_panel h jumpPage SetTab s = map_node Outer (DevicePropertySetPanel h s)"
| "tab_panel h jumpPage CallTab s = map_node Outer (DeviceServiceCallPanel h s)"
| "tab_panel h jumpPage SetHistoryTab s = DevicePropertySetHistoryPanel h jumpPage (vg_setDeadline s) (vg_sets s)"
| "tab_panel h jumpPage CallHistoryTab s = DeviceServiceHistoryPanel h jumpPage (vg_callDeadline s) (vg_calls s)"
| "tab_panel h jumpPage EventHistoryTab s = DeviceEventsPanel h jumpPage (vg_events s)"

definition values_header :: "host \<Rightarrow> realtime_status \<Rightarrow> 'w values_page_scheme \<Rightarrow> values_action node" where
  "values_header h realtimeStatus s =
     El ''div'' [] [
       El ''div'' [] [
         tenant_select (ho_t h) (vg_tenants s) (vg_tenantId s) ChooseValuesTenant,
         product_filter_select h s,
         values_device_select h s],
       El ''div'' [] [
         RealtimeStatusBadge (ho_t h) realtimeStatus,
         button [Flag ''disabled'' (latest_reload_disabled s)] ReloadLatest
           [Icon ''ReloadOutlined'', Txt (ho_t h ''adminDevicePropertyLoadLatest'')]]]"

definition values_view ::
  "host \<Rightarrow> realtime_status \<Rightarrow> string \<Rightarrow> 'w values_page_scheme \<Rightarrow> values_action table_action node" where
  "values_view h realtimeStatus jumpPage s =
     El ''section'' [] [
       map_node Outer (values_header h realtimeStatus s),
       map_node Outer (DeviceContextStatusBar h (vg_model s) (selectedDevice s)),
       map_node Outer (tab_list h (vg_tab s)),
       tab_panel h jumpPage (vg_tab s) s]"

section \<open>The actions\<close>

text \<open>A loader that is started and not awaited.\<close>

definition start_load :: "('s \<Rightarrow> 's \<times> effect list) \<Rightarrow> ('s, unit) act" where
  "start_load f s = (case f s of (s', es) \<Rightarrow> (Done (), s', es))"

text \<open>\<open>loadPropertyTrend()\<close> of the reload button.\<close>

definition trend_reload ::
  "(string \<Rightarrow> string) \<Rightarrow> trend_view \<Rightarrow> 'w values_page_scheme \<Rightarrow> 'w values_page_scheme \<times> effect list" where
  "trend_reload to_iso q s =
     (loadPropertyTrend_starts to_iso False q s,
      case loadPropertyTrend_asks to_iso q of None \<Rightarrow> [] | Some r \<Rightarrow> [Sent r])"

definition history_action ::
  "(event_entry history \<Rightarrow> event_entry history) \<Rightarrow> (property_set_entry history \<Rightarrow> property_set_entry history) \<Rightarrow>
   (service_call_entry history \<Rightarrow> service_call_entry history) \<Rightarrow> history_list \<Rightarrow>
   'w values_page_scheme \<Rightarrow> 'w values_page_scheme" where
  "history_action fe fs fc which s =
     (case which of
        EventList \<Rightarrow> s\<lparr>vg_events := fe (vg_events s)\<rparr>
      | SetList \<Rightarrow> s\<lparr>vg_sets := fs (vg_sets s)\<rparr>
      | CallList \<Rightarrow> s\<lparr>vg_calls := fc (vg_calls s)\<rparr>)"

fun deadline_changed :: "history_list \<Rightarrow> int \<Rightarrow> 'w values_page_scheme \<Rightarrow> 'w values_page_scheme" where
  "deadline_changed SetList secs s = handleSetDeadlineChange secs s"
| "deadline_changed CallList secs s = handleCallDeadlineChange secs s"
| "deadline_changed EventList secs s = s"

fun reload_list ::
  "'v values_page_scheme \<Rightarrow> history_list \<Rightarrow> 'w values_page_scheme \<Rightarrow> 'w values_page_scheme \<times> effect list" where
  "reload_list cl EventList s =
     (case history_reload event_request_of (event_view cl) (vg_events s) of (h, es) \<Rightarrow> (s\<lparr>vg_events := h\<rparr>, es))"
| "reload_list cl SetList s =
     (case history_reload set_request_of (set_view cl) (vg_sets s) of (h, es) \<Rightarrow> (s\<lparr>vg_sets := h\<rparr>, es))"
| "reload_list cl CallList s =
     (case history_reload call_request_of (call_view cl) (vg_calls s) of (h, es) \<Rightarrow> (s\<lparr>vg_calls := h\<rparr>, es))"

fun values_perform ::
  "(nat \<Rightarrow> string) \<Rightarrow> (string \<Rightarrow> string) \<Rightarrow> 'w values_page_scheme values_api \<Rightarrow> values_action \<Rightarrow>
   'w values_page_scheme \<Rightarrow> ('w values_page_scheme, unit) act" where
  "values_perform fresh to_iso api (ChooseValuesTenant v) cl = update (values_handleTenantChange v)"
| "values_perform fresh to_iso api (ChooseProduct v) cl = update (values_handleProductFilterChange v)"
| "values_perform fresh to_iso api (ChooseDevice v) cl = update (handleDeviceChange v)"
| "values_perform fresh to_iso api ReloadLatest cl = start_load (latest_reload (vg_deviceId cl))"
| "values_perform fresh to_iso api (ShowTab tab) cl = update (\<lambda>s. s\<lparr>vg_tab := tab\<rparr>)"
| "values_perform fresh to_iso api (SetAggregate g) cl = update (\<lambda>s. s\<lparr>vg_aggregate := g\<rparr>)"
| "values_perform fresh to_iso api (SetBucket n) cl = update (\<lambda>s. s\<lparr>vg_bucketSeconds := page_int n\<rparr>)"
| "values_perform fresh to_iso api (SetFrom v) cl = update (handleTrendFromChange v)"
| "values_perform fresh to_iso api (SetTo v) cl = update (handleTrendToChange v)"
| "values_perform fresh to_iso api (ToggleProperty k) cl =
     update (\<lambda>s. s\<lparr>vg_trendProperties := handleTrendPropertyToggle k (vg_trendProperties s)\<rparr>)"
| "values_perform fresh to_iso api ReloadTrend cl = start_load (trend_reload to_iso (trend_view_of cl))"
| "values_perform fresh to_iso api (SetText v) cl = update (\<lambda>s. s\<lparr>vg_setText := v\<rparr>)"
| "values_perform fresh to_iso api SendProperties cl = handleSetProperties api cl"
| "values_perform fresh to_iso api (UseProperty name) cl = update (handleUseWritableProperty cl name)"
| "values_perform fresh to_iso api (ChooseService name) cl = update (handleServiceNameChange fresh cl name)"
| "values_perform fresh to_iso api (AddInput name d) cl = update (handleAddServiceInputParam fresh name d)"
| "values_perform fresh to_iso api (ChangeName i v) cl =
     update (handleServiceInputParamChange i (\<lambda>param. param\<lparr>id_name := v\<rparr>))"
| "values_perform fresh to_iso api (ChangeType i ty) cl =
     update (handleServiceInputParamChange i (\<lambda>param. param\<lparr>id_valueType := ty, id_value := defaultServiceInputValue ty\<rparr>))"
| "values_perform fresh to_iso api (ChangeValue i v) cl =
     update (handleServiceInputParamChange i (\<lambda>param. param\<lparr>id_value := v\<rparr>))"
| "values_perform fresh to_iso api (RemoveInput i) cl = update (handleRemoveServiceInputParam i)"
| "values_perform fresh to_iso api CallService cl = handleCallService api cl"
| "values_perform fresh to_iso api (HistoryName which v) cl =
     update (history_action (history_name_changed v) (history_name_changed v) (history_name_changed v) which)"
| "values_perform fresh to_iso api (HistoryPage which n) cl =
     update (history_action (history_page_changed (page_int n)) (history_page_changed (page_int n))
       (history_page_changed (page_int n)) which)"
| "values_perform fresh to_iso api (HistorySize which n) cl =
     update (history_action (history_size_changed (page_int n)) (history_size_changed (page_int n))
       (history_size_changed (page_int n)) which)"
| "values_perform fresh to_iso api (HistoryDeadline which n) cl = update (deadline_changed which (page_int n))"
| "values_perform fresh to_iso api (ReloadHistory which) cl = start_load (reload_list cl which)"

section \<open>What a user can do\<close>

lemma tenant_select_offers:
  "offers (tenant_select t tenants i f) a \<Longrightarrow> \<exists>v. a = f v"
  by (auto simp: tenant_select_def list_ex_iff)

lemma header_offers:
  assumes "offers (values_header h st s) a"
  shows "(\<exists>v. a \<in> {ChooseValuesTenant v, ChooseProduct v}) \<or> (\<exists>d \<in> set (vg_devices s). a = ChooseDevice (dv_id d)) \<or>
    a = ReloadLatest \<and> \<not> latest_reload_disabled s"
  using assms
  by (auto simp: values_header_def product_filter_select_def values_device_select_def o_def list_ex_iff dest!: tenant_select_offers
      split: if_splits)

text \<open>The tab buttons, and the panel of the shown tab.\<close>

lemma tab_list_offers: "offers (tab_list h tab) a \<longleftrightarrow> (\<exists>x \<in> fst ` set values_tabs. a = ShowTab x)"
  by (force simp: tab_list_def list_ex_iff)

lemma values_offers:
  assumes "offers (values_view h st jumpPage s) (Outer a)"
  shows "offers (values_header h st s) a \<or> (\<exists>tab. a = ShowTab tab) \<or> offers (tab_panel h jumpPage (vg_tab s) s) (Outer a)"
  using assms by (auto simp: values_view_def offers_map tab_list_offers)

lemma commands_offered:
  "offers (values_view h st jumpPage s) (Outer SendProperties) \<longleftrightarrow> vg_tab s = SetTab \<and> canSet s"
  "offers (values_view h st jumpPage s) (Outer CallService) \<longleftrightarrow> vg_tab s = CallTab \<and> canCall s"
proof -
  have head: "\<not> offers (values_header h st s) SendProperties" "\<not> offers (values_header h st s) CallService"
    using header_offers by fastforce+
  have trend: "\<not> offers (HistoryPropertiesPanel h (values_options s) s) SendProperties"
    "\<not> offers (HistoryPropertiesPanel h (values_options s) s) CallService"
    using trend_panel_offers by fastforce+
  show "offers (values_view h st jumpPage s) (Outer SendProperties) \<longleftrightarrow> vg_tab s = SetTab \<and> canSet s"
    using head trend call_panel_offers_only [of h s SendProperties]
    by (cases "vg_tab s") (auto simp: values_view_def offers_map tab_list_offers set_panel_offers_iff
        dest: event_panel_offers set_panel_offers call_panel_offers)
  show "offers (values_view h st jumpPage s) (Outer CallService) \<longleftrightarrow> vg_tab s = CallTab \<and> canCall s"
    using head trend
    by (cases "vg_tab s") (auto simp: values_view_def offers_map tab_list_offers set_panel_offers_iff call_panel_send
        dest: event_panel_offers set_panel_offers call_panel_offers)
qed

section \<open>Every user action is a step\<close>

definition is_command :: "values_action \<Rightarrow> bool" where
  "is_command a \<longleftrightarrow> a = SendProperties \<or> a = CallService"

lemma state_update [simp]: "state_of (update f s) = f s" "state_of (start_load g s) = fst (g s)"
  by (simp_all add: update_def start_load_def split: prod.split)

lemma history_step:
  assumes "about_list which a"
  shows "values_step fresh to_iso s (state_of (values_perform fresh to_iso api a s s))"
proof -
  have ev: "values_step fresh to_iso s (s\<lparr>vg_events := h\<rparr>)" for h by (rule events_step)
  have st: "values_step fresh to_iso s (s\<lparr>vg_sets := h\<rparr>)" for h
    using sets_step [where s = s and h' = h and n = "vg_setDeadline s"] by simp
  have cs: "values_step fresh to_iso s (s\<lparr>vg_calls := h\<rparr>)" for h
    using calls_step [where s = s and h'' = h and n = "vg_callDeadline s"] by simp
  have same: "values_step fresh to_iso s s" using ev [of "vg_events s"] by simp
  have sd: "values_step fresh to_iso s (handleSetDeadlineChange n s)" for n
    by (rule back_subst [of "values_step fresh to_iso s", OF sets_step [where h' = "(vg_sets s)\<lparr>hs_page := 1\<rparr>" and n = n]])
      (simp add: handleSetDeadlineChange_def)
  have cd: "values_step fresh to_iso s (handleCallDeadlineChange n s)" for n
    by (rule back_subst [of "values_step fresh to_iso s", OF calls_step [where h'' = "(vg_calls s)\<lparr>hs_page := 1\<rparr>" and n = n]])
      (simp add: handleCallDeadlineChange_def)
  have dl: "values_step fresh to_iso s (deadline_changed w n s)" for w n
    using same sd cd by (cases w) simp_all
  have act: "values_step fresh to_iso s (history_action fe fs fc w s)" for fe fs fc w
    using ev st cs by (cases w) (simp_all add: history_action_def)
  have load: "values_step fresh to_iso s (fst (reload_list s w s))" for w
    using ev st cs by (cases w) (simp_all split: prod.split)
  show ?thesis using assms act dl load by (cases a) simp_all
qed

lemma trend_action_step:
  assumes "offers (HistoryPropertiesPanel h (values_options s) s) a" "vg_tab s = HistoryTab"
  shows "values_step fresh to_iso s (state_of (values_perform fresh to_iso api a s s))"
proof -
  have inp: "values_step fresh to_iso s (s\<lparr>vg_trendRange := rng, vg_bucketSeconds := n, vg_aggregate := agg\<rparr>)" for rng n agg
    by (rule trend_inputs)
  have "fst (trend_reload to_iso (trend_view_of s) s) = trend_starts to_iso (trend_view_of s) s"
    if "\<not> vg_loadingTrend s"
    using that assms(2)
    by (auto simp: trend_reload_def loadPropertyTrend_starts_def loadPropertyTrend_asks_def trend_starts_def trend_view_of_def)
  then have reload: "values_step fresh to_iso s (fst (trend_reload to_iso (trend_view_of s) s))" if "\<not> vg_loadingTrend s"
    using that trend_run [of fresh to_iso s "trend_view_of s"] by simp
  have "(\<exists>k. a = ToggleProperty k) \<or> (\<exists>v. a \<in> {SetFrom v, SetTo v}) \<or> (\<exists>n. a = SetBucket n) \<or> (\<exists>g. a = SetAggregate g) \<or>
      a = ReloadTrend \<and> \<not> vg_loadingTrend s"
    using trend_panel_offers [OF assms(1)] by (auto simp: trend_reload_disabled_def)
  then show ?thesis
    using reload trend_toggle inp [where rng = "vg_trendRange s" and n = "vg_bucketSeconds s"]
      inp [where rng = "vg_trendRange s" and agg = "vg_aggregate s"]
      inp [where n = "vg_bucketSeconds s" and agg = "vg_aggregate s"]
    by (auto simp: handleTrendFromChange_def handleTrendToChange_def)
qed

lemma command_panel_step:
  assumes "offers (DevicePropertySetPanel h s) a \<or> offers (DeviceServiceCallPanel h s) a" "\<not> is_command a"
  shows "values_step fresh to_iso s (state_of (values_perform fresh to_iso api a s s))"
proof -
  have "(\<exists>name. a = UseProperty name) \<or> (\<exists>txt. a = SetText txt) \<or>
      (\<exists>name. a = ChooseService name \<and> (name = [] \<or> name \<in> set (map fst (serviceEntriesOf (vg_model s))))) \<or>
      (\<exists>name d. a = AddInput name d) \<or>
      (\<exists>i v ty. a = ChangeName i v \<or> a = ChangeValue i v \<or> a = RemoveInput i \<or> a = ChangeType i ty)"
    using assms call_panel_offers_only [of h s a] by (auto simp: set_panel_offers_iff is_command_def)
  moreover have "values_step fresh to_iso s (handleServiceNameChange fresh s name s)"
    if "name = [] \<or> name \<in> set (map fst (serviceEntriesOf (vg_model s)))" for name using that by (rule pick_service)
  moreover have "values_step fresh to_iso s (handleServiceInputParamChange i (\<lambda>param. param\<lparr>id_name := v\<rparr>) s)" for i v
    by (rule change_input) simp
  moreover have "values_step fresh to_iso s (handleServiceInputParamChange i (\<lambda>param. param\<lparr>id_value := v\<rparr>) s)" for i v
    by (rule change_input) simp
  moreover have "values_step fresh to_iso s (handleServiceInputParamChange i
      (\<lambda>param. param\<lparr>id_valueType := ty, id_value := defaultServiceInputValue ty\<rparr>) s)" for i ty
    by (rule change_input) simp
  ultimately show ?thesis by (elim disjE exE conjE) (simp_all add: use_property set_text add_input remove_input)
qed

lemma user_action_step:
  assumes "offers (values_view h st jumpPage s) (Outer a)" "\<not> is_command a"
  shows "values_step fresh to_iso s (state_of (values_perform fresh to_iso api a s s))"
proof -
  have head: "values_step fresh to_iso s (state_of (values_perform fresh to_iso api a s s))" if "offers (values_header h st s) a"
  proof -
    have "latest_reload_disabled s \<or> fst (latest_reload (vg_deviceId s) s) = latest_starts (vg_deviceId s) s"
      by (simp add: latest_reload_disabled_def latest_reload_def latest_starts_def)
    then show ?thesis
      using header_offers [OF that] latest_run [of fresh to_iso s "vg_deviceId s"]
      by (auto intro: pick_tenant pick_product pick_device)
  qed
  have panel: "values_step fresh to_iso s (state_of (values_perform fresh to_iso api a s s))"
    if "offers (tab_panel h jumpPage (vg_tab s) s) (Outer a)"
    using that assms(2) trend_action_step [of h s a fresh to_iso api] command_panel_step [of h s a fresh to_iso api]
      history_step [OF event_panel_offers] history_step [OF set_panel_offers] history_step [OF call_panel_offers]
    by (cases "vg_tab s") (auto simp: offers_map)
  show ?thesis using values_offers [OF assms(1)] head panel pick_tab by auto
qed

section \<open>One command at a time\<close>

text \<open>The jump box belongs to a panel, and starts empty when another tab is shown.\<close>

record values_screen = values_page +
  vs_jumpPage :: string
  vs_status :: realtime_status

definition values_shown :: "host \<Rightarrow> values_screen \<Rightarrow> values_action table_action node" where
  "values_shown h s = values_view h (vs_status s) (vs_jumpPage s) s"

definition values_bar :: "host \<Rightarrow> 'w values_page_scheme \<Rightarrow> values_action pagination" where
  "values_bar h s =
     (if vg_tab s = SetHistoryTab then set_bar h (vg_sets s)
      else if vg_tab s = CallHistoryTab then call_bar h (vg_calls s)
      else event_bar h (vg_events s))"

definition jump_reset :: "values_action table_action \<Rightarrow> values_screen \<Rightarrow> values_screen \<Rightarrow> values_screen" where
  "jump_reset action cl s =
     (case action of Outer (ShowTab tab) \<Rightarrow> if tab = vg_tab cl then s else s\<lparr>vs_jumpPage := []\<rparr> | _ \<Rightarrow> s)"

definition values_react ::
  "(nat \<Rightarrow> string) \<Rightarrow> (string \<Rightarrow> string) \<Rightarrow> host \<Rightarrow> values_screen values_api \<Rightarrow> values_action table_action \<Rightarrow>
   values_screen \<Rightarrow> (values_screen, unit) act" where
  "values_react fresh to_iso h api action cl =
     steps [table_act (values_bar h) vs_jumpPage (\<lambda>text s. s\<lparr>vs_jumpPage := text\<rparr>) (values_perform fresh to_iso api) action cl,
       update (jump_reset action cl)]"

lemma keeps_start_load: "(\<And>s. P s \<Longrightarrow> P (fst (f s))) \<Longrightarrow> keeps P (start_load f)"
  by (auto simp: keeps_def start_load_def split: prod.split)

lemmas values_handler_defs = values_handleTenantChange_def values_handleProductFilterChange_def handleDeviceChange_def
  forget_device_def latest_reload_def handleTrendFromChange_def handleTrendToChange_def trend_reload_def
  loadPropertyTrend_starts_def handleUseWritableProperty_def handleServiceNameChange_def default_inputs_def
  handleAddServiceInputParam_def handleServiceInputParamChange_def handleRemoveServiceInputParam_def history_action_def
  handleSetDeadlineChange_def handleCallDeadlineChange_def

lemma flags_kept:
  assumes "P = vg_setting \<or> P = vg_calling" "P (s :: values_screen)"
  shows "P (deadline_changed w n s)" "P (fst (reload_list cl w s))" "P (jump_reset action cl' s)"
    "P (history_action fe fs fc w s)" "P (fst (latest_reload i s))" "P (fst (trend_reload to_iso q s))"
    "P (handleServiceNameChange fresh cl name s)" "P (handleUseWritableProperty cl name s)"
proof -
  show "P (deadline_changed w n s)" using assms by (cases w) (auto simp: values_handler_defs)
  show "P (fst (reload_list cl w s))" using assms by (cases w) (auto split: prod.split)
  show "P (jump_reset action cl' s)"
    using assms by (auto simp: jump_reset_def split: table_action.split values_action.split)
  show "P (history_action fe fs fc w s)" using assms by (cases w) (auto simp: history_action_def)
qed (use assms in \<open>auto simp: values_handler_defs split: prod.split\<close>)

lemma values_others_keep:
  assumes "P = vg_setting \<and> a \<noteq> SendProperties \<and> quiet P (va_call api) \<or>
    P = vg_calling \<and> a \<noteq> CallService \<and> quiet P (va_set api)"
  shows "keeps P (values_perform fresh to_iso api a cl :: (values_screen, unit) act)"
  using assms
  by (cases a)
    (auto simp: handleSetProperties_def handleCallService_def setDeviceProperties_def callDeviceService_def flags_kept
      values_handleTenantChange_def values_handleProductFilterChange_def handleDeviceChange_def forget_device_def
      handleTrendFromChange_def handleTrendToChange_def handleAddServiceInputParam_def handleServiceInputParamChange_def
      handleRemoveServiceInputParam_def
      split: sum.split intro!: keeps_rules keeps_update keeps_finally keeps_apiRequest keeps_start_load)

lemma values_react_keeps:
  assumes "\<And>b. action = Outer b \<Longrightarrow> keeps P (values_perform fresh to_iso api b cl)"
    and "P = vg_setting \<or> P = vg_calling"
  shows "keeps P (values_react fresh to_iso h api action cl)"
proof -
  have page: "keeps P (values_perform fresh to_iso api (HistoryPage w n) cl)" for w n
    using flags_kept(4) [OF assms(2)] by (auto intro: keeps_update)
  have "keeps P (table_act (values_bar h) vs_jumpPage (\<lambda>text s. s\<lparr>vs_jumpPage := text\<rparr>) (values_perform fresh to_iso api) action cl)"
    by (rule keeps_table_act)
      (use assms page in \<open>auto simp: values_bar_def set_bar_def call_bar_def event_bar_def history_bar_def\<close>)
  then show ?thesis unfolding values_react_def
    using flags_kept(3) [OF assms(2)] by (intro keeps_rules keeps_update) blast+
qed

interpretation set_busy: busy_form "values_shown h" "values_react fresh to_iso h" "Outer SendProperties" vg_setting
    "\<lambda>api. quiet vg_setting (va_call api)" for h fresh to_iso
proof
  show "\<not> offers (values_shown h s) (Outer SendProperties)" if "vg_setting s" for s
    using that by (simp add: values_shown_def commands_offered canSet_def)
  show "keeps vg_setting (values_react fresh to_iso h api a cl)"
    if "quiet vg_setting (va_call api)" "a \<noteq> Outer SendProperties" for api a cl
    by (rule values_react_keeps) (use that values_others_keep [of vg_setting] in auto)
qed

interpretation call_busy: busy_form "values_shown h" "values_react fresh to_iso h" "Outer CallService" vg_calling
    "\<lambda>api. quiet vg_calling (va_set api)" for h fresh to_iso
proof
  show "\<not> offers (values_shown h s) (Outer CallService)" if "vg_calling s" for s
    using that by (simp add: values_shown_def commands_offered canCall_def)
  show "keeps vg_calling (values_react fresh to_iso h api a cl)"
    if "quiet vg_calling (va_set api)" "a \<noteq> Outer CallService" for api a cl
    by (rule values_react_keeps) (use that values_others_keep [of vg_calling] in auto)
qed

section \<open>Properties\<close>

text \<open>
  C5: the controls keep the page consistent. In every reachable state of the device property page,
  whatever the user does with a control that the page offers, other than sending a command, leads to
  a reachable state again: the choices of the selectors are listed devices and services of the
  current model, the rows are edited under their own ids, and a reload is offered only where the
  loader starts from a valid selection. So the invariants of the page hold for its users.
\<close>

theorem user_actions_consistent:
  assumes "values_reachable fresh to_iso s" "offers (values_view h st jumpPage s) (Outer a)" "\<not> is_command a"
  shows "values_reachable fresh to_iso (state_of (values_perform fresh to_iso api a s s))"
  using values_next [OF assms(1) user_action_step [OF assms(2,3)]] .

definition sample_host :: host where
  "sample_host = \<lparr>ho_t = id, ho_parse = (\<lambda>x. None), ho_short = (\<lambda>x. []), ho_full = (\<lambda>x. [])\<rparr>"

definition refusing_api :: "'w values_page_scheme values_api" where
  "refusing_api = \<lparr>va_set = (\<lambda>r s. (Inl NonError, s)), va_call = (\<lambda>r s. (Inl NonError, s))\<rparr>"

lemma user_actions_consistent_witness:
  "values_reachable (\<lambda>n. replicate n CHR ''x'') id (handleDeviceChange ''d1'' sample_values)"
proof -
  have "offers (values_view sample_host Open [] sample_values) (Outer (ChooseDevice ''d1''))"
    by (simp add: values_view_def offers_map values_header_def values_device_select_def sample_values_def sample_device_def)
  from user_actions_consistent [OF sample_values_reachable this, where api = refusing_api]
  show ?thesis by (simp add: is_command_def)
qed


definition sample_screen :: values_screen where
  "sample_screen = values_page.extend (sample_values\<lparr>vg_tab := CallTab, vg_serviceName := ''reboot'',
     vg_devices := [sample_device\<lparr>dv_connection_status := Online\<rparr>]\<rparr>) \<lparr>vs_jumpPage = [], vs_status = Open\<rparr>"


end
