(* ===== verification/Messages.thy ===== *)
theory Messages
  imports JsPrelude
begin

text \<open>
  The interface texts (\<open>i18n/auth.ts\<close>, \<open>i18n/admin.ts\<close>) in both languages, in parts. The Chinese
  texts are written as their UTF-8 bytes.
\<close>

definition auth_zh :: "(string \<times> string) list" where
  "auth_zh = [
     (''brand'', ''LinkFlow Web''),
     (''email'', [CHR 0xE9, CHR 0x82, CHR 0xAE, CHR 0xE7, CHR 0xAE, CHR 0xB1]),
     (''emailPlaceholder'', ''you@example.com''),
     (''password'', [CHR 0xE5, CHR 0xAF, CHR 0x86, CHR 0xE7, CHR 0xA0, CHR 0x81]),
     (''passwordPlaceholder'', [
        CHR 0xE8, CHR 0xAF, CHR 0xB7, CHR 0xE8, CHR 0xBE, CHR 0x93, CHR 0xE5, CHR 0x85, CHR 0xA5, CHR 0xE5,
        CHR 0xAF, CHR 0x86, CHR 0xE7, CHR 0xA0, CHR 0x81]),
     (''confirmPassword'', [
        CHR 0xE7, CHR 0xA1, CHR 0xAE, CHR 0xE8, CHR 0xAE, CHR 0xA4, CHR 0xE5, CHR 0xAF, CHR 0x86, CHR 0xE7,
        CHR 0xA0, CHR 0x81]),
     (''confirmPasswordPlaceholder'', [
        CHR 0xE8, CHR 0xAF, CHR 0xB7, CHR 0xE5, CHR 0x86, CHR 0x8D, CHR 0xE6, CHR 0xAC, CHR 0xA1, CHR 0xE8,
        CHR 0xBE, CHR 0x93, CHR 0xE5, CHR 0x85, CHR 0xA5, CHR 0xE5, CHR 0xAF, CHR 0x86, CHR 0xE7, CHR 0xA0,
        CHR 0x81]),
     (''passwordMismatch'', [
        CHR 0xE4, CHR 0xB8, CHR 0xA4, CHR 0xE6, CHR 0xAC, CHR 0xA1, CHR 0xE8, CHR 0xBE, CHR 0x93, CHR 0xE5,
        CHR 0x85, CHR 0xA5, CHR 0xE7, CHR 0x9A, CHR 0x84, CHR 0xE5, CHR 0xAF, CHR 0x86, CHR 0xE7, CHR 0xA0,
        CHR 0x81, CHR 0xE4, CHR 0xB8, CHR 0x8D, CHR 0xE4, CHR 0xB8, CHR 0x80, CHR 0xE8, CHR 0x87, CHR 0xB4]),
     (''loginTitle'', [CHR 0xE7, CHR 0x99, CHR 0xBB, CHR 0xE5, CHR 0xBD, CHR 0x95]),
     (''loginButton'', [CHR 0xE7, CHR 0x99, CHR 0xBB, CHR 0xE5, CHR 0xBD, CHR 0x95]),
     (''loginSuccess'', [
        CHR 0xE7, CHR 0x99, CHR 0xBB, CHR 0xE5, CHR 0xBD, CHR 0x95, CHR 0xE6, CHR 0x88, CHR 0x90, CHR 0xE5,
        CHR 0x8A, CHR 0x9F]),
     (''loggingIn'', [
        CHR 0xE7, CHR 0x99, CHR 0xBB, CHR 0xE5, CHR 0xBD, CHR 0x95, CHR 0xE4, CHR 0xB8, CHR 0xAD, CHR 0x2E,
        CHR 0x2E, CHR 0x2E]),
     (''registerTitle'', [CHR 0xE6, CHR 0xB3, CHR 0xA8, CHR 0xE5, CHR 0x86, CHR 0x8C]),
     (''registerButton'', [CHR 0xE6, CHR 0xB3, CHR 0xA8, CHR 0xE5, CHR 0x86, CHR 0x8C]),
     (''registerSuccess'', [
        CHR 0xE6, CHR 0xB3, CHR 0xA8, CHR 0xE5, CHR 0x86, CHR 0x8C, CHR 0xE6, CHR 0x88, CHR 0x90, CHR 0xE5,
        CHR 0x8A, CHR 0x9F]),
     (''registering'', [
        CHR 0xE6, CHR 0xB3, CHR 0xA8, CHR 0xE5, CHR 0x86, CHR 0x8C, CHR 0xE4, CHR 0xB8, CHR 0xAD, CHR 0x2E,
        CHR 0x2E, CHR 0x2E]),
     (''noAccount'', [
        CHR 0xE6, CHR 0xB2, CHR 0xA1, CHR 0xE6, CHR 0x9C, CHR 0x89, CHR 0xE7, CHR 0x94, CHR 0xA8, CHR 0xE6,
        CHR 0x88, CHR 0xB7, CHR 0xEF, CHR 0xBC, CHR 0x9F]),
     (''goRegister'', [
        CHR 0xE5, CHR 0x89, CHR 0x8D, CHR 0xE5, CHR 0xBE, CHR 0x80, CHR 0xE6, CHR 0xB3, CHR 0xA8, CHR 0xE5,
        CHR 0x86, CHR 0x8C]),
     (''hasAccount'', [
        CHR 0xE5, CHR 0xB7, CHR 0xB2, CHR 0xE6, CHR 0x9C, CHR 0x89, CHR 0xE5, CHR 0xB8, CHR 0x90, CHR 0xE6,
        CHR 0x88, CHR 0xB7, CHR 0xEF, CHR 0xBC, CHR 0x9F]),
     (''goLogin'', [
        CHR 0xE5, CHR 0x89, CHR 0x8D, CHR 0xE5, CHR 0x8E, CHR 0xBB, CHR 0xE7, CHR 0x99, CHR 0xBB, CHR 0xE5,
        CHR 0xBD, CHR 0x95]),
     (''clearEmail'', [
        CHR 0xE6, CHR 0xB8, CHR 0x85, CHR 0xE7, CHR 0xA9, CHR 0xBA, CHR 0xE9, CHR 0x82, CHR 0xAE, CHR 0xE7,
        CHR 0xAE, CHR 0xB1]),
     (''clearPassword'', [
        CHR 0xE6, CHR 0xB8, CHR 0x85, CHR 0xE7, CHR 0xA9, CHR 0xBA, CHR 0xE5, CHR 0xAF, CHR 0x86, CHR 0xE7,
        CHR 0xA0, CHR 0x81]),
     (''showPassword'', [
        CHR 0xE6, CHR 0x98, CHR 0xBE, CHR 0xE7, CHR 0xA4, CHR 0xBA, CHR 0xE5, CHR 0xAF, CHR 0x86, CHR 0xE7,
        CHR 0xA0, CHR 0x81]),
     (''hidePassword'', [
        CHR 0xE9, CHR 0x9A, CHR 0x90, CHR 0xE8, CHR 0x97, CHR 0x8F, CHR 0xE5, CHR 0xAF, CHR 0x86, CHR 0xE7,
        CHR 0xA0, CHR 0x81])]"

definition auth_en :: "(string \<times> string) list" where
  "auth_en = [
     (''brand'', ''LinkFlow Web''),
     (''email'', ''Email''),
     (''emailPlaceholder'', ''you@example.com''),
     (''password'', ''Password''),
     (''passwordPlaceholder'', ''Enter password''),
     (''confirmPassword'', ''Confirm password''),
     (''confirmPasswordPlaceholder'', ''Enter password again''),
     (''passwordMismatch'', ''Passwords do not match''),
     (''loginTitle'', ''Login''),
     (''loginButton'', ''Login''),
     (''loginSuccess'', ''Login successful''),
     (''loggingIn'', ''Logging in...''),
     (''registerTitle'', ''Register''),
     (''registerButton'', ''Register''),
     (''registerSuccess'', ''Registration successful''),
     (''registering'', ''Registering...''),
     (''noAccount'', ''No account?''),
     (''goRegister'', ''Go to register''),
     (''hasAccount'', ''Already have an account?''),
     (''goLogin'', ''Go to login''),
     (''clearEmail'', ''Clear email''),
     (''clearPassword'', ''Clear password''),
     (''showPassword'', ''Show password''),
     (''hidePassword'', ''Hide password'')]"

definition admin_zh_parta :: "(string \<times> string) list" where
  "admin_zh_parta = [
     (''adminConsole'', [
        CHR 0xE7, CHR 0xAE, CHR 0xA1, CHR 0xE7, CHR 0x90, CHR 0x86, CHR 0xE6, CHR 0x8E, CHR 0xA7, CHR 0xE5,
        CHR 0x88, CHR 0xB6, CHR 0xE5, CHR 0x8F, CHR 0xB0]),
     (''adminHeaderDescription'', [
        CHR 0xE7, CHR 0xA7, CHR 0x9F, CHR 0xE6, CHR 0x88, CHR 0xB7, CHR 0xE3, CHR 0x80, CHR 0x81, CHR 0xE8,
        CHR 0xAE, CHR 0xBE, CHR 0xE5, CHR 0xA4, CHR 0x87, CHR 0xE5, CHR 0x92, CHR 0x8C, CHR 0xE5, CHR 0xB9,
        CHR 0xB3, CHR 0xE5, CHR 0x8F, CHR 0xB0, CHR 0xE9, CHR 0x85, CHR 0x8D, CHR 0xE7, CHR 0xBD, CHR 0xAE,
        CHR 0xE7, CHR 0x9A, CHR 0x84, CHR 0xE7, CHR 0xAE, CHR 0xA1, CHR 0xE7, CHR 0x90, CHR 0x86, CHR 0xE5,
        CHR 0x85, CHR 0xA5, CHR 0xE5, CHR 0x8F, CHR 0xA3, CHR 0xE3, CHR 0x80, CHR 0x82]),
     (''adminGoHome'', [
        CHR 0xE8, CHR 0xBF, CHR 0x94, CHR 0xE5, CHR 0x9B, CHR 0x9E, CHR 0xE9, CHR 0xA6, CHR 0x96, CHR 0xE9,
        CHR 0xA1, CHR 0xB5]),
     (''adminNotifications'', [CHR 0xE9, CHR 0x80, CHR 0x9A, CHR 0xE7, CHR 0x9F, CHR 0xA5]),
     (''adminLogout'', [CHR 0xE9, CHR 0x80, CHR 0x80, CHR 0xE5, CHR 0x87, CHR 0xBA]),
     (''adminToggleDark'', [
        CHR 0xE5, CHR 0x88, CHR 0x87, CHR 0xE6, CHR 0x8D, CHR 0xA2, CHR 0xE5, CHR 0x88, CHR 0xB0, CHR 0xE6,
        CHR 0x9A, CHR 0x97, CHR 0xE8, CHR 0x89, CHR 0xB2, CHR 0xE6, CHR 0xA8, CHR 0xA1, CHR 0xE5, CHR 0xBC,
        CHR 0x8F]),
     (''adminToggleLight'', [
        CHR 0xE5, CHR 0x88, CHR 0x87, CHR 0xE6, CHR 0x8D, CHR 0xA2, CHR 0xE5, CHR 0x88, CHR 0xB0, CHR 0xE4,
        CHR 0xBA, CHR 0xAE, CHR 0xE8, CHR 0x89, CHR 0xB2, CHR 0xE6, CHR 0xA8, CHR 0xA1, CHR 0xE5, CHR 0xBC,
        CHR 0x8F]),
     (''adminLanguage'', [CHR 0xE8, CHR 0xAF, CHR 0xAD, CHR 0xE8, CHR 0xA8, CHR 0x80]),
     (''adminEventInboxTitle'', [
        CHR 0xE4, CHR 0xBA, CHR 0x8B, CHR 0xE4, CHR 0xBB, CHR 0xB6, CHR 0xE6, CHR 0x94, CHR 0xB6, CHR 0xE4,
        CHR 0xBB, CHR 0xB6, CHR 0xE7, CHR 0xAE, CHR 0xB1]),
     (''adminEventInboxUnread'', [
        CHR 0x7B, CHR 0x63, CHR 0x6F, CHR 0x75, CHR 0x6E, CHR 0x74, CHR 0x7D, CHR 0x20, CHR 0xE6, CHR 0x9D,
        CHR 0xA1, CHR 0xE6, CHR 0x9C, CHR 0xAA, CHR 0xE8, CHR 0xAF, CHR 0xBB, CHR 0xE4, CHR 0xBA, CHR 0x8B,
        CHR 0xE4, CHR 0xBB, CHR 0xB6]),
     (''adminEventInboxEmpty'', [
        CHR 0xE6, CHR 0x9A, CHR 0x82, CHR 0xE6, CHR 0x97, CHR 0xA0, CHR 0xE6, CHR 0x9C, CHR 0xAA, CHR 0xE8,
        CHR 0xAF, CHR 0xBB, CHR 0xE4, CHR 0xBA, CHR 0x8B, CHR 0xE4, CHR 0xBB, CHR 0xB6]),
     (''adminEventInboxMarkAllRead'', [
        CHR 0xE5, CHR 0x85, CHR 0xA8, CHR 0xE9, CHR 0x83, CHR 0xA8, CHR 0xE5, CHR 0xB7, CHR 0xB2, CHR 0xE8,
        CHR 0xAF, CHR 0xBB]),
     (''adminEventInboxUnreadBadge'', [CHR 0xE6, CHR 0x96, CHR 0xB0]),
     (''adminExpandNav'', [
        CHR 0xE5, CHR 0xB1, CHR 0x95, CHR 0xE5, CHR 0xBC, CHR 0x80, CHR 0xE5, CHR 0xAF, CHR 0xBC, CHR 0xE8,
        CHR 0x88, CHR 0xAA]),
     (''adminCollapseNav'', [
        CHR 0xE6, CHR 0x94, CHR 0xB6, CHR 0xE8, CHR 0xB5, CHR 0xB7, CHR 0xE5, CHR 0xAF, CHR 0xBC, CHR 0xE8,
        CHR 0x88, CHR 0xAA]),
     (''adminVisitedTabs'', [
        CHR 0xE8, CHR 0xAE, CHR 0xBF, CHR 0xE9, CHR 0x97, CHR 0xAE, CHR 0xE8, CHR 0xAE, CHR 0xB0, CHR 0xE5,
        CHR 0xBD, CHR 0x95]),
     (''adminCloseTab'', [
        CHR 0xE5, CHR 0x85, CHR 0xB3, CHR 0xE9, CHR 0x97, CHR 0xAD, CHR 0xE6, CHR 0xA0, CHR 0x87, CHR 0xE7,
        CHR 0xAD, CHR 0xBE]),
     (''adminOverviewNav'', [CHR 0xE6, CHR 0xA6, CHR 0x82, CHR 0xE8, CHR 0xA7, CHR 0x88]),
     (''adminTenantsNav'', [
        CHR 0xE7, CHR 0xA7, CHR 0x9F, CHR 0xE6, CHR 0x88, CHR 0xB7, CHR 0xE7, CHR 0xAE, CHR 0xA1, CHR 0xE7,
        CHR 0x90, CHR 0x86]),
     (''adminProductsNav'', [
        CHR 0xE4, CHR 0xBA, CHR 0xA7, CHR 0xE5, CHR 0x93, CHR 0x81, CHR 0xE7, CHR 0xAE, CHR 0xA1, CHR 0xE7,
        CHR 0x90, CHR 0x86]),
     (''adminThingsModelsNav'', [
        CHR 0xE7, CHR 0x89, CHR 0xA9, CHR 0xE6, CHR 0xA8, CHR 0xA1, CHR 0xE5, CHR 0x9E, CHR 0x8B, CHR 0xE7,
        CHR 0xAE, CHR 0xA1, CHR 0xE7, CHR 0x90, CHR 0x86]),
     (''adminDevicesNav'', [
        CHR 0xE8, CHR 0xAE, CHR 0xBE, CHR 0xE5, CHR 0xA4, CHR 0x87, CHR 0xE7, CHR 0xAE, CHR 0xA1, CHR 0xE7,
        CHR 0x90, CHR 0x86]),
     (''adminDevicePropertiesNav'', [
        CHR 0xE8, CHR 0xAE, CHR 0xBE, CHR 0xE5, CHR 0xA4, CHR 0x87, CHR 0xE5, CHR 0xB1, CHR 0x9E, CHR 0xE6,
        CHR 0x80, CHR 0xA7]),
     (''adminAuditLogsNav'', [
        CHR 0xE5, CHR 0xAE, CHR 0xA1, CHR 0xE8, CHR 0xAE, CHR 0xA1, CHR 0xE6, CHR 0x97, CHR 0xA5, CHR 0xE5,
        CHR 0xBF, CHR 0x97]),
     (''adminRealtimeIdle'', [
        CHR 0xE5, CHR 0xAE, CHR 0x9E, CHR 0xE6, CHR 0x97, CHR 0xB6, CHR 0xE6, CHR 0x9C, CHR 0xAA, CHR 0xE5,
        CHR 0x90, CHR 0xAF, CHR 0xE7, CHR 0x94, CHR 0xA8]),
     (''adminRealtimeConnecting'', [
        CHR 0xE5, CHR 0xAE, CHR 0x9E, CHR 0xE6, CHR 0x97, CHR 0xB6, CHR 0xE8, CHR 0xBF, CHR 0x9E, CHR 0xE6,
        CHR 0x8E, CHR 0xA5, CHR 0xE4, CHR 0xB8, CHR 0xAD]),
     (''adminRealtimeOpen'', [
        CHR 0xE5, CHR 0xAE, CHR 0x9E, CHR 0xE6, CHR 0x97, CHR 0xB6, CHR 0xE5, CHR 0xB7, CHR 0xB2, CHR 0xE8,
        CHR 0xBF, CHR 0x9E, CHR 0xE6, CHR 0x8E, CHR 0xA5]),
     (''adminRealtimeReconnecting'', [
        CHR 0xE5, CHR 0xAE, CHR 0x9E, CHR 0xE6, CHR 0x97, CHR 0xB6, CHR 0xE9, CHR 0x87, CHR 0x8D, CHR 0xE8,
        CHR 0xBF, CHR 0x9E, CHR 0xE4, CHR 0xB8, CHR 0xAD, CHR 0xEF, CHR 0xBC, CHR 0x8C, CHR 0xE5, CHR 0xAE,
        CHR 0x9A, CHR 0xE6, CHR 0x97, CHR 0xB6, CHR 0xE5, CHR 0x88, CHR 0xB7, CHR 0xE6, CHR 0x96, CHR 0xB0]),
     (''adminRealtimeClosed'', [
        CHR 0xE5, CHR 0xAE, CHR 0x9E, CHR 0xE6, CHR 0x97, CHR 0xB6, CHR 0xE5, CHR 0xB7, CHR 0xB2, CHR 0xE6,
        CHR 0x96, CHR 0xAD, CHR 0xE5, CHR 0xBC, CHR 0x80, CHR 0xEF, CHR 0xBC, CHR 0x8C, CHR 0xE5, CHR 0xAE,
        CHR 0x9A, CHR 0xE6, CHR 0x97, CHR 0xB6, CHR 0xE5, CHR 0x88, CHR 0xB7, CHR 0xE6, CHR 0x96, CHR 0xB0]),
     (''adminDeviceManagementNav'', [
        CHR 0xE8, CHR 0xAE, CHR 0xBE, CHR 0xE5, CHR 0xA4, CHR 0x87, CHR 0xE7, CHR 0xAE, CHR 0xA1, CHR 0xE7,
        CHR 0x90, CHR 0x86]),
     (''adminSettingsNav'', [CHR 0xE8, CHR 0xAE, CHR 0xBE, CHR 0xE7, CHR 0xBD, CHR 0xAE]),
     (''adminDashboardEyebrow'', ''Dashboard''),
     (''adminOverviewTitle'', [
        CHR 0xE5, CHR 0xB9, CHR 0xB3, CHR 0xE5, CHR 0x8F, CHR 0xB0, CHR 0xE7, CHR 0xAE, CHR 0xA1, CHR 0xE7,
        CHR 0x90, CHR 0x86, CHR 0xE5, CHR 0x8F, CHR 0xB0]),
     (''adminOverviewSummary'', [
        CHR 0xE8, CHR 0xBF, CHR 0x99, CHR 0xE9, CHR 0x87, CHR 0x8C, CHR 0xE4, CHR 0xBF, CHR 0x9D, CHR 0xE6,
        CHR 0x8C, CHR 0x81, CHR 0xE5, CHR 0x90, CHR 0x8E, CHR 0xE5, CHR 0x8F, CHR 0xB0, CHR 0xE7, CHR 0x9A,
        CHR 0x84, CHR 0xE5, CHR 0xAF, CHR 0xBC, CHR 0xE8, CHR 0x88, CHR 0xAA, CHR 0xE5, CHR 0x92, CHR 0x8C,
        CHR 0xE5, CHR 0x86, CHR 0x85, CHR 0xE5, CHR 0xAE, CHR 0xB9, CHR 0xE5, CHR 0x8C, CHR 0xBA, CHR 0xE7,
        CHR 0xBB, CHR 0x93, CHR 0xE6, CHR 0x9E, CHR 0x84, CHR 0xE3, CHR 0x80, CHR 0x82, CHR 0xE5, CHR 0x86,
        CHR 0x85, CHR 0xE5, CHR 0xAE, CHR 0xB9, CHR 0xE5, CHR 0x8D, CHR 0xA1, CHR 0xE7, CHR 0x89, CHR 0x87,
        CHR 0xE9, CHR 0x87, CHR 0x87, CHR 0xE7, CHR 0x94, CHR 0xA8, CHR 0xE5, CHR 0x92, CHR 0x8C, CHR 0xE5,
        CHR 0xAD, CHR 0xA6, CHR 0xE4, CHR 0xB9, CHR 0xA0, CHR 0xE9, CHR 0xA6, CHR 0x96, CHR 0xE9, CHR 0xA1,
        CHR 0xB5, CHR 0xE7, CHR 0x9B, CHR 0xB8, CHR 0xE8, CHR 0xBF, CHR 0x91, CHR 0xE7, CHR 0x9A, CHR 0x84,
        CHR 0xE7, CHR 0x99, CHR 0xBD, CHR 0xE5, CHR 0xBA, CHR 0x95, CHR 0xE3, CHR 0x80, CHR 0x81, CHR 0xE7,
        CHR 0xBB, CHR 0x86, CHR 0xE8, CHR 0xBE, CHR 0xB9, CHR 0xE6, CHR 0xA1, CHR 0x86, CHR 0xE3, CHR 0x80,
        CHR 0x81, CHR 0xE8, CHR 0xBD, CHR 0xBB, CHR 0xE9, CHR 0x98, CHR 0xB4, CHR 0xE5, CHR 0xBD, CHR 0xB1,
        CHR 0xE5, CHR 0x92, CHR 0x8C, CHR 0xE7, CHR 0xBA, CHR 0xAF, CHR 0xE8, CHR 0x89, CHR 0xB2, CHR 0xE5,
        CHR 0xBC, CHR 0xBA, CHR 0xE8, CHR 0xB0, CHR 0x83, CHR 0xEF, CHR 0xBC, CHR 0x8C, CHR 0xE5, CHR 0x90,
        CHR 0x8E, CHR 0xE7, CHR 0xBB, CHR 0xAD, CHR 0xE5, CHR 0x8F, CHR 0xAF, CHR 0xE4, CHR 0xBB, CHR 0xA5,
        CHR 0xE9, CHR 0x80, CHR 0x90, CHR 0xE5, CHR 0x9D, CHR 0x97, CHR 0xE6, CHR 0x9B, CHR 0xBF, CHR 0xE6,
        CHR 0x8D, CHR 0xA2, CHR 0xE4, CHR 0xB8, CHR 0xBA, CHR 0xE7, CHR 0x9C, CHR 0x9F, CHR 0xE5, CHR 0xAE,
        CHR 0x9E, CHR 0xE7, CHR 0xA7, CHR 0x9F, CHR 0xE6, CHR 0x88, CHR 0xB7, CHR 0xE3, CHR 0x80, CHR 0x81,
        CHR 0xE8, CHR 0xAE, CHR 0xBE, CHR 0xE5, CHR 0xA4, CHR 0x87, CHR 0xE5, CHR 0x92, CHR 0x8C, CHR 0xE5,
        CHR 0xB9, CHR 0xB3, CHR 0xE5, CHR 0x8F, CHR 0xB0, CHR 0xE9, CHR 0x85, CHR 0x8D, CHR 0xE7, CHR 0xBD,
        CHR 0xAE, CHR 0xE6, CHR 0x95, CHR 0xB0, CHR 0xE6, CHR 0x8D, CHR 0xAE, CHR 0xE3, CHR 0x80, CHR 0x82]),
     (''adminTenantsTitle'', [
        CHR 0xE7, CHR 0xA7, CHR 0x9F, CHR 0xE6, CHR 0x88, CHR 0xB7, CHR 0xE7, CHR 0xAE, CHR 0xA1, CHR 0xE7,
        CHR 0x90, CHR 0x86]),
     (''adminTenantsSummary'', [
        CHR 0xE7, CHR 0xA7, CHR 0x9F, CHR 0xE6, CHR 0x88, CHR 0xB7, CHR 0xE7, CHR 0xAE, CHR 0xA1, CHR 0xE7,
        CHR 0x90, CHR 0x86, CHR 0xE4, CHR 0xBD, CHR 0x9C, CHR 0xE4, CHR 0xB8, CHR 0xBA, CHR 0xE7, CHR 0x88,
        CHR 0xB6, CHR 0xE7, CHR 0xBA, CHR 0xA7, CHR 0xE5, CHR 0x85, CHR 0xA5, CHR 0xE5, CHR 0x8F, CHR 0xA3,
        CHR 0xEF, CHR 0xBC, CHR 0x8C, CHR 0xE5, CHR 0x90, CHR 0x8E, CHR 0xE7, CHR 0xBB, CHR 0xAD, CHR 0xE5,
        CHR 0x8F, CHR 0xAF, CHR 0xE4, CHR 0xBB, CHR 0xA5, CHR 0xE6, CHR 0x89, CHR 0xBF, CHR 0xE8, CHR 0xBD,
        CHR 0xBD, CHR 0xE7, CHR 0xA7, CHR 0x9F, CHR 0xE6, CHR 0x88, CHR 0xB7, CHR 0xE5, CHR 0x88, CHR 0x97,
        CHR 0xE8, CHR 0xA1, CHR 0xA8, CHR 0xE3, CHR 0x80, CHR 0x81, CHR 0xE6, CHR 0x88, CHR 0x90, CHR 0xE5,
        CHR 0x91, CHR 0x98, CHR 0xE3, CHR 0x80, CHR 0x81, CHR 0xE8, CHR 0xA7, CHR 0x92, CHR 0xE8, CHR 0x89,
        CHR 0xB2, CHR 0xE5, CHR 0x92, CHR 0x8C, CHR 0xE8, CHR 0xB5, CHR 0x84, CHR 0xE6, CHR 0xBA, CHR 0x90,
        CHR 0xE9, CHR 0x9A, CHR 0x94, CHR 0xE7, CHR 0xA6, CHR 0xBB, CHR 0xE9, CHR 0x85, CHR 0x8D, CHR 0xE7,
        CHR 0xBD, CHR 0xAE, CHR 0xE3, CHR 0x80, CHR 0x82]),
     (''adminProductsTitle'', [
        CHR 0xE4, CHR 0xBA, CHR 0xA7, CHR 0xE5, CHR 0x93, CHR 0x81, CHR 0xE7, CHR 0xAE, CHR 0xA1, CHR 0xE7,
        CHR 0x90, CHR 0x86]),
     (''adminProductsSummary'', [
        CHR 0xE4, CHR 0xBA, CHR 0xA7, CHR 0xE5, CHR 0x93, CHR 0x81, CHR 0xE7, CHR 0xAE, CHR 0xA1, CHR 0xE7,
        CHR 0x90, CHR 0x86, CHR 0xE7, CHR 0x94, CHR 0xA8, CHR 0xE4, CHR 0xBA, CHR 0x8E, CHR 0xE7, CHR 0xBB,
        CHR 0xB4, CHR 0xE6, CHR 0x8A, CHR 0xA4, CHR 0xE7, CHR 0xA7, CHR 0x9F, CHR 0xE6, CHR 0x88, CHR 0xB7,
        CHR 0xE4, CHR 0xB8, CHR 0x8B, CHR 0xE7, CHR 0x9A, CHR 0x84, CHR 0xE4, CHR 0xBA, CHR 0xA7, CHR 0xE5,
        CHR 0x93, CHR 0x81, CHR 0xE3, CHR 0x80, CHR 0x81, CHR 0xE8, CHR 0x8A, CHR 0x82, CHR 0xE7, CHR 0x82,
        CHR 0xB9, CHR 0xE7, CHR 0xB1, CHR 0xBB, CHR 0xE5, CHR 0x9E, CHR 0x8B, CHR 0xE5, CHR 0x92, CHR 0x8C,
        CHR 0xE8, CHR 0xAE, CHR 0xA4, CHR 0xE8, CHR 0xAF, CHR 0x81, CHR 0xE6, CHR 0x96, CHR 0xB9, CHR 0xE5,
        CHR 0xBC, CHR 0x8F, CHR 0xE3, CHR 0x80, CHR 0x82]),
     (''adminThingsModelsTitle'', [
        CHR 0xE7, CHR 0x89, CHR 0xA9, CHR 0xE6, CHR 0xA8, CHR 0xA1, CHR 0xE5, CHR 0x9E, CHR 0x8B, CHR 0xE7,
        CHR 0xAE, CHR 0xA1, CHR 0xE7, CHR 0x90, CHR 0x86]),
     (''adminThingsModelsSummary'', [
        CHR 0xE7, CHR 0x89, CHR 0xA9, CHR 0xE6, CHR 0xA8, CHR 0xA1, CHR 0xE5, CHR 0x9E, CHR 0x8B, CHR 0xE7,
        CHR 0xAE, CHR 0xA1, CHR 0xE7, CHR 0x90, CHR 0x86, CHR 0xE7, CHR 0x94, CHR 0xA8, CHR 0xE4, CHR 0xBA,
        CHR 0x8E, CHR 0xE7, CHR 0xBB, CHR 0xB4, CHR 0xE6, CHR 0x8A, CHR 0xA4, CHR 0xE4, CHR 0xBA, CHR 0xA7,
        CHR 0xE5, CHR 0x93, CHR 0x81, CHR 0xE7, CHR 0xBA, CHR 0xA7, CHR 0xE8, CHR 0x83, CHR 0xBD, CHR 0xE5,
        CHR 0x8A, CHR 0x9B, CHR 0xE5, CHR 0xAE, CHR 0x9A, CHR 0xE4, CHR 0xB9, CHR 0x89, CHR 0xEF, CHR 0xBC,
        CHR 0x8C, CHR 0xE5, CHR 0x8C, CHR 0x85, CHR 0xE6, CHR 0x8B, CHR 0xAC, CHR 0xE5, CHR 0xB1, CHR 0x9E,
        CHR 0xE6, CHR 0x80, CHR 0xA7, CHR 0xE3, CHR 0x80, CHR 0x81, CHR 0xE4, CHR 0xBA, CHR 0x8B, CHR 0xE4,
        CHR 0xBB, CHR 0xB6, CHR 0xE5, CHR 0x92, CHR 0x8C, CHR 0xE6, CHR 0x9C, CHR 0x8D, CHR 0xE5, CHR 0x8A,
        CHR 0xA1, CHR 0xE7, CHR 0x9A, CHR 0x84, CHR 0xE7, CHR 0x89, CHR 0x88, CHR 0xE6, CHR 0x9C, CHR 0xAC,
        CHR 0xE5, CHR 0x8C, CHR 0x96, CHR 0x20, CHR 0x4A, CHR 0x53, CHR 0x4F, CHR 0x4E, CHR 0x20, CHR 0xE5,
        CHR 0x90, CHR 0x88, CHR 0xE7, CHR 0xBA, CHR 0xA6, CHR 0xE3, CHR 0x80, CHR 0x82]),
     (''adminDevicesTitle'', [
        CHR 0xE8, CHR 0xAE, CHR 0xBE, CHR 0xE5, CHR 0xA4, CHR 0x87, CHR 0xE7, CHR 0xAE, CHR 0xA1, CHR 0xE7,
        CHR 0x90, CHR 0x86]),
     (''adminDevicesSummary'', [
        CHR 0xE8, CHR 0xAE, CHR 0xBE, CHR 0xE5, CHR 0xA4, CHR 0x87, CHR 0xE7, CHR 0xAE, CHR 0xA1, CHR 0xE7,
        CHR 0x90, CHR 0x86, CHR 0xE7, CHR 0x94, CHR 0xA8, CHR 0xE4, CHR 0xBA, CHR 0x8E, CHR 0xE7, CHR 0xBB,
        CHR 0xB4, CHR 0xE6, CHR 0x8A, CHR 0xA4, CHR 0xE7, CHR 0xA7, CHR 0x9F, CHR 0xE6, CHR 0x88, CHR 0xB7,
        CHR 0xE4, CHR 0xB8, CHR 0x8B, CHR 0xE7, CHR 0x9A, CHR 0x84, CHR 0xE8, CHR 0xAE, CHR 0xBE, CHR 0xE5,
        CHR 0xA4, CHR 0x87, CHR 0xE3, CHR 0x80, CHR 0x81, CHR 0xE4, CHR 0xBA, CHR 0xA7, CHR 0xE5, CHR 0x93,
        CHR 0x81, CHR 0xE7, CHR 0xBB, CHR 0x91, CHR 0xE5, CHR 0xAE, CHR 0x9A, CHR 0xE5, CHR 0x92, CHR 0x8C,
        CHR 0xE8, CHR 0xBF, CHR 0x90, CHR 0xE8, CHR 0xA1, CHR 0x8C, CHR 0xE7, CHR 0x8A, CHR 0xB6, CHR 0xE6,
        CHR 0x80, CHR 0x81, CHR 0xE3, CHR 0x80, CHR 0x82]),
     (''adminDevicePropertiesTitle'', [
        CHR 0xE8, CHR 0xAE, CHR 0xBE, CHR 0xE5, CHR 0xA4, CHR 0x87, CHR 0xE5, CHR 0xB1, CHR 0x9E, CHR 0xE6,
        CHR 0x80, CHR 0xA7]),
     (''adminDevicePropertiesSummary'', [
        CHR 0xE8, CHR 0xAE, CHR 0xBE, CHR 0xE5, CHR 0xA4, CHR 0x87, CHR 0xE5, CHR 0xB1, CHR 0x9E, CHR 0xE6,
        CHR 0x80, CHR 0xA7, CHR 0xE7, CHR 0x94, CHR 0xA8, CHR 0xE4, CHR 0xBA, CHR 0x8E, CHR 0xE6, CHR 0x9F,
        CHR 0xA5, CHR 0xE7, CHR 0x9C, CHR 0x8B, CHR 0xE8, CHR 0xAE, CHR 0xBE, CHR 0xE5, CHR 0xA4, CHR 0x87,
        CHR 0xE6, CHR 0x9C, CHR 0x80, CHR 0xE6, CHR 0x96, CHR 0xB0, CHR 0xE4, CHR 0xB8, CHR 0x8A, CHR 0xE6,
        CHR 0x8A, CHR 0xA5, CHR 0xE7, CHR 0x9A, CHR 0x84, CHR 0xE5, CHR 0xB1, CHR 0x9E, CHR 0xE6, CHR 0x80,
        CHR 0xA7, CHR 0xE5, CHR 0x80, CHR 0xBC, CHR 0xEF, CHR 0xBC, CHR 0x8C, CHR 0xE4, CHR 0xBB, CHR 0xA5,
        CHR 0xE5, CHR 0x8F, CHR 0x8A, CHR 0xE5, CHR 0x90, CHR 0x8E, CHR 0xE7, CHR 0xBB, CHR 0xAD, CHR 0xE6,
        CHR 0x8E, CHR 0xA5, CHR 0xE5, CHR 0x85, CHR 0xA5, CHR 0xE5, CHR 0x8E, CHR 0x86, CHR 0xE5, CHR 0x8F,
        CHR 0xB2, CHR 0xE5, CHR 0xB1, CHR 0x9E, CHR 0xE6, CHR 0x80, CHR 0xA7, CHR 0xE5, CHR 0x8F, CHR 0x98,
        CHR 0xE5, CHR 0x8C, CHR 0x96, CHR 0xE8, CHR 0xB6, CHR 0x8B, CHR 0xE5, CHR 0x8A, CHR 0xBF, CHR 0xE3,
        CHR 0x80, CHR 0x82]),
     (''adminAuditLogsTitle'', [
        CHR 0xE5, CHR 0xAE, CHR 0xA1, CHR 0xE8, CHR 0xAE, CHR 0xA1, CHR 0xE6, CHR 0x97, CHR 0xA5, CHR 0xE5,
        CHR 0xBF, CHR 0x97]),
     (''adminAuditLogsSummary'', [
        CHR 0xE5, CHR 0xAE, CHR 0xA1, CHR 0xE8, CHR 0xAE, CHR 0xA1, CHR 0xE6, CHR 0x97, CHR 0xA5, CHR 0xE5,
        CHR 0xBF, CHR 0x97, CHR 0xE5, CHR 0xB1, CHR 0x95, CHR 0xE7, CHR 0xA4, CHR 0xBA, CHR 0xE5, CHR 0xBD,
        CHR 0x93, CHR 0xE5, CHR 0x89, CHR 0x8D, CHR 0xE8, CHR 0xB4, CHR 0xA6, CHR 0xE5, CHR 0x8F, CHR 0xB7,
        CHR 0xE5, CHR 0x8F, CHR 0xAF, CHR 0xE8, CHR 0xA7, CHR 0x81, CHR 0xE7, CHR 0x9A, CHR 0x84, CHR 0xE4,
        CHR 0xB8, CHR 0x9A, CHR 0xE5, CHR 0x8A, CHR 0xA1, CHR 0xE6, CHR 0x93, CHR 0x8D, CHR 0xE4, CHR 0xBD,
        CHR 0x9C, CHR 0xE8, CHR 0xAE, CHR 0xB0, CHR 0xE5, CHR 0xBD, CHR 0x95, CHR 0xEF, CHR 0xBC, CHR 0x8C,
        CHR 0xE6, CHR 0x95, CHR 0xB0, CHR 0xE6, CHR 0x8D, CHR 0xAE, CHR 0xE7, CHR 0x94, CHR 0xB1, CHR 0xE5,
        CHR 0x90, CHR 0x8E, CHR 0xE7, CHR 0xAB, CHR 0xAF, CHR 0x20, CHR 0x52, CHR 0x4C, CHR 0x53, CHR 0x20,
        CHR 0xE6, CHR 0x8E, CHR 0xA7, CHR 0xE5, CHR 0x88, CHR 0xB6, CHR 0xE3, CHR 0x80, CHR 0x82]),
     (''adminDeviceManagementTitle'', [
        CHR 0xE8, CHR 0xAE, CHR 0xBE, CHR 0xE5, CHR 0xA4, CHR 0x87, CHR 0xE7, CHR 0xAE, CHR 0xA1, CHR 0xE7,
        CHR 0x90, CHR 0x86]),
     (''adminDeviceManagementSummary'', [
        CHR 0xE8, CHR 0xAE, CHR 0xBE, CHR 0xE5, CHR 0xA4, CHR 0x87, CHR 0xE7, CHR 0xAE, CHR 0xA1, CHR 0xE7,
        CHR 0x90, CHR 0x86, CHR 0xE4, CHR 0xBD, CHR 0x9C, CHR 0xE4, CHR 0xB8, CHR 0xBA, CHR 0xE7, CHR 0x88,
        CHR 0xB6, CHR 0xE7, CHR 0xBA, CHR 0xA7, CHR 0xE5, CHR 0x85, CHR 0xA5, CHR 0xE5, CHR 0x8F, CHR 0xA3,
        CHR 0xEF, CHR 0xBC, CHR 0x8C, CHR 0xE5, CHR 0x90, CHR 0x8E, CHR 0xE7, CHR 0xBB, CHR 0xAD, CHR 0xE5,
        CHR 0x8F, CHR 0xAF, CHR 0xE4, CHR 0xBB, CHR 0xA5, CHR 0xE6, CHR 0x89, CHR 0xBF, CHR 0xE8, CHR 0xBD,
        CHR 0xBD, CHR 0xE8, CHR 0xAE, CHR 0xBE, CHR 0xE5, CHR 0xA4, CHR 0x87, CHR 0xE5, CHR 0x88, CHR 0x97,
        CHR 0xE8, CHR 0xA1, CHR 0xA8, CHR 0xE3, CHR 0x80, CHR 0x81, CHR 0xE4, CHR 0xBA, CHR 0xA7, CHR 0xE5,
        CHR 0x93, CHR 0x81, CHR 0xE7, CHR 0xBB, CHR 0x91, CHR 0xE5, CHR 0xAE, CHR 0x9A, CHR 0xE3, CHR 0x80,
        CHR 0x81, CHR 0xE5, CHR 0x9C, CHR 0xA8, CHR 0xE7, CHR 0xBA, CHR 0xBF, CHR 0xE7, CHR 0x8A, CHR 0xB6,
        CHR 0xE6, CHR 0x80, CHR 0x81, CHR 0xE5, CHR 0x92, CHR 0x8C, CHR 0xE8, CHR 0xB0, CHR 0x83, CHR 0xE8,
        CHR 0xAF, CHR 0x95, CHR 0xE5, CHR 0xB7, CHR 0xA5, CHR 0xE5, CHR 0x85, CHR 0xB7, CHR 0xE3, CHR 0x80,
        CHR 0x82]),
     (''adminSettingsTitle'', [
        CHR 0xE5, CHR 0xB9, CHR 0xB3, CHR 0xE5, CHR 0x8F, CHR 0xB0, CHR 0xE8, CHR 0xAE, CHR 0xBE, CHR 0xE7,
        CHR 0xBD, CHR 0xAE]),
     (''adminSettingsSummary'', ''''),
     (''adminMetricOnlineDevices'', [
        CHR 0xE5, CHR 0x9C, CHR 0xA8, CHR 0xE7, CHR 0xBA, CHR 0xBF, CHR 0xE8, CHR 0xAE, CHR 0xBE, CHR 0xE5,
        CHR 0xA4, CHR 0x87]),
     (''adminMetricTenants'', [
        CHR 0xE7, CHR 0xA7, CHR 0x9F, CHR 0xE6, CHR 0x88, CHR 0xB7, CHR 0xE6, CHR 0x95, CHR 0xB0, CHR 0xE9,
        CHR 0x87, CHR 0x8F]),
     (''adminMetricActiveProducts'', [
        CHR 0xE6, CHR 0xB4, CHR 0xBB, CHR 0xE8, CHR 0xB7, CHR 0x83, CHR 0xE4, CHR 0xBA, CHR 0xA7, CHR 0xE5,
        CHR 0x93, CHR 0x81]),
     (''adminMetricWaitingDevices'', [
        CHR 0xE7, CHR 0xAD, CHR 0x89, CHR 0xE5, CHR 0xBE, CHR 0x85, CHR 0xE6, CHR 0x8E, CHR 0xA5, CHR 0xE5,
        CHR 0x85, CHR 0xA5, CHR 0xE7, CHR 0x9C, CHR 0x9F, CHR 0xE5, CHR 0xAE, CHR 0x9E, CHR 0xE8, CHR 0xAE,
        CHR 0xBE, CHR 0xE5, CHR 0xA4, CHR 0x87, CHR 0xE7, CHR 0x8A, CHR 0xB6, CHR 0xE6, CHR 0x80, CHR 0x81,
        CHR 0xE6, CHR 0x8E, CHR 0xA5, CHR 0xE5, CHR 0x8F, CHR 0xA3, CHR 0xE3, CHR 0x80, CHR 0x82]),
     (''adminMetricWaitingTenants'', [
        CHR 0xE7, CHR 0xAD, CHR 0x89, CHR 0xE5, CHR 0xBE, CHR 0x85, CHR 0xE6, CHR 0x8E, CHR 0xA5, CHR 0xE5,
        CHR 0x85, CHR 0xA5, CHR 0xE7, CHR 0xA7, CHR 0x9F, CHR 0xE6, CHR 0x88, CHR 0xB7, CHR 0xE7, CHR 0xBB,
        CHR 0x9F, CHR 0xE8, CHR 0xAE, CHR 0xA1, CHR 0xE6, CHR 0x8E, CHR 0xA5, CHR 0xE5, CHR 0x8F, CHR 0xA3,
        CHR 0xE3, CHR 0x80, CHR 0x82]),
     (''adminMetricWaitingProducts'', [
        CHR 0xE7, CHR 0xAD, CHR 0x89, CHR 0xE5, CHR 0xBE, CHR 0x85, CHR 0xE6, CHR 0x8E, CHR 0xA5, CHR 0xE5,
        CHR 0x85, CHR 0xA5, CHR 0xE4, CHR 0xBA, CHR 0xA7, CHR 0xE5, CHR 0x93, CHR 0x81, CHR 0xE7, CHR 0xAE,
        CHR 0xA1, CHR 0xE7, CHR 0x90, CHR 0x86, CHR 0xE6, CHR 0x8E, CHR 0xA5, CHR 0xE5, CHR 0x8F, CHR 0xA3,
        CHR 0xE3, CHR 0x80, CHR 0x82]),
     (''adminEntryTitle'', [
        CHR 0xE7, CHR 0xAE, CHR 0xA1, CHR 0xE7, CHR 0x90, CHR 0x86, CHR 0xE5, CHR 0x85, CHR 0xA5, CHR 0xE5,
        CHR 0x8F, CHR 0xA3]),
     (''adminEntryTenantsDescription'', [
        CHR 0xE7, CHR 0xA7, CHR 0x9F, CHR 0xE6, CHR 0x88, CHR 0xB7, CHR 0xE5, CHR 0x88, CHR 0x97, CHR 0xE8,
        CHR 0xA1, CHR 0xA8, CHR 0xE3, CHR 0x80, CHR 0x81, CHR 0xE6, CHR 0x88, CHR 0x90, CHR 0xE5, CHR 0x91,
        CHR 0x98, CHR 0xE5, CHR 0x92, CHR 0x8C, CHR 0xE8, CHR 0xA7, CHR 0x92, CHR 0xE8, CHR 0x89, CHR 0xB2,
        CHR 0xE6, CHR 0x9D, CHR 0x83, CHR 0xE9, CHR 0x99, CHR 0x90, CHR 0xE5, CHR 0x85, CHR 0xA5, CHR 0xE5,
        CHR 0x8F, CHR 0xA3, CHR 0xE4, CHR 0xBC, CHR 0x9A, CHR 0xE6, CHR 0x94, CHR 0xBE, CHR 0xE5, CHR 0x9C,
        CHR 0xA8, CHR 0xE8, CHR 0xBF, CHR 0x99, CHR 0xE9, CHR 0x87, CHR 0x8C, CHR 0xE3, CHR 0x80, CHR 0x82]),
     (''adminEntryProductsDescription'', [
        CHR 0xE7, CHR 0xA7, CHR 0x9F, CHR 0xE6, CHR 0x88, CHR 0xB7, CHR 0xE4, CHR 0xB8, CHR 0x8B, CHR 0xE7,
        CHR 0x9A, CHR 0x84, CHR 0xE4, CHR 0xBA, CHR 0xA7, CHR 0xE5, CHR 0x93, CHR 0x81, CHR 0xE3, CHR 0x80,
        CHR 0x81, CHR 0xE8, CHR 0x8A, CHR 0x82, CHR 0xE7, CHR 0x82, CHR 0xB9, CHR 0xE7, CHR 0xB1, CHR 0xBB,
        CHR 0xE5, CHR 0x9E, CHR 0x8B, CHR 0xE5, CHR 0x92, CHR 0x8C, CHR 0xE8, CHR 0xAE, CHR 0xA4, CHR 0xE8,
        CHR 0xAF, CHR 0x81, CHR 0xE7, CHR 0xAD, CHR 0x96, CHR 0xE7, CHR 0x95, CHR 0xA5, CHR 0xE4, CHR 0xBC,
        CHR 0x9A, CHR 0xE6, CHR 0x94, CHR 0xBE, CHR 0xE5, CHR 0x9C, CHR 0xA8, CHR 0xE8, CHR 0xBF, CHR 0x99,
        CHR 0xE9, CHR 0x87, CHR 0x8C, CHR 0xE3, CHR 0x80, CHR 0x82]),
     (''adminEntryThingsModelsDescription'', [
        CHR 0xE4, CHR 0xBA, CHR 0xA7, CHR 0xE5, CHR 0x93, CHR 0x81, CHR 0xE4, CHR 0xB8, CHR 0x8B, CHR 0xE7,
        CHR 0x9A, CHR 0x84, CHR 0xE7, CHR 0x89, CHR 0xA9, CHR 0xE6, CHR 0xA8, CHR 0xA1, CHR 0xE5, CHR 0x9E,
        CHR 0x8B, CHR 0xE7, CHR 0x89, CHR 0x88, CHR 0xE6, CHR 0x9C, CHR 0xAC, CHR 0xE3, CHR 0x80, CHR 0x81,
        CHR 0xE5, CHR 0x8F, CHR 0x91, CHR 0xE5, CHR 0xB8, CHR 0x83, CHR 0xE7, CHR 0x8A, CHR 0xB6, CHR 0xE6,
        CHR 0x80, CHR 0x81, CHR 0xE5, CHR 0x92, CHR 0x8C, CHR 0xE5, CHR 0xBD, CHR 0x93, CHR 0xE5, CHR 0x89,
        CHR 0x8D, CHR 0xE6, CHR 0xA8, CHR 0xA1, CHR 0xE5, CHR 0x9E, CHR 0x8B, CHR 0xE4, CHR 0xBC, CHR 0x9A,
        CHR 0xE6, CHR 0x94, CHR 0xBE, CHR 0xE5, CHR 0x9C, CHR 0xA8, CHR 0xE8, CHR 0xBF, CHR 0x99, CHR 0xE9,
        CHR 0x87, CHR 0x8C, CHR 0xE3, CHR 0x80, CHR 0x82]),
     (''adminEntryDevicesDescription'', [
        CHR 0xE7, CHR 0xA7, CHR 0x9F, CHR 0xE6, CHR 0x88, CHR 0xB7, CHR 0xE4, CHR 0xB8, CHR 0x8B, CHR 0xE7,
        CHR 0x9A, CHR 0x84, CHR 0xE8, CHR 0xAE, CHR 0xBE, CHR 0xE5, CHR 0xA4, CHR 0x87, CHR 0xE3, CHR 0x80,
        CHR 0x81, CHR 0xE4, CHR 0xBA, CHR 0xA7, CHR 0xE5, CHR 0x93, CHR 0x81, CHR 0xE7, CHR 0xBB, CHR 0x91,
        CHR 0xE5, CHR 0xAE, CHR 0x9A, CHR 0xE5, CHR 0x92, CHR 0x8C, CHR 0xE8, CHR 0xBF, CHR 0x90, CHR 0xE8,
        CHR 0xA1, CHR 0x8C, CHR 0xE7, CHR 0x8A, CHR 0xB6, CHR 0xE6, CHR 0x80, CHR 0x81, CHR 0xE4, CHR 0xBC,
        CHR 0x9A, CHR 0xE6, CHR 0x94, CHR 0xBE, CHR 0xE5, CHR 0x9C, CHR 0xA8, CHR 0xE8, CHR 0xBF, CHR 0x99,
        CHR 0xE9, CHR 0x87, CHR 0x8C, CHR 0xE3, CHR 0x80, CHR 0x82]),
     (''adminEntryDevicePropertiesDescription'', [
        CHR 0xE8, CHR 0xAE, CHR 0xBE, CHR 0xE5, CHR 0xA4, CHR 0x87, CHR 0xE6, CHR 0x9C, CHR 0x80, CHR 0xE6,
        CHR 0x96, CHR 0xB0, CHR 0xE5, CHR 0xB1, CHR 0x9E, CHR 0xE6, CHR 0x80, CHR 0xA7, CHR 0xE5, CHR 0x92,
        CHR 0x8C, CHR 0xE5, CHR 0x8E, CHR 0x86, CHR 0xE5, CHR 0x8F, CHR 0xB2, CHR 0xE5, CHR 0xB1, CHR 0x9E,
        CHR 0xE6, CHR 0x80, CHR 0xA7, CHR 0xE8, CHR 0xB6, CHR 0x8B, CHR 0xE5, CHR 0x8A, CHR 0xBF, CHR 0xE4,
        CHR 0xBC, CHR 0x9A, CHR 0xE6, CHR 0x94, CHR 0xBE, CHR 0xE5, CHR 0x9C, CHR 0xA8, CHR 0xE8, CHR 0xBF,
        CHR 0x99, CHR 0xE9, CHR 0x87, CHR 0x8C, CHR 0xE3, CHR 0x80, CHR 0x82]),
     (''adminEntryAuditLogsDescription'', [
        CHR 0xE7, CHR 0xA7, CHR 0x9F, CHR 0xE6, CHR 0x88, CHR 0xB7, CHR 0xE5, CHR 0x88, CHR 0x9B, CHR 0xE5,
        CHR 0xBB, CHR 0xBA, CHR 0xE3, CHR 0x80, CHR 0x81, CHR 0xE6, CHR 0x9B, CHR 0xB4, CHR 0xE6, CHR 0x96,
        CHR 0xB0, CHR 0xE3, CHR 0x80, CHR 0x81, CHR 0xE5, CHR 0x88, CHR 0xA0, CHR 0xE9, CHR 0x99, CHR 0xA4,
        CHR 0xE7, CHR 0xAD, CHR 0x89, CHR 0xE4, CHR 0xB8, CHR 0x9A, CHR 0xE5, CHR 0x8A, CHR 0xA1, CHR 0xE6,
        CHR 0x93, CHR 0x8D, CHR 0xE4, CHR 0xBD, CHR 0x9C, CHR 0xE6, CHR 0x97, CHR 0xA5, CHR 0xE5, CHR 0xBF,
        CHR 0x97, CHR 0xE4, CHR 0xBC, CHR 0x9A, CHR 0xE6, CHR 0x94, CHR 0xBE, CHR 0xE5, CHR 0x9C, CHR 0xA8,
        CHR 0xE8, CHR 0xBF, CHR 0x99, CHR 0xE9, CHR 0x87, CHR 0x8C, CHR 0xE3, CHR 0x80, CHR 0x82]),
     (''adminEntryDeviceManagementDescription'', [
        CHR 0xE8, CHR 0xAE, CHR 0xBE, CHR 0xE5, CHR 0xA4, CHR 0x87, CHR 0xE5, CHR 0x88, CHR 0x97, CHR 0xE8,
        CHR 0xA1, CHR 0xA8, CHR 0xE3, CHR 0x80, CHR 0x81, CHR 0xE5, CHR 0x9C, CHR 0xA8, CHR 0xE7, CHR 0xBA,
        CHR 0xBF, CHR 0xE7, CHR 0x8A, CHR 0xB6, CHR 0xE6, CHR 0x80, CHR 0x81, CHR 0xE3, CHR 0x80, CHR 0x81,
        CHR 0xE4, CHR 0xBA, CHR 0xA7, CHR 0xE5, CHR 0x93, CHR 0x81, CHR 0xE7, CHR 0xBB, CHR 0x91, CHR 0xE5,
        CHR 0xAE, CHR 0x9A, CHR 0xE5, CHR 0x92, CHR 0x8C, CHR 0xE8, CHR 0xB0, CHR 0x83, CHR 0xE8, CHR 0xAF,
        CHR 0x95, CHR 0xE5, CHR 0x85, CHR 0xA5, CHR 0xE5, CHR 0x8F, CHR 0xA3, CHR 0xE4, CHR 0xBC, CHR 0x9A,
        CHR 0xE6, CHR 0x94, CHR 0xBE, CHR 0xE5, CHR 0x9C, CHR 0xA8, CHR 0xE8, CHR 0xBF, CHR 0x99, CHR 0xE9,
        CHR 0x87, CHR 0x8C, CHR 0xE3, CHR 0x80, CHR 0x82]),
     (''adminEntrySettingsDescription'', ''''),
     (''adminContentAreaTitle'', [
        CHR 0xE5, CHR 0xBD, CHR 0x93, CHR 0xE5, CHR 0x89, CHR 0x8D, CHR 0xE5, CHR 0xB7, CHR 0xA5, CHR 0xE4,
        CHR 0xBD, CHR 0x9C, CHR 0xE5, CHR 0x8C, CHR 0xBA]),
     (''adminOverviewContent'', [
        CHR 0xE4, CHR 0xB8, CHR 0x8B, CHR 0xE4, CHR 0xB8, CHR 0x80, CHR 0xE6, CHR 0xAD, CHR 0xA5, CHR 0xE5,
        CHR 0xBA, CHR 0x94, CHR 0xE8, CHR 0xAF, CHR 0xA5, CHR 0xE4, CHR 0xBB, CHR 0x8E, CHR 0xE7, CHR 0xA7,
        CHR 0x9F, CHR 0xE6, CHR 0x88, CHR 0xB7, CHR 0xE7, CHR 0xAE, CHR 0xA1, CHR 0xE7, CHR 0x90, CHR 0x86,
        CHR 0xE6, CHR 0x88, CHR 0x96, CHR 0xE8, CHR 0xAE, CHR 0xBE, CHR 0xE5, CHR 0xA4, CHR 0x87, CHR 0xE7,
        CHR 0xAE, CHR 0xA1, CHR 0xE7, CHR 0x90, CHR 0x86, CHR 0xE4, CHR 0xB8, CHR 0xAD, CHR 0xE9, CHR 0x80,
        CHR 0x89, CHR 0xE6, CHR 0x8B, CHR 0xA9, CHR 0xE4, CHR 0xB8, CHR 0x80, CHR 0xE4, CHR 0xB8, CHR 0xAA,
        CHR 0xE7, CHR 0x88, CHR 0xB6, CHR 0xE7, CHR 0xBA, CHR 0xA7, CHR 0xE5, CHR 0x85, CHR 0xA5, CHR 0xE5,
        CHR 0x8F, CHR 0xA3, CHR 0xE7, CHR 0xBB, CHR 0xA7, CHR 0xE7, CHR 0xBB, CHR 0xAD, CHR 0xE6, CHR 0x8B,
        CHR 0x86, CHR 0xE5, CHR 0xAD, CHR 0x90, CHR 0xE8, CHR 0xB7, CHR 0xAF, CHR 0xE7, CHR 0x94, CHR 0xB1,
        CHR 0xE3, CHR 0x80, CHR 0x82]),
     (''adminTenantsContent'', [
        CHR 0xE7, CHR 0xA7, CHR 0x9F, CHR 0xE6, CHR 0x88, CHR 0xB7, CHR 0xE7, CHR 0xAE, CHR 0xA1, CHR 0xE7,
        CHR 0x90, CHR 0x86, CHR 0xE6, CHR 0xA8, CHR 0xA1, CHR 0xE5, CHR 0x9D, CHR 0x97, CHR 0xE5, CHR 0xBB,
        CHR 0xBA, CHR 0xE8, CHR 0xAE, CHR 0xAE, CHR 0xE5, CHR 0x85, CHR 0x88, CHR 0xE5, CHR 0xAE, CHR 0x9E,
        CHR 0xE7, CHR 0x8E, CHR 0xB0, CHR 0xE7, CHR 0xA7, CHR 0x9F, CHR 0xE6, CHR 0x88, CHR 0xB7, CHR 0xE5,
        CHR 0x88, CHR 0x97, CHR 0xE8, CHR 0xA1, CHR 0xA8, CHR 0xEF, CHR 0xBC, CHR 0x8C, CHR 0xE5, CHR 0x86,
        CHR 0x8D, CHR 0xE5, CHR 0xA2, CHR 0x9E, CHR 0xE5, CHR 0x8A, CHR 0xA0, CHR 0xE6, CHR 0x88, CHR 0x90,
        CHR 0xE5, CHR 0x91, CHR 0x98, CHR 0xE3, CHR 0x80, CHR 0x81, CHR 0xE8, CHR 0xA7, CHR 0x92, CHR 0xE8,
        CHR 0x89, CHR 0xB2, CHR 0xE5, CHR 0x92, CHR 0x8C, CHR 0xE6, CHR 0x9D, CHR 0x83, CHR 0xE9, CHR 0x99,
        CHR 0x90, CHR 0xE9, CHR 0x85, CHR 0x8D, CHR 0xE7, CHR 0xBD, CHR 0xAE, CHR 0xE3, CHR 0x80, CHR 0x82]),
     (''adminProductsContent'', [
        CHR 0xE4, CHR 0xBA, CHR 0xA7, CHR 0xE5, CHR 0x93, CHR 0x81, CHR 0xE7, CHR 0xAE, CHR 0xA1, CHR 0xE7,
        CHR 0x90, CHR 0x86, CHR 0xE6, CHR 0xA8, CHR 0xA1, CHR 0xE5, CHR 0x9D, CHR 0x97, CHR 0xE7, CHR 0x94,
        CHR 0xA8, CHR 0xE4, CHR 0xBA, CHR 0x8E, CHR 0xE7, CHR 0xBB, CHR 0xB4, CHR 0xE6, CHR 0x8A, CHR 0xA4,
        CHR 0xE7, CHR 0xA7, CHR 0x9F, CHR 0xE6, CHR 0x88, CHR 0xB7, CHR 0xE4, CHR 0xB8, CHR 0x8B, CHR 0xE7,
        CHR 0x9A, CHR 0x84, CHR 0x20, CHR 0x49, CHR 0x6F, CHR 0x54, CHR 0x20, CHR 0xE4, CHR 0xBA, CHR 0xA7,
        CHR 0xE5, CHR 0x93, CHR 0x81, CHR 0xE5, CHR 0xAE, CHR 0x9A, CHR 0xE4, CHR 0xB9, CHR 0x89, CHR 0xE3,
        CHR 0x80, CHR 0x82]),
     (''adminThingsModelsContent'', [
        CHR 0xE7, CHR 0x89, CHR 0xA9, CHR 0xE6, CHR 0xA8, CHR 0xA1, CHR 0xE5, CHR 0x9E, CHR 0x8B, CHR 0xE7,
        CHR 0xAE, CHR 0xA1, CHR 0xE7, CHR 0x90, CHR 0x86, CHR 0xE6, CHR 0xA8, CHR 0xA1, CHR 0xE5, CHR 0x9D,
        CHR 0x97, CHR 0xE7, CHR 0x94, CHR 0xA8, CHR 0xE4, CHR 0xBA, CHR 0x8E, CHR 0xE7, CHR 0xBB, CHR 0xB4,
        CHR 0xE6, CHR 0x8A, CHR 0xA4, CHR 0xE4, CHR 0xBA, CHR 0xA7, CHR 0xE5, CHR 0x93, CHR 0x81, CHR 0xE7,
        CHR 0x9A, CHR 0x84, CHR 0xE5, CHR 0xB1, CHR 0x9E, CHR 0xE6, CHR 0x80, CHR 0xA7, CHR 0xE3, CHR 0x80,
        CHR 0x81, CHR 0xE4, CHR 0xBA, CHR 0x8B, CHR 0xE4, CHR 0xBB, CHR 0xB6, CHR 0xE5, CHR 0x92, CHR 0x8C,
        CHR 0xE6, CHR 0x9C, CHR 0x8D, CHR 0xE5, CHR 0x8A, CHR 0xA1, CHR 0xE5, CHR 0xAE, CHR 0x9A, CHR 0xE4,
        CHR 0xB9, CHR 0x89, CHR 0xE3, CHR 0x80, CHR 0x82]),
     (''adminDevicesContent'', [
        CHR 0xE8, CHR 0xAE, CHR 0xBE, CHR 0xE5, CHR 0xA4, CHR 0x87, CHR 0xE7, CHR 0xAE, CHR 0xA1, CHR 0xE7,
        CHR 0x90, CHR 0x86, CHR 0xE6, CHR 0xA8, CHR 0xA1, CHR 0xE5, CHR 0x9D, CHR 0x97, CHR 0xE7, CHR 0x94,
        CHR 0xA8, CHR 0xE4, CHR 0xBA, CHR 0x8E, CHR 0xE7, CHR 0xBB, CHR 0xB4, CHR 0xE6, CHR 0x8A, CHR 0xA4,
        CHR 0xE8, CHR 0xAE, CHR 0xBE, CHR 0xE5, CHR 0xA4, CHR 0x87, CHR 0xE5, CHR 0xAE, CHR 0x9E, CHR 0xE4,
        CHR 0xBE, CHR 0x8B, CHR 0xE5, CHR 0x92, CHR 0x8C, CHR 0xE4, CHR 0xBA, CHR 0xA7, CHR 0xE5, CHR 0x93,
        CHR 0x81, CHR 0xE7, CHR 0xBB, CHR 0x91, CHR 0xE5, CHR 0xAE, CHR 0x9A, CHR 0xE5, CHR 0x85, CHR 0xB3,
        CHR 0xE7, CHR 0xB3, CHR 0xBB, CHR 0xE3, CHR 0x80, CHR 0x82]),
     (''adminDevicePropertiesContent'', [
        CHR 0xE8, CHR 0xAE, CHR 0xBE, CHR 0xE5, CHR 0xA4, CHR 0x87, CHR 0xE5, CHR 0xB1, CHR 0x9E, CHR 0xE6,
        CHR 0x80, CHR 0xA7, CHR 0xE6, CHR 0xA8, CHR 0xA1, CHR 0xE5, CHR 0x9D, CHR 0x97, CHR 0xE7, CHR 0x94,
        CHR 0xA8, CHR 0xE4, CHR 0xBA, CHR 0x8E, CHR 0xE6, CHR 0x9F, CHR 0xA5, CHR 0xE7, CHR 0x9C, CHR 0x8B,
        CHR 0xE8, CHR 0xAE, CHR 0xBE, CHR 0xE5, CHR 0xA4, CHR 0x87, CHR 0xE6, CHR 0x9C, CHR 0x80, CHR 0xE6,
        CHR 0x96, CHR 0xB0, CHR 0xE5, CHR 0xB1, CHR 0x9E, CHR 0xE6, CHR 0x80, CHR 0xA7, CHR 0xE5, CHR 0x92,
        CHR 0x8C, CHR 0xE5, CHR 0x8E, CHR 0x86, CHR 0xE5, CHR 0x8F, CHR 0xB2, CHR 0xE5, CHR 0x8F, CHR 0x98,
        CHR 0xE5, CHR 0x8C, CHR 0x96, CHR 0xE5, CHR 0x9B, CHR 0xBE, CHR 0xE8, CHR 0xA1, CHR 0xA8, CHR 0xE3,
        CHR 0x80, CHR 0x82]),
     (''adminAuditLogsContent'', [
        CHR 0xE5, CHR 0xAE, CHR 0xA1, CHR 0xE8, CHR 0xAE, CHR 0xA1, CHR 0xE6, CHR 0x97, CHR 0xA5, CHR 0xE5,
        CHR 0xBF, CHR 0x97, CHR 0xE6, CHR 0xA8, CHR 0xA1, CHR 0xE5, CHR 0x9D, CHR 0x97, CHR 0xE7, CHR 0x94,
        CHR 0xA8, CHR 0xE4, CHR 0xBA, CHR 0x8E, CHR 0xE6, CHR 0x9F, CHR 0xA5, CHR 0xE8, CHR 0xAF, CHR 0xA2,
        CHR 0xE5, CHR 0xBD, CHR 0x93, CHR 0xE5, CHR 0x89, CHR 0x8D, CHR 0xE8, CHR 0xB4, CHR 0xA6, CHR 0xE5,
        CHR 0x8F, CHR 0xB7, CHR 0xE5, CHR 0x8F, CHR 0xAF, CHR 0xE8, CHR 0xA7, CHR 0x81, CHR 0xE7, CHR 0x9A,
        CHR 0x84, CHR 0xE4, CHR 0xB8, CHR 0x9A, CHR 0xE5, CHR 0x8A, CHR 0xA1, CHR 0xE6, CHR 0x93, CHR 0x8D,
        CHR 0xE4, CHR 0xBD, CHR 0x9C, CHR 0xE8, CHR 0xAE, CHR 0xB0, CHR 0xE5, CHR 0xBD, CHR 0x95, CHR 0xE3,
        CHR 0x80, CHR 0x82]),
     (''adminDeviceManagementContent'', [
        CHR 0xE8, CHR 0xAE, CHR 0xBE, CHR 0xE5, CHR 0xA4, CHR 0x87, CHR 0xE7, CHR 0xAE, CHR 0xA1, CHR 0xE7,
        CHR 0x90, CHR 0x86, CHR 0xE6, CHR 0xA8, CHR 0xA1, CHR 0xE5, CHR 0x9D, CHR 0x97, CHR 0xE5, CHR 0xBB,
        CHR 0xBA, CHR 0xE8, CHR 0xAE, CHR 0xAE, CHR 0xE5, CHR 0x85, CHR 0x88, CHR 0xE5, CHR 0xAE, CHR 0x9E,
        CHR 0xE7, CHR 0x8E, CHR 0xB0, CHR 0xE8, CHR 0xAE, CHR 0xBE, CHR 0xE5, CHR 0xA4, CHR 0x87, CHR 0xE5,
        CHR 0x88, CHR 0x97, CHR 0xE8, CHR 0xA1, CHR 0xA8, CHR 0xEF, CHR 0xBC, CHR 0x8C, CHR 0xE5, CHR 0x86,
        CHR 0x8D, CHR 0xE5, CHR 0xA2, CHR 0x9E, CHR 0xE5, CHR 0x8A, CHR 0xA0, CHR 0xE8, CHR 0xAE, CHR 0xBE,
        CHR 0xE5, CHR 0xA4, CHR 0x87, CHR 0xE8, CHR 0xAF, CHR 0xA6, CHR 0xE6, CHR 0x83, CHR 0x85, CHR 0xE3,
        CHR 0x80, CHR 0x81, CHR 0xE4, CHR 0xBA, CHR 0xA7, CHR 0xE5, CHR 0x93, CHR 0x81, CHR 0xE7, CHR 0xBB,
        CHR 0x91, CHR 0xE5, CHR 0xAE, CHR 0x9A, CHR 0xE5, CHR 0x92, CHR 0x8C, CHR 0xE8, CHR 0xB0, CHR 0x83,
        CHR 0xE8, CHR 0xAF, CHR 0x95, CHR 0xE5, CHR 0x85, CHR 0xA5, CHR 0xE5, CHR 0x8F, CHR 0xA3, CHR 0xE3,
        CHR 0x80, CHR 0x82]),
     (''adminSettingsContent'', ''''),
     (''adminTenantListTitle'', [
        CHR 0xE7, CHR 0xA7, CHR 0x9F, CHR 0xE6, CHR 0x88, CHR 0xB7, CHR 0xE5, CHR 0x88, CHR 0x97, CHR 0xE8,
        CHR 0xA1, CHR 0xA8]),
     (''adminTenantCreate'', [
        CHR 0xE6, CHR 0x96, CHR 0xB0, CHR 0xE5, CHR 0xBB, CHR 0xBA, CHR 0xE7, CHR 0xA7, CHR 0x9F, CHR 0xE6,
        CHR 0x88, CHR 0xB7]),
     (''adminTenantCreateTitle'', [
        CHR 0xE6, CHR 0x96, CHR 0xB0, CHR 0xE5, CHR 0xBB, CHR 0xBA, CHR 0xE7, CHR 0xA7, CHR 0x9F, CHR 0xE6,
        CHR 0x88, CHR 0xB7]),
     (''adminTenantEditTitle'', [
        CHR 0xE7, CHR 0xBC, CHR 0x96, CHR 0xE8, CHR 0xBE, CHR 0x91, CHR 0xE7, CHR 0xA7, CHR 0x9F, CHR 0xE6,
        CHR 0x88, CHR 0xB7]),
     (''adminTenantSlug'', [
        CHR 0xE7, CHR 0xA7, CHR 0x9F, CHR 0xE6, CHR 0x88, CHR 0xB7, CHR 0xE6, CHR 0xA0, CHR 0x87, CHR 0xE8,
        CHR 0xAF, CHR 0x86]),
     (''adminTenantName'', [
        CHR 0xE7, CHR 0xA7, CHR 0x9F, CHR 0xE6, CHR 0x88, CHR 0xB7, CHR 0xE5, CHR 0x90, CHR 0x8D, CHR 0xE7,
        CHR 0xA7, CHR 0xB0]),
     (''adminTenantStatus'', [CHR 0xE7, CHR 0x8A, CHR 0xB6, CHR 0xE6, CHR 0x80, CHR 0x81]),
     (''adminTenantStatusActive'', [CHR 0xE5, CHR 0x90, CHR 0xAF, CHR 0xE7, CHR 0x94, CHR 0xA8]),
     (''adminTenantStatusDisabled'', [CHR 0xE5, CHR 0x81, CHR 0x9C, CHR 0xE7, CHR 0x94, CHR 0xA8]),
     (''adminTenantCreatedAt'', [
        CHR 0xE5, CHR 0x88, CHR 0x9B, CHR 0xE5, CHR 0xBB, CHR 0xBA, CHR 0xE6, CHR 0x97, CHR 0xB6, CHR 0xE9,
        CHR 0x97, CHR 0xB4]),
     (''adminTenantUpdatedAt'', [
        CHR 0xE6, CHR 0x9B, CHR 0xB4, CHR 0xE6, CHR 0x96, CHR 0xB0, CHR 0xE6, CHR 0x97, CHR 0xB6, CHR 0xE9,
        CHR 0x97, CHR 0xB4]),
     (''adminTenantActions'', [CHR 0xE6, CHR 0x93, CHR 0x8D, CHR 0xE4, CHR 0xBD, CHR 0x9C]),
     (''adminTenantEdit'', [CHR 0xE7, CHR 0xBC, CHR 0x96, CHR 0xE8, CHR 0xBE, CHR 0x91]),
     (''adminTenantDelete'', [CHR 0xE5, CHR 0x88, CHR 0xA0, CHR 0xE9, CHR 0x99, CHR 0xA4]),
     (''adminTenantSave'', [CHR 0xE4, CHR 0xBF, CHR 0x9D, CHR 0xE5, CHR 0xAD, CHR 0x98]),
     (''adminTenantSaving'', [CHR 0xE4, CHR 0xBF, CHR 0x9D, CHR 0xE5, CHR 0xAD, CHR 0x98, CHR 0xE4, CHR 0xB8, CHR 0xAD]),
     (''adminTenantCancel'', [CHR 0xE5, CHR 0x8F, CHR 0x96, CHR 0xE6, CHR 0xB6, CHR 0x88]),
     (''adminTenantLoading'', [
        CHR 0xE6, CHR 0xAD, CHR 0xA3, CHR 0xE5, CHR 0x9C, CHR 0xA8, CHR 0xE5, CHR 0x8A, CHR 0xA0, CHR 0xE8,
        CHR 0xBD, CHR 0xBD, CHR 0xE7, CHR 0xA7, CHR 0x9F, CHR 0xE6, CHR 0x88, CHR 0xB7, CHR 0x2E, CHR 0x2E,
        CHR 0x2E]),
     (''adminTenantEmpty'', [
        CHR 0xE6, CHR 0x9A, CHR 0x82, CHR 0xE6, CHR 0x97, CHR 0xA0, CHR 0xE7, CHR 0xA7, CHR 0x9F, CHR 0xE6,
        CHR 0x88, CHR 0xB7]),
     (''adminTenantEmptyDescription'', [
        CHR 0xE5, CHR 0x88, CHR 0x9B, CHR 0xE5, CHR 0xBB, CHR 0xBA, CHR 0xE7, CHR 0xAC, CHR 0xAC, CHR 0xE4,
        CHR 0xB8, CHR 0x80, CHR 0xE4, CHR 0xB8, CHR 0xAA, CHR 0xE7, CHR 0xA7, CHR 0x9F, CHR 0xE6, CHR 0x88,
        CHR 0xB7, CHR 0xE5, CHR 0x90, CHR 0x8E, CHR 0xEF, CHR 0xBC, CHR 0x8C, CHR 0xE5, CHR 0xAE, CHR 0x83,
        CHR 0xE4, CHR 0xBC, CHR 0x9A, CHR 0xE5, CHR 0x87, CHR 0xBA, CHR 0xE7, CHR 0x8E, CHR 0xB0, CHR 0xE5,
        CHR 0x9C, CHR 0xA8, CHR 0xE8, CHR 0xBF, CHR 0x99, CHR 0xE9, CHR 0x87, CHR 0x8C, CHR 0xE3, CHR 0x80,
        CHR 0x82]),
     (''adminTenantPageSize'', [CHR 0xE6, CHR 0xAF, CHR 0x8F, CHR 0xE9, CHR 0xA1, CHR 0xB5]),
     (''adminTenantTotal'', [
        CHR 0xE5, CHR 0x85, CHR 0xB1, CHR 0x20, CHR 0x7B, CHR 0x74, CHR 0x6F, CHR 0x74, CHR 0x61, CHR 0x6C,
        CHR 0x7D, CHR 0x20, CHR 0xE4, CHR 0xB8, CHR 0xAA, CHR 0xE7, CHR 0xA7, CHR 0x9F, CHR 0xE6, CHR 0x88,
        CHR 0xB7]),
     (''adminTenantPage'', [
        CHR 0xE7, CHR 0xAC, CHR 0xAC, CHR 0x20, CHR 0x7B, CHR 0x70, CHR 0x61, CHR 0x67, CHR 0x65, CHR 0x7D,
        CHR 0x20, CHR 0x2F, CHR 0x20, CHR 0x7B, CHR 0x74, CHR 0x6F, CHR 0x74, CHR 0x61, CHR 0x6C, CHR 0x50,
        CHR 0x61, CHR 0x67, CHR 0x65, CHR 0x73, CHR 0x7D, CHR 0x20, CHR 0xE9, CHR 0xA1, CHR 0xB5]),
     (''adminTenantJumpTo'', [CHR 0xE8, CHR 0xB7, CHR 0xB3, CHR 0xE8, CHR 0xBD, CHR 0xAC, CHR 0xE5, CHR 0x88, CHR 0xB0]),
     (''adminTenantJump'', [CHR 0xE8, CHR 0xB7, CHR 0xB3, CHR 0xE8, CHR 0xBD, CHR 0xAC]),
     (''adminTenantPrev'', [CHR 0xE4, CHR 0xB8, CHR 0x8A, CHR 0xE4, CHR 0xB8, CHR 0x80, CHR 0xE9, CHR 0xA1, CHR 0xB5]),
     (''adminTenantNext'', [CHR 0xE4, CHR 0xB8, CHR 0x8B, CHR 0xE4, CHR 0xB8, CHR 0x80, CHR 0xE9, CHR 0xA1, CHR 0xB5]),
     (''adminTenantLoadFailed'', [
        CHR 0xE7, CHR 0xA7, CHR 0x9F, CHR 0xE6, CHR 0x88, CHR 0xB7, CHR 0xE5, CHR 0x8A, CHR 0xA0, CHR 0xE8,
        CHR 0xBD, CHR 0xBD, CHR 0xE5, CHR 0xA4, CHR 0xB1, CHR 0xE8, CHR 0xB4, CHR 0xA5]),
     (''adminTenantCreateSuccess'', [
        CHR 0xE7, CHR 0xA7, CHR 0x9F, CHR 0xE6, CHR 0x88, CHR 0xB7, CHR 0xE5, CHR 0xB7, CHR 0xB2, CHR 0xE5,
        CHR 0x88, CHR 0x9B, CHR 0xE5, CHR 0xBB, CHR 0xBA]),
     (''adminTenantCreateFailed'', [
        CHR 0xE5, CHR 0x88, CHR 0x9B, CHR 0xE5, CHR 0xBB, CHR 0xBA, CHR 0xE7, CHR 0xA7, CHR 0x9F, CHR 0xE6,
        CHR 0x88, CHR 0xB7, CHR 0xE5, CHR 0xA4, CHR 0xB1, CHR 0xE8, CHR 0xB4, CHR 0xA5]),
     (''adminTenantUpdateSuccess'', [
        CHR 0xE7, CHR 0xA7, CHR 0x9F, CHR 0xE6, CHR 0x88, CHR 0xB7, CHR 0xE5, CHR 0xB7, CHR 0xB2, CHR 0xE6,
        CHR 0x9B, CHR 0xB4, CHR 0xE6, CHR 0x96, CHR 0xB0]),
     (''adminTenantUpdateFailed'', [
        CHR 0xE6, CHR 0x9B, CHR 0xB4, CHR 0xE6, CHR 0x96, CHR 0xB0, CHR 0xE7, CHR 0xA7, CHR 0x9F, CHR 0xE6,
        CHR 0x88, CHR 0xB7, CHR 0xE5, CHR 0xA4, CHR 0xB1, CHR 0xE8, CHR 0xB4, CHR 0xA5]),
     (''adminTenantDeleteSuccess'', [
        CHR 0xE7, CHR 0xA7, CHR 0x9F, CHR 0xE6, CHR 0x88, CHR 0xB7, CHR 0xE5, CHR 0xB7, CHR 0xB2, CHR 0xE5,
        CHR 0x88, CHR 0xA0, CHR 0xE9, CHR 0x99, CHR 0xA4]),
     (''adminTenantDeleteFailed'', [
        CHR 0xE5, CHR 0x88, CHR 0xA0, CHR 0xE9, CHR 0x99, CHR 0xA4, CHR 0xE7, CHR 0xA7, CHR 0x9F, CHR 0xE6,
        CHR 0x88, CHR 0xB7, CHR 0xE5, CHR 0xA4, CHR 0xB1, CHR 0xE8, CHR 0xB4, CHR 0xA5]),
     (''adminTenantDeleteConfirm'', [
        CHR 0xE7, CHR 0xA1, CHR 0xAE, CHR 0xE8, CHR 0xAE, CHR 0xA4, CHR 0xE5, CHR 0x88, CHR 0xA0, CHR 0xE9,
        CHR 0x99, CHR 0xA4, CHR 0xE8, CHR 0xBF, CHR 0x99, CHR 0xE4, CHR 0xB8, CHR 0xAA, CHR 0xE7, CHR 0xA7,
        CHR 0x9F, CHR 0xE6, CHR 0x88, CHR 0xB7, CHR 0xEF, CHR 0xBC, CHR 0x9F]),
     (''adminProductCreate'', [
        CHR 0xE6, CHR 0x96, CHR 0xB0, CHR 0xE5, CHR 0xBB, CHR 0xBA, CHR 0xE4, CHR 0xBA, CHR 0xA7, CHR 0xE5,
        CHR 0x93, CHR 0x81]),
     (''adminProductCreateTitle'', [
        CHR 0xE6, CHR 0x96, CHR 0xB0, CHR 0xE5, CHR 0xBB, CHR 0xBA, CHR 0xE4, CHR 0xBA, CHR 0xA7, CHR 0xE5,
        CHR 0x93, CHR 0x81]),
     (''adminProductEditTitle'', [
        CHR 0xE7, CHR 0xBC, CHR 0x96, CHR 0xE8, CHR 0xBE, CHR 0x91, CHR 0xE4, CHR 0xBA, CHR 0xA7, CHR 0xE5,
        CHR 0x93, CHR 0x81]),
     (''adminProductKey'', [
        CHR 0xE4, CHR 0xBA, CHR 0xA7, CHR 0xE5, CHR 0x93, CHR 0x81, CHR 0xE6, CHR 0xA0, CHR 0x87, CHR 0xE8,
        CHR 0xAF, CHR 0x86]),
     (''adminProductName'', [
        CHR 0xE4, CHR 0xBA, CHR 0xA7, CHR 0xE5, CHR 0x93, CHR 0x81, CHR 0xE5, CHR 0x90, CHR 0x8D, CHR 0xE7,
        CHR 0xA7, CHR 0xB0]),
     (''adminProductDescription'', [
        CHR 0xE4, CHR 0xBA, CHR 0xA7, CHR 0xE5, CHR 0x93, CHR 0x81, CHR 0xE6, CHR 0x8F, CHR 0x8F, CHR 0xE8,
        CHR 0xBF, CHR 0xB0]),
     (''adminProductNodeType'', [
        CHR 0xE8, CHR 0x8A, CHR 0x82, CHR 0xE7, CHR 0x82, CHR 0xB9, CHR 0xE7, CHR 0xB1, CHR 0xBB, CHR 0xE5,
        CHR 0x9E, CHR 0x8B])]"

definition admin_zh_partb :: "(string \<times> string) list" where
  "admin_zh_partb = [
     (''adminProductAuthType'', [
        CHR 0xE8, CHR 0xAE, CHR 0xA4, CHR 0xE8, CHR 0xAF, CHR 0x81, CHR 0xE6, CHR 0x96, CHR 0xB9, CHR 0xE5,
        CHR 0xBC, CHR 0x8F]),
     (''adminProductProtocolType'', [
        CHR 0xE5, CHR 0x8D, CHR 0x8F, CHR 0xE8, CHR 0xAE, CHR 0xAE, CHR 0xE7, CHR 0xB1, CHR 0xBB, CHR 0xE5,
        CHR 0x9E, CHR 0x8B]),
     (''adminProductStatus'', [CHR 0xE7, CHR 0x8A, CHR 0xB6, CHR 0xE6, CHR 0x80, CHR 0x81]),
     (''adminProductStatusActive'', [CHR 0xE5, CHR 0x90, CHR 0xAF, CHR 0xE7, CHR 0x94, CHR 0xA8]),
     (''adminProductStatusDisabled'', [CHR 0xE5, CHR 0x81, CHR 0x9C, CHR 0xE7, CHR 0x94, CHR 0xA8]),
     (''adminProductNodeDirect'', [
        CHR 0xE7, CHR 0x9B, CHR 0xB4, CHR 0xE8, CHR 0xBF, CHR 0x9E, CHR 0xE8, CHR 0xAE, CHR 0xBE, CHR 0xE5,
        CHR 0xA4, CHR 0x87]),
     (''adminProductNodeGateway'', [
        CHR 0xE7, CHR 0xBD, CHR 0x91, CHR 0xE5, CHR 0x85, CHR 0xB3, CHR 0xE8, CHR 0xAE, CHR 0xBE, CHR 0xE5,
        CHR 0xA4, CHR 0x87]),
     (''adminProductNodeSubDevice'', [
        CHR 0xE7, CHR 0xBD, CHR 0x91, CHR 0xE5, CHR 0x85, CHR 0xB3, CHR 0xE5, CHR 0xAD, CHR 0x90, CHR 0xE8,
        CHR 0xAE, CHR 0xBE, CHR 0xE5, CHR 0xA4, CHR 0x87]),
     (''adminProductAuthSecret'', [
        CHR 0xE4, CHR 0xB8, CHR 0x80, CHR 0xE6, CHR 0x9C, CHR 0xBA, CHR 0xE4, CHR 0xB8, CHR 0x80, CHR 0xE5,
        CHR 0xAF, CHR 0x86]),
     (''adminProductAuthCertificate'', [
        CHR 0xE8, CHR 0xAF, CHR 0x81, CHR 0xE4, CHR 0xB9, CHR 0xA6, CHR 0xE8, CHR 0xAE, CHR 0xA4, CHR 0xE8,
        CHR 0xAF, CHR 0x81]),
     (''adminProductAuthAnonymous'', [
        CHR 0xE5, CHR 0x8C, CHR 0xBF, CHR 0xE5, CHR 0x90, CHR 0x8D, CHR 0xE8, CHR 0xAE, CHR 0xA4, CHR 0xE8,
        CHR 0xAF, CHR 0x81]),
     (''adminProductUpdatedAt'', [
        CHR 0xE6, CHR 0x9B, CHR 0xB4, CHR 0xE6, CHR 0x96, CHR 0xB0, CHR 0xE6, CHR 0x97, CHR 0xB6, CHR 0xE9,
        CHR 0x97, CHR 0xB4]),
     (''adminProductActions'', [CHR 0xE6, CHR 0x93, CHR 0x8D, CHR 0xE4, CHR 0xBD, CHR 0x9C]),
     (''adminProductEdit'', [CHR 0xE7, CHR 0xBC, CHR 0x96, CHR 0xE8, CHR 0xBE, CHR 0x91]),
     (''adminProductDelete'', [CHR 0xE5, CHR 0x88, CHR 0xA0, CHR 0xE9, CHR 0x99, CHR 0xA4]),
     (''adminProductSave'', [CHR 0xE4, CHR 0xBF, CHR 0x9D, CHR 0xE5, CHR 0xAD, CHR 0x98]),
     (''adminProductSaving'', [CHR 0xE4, CHR 0xBF, CHR 0x9D, CHR 0xE5, CHR 0xAD, CHR 0x98, CHR 0xE4, CHR 0xB8, CHR 0xAD]),
     (''adminProductCancel'', [CHR 0xE5, CHR 0x8F, CHR 0x96, CHR 0xE6, CHR 0xB6, CHR 0x88]),
     (''adminProductLoading'', [
        CHR 0xE6, CHR 0xAD, CHR 0xA3, CHR 0xE5, CHR 0x9C, CHR 0xA8, CHR 0xE5, CHR 0x8A, CHR 0xA0, CHR 0xE8,
        CHR 0xBD, CHR 0xBD, CHR 0xE4, CHR 0xBA, CHR 0xA7, CHR 0xE5, CHR 0x93, CHR 0x81, CHR 0x2E, CHR 0x2E,
        CHR 0x2E]),
     (''adminProductEmpty'', [
        CHR 0xE6, CHR 0x9A, CHR 0x82, CHR 0xE6, CHR 0x97, CHR 0xA0, CHR 0xE4, CHR 0xBA, CHR 0xA7, CHR 0xE5,
        CHR 0x93, CHR 0x81]),
     (''adminProductEmptyDescription'', [
        CHR 0xE5, CHR 0x88, CHR 0x9B, CHR 0xE5, CHR 0xBB, CHR 0xBA, CHR 0xE7, CHR 0xAC, CHR 0xAC, CHR 0xE4,
        CHR 0xB8, CHR 0x80, CHR 0xE4, CHR 0xB8, CHR 0xAA, CHR 0xE4, CHR 0xBA, CHR 0xA7, CHR 0xE5, CHR 0x93,
        CHR 0x81, CHR 0xE5, CHR 0x90, CHR 0x8E, CHR 0xEF, CHR 0xBC, CHR 0x8C, CHR 0xE5, CHR 0xAE, CHR 0x83,
        CHR 0xE4, CHR 0xBC, CHR 0x9A, CHR 0xE5, CHR 0x87, CHR 0xBA, CHR 0xE7, CHR 0x8E, CHR 0xB0, CHR 0xE5,
        CHR 0x9C, CHR 0xA8, CHR 0xE8, CHR 0xBF, CHR 0x99, CHR 0xE9, CHR 0x87, CHR 0x8C, CHR 0xE3, CHR 0x80,
        CHR 0x82]),
     (''adminProductPageSize'', [CHR 0xE6, CHR 0xAF, CHR 0x8F, CHR 0xE9, CHR 0xA1, CHR 0xB5]),
     (''adminProductTotal'', [
        CHR 0xE5, CHR 0x85, CHR 0xB1, CHR 0x20, CHR 0x7B, CHR 0x74, CHR 0x6F, CHR 0x74, CHR 0x61, CHR 0x6C,
        CHR 0x7D, CHR 0x20, CHR 0xE4, CHR 0xB8, CHR 0xAA, CHR 0xE4, CHR 0xBA, CHR 0xA7, CHR 0xE5, CHR 0x93,
        CHR 0x81]),
     (''adminProductPage'', [
        CHR 0xE7, CHR 0xAC, CHR 0xAC, CHR 0x20, CHR 0x7B, CHR 0x70, CHR 0x61, CHR 0x67, CHR 0x65, CHR 0x7D,
        CHR 0x20, CHR 0x2F, CHR 0x20, CHR 0x7B, CHR 0x74, CHR 0x6F, CHR 0x74, CHR 0x61, CHR 0x6C, CHR 0x50,
        CHR 0x61, CHR 0x67, CHR 0x65, CHR 0x73, CHR 0x7D, CHR 0x20, CHR 0xE9, CHR 0xA1, CHR 0xB5]),
     (''adminProductJumpTo'', [CHR 0xE8, CHR 0xB7, CHR 0xB3, CHR 0xE8, CHR 0xBD, CHR 0xAC, CHR 0xE5, CHR 0x88, CHR 0xB0]),
     (''adminProductJump'', [CHR 0xE8, CHR 0xB7, CHR 0xB3, CHR 0xE8, CHR 0xBD, CHR 0xAC]),
     (''adminProductPrev'', [CHR 0xE4, CHR 0xB8, CHR 0x8A, CHR 0xE4, CHR 0xB8, CHR 0x80, CHR 0xE9, CHR 0xA1, CHR 0xB5]),
     (''adminProductNext'', [CHR 0xE4, CHR 0xB8, CHR 0x8B, CHR 0xE4, CHR 0xB8, CHR 0x80, CHR 0xE9, CHR 0xA1, CHR 0xB5]),
     (''adminProductLoadFailed'', [
        CHR 0xE4, CHR 0xBA, CHR 0xA7, CHR 0xE5, CHR 0x93, CHR 0x81, CHR 0xE5, CHR 0x8A, CHR 0xA0, CHR 0xE8,
        CHR 0xBD, CHR 0xBD, CHR 0xE5, CHR 0xA4, CHR 0xB1, CHR 0xE8, CHR 0xB4, CHR 0xA5]),
     (''adminProductCreateSuccess'', [
        CHR 0xE4, CHR 0xBA, CHR 0xA7, CHR 0xE5, CHR 0x93, CHR 0x81, CHR 0xE5, CHR 0xB7, CHR 0xB2, CHR 0xE5,
        CHR 0x88, CHR 0x9B, CHR 0xE5, CHR 0xBB, CHR 0xBA]),
     (''adminProductCreateFailed'', [
        CHR 0xE5, CHR 0x88, CHR 0x9B, CHR 0xE5, CHR 0xBB, CHR 0xBA, CHR 0xE4, CHR 0xBA, CHR 0xA7, CHR 0xE5,
        CHR 0x93, CHR 0x81, CHR 0xE5, CHR 0xA4, CHR 0xB1, CHR 0xE8, CHR 0xB4, CHR 0xA5]),
     (''adminProductUpdateSuccess'', [
        CHR 0xE4, CHR 0xBA, CHR 0xA7, CHR 0xE5, CHR 0x93, CHR 0x81, CHR 0xE5, CHR 0xB7, CHR 0xB2, CHR 0xE6,
        CHR 0x9B, CHR 0xB4, CHR 0xE6, CHR 0x96, CHR 0xB0]),
     (''adminProductUpdateFailed'', [
        CHR 0xE6, CHR 0x9B, CHR 0xB4, CHR 0xE6, CHR 0x96, CHR 0xB0, CHR 0xE4, CHR 0xBA, CHR 0xA7, CHR 0xE5,
        CHR 0x93, CHR 0x81, CHR 0xE5, CHR 0xA4, CHR 0xB1, CHR 0xE8, CHR 0xB4, CHR 0xA5]),
     (''adminProductDeleteSuccess'', [
        CHR 0xE4, CHR 0xBA, CHR 0xA7, CHR 0xE5, CHR 0x93, CHR 0x81, CHR 0xE5, CHR 0xB7, CHR 0xB2, CHR 0xE5,
        CHR 0x88, CHR 0xA0, CHR 0xE9, CHR 0x99, CHR 0xA4]),
     (''adminProductDeleteFailed'', [
        CHR 0xE5, CHR 0x88, CHR 0xA0, CHR 0xE9, CHR 0x99, CHR 0xA4, CHR 0xE4, CHR 0xBA, CHR 0xA7, CHR 0xE5,
        CHR 0x93, CHR 0x81, CHR 0xE5, CHR 0xA4, CHR 0xB1, CHR 0xE8, CHR 0xB4, CHR 0xA5]),
     (''adminProductDeleteConfirm'', [
        CHR 0xE7, CHR 0xA1, CHR 0xAE, CHR 0xE8, CHR 0xAE, CHR 0xA4, CHR 0xE5, CHR 0x88, CHR 0xA0, CHR 0xE9,
        CHR 0x99, CHR 0xA4, CHR 0xE8, CHR 0xBF, CHR 0x99, CHR 0xE4, CHR 0xB8, CHR 0xAA, CHR 0xE4, CHR 0xBA,
        CHR 0xA7, CHR 0xE5, CHR 0x93, CHR 0x81, CHR 0xEF, CHR 0xBC, CHR 0x9F]),
     (''adminThingsModelCreate'', [
        CHR 0xE6, CHR 0x96, CHR 0xB0, CHR 0xE5, CHR 0xBB, CHR 0xBA, CHR 0xE7, CHR 0x89, CHR 0xA9, CHR 0xE6,
        CHR 0xA8, CHR 0xA1, CHR 0xE5, CHR 0x9E, CHR 0x8B]),
     (''adminThingsModelCreateTitle'', [
        CHR 0xE6, CHR 0x96, CHR 0xB0, CHR 0xE5, CHR 0xBB, CHR 0xBA, CHR 0xE7, CHR 0x89, CHR 0xA9, CHR 0xE6,
        CHR 0xA8, CHR 0xA1, CHR 0xE5, CHR 0x9E, CHR 0x8B]),
     (''adminThingsModelEditTitle'', [
        CHR 0xE7, CHR 0xBC, CHR 0x96, CHR 0xE8, CHR 0xBE, CHR 0x91, CHR 0xE7, CHR 0x89, CHR 0xA9, CHR 0xE6,
        CHR 0xA8, CHR 0xA1, CHR 0xE5, CHR 0x9E, CHR 0x8B]),
     (''adminThingsModelName'', [
        CHR 0xE6, CHR 0xA8, CHR 0xA1, CHR 0xE5, CHR 0x9E, CHR 0x8B, CHR 0xE5, CHR 0x90, CHR 0x8D, CHR 0xE7,
        CHR 0xA7, CHR 0xB0]),
     (''adminThingsModelVersion'', [
        CHR 0xE6, CHR 0xA8, CHR 0xA1, CHR 0xE5, CHR 0x9E, CHR 0x8B, CHR 0xE7, CHR 0x89, CHR 0x88, CHR 0xE6,
        CHR 0x9C, CHR 0xAC]),
     (''adminThingsModelDescription'', [
        CHR 0xE6, CHR 0xA8, CHR 0xA1, CHR 0xE5, CHR 0x9E, CHR 0x8B, CHR 0xE6, CHR 0x8F, CHR 0x8F, CHR 0xE8,
        CHR 0xBF, CHR 0xB0]),
     (''adminThingsModelStatus'', [CHR 0xE7, CHR 0x8A, CHR 0xB6, CHR 0xE6, CHR 0x80, CHR 0x81]),
     (''adminThingsModelStatusDraft'', [CHR 0xE8, CHR 0x8D, CHR 0x89, CHR 0xE7, CHR 0xA8, CHR 0xBF]),
     (''adminThingsModelStatusPublished'', [CHR 0xE5, CHR 0xB7, CHR 0xB2, CHR 0xE5, CHR 0x8F, CHR 0x91, CHR 0xE5, CHR 0xB8, CHR 0x83]),
     (''adminThingsModelStatusDeprecated'', [CHR 0xE5, CHR 0xB7, CHR 0xB2, CHR 0xE5, CHR 0xBA, CHR 0x9F, CHR 0xE5, CHR 0xBC, CHR 0x83]),
     (''adminThingsModelCurrent'', [
        CHR 0xE5, CHR 0xBD, CHR 0x93, CHR 0xE5, CHR 0x89, CHR 0x8D, CHR 0xE6, CHR 0xA8, CHR 0xA1, CHR 0xE5,
        CHR 0x9E, CHR 0x8B]),
     (''adminThingsModelCurrentYes'', [CHR 0xE6, CHR 0x98, CHR 0xAF]),
     (''adminThingsModelCurrentNo'', [CHR 0xE5, CHR 0x90, CHR 0xA6]),
     (''adminThingsModelProperties'', [
        CHR 0xE5, CHR 0xB1, CHR 0x9E, CHR 0xE6, CHR 0x80, CHR 0xA7, CHR 0x20, CHR 0x4A, CHR 0x53, CHR 0x4F,
        CHR 0x4E]),
     (''adminThingsModelEvents'', [
        CHR 0xE4, CHR 0xBA, CHR 0x8B, CHR 0xE4, CHR 0xBB, CHR 0xB6, CHR 0x20, CHR 0x4A, CHR 0x53, CHR 0x4F,
        CHR 0x4E]),
     (''adminThingsModelServices'', [
        CHR 0xE6, CHR 0x9C, CHR 0x8D, CHR 0xE5, CHR 0x8A, CHR 0xA1, CHR 0x20, CHR 0x4A, CHR 0x53, CHR 0x4F,
        CHR 0x4E]),
     (''adminThingsModelSchema'', [
        CHR 0xE6, CHR 0xA8, CHR 0xA1, CHR 0xE5, CHR 0x9E, CHR 0x8B, CHR 0xE5, CHR 0x86, CHR 0x85, CHR 0xE5,
        CHR 0xAE, CHR 0xB9]),
     (''adminThingsModelSchemaSummary'', [
        CHR 0xE5, CHR 0xB1, CHR 0x9E, CHR 0xE6, CHR 0x80, CHR 0xA7, CHR 0x20, CHR 0x7B, CHR 0x70, CHR 0x72,
        CHR 0x6F, CHR 0x70, CHR 0x65, CHR 0x72, CHR 0x74, CHR 0x69, CHR 0x65, CHR 0x73, CHR 0x7D, CHR 0x20,
        CHR 0x2F, CHR 0x20, CHR 0xE4, CHR 0xBA, CHR 0x8B, CHR 0xE4, CHR 0xBB, CHR 0xB6, CHR 0x20, CHR 0x7B,
        CHR 0x65, CHR 0x76, CHR 0x65, CHR 0x6E, CHR 0x74, CHR 0x73, CHR 0x7D, CHR 0x20, CHR 0x2F, CHR 0x20,
        CHR 0xE6, CHR 0x9C, CHR 0x8D, CHR 0xE5, CHR 0x8A, CHR 0xA1, CHR 0x20, CHR 0x7B, CHR 0x73, CHR 0x65,
        CHR 0x72, CHR 0x76, CHR 0x69, CHR 0x63, CHR 0x65, CHR 0x73, CHR 0x7D]),
     (''adminThingsModelUnknownProduct'', [
        CHR 0xE6, CHR 0x9C, CHR 0xAA, CHR 0xE7, CHR 0x9F, CHR 0xA5, CHR 0xE4, CHR 0xBA, CHR 0xA7, CHR 0xE5,
        CHR 0x93, CHR 0x81]),
     (''adminThingsModelAllProducts'', [
        CHR 0xE5, CHR 0x85, CHR 0xA8, CHR 0xE9, CHR 0x83, CHR 0xA8, CHR 0xE4, CHR 0xBA, CHR 0xA7, CHR 0xE5,
        CHR 0x93, CHR 0x81]),
     (''adminThingsModelUpdatedAt'', [
        CHR 0xE6, CHR 0x9B, CHR 0xB4, CHR 0xE6, CHR 0x96, CHR 0xB0, CHR 0xE6, CHR 0x97, CHR 0xB6, CHR 0xE9,
        CHR 0x97, CHR 0xB4]),
     (''adminThingsModelActions'', [CHR 0xE6, CHR 0x93, CHR 0x8D, CHR 0xE4, CHR 0xBD, CHR 0x9C]),
     (''adminThingsModelEdit'', [CHR 0xE7, CHR 0xBC, CHR 0x96, CHR 0xE8, CHR 0xBE, CHR 0x91]),
     (''adminThingsModelDelete'', [CHR 0xE5, CHR 0x88, CHR 0xA0, CHR 0xE9, CHR 0x99, CHR 0xA4]),
     (''adminThingsModelSave'', [CHR 0xE4, CHR 0xBF, CHR 0x9D, CHR 0xE5, CHR 0xAD, CHR 0x98]),
     (''adminThingsModelSaving'', [CHR 0xE4, CHR 0xBF, CHR 0x9D, CHR 0xE5, CHR 0xAD, CHR 0x98, CHR 0xE4, CHR 0xB8, CHR 0xAD]),
     (''adminThingsModelCancel'', [CHR 0xE5, CHR 0x8F, CHR 0x96, CHR 0xE6, CHR 0xB6, CHR 0x88]),
     (''adminThingsModelLoading'', [
        CHR 0xE6, CHR 0xAD, CHR 0xA3, CHR 0xE5, CHR 0x9C, CHR 0xA8, CHR 0xE5, CHR 0x8A, CHR 0xA0, CHR 0xE8,
        CHR 0xBD, CHR 0xBD, CHR 0xE7, CHR 0x89, CHR 0xA9, CHR 0xE6, CHR 0xA8, CHR 0xA1, CHR 0xE5, CHR 0x9E,
        CHR 0x8B, CHR 0x2E, CHR 0x2E, CHR 0x2E]),
     (''adminThingsModelEmpty'', [
        CHR 0xE6, CHR 0x9A, CHR 0x82, CHR 0xE6, CHR 0x97, CHR 0xA0, CHR 0xE7, CHR 0x89, CHR 0xA9, CHR 0xE6,
        CHR 0xA8, CHR 0xA1, CHR 0xE5, CHR 0x9E, CHR 0x8B]),
     (''adminThingsModelEmptyDescription'', [
        CHR 0xE5, CHR 0x88, CHR 0x9B, CHR 0xE5, CHR 0xBB, CHR 0xBA, CHR 0xE7, CHR 0xAC, CHR 0xAC, CHR 0xE4,
        CHR 0xB8, CHR 0x80, CHR 0xE4, CHR 0xB8, CHR 0xAA, CHR 0xE4, CHR 0xBA, CHR 0xA7, CHR 0xE5, CHR 0x93,
        CHR 0x81, CHR 0xE7, CHR 0x89, CHR 0xA9, CHR 0xE6, CHR 0xA8, CHR 0xA1, CHR 0xE5, CHR 0x9E, CHR 0x8B,
        CHR 0xE5, CHR 0x90, CHR 0x8E, CHR 0xEF, CHR 0xBC, CHR 0x8C, CHR 0xE5, CHR 0xAE, CHR 0x83, CHR 0xE4,
        CHR 0xBC, CHR 0x9A, CHR 0xE5, CHR 0x87, CHR 0xBA, CHR 0xE7, CHR 0x8E, CHR 0xB0, CHR 0xE5, CHR 0x9C,
        CHR 0xA8, CHR 0xE8, CHR 0xBF, CHR 0x99, CHR 0xE9, CHR 0x87, CHR 0x8C, CHR 0xE3, CHR 0x80, CHR 0x82]),
     (''adminThingsModelPageSize'', [CHR 0xE6, CHR 0xAF, CHR 0x8F, CHR 0xE9, CHR 0xA1, CHR 0xB5]),
     (''adminThingsModelTotal'', [
        CHR 0xE5, CHR 0x85, CHR 0xB1, CHR 0x20, CHR 0x7B, CHR 0x74, CHR 0x6F, CHR 0x74, CHR 0x61, CHR 0x6C,
        CHR 0x7D, CHR 0x20, CHR 0xE4, CHR 0xB8, CHR 0xAA, CHR 0xE7, CHR 0x89, CHR 0xA9, CHR 0xE6, CHR 0xA8,
        CHR 0xA1, CHR 0xE5, CHR 0x9E, CHR 0x8B]),
     (''adminThingsModelPage'', [
        CHR 0xE7, CHR 0xAC, CHR 0xAC, CHR 0x20, CHR 0x7B, CHR 0x70, CHR 0x61, CHR 0x67, CHR 0x65, CHR 0x7D,
        CHR 0x20, CHR 0x2F, CHR 0x20, CHR 0x7B, CHR 0x74, CHR 0x6F, CHR 0x74, CHR 0x61, CHR 0x6C, CHR 0x50,
        CHR 0x61, CHR 0x67, CHR 0x65, CHR 0x73, CHR 0x7D, CHR 0x20, CHR 0xE9, CHR 0xA1, CHR 0xB5]),
     (''adminThingsModelJumpTo'', [CHR 0xE8, CHR 0xB7, CHR 0xB3, CHR 0xE8, CHR 0xBD, CHR 0xAC, CHR 0xE5, CHR 0x88, CHR 0xB0]),
     (''adminThingsModelJump'', [CHR 0xE8, CHR 0xB7, CHR 0xB3, CHR 0xE8, CHR 0xBD, CHR 0xAC]),
     (''adminThingsModelPrev'', [CHR 0xE4, CHR 0xB8, CHR 0x8A, CHR 0xE4, CHR 0xB8, CHR 0x80, CHR 0xE9, CHR 0xA1, CHR 0xB5]),
     (''adminThingsModelNext'', [CHR 0xE4, CHR 0xB8, CHR 0x8B, CHR 0xE4, CHR 0xB8, CHR 0x80, CHR 0xE9, CHR 0xA1, CHR 0xB5]),
     (''adminThingsModelLoadFailed'', [
        CHR 0xE7, CHR 0x89, CHR 0xA9, CHR 0xE6, CHR 0xA8, CHR 0xA1, CHR 0xE5, CHR 0x9E, CHR 0x8B, CHR 0xE5,
        CHR 0x8A, CHR 0xA0, CHR 0xE8, CHR 0xBD, CHR 0xBD, CHR 0xE5, CHR 0xA4, CHR 0xB1, CHR 0xE8, CHR 0xB4,
        CHR 0xA5]),
     (''adminThingsModelCreateSuccess'', [
        CHR 0xE7, CHR 0x89, CHR 0xA9, CHR 0xE6, CHR 0xA8, CHR 0xA1, CHR 0xE5, CHR 0x9E, CHR 0x8B, CHR 0xE5,
        CHR 0xB7, CHR 0xB2, CHR 0xE5, CHR 0x88, CHR 0x9B, CHR 0xE5, CHR 0xBB, CHR 0xBA]),
     (''adminThingsModelCreateFailed'', [
        CHR 0xE5, CHR 0x88, CHR 0x9B, CHR 0xE5, CHR 0xBB, CHR 0xBA, CHR 0xE7, CHR 0x89, CHR 0xA9, CHR 0xE6,
        CHR 0xA8, CHR 0xA1, CHR 0xE5, CHR 0x9E, CHR 0x8B, CHR 0xE5, CHR 0xA4, CHR 0xB1, CHR 0xE8, CHR 0xB4,
        CHR 0xA5]),
     (''adminThingsModelUpdateSuccess'', [
        CHR 0xE7, CHR 0x89, CHR 0xA9, CHR 0xE6, CHR 0xA8, CHR 0xA1, CHR 0xE5, CHR 0x9E, CHR 0x8B, CHR 0xE5,
        CHR 0xB7, CHR 0xB2, CHR 0xE6, CHR 0x9B, CHR 0xB4, CHR 0xE6, CHR 0x96, CHR 0xB0]),
     (''adminThingsModelUpdateFailed'', [
        CHR 0xE6, CHR 0x9B, CHR 0xB4, CHR 0xE6, CHR 0x96, CHR 0xB0, CHR 0xE7, CHR 0x89, CHR 0xA9, CHR 0xE6,
        CHR 0xA8, CHR 0xA1, CHR 0xE5, CHR 0x9E, CHR 0x8B, CHR 0xE5, CHR 0xA4, CHR 0xB1, CHR 0xE8, CHR 0xB4,
        CHR 0xA5]),
     (''adminThingsModelDeleteSuccess'', [
        CHR 0xE7, CHR 0x89, CHR 0xA9, CHR 0xE6, CHR 0xA8, CHR 0xA1, CHR 0xE5, CHR 0x9E, CHR 0x8B, CHR 0xE5,
        CHR 0xB7, CHR 0xB2, CHR 0xE5, CHR 0x88, CHR 0xA0, CHR 0xE9, CHR 0x99, CHR 0xA4]),
     (''adminThingsModelDeleteFailed'', [
        CHR 0xE5, CHR 0x88, CHR 0xA0, CHR 0xE9, CHR 0x99, CHR 0xA4, CHR 0xE7, CHR 0x89, CHR 0xA9, CHR 0xE6,
        CHR 0xA8, CHR 0xA1, CHR 0xE5, CHR 0x9E, CHR 0x8B, CHR 0xE5, CHR 0xA4, CHR 0xB1, CHR 0xE8, CHR 0xB4,
        CHR 0xA5]),
     (''adminThingsModelDeleteConfirm'', [
        CHR 0xE7, CHR 0xA1, CHR 0xAE, CHR 0xE8, CHR 0xAE, CHR 0xA4, CHR 0xE5, CHR 0x88, CHR 0xA0, CHR 0xE9,
        CHR 0x99, CHR 0xA4, CHR 0xE8, CHR 0xBF, CHR 0x99, CHR 0xE4, CHR 0xB8, CHR 0xAA, CHR 0xE7, CHR 0x89,
        CHR 0xA9, CHR 0xE6, CHR 0xA8, CHR 0xA1, CHR 0xE5, CHR 0x9E, CHR 0x8B, CHR 0xEF, CHR 0xBC, CHR 0x9F]),
     (''adminThingsModelJSONInvalid'', [
        CHR 0x4A, CHR 0x53, CHR 0x4F, CHR 0x4E, CHR 0x20, CHR 0xE5, CHR 0xBF, CHR 0x85, CHR 0xE9, CHR 0xA1,
        CHR 0xBB, CHR 0xE6, CHR 0x98, CHR 0xAF, CHR 0xE5, CHR 0x90, CHR 0x88, CHR 0xE6, CHR 0xB3, CHR 0x95,
        CHR 0xE5, CHR 0xAF, CHR 0xB9, CHR 0xE8, CHR 0xB1, CHR 0xA1]),
     (''adminThingsModelDefinitionTabs'', [
        CHR 0xE7, CHR 0x89, CHR 0xA9, CHR 0xE6, CHR 0xA8, CHR 0xA1, CHR 0xE5, CHR 0x9E, CHR 0x8B, CHR 0xE5,
        CHR 0xAE, CHR 0x9A, CHR 0xE4, CHR 0xB9, CHR 0x89, CHR 0xE7, CHR 0xB1, CHR 0xBB, CHR 0xE5, CHR 0x9E,
        CHR 0x8B]),
     (''adminThingsModelPropertiesTab'', [CHR 0xE5, CHR 0xB1, CHR 0x9E, CHR 0xE6, CHR 0x80, CHR 0xA7]),
     (''adminThingsModelEventsTab'', [CHR 0xE4, CHR 0xBA, CHR 0x8B, CHR 0xE4, CHR 0xBB, CHR 0xB6]),
     (''adminThingsModelServicesTab'', [CHR 0xE6, CHR 0x9C, CHR 0x8D, CHR 0xE5, CHR 0x8A, CHR 0xA1]),
     (''adminThingsModelPropertiesTip'', [
        CHR 0xE5, CHR 0xB1, CHR 0x9E, CHR 0xE6, CHR 0x80, CHR 0xA7, CHR 0xE6, CHR 0x98, CHR 0xAF, CHR 0xE8,
        CHR 0xAE, CHR 0xBE, CHR 0xE5, CHR 0xA4, CHR 0x87, CHR 0xE4, CHR 0xBC, CHR 0x9A, CHR 0xE4, CHR 0xB8,
        CHR 0x8A, CHR 0xE6, CHR 0x8A, CHR 0xA5, CHR 0xE6, CHR 0x88, CHR 0x96, CHR 0xE8, CHR 0xA2, CHR 0xAB,
        CHR 0xE5, CHR 0xB9, CHR 0xB3, CHR 0xE5, CHR 0x8F, CHR 0xB0, CHR 0xE8, CHR 0xAE, CHR 0xBE, CHR 0xE7,
        CHR 0xBD, CHR 0xAE, CHR 0xE7, CHR 0x9A, CHR 0x84, CHR 0xE7, CHR 0x8A, CHR 0xB6, CHR 0xE6, CHR 0x80,
        CHR 0x81, CHR 0xE5, CHR 0x80, CHR 0xBC, CHR 0xEF, CHR 0xBC, CHR 0x8C, CHR 0xE4, CHR 0xBE, CHR 0x8B,
        CHR 0xE5, CHR 0xA6, CHR 0x82, CHR 0xE6, CHR 0xB8, CHR 0xA9, CHR 0xE5, CHR 0xBA, CHR 0xA6, CHR 0xE3,
        CHR 0x80, CHR 0x81, CHR 0xE7, CHR 0x94, CHR 0xB5, CHR 0xE9, CHR 0x87, CHR 0x8F, CHR 0xE3, CHR 0x80,
        CHR 0x81, CHR 0xE5, CHR 0xBC, CHR 0x80, CHR 0xE5, CHR 0x85, CHR 0xB3, CHR 0xE7, CHR 0x8A, CHR 0xB6,
        CHR 0xE6, CHR 0x80, CHR 0x81, CHR 0xE3, CHR 0x80, CHR 0x82, CHR 0xE5, CHR 0x85, CHR 0x88, CHR 0xE7,
        CHR 0x94, CHR 0xA8, CHR 0xE8, CHR 0xA1, CHR 0xA8, CHR 0xE5, CHR 0x8D, CHR 0x95, CHR 0xE6, CHR 0xB7,
        CHR 0xBB, CHR 0xE5, CHR 0x8A, CHR 0xA0, CHR 0xE5, CHR 0xB1, CHR 0x9E, CHR 0xE6, CHR 0x80, CHR 0xA7,
        CHR 0xEF, CHR 0xBC, CHR 0x8C, CHR 0xE4, CHR 0xB8, CHR 0x8B, CHR 0xE9, CHR 0x9D, CHR 0xA2, CHR 0xE7,
        CHR 0x9A, CHR 0x84, CHR 0x20, CHR 0x4A, CHR 0x53, CHR 0x4F, CHR 0x4E, CHR 0x20, CHR 0xE4, CHR 0xBC,
        CHR 0x9A, CHR 0xE8, CHR 0x87, CHR 0xAA, CHR 0xE5, CHR 0x8A, CHR 0xA8, CHR 0xE7, CHR 0x94, CHR 0x9F,
        CHR 0xE6, CHR 0x88, CHR 0x90, CHR 0xE3, CHR 0x80, CHR 0x82]),
     (''adminThingsModelEventsTip'', [
        CHR 0xE4, CHR 0xBA, CHR 0x8B, CHR 0xE4, CHR 0xBB, CHR 0xB6, CHR 0xE6, CHR 0x98, CHR 0xAF, CHR 0xE8,
        CHR 0xAE, CHR 0xBE, CHR 0xE5, CHR 0xA4, CHR 0x87, CHR 0xE4, CHR 0xB8, CHR 0xBB, CHR 0xE5, CHR 0x8A,
        CHR 0xA8, CHR 0xE4, CHR 0xB8, CHR 0x8A, CHR 0xE6, CHR 0x8A, CHR 0xA5, CHR 0xE7, CHR 0x9A, CHR 0x84,
        CHR 0xE4, CHR 0xB8, CHR 0x80, CHR 0xE6, CHR 0xAC, CHR 0xA1, CHR 0xE6, CHR 0x80, CHR 0xA7, CHR 0xE4,
        CHR 0xB8, CHR 0x9A, CHR 0xE5, CHR 0x8A, CHR 0xA1, CHR 0xE6, CHR 0xB6, CHR 0x88, CHR 0xE6, CHR 0x81,
        CHR 0xAF, CHR 0xEF, CHR 0xBC, CHR 0x8C, CHR 0xE4, CHR 0xBE, CHR 0x8B, CHR 0xE5, CHR 0xA6, CHR 0x82,
        CHR 0xE8, CHR 0xBF, CHR 0x87, CHR 0xE7, CHR 0x83, CHR 0xAD, CHR 0xE5, CHR 0x91, CHR 0x8A, CHR 0xE8,
        CHR 0xAD, CHR 0xA6, CHR 0xE3, CHR 0x80, CHR 0x81, CHR 0xE4, CHR 0xBD, CHR 0x8E, CHR 0xE7, CHR 0x94,
        CHR 0xB5, CHR 0xE9, CHR 0x87, CHR 0x8F, CHR 0xE5, CHR 0x91, CHR 0x8A, CHR 0xE8, CHR 0xAD, CHR 0xA6,
        CHR 0xE3, CHR 0x80, CHR 0x81, CHR 0xE6, CHR 0x8C, CHR 0x89, CHR 0xE9, CHR 0x94, CHR 0xAE, CHR 0xE8,
        CHR 0xA7, CHR 0xA6, CHR 0xE5, CHR 0x8F, CHR 0x91, CHR 0xE3, CHR 0x80, CHR 0x82, CHR 0xE5, CHR 0x85,
        CHR 0x88, CHR 0xE7, CHR 0x94, CHR 0xA8, CHR 0xE8, CHR 0xA1, CHR 0xA8, CHR 0xE5, CHR 0x8D, CHR 0x95,
        CHR 0xE6, CHR 0xB7, CHR 0xBB, CHR 0xE5, CHR 0x8A, CHR 0xA0, CHR 0xE4, CHR 0xBA, CHR 0x8B, CHR 0xE4,
        CHR 0xBB, CHR 0xB6, CHR 0xEF, CHR 0xBC, CHR 0x8C, CHR 0xE4, CHR 0xB8, CHR 0x8B, CHR 0xE9, CHR 0x9D,
        CHR 0xA2, CHR 0xE7, CHR 0x9A, CHR 0x84, CHR 0x20, CHR 0x4A, CHR 0x53, CHR 0x4F, CHR 0x4E, CHR 0x20,
        CHR 0xE4, CHR 0xBC, CHR 0x9A, CHR 0xE8, CHR 0x87, CHR 0xAA, CHR 0xE5, CHR 0x8A, CHR 0xA8, CHR 0xE7,
        CHR 0x94, CHR 0x9F, CHR 0xE6, CHR 0x88, CHR 0x90, CHR 0xE3, CHR 0x80, CHR 0x82]),
     (''adminThingsModelServicesTip'', [
        CHR 0xE6, CHR 0x9C, CHR 0x8D, CHR 0xE5, CHR 0x8A, CHR 0xA1, CHR 0xE6, CHR 0x98, CHR 0xAF, CHR 0xE5,
        CHR 0xB9, CHR 0xB3, CHR 0xE5, CHR 0x8F, CHR 0xB0, CHR 0xE5, CHR 0x8F, CHR 0xAF, CHR 0xE4, CHR 0xBB,
        CHR 0xA5, CHR 0xE8, CHR 0xB0, CHR 0x83, CHR 0xE7, CHR 0x94, CHR 0xA8, CHR 0xE8, CHR 0xAE, CHR 0xBE,
        CHR 0xE5, CHR 0xA4, CHR 0x87, CHR 0xE6, CHR 0x89, CHR 0xA7, CHR 0xE8, CHR 0xA1, CHR 0x8C, CHR 0xE7,
        CHR 0x9A, CHR 0x84, CHR 0xE5, CHR 0x8A, CHR 0xA8, CHR 0xE4, CHR 0xBD, CHR 0x9C, CHR 0xEF, CHR 0xBC,
        CHR 0x8C, CHR 0xE4, CHR 0xBE, CHR 0x8B, CHR 0xE5, CHR 0xA6, CHR 0x82, CHR 0xE9, CHR 0x87, CHR 0x8D,
        CHR 0xE5, CHR 0x90, CHR 0xAF, CHR 0xE3, CHR 0x80, CHR 0x81, CHR 0xE6, CHR 0xA0, CHR 0xA1, CHR 0xE5,
        CHR 0x87, CHR 0x86, CHR 0xE3, CHR 0x80, CHR 0x81, CHR 0xE5, CHR 0x88, CHR 0x87, CHR 0xE6, CHR 0x8D,
        CHR 0xA2, CHR 0xE5, CHR 0xB7, CHR 0xA5, CHR 0xE4, CHR 0xBD, CHR 0x9C, CHR 0xE6, CHR 0xA8, CHR 0xA1,
        CHR 0xE5, CHR 0xBC, CHR 0x8F, CHR 0xE3, CHR 0x80, CHR 0x82, CHR 0xE5, CHR 0x85, CHR 0x88, CHR 0xE7,
        CHR 0x94, CHR 0xA8, CHR 0xE8, CHR 0xA1, CHR 0xA8, CHR 0xE5, CHR 0x8D, CHR 0x95, CHR 0xE6, CHR 0xB7,
        CHR 0xBB, CHR 0xE5, CHR 0x8A, CHR 0xA0, CHR 0xE6, CHR 0x9C, CHR 0x8D, CHR 0xE5, CHR 0x8A, CHR 0xA1,
        CHR 0xEF, CHR 0xBC, CHR 0x8C, CHR 0xE4, CHR 0xB8, CHR 0x8B, CHR 0xE9, CHR 0x9D, CHR 0xA2, CHR 0xE7,
        CHR 0x9A, CHR 0x84, CHR 0x20, CHR 0x4A, CHR 0x53, CHR 0x4F, CHR 0x4E, CHR 0x20, CHR 0xE4, CHR 0xBC,
        CHR 0x9A, CHR 0xE8, CHR 0x87, CHR 0xAA, CHR 0xE5, CHR 0x8A, CHR 0xA8, CHR 0xE7, CHR 0x94, CHR 0x9F,
        CHR 0xE6, CHR 0x88, CHR 0x90, CHR 0xE3, CHR 0x80, CHR 0x82]),
     (''adminThingsModelIdentifier'', [CHR 0xE6, CHR 0xA0, CHR 0x87, CHR 0xE8, CHR 0xAF, CHR 0x86, CHR 0xE7, CHR 0xAC, CHR 0xA6]),
     (''adminThingsModelDisplayName'', [
        CHR 0xE6, CHR 0x98, CHR 0xBE, CHR 0xE7, CHR 0xA4, CHR 0xBA, CHR 0xE5, CHR 0x90, CHR 0x8D, CHR 0xE7,
        CHR 0xA7, CHR 0xB0]),
     (''adminThingsModelDescriptionField'', [CHR 0xE6, CHR 0x8F, CHR 0x8F, CHR 0xE8, CHR 0xBF, CHR 0xB0]),
     (''adminThingsModelParamIdentifier'', [
        CHR 0xE5, CHR 0x8F, CHR 0x82, CHR 0xE6, CHR 0x95, CHR 0xB0, CHR 0xE6, CHR 0xA0, CHR 0x87, CHR 0xE8,
        CHR 0xAF, CHR 0x86, CHR 0xE7, CHR 0xAC, CHR 0xA6]),
     (''adminThingsModelParamName'', [
        CHR 0xE5, CHR 0x8F, CHR 0x82, CHR 0xE6, CHR 0x95, CHR 0xB0, CHR 0xE5, CHR 0x90, CHR 0x8D, CHR 0xE7,
        CHR 0xA7, CHR 0xB0]),
     (''adminThingsModelDataType'', [
        CHR 0xE6, CHR 0x95, CHR 0xB0, CHR 0xE6, CHR 0x8D, CHR 0xAE, CHR 0xE7, CHR 0xB1, CHR 0xBB, CHR 0xE5,
        CHR 0x9E, CHR 0x8B]),
     (''adminThingsModelAccessMode'', [
        CHR 0xE8, CHR 0xAF, CHR 0xBB, CHR 0xE5, CHR 0x86, CHR 0x99, CHR 0xE6, CHR 0x96, CHR 0xB9, CHR 0xE5,
        CHR 0xBC, CHR 0x8F]),
     (''adminThingsModelAccessRead'', [CHR 0xE5, CHR 0x8F, CHR 0xAA, CHR 0xE8, CHR 0xAF, CHR 0xBB]),
     (''adminThingsModelAccessWrite'', [CHR 0xE5, CHR 0x8F, CHR 0xAA, CHR 0xE5, CHR 0x86, CHR 0x99]),
     (''adminThingsModelAccessReadWrite'', [CHR 0xE8, CHR 0xAF, CHR 0xBB, CHR 0xE5, CHR 0x86, CHR 0x99]),
     (''adminThingsModelRequired'', [CHR 0xE5, CHR 0xBF, CHR 0x85, CHR 0xE5, CHR 0xA1, CHR 0xAB]),
     (''adminThingsModelSpecMin'', [CHR 0xE6, CHR 0x9C, CHR 0x80, CHR 0xE5, CHR 0xB0, CHR 0x8F, CHR 0xE5, CHR 0x80, CHR 0xBC]),
     (''adminThingsModelSpecMax'', [CHR 0xE6, CHR 0x9C, CHR 0x80, CHR 0xE5, CHR 0xA4, CHR 0xA7, CHR 0xE5, CHR 0x80, CHR 0xBC]),
     (''adminThingsModelSpecStep'', [CHR 0xE6, CHR 0xAD, CHR 0xA5, CHR 0xE9, CHR 0x95, CHR 0xBF]),
     (''adminThingsModelSpecUnit'', [CHR 0xE5, CHR 0x8D, CHR 0x95, CHR 0xE4, CHR 0xBD, CHR 0x8D]),
     (''adminThingsModelSpecPrecision'', [
        CHR 0xE6, CHR 0x98, CHR 0xBE, CHR 0xE7, CHR 0xA4, CHR 0xBA, CHR 0xE7, CHR 0xB2, CHR 0xBE, CHR 0xE5,
        CHR 0xBA, CHR 0xA6]),
     (''adminThingsModelEventLevel'', [
        CHR 0xE4, CHR 0xBA, CHR 0x8B, CHR 0xE4, CHR 0xBB, CHR 0xB6, CHR 0xE7, CHR 0xBA, CHR 0xA7, CHR 0xE5,
        CHR 0x88, CHR 0xAB]),
     (''adminThingsModelCallType'', [
        CHR 0xE8, CHR 0xB0, CHR 0x83, CHR 0xE7, CHR 0x94, CHR 0xA8, CHR 0xE6, CHR 0x96, CHR 0xB9, CHR 0xE5,
        CHR 0xBC, CHR 0x8F]),
     (''adminThingsModelEventOutput'', [
        CHR 0xE4, CHR 0xBA, CHR 0x8B, CHR 0xE4, CHR 0xBB, CHR 0xB6, CHR 0xE8, CHR 0xBE, CHR 0x93, CHR 0xE5,
        CHR 0x87, CHR 0xBA, CHR 0xE5, CHR 0x8F, CHR 0x82, CHR 0xE6, CHR 0x95, CHR 0xB0]),
     (''adminThingsModelServiceInput'', [
        CHR 0xE6, CHR 0x9C, CHR 0x8D, CHR 0xE5, CHR 0x8A, CHR 0xA1, CHR 0xE8, CHR 0xBE, CHR 0x93, CHR 0xE5,
        CHR 0x85, CHR 0xA5, CHR 0xE5, CHR 0x8F, CHR 0x82, CHR 0xE6, CHR 0x95, CHR 0xB0]),
     (''adminThingsModelServiceOutput'', [
        CHR 0xE6, CHR 0x9C, CHR 0x8D, CHR 0xE5, CHR 0x8A, CHR 0xA1, CHR 0xE8, CHR 0xBE, CHR 0x93, CHR 0xE5,
        CHR 0x87, CHR 0xBA, CHR 0xE5, CHR 0x8F, CHR 0x82, CHR 0xE6, CHR 0x95, CHR 0xB0]),
     (''adminThingsModelAddProperty'', [
        CHR 0xE6, CHR 0xB7, CHR 0xBB, CHR 0xE5, CHR 0x8A, CHR 0xA0, CHR 0xE5, CHR 0xB1, CHR 0x9E, CHR 0xE6,
        CHR 0x80, CHR 0xA7]),
     (''adminThingsModelAddEvent'', [
        CHR 0xE6, CHR 0xB7, CHR 0xBB, CHR 0xE5, CHR 0x8A, CHR 0xA0, CHR 0xE4, CHR 0xBA, CHR 0x8B, CHR 0xE4,
        CHR 0xBB, CHR 0xB6]),
     (''adminThingsModelAddService'', [
        CHR 0xE6, CHR 0xB7, CHR 0xBB, CHR 0xE5, CHR 0x8A, CHR 0xA0, CHR 0xE6, CHR 0x9C, CHR 0x8D, CHR 0xE5,
        CHR 0x8A, CHR 0xA1]),
     (''adminThingsModelAddParam'', [
        CHR 0xE6, CHR 0xB7, CHR 0xBB, CHR 0xE5, CHR 0x8A, CHR 0xA0, CHR 0xE5, CHR 0x8F, CHR 0x82, CHR 0xE6,
        CHR 0x95, CHR 0xB0]),
     (''adminThingsModelNewParam'', [
        CHR 0xE6, CHR 0x96, CHR 0xB0, CHR 0xE5, CHR 0xA2, CHR 0x9E, CHR 0xE5, CHR 0x8F, CHR 0x82, CHR 0xE6,
        CHR 0x95, CHR 0xB0]),
     (''adminThingsModelRemoveParam'', [
        CHR 0xE7, CHR 0xA7, CHR 0xBB, CHR 0xE9, CHR 0x99, CHR 0xA4, CHR 0xE5, CHR 0x8F, CHR 0x82, CHR 0xE6,
        CHR 0x95, CHR 0xB0]),
     (''adminThingsModelNoParams'', [
        CHR 0xE6, CHR 0x9A, CHR 0x82, CHR 0xE6, CHR 0x97, CHR 0xA0, CHR 0xE5, CHR 0x8F, CHR 0x82, CHR 0xE6,
        CHR 0x95, CHR 0xB0, CHR 0xEF, CHR 0xBC, CHR 0x8C, CHR 0xE7, CHR 0x82, CHR 0xB9, CHR 0xE5, CHR 0x87,
        CHR 0xBB, CHR 0xE2, CHR 0x80, CHR 0x9C, CHR 0xE6, CHR 0x96, CHR 0xB0, CHR 0xE5, CHR 0xA2, CHR 0x9E,
        CHR 0xE5, CHR 0x8F, CHR 0x82, CHR 0xE6, CHR 0x95, CHR 0xB0, CHR 0xE2, CHR 0x80, CHR 0x9D, CHR 0xE6,
        CHR 0xB7, CHR 0xBB, CHR 0xE5, CHR 0x8A, CHR 0xA0, CHR 0xE4, CHR 0xB8, CHR 0x80, CHR 0xE7, CHR 0xBB,
        CHR 0x84, CHR 0xE5, CHR 0x8F, CHR 0x82, CHR 0xE6, CHR 0x95, CHR 0xB0, CHR 0xE3, CHR 0x80, CHR 0x82])]"

definition admin_zh_partc :: "(string \<times> string) list" where
  "admin_zh_partc = [
     (''adminThingsModelCommonPresets'', [
        CHR 0xE5, CHR 0xB8, CHR 0xB8, CHR 0xE7, CHR 0x94, CHR 0xA8, CHR 0xE6, CHR 0xA8, CHR 0xA1, CHR 0xE6,
        CHR 0x9D, CHR 0xBF]),
     (''adminThingsModelPresetTemperature'', [CHR 0xE6, CHR 0xB8, CHR 0xA9, CHR 0xE5, CHR 0xBA, CHR 0xA6]),
     (''adminThingsModelPresetHumidity'', [CHR 0xE6, CHR 0xB9, CHR 0xBF, CHR 0xE5, CHR 0xBA, CHR 0xA6]),
     (''adminThingsModelPresetBattery'', [CHR 0xE7, CHR 0x94, CHR 0xB5, CHR 0xE9, CHR 0x87, CHR 0x8F]),
     (''adminThingsModelPresetSwitch'', [CHR 0xE5, CHR 0xBC, CHR 0x80, CHR 0xE5, CHR 0x85, CHR 0xB3]),
     (''adminThingsModelPresetTemperatureAlarm'', [
        CHR 0xE6, CHR 0xB8, CHR 0xA9, CHR 0xE5, CHR 0xBA, CHR 0xA6, CHR 0xE6, CHR 0x8A, CHR 0xA5, CHR 0xE8,
        CHR 0xAD, CHR 0xA6]),
     (''adminThingsModelPresetLowBattery'', [CHR 0xE4, CHR 0xBD, CHR 0x8E, CHR 0xE7, CHR 0x94, CHR 0xB5, CHR 0xE9, CHR 0x87, CHR 0x8F]),
     (''adminThingsModelPresetFaultReport'', [
        CHR 0xE6, CHR 0x95, CHR 0x85, CHR 0xE9, CHR 0x9A, CHR 0x9C, CHR 0xE4, CHR 0xB8, CHR 0x8A, CHR 0xE6,
        CHR 0x8A, CHR 0xA5]),
     (''adminThingsModelPresetReboot'', [CHR 0xE9, CHR 0x87, CHR 0x8D, CHR 0xE5, CHR 0x90, CHR 0xAF]),
     (''adminThingsModelPresetReportInterval'', [
        CHR 0xE4, CHR 0xB8, CHR 0x8A, CHR 0xE6, CHR 0x8A, CHR 0xA5, CHR 0xE5, CHR 0x91, CHR 0xA8, CHR 0xE6,
        CHR 0x9C, CHR 0x9F]),
     (''adminThingsModelPresetSwitchService'', [
        CHR 0xE5, CHR 0xBC, CHR 0x80, CHR 0xE5, CHR 0x85, CHR 0xB3, CHR 0xE6, CHR 0x8E, CHR 0xA7, CHR 0xE5,
        CHR 0x88, CHR 0xB6]),
     (''adminThingsModelRemoveDefinition'', [CHR 0xE7, CHR 0xA7, CHR 0xBB, CHR 0xE9, CHR 0x99, CHR 0xA4]),
     (''adminThingsModelAddDefinition'', [
        CHR 0xE6, CHR 0xB7, CHR 0xBB, CHR 0xE5, CHR 0x8A, CHR 0xA0, CHR 0xE5, CHR 0xAE, CHR 0x9A, CHR 0xE4,
        CHR 0xB9, CHR 0x89]),
     (''adminThingsModelJSONPreview'', [
        CHR 0xE7, CHR 0x94, CHR 0x9F, CHR 0xE6, CHR 0x88, CHR 0x90, CHR 0xE7, CHR 0x9A, CHR 0x84, CHR 0x20,
        CHR 0x4A, CHR 0x53, CHR 0x4F, CHR 0x4E]),
     (''adminThingsModelDefinitionRequired'', [
        CHR 0xE8, CHR 0xAF, CHR 0xB7, CHR 0xE5, CHR 0xA1, CHR 0xAB, CHR 0xE5, CHR 0x86, CHR 0x99, CHR 0xE6,
        CHR 0xA0, CHR 0x87, CHR 0xE8, CHR 0xAF, CHR 0x86, CHR 0xE7, CHR 0xAC, CHR 0xA6, CHR 0xE5, CHR 0x92,
        CHR 0x8C, CHR 0xE6, CHR 0x98, CHR 0xBE, CHR 0xE7, CHR 0xA4, CHR 0xBA, CHR 0xE5, CHR 0x90, CHR 0x8D,
        CHR 0xE7, CHR 0xA7, CHR 0xB0]),
     (''adminThingsModelParamRequired'', [
        CHR 0xE8, CHR 0xAF, CHR 0xB7, CHR 0xE8, CHR 0xA1, CHR 0xA5, CHR 0xE5, CHR 0x85, CHR 0xA8, CHR 0xE6,
        CHR 0xAF, CHR 0x8F, CHR 0xE4, CHR 0xB8, CHR 0xAA, CHR 0xE5, CHR 0x8F, CHR 0x82, CHR 0xE6, CHR 0x95,
        CHR 0xB0, CHR 0xE7, CHR 0x9A, CHR 0x84, CHR 0xE6, CHR 0xA0, CHR 0x87, CHR 0xE8, CHR 0xAF, CHR 0x86,
        CHR 0xE7, CHR 0xAC, CHR 0xA6, CHR 0xE5, CHR 0x92, CHR 0x8C, CHR 0xE5, CHR 0x8F, CHR 0x82, CHR 0xE6,
        CHR 0x95, CHR 0xB0, CHR 0xE5, CHR 0x90, CHR 0x8D, CHR 0xE7, CHR 0xA7, CHR 0xB0]),
     (''adminThingsModelPropertyNameExample'', [CHR 0xE6, CHR 0xB8, CHR 0xA9, CHR 0xE5, CHR 0xBA, CHR 0xA6]),
     (''adminThingsModelEventNameExample'', [
        CHR 0xE8, CHR 0xBF, CHR 0x87, CHR 0xE7, CHR 0x83, CHR 0xAD, CHR 0xE5, CHR 0x91, CHR 0x8A, CHR 0xE8,
        CHR 0xAD, CHR 0xA6]),
     (''adminThingsModelEventDescExample'', [
        CHR 0xE8, CHR 0xAE, CHR 0xBE, CHR 0xE5, CHR 0xA4, CHR 0x87, CHR 0xE6, CHR 0xA3, CHR 0x80, CHR 0xE6,
        CHR 0xB5, CHR 0x8B, CHR 0xE5, CHR 0x88, CHR 0xB0, CHR 0xE6, CHR 0xB8, CHR 0xA9, CHR 0xE5, CHR 0xBA,
        CHR 0xA6, CHR 0xE8, CHR 0xB6, CHR 0x85, CHR 0xE8, CHR 0xBF, CHR 0x87, CHR 0xE5, CHR 0xAE, CHR 0x89,
        CHR 0xE5, CHR 0x85, CHR 0xA8, CHR 0xE9, CHR 0x98, CHR 0x88, CHR 0xE5, CHR 0x80, CHR 0xBC]),
     (''adminThingsModelServiceNameExample'', [
        CHR 0xE9, CHR 0x87, CHR 0x8D, CHR 0xE5, CHR 0x90, CHR 0xAF, CHR 0xE8, CHR 0xAE, CHR 0xBE, CHR 0xE5,
        CHR 0xA4, CHR 0x87]),
     (''adminThingsModelServiceDescExample'', [
        CHR 0xE5, CHR 0xB9, CHR 0xB3, CHR 0xE5, CHR 0x8F, CHR 0xB0, CHR 0xE4, CHR 0xB8, CHR 0x8B, CHR 0xE5,
        CHR 0x8F, CHR 0x91, CHR 0xE9, CHR 0x87, CHR 0x8D, CHR 0xE5, CHR 0x90, CHR 0xAF, CHR 0xE5, CHR 0x91,
        CHR 0xBD, CHR 0xE4, CHR 0xBB, CHR 0xA4, CHR 0xEF, CHR 0xBC, CHR 0x8C, CHR 0xE8, CHR 0xAE, CHR 0xBE,
        CHR 0xE5, CHR 0xA4, CHR 0x87, CHR 0xE8, CHR 0xBF, CHR 0x94, CHR 0xE5, CHR 0x9B, CHR 0x9E, CHR 0xE6,
        CHR 0x89, CHR 0xA7, CHR 0xE8, CHR 0xA1, CHR 0x8C, CHR 0xE7, CHR 0xBB, CHR 0x93, CHR 0xE6, CHR 0x9E,
        CHR 0x9C]),
     (''adminDeviceCreate'', [
        CHR 0xE6, CHR 0x96, CHR 0xB0, CHR 0xE5, CHR 0xBB, CHR 0xBA, CHR 0xE8, CHR 0xAE, CHR 0xBE, CHR 0xE5,
        CHR 0xA4, CHR 0x87]),
     (''adminDeviceCreateTitle'', [
        CHR 0xE6, CHR 0x96, CHR 0xB0, CHR 0xE5, CHR 0xBB, CHR 0xBA, CHR 0xE8, CHR 0xAE, CHR 0xBE, CHR 0xE5,
        CHR 0xA4, CHR 0x87]),
     (''adminDeviceEditTitle'', [
        CHR 0xE7, CHR 0xBC, CHR 0x96, CHR 0xE8, CHR 0xBE, CHR 0x91, CHR 0xE8, CHR 0xAE, CHR 0xBE, CHR 0xE5,
        CHR 0xA4, CHR 0x87]),
     (''adminDeviceSlug'', [
        CHR 0xE8, CHR 0xAE, CHR 0xBE, CHR 0xE5, CHR 0xA4, CHR 0x87, CHR 0xE6, CHR 0xA0, CHR 0x87, CHR 0xE8,
        CHR 0xAF, CHR 0x86]),
     (''adminDeviceName'', [
        CHR 0xE8, CHR 0xAE, CHR 0xBE, CHR 0xE5, CHR 0xA4, CHR 0x87, CHR 0xE5, CHR 0x90, CHR 0x8D, CHR 0xE7,
        CHR 0xA7, CHR 0xB0]),
     (''adminDeviceDescription'', [
        CHR 0xE8, CHR 0xAE, CHR 0xBE, CHR 0xE5, CHR 0xA4, CHR 0x87, CHR 0xE6, CHR 0x8F, CHR 0x8F, CHR 0xE8,
        CHR 0xBF, CHR 0xB0]),
     (''adminDeviceStatus'', [CHR 0xE7, CHR 0x8A, CHR 0xB6, CHR 0xE6, CHR 0x80, CHR 0x81]),
     (''adminDeviceStatusActive'', [CHR 0xE5, CHR 0x90, CHR 0xAF, CHR 0xE7, CHR 0x94, CHR 0xA8]),
     (''adminDeviceStatusDisabled'', [CHR 0xE5, CHR 0x81, CHR 0x9C, CHR 0xE7, CHR 0x94, CHR 0xA8]),
     (''adminDeviceConnectionStatus'', [
        CHR 0xE8, CHR 0xBF, CHR 0x9E, CHR 0xE6, CHR 0x8E, CHR 0xA5, CHR 0xE7, CHR 0x8A, CHR 0xB6, CHR 0xE6,
        CHR 0x80, CHR 0x81]),
     (''adminDeviceConnectionOnline'', [CHR 0xE5, CHR 0x9C, CHR 0xA8, CHR 0xE7, CHR 0xBA, CHR 0xBF]),
     (''adminDeviceConnectionOffline'', [CHR 0xE7, CHR 0xA6, CHR 0xBB, CHR 0xE7, CHR 0xBA, CHR 0xBF]),
     (''adminDeviceGatewayID'', [
        CHR 0xE7, CHR 0xBD, CHR 0x91, CHR 0xE5, CHR 0x85, CHR 0xB3, CHR 0xE8, CHR 0xAE, CHR 0xBE, CHR 0xE5,
        CHR 0xA4, CHR 0x87, CHR 0x20, CHR 0x49, CHR 0x44]),
     (''adminDeviceFirmwareVersion'', [
        CHR 0xE5, CHR 0x9B, CHR 0xBA, CHR 0xE4, CHR 0xBB, CHR 0xB6, CHR 0xE7, CHR 0x89, CHR 0x88, CHR 0xE6,
        CHR 0x9C, CHR 0xAC]),
     (''adminDeviceIPAddress'', [CHR 0x49, CHR 0x50, CHR 0x20, CHR 0xE5, CHR 0x9C, CHR 0xB0, CHR 0xE5, CHR 0x9D, CHR 0x80]),
     (''adminDeviceAttributes'', [
        CHR 0xE8, CHR 0xAE, CHR 0xBE, CHR 0xE5, CHR 0xA4, CHR 0x87, CHR 0xE5, CHR 0xB1, CHR 0x9E, CHR 0xE6,
        CHR 0x80, CHR 0xA7, CHR 0x20, CHR 0x4A, CHR 0x53, CHR 0x4F, CHR 0x4E]),
     (''adminDeviceUpdatedAt'', [
        CHR 0xE6, CHR 0x9B, CHR 0xB4, CHR 0xE6, CHR 0x96, CHR 0xB0, CHR 0xE6, CHR 0x97, CHR 0xB6, CHR 0xE9,
        CHR 0x97, CHR 0xB4]),
     (''adminDeviceActions'', [CHR 0xE6, CHR 0x93, CHR 0x8D, CHR 0xE4, CHR 0xBD, CHR 0x9C]),
     (''adminDeviceAllProducts'', [
        CHR 0xE5, CHR 0x85, CHR 0xA8, CHR 0xE9, CHR 0x83, CHR 0xA8, CHR 0xE4, CHR 0xBA, CHR 0xA7, CHR 0xE5,
        CHR 0x93, CHR 0x81]),
     (''adminDeviceSecretTitle'', [
        CHR 0xE8, CHR 0xAE, CHR 0xBE, CHR 0xE5, CHR 0xA4, CHR 0x87, CHR 0xE5, CHR 0xAF, CHR 0x86, CHR 0xE9,
        CHR 0x92, CHR 0xA5]),
     (''adminDeviceSecretDescription'', [
        CHR 0xE8, CHR 0xAF, CHR 0xA5, CHR 0xE5, CHR 0xAF, CHR 0x86, CHR 0xE9, CHR 0x92, CHR 0xA5, CHR 0xE5,
        CHR 0x8F, CHR 0xAA, CHR 0xE4, CHR 0xBC, CHR 0x9A, CHR 0xE5, CHR 0x9C, CHR 0xA8, CHR 0xE5, CHR 0x88,
        CHR 0x9B, CHR 0xE5, CHR 0xBB, CHR 0xBA, CHR 0xE8, CHR 0xAE, CHR 0xBE, CHR 0xE5, CHR 0xA4, CHR 0x87,
        CHR 0xE5, CHR 0x90, CHR 0x8E, CHR 0xE8, CHR 0xBF, CHR 0x94, CHR 0xE5, CHR 0x9B, CHR 0x9E, CHR 0xE4,
        CHR 0xB8, CHR 0x80, CHR 0xE6, CHR 0xAC, CHR 0xA1, CHR 0xE3, CHR 0x80, CHR 0x82]),
     (''adminDeviceViewSecret'', [
        CHR 0xE6, CHR 0x9F, CHR 0xA5, CHR 0xE7, CHR 0x9C, CHR 0x8B, CHR 0xE5, CHR 0xAF, CHR 0x86, CHR 0xE9,
        CHR 0x92, CHR 0xA5]),
     (''adminDeviceCopySecret'', [
        CHR 0xE5, CHR 0xA4, CHR 0x8D, CHR 0xE5, CHR 0x88, CHR 0xB6, CHR 0xE5, CHR 0xAF, CHR 0x86, CHR 0xE9,
        CHR 0x92, CHR 0xA5]),
     (''adminDeviceSecretCopied'', [
        CHR 0xE8, CHR 0xAE, CHR 0xBE, CHR 0xE5, CHR 0xA4, CHR 0x87, CHR 0xE5, CHR 0xAF, CHR 0x86, CHR 0xE9,
        CHR 0x92, CHR 0xA5, CHR 0xE5, CHR 0xB7, CHR 0xB2, CHR 0xE5, CHR 0xA4, CHR 0x8D, CHR 0xE5, CHR 0x88,
        CHR 0xB6]),
     (''adminDeviceSecretCopyFailed'', [
        CHR 0xE5, CHR 0xA4, CHR 0x8D, CHR 0xE5, CHR 0x88, CHR 0xB6, CHR 0xE8, CHR 0xAE, CHR 0xBE, CHR 0xE5,
        CHR 0xA4, CHR 0x87, CHR 0xE5, CHR 0xAF, CHR 0x86, CHR 0xE9, CHR 0x92, CHR 0xA5, CHR 0xE5, CHR 0xA4,
        CHR 0xB1, CHR 0xE8, CHR 0xB4, CHR 0xA5]),
     (''adminDeviceSecretAvailableDescription'', [
        CHR 0xE8, CHR 0xBF, CHR 0x99, CHR 0xE6, CHR 0x98, CHR 0xAF, CHR 0xE6, CHR 0x9C, CHR 0xAC, CHR 0xE6,
        CHR 0xAC, CHR 0xA1, CHR 0xE9, CHR 0xA1, CHR 0xB5, CHR 0xE9, CHR 0x9D, CHR 0xA2, CHR 0xE4, CHR 0xBC,
        CHR 0x9A, CHR 0xE8, CHR 0xAF, CHR 0x9D, CHR 0xE4, CHR 0xB8, CHR 0xAD, CHR 0xE5, CHR 0x88, CHR 0x9B,
        CHR 0xE5, CHR 0xBB, CHR 0xBA, CHR 0xE8, CHR 0xAE, CHR 0xBE, CHR 0xE5, CHR 0xA4, CHR 0x87, CHR 0xE6,
        CHR 0x97, CHR 0xB6, CHR 0xE8, CHR 0xBF, CHR 0x94, CHR 0xE5, CHR 0x9B, CHR 0x9E, CHR 0xE7, CHR 0x9A,
        CHR 0x84, CHR 0xE5, CHR 0xAF, CHR 0x86, CHR 0xE9, CHR 0x92, CHR 0xA5, CHR 0xEF, CHR 0xBC, CHR 0x8C,
        CHR 0xE8, CHR 0xAF, CHR 0xB7, CHR 0xE5, CHR 0xA6, CHR 0xA5, CHR 0xE5, CHR 0x96, CHR 0x84, CHR 0xE4,
        CHR 0xBF, CHR 0x9D, CHR 0xE5, CHR 0xAD, CHR 0x98, CHR 0xE5, CHR 0x88, CHR 0xB0, CHR 0x20, CHR 0x45,
        CHR 0x53, CHR 0x50, CHR 0x33, CHR 0x32, CHR 0x20, CHR 0xE5, CHR 0x9B, CHR 0xBA, CHR 0xE4, CHR 0xBB,
        CHR 0xB6, CHR 0xE9, CHR 0x85, CHR 0x8D, CHR 0xE7, CHR 0xBD, CHR 0xAE, CHR 0xE3, CHR 0x80, CHR 0x82]),
     (''adminDeviceSecretUnavailableDescription'', [
        CHR 0xE5, CHR 0x8E, CHR 0x86, CHR 0xE5, CHR 0x8F, CHR 0xB2, CHR 0xE8, CHR 0xAE, CHR 0xBE, CHR 0xE5,
        CHR 0xA4, CHR 0x87, CHR 0xE5, CHR 0xAF, CHR 0x86, CHR 0xE9, CHR 0x92, CHR 0xA5, CHR 0xE6, CHR 0x97,
        CHR 0xA0, CHR 0xE6, CHR 0xB3, CHR 0x95, CHR 0xE6, CHR 0x9F, CHR 0xA5, CHR 0xE7, CHR 0x9C, CHR 0x8B,
        CHR 0xE3, CHR 0x80, CHR 0x82, CHR 0xE5, CHR 0x90, CHR 0x8E, CHR 0xE7, CHR 0xAB, CHR 0xAF, CHR 0xE5,
        CHR 0x8F, CHR 0xAA, CHR 0xE4, CHR 0xBF, CHR 0x9D, CHR 0xE5, CHR 0xAD, CHR 0x98, CHR 0xE5, CHR 0xAF,
        CHR 0x86, CHR 0xE9, CHR 0x92, CHR 0xA5, CHR 0xE5, CHR 0x93, CHR 0x88, CHR 0xE5, CHR 0xB8, CHR 0x8C,
        CHR 0xEF, CHR 0xBC, CHR 0x8C, CHR 0xE6, CHR 0x98, CHR 0x8E, CHR 0xE6, CHR 0x96, CHR 0x87, CHR 0xE5,
        CHR 0x8F, CHR 0xAA, CHR 0xE4, CHR 0xBC, CHR 0x9A, CHR 0xE5, CHR 0x9C, CHR 0xA8, CHR 0xE5, CHR 0x88,
        CHR 0x9B, CHR 0xE5, CHR 0xBB, CHR 0xBA, CHR 0xE8, CHR 0xAE, CHR 0xBE, CHR 0xE5, CHR 0xA4, CHR 0x87,
        CHR 0xE6, CHR 0x97, CHR 0xB6, CHR 0xE8, CHR 0xBF, CHR 0x94, CHR 0xE5, CHR 0x9B, CHR 0x9E, CHR 0xE4,
        CHR 0xB8, CHR 0x80, CHR 0xE6, CHR 0xAC, CHR 0xA1, CHR 0xE3, CHR 0x80, CHR 0x82]),
     (''adminDeviceEdit'', [CHR 0xE7, CHR 0xBC, CHR 0x96, CHR 0xE8, CHR 0xBE, CHR 0x91]),
     (''adminDeviceDelete'', [CHR 0xE5, CHR 0x88, CHR 0xA0, CHR 0xE9, CHR 0x99, CHR 0xA4]),
     (''adminDeviceSave'', [CHR 0xE4, CHR 0xBF, CHR 0x9D, CHR 0xE5, CHR 0xAD, CHR 0x98]),
     (''adminDeviceSaving'', [CHR 0xE4, CHR 0xBF, CHR 0x9D, CHR 0xE5, CHR 0xAD, CHR 0x98, CHR 0xE4, CHR 0xB8, CHR 0xAD]),
     (''adminDeviceCancel'', [CHR 0xE5, CHR 0x8F, CHR 0x96, CHR 0xE6, CHR 0xB6, CHR 0x88]),
     (''adminDeviceLoading'', [
        CHR 0xE6, CHR 0xAD, CHR 0xA3, CHR 0xE5, CHR 0x9C, CHR 0xA8, CHR 0xE5, CHR 0x8A, CHR 0xA0, CHR 0xE8,
        CHR 0xBD, CHR 0xBD, CHR 0xE8, CHR 0xAE, CHR 0xBE, CHR 0xE5, CHR 0xA4, CHR 0x87, CHR 0x2E, CHR 0x2E,
        CHR 0x2E]),
     (''adminDeviceEmpty'', [
        CHR 0xE6, CHR 0x9A, CHR 0x82, CHR 0xE6, CHR 0x97, CHR 0xA0, CHR 0xE8, CHR 0xAE, CHR 0xBE, CHR 0xE5,
        CHR 0xA4, CHR 0x87]),
     (''adminDeviceEmptyDescription'', [
        CHR 0xE5, CHR 0x88, CHR 0x9B, CHR 0xE5, CHR 0xBB, CHR 0xBA, CHR 0xE7, CHR 0xAC, CHR 0xAC, CHR 0xE4,
        CHR 0xB8, CHR 0x80, CHR 0xE4, CHR 0xB8, CHR 0xAA, CHR 0xE8, CHR 0xAE, CHR 0xBE, CHR 0xE5, CHR 0xA4,
        CHR 0x87, CHR 0xE5, CHR 0x90, CHR 0x8E, CHR 0xEF, CHR 0xBC, CHR 0x8C, CHR 0xE5, CHR 0xAE, CHR 0x83,
        CHR 0xE4, CHR 0xBC, CHR 0x9A, CHR 0xE5, CHR 0x87, CHR 0xBA, CHR 0xE7, CHR 0x8E, CHR 0xB0, CHR 0xE5,
        CHR 0x9C, CHR 0xA8, CHR 0xE8, CHR 0xBF, CHR 0x99, CHR 0xE9, CHR 0x87, CHR 0x8C, CHR 0xE3, CHR 0x80,
        CHR 0x82]),
     (''adminDevicePageSize'', [CHR 0xE6, CHR 0xAF, CHR 0x8F, CHR 0xE9, CHR 0xA1, CHR 0xB5]),
     (''adminDeviceTotal'', [
        CHR 0xE5, CHR 0x85, CHR 0xB1, CHR 0x20, CHR 0x7B, CHR 0x74, CHR 0x6F, CHR 0x74, CHR 0x61, CHR 0x6C,
        CHR 0x7D, CHR 0x20, CHR 0xE5, CHR 0x8F, CHR 0xB0, CHR 0xE8, CHR 0xAE, CHR 0xBE, CHR 0xE5, CHR 0xA4,
        CHR 0x87]),
     (''adminDevicePage'', [
        CHR 0xE7, CHR 0xAC, CHR 0xAC, CHR 0x20, CHR 0x7B, CHR 0x70, CHR 0x61, CHR 0x67, CHR 0x65, CHR 0x7D,
        CHR 0x20, CHR 0x2F, CHR 0x20, CHR 0x7B, CHR 0x74, CHR 0x6F, CHR 0x74, CHR 0x61, CHR 0x6C, CHR 0x50,
        CHR 0x61, CHR 0x67, CHR 0x65, CHR 0x73, CHR 0x7D, CHR 0x20, CHR 0xE9, CHR 0xA1, CHR 0xB5]),
     (''adminDeviceJumpTo'', [CHR 0xE8, CHR 0xB7, CHR 0xB3, CHR 0xE8, CHR 0xBD, CHR 0xAC, CHR 0xE5, CHR 0x88, CHR 0xB0]),
     (''adminDeviceJump'', [CHR 0xE8, CHR 0xB7, CHR 0xB3, CHR 0xE8, CHR 0xBD, CHR 0xAC]),
     (''adminDevicePrev'', [CHR 0xE4, CHR 0xB8, CHR 0x8A, CHR 0xE4, CHR 0xB8, CHR 0x80, CHR 0xE9, CHR 0xA1, CHR 0xB5]),
     (''adminDeviceNext'', [CHR 0xE4, CHR 0xB8, CHR 0x8B, CHR 0xE4, CHR 0xB8, CHR 0x80, CHR 0xE9, CHR 0xA1, CHR 0xB5]),
     (''adminDeviceLoadFailed'', [
        CHR 0xE8, CHR 0xAE, CHR 0xBE, CHR 0xE5, CHR 0xA4, CHR 0x87, CHR 0xE5, CHR 0x8A, CHR 0xA0, CHR 0xE8,
        CHR 0xBD, CHR 0xBD, CHR 0xE5, CHR 0xA4, CHR 0xB1, CHR 0xE8, CHR 0xB4, CHR 0xA5]),
     (''adminDeviceCreateSuccess'', [
        CHR 0xE8, CHR 0xAE, CHR 0xBE, CHR 0xE5, CHR 0xA4, CHR 0x87, CHR 0xE5, CHR 0xB7, CHR 0xB2, CHR 0xE5,
        CHR 0x88, CHR 0x9B, CHR 0xE5, CHR 0xBB, CHR 0xBA]),
     (''adminDeviceCreateFailed'', [
        CHR 0xE5, CHR 0x88, CHR 0x9B, CHR 0xE5, CHR 0xBB, CHR 0xBA, CHR 0xE8, CHR 0xAE, CHR 0xBE, CHR 0xE5,
        CHR 0xA4, CHR 0x87, CHR 0xE5, CHR 0xA4, CHR 0xB1, CHR 0xE8, CHR 0xB4, CHR 0xA5]),
     (''adminDeviceUpdateSuccess'', [
        CHR 0xE8, CHR 0xAE, CHR 0xBE, CHR 0xE5, CHR 0xA4, CHR 0x87, CHR 0xE5, CHR 0xB7, CHR 0xB2, CHR 0xE6,
        CHR 0x9B, CHR 0xB4, CHR 0xE6, CHR 0x96, CHR 0xB0]),
     (''adminDeviceUpdateFailed'', [
        CHR 0xE6, CHR 0x9B, CHR 0xB4, CHR 0xE6, CHR 0x96, CHR 0xB0, CHR 0xE8, CHR 0xAE, CHR 0xBE, CHR 0xE5,
        CHR 0xA4, CHR 0x87, CHR 0xE5, CHR 0xA4, CHR 0xB1, CHR 0xE8, CHR 0xB4, CHR 0xA5]),
     (''adminDeviceDeleteSuccess'', [
        CHR 0xE8, CHR 0xAE, CHR 0xBE, CHR 0xE5, CHR 0xA4, CHR 0x87, CHR 0xE5, CHR 0xB7, CHR 0xB2, CHR 0xE5,
        CHR 0x88, CHR 0xA0, CHR 0xE9, CHR 0x99, CHR 0xA4]),
     (''adminDeviceDeleteFailed'', [
        CHR 0xE5, CHR 0x88, CHR 0xA0, CHR 0xE9, CHR 0x99, CHR 0xA4, CHR 0xE8, CHR 0xAE, CHR 0xBE, CHR 0xE5,
        CHR 0xA4, CHR 0x87, CHR 0xE5, CHR 0xA4, CHR 0xB1, CHR 0xE8, CHR 0xB4, CHR 0xA5]),
     (''adminDeviceDeleteConfirm'', [
        CHR 0xE7, CHR 0xA1, CHR 0xAE, CHR 0xE8, CHR 0xAE, CHR 0xA4, CHR 0xE5, CHR 0x88, CHR 0xA0, CHR 0xE9,
        CHR 0x99, CHR 0xA4, CHR 0xE8, CHR 0xBF, CHR 0x99, CHR 0xE4, CHR 0xB8, CHR 0xAA, CHR 0xE8, CHR 0xAE,
        CHR 0xBE, CHR 0xE5, CHR 0xA4, CHR 0x87, CHR 0xEF, CHR 0xBC, CHR 0x9F]),
     (''adminDevicePropertyLatestTab'', [
        CHR 0xE6, CHR 0x9C, CHR 0x80, CHR 0xE6, CHR 0x96, CHR 0xB0, CHR 0xE5, CHR 0xB1, CHR 0x9E, CHR 0xE6,
        CHR 0x80, CHR 0xA7]),
     (''adminDevicePropertyHistoryTab'', [
        CHR 0xE5, CHR 0x8E, CHR 0x86, CHR 0xE5, CHR 0x8F, CHR 0xB2, CHR 0xE8, CHR 0xB6, CHR 0x8B, CHR 0xE5,
        CHR 0x8A, CHR 0xBF]),
     (''adminDevicePropertySelectDevice'', [CHR 0xE8, CHR 0xAE, CHR 0xBE, CHR 0xE5, CHR 0xA4, CHR 0x87]),
     (''adminDevicePropertyNoDevice'', [
        CHR 0xE6, CHR 0x9A, CHR 0x82, CHR 0xE6, CHR 0x97, CHR 0xA0, CHR 0xE5, CHR 0x8F, CHR 0xAF, CHR 0xE9,
        CHR 0x80, CHR 0x89, CHR 0xE8, CHR 0xAE, CHR 0xBE, CHR 0xE5, CHR 0xA4, CHR 0x87]),
     (''adminDevicePropertyLoadLatest'', [
        CHR 0xE5, CHR 0x88, CHR 0xB7, CHR 0xE6, CHR 0x96, CHR 0xB0, CHR 0xE6, CHR 0x9C, CHR 0x80, CHR 0xE6,
        CHR 0x96, CHR 0xB0, CHR 0xE5, CHR 0xB1, CHR 0x9E, CHR 0xE6, CHR 0x80, CHR 0xA7]),
     (''adminDevicePropertyLoadingLatest'', [
        CHR 0xE6, CHR 0xAD, CHR 0xA3, CHR 0xE5, CHR 0x9C, CHR 0xA8, CHR 0xE5, CHR 0x8A, CHR 0xA0, CHR 0xE8,
        CHR 0xBD, CHR 0xBD, CHR 0xE6, CHR 0x9C, CHR 0x80, CHR 0xE6, CHR 0x96, CHR 0xB0, CHR 0xE5, CHR 0xB1,
        CHR 0x9E, CHR 0xE6, CHR 0x80, CHR 0xA7, CHR 0x2E, CHR 0x2E, CHR 0x2E]),
     (''adminDevicePropertyLatestEmpty'', [
        CHR 0xE6, CHR 0x9A, CHR 0x82, CHR 0xE6, CHR 0x97, CHR 0xA0, CHR 0xE6, CHR 0x9C, CHR 0x80, CHR 0xE6,
        CHR 0x96, CHR 0xB0, CHR 0xE5, CHR 0xB1, CHR 0x9E, CHR 0xE6, CHR 0x80, CHR 0xA7]),
     (''adminDevicePropertyLatestEmptyDescription'', [
        CHR 0xE8, CHR 0xAE, CHR 0xBE, CHR 0xE5, CHR 0xA4, CHR 0x87, CHR 0xE4, CHR 0xB8, CHR 0x8A, CHR 0xE6,
        CHR 0x8A, CHR 0xA5, CHR 0xE5, CHR 0xB1, CHR 0x9E, CHR 0xE6, CHR 0x80, CHR 0xA7, CHR 0xE5, CHR 0x90,
        CHR 0x8E, CHR 0xEF, CHR 0xBC, CHR 0x8C, CHR 0xE6, CHR 0x9C, CHR 0x80, CHR 0xE6, CHR 0x96, CHR 0xB0,
        CHR 0xE5, CHR 0xB1, CHR 0x9E, CHR 0xE6, CHR 0x80, CHR 0xA7, CHR 0xE4, CHR 0xBC, CHR 0x9A, CHR 0xE6,
        CHR 0x98, CHR 0xBE, CHR 0xE7, CHR 0xA4, CHR 0xBA, CHR 0xE4, CHR 0xB8, CHR 0xBA, CHR 0xE5, CHR 0x8D,
        CHR 0xA1, CHR 0xE7, CHR 0x89, CHR 0x87, CHR 0xE3, CHR 0x80, CHR 0x82]),
     (''adminDevicePropertyReported'', [CHR 0xE5, CHR 0xB7, CHR 0xB2, CHR 0xE4, CHR 0xB8, CHR 0x8A, CHR 0xE6, CHR 0x8A, CHR 0xA5]),
     (''adminDevicePropertyNotReported'', [CHR 0xE6, CHR 0x9C, CHR 0xAA, CHR 0xE4, CHR 0xB8, CHR 0x8A, CHR 0xE6, CHR 0x8A, CHR 0xA5]),
     (''adminDevicePropertyOccurredAt'', [
        CHR 0xE5, CHR 0x8F, CHR 0x91, CHR 0xE7, CHR 0x94, CHR 0x9F, CHR 0xE6, CHR 0x97, CHR 0xB6, CHR 0xE9,
        CHR 0x97, CHR 0xB4]),
     (''adminDevicePropertyReceivedAt'', [
        CHR 0xE6, CHR 0x8E, CHR 0xA5, CHR 0xE6, CHR 0x94, CHR 0xB6, CHR 0xE6, CHR 0x97, CHR 0xB6, CHR 0xE9,
        CHR 0x97, CHR 0xB4]),
     (''adminDevicePropertyProductKey'', [
        CHR 0xE4, CHR 0xBA, CHR 0xA7, CHR 0xE5, CHR 0x93, CHR 0x81, CHR 0xE6, CHR 0xA0, CHR 0x87, CHR 0xE8,
        CHR 0xAF, CHR 0x86]),
     (''adminDevicePropertyDeviceSlug'', [
        CHR 0xE8, CHR 0xAE, CHR 0xBE, CHR 0xE5, CHR 0xA4, CHR 0x87, CHR 0xE6, CHR 0xA0, CHR 0x87, CHR 0xE8,
        CHR 0xAF, CHR 0x86]),
     (''adminDevicePropertyKey'', [CHR 0xE5, CHR 0xB1, CHR 0x9E, CHR 0xE6, CHR 0x80, CHR 0xA7]),
     (''adminDevicePropertyValue'', [CHR 0xE5, CHR 0x80, CHR 0xBC]),
     (''adminDevicePropertyValueType'', [CHR 0xE7, CHR 0xB1, CHR 0xBB, CHR 0xE5, CHR 0x9E, CHR 0x8B]),
     (''adminDevicePropertyHistoryTitle'', [
        CHR 0xE5, CHR 0xB1, CHR 0x9E, CHR 0xE6, CHR 0x80, CHR 0xA7, CHR 0xE5, CHR 0x8F, CHR 0x98, CHR 0xE5,
        CHR 0x8C, CHR 0x96, CHR 0xE5, CHR 0x9B, CHR 0xBE, CHR 0xE8, CHR 0xA1, CHR 0xA8]),
     (''adminDevicePropertyHistoryEmpty'', [
        CHR 0xE5, CHR 0xBD, CHR 0x93, CHR 0xE5, CHR 0x89, CHR 0x8D, CHR 0xE7, CHR 0xAD, CHR 0x9B, CHR 0xE9,
        CHR 0x80, CHR 0x89, CHR 0xE6, CHR 0x9D, CHR 0xA1, CHR 0xE4, CHR 0xBB, CHR 0xB6, CHR 0xE4, CHR 0xB8,
        CHR 0x8B, CHR 0xE6, CHR 0x9A, CHR 0x82, CHR 0xE6, CHR 0x97, CHR 0xA0, CHR 0xE8, CHR 0xB6, CHR 0x8B,
        CHR 0xE5, CHR 0x8A, CHR 0xBF, CHR 0xE6, CHR 0x95, CHR 0xB0, CHR 0xE6, CHR 0x8D, CHR 0xAE, CHR 0xE3,
        CHR 0x80, CHR 0x82]),
     (''adminDevicePropertyHistoryHint'', [
        CHR 0xE6, CHR 0x8C, CHR 0x89, CHR 0xE8, CHR 0xAE, CHR 0xBE, CHR 0xE5, CHR 0xA4, CHR 0x87, CHR 0xE5,
        CHR 0xB1, CHR 0x9E, CHR 0xE6, CHR 0x80, CHR 0xA7, CHR 0xE3, CHR 0x80, CHR 0x81, CHR 0xE6, CHR 0x97,
        CHR 0xB6, CHR 0xE9, CHR 0x97, CHR 0xB4, CHR 0xE8, CHR 0x8C, CHR 0x83, CHR 0xE5, CHR 0x9B, CHR 0xB4,
        CHR 0xE5, CHR 0x92, CHR 0x8C, CHR 0xE8, CHR 0x81, CHR 0x9A, CHR 0xE5, CHR 0x90, CHR 0x88, CHR 0xE6,
        CHR 0x96, CHR 0xB9, CHR 0xE5, CHR 0xBC, CHR 0x8F, CHR 0xE6, CHR 0x9F, CHR 0xA5, CHR 0xE8, CHR 0xAF,
        CHR 0xA2, CHR 0xE5, CHR 0x8E, CHR 0x86, CHR 0xE5, CHR 0x8F, CHR 0xB2, CHR 0xE8, CHR 0xB6, CHR 0x8B,
        CHR 0xE5, CHR 0x8A, CHR 0xBF, CHR 0xE3, CHR 0x80, CHR 0x82]),
     (''adminDevicePropertyTrendProperties'', [
        CHR 0xE8, CHR 0xB6, CHR 0x8B, CHR 0xE5, CHR 0x8A, CHR 0xBF, CHR 0xE5, CHR 0xB1, CHR 0x9E, CHR 0xE6,
        CHR 0x80, CHR 0xA7]),
     (''adminDevicePropertyTrendNoProperties'', [
        CHR 0xE5, CHR 0xBD, CHR 0x93, CHR 0xE5, CHR 0x89, CHR 0x8D, CHR 0xE6, CHR 0xB2, CHR 0xA1, CHR 0xE6,
        CHR 0x9C, CHR 0x89, CHR 0xE5, CHR 0x8F, CHR 0xAF, CHR 0xE6, CHR 0x9F, CHR 0xA5, CHR 0xE8, CHR 0xAF,
        CHR 0xA2, CHR 0xE7, CHR 0x9A, CHR 0x84, CHR 0xE6, CHR 0x95, CHR 0xB0, CHR 0xE5, CHR 0x80, CHR 0xBC,
        CHR 0xE5, CHR 0xB1, CHR 0x9E, CHR 0xE6, CHR 0x80, CHR 0xA7]),
     (''adminDevicePropertyTrendFrom'', [
        CHR 0xE5, CHR 0xBC, CHR 0x80, CHR 0xE5, CHR 0xA7, CHR 0x8B, CHR 0xE6, CHR 0x97, CHR 0xB6, CHR 0xE9,
        CHR 0x97, CHR 0xB4]),
     (''adminDevicePropertyTrendTo'', [
        CHR 0xE7, CHR 0xBB, CHR 0x93, CHR 0xE6, CHR 0x9D, CHR 0x9F, CHR 0xE6, CHR 0x97, CHR 0xB6, CHR 0xE9,
        CHR 0x97, CHR 0xB4]),
     (''adminDevicePropertyTrendBucket'', [CHR 0xE6, CHR 0x97, CHR 0xB6, CHR 0xE9, CHR 0x97, CHR 0xB4, CHR 0xE6, CHR 0xA1, CHR 0xB6]),
     (''adminDevicePropertyTrendAggregate'', [
        CHR 0xE8, CHR 0x81, CHR 0x9A, CHR 0xE5, CHR 0x90, CHR 0x88, CHR 0xE6, CHR 0x96, CHR 0xB9, CHR 0xE5,
        CHR 0xBC, CHR 0x8F]),
     (''adminDevicePropertyTrendReload'', [
        CHR 0xE5, CHR 0x88, CHR 0xB7, CHR 0xE6, CHR 0x96, CHR 0xB0, CHR 0xE8, CHR 0xB6, CHR 0x8B, CHR 0xE5,
        CHR 0x8A, CHR 0xBF]),
     (''adminDevicePropertyTrendLoading'', [
        CHR 0xE6, CHR 0xAD, CHR 0xA3, CHR 0xE5, CHR 0x9C, CHR 0xA8, CHR 0xE5, CHR 0x8A, CHR 0xA0, CHR 0xE8,
        CHR 0xBD, CHR 0xBD, CHR 0xE8, CHR 0xB6, CHR 0x8B, CHR 0xE5, CHR 0x8A, CHR 0xBF, CHR 0x2E, CHR 0x2E,
        CHR 0x2E]),
     (''adminDevicePropertyTrendFailed'', [
        CHR 0xE5, CHR 0x8E, CHR 0x86, CHR 0xE5, CHR 0x8F, CHR 0xB2, CHR 0xE8, CHR 0xB6, CHR 0x8B, CHR 0xE5,
        CHR 0x8A, CHR 0xBF, CHR 0xE5, CHR 0x8A, CHR 0xA0, CHR 0xE8, CHR 0xBD, CHR 0xBD, CHR 0xE5, CHR 0xA4,
        CHR 0xB1, CHR 0xE8, CHR 0xB4, CHR 0xA5]),
     (''adminDevicePropertyTrendSeries'', [CHR 0xE8, CHR 0xB6, CHR 0x8B, CHR 0xE5, CHR 0x8A, CHR 0xBF, CHR 0xE7, CHR 0xBA, CHR 0xBF]),
     (''adminDevicePropertyTrendPoints'', [
        CHR 0x7B, CHR 0x63, CHR 0x6F, CHR 0x75, CHR 0x6E, CHR 0x74, CHR 0x7D, CHR 0x20, CHR 0xE4, CHR 0xB8,
        CHR 0xAA, CHR 0xE7, CHR 0x82, CHR 0xB9]),
     (''adminDevicePropertyTrendBucketSeconds'', ''{seconds}s''),
     (''adminDevicePropertyTrendBucketMinutes'', ''{minutes}m''),
     (''adminDevicePropertyTrendAggregateAvg'', [CHR 0xE5, CHR 0xB9, CHR 0xB3, CHR 0xE5, CHR 0x9D, CHR 0x87, CHR 0xE5, CHR 0x80, CHR 0xBC]),
     (''adminDevicePropertyTrendAggregateMin'', [CHR 0xE6, CHR 0x9C, CHR 0x80, CHR 0xE5, CHR 0xB0, CHR 0x8F, CHR 0xE5, CHR 0x80, CHR 0xBC]),
     (''adminDevicePropertyTrendAggregateMax'', [CHR 0xE6, CHR 0x9C, CHR 0x80, CHR 0xE5, CHR 0xA4, CHR 0xA7, CHR 0xE5, CHR 0x80, CHR 0xBC]),
     (''adminDevicePropertyTrendAggregateLast'', [CHR 0xE6, CHR 0x9C, CHR 0x80, CHR 0xE5, CHR 0x90, CHR 0x8E, CHR 0xE5, CHR 0x80, CHR 0xBC]),
     (''adminDevicePropertyLatestFailed'', [
        CHR 0xE6, CHR 0x9C, CHR 0x80, CHR 0xE6, CHR 0x96, CHR 0xB0, CHR 0xE5, CHR 0xB1, CHR 0x9E, CHR 0xE6,
        CHR 0x80, CHR 0xA7, CHR 0xE5, CHR 0x8A, CHR 0xA0, CHR 0xE8, CHR 0xBD, CHR 0xBD, CHR 0xE5, CHR 0xA4,
        CHR 0xB1, CHR 0xE8, CHR 0xB4, CHR 0xA5]),
     (''adminDevicePropertySetTab'', [
        CHR 0xE5, CHR 0xB1, CHR 0x9E, CHR 0xE6, CHR 0x80, CHR 0xA7, CHR 0xE4, CHR 0xB8, CHR 0x8B, CHR 0xE5,
        CHR 0x8F, CHR 0x91]),
     (''adminDevicePropertySetTitle'', [
        CHR 0xE5, CHR 0xB1, CHR 0x9E, CHR 0xE6, CHR 0x80, CHR 0xA7, CHR 0xE8, CHR 0xAE, CHR 0xBE, CHR 0xE7,
        CHR 0xBD, CHR 0xAE]),
     (''adminDevicePropertySetPayload'', [
        CHR 0xE5, CHR 0xB1, CHR 0x9E, CHR 0xE6, CHR 0x80, CHR 0xA7, CHR 0x20, CHR 0x4A, CHR 0x53, CHR 0x4F,
        CHR 0x4E]),
     (''adminDevicePropertySetSend'', [
        CHR 0xE4, CHR 0xB8, CHR 0x8B, CHR 0xE5, CHR 0x8F, CHR 0x91, CHR 0xE5, CHR 0xB1, CHR 0x9E, CHR 0xE6,
        CHR 0x80, CHR 0xA7]),
     (''adminDevicePropertySetting'', [CHR 0xE4, CHR 0xB8, CHR 0x8B, CHR 0xE5, CHR 0x8F, CHR 0x91, CHR 0xE4, CHR 0xB8, CHR 0xAD]),
     (''adminDevicePropertySetSuccess'', [
        CHR 0xE5, CHR 0xB1, CHR 0x9E, CHR 0xE6, CHR 0x80, CHR 0xA7, CHR 0xE5, CHR 0xB7, CHR 0xB2, CHR 0xE4,
        CHR 0xB8, CHR 0x8B, CHR 0xE5, CHR 0x8F, CHR 0x91]),
     (''adminDevicePropertySetFailed'', [
        CHR 0xE5, CHR 0xB1, CHR 0x9E, CHR 0xE6, CHR 0x80, CHR 0xA7, CHR 0xE4, CHR 0xB8, CHR 0x8B, CHR 0xE5,
        CHR 0x8F, CHR 0x91, CHR 0xE5, CHR 0xA4, CHR 0xB1, CHR 0xE8, CHR 0xB4, CHR 0xA5]),
     (''adminDevicePropertySetResult'', [
        CHR 0xE4, CHR 0xB8, CHR 0x8B, CHR 0xE5, CHR 0x8F, CHR 0x91, CHR 0xE7, CHR 0xBB, CHR 0x93, CHR 0xE6,
        CHR 0x9E, CHR 0x9C])]"

definition admin_zh_partd :: "(string \<times> string) list" where
  "admin_zh_partd = [
     (''adminDevicePropertySetPayloadMustObject'', [
        CHR 0xE5, CHR 0xB1, CHR 0x9E, CHR 0xE6, CHR 0x80, CHR 0xA7, CHR 0xE5, CHR 0x86, CHR 0x85, CHR 0xE5,
        CHR 0xAE, CHR 0xB9, CHR 0xE5, CHR 0xBF, CHR 0x85, CHR 0xE9, CHR 0xA1, CHR 0xBB, CHR 0xE6, CHR 0x98,
        CHR 0xAF, CHR 0x20, CHR 0x4A, CHR 0x53, CHR 0x4F, CHR 0x4E, CHR 0x20, CHR 0xE5, CHR 0xAF, CHR 0xB9,
        CHR 0xE8, CHR 0xB1, CHR 0xA1]),
     (''adminDevicePropertySetInvalidPayload'', [
        CHR 0xE5, CHR 0xB1, CHR 0x9E, CHR 0xE6, CHR 0x80, CHR 0xA7, CHR 0xE5, CHR 0x86, CHR 0x85, CHR 0xE5,
        CHR 0xAE, CHR 0xB9, CHR 0xE4, CHR 0xB8, CHR 0x8D, CHR 0xE6, CHR 0x98, CHR 0xAF, CHR 0xE6, CHR 0x9C,
        CHR 0x89, CHR 0xE6, CHR 0x95, CHR 0x88, CHR 0x20, CHR 0x4A, CHR 0x53, CHR 0x4F, CHR 0x4E]),
     (''adminDevicePropertyWritableProperties'', [
        CHR 0xE5, CHR 0x8F, CHR 0xAF, CHR 0xE5, CHR 0x86, CHR 0x99, CHR 0xE5, CHR 0xB1, CHR 0x9E, CHR 0xE6,
        CHR 0x80, CHR 0xA7]),
     (''adminDevicePropertyWritableCount'', [
        CHR 0x7B, CHR 0x63, CHR 0x6F, CHR 0x75, CHR 0x6E, CHR 0x74, CHR 0x7D, CHR 0x20, CHR 0xE4, CHR 0xB8,
        CHR 0xAA, CHR 0xE5, CHR 0x8F, CHR 0xAF, CHR 0xE5, CHR 0x86, CHR 0x99, CHR 0xE5, CHR 0xB1, CHR 0x9E,
        CHR 0xE6, CHR 0x80, CHR 0xA7]),
     (''adminDevicePropertySetNoWritable'', [
        CHR 0xE5, CHR 0xBD, CHR 0x93, CHR 0xE5, CHR 0x89, CHR 0x8D, CHR 0xE7, CHR 0x89, CHR 0xA9, CHR 0xE6,
        CHR 0xA8, CHR 0xA1, CHR 0xE5, CHR 0x9E, CHR 0x8B, CHR 0xE6, CHR 0xB2, CHR 0xA1, CHR 0xE6, CHR 0x9C,
        CHR 0x89, CHR 0xE5, CHR 0x8F, CHR 0xAF, CHR 0xE5, CHR 0x86, CHR 0x99, CHR 0xE5, CHR 0xB1, CHR 0x9E,
        CHR 0xE6, CHR 0x80, CHR 0xA7]),
     (''adminDevicePropertySetHistoryTab'', [
        CHR 0xE4, CHR 0xB8, CHR 0x8B, CHR 0xE5, CHR 0x8F, CHR 0x91, CHR 0xE5, CHR 0x8E, CHR 0x86, CHR 0xE5,
        CHR 0x8F, CHR 0xB2]),
     (''adminDevicePropertySetHistoryReload'', [
        CHR 0xE5, CHR 0x88, CHR 0xB7, CHR 0xE6, CHR 0x96, CHR 0xB0, CHR 0xE4, CHR 0xB8, CHR 0x8B, CHR 0xE5,
        CHR 0x8F, CHR 0x91, CHR 0xE5, CHR 0x8E, CHR 0x86, CHR 0xE5, CHR 0x8F, CHR 0xB2]),
     (''adminDevicePropertySetHistoryLoading'', [
        CHR 0xE6, CHR 0xAD, CHR 0xA3, CHR 0xE5, CHR 0x9C, CHR 0xA8, CHR 0xE5, CHR 0x8A, CHR 0xA0, CHR 0xE8,
        CHR 0xBD, CHR 0xBD, CHR 0xE4, CHR 0xB8, CHR 0x8B, CHR 0xE5, CHR 0x8F, CHR 0x91, CHR 0xE5, CHR 0x8E,
        CHR 0x86, CHR 0xE5, CHR 0x8F, CHR 0xB2, CHR 0x2E, CHR 0x2E, CHR 0x2E]),
     (''adminDevicePropertySetHistoryEmpty'', [
        CHR 0xE6, CHR 0x9A, CHR 0x82, CHR 0xE6, CHR 0x97, CHR 0xA0, CHR 0xE5, CHR 0xB1, CHR 0x9E, CHR 0xE6,
        CHR 0x80, CHR 0xA7, CHR 0xE4, CHR 0xB8, CHR 0x8B, CHR 0xE5, CHR 0x8F, CHR 0x91, CHR 0xE5, CHR 0x8E,
        CHR 0x86, CHR 0xE5, CHR 0x8F, CHR 0xB2]),
     (''adminDevicePropertySetHistoryFailed'', [
        CHR 0xE5, CHR 0xB1, CHR 0x9E, CHR 0xE6, CHR 0x80, CHR 0xA7, CHR 0xE4, CHR 0xB8, CHR 0x8B, CHR 0xE5,
        CHR 0x8F, CHR 0x91, CHR 0xE5, CHR 0x8E, CHR 0x86, CHR 0xE5, CHR 0x8F, CHR 0xB2, CHR 0xE5, CHR 0x8A,
        CHR 0xA0, CHR 0xE8, CHR 0xBD, CHR 0xBD, CHR 0xE5, CHR 0xA4, CHR 0xB1, CHR 0xE8, CHR 0xB4, CHR 0xA5]),
     (''adminDevicePropertySetHistoryTotal'', [
        CHR 0xE5, CHR 0x85, CHR 0xB1, CHR 0x20, CHR 0x7B, CHR 0x74, CHR 0x6F, CHR 0x74, CHR 0x61, CHR 0x6C,
        CHR 0x7D, CHR 0x20, CHR 0xE6, CHR 0x9D, CHR 0xA1, CHR 0xE4, CHR 0xB8, CHR 0x8B, CHR 0xE5, CHR 0x8F,
        CHR 0x91]),
     (''adminDevicePropertySetHistoryPage'', [
        CHR 0xE7, CHR 0xAC, CHR 0xAC, CHR 0x20, CHR 0x7B, CHR 0x70, CHR 0x61, CHR 0x67, CHR 0x65, CHR 0x7D,
        CHR 0x20, CHR 0x2F, CHR 0x20, CHR 0x7B, CHR 0x74, CHR 0x6F, CHR 0x74, CHR 0x61, CHR 0x6C, CHR 0x50,
        CHR 0x61, CHR 0x67, CHR 0x65, CHR 0x73, CHR 0x7D, CHR 0x20, CHR 0xE9, CHR 0xA1, CHR 0xB5]),
     (''adminDevicePropertySetPropertyName'', [CHR 0xE5, CHR 0xB1, CHR 0x9E, CHR 0xE6, CHR 0x80, CHR 0xA7, CHR 0xE5, CHR 0x90, CHR 0x8D]),
     (''adminDevicePropertySetAllProperties'', [
        CHR 0xE5, CHR 0x85, CHR 0xA8, CHR 0xE9, CHR 0x83, CHR 0xA8, CHR 0xE5, CHR 0xB1, CHR 0x9E, CHR 0xE6,
        CHR 0x80, CHR 0xA7]),
     (''adminDevicePropertySetAckProperties'', [CHR 0x41, CHR 0x43, CHR 0x4B, CHR 0x20, CHR 0xE5, CHR 0xB1, CHR 0x9E, CHR 0xE6, CHR 0x80, CHR 0xA7]),
     (''adminDevicePropertySetCommand'', [
        CHR 0xE4, CHR 0xB8, CHR 0x8B, CHR 0xE5, CHR 0x8F, CHR 0x91, CHR 0xE5, CHR 0x91, CHR 0xBD, CHR 0xE4,
        CHR 0xBB, CHR 0xA4]),
     (''adminDeviceEventTab'', [
        CHR 0xE4, CHR 0xBA, CHR 0x8B, CHR 0xE4, CHR 0xBB, CHR 0xB6, CHR 0xE4, CHR 0xB8, CHR 0x8A, CHR 0xE6,
        CHR 0x8A, CHR 0xA5]),
     (''adminDeviceEventHistoryTab'', [
        CHR 0xE4, CHR 0xBA, CHR 0x8B, CHR 0xE4, CHR 0xBB, CHR 0xB6, CHR 0xE5, CHR 0x8E, CHR 0x86, CHR 0xE5,
        CHR 0x8F, CHR 0xB2]),
     (''adminDeviceEventName'', [
        CHR 0xE4, CHR 0xBA, CHR 0x8B, CHR 0xE4, CHR 0xBB, CHR 0xB6, CHR 0xE5, CHR 0x90, CHR 0x8D, CHR 0xE7,
        CHR 0xA7, CHR 0xB0]),
     (''adminDeviceEventAllEvents'', [
        CHR 0xE5, CHR 0x85, CHR 0xA8, CHR 0xE9, CHR 0x83, CHR 0xA8, CHR 0xE4, CHR 0xBA, CHR 0x8B, CHR 0xE4,
        CHR 0xBB, CHR 0xB6]),
     (''adminDeviceEventParams'', [
        CHR 0xE4, CHR 0xBA, CHR 0x8B, CHR 0xE4, CHR 0xBB, CHR 0xB6, CHR 0xE5, CHR 0x8F, CHR 0x82, CHR 0xE6,
        CHR 0x95, CHR 0xB0]),
     (''adminDeviceEventLoadHistory'', [
        CHR 0xE5, CHR 0x88, CHR 0xB7, CHR 0xE6, CHR 0x96, CHR 0xB0, CHR 0xE4, CHR 0xBA, CHR 0x8B, CHR 0xE4,
        CHR 0xBB, CHR 0xB6]),
     (''adminDeviceEventLoadingHistory'', [
        CHR 0xE6, CHR 0xAD, CHR 0xA3, CHR 0xE5, CHR 0x9C, CHR 0xA8, CHR 0xE5, CHR 0x8A, CHR 0xA0, CHR 0xE8,
        CHR 0xBD, CHR 0xBD, CHR 0xE4, CHR 0xBA, CHR 0x8B, CHR 0xE4, CHR 0xBB, CHR 0xB6, CHR 0x2E, CHR 0x2E,
        CHR 0x2E]),
     (''adminDeviceEventHistoryEmpty'', [
        CHR 0xE6, CHR 0x9A, CHR 0x82, CHR 0xE6, CHR 0x97, CHR 0xA0, CHR 0xE4, CHR 0xBA, CHR 0x8B, CHR 0xE4,
        CHR 0xBB, CHR 0xB6, CHR 0xE4, CHR 0xB8, CHR 0x8A, CHR 0xE6, CHR 0x8A, CHR 0xA5]),
     (''adminDeviceEventHistoryFailed'', [
        CHR 0xE4, CHR 0xBA, CHR 0x8B, CHR 0xE4, CHR 0xBB, CHR 0xB6, CHR 0xE4, CHR 0xB8, CHR 0x8A, CHR 0xE6,
        CHR 0x8A, CHR 0xA5, CHR 0xE5, CHR 0x8A, CHR 0xA0, CHR 0xE8, CHR 0xBD, CHR 0xBD, CHR 0xE5, CHR 0xA4,
        CHR 0xB1, CHR 0xE8, CHR 0xB4, CHR 0xA5]),
     (''adminDeviceEventTotal'', [
        CHR 0xE5, CHR 0x85, CHR 0xB1, CHR 0x20, CHR 0x7B, CHR 0x74, CHR 0x6F, CHR 0x74, CHR 0x61, CHR 0x6C,
        CHR 0x7D, CHR 0x20, CHR 0xE6, CHR 0x9D, CHR 0xA1, CHR 0xE4, CHR 0xBA, CHR 0x8B, CHR 0xE4, CHR 0xBB,
        CHR 0xB6]),
     (''adminDeviceEventPage'', [
        CHR 0xE7, CHR 0xAC, CHR 0xAC, CHR 0x20, CHR 0x7B, CHR 0x70, CHR 0x61, CHR 0x67, CHR 0x65, CHR 0x7D,
        CHR 0x20, CHR 0x2F, CHR 0x20, CHR 0x7B, CHR 0x74, CHR 0x6F, CHR 0x74, CHR 0x61, CHR 0x6C, CHR 0x50,
        CHR 0x61, CHR 0x67, CHR 0x65, CHR 0x73, CHR 0x7D, CHR 0x20, CHR 0xE9, CHR 0xA1, CHR 0xB5]),
     (''adminDeviceServiceTab'', [
        CHR 0xE6, CHR 0x9C, CHR 0x8D, CHR 0xE5, CHR 0x8A, CHR 0xA1, CHR 0xE8, CHR 0xB0, CHR 0x83, CHR 0xE7,
        CHR 0x94, CHR 0xA8]),
     (''adminDeviceServiceName'', [
        CHR 0xE6, CHR 0x9C, CHR 0x8D, CHR 0xE5, CHR 0x8A, CHR 0xA1, CHR 0xE5, CHR 0x90, CHR 0x8D, CHR 0xE7,
        CHR 0xA7, CHR 0xB0]),
     (''adminDeviceServiceNoService'', [
        CHR 0xE5, CHR 0xBD, CHR 0x93, CHR 0xE5, CHR 0x89, CHR 0x8D, CHR 0xE7, CHR 0x89, CHR 0xA9, CHR 0xE6,
        CHR 0xA8, CHR 0xA1, CHR 0xE5, CHR 0x9E, CHR 0x8B, CHR 0xE6, CHR 0xB2, CHR 0xA1, CHR 0xE6, CHR 0x9C,
        CHR 0x89, CHR 0xE5, CHR 0x8F, CHR 0xAF, CHR 0xE8, CHR 0xB0, CHR 0x83, CHR 0xE7, CHR 0x94, CHR 0xA8,
        CHR 0xE6, CHR 0x9C, CHR 0x8D, CHR 0xE5, CHR 0x8A, CHR 0xA1]),
     (''adminDeviceServiceNoCurrentModel'', [
        CHR 0xE6, CHR 0x9A, CHR 0x82, CHR 0xE6, CHR 0x97, CHR 0xA0, CHR 0xE5, CHR 0xBD, CHR 0x93, CHR 0xE5,
        CHR 0x89, CHR 0x8D, CHR 0xE7, CHR 0x89, CHR 0xA9, CHR 0xE6, CHR 0xA8, CHR 0xA1, CHR 0xE5, CHR 0x9E,
        CHR 0x8B]),
     (''adminDeviceServiceInput'', [
        CHR 0xE6, CHR 0x9C, CHR 0x8D, CHR 0xE5, CHR 0x8A, CHR 0xA1, CHR 0xE5, CHR 0x85, CHR 0xA5, CHR 0xE5,
        CHR 0x8F, CHR 0x82]),
     (''adminDeviceServiceInputParams'', [
        CHR 0xE5, CHR 0x85, CHR 0xA5, CHR 0xE5, CHR 0x8F, CHR 0x82, CHR 0xE8, CHR 0xA1, CHR 0xA8, CHR 0xE5,
        CHR 0x8D, CHR 0x95]),
     (''adminDeviceServiceInputParamsEmpty'', [
        CHR 0xE5, CHR 0xBD, CHR 0x93, CHR 0xE5, CHR 0x89, CHR 0x8D, CHR 0xE6, CHR 0xB2, CHR 0xA1, CHR 0xE6,
        CHR 0x9C, CHR 0x89, CHR 0xE5, CHR 0x85, CHR 0xA5, CHR 0xE5, CHR 0x8F, CHR 0x82, CHR 0xEF, CHR 0xBC,
        CHR 0x8C, CHR 0xE8, CHR 0xB0, CHR 0x83, CHR 0xE7, CHR 0x94, CHR 0xA8, CHR 0xE6, CHR 0x97, CHR 0xB6,
        CHR 0xE4, CHR 0xBC, CHR 0x9A, CHR 0xE5, CHR 0x8F, CHR 0x91, CHR 0xE9, CHR 0x80, CHR 0x81, CHR 0xE7,
        CHR 0xA9, CHR 0xBA, CHR 0xE5, CHR 0xAF, CHR 0xB9, CHR 0xE8, CHR 0xB1, CHR 0xA1, CHR 0xE3, CHR 0x80,
        CHR 0x82]),
     (''adminDeviceServiceAddInputParam'', [
        CHR 0xE6, CHR 0xB7, CHR 0xBB, CHR 0xE5, CHR 0x8A, CHR 0xA0, CHR 0xE5, CHR 0x8F, CHR 0x82, CHR 0xE6,
        CHR 0x95, CHR 0xB0]),
     (''adminDeviceServiceRemoveInputParam'', [
        CHR 0xE7, CHR 0xA7, CHR 0xBB, CHR 0xE9, CHR 0x99, CHR 0xA4, CHR 0xE5, CHR 0x8F, CHR 0x82, CHR 0xE6,
        CHR 0x95, CHR 0xB0]),
     (''adminDeviceServiceParamName'', [CHR 0xE5, CHR 0x8F, CHR 0x82, CHR 0xE6, CHR 0x95, CHR 0xB0, CHR 0xE5, CHR 0x90, CHR 0x8D]),
     (''adminDeviceServiceParamType'', [CHR 0xE7, CHR 0xB1, CHR 0xBB, CHR 0xE5, CHR 0x9E, CHR 0x8B]),
     (''adminDeviceServiceParamValue'', [CHR 0xE5, CHR 0x8F, CHR 0x82, CHR 0xE6, CHR 0x95, CHR 0xB0, CHR 0xE5, CHR 0x80, CHR 0xBC]),
     (''adminDeviceServiceGeneratedInput'', [
        CHR 0xE7, CHR 0x94, CHR 0x9F, CHR 0xE6, CHR 0x88, CHR 0x90, CHR 0x20, CHR 0x4A, CHR 0x53, CHR 0x4F,
        CHR 0x4E]),
     (''adminDeviceServiceInputDefinition'', [
        CHR 0xE5, CHR 0x85, CHR 0xA5, CHR 0xE5, CHR 0x8F, CHR 0x82, CHR 0xE5, CHR 0xAE, CHR 0x9A, CHR 0xE4,
        CHR 0xB9, CHR 0x89]),
     (''adminDeviceServiceNoInputDefinition'', [
        CHR 0xE5, CHR 0xBD, CHR 0x93, CHR 0xE5, CHR 0x89, CHR 0x8D, CHR 0xE6, CHR 0x9C, CHR 0x8D, CHR 0xE5,
        CHR 0x8A, CHR 0xA1, CHR 0xE6, CHR 0xB2, CHR 0xA1, CHR 0xE6, CHR 0x9C, CHR 0x89, CHR 0xE5, CHR 0xAE,
        CHR 0x9A, CHR 0xE4, CHR 0xB9, CHR 0x89, CHR 0xE5, CHR 0x85, CHR 0xA5, CHR 0xE5, CHR 0x8F, CHR 0x82,
        CHR 0xE3, CHR 0x80, CHR 0x82]),
     (''adminDeviceServiceInputMustObject'', [
        CHR 0xE6, CHR 0x9C, CHR 0x8D, CHR 0xE5, CHR 0x8A, CHR 0xA1, CHR 0xE5, CHR 0x85, CHR 0xA5, CHR 0xE5,
        CHR 0x8F, CHR 0x82, CHR 0xE5, CHR 0xBF, CHR 0x85, CHR 0xE9, CHR 0xA1, CHR 0xBB, CHR 0xE6, CHR 0x98,
        CHR 0xAF, CHR 0x20, CHR 0x4A, CHR 0x53, CHR 0x4F, CHR 0x4E, CHR 0x20, CHR 0xE5, CHR 0xAF, CHR 0xB9,
        CHR 0xE8, CHR 0xB1, CHR 0xA1]),
     (''adminDeviceServiceInvalidInput'', [
        CHR 0xE6, CHR 0x9C, CHR 0x8D, CHR 0xE5, CHR 0x8A, CHR 0xA1, CHR 0xE5, CHR 0x85, CHR 0xA5, CHR 0xE5,
        CHR 0x8F, CHR 0x82, CHR 0xE4, CHR 0xB8, CHR 0x8D, CHR 0xE6, CHR 0x98, CHR 0xAF, CHR 0xE6, CHR 0x9C,
        CHR 0x89, CHR 0xE6, CHR 0x95, CHR 0x88, CHR 0x20, CHR 0x4A, CHR 0x53, CHR 0x4F, CHR 0x4E]),
     (''adminDeviceServiceCall'', [
        CHR 0xE8, CHR 0xB0, CHR 0x83, CHR 0xE7, CHR 0x94, CHR 0xA8, CHR 0xE6, CHR 0x9C, CHR 0x8D, CHR 0xE5,
        CHR 0x8A, CHR 0xA1]),
     (''adminDeviceServiceCalling'', [CHR 0xE8, CHR 0xB0, CHR 0x83, CHR 0xE7, CHR 0x94, CHR 0xA8, CHR 0xE4, CHR 0xB8, CHR 0xAD]),
     (''adminDeviceServiceCallSuccess'', [
        CHR 0xE6, CHR 0x9C, CHR 0x8D, CHR 0xE5, CHR 0x8A, CHR 0xA1, CHR 0xE8, CHR 0xB0, CHR 0x83, CHR 0xE7,
        CHR 0x94, CHR 0xA8, CHR 0xE5, CHR 0xB7, CHR 0xB2, CHR 0xE4, CHR 0xB8, CHR 0x8B, CHR 0xE5, CHR 0x8F,
        CHR 0x91]),
     (''adminDeviceServiceCallFailed'', [
        CHR 0xE6, CHR 0x9C, CHR 0x8D, CHR 0xE5, CHR 0x8A, CHR 0xA1, CHR 0xE8, CHR 0xB0, CHR 0x83, CHR 0xE7,
        CHR 0x94, CHR 0xA8, CHR 0xE5, CHR 0xA4, CHR 0xB1, CHR 0xE8, CHR 0xB4, CHR 0xA5]),
     (''adminDeviceServiceResult'', [
        CHR 0xE8, CHR 0xB0, CHR 0x83, CHR 0xE7, CHR 0x94, CHR 0xA8, CHR 0xE7, CHR 0xBB, CHR 0x93, CHR 0xE6,
        CHR 0x9E, CHR 0x9C]),
     (''adminDeviceServiceDispatched'', [CHR 0xE5, CHR 0xB7, CHR 0xB2, CHR 0xE4, CHR 0xB8, CHR 0x8B, CHR 0xE5, CHR 0x8F, CHR 0x91]),
     (''adminDeviceServiceTopic'', ''MQTT Topic''),
     (''adminDeviceServiceSentAt'', [
        CHR 0xE4, CHR 0xB8, CHR 0x8B, CHR 0xE5, CHR 0x8F, CHR 0x91, CHR 0xE6, CHR 0x97, CHR 0xB6, CHR 0xE9,
        CHR 0x97, CHR 0xB4]),
     (''adminDeviceServiceHistoryTab'', [
        CHR 0xE6, CHR 0x9C, CHR 0x8D, CHR 0xE5, CHR 0x8A, CHR 0xA1, CHR 0xE5, CHR 0x8E, CHR 0x86, CHR 0xE5,
        CHR 0x8F, CHR 0xB2]),
     (''adminDeviceServiceHistoryReload'', [
        CHR 0xE5, CHR 0x88, CHR 0xB7, CHR 0xE6, CHR 0x96, CHR 0xB0, CHR 0xE6, CHR 0x9C, CHR 0x8D, CHR 0xE5,
        CHR 0x8A, CHR 0xA1, CHR 0xE5, CHR 0x8E, CHR 0x86, CHR 0xE5, CHR 0x8F, CHR 0xB2]),
     (''adminDeviceServiceHistoryLoading'', [
        CHR 0xE6, CHR 0xAD, CHR 0xA3, CHR 0xE5, CHR 0x9C, CHR 0xA8, CHR 0xE5, CHR 0x8A, CHR 0xA0, CHR 0xE8,
        CHR 0xBD, CHR 0xBD, CHR 0xE6, CHR 0x9C, CHR 0x8D, CHR 0xE5, CHR 0x8A, CHR 0xA1, CHR 0xE5, CHR 0x8E,
        CHR 0x86, CHR 0xE5, CHR 0x8F, CHR 0xB2, CHR 0x2E, CHR 0x2E, CHR 0x2E]),
     (''adminDeviceServiceHistoryEmpty'', [
        CHR 0xE6, CHR 0x9A, CHR 0x82, CHR 0xE6, CHR 0x97, CHR 0xA0, CHR 0xE6, CHR 0x9C, CHR 0x8D, CHR 0xE5,
        CHR 0x8A, CHR 0xA1, CHR 0xE8, CHR 0xB0, CHR 0x83, CHR 0xE7, CHR 0x94, CHR 0xA8, CHR 0xE5, CHR 0x8E,
        CHR 0x86, CHR 0xE5, CHR 0x8F, CHR 0xB2]),
     (''adminDeviceServiceHistoryFailed'', [
        CHR 0xE6, CHR 0x9C, CHR 0x8D, CHR 0xE5, CHR 0x8A, CHR 0xA1, CHR 0xE5, CHR 0x8E, CHR 0x86, CHR 0xE5,
        CHR 0x8F, CHR 0xB2, CHR 0xE5, CHR 0x8A, CHR 0xA0, CHR 0xE8, CHR 0xBD, CHR 0xBD, CHR 0xE5, CHR 0xA4,
        CHR 0xB1, CHR 0xE8, CHR 0xB4, CHR 0xA5]),
     (''adminDeviceServiceHistoryTotal'', [
        CHR 0xE5, CHR 0x85, CHR 0xB1, CHR 0x20, CHR 0x7B, CHR 0x74, CHR 0x6F, CHR 0x74, CHR 0x61, CHR 0x6C,
        CHR 0x7D, CHR 0x20, CHR 0xE6, CHR 0x9D, CHR 0xA1, CHR 0xE8, CHR 0xB0, CHR 0x83, CHR 0xE7, CHR 0x94,
        CHR 0xA8]),
     (''adminDeviceServiceHistoryPage'', [
        CHR 0xE7, CHR 0xAC, CHR 0xAC, CHR 0x20, CHR 0x7B, CHR 0x70, CHR 0x61, CHR 0x67, CHR 0x65, CHR 0x7D,
        CHR 0x20, CHR 0x2F, CHR 0x20, CHR 0x7B, CHR 0x74, CHR 0x6F, CHR 0x74, CHR 0x61, CHR 0x6C, CHR 0x50,
        CHR 0x61, CHR 0x67, CHR 0x65, CHR 0x73, CHR 0x7D, CHR 0x20, CHR 0xE9, CHR 0xA1, CHR 0xB5]),
     (''adminDeviceServiceAllServices'', [
        CHR 0xE5, CHR 0x85, CHR 0xA8, CHR 0xE9, CHR 0x83, CHR 0xA8, CHR 0xE6, CHR 0x9C, CHR 0x8D, CHR 0xE5,
        CHR 0x8A, CHR 0xA1]),
     (''adminDeviceServiceAckStatus'', [CHR 0x41, CHR 0x43, CHR 0x4B, CHR 0x20, CHR 0xE7, CHR 0x8A, CHR 0xB6, CHR 0xE6, CHR 0x80, CHR 0x81]),
     (''adminDeviceServiceAckSuccess'', [CHR 0xE6, CHR 0x88, CHR 0x90, CHR 0xE5, CHR 0x8A, CHR 0x9F]),
     (''adminDeviceServiceAckFailed'', [CHR 0xE5, CHR 0xA4, CHR 0xB1, CHR 0xE8, CHR 0xB4, CHR 0xA5]),
     (''adminDeviceServiceAckPending'', [CHR 0xE5, CHR 0xBE, CHR 0x85, CHR 0xE5, CHR 0xAE, CHR 0x9A]),
     (''adminDeviceServiceAckAt'', [CHR 0x41, CHR 0x43, CHR 0x4B, CHR 0x20, CHR 0xE6, CHR 0x97, CHR 0xB6, CHR 0xE9, CHR 0x97, CHR 0xB4]),
     (''adminDeviceServiceAckOutput'', [CHR 0x41, CHR 0x43, CHR 0x4B, CHR 0x20, CHR 0xE8, CHR 0xBE, CHR 0x93, CHR 0xE5, CHR 0x87, CHR 0xBA]),
     (''adminDeviceServiceAckDeadline'', ''ACK DDL''),
     (''adminDeviceServiceAckDeadlineSeconds'', ''{seconds}s''),
     (''adminAuditAction'', [CHR 0xE5, CHR 0x8A, CHR 0xA8, CHR 0xE4, CHR 0xBD, CHR 0x9C]),
     (''adminAuditResource'', [CHR 0xE8, CHR 0xB5, CHR 0x84, CHR 0xE6, CHR 0xBA, CHR 0x90]),
     (''adminAuditResult'', [CHR 0xE7, CHR 0xBB, CHR 0x93, CHR 0xE6, CHR 0x9E, CHR 0x9C]),
     (''adminAuditResultSuccess'', [CHR 0xE6, CHR 0x88, CHR 0x90, CHR 0xE5, CHR 0x8A, CHR 0x9F]),
     (''adminAuditResultFailure'', [CHR 0xE5, CHR 0xA4, CHR 0xB1, CHR 0xE8, CHR 0xB4, CHR 0xA5]),
     (''adminAuditMethod'', [CHR 0xE6, CHR 0x96, CHR 0xB9, CHR 0xE6, CHR 0xB3, CHR 0x95]),
     (''adminAuditPath'', [CHR 0xE8, CHR 0xB7, CHR 0xAF, CHR 0xE5, CHR 0xBE, CHR 0x84]),
     (''adminAuditStatusCode'', [CHR 0xE7, CHR 0x8A, CHR 0xB6, CHR 0xE6, CHR 0x80, CHR 0x81, CHR 0xE7, CHR 0xA0, CHR 0x81]),
     (''adminAuditDuration'', [CHR 0xE8, CHR 0x80, CHR 0x97, CHR 0xE6, CHR 0x97, CHR 0xB6]),
     (''adminAuditDurationValue'', ''{duration} ms''),
     (''adminAuditMetadata'', ''Metadata''),
     (''adminAuditCreatedAt'', [
        CHR 0xE5, CHR 0x88, CHR 0x9B, CHR 0xE5, CHR 0xBB, CHR 0xBA, CHR 0xE6, CHR 0x97, CHR 0xB6, CHR 0xE9,
        CHR 0x97, CHR 0xB4]),
     (''adminAuditActions'', [CHR 0xE6, CHR 0x93, CHR 0x8D, CHR 0xE4, CHR 0xBD, CHR 0x9C]),
     (''adminAuditViewDetail'', [
        CHR 0xE6, CHR 0x9F, CHR 0xA5, CHR 0xE7, CHR 0x9C, CHR 0x8B, CHR 0xE8, CHR 0xAF, CHR 0xA6, CHR 0xE6,
        CHR 0x83, CHR 0x85]),
     (''adminAuditDetailTitle'', [
        CHR 0xE5, CHR 0xAE, CHR 0xA1, CHR 0xE8, CHR 0xAE, CHR 0xA1, CHR 0xE6, CHR 0x97, CHR 0xA5, CHR 0xE5,
        CHR 0xBF, CHR 0x97, CHR 0xE8, CHR 0xAF, CHR 0xA6, CHR 0xE6, CHR 0x83, CHR 0x85]),
     (''adminAuditCloseDetail'', [
        CHR 0xE5, CHR 0x85, CHR 0xB3, CHR 0xE9, CHR 0x97, CHR 0xAD, CHR 0xE8, CHR 0xAF, CHR 0xA6, CHR 0xE6,
        CHR 0x83, CHR 0x85]),
     (''adminAuditDetailBusiness'', [
        CHR 0xE4, CHR 0xB8, CHR 0x9A, CHR 0xE5, CHR 0x8A, CHR 0xA1, CHR 0xE4, CHR 0xBF, CHR 0xA1, CHR 0xE6,
        CHR 0x81, CHR 0xAF]),
     (''adminAuditDetailHttp'', [
        CHR 0x48, CHR 0x54, CHR 0x54, CHR 0x50, CHR 0x20, CHR 0xE8, CHR 0xAF, CHR 0xB7, CHR 0xE6, CHR 0xB1,
        CHR 0x82]),
     (''adminAuditDetailTrace'', [
        CHR 0xE9, CHR 0x93, CHR 0xBE, CHR 0xE8, CHR 0xB7, CHR 0xAF, CHR 0xE4, CHR 0xBF, CHR 0xA1, CHR 0xE6,
        CHR 0x81, CHR 0xAF]),
     (''adminAuditRequestID'', ''Request ID''),
     (''adminAuditTraceID'', ''Trace ID''),
     (''adminAuditIP'', ''IP''),
     (''adminAuditUserAgent'', ''User Agent''),
     (''adminAuditActionDescription'', [
        CHR 0xE6, CHR 0x9C, CHR 0xAC, CHR 0xE6, CHR 0xAC, CHR 0xA1, CHR 0xE5, CHR 0xAE, CHR 0xA1, CHR 0xE8,
        CHR 0xAE, CHR 0xA1, CHR 0xE8, CHR 0xAE, CHR 0xB0, CHR 0xE5, CHR 0xBD, CHR 0x95, CHR 0xE5, CHR 0xAF,
        CHR 0xB9, CHR 0xE5, CHR 0xBA, CHR 0x94, CHR 0xE7, CHR 0x9A, CHR 0x84, CHR 0xE4, CHR 0xB8, CHR 0x9A,
        CHR 0xE5, CHR 0x8A, CHR 0xA1, CHR 0xE5, CHR 0x8A, CHR 0xA8, CHR 0xE4, CHR 0xBD, CHR 0x9C, CHR 0xE3,
        CHR 0x80, CHR 0x82]),
     (''adminAuditResultDescription'', [
        CHR 0xE4, CHR 0xB8, CHR 0x9A, CHR 0xE5, CHR 0x8A, CHR 0xA1, CHR 0xE8, CHR 0xAF, CHR 0xB7, CHR 0xE6,
        CHR 0xB1, CHR 0x82, CHR 0xE6, CHR 0x9C, CHR 0x80, CHR 0xE7, CHR 0xBB, CHR 0x88, CHR 0xE5, CHR 0x86,
        CHR 0x99, CHR 0xE5, CHR 0x85, CHR 0xA5, CHR 0xE5, CHR 0xAE, CHR 0xA1, CHR 0xE8, CHR 0xAE, CHR 0xA1,
        CHR 0xE6, CHR 0x97, CHR 0xA5, CHR 0xE5, CHR 0xBF, CHR 0x97, CHR 0xE7, CHR 0x9A, CHR 0x84, CHR 0xE6,
        CHR 0x89, CHR 0xA7, CHR 0xE8, CHR 0xA1, CHR 0x8C, CHR 0xE7, CHR 0xBB, CHR 0x93, CHR 0xE6, CHR 0x9E,
        CHR 0x9C, CHR 0xE3, CHR 0x80, CHR 0x82]),
     (''adminAuditResourceDescription'', [
        CHR 0xE5, CHR 0x8A, CHR 0xA8, CHR 0xE4, CHR 0xBD, CHR 0x9C, CHR 0xE5, CHR 0xBD, CHR 0xB1, CHR 0xE5,
        CHR 0x93, CHR 0x8D, CHR 0xE7, CHR 0x9A, CHR 0x84, CHR 0xE8, CHR 0xB5, CHR 0x84, CHR 0xE6, CHR 0xBA,
        CHR 0x90, CHR 0xE7, CHR 0xB1, CHR 0xBB, CHR 0xE5, CHR 0x9E, CHR 0x8B, CHR 0xE5, CHR 0x92, CHR 0x8C,
        CHR 0xE8, CHR 0xB5, CHR 0x84, CHR 0xE6, CHR 0xBA, CHR 0x90, CHR 0x20, CHR 0x49, CHR 0x44, CHR 0xE3,
        CHR 0x80, CHR 0x82]),
     (''adminAuditMethodDescription'', [
        CHR 0xE8, CHR 0xA7, CHR 0xA6, CHR 0xE5, CHR 0x8F, CHR 0x91, CHR 0xE6, CHR 0x9C, CHR 0xAC, CHR 0xE6,
        CHR 0xAC, CHR 0xA1, CHR 0xE5, CHR 0xAE, CHR 0xA1, CHR 0xE8, CHR 0xAE, CHR 0xA1, CHR 0xE8, CHR 0xAE,
        CHR 0xB0, CHR 0xE5, CHR 0xBD, CHR 0x95, CHR 0xE7, CHR 0x9A, CHR 0x84, CHR 0x20, CHR 0x48, CHR 0x54,
        CHR 0x54, CHR 0x50, CHR 0x20, CHR 0xE6, CHR 0x96, CHR 0xB9, CHR 0xE6, CHR 0xB3, CHR 0x95, CHR 0xE3,
        CHR 0x80, CHR 0x82]),
     (''adminAuditPathDescription'', [
        CHR 0xE8, CHR 0xA7, CHR 0xA6, CHR 0xE5, CHR 0x8F, CHR 0x91, CHR 0xE6, CHR 0x9C, CHR 0xAC, CHR 0xE6,
        CHR 0xAC, CHR 0xA1, CHR 0xE5, CHR 0xAE, CHR 0xA1, CHR 0xE8, CHR 0xAE, CHR 0xA1, CHR 0xE8, CHR 0xAE,
        CHR 0xB0, CHR 0xE5, CHR 0xBD, CHR 0x95, CHR 0xE7, CHR 0x9A, CHR 0x84, CHR 0xE6, CHR 0x8E, CHR 0xA5,
        CHR 0xE5, CHR 0x8F, CHR 0xA3, CHR 0xE8, CHR 0xB7, CHR 0xAF, CHR 0xE5, CHR 0xBE, CHR 0x84, CHR 0xE3,
        CHR 0x80, CHR 0x82]),
     (''adminAuditStatusDescription'', [
        CHR 0xE6, CHR 0x8E, CHR 0xA5, CHR 0xE5, CHR 0x8F, CHR 0xA3, CHR 0xE8, CHR 0xBF, CHR 0x94, CHR 0xE5,
        CHR 0x9B, CHR 0x9E, CHR 0xE7, CHR 0xBB, CHR 0x99, CHR 0xE5, CHR 0xAE, CHR 0xA2, CHR 0xE6, CHR 0x88,
        CHR 0xB7, CHR 0xE7, CHR 0xAB, CHR 0xAF, CHR 0xE7, CHR 0x9A, CHR 0x84, CHR 0x20, CHR 0x48, CHR 0x54,
        CHR 0x54, CHR 0x50, CHR 0x20, CHR 0xE7, CHR 0x8A, CHR 0xB6, CHR 0xE6, CHR 0x80, CHR 0x81, CHR 0xE7,
        CHR 0xA0, CHR 0x81, CHR 0xE3, CHR 0x80, CHR 0x82]),
     (''adminAuditDurationDescription'', [
        CHR 0xE5, CHR 0x90, CHR 0x8E, CHR 0xE7, CHR 0xAB, CHR 0xAF, CHR 0xE5, CHR 0xA4, CHR 0x84, CHR 0xE7,
        CHR 0x90, CHR 0x86, CHR 0xE6, CHR 0x9C, CHR 0xAC, CHR 0xE6, CHR 0xAC, CHR 0xA1, CHR 0xE8, CHR 0xAF,
        CHR 0xB7, CHR 0xE6, CHR 0xB1, CHR 0x82, CHR 0xE6, CHR 0xB6, CHR 0x88, CHR 0xE8, CHR 0x80, CHR 0x97,
        CHR 0xE7, CHR 0x9A, CHR 0x84, CHR 0xE6, CHR 0x97, CHR 0xB6, CHR 0xE9, CHR 0x97, CHR 0xB4, CHR 0xE3,
        CHR 0x80, CHR 0x82]),
     (''adminAuditCreatedAtDescription'', [
        CHR 0xE5, CHR 0xAE, CHR 0xA1, CHR 0xE8, CHR 0xAE, CHR 0xA1, CHR 0xE6, CHR 0x97, CHR 0xA5, CHR 0xE5,
        CHR 0xBF, CHR 0x97, CHR 0xE5, CHR 0x86, CHR 0x99, CHR 0xE5, CHR 0x85, CHR 0xA5, CHR 0xE6, CHR 0x95,
        CHR 0xB0, CHR 0xE6, CHR 0x8D, CHR 0xAE, CHR 0xE5, CHR 0xBA, CHR 0x93, CHR 0xE7, CHR 0x9A, CHR 0x84,
        CHR 0xE6, CHR 0x97, CHR 0xB6, CHR 0xE9, CHR 0x97, CHR 0xB4, CHR 0xE3, CHR 0x80, CHR 0x82]),
     (''adminAuditRequestIDDescription'', [
        CHR 0xE8, CHR 0xAF, CHR 0xB7, CHR 0xE6, CHR 0xB1, CHR 0x82, CHR 0xE7, CHR 0xBA, CHR 0xA7, CHR 0xE5,
        CHR 0x88, CHR 0xAB, CHR 0xE7, CHR 0x9A, CHR 0x84, CHR 0xE8, CHR 0xBF, CHR 0xBD, CHR 0xE8, CHR 0xB8,
        CHR 0xAA, CHR 0x20, CHR 0x49, CHR 0x44, CHR 0xEF, CHR 0xBC, CHR 0x8C, CHR 0xE4, CHR 0xBE, CHR 0xBF,
        CHR 0xE4, CHR 0xBA, CHR 0x8E, CHR 0xE5, CHR 0xAE, CHR 0x9A, CHR 0xE4, CHR 0xBD, CHR 0x8D, CHR 0xE5,
        CHR 0x8D, CHR 0x95, CHR 0xE6, CHR 0xAC, CHR 0xA1, CHR 0x20, CHR 0x48, CHR 0x54, CHR 0x54, CHR 0x50,
        CHR 0x20, CHR 0xE8, CHR 0xAF, CHR 0xB7, CHR 0xE6, CHR 0xB1, CHR 0x82, CHR 0xE3, CHR 0x80, CHR 0x82]),
     (''adminAuditTraceIDDescription'', [
        CHR 0xE8, CHR 0xB7, CHR 0xA8, CHR 0xE6, CHR 0x9C, CHR 0x8D, CHR 0xE5, CHR 0x8A, CHR 0xA1, CHR 0xE9,
        CHR 0x93, CHR 0xBE, CHR 0xE8, CHR 0xB7, CHR 0xAF, CHR 0xE8, CHR 0xBF, CHR 0xBD, CHR 0xE8, CHR 0xB8,
        CHR 0xAA, CHR 0x20, CHR 0x49, CHR 0x44, CHR 0xEF, CHR 0xBC, CHR 0x8C, CHR 0xE6, CHR 0xB2, CHR 0xA1,
        CHR 0xE6, CHR 0x9C, CHR 0x89, CHR 0xE6, CHR 0x8E, CHR 0xA5, CHR 0xE5, CHR 0x85, CHR 0xA5, CHR 0xE6,
        CHR 0x97, CHR 0xB6, CHR 0xE5, CHR 0x8F, CHR 0xAF, CHR 0xE8, CHR 0x83, CHR 0xBD, CHR 0xE4, CHR 0xB8,
        CHR 0xBA, CHR 0xE7, CHR 0xA9, CHR 0xBA, CHR 0xE3, CHR 0x80, CHR 0x82]),
     (''adminAuditIPDescription'', [
        CHR 0xE5, CHR 0x8F, CHR 0x91, CHR 0xE8, CHR 0xB5, CHR 0xB7, CHR 0xE8, CHR 0xAF, CHR 0xB7, CHR 0xE6,
        CHR 0xB1, CHR 0x82, CHR 0xE7, CHR 0x9A, CHR 0x84, CHR 0xE5, CHR 0xAE, CHR 0xA2, CHR 0xE6, CHR 0x88,
        CHR 0xB7, CHR 0xE7, CHR 0xAB, CHR 0xAF, CHR 0x20, CHR 0x49, CHR 0x50, CHR 0x20, CHR 0xE5, CHR 0x9C,
        CHR 0xB0, CHR 0xE5, CHR 0x9D, CHR 0x80, CHR 0xE3, CHR 0x80, CHR 0x82]),
     (''adminAuditUserAgentDescription'', [
        CHR 0xE5, CHR 0xAE, CHR 0xA2, CHR 0xE6, CHR 0x88, CHR 0xB7, CHR 0xE7, CHR 0xAB, CHR 0xAF, CHR 0xE6,
        CHR 0x8F, CHR 0x90, CHR 0xE4, CHR 0xBA, CHR 0xA4, CHR 0xE7, CHR 0x9A, CHR 0x84, CHR 0x20, CHR 0x55,
        CHR 0x73, CHR 0x65, CHR 0x72, CHR 0x2D, CHR 0x41, CHR 0x67, CHR 0x65, CHR 0x6E, CHR 0x74, CHR 0x20,
        CHR 0xE4, CHR 0xBF, CHR 0xA1, CHR 0xE6, CHR 0x81, CHR 0xAF, CHR 0xE3, CHR 0x80, CHR 0x82]),
     (''adminAuditMetadataDescription'', [
        CHR 0xE4, CHR 0xB8, CHR 0x9A, CHR 0xE5, CHR 0x8A, CHR 0xA1, CHR 0xE5, CHR 0xA4, CHR 0x84, CHR 0xE7,
        CHR 0x90, CHR 0x86, CHR 0xE6, CHR 0x97, CHR 0xB6, CHR 0xE8, CHR 0xA1, CHR 0xA5, CHR 0xE5, CHR 0x85,
        CHR 0x85, CHR 0xE7, CHR 0x9A, CHR 0x84, CHR 0xE7, CHR 0xBB, CHR 0x93, CHR 0xE6, CHR 0x9E, CHR 0x84,
        CHR 0xE5, CHR 0x8C, CHR 0x96, CHR 0xE4, CHR 0xB8, CHR 0x8A, CHR 0xE4, CHR 0xB8, CHR 0x8B, CHR 0xE6,
        CHR 0x96, CHR 0x87, CHR 0xEF, CHR 0xBC, CHR 0x8C, CHR 0xE4, CHR 0xBE, CHR 0x8B, CHR 0xE5, CHR 0xA6,
        CHR 0x82, CHR 0xE7, CHR 0xA7, CHR 0x9F, CHR 0xE6, CHR 0x88, CHR 0xB7, CHR 0xE6, CHR 0xA0, CHR 0x87,
        CHR 0xE8, CHR 0xAF, CHR 0x86, CHR 0xE6, CHR 0x88, CHR 0x96, CHR 0xE5, CHR 0x8F, CHR 0x98, CHR 0xE6,
        CHR 0x9B, CHR 0xB4, CHR 0xE5, CHR 0x89, CHR 0x8D, CHR 0xE5, CHR 0x90, CHR 0x8E, CHR 0xE7, CHR 0x9A,
        CHR 0x84, CHR 0xE5, CHR 0xAD, CHR 0x97, CHR 0xE6, CHR 0xAE, CHR 0xB5, CHR 0xE3, CHR 0x80, CHR 0x82]),
     (''adminAuditLoading'', [
        CHR 0xE6, CHR 0xAD, CHR 0xA3, CHR 0xE5, CHR 0x9C, CHR 0xA8, CHR 0xE5, CHR 0x8A, CHR 0xA0, CHR 0xE8,
        CHR 0xBD, CHR 0xBD, CHR 0xE5, CHR 0xAE, CHR 0xA1, CHR 0xE8, CHR 0xAE, CHR 0xA1, CHR 0xE6, CHR 0x97,
        CHR 0xA5, CHR 0xE5, CHR 0xBF, CHR 0x97, CHR 0x2E, CHR 0x2E, CHR 0x2E]),
     (''adminAuditEmpty'', [
        CHR 0xE6, CHR 0x9A, CHR 0x82, CHR 0xE6, CHR 0x97, CHR 0xA0, CHR 0xE5, CHR 0xAE, CHR 0xA1, CHR 0xE8,
        CHR 0xAE, CHR 0xA1, CHR 0xE6, CHR 0x97, CHR 0xA5, CHR 0xE5, CHR 0xBF, CHR 0x97]),
     (''adminAuditEmptyDescription'', [
        CHR 0xE4, CHR 0xBA, CHR 0xA7, CHR 0xE7, CHR 0x94, CHR 0x9F, CHR 0xE7, CHR 0xA7, CHR 0x9F, CHR 0xE6,
        CHR 0x88, CHR 0xB7, CHR 0xE5, CHR 0x8F, CHR 0x98, CHR 0xE6, CHR 0x9B, CHR 0xB4, CHR 0xE7, CHR 0xAD,
        CHR 0x89, CHR 0xE4, CHR 0xB8, CHR 0x9A, CHR 0xE5, CHR 0x8A, CHR 0xA1, CHR 0xE6, CHR 0x93, CHR 0x8D,
        CHR 0xE4, CHR 0xBD, CHR 0x9C, CHR 0xE5, CHR 0x90, CHR 0x8E, CHR 0xEF, CHR 0xBC, CHR 0x8C, CHR 0xE6,
        CHR 0x97, CHR 0xA5, CHR 0xE5, CHR 0xBF, CHR 0x97, CHR 0xE4, CHR 0xBC, CHR 0x9A, CHR 0xE5, CHR 0x87,
        CHR 0xBA, CHR 0xE7, CHR 0x8E, CHR 0xB0, CHR 0xE5, CHR 0x9C, CHR 0xA8, CHR 0xE8, CHR 0xBF, CHR 0x99,
        CHR 0xE9, CHR 0x87, CHR 0x8C, CHR 0xE3, CHR 0x80, CHR 0x82]),
     (''adminAuditPageSize'', [CHR 0xE6, CHR 0xAF, CHR 0x8F, CHR 0xE9, CHR 0xA1, CHR 0xB5]),
     (''adminAuditTotal'', [
        CHR 0xE5, CHR 0x85, CHR 0xB1, CHR 0x20, CHR 0x7B, CHR 0x74, CHR 0x6F, CHR 0x74, CHR 0x61, CHR 0x6C,
        CHR 0x7D, CHR 0x20, CHR 0xE6, CHR 0x9D, CHR 0xA1, CHR 0xE6, CHR 0x97, CHR 0xA5, CHR 0xE5, CHR 0xBF,
        CHR 0x97]),
     (''adminAuditPage'', [
        CHR 0xE7, CHR 0xAC, CHR 0xAC, CHR 0x20, CHR 0x7B, CHR 0x70, CHR 0x61, CHR 0x67, CHR 0x65, CHR 0x7D,
        CHR 0x20, CHR 0x2F, CHR 0x20, CHR 0x7B, CHR 0x74, CHR 0x6F, CHR 0x74, CHR 0x61, CHR 0x6C, CHR 0x50,
        CHR 0x61, CHR 0x67, CHR 0x65, CHR 0x73, CHR 0x7D, CHR 0x20, CHR 0xE9, CHR 0xA1, CHR 0xB5]),
     (''adminAuditJumpTo'', [CHR 0xE8, CHR 0xB7, CHR 0xB3, CHR 0xE8, CHR 0xBD, CHR 0xAC, CHR 0xE5, CHR 0x88, CHR 0xB0]),
     (''adminAuditJump'', [CHR 0xE8, CHR 0xB7, CHR 0xB3, CHR 0xE8, CHR 0xBD, CHR 0xAC]),
     (''adminAuditPrev'', [CHR 0xE4, CHR 0xB8, CHR 0x8A, CHR 0xE4, CHR 0xB8, CHR 0x80, CHR 0xE9, CHR 0xA1, CHR 0xB5]),
     (''adminAuditNext'', [CHR 0xE4, CHR 0xB8, CHR 0x8B, CHR 0xE4, CHR 0xB8, CHR 0x80, CHR 0xE9, CHR 0xA1, CHR 0xB5]),
     (''adminAuditLoadFailed'', [
        CHR 0xE5, CHR 0xAE, CHR 0xA1, CHR 0xE8, CHR 0xAE, CHR 0xA1, CHR 0xE6, CHR 0x97, CHR 0xA5, CHR 0xE5,
        CHR 0xBF, CHR 0x97, CHR 0xE5, CHR 0x8A, CHR 0xA0, CHR 0xE8, CHR 0xBD, CHR 0xBD, CHR 0xE5, CHR 0xA4,
        CHR 0xB1, CHR 0xE8, CHR 0xB4, CHR 0xA5])]"

definition admin_en_parta :: "(string \<times> string) list" where
  "admin_en_parta = [
     (''adminConsole'', ''Admin Console''),
     (''adminHeaderDescription'', ''Manage tenants, devices, and settings.''),
     (''adminGoHome'', ''Back home''),
     (''adminNotifications'', ''Notifications''),
     (''adminLogout'', ''Logout''),
     (''adminToggleDark'', ''Switch to dark mode''),
     (''adminToggleLight'', ''Switch to light mode''),
     (''adminLanguage'', ''Language''),
     (''adminEventInboxTitle'', ''Event inbox''),
     (''adminEventInboxUnread'', ''{count} unread events''),
     (''adminEventInboxEmpty'', ''No unread events''),
     (''adminEventInboxMarkAllRead'', ''Mark all read''),
     (''adminEventInboxUnreadBadge'', ''New''),
     (''adminExpandNav'', ''Expand navigation''),
     (''adminCollapseNav'', ''Collapse navigation''),
     (''adminVisitedTabs'', ''Visited tabs''),
     (''adminCloseTab'', ''Close tab''),
     (''adminOverviewNav'', ''Overview''),
     (''adminTenantsNav'', ''Tenant management''),
     (''adminProductsNav'', ''Product management''),
     (''adminThingsModelsNav'', ''Thing model management''),
     (''adminDevicesNav'', ''Device management''),
     (''adminDevicePropertiesNav'', ''Device properties''),
     (''adminAuditLogsNav'', ''Audit logs''),
     (''adminRealtimeIdle'', ''Realtime idle''),
     (''adminRealtimeConnecting'', ''Realtime connecting''),
     (''adminRealtimeOpen'', ''Realtime connected''),
     (''adminRealtimeReconnecting'', ''Realtime reconnecting, polling''),
     (''adminRealtimeClosed'', ''Realtime disconnected, polling''),
     (''adminDeviceManagementNav'', ''Device management''),
     (''adminSettingsNav'', ''Settings''),
     (''adminDashboardEyebrow'', ''Dashboard''),
     (''adminOverviewTitle'', ''Platform dashboard''),
     (''adminOverviewSummary'', ''The admin keeps a dashboard layout while using clean cards with solid colors, thin borders, and light shadows.''),
     (''adminTenantsTitle'', ''Tenant management''),
     (''adminTenantsSummary'', ''This parent route will hold tenants, members, roles, and isolation settings.''),
     (''adminProductsTitle'', ''Product management''),
     (''adminProductsSummary'', ''Manage tenant products, node types, and authentication policies.''),
     (''adminThingsModelsTitle'', ''Thing model management''),
     (''adminThingsModelsSummary'', ''Manage versioned product capability contracts for properties, events, and services.''),
     (''adminDevicesTitle'', ''Device management''),
     (''adminDevicesSummary'', ''Manage tenant devices, product bindings, and runtime state.''),
     (''adminDevicePropertiesTitle'', ''Device properties''),
     (''adminDevicePropertiesSummary'', ''Inspect latest reported device properties and later connect historical trends.''),
     (''adminAuditLogsTitle'', ''Audit logs''),
     (''adminAuditLogsSummary'', ''Audit logs show business operation records visible to the current account, controlled by backend RLS.''),
     (''adminDeviceManagementTitle'', ''Device management''),
     (''adminDeviceManagementSummary'', ''This parent route will hold devices, product bindings, online status, and debugging tools.''),
     (''adminSettingsTitle'', ''Platform settings''),
     (''adminSettingsSummary'', ''''),
     (''adminMetricOnlineDevices'', ''Online devices''),
     (''adminMetricTenants'', ''Tenants''),
     (''adminMetricActiveProducts'', ''Active products''),
     (''adminMetricWaitingDevices'', ''Waiting for the device status API.''),
     (''adminMetricWaitingTenants'', ''Waiting for the tenant metrics API.''),
     (''adminMetricWaitingProducts'', ''Waiting for the product API.''),
     (''adminEntryTitle'', ''Admin entries''),
     (''adminEntryTenantsDescription'', ''Tenant lists, members, and role permissions will live here.''),
     (''adminEntryProductsDescription'', ''Tenant products, node types, and authentication policies will live here.''),
     (''adminEntryThingsModelsDescription'', ''Product thing model versions, publish status, and current model selection will live here.''),
     (''adminEntryDevicesDescription'', ''Tenant devices, product bindings, and runtime state will live here.''),
     (''adminEntryDevicePropertiesDescription'', ''Latest device properties and historical trends will live here.''),
     (''adminEntryAuditLogsDescription'', ''Business operation logs such as tenant create, update, and delete will live here.''),
     (''adminEntryDeviceManagementDescription'', ''Device lists, status, product binding, and debugging will live here.''),
     (''adminEntrySettingsDescription'', ''''),
     (''adminContentAreaTitle'', ''Current workspace''),
     (''adminOverviewContent'', ''Next, choose tenant management or device management and split it into child routes.''),
     (''adminTenantsContent'', ''Start tenant management with a tenant list, then add members, roles, and permission settings.''),
     (''adminProductsContent'', ''Product management maintains IoT product definitions under a tenant.''),
     (''adminThingsModelsContent'', ''Thing model management maintains product property, event, and service definitions.''),
     (''adminDevicesContent'', ''Device management maintains device instances and product bindings.''),
     (''adminDevicePropertiesContent'', ''Device properties show latest values and historical trend charts.''),
     (''adminAuditLogsContent'', ''Audit logs query business operation records visible to the current account.''),
     (''adminDeviceManagementContent'', ''Start device management with a device list, then add details, product binding, and debugging tools.''),
     (''adminSettingsContent'', ''''),
     (''adminTenantListTitle'', ''Tenant list''),
     (''adminTenantCreate'', ''Create tenant''),
     (''adminTenantCreateTitle'', ''Create tenant''),
     (''adminTenantEditTitle'', ''Edit tenant''),
     (''adminTenantSlug'', ''Tenant slug''),
     (''adminTenantName'', ''Tenant name''),
     (''adminTenantStatus'', ''Status''),
     (''adminTenantStatusActive'', ''Active''),
     (''adminTenantStatusDisabled'', ''Disabled''),
     (''adminTenantCreatedAt'', ''Created at''),
     (''adminTenantUpdatedAt'', ''Updated at''),
     (''adminTenantActions'', ''Actions''),
     (''adminTenantEdit'', ''Edit''),
     (''adminTenantDelete'', ''Delete''),
     (''adminTenantSave'', ''Save''),
     (''adminTenantSaving'', ''Saving''),
     (''adminTenantCancel'', ''Cancel''),
     (''adminTenantLoading'', ''Loading tenants...''),
     (''adminTenantEmpty'', ''No tenants yet''),
     (''adminTenantEmptyDescription'', ''Create the first tenant and it will appear here.''),
     (''adminTenantPageSize'', ''Page size''),
     (''adminTenantTotal'', ''{total} tenants''),
     (''adminTenantPage'', ''Page {page} / {totalPages}''),
     (''adminTenantJumpTo'', ''Go to''),
     (''adminTenantJump'', ''Go''),
     (''adminTenantPrev'', ''Previous''),
     (''adminTenantNext'', ''Next''),
     (''adminTenantLoadFailed'', ''Failed to load tenants''),
     (''adminTenantCreateSuccess'', ''Tenant created''),
     (''adminTenantCreateFailed'', ''Failed to create tenant''),
     (''adminTenantUpdateSuccess'', ''Tenant updated''),
     (''adminTenantUpdateFailed'', ''Failed to update tenant''),
     (''adminTenantDeleteSuccess'', ''Tenant deleted''),
     (''adminTenantDeleteFailed'', ''Failed to delete tenant''),
     (''adminTenantDeleteConfirm'', ''Delete this tenant?''),
     (''adminProductCreate'', ''Create product''),
     (''adminProductCreateTitle'', ''Create product''),
     (''adminProductEditTitle'', ''Edit product''),
     (''adminProductKey'', ''Product key''),
     (''adminProductName'', ''Product name''),
     (''adminProductDescription'', ''Description''),
     (''adminProductNodeType'', ''Node type'')]"

definition admin_en_partb :: "(string \<times> string) list" where
  "admin_en_partb = [
     (''adminProductAuthType'', ''Auth type''),
     (''adminProductProtocolType'', ''Protocol''),
     (''adminProductStatus'', ''Status''),
     (''adminProductStatusActive'', ''Active''),
     (''adminProductStatusDisabled'', ''Disabled''),
     (''adminProductNodeDirect'', ''Direct device''),
     (''adminProductNodeGateway'', ''Gateway device''),
     (''adminProductNodeSubDevice'', ''Gateway sub-device''),
     (''adminProductAuthSecret'', ''Device secret''),
     (''adminProductAuthCertificate'', ''Certificate''),
     (''adminProductAuthAnonymous'', ''Anonymous''),
     (''adminProductUpdatedAt'', ''Updated at''),
     (''adminProductActions'', ''Actions''),
     (''adminProductEdit'', ''Edit''),
     (''adminProductDelete'', ''Delete''),
     (''adminProductSave'', ''Save''),
     (''adminProductSaving'', ''Saving''),
     (''adminProductCancel'', ''Cancel''),
     (''adminProductLoading'', ''Loading products...''),
     (''adminProductEmpty'', ''No products yet''),
     (''adminProductEmptyDescription'', ''Create the first product and it will appear here.''),
     (''adminProductPageSize'', ''Page size''),
     (''adminProductTotal'', ''{total} products''),
     (''adminProductPage'', ''Page {page} / {totalPages}''),
     (''adminProductJumpTo'', ''Go to''),
     (''adminProductJump'', ''Go''),
     (''adminProductPrev'', ''Previous''),
     (''adminProductNext'', ''Next''),
     (''adminProductLoadFailed'', ''Failed to load products''),
     (''adminProductCreateSuccess'', ''Product created''),
     (''adminProductCreateFailed'', ''Failed to create product''),
     (''adminProductUpdateSuccess'', ''Product updated''),
     (''adminProductUpdateFailed'', ''Failed to update product''),
     (''adminProductDeleteSuccess'', ''Product deleted''),
     (''adminProductDeleteFailed'', ''Failed to delete product''),
     (''adminProductDeleteConfirm'', ''Delete this product?''),
     (''adminThingsModelCreate'', ''Create thing model''),
     (''adminThingsModelCreateTitle'', ''Create thing model''),
     (''adminThingsModelEditTitle'', ''Edit thing model''),
     (''adminThingsModelName'', ''Model name''),
     (''adminThingsModelVersion'', ''Version''),
     (''adminThingsModelDescription'', ''Description''),
     (''adminThingsModelStatus'', ''Status''),
     (''adminThingsModelStatusDraft'', ''Draft''),
     (''adminThingsModelStatusPublished'', ''Published''),
     (''adminThingsModelStatusDeprecated'', ''Deprecated''),
     (''adminThingsModelCurrent'', ''Current model''),
     (''adminThingsModelCurrentYes'', ''Yes''),
     (''adminThingsModelCurrentNo'', ''No''),
     (''adminThingsModelProperties'', ''Properties JSON''),
     (''adminThingsModelEvents'', ''Events JSON''),
     (''adminThingsModelServices'', ''Services JSON''),
     (''adminThingsModelSchema'', ''Model content''),
     (''adminThingsModelSchemaSummary'', ''Properties {properties} / events {events} / services {services}''),
     (''adminThingsModelUnknownProduct'', ''Unknown product''),
     (''adminThingsModelAllProducts'', ''All products''),
     (''adminThingsModelUpdatedAt'', ''Updated at''),
     (''adminThingsModelActions'', ''Actions''),
     (''adminThingsModelEdit'', ''Edit''),
     (''adminThingsModelDelete'', ''Delete''),
     (''adminThingsModelSave'', ''Save''),
     (''adminThingsModelSaving'', ''Saving''),
     (''adminThingsModelCancel'', ''Cancel''),
     (''adminThingsModelLoading'', ''Loading thing models...''),
     (''adminThingsModelEmpty'', ''No thing models yet''),
     (''adminThingsModelEmptyDescription'', ''Create the first product thing model and it will appear here.''),
     (''adminThingsModelPageSize'', ''Page size''),
     (''adminThingsModelTotal'', ''{total} thing models''),
     (''adminThingsModelPage'', ''Page {page} / {totalPages}''),
     (''adminThingsModelJumpTo'', ''Go to''),
     (''adminThingsModelJump'', ''Go''),
     (''adminThingsModelPrev'', ''Previous''),
     (''adminThingsModelNext'', ''Next''),
     (''adminThingsModelLoadFailed'', ''Failed to load thing models''),
     (''adminThingsModelCreateSuccess'', ''Thing model created''),
     (''adminThingsModelCreateFailed'', ''Failed to create thing model''),
     (''adminThingsModelUpdateSuccess'', ''Thing model updated''),
     (''adminThingsModelUpdateFailed'', ''Failed to update thing model''),
     (''adminThingsModelDeleteSuccess'', ''Thing model deleted''),
     (''adminThingsModelDeleteFailed'', ''Failed to delete thing model''),
     (''adminThingsModelDeleteConfirm'', ''Delete this thing model?''),
     (''adminThingsModelJSONInvalid'', ''JSON must be a valid object''),
     (''adminThingsModelDefinitionTabs'', ''Thing model definition types''),
     (''adminThingsModelPropertiesTab'', ''Properties''),
     (''adminThingsModelEventsTab'', ''Events''),
     (''adminThingsModelServicesTab'', ''Services''),
     (''adminThingsModelPropertiesTip'', ''A property is a device state value reported by the device or set by the platform, such as temperature, battery, or switch state. Add it with the form first; the JSON below is generated automatically.''),
     (''adminThingsModelEventsTip'', ''An event is a one-time business message actively reported by the device, such as overheat, low battery, or button pressed. Add it with the form first; the JSON below is generated automatically.''),
     (''adminThingsModelServicesTip'', ''A service is an action that the platform can call on the device, such as reboot, calibration, or changing mode. Add it with the form first; the JSON below is generated automatically.''),
     (''adminThingsModelIdentifier'', ''Identifier''),
     (''adminThingsModelDisplayName'', ''Display name''),
     (''adminThingsModelDescriptionField'', ''Description''),
     (''adminThingsModelParamIdentifier'', ''Parameter identifier''),
     (''adminThingsModelParamName'', ''Parameter name''),
     (''adminThingsModelDataType'', ''Data type''),
     (''adminThingsModelAccessMode'', ''Access mode''),
     (''adminThingsModelAccessRead'', ''Read only''),
     (''adminThingsModelAccessWrite'', ''Write only''),
     (''adminThingsModelAccessReadWrite'', ''Read and write''),
     (''adminThingsModelRequired'', ''Required''),
     (''adminThingsModelSpecMin'', ''Min''),
     (''adminThingsModelSpecMax'', ''Max''),
     (''adminThingsModelSpecStep'', ''Step''),
     (''adminThingsModelSpecUnit'', ''Unit''),
     (''adminThingsModelSpecPrecision'', ''Precision''),
     (''adminThingsModelEventLevel'', ''Event level''),
     (''adminThingsModelCallType'', ''Call type''),
     (''adminThingsModelEventOutput'', ''Event output parameters''),
     (''adminThingsModelServiceInput'', ''Service input parameters''),
     (''adminThingsModelServiceOutput'', ''Service output parameters''),
     (''adminThingsModelAddProperty'', ''Add property''),
     (''adminThingsModelAddEvent'', ''Add event''),
     (''adminThingsModelAddService'', ''Add service''),
     (''adminThingsModelAddParam'', ''Add parameter''),
     (''adminThingsModelNewParam'', ''New parameter''),
     (''adminThingsModelRemoveParam'', ''Remove parameter''),
     (''adminThingsModelNoParams'', [
        CHR 0x4E, CHR 0x6F, CHR 0x20, CHR 0x70, CHR 0x61, CHR 0x72, CHR 0x61, CHR 0x6D, CHR 0x65, CHR 0x74,
        CHR 0x65, CHR 0x72, CHR 0x73, CHR 0x20, CHR 0x79, CHR 0x65, CHR 0x74, CHR 0x2E, CHR 0x20, CHR 0x43,
        CHR 0x6C, CHR 0x69, CHR 0x63, CHR 0x6B, CHR 0x20, CHR 0x22, CHR 0x4E, CHR 0x65, CHR 0x77, CHR 0x20,
        CHR 0x70, CHR 0x61, CHR 0x72, CHR 0x61, CHR 0x6D, CHR 0x65, CHR 0x74, CHR 0x65, CHR 0x72, CHR 0x22,
        CHR 0x20, CHR 0x74, CHR 0x6F, CHR 0x20, CHR 0x61, CHR 0x64, CHR 0x64, CHR 0x20, CHR 0x6F, CHR 0x6E,
        CHR 0x65, CHR 0x2E])]"

definition admin_en_partc :: "(string \<times> string) list" where
  "admin_en_partc = [
     (''adminThingsModelCommonPresets'', ''Common presets''),
     (''adminThingsModelPresetTemperature'', ''Temperature''),
     (''adminThingsModelPresetHumidity'', ''Humidity''),
     (''adminThingsModelPresetBattery'', ''Battery''),
     (''adminThingsModelPresetSwitch'', ''Switch''),
     (''adminThingsModelPresetTemperatureAlarm'', ''Temperature alarm''),
     (''adminThingsModelPresetLowBattery'', ''Low battery''),
     (''adminThingsModelPresetFaultReport'', ''Fault report''),
     (''adminThingsModelPresetReboot'', ''Reboot''),
     (''adminThingsModelPresetReportInterval'', ''Report interval''),
     (''adminThingsModelPresetSwitchService'', ''Switch control''),
     (''adminThingsModelRemoveDefinition'', ''Remove''),
     (''adminThingsModelAddDefinition'', ''Add definition''),
     (''adminThingsModelJSONPreview'', ''Generated JSON''),
     (''adminThingsModelDefinitionRequired'', ''Please fill identifier and display name''),
     (''adminThingsModelParamRequired'', ''Please complete identifier and parameter name for each parameter''),
     (''adminThingsModelPropertyNameExample'', ''Temperature''),
     (''adminThingsModelEventNameExample'', ''Overheat alarm''),
     (''adminThingsModelEventDescExample'', ''The device detected that temperature exceeded the safe threshold''),
     (''adminThingsModelServiceNameExample'', ''Reboot device''),
     (''adminThingsModelServiceDescExample'', ''The platform sends a reboot command and the device returns the result''),
     (''adminDeviceCreate'', ''Create device''),
     (''adminDeviceCreateTitle'', ''Create device''),
     (''adminDeviceEditTitle'', ''Edit device''),
     (''adminDeviceSlug'', ''Device slug''),
     (''adminDeviceName'', ''Device name''),
     (''adminDeviceDescription'', ''Description''),
     (''adminDeviceStatus'', ''Status''),
     (''adminDeviceStatusActive'', ''Active''),
     (''adminDeviceStatusDisabled'', ''Disabled''),
     (''adminDeviceConnectionStatus'', ''Connection''),
     (''adminDeviceConnectionOnline'', ''Online''),
     (''adminDeviceConnectionOffline'', ''Offline''),
     (''adminDeviceGatewayID'', ''Gateway device ID''),
     (''adminDeviceFirmwareVersion'', ''Firmware version''),
     (''adminDeviceIPAddress'', ''IP address''),
     (''adminDeviceAttributes'', ''Attributes JSON''),
     (''adminDeviceUpdatedAt'', ''Updated at''),
     (''adminDeviceActions'', ''Actions''),
     (''adminDeviceAllProducts'', ''All products''),
     (''adminDeviceSecretTitle'', ''Device secret''),
     (''adminDeviceSecretDescription'', ''This secret is returned only once after the device is created.''),
     (''adminDeviceViewSecret'', ''View secret''),
     (''adminDeviceCopySecret'', ''Copy secret''),
     (''adminDeviceSecretCopied'', ''Device secret copied''),
     (''adminDeviceSecretCopyFailed'', ''Failed to copy device secret''),
     (''adminDeviceSecretAvailableDescription'', ''This is the secret returned when the device was created in this page session. Store it in the ESP32 firmware configuration.''),
     (''adminDeviceSecretUnavailableDescription'', ''Historical device secrets cannot be viewed. The backend stores only the secret hash, and plaintext is returned only once when the device is created.''),
     (''adminDeviceEdit'', ''Edit''),
     (''adminDeviceDelete'', ''Delete''),
     (''adminDeviceSave'', ''Save''),
     (''adminDeviceSaving'', ''Saving''),
     (''adminDeviceCancel'', ''Cancel''),
     (''adminDeviceLoading'', ''Loading devices...''),
     (''adminDeviceEmpty'', ''No devices yet''),
     (''adminDeviceEmptyDescription'', ''Create the first device and it will appear here.''),
     (''adminDevicePageSize'', ''Page size''),
     (''adminDeviceTotal'', ''{total} devices''),
     (''adminDevicePage'', ''Page {page} / {totalPages}''),
     (''adminDeviceJumpTo'', ''Go to''),
     (''adminDeviceJump'', ''Go''),
     (''adminDevicePrev'', ''Previous''),
     (''adminDeviceNext'', ''Next''),
     (''adminDeviceLoadFailed'', ''Failed to load devices''),
     (''adminDeviceCreateSuccess'', ''Device created''),
     (''adminDeviceCreateFailed'', ''Failed to create device''),
     (''adminDeviceUpdateSuccess'', ''Device updated''),
     (''adminDeviceUpdateFailed'', ''Failed to update device''),
     (''adminDeviceDeleteSuccess'', ''Device deleted''),
     (''adminDeviceDeleteFailed'', ''Failed to delete device''),
     (''adminDeviceDeleteConfirm'', ''Delete this device?''),
     (''adminDevicePropertyLatestTab'', ''Latest properties''),
     (''adminDevicePropertyHistoryTab'', ''History trend''),
     (''adminDevicePropertySelectDevice'', ''Device''),
     (''adminDevicePropertyNoDevice'', ''No devices available''),
     (''adminDevicePropertyLoadLatest'', ''Refresh latest properties''),
     (''adminDevicePropertyLoadingLatest'', ''Loading latest properties...''),
     (''adminDevicePropertyLatestEmpty'', ''No latest properties''),
     (''adminDevicePropertyLatestEmptyDescription'', ''Latest property cards will appear after the device reports properties.''),
     (''adminDevicePropertyReported'', ''Reported''),
     (''adminDevicePropertyNotReported'', ''Not reported''),
     (''adminDevicePropertyOccurredAt'', ''Occurred at''),
     (''adminDevicePropertyReceivedAt'', ''Received at''),
     (''adminDevicePropertyProductKey'', ''Product key''),
     (''adminDevicePropertyDeviceSlug'', ''Device slug''),
     (''adminDevicePropertyKey'', ''Property''),
     (''adminDevicePropertyValue'', ''Value''),
     (''adminDevicePropertyValueType'', ''Type''),
     (''adminDevicePropertyHistoryTitle'', ''Property trend chart''),
     (''adminDevicePropertyHistoryEmpty'', ''No trend data for the current filters.''),
     (''adminDevicePropertyHistoryHint'', ''Query historical trends by property, time range, and aggregation.''),
     (''adminDevicePropertyTrendProperties'', ''Trend properties''),
     (''adminDevicePropertyTrendNoProperties'', ''No numeric properties available for trend query''),
     (''adminDevicePropertyTrendFrom'', ''From''),
     (''adminDevicePropertyTrendTo'', ''To''),
     (''adminDevicePropertyTrendBucket'', ''Bucket''),
     (''adminDevicePropertyTrendAggregate'', ''Aggregation''),
     (''adminDevicePropertyTrendReload'', ''Refresh trend''),
     (''adminDevicePropertyTrendLoading'', ''Loading trend...''),
     (''adminDevicePropertyTrendFailed'', ''Failed to load property trend''),
     (''adminDevicePropertyTrendSeries'', ''Series''),
     (''adminDevicePropertyTrendPoints'', ''{count} points''),
     (''adminDevicePropertyTrendBucketSeconds'', ''{seconds}s''),
     (''adminDevicePropertyTrendBucketMinutes'', ''{minutes}m''),
     (''adminDevicePropertyTrendAggregateAvg'', ''Average''),
     (''adminDevicePropertyTrendAggregateMin'', ''Minimum''),
     (''adminDevicePropertyTrendAggregateMax'', ''Maximum''),
     (''adminDevicePropertyTrendAggregateLast'', ''Last''),
     (''adminDevicePropertyLatestFailed'', ''Failed to load latest properties''),
     (''adminDevicePropertySetTab'', ''Set properties''),
     (''adminDevicePropertySetTitle'', ''Property set''),
     (''adminDevicePropertySetPayload'', ''Properties JSON''),
     (''adminDevicePropertySetSend'', ''Set properties''),
     (''adminDevicePropertySetting'', ''Setting''),
     (''adminDevicePropertySetSuccess'', ''Property set dispatched''),
     (''adminDevicePropertySetFailed'', ''Failed to set properties''),
     (''adminDevicePropertySetResult'', ''Dispatch result'')]"

definition admin_en_partd :: "(string \<times> string) list" where
  "admin_en_partd = [
     (''adminDevicePropertySetPayloadMustObject'', ''Properties payload must be a JSON object''),
     (''adminDevicePropertySetInvalidPayload'', ''Properties payload is not valid JSON''),
     (''adminDevicePropertyWritableProperties'', ''Writable properties''),
     (''adminDevicePropertyWritableCount'', ''{count} writable properties''),
     (''adminDevicePropertySetNoWritable'', ''No writable properties in the current model''),
     (''adminDevicePropertySetHistoryTab'', ''Set history''),
     (''adminDevicePropertySetHistoryReload'', ''Refresh set history''),
     (''adminDevicePropertySetHistoryLoading'', ''Loading set history...''),
     (''adminDevicePropertySetHistoryEmpty'', ''No property set history''),
     (''adminDevicePropertySetHistoryFailed'', ''Failed to load property set history''),
     (''adminDevicePropertySetHistoryTotal'', ''{total} sets''),
     (''adminDevicePropertySetHistoryPage'', ''Page {page} / {totalPages}''),
     (''adminDevicePropertySetPropertyName'', ''Property name''),
     (''adminDevicePropertySetAllProperties'', ''All properties''),
     (''adminDevicePropertySetAckProperties'', ''ACK properties''),
     (''adminDevicePropertySetCommand'', ''Set command''),
     (''adminDeviceEventTab'', ''Reported events''),
     (''adminDeviceEventHistoryTab'', ''Event history''),
     (''adminDeviceEventName'', ''Event name''),
     (''adminDeviceEventAllEvents'', ''All events''),
     (''adminDeviceEventParams'', ''Event params''),
     (''adminDeviceEventLoadHistory'', ''Refresh events''),
     (''adminDeviceEventLoadingHistory'', ''Loading events...''),
     (''adminDeviceEventHistoryEmpty'', ''No reported events''),
     (''adminDeviceEventHistoryFailed'', ''Failed to load reported events''),
     (''adminDeviceEventTotal'', ''{total} events''),
     (''adminDeviceEventPage'', ''Page {page} / {totalPages}''),
     (''adminDeviceServiceTab'', ''Service calls''),
     (''adminDeviceServiceName'', ''Service name''),
     (''adminDeviceServiceNoService'', ''No callable services in the current model''),
     (''adminDeviceServiceNoCurrentModel'', ''No current model''),
     (''adminDeviceServiceInput'', ''Service input''),
     (''adminDeviceServiceInputParams'', ''Input form''),
     (''adminDeviceServiceInputParamsEmpty'', ''No input parameters. The call will send an empty object.''),
     (''adminDeviceServiceAddInputParam'', ''Add parameter''),
     (''adminDeviceServiceRemoveInputParam'', ''Remove parameter''),
     (''adminDeviceServiceParamName'', ''Parameter''),
     (''adminDeviceServiceParamType'', ''Type''),
     (''adminDeviceServiceParamValue'', ''Value''),
     (''adminDeviceServiceGeneratedInput'', ''Generated JSON''),
     (''adminDeviceServiceInputDefinition'', ''Input definition''),
     (''adminDeviceServiceNoInputDefinition'', ''This service has no input definition.''),
     (''adminDeviceServiceInputMustObject'', ''Service input must be a JSON object''),
     (''adminDeviceServiceInvalidInput'', ''Service input is not valid JSON''),
     (''adminDeviceServiceCall'', ''Call service''),
     (''adminDeviceServiceCalling'', ''Calling''),
     (''adminDeviceServiceCallSuccess'', ''Service call dispatched''),
     (''adminDeviceServiceCallFailed'', ''Service call failed''),
     (''adminDeviceServiceResult'', ''Call result''),
     (''adminDeviceServiceDispatched'', ''Dispatched''),
     (''adminDeviceServiceTopic'', ''MQTT topic''),
     (''adminDeviceServiceSentAt'', ''Sent at''),
     (''adminDeviceServiceHistoryTab'', ''Service history''),
     (''adminDeviceServiceHistoryReload'', ''Refresh service history''),
     (''adminDeviceServiceHistoryLoading'', ''Loading service history...''),
     (''adminDeviceServiceHistoryEmpty'', ''No service call history''),
     (''adminDeviceServiceHistoryFailed'', ''Failed to load service history''),
     (''adminDeviceServiceHistoryTotal'', ''{total} calls''),
     (''adminDeviceServiceHistoryPage'', ''Page {page} / {totalPages}''),
     (''adminDeviceServiceAllServices'', ''All services''),
     (''adminDeviceServiceAckStatus'', ''ACK status''),
     (''adminDeviceServiceAckSuccess'', ''Success''),
     (''adminDeviceServiceAckFailed'', ''Failed''),
     (''adminDeviceServiceAckPending'', ''Pending''),
     (''adminDeviceServiceAckAt'', ''ACK at''),
     (''adminDeviceServiceAckOutput'', ''ACK output''),
     (''adminDeviceServiceAckDeadline'', ''ACK DDL''),
     (''adminDeviceServiceAckDeadlineSeconds'', ''{seconds}s''),
     (''adminAuditAction'', ''Action''),
     (''adminAuditResource'', ''Resource''),
     (''adminAuditResult'', ''Result''),
     (''adminAuditResultSuccess'', ''Success''),
     (''adminAuditResultFailure'', ''Failure''),
     (''adminAuditMethod'', ''Method''),
     (''adminAuditPath'', ''Path''),
     (''adminAuditStatusCode'', ''Status''),
     (''adminAuditDuration'', ''Duration''),
     (''adminAuditDurationValue'', ''{duration} ms''),
     (''adminAuditMetadata'', ''Metadata''),
     (''adminAuditCreatedAt'', ''Created at''),
     (''adminAuditActions'', ''Actions''),
     (''adminAuditViewDetail'', ''View detail''),
     (''adminAuditDetailTitle'', ''Audit log detail''),
     (''adminAuditCloseDetail'', ''Close detail''),
     (''adminAuditDetailBusiness'', ''Business''),
     (''adminAuditDetailHttp'', ''HTTP request''),
     (''adminAuditDetailTrace'', ''Trace''),
     (''adminAuditRequestID'', ''Request ID''),
     (''adminAuditTraceID'', ''Trace ID''),
     (''adminAuditIP'', ''IP''),
     (''adminAuditUserAgent'', ''User Agent''),
     (''adminAuditActionDescription'', ''The business action represented by this audit record.''),
     (''adminAuditResultDescription'', ''The final execution result written into the audit log.''),
     (''adminAuditResourceDescription'', ''The resource type and resource ID affected by the action.''),
     (''adminAuditMethodDescription'', ''The HTTP method that triggered this audit record.''),
     (''adminAuditPathDescription'', ''The API path that triggered this audit record.''),
     (''adminAuditStatusDescription'', ''The HTTP status code returned to the client.''),
     (''adminAuditDurationDescription'', ''The time spent by the backend to handle this request.''),
     (''adminAuditCreatedAtDescription'', ''The time when the audit log was written to the database.''),
     (''adminAuditRequestIDDescription'', ''Request-level trace ID for locating a single HTTP request.''),
     (''adminAuditTraceIDDescription'', ''Cross-service trace ID. It may be empty when tracing is not wired.''),
     (''adminAuditIPDescription'', ''The client IP address that sent the request.''),
     (''adminAuditUserAgentDescription'', ''The User-Agent information submitted by the client.''),
     (''adminAuditMetadataDescription'', ''Structured business context, such as tenant slug or changed fields.''),
     (''adminAuditLoading'', ''Loading audit logs...''),
     (''adminAuditEmpty'', ''No audit logs yet''),
     (''adminAuditEmptyDescription'', ''Business operation logs will appear here after tenant changes are made.''),
     (''adminAuditPageSize'', ''Page size''),
     (''adminAuditTotal'', ''{total} logs''),
     (''adminAuditPage'', ''Page {page} / {totalPages}''),
     (''adminAuditJumpTo'', ''Go to''),
     (''adminAuditJump'', ''Go''),
     (''adminAuditPrev'', ''Previous''),
     (''adminAuditNext'', ''Next''),
     (''adminAuditLoadFailed'', ''Failed to load audit logs'')]"

end
