(* ===== verification/I18n.thy ===== *)
theory I18n
  imports Messages ReactMonad
begin

text \<open>
  The translations (\<open>contexts/I18nContext.tsx\<close>): the texts of a locale are those of
  \<open>i18n/auth.ts\<close> with those of \<open>i18n/admin.ts\<close> on top, and \<open>t\<close> reads one of them. A text may
  contain placeholders in braces, which the pages fill in with \<open>String.replace\<close>.
\<close>

section \<open>Looking a text up\<close>

definition messages :: "(string \<times> (string \<times> string) list) list" where
  "messages =
     [(''zh-CN'', (admin_zh_parta @ admin_zh_partb @ admin_zh_partc @ admin_zh_partd) @ auth_zh),
      (''en-US'', (admin_en_parta @ admin_en_partb @ admin_en_partc @ admin_en_partd) @ auth_en)]"

text \<open>
  \<open>messages[locale][key]\<close>: \<open>None\<close> is \<open>undefined\<close>. For a locale that is neither of the two and
  not the name of a member that every object inherits, reading the key throws.
\<close>

definition inherited_members :: "string list" where
  "inherited_members =
     [''constructor'', ''__defineGetter__'', ''__defineSetter__'', ''hasOwnProperty'', ''__lookupGetter__'',
      ''__lookupSetter__'', ''isPrototypeOf'', ''propertyIsEnumerable'', ''toString'', ''valueOf'',
      ''__proto__'', ''toLocaleString'']"

definition translate :: "string \<Rightarrow> string \<Rightarrow> js_exn + string option" where
  "translate locale key =
     (case map_of messages locale of
        Some texts \<Rightarrow> Inr (map_of texts key)
      | None \<Rightarrow> if locale \<in> set inherited_members then Inr None else Inl EngineError)"

fun until :: "char \<Rightarrow> string \<Rightarrow> string" where
  "until c [] = []"
| "until c (x # xs) = (if x = c then [] else x # until c xs)"

fun placeholders :: "string \<Rightarrow> string list" where
  "placeholders [] = []"
| "placeholders (c # cs) =
     (if c = CHR ''{'' then until (CHR ''}'') cs # placeholders cs else placeholders cs)"

lemma translate_unknown_locale: "translate ''fr-FR'' key = Inl EngineError"
  by (simp add: translate_def messages_def inherited_members_def)

section \<open>Both languages have the same texts\<close>

definition matching :: "string \<Rightarrow> string \<Rightarrow> bool" where
  "matching s s' \<longleftrightarrow> (s = [] \<longleftrightarrow> s' = []) \<and> set (placeholders s) = set (placeholders s')"

definition matching_texts :: "(string \<times> string) list \<Rightarrow> (string \<times> string) list \<Rightarrow> bool" where
  "matching_texts = list_all2 (\<lambda>(k, s) (k', s'). k = k' \<and> matching s s')"

lemma matching_texts_append:
  "matching_texts xs ys \<Longrightarrow> matching_texts xs' ys' \<Longrightarrow> matching_texts (xs @ xs') (ys @ ys')"
  by (simp add: matching_texts_def list_all2_appendI)

lemma matching_map_of: "matching_texts xs ys \<Longrightarrow> rel_option matching (map_of xs k) (map_of ys k)"
  unfolding matching_texts_def by (induction rule: list_all2_induct) auto

lemma matching_parta: "matching_texts admin_zh_parta admin_en_parta" by code_simp
lemma matching_partb: "matching_texts admin_zh_partb admin_en_partb" by code_simp
lemma matching_partc: "matching_texts admin_zh_partc admin_en_partc" by code_simp
lemma matching_partd: "matching_texts admin_zh_partd admin_en_partd" by code_simp
lemma matching_auth: "matching_texts auth_zh auth_en" by code_simp

lemmas matching_parts = matching_parta matching_partb matching_partc matching_partd matching_auth

text \<open>
  C40: every message key means the same in both languages: it has a text in both or in none, the
  two texts are both empty or both not, and they have the same placeholders, so that a page that
  fills in the numbers of one language fills in those of the other.
\<close>

theorem texts_complete:
  "rel_sum (\<lambda>_ _. False) (rel_option matching) (translate ''zh-CN'' key) (translate ''en-US'' key)"
  by (simp add: translate_def messages_def matching_map_of matching_texts_append matching_parts del: map_of_append)

end
