(* ===== verification/DeviceStream.thy ===== *)
theory DeviceStream
  imports DevicePage
begin

text \<open>
  The realtime hook and the device page together: the texts that arrive on the socket of
  \<open>hooks/useDevicesRealtime.ts\<close> reach the two callbacks that \<open>pages/Admin/DeviceManagement.tsx\<close>
  passes in. A payload is read at the type the hook declares for it; the types are not checked by
  the code, so what a payload of another shape does is left open (\<open>None\<close>).
\<close>

section \<open>Reading what the hook delivers\<close>

definition string_member :: "js_object \<Rightarrow> string \<Rightarrow> string option" where
  "string_member ob k = (case obj_get ob k of Some (JStr s) \<Rightarrow> Some s | _ \<Rightarrow> None)"

fun status_of :: "string \<Rightarrow> connection_status option" where
  "status_of s = (if s = ''online'' then Some Online else if s = ''offline'' then Some Offline else None)"

fun meta_of :: "envelope_meta \<Rightarrow> realtime_meta option" where
  "meta_of m = (case (ev_occurredAt m, ev_tenantId m) of
      (Some (JStr ts), Some (JStr tid)) \<Rightarrow> Some \<lparr>rm_occurredAt = ts, rm_tenantId = tid\<rparr>
    | _ \<Rightarrow> None)"

fun optional_string :: "js option \<Rightarrow> string option option" where
  "optional_string None = Some None"
| "optional_string (Some (JStr s)) = Some (Some s)"
| "optional_string _ = None"

fun connection_of :: "js option \<Rightarrow> connection_payload option" where
  "connection_of (Some (JObj ob)) =
     (case (string_member ob ''tenant_id'', string_member ob ''product_id'', string_member ob ''device_id'',
            string_member ob ''tenant_slug'', string_member ob ''product_key'', string_member ob ''device_slug'',
            Option.bind (string_member ob ''status'') status_of, optional_string (obj_get ob ''reason'')) of
        (Some t, Some p, Some d, Some ts, Some pk, Some ds, Some st, Some r) \<Rightarrow>
          Some \<lparr>cp_tenant_id = t, cp_product_id = p, cp_device_id = d, cp_tenant_slug = ts, cp_product_key = pk,
            cp_device_slug = ds, cp_status = st, cp_reason = r\<rparr>
      | _ \<Rightarrow> None)"
| "connection_of _ = None"

fun property_of :: "js option \<Rightarrow> property_payload option" where
  "property_of (Some (JObj ob)) =
     (case (string_member ob ''tenant_id'', string_member ob ''product_id'', string_member ob ''device_id'',
            string_member ob ''tenant_slug'', string_member ob ''product_key'', string_member ob ''device_slug'',
            obj_get ob ''properties'') of
        (Some t, Some p, Some d, Some ts, Some pk, Some ds, Some (JObj ps)) \<Rightarrow>
          Some \<lparr>pp_tenant_id = t, pp_product_id = p, pp_device_id = d, pp_tenant_slug = ts, pp_product_key = pk,
            pp_device_slug = ds, pp_properties = ps\<rparr>
      | _ \<Rightarrow> None)"
| "property_of _ = None"

fun event_of :: "delivery \<Rightarrow> device_event option" where
  "event_of (ConnectionChanged p m) =
     Option.bind (connection_of p) (\<lambda>p. map_option (Connection p) (meta_of m))"
| "event_of (PropertyChanged p m) = Option.bind (property_of p) (\<lambda>p. map_option (Property p) (meta_of m))"
| "event_of (EventReceived p m) = None"

section \<open>The hook on the page\<close>

text \<open>The page passes the connection and the property callback.\<close>

definition device_handlers :: rt_handlers where
  "device_handlers = \<lparr>rh_connection = True, rh_property = True, rh_event = False\<rparr>"

text \<open>A text delivers at most one call.\<close>

definition deliver :: "string \<Rightarrow> string \<Rightarrow> device_page \<Rightarrow> device_page option" where
  "deliver tenantId raw s =
     (case handleMessage device_handlers raw of
        [] \<Rightarrow> Some s
      | d # _ \<Rightarrow> map_option (\<lambda>e. apply_event tenantId e s) (event_of d))"

fun page_hears :: "string \<Rightarrow> rt_event \<Rightarrow> device_page \<Rightarrow> device_page option" where
  "page_hears tenantId (SocketText k raw) s = deliver tenantId raw s"
| "page_hears tenantId _ s = Some s"

inductive stream_run ::
    "window_location option \<Rightarrow> string \<Rightarrow> rt_state \<Rightarrow> device_page \<Rightarrow> rt_event list \<Rightarrow> rt_state \<Rightarrow> device_page \<Rightarrow> bool"
  for window tenantId where
  stream_done: "stream_run window tenantId st s [] st s"
| stream_next: "rt_step window st ev st1 \<Longrightarrow> page_hears tenantId ev s = Some s1 \<Longrightarrow>
    stream_run window tenantId st1 s1 evs st2 s2 \<Longrightarrow> stream_run window tenantId st s (ev # evs) st2 s2"

fun texts_of :: "rt_event list \<Rightarrow> string list" where
  "texts_of [] = []"
| "texts_of (SocketText k raw # evs) = raw # texts_of evs"
| "texts_of (_ # evs) = texts_of evs"

section \<open>What the server writes\<close>

fun connection_text :: "connection_status \<Rightarrow> string" where
  "connection_text Online = ''online''"
| "connection_text Offline = ''offline''"

fun event_json :: "device_event \<Rightarrow> js" where
  "event_json (Connection p m) = JObj
     ([(''tenant_id'', JStr (cp_tenant_id p)), (''product_id'', JStr (cp_product_id p)),
       (''device_id'', JStr (cp_device_id p)), (''tenant_slug'', JStr (cp_tenant_slug p)),
       (''product_key'', JStr (cp_product_key p)), (''device_slug'', JStr (cp_device_slug p)),
       (''status'', JStr (connection_text (cp_status p)))] @
      (case cp_reason p of None \<Rightarrow> [] | Some r \<Rightarrow> [(''reason'', JStr r)]))"
| "event_json (Property p m) = JObj
     [(''tenant_id'', JStr (pp_tenant_id p)), (''product_id'', JStr (pp_product_id p)),
      (''device_id'', JStr (pp_device_id p)), (''tenant_slug'', JStr (pp_tenant_slug p)),
      (''product_key'', JStr (pp_product_key p)), (''device_slug'', JStr (pp_device_slug p)),
      (''properties'', JObj (pp_properties p))]"

fun event_type :: "device_event \<Rightarrow> string" where
  "event_type (Connection p m) = ''device.connection.changed''"
| "event_type (Property p m) = ''device.property.changed''"

fun event_meta_of :: "device_event \<Rightarrow> realtime_meta" where
  "event_meta_of (Connection p m) = m"
| "event_meta_of (Property p m) = m"

definition frame :: "string \<Rightarrow> device_event \<Rightarrow> string" where
  "frame eid e = json_compact
     (envelope_of (event_type e) eid (rm_occurredAt (event_meta_of e)) (rm_tenantId (event_meta_of e)) (event_json e))"

fun event_wf :: "device_event \<Rightarrow> bool" where
  "event_wf (Connection p m) = True"
| "event_wf (Property p m) = js_wf (JObj (pp_properties p))"

section \<open>The page follows the stream\<close>

lemma payload_wf: "event_wf e \<Longrightarrow> js_wf (event_json e)"
proof (cases e)
  case (Connection p m)
  have "obj_ok (case event_json e of JObj ob \<Rightarrow> ob | _ \<Rightarrow> [])" unfolding Connection
    by (cases "cp_reason p") (simp_all add: obj_ok_plain not_index_key is_digit_def)
  then show ?thesis using Connection by (cases "cp_reason p") simp_all
next
  case (Property p m)
  assume "event_wf e"
  moreover have "obj_ok (case event_json e of JObj ob \<Rightarrow> ob | _ \<Rightarrow> [])" unfolding Property
    by (simp add: obj_ok_plain not_index_key is_digit_def)
  ultimately show ?thesis using Property by simp
qed

lemma frame_parses:
  assumes "event_wf e"
  shows "json_parse (frame eid e) = Some
    (envelope_of (event_type e) eid (rm_occurredAt (event_meta_of e)) (rm_tenantId (event_meta_of e)) (event_json e))"
proof -
  let ?m = "[(''event_id'', JStr eid), (''event_type'', JStr (event_type e)), (''event_version'', JNum (Fin 1)),
      (''occurred_at'', JStr (rm_occurredAt (event_meta_of e))), (''producer'', JStr ''server''),
      (''tenant_id'', JStr (rm_tenantId (event_meta_of e))), (''payload'', event_json e)]"
  have "obj_ok ?m" by (rule obj_ok_plain; simp add: not_index_key is_digit_def)
  then show ?thesis unfolding frame_def
    by (intro json_parse_compact) (use payload_wf [OF assms] is_double_of_int [of 1] in \<open>simp add: envelope_of_def\<close>)
qed

lemma deliver_frame:
  assumes "event_wf e"
  shows "deliver tenantId (frame eid e) s = Some (apply_event tenantId e s)"
proof (cases e)
  case (Connection p m)
  then show ?thesis using frame_parses [OF assms, of eid]
    by (cases p; cases m; cases "cp_reason p"; cases "cp_status p")
      (simp_all add: deliver_def handleMessage_def envelope_of_def Let_def device_handlers_def string_member_def)
next
  case (Property p m)
  then show ?thesis using frame_parses [OF assms, of eid]
    by (cases p; cases m)
      (simp add: deliver_def handleMessage_def envelope_of_def Let_def device_handlers_def string_member_def)
qed

lemma stream_text:
  "(k, OPEN) \<in> set (rt_live st) \<Longrightarrow> event_wf e \<Longrightarrow>
   stream_run window tenantId st (apply_event tenantId e s) evs st' s' \<Longrightarrow>
   stream_run window tenantId st s (SocketText k (frame eid e) # evs) st' s'"
  by (rule stream_next [OF step_text]) (simp_all add: deliver_frame)

lemma run_applies:
  assumes "stream_run window tenantId st s evs st' s'" "texts_of evs = map (\<lambda>(eid, e). frame eid e) es"
    and "list_all event_wf (map snd es)"
  shows "s' = fold (apply_event tenantId) (map snd es) s"
  using assms
proof (induction arbitrary: es rule: stream_run.induct)
  case (stream_done st s)
  then show ?case by simp
next
  case (stream_next st ev st1 s s1 evs st2 s2)
  show ?case
  proof (cases "\<exists>k raw. ev = SocketText k raw")
    case True
    then obtain k eid e es' where "ev = SocketText k (frame eid e)" "es = (eid, e) # es'"
      using stream_next.prems(1) by (cases es) auto
    then show ?thesis using stream_next by (auto simp: deliver_frame)
  next
    case False
    then have "texts_of (ev # evs) = texts_of evs" "s1 = s" using stream_next.hyps(2) by (cases ev; simp)+
    then show ?thesis using stream_next by simp
  qed
qed


definition online_event :: device_event where
  "online_event = Connection \<lparr>cp_tenant_id = ''t1'', cp_product_id = ''p1'', cp_device_id = ''d1'', cp_tenant_slug = ''t'',
     cp_product_key = ''k'', cp_device_slug = ''d'', cp_status = Online, cp_reason = None\<rparr>
     \<lparr>rm_occurredAt = ''T1'', rm_tenantId = ''t1''\<rparr>"

definition other_tenant_event :: device_event where
  "other_tenant_event = Property \<lparr>pp_tenant_id = ''t2'', pp_product_id = ''p1'', pp_device_id = ''d1'', pp_tenant_slug = ''t'',
     pp_product_key = ''k'', pp_device_slug = ''d'', pp_properties = [(''a'', JBool True)]\<rparr>
     \<lparr>rm_occurredAt = ''T2'', rm_tenantId = ''t2''\<rparr>"

text \<open>A connection that opens, delivers two messages, fails and waits to reconnect.\<close>

definition sample_stream :: "rt_event list" where
  "sample_stream = [SocketOpen 0, SocketText 0 (frame ''e1'' online_event), SocketText 0 (frame ''e2'' other_tenant_event),
     SocketClose 0 1006]"

lemma event_wf_samples: "event_wf online_event" "event_wf other_tenant_event"
  by (simp_all add: online_event_def other_tenant_event_def obj_ok_plain not_index_key is_digit_def)

lemma sample_run:
  obtains st' where "stream_run sample_window ''t1'' (rt_start True sample_window True) s sample_stream st'
    (apply_event ''t1'' other_tenant_event (apply_event ''t1'' online_event s))"
proof
  let ?st = "\<lparr>rt_status = Open, rt_cancelled = False, rt_socket = Some 0, rt_reconnectTimer = None,
     rt_backoffMs = 1000, rt_live = [(0, OPEN)], rt_pending = [], rt_next = 1, rt_closes = []\<rparr>"
  have open_step: "rt_step sample_window (rt_start True sample_window True) (SocketOpen 0) ?st"
    using endpoint_nonempty [of sample_window]
    by (simp add: rt_step_simps rt_start_def rt_fresh_def rt_defs minBackoffMs_def sample_window_def)
  let ?s2 = "apply_event ''t1'' other_tenant_event (apply_event ''t1'' online_event s)"
  have "stream_run sample_window ''t1'' ?st ?s2 [SocketClose 0 1006] (rt_onclose 1006 (drop_socket 0 ?st)) ?s2"
    by (rule stream_next [OF step_close _ stream_done]) simp_all
  then show "stream_run sample_window ''t1'' (rt_start True sample_window True) s sample_stream
      (rt_onclose 1006 (drop_socket 0 ?st)) ?s2"
    unfolding sample_stream_def
    by (auto intro!: stream_next [OF open_step] stream_text simp: event_wf_samples)
qed


end
