(* ===== verification/ProductView.thy ===== *)
theory ProductView
  imports ProductPage TenantView
begin

text \<open>
  The view of the product page (\<open>pages/Admin/ProductManagement.tsx\<close>), its actions and what a user
  can do with it.
\<close>

section \<open>The view\<close>

datatype product_extra = ChooseTenant string

type_synonym product_action = "(product, product_form, product_extra) page_action"

definition product_statusBadgeClassName :: "entity_status \<Rightarrow> string" where
  "product_statusBadgeClassName status = ''inline-flex rounded-full px-2.5 py-1 text-xs font-bold '' @
     (if status = Active then ''bg-linkflow-primary-soft text-linkflow-primary''
      else ''bg-slate-100 text-linkflow-muted dark:bg-slate-800 dark:text-linkflow-dark-muted'')"

definition product_columns ::
  "(string \<Rightarrow> string) \<Rightarrow> (string \<Rightarrow> string) \<Rightarrow> 'w product_page_scheme \<Rightarrow> (product, product_action) column list" where
  "product_columns t fmt s =
     [\<lparr>cn_key = ''name'', cn_title = Txt (t ''adminProductName''),
        cn_render = (\<lambda>product. El ''div'' []
          [El ''strong'' [] [Txt (pd_name product)], El ''span'' [] [Txt (pd_key product)]])\<rparr>,
      \<lparr>cn_key = ''nodeType'', cn_title = Txt (t ''adminProductNodeType''),
        cn_render = (\<lambda>product. Txt (t (nodeTypeLabelKey (pd_node_type product))))\<rparr>,
      \<lparr>cn_key = ''authType'', cn_title = Txt (t ''adminProductAuthType''),
        cn_render = (\<lambda>product. Txt (t (authTypeLabelKey (pd_auth_type product))))\<rparr>,
      \<lparr>cn_key = ''protocol'', cn_title = Txt (t ''adminProductProtocolType''),
        cn_render = (\<lambda>product. Txt (protocol_type_text (pd_protocol_type product)))\<rparr>,
      \<lparr>cn_key = ''status'', cn_title = Txt (t ''adminProductStatus''),
        cn_render = (\<lambda>product. El ''span'' [Attr ''className'' (product_statusBadgeClassName (pd_status product))]
          [Txt (t (productStatusLabelKey (pd_status product)))])\<rparr>,
      \<lparr>cn_key = ''updatedAt'', cn_title = Txt (t ''adminProductUpdatedAt''),
        cn_render = (\<lambda>product. Txt (fmt (pd_updated_at product)))\<rparr>,
      \<lparr>cn_key = ''actions'', cn_title = Txt (t ''adminProductActions''),
        cn_render = (\<lambda>product. El ''div'' []
          [button [Attr ''aria-label'' (t ''adminProductEdit'')] (OpenEdit product) [Icon ''EditOutlined''],
           button [Attr ''aria-label'' (t ''adminProductDelete''), Flag ''disabled'' (pg_deletingId s = Some (pd_id product))]
             (DeleteItem product) [Icon ''DeleteOutlined'']])\<rparr>]"

definition product_mobileItems ::
  "(string \<Rightarrow> string) \<Rightarrow> (string \<Rightarrow> string) \<Rightarrow> 'w product_page_scheme \<Rightarrow> product_action node" where
  "product_mobileItems t fmt s = Many (map (\<lambda>product.
     El ''article'' [Attr ''key'' (pd_id product)] [
       El ''div'' [] [
         El ''div'' [] [El ''h4'' [] [Txt (pd_name product)], El ''p'' [] [Txt (pd_key product)]],
         El ''span'' [Attr ''className'' (product_statusBadgeClassName (pd_status product))]
          [Txt (t (productStatusLabelKey (pd_status product)))]],
       El ''dl'' [] [
         El ''div'' [] [El ''dt'' [] [Txt (t ''adminProductNodeType'')],
           El ''dd'' [] [Txt (t (nodeTypeLabelKey (pd_node_type product)))]],
         El ''div'' [] [El ''dt'' [] [Txt (t ''adminProductAuthType'')],
           El ''dd'' [] [Txt (t (authTypeLabelKey (pd_auth_type product)))]],
         El ''div'' [] [El ''dt'' [] [Txt (t ''adminProductProtocolType'')],
           El ''dd'' [] [Txt (protocol_type_text (pd_protocol_type product))]],
         El ''div'' [] [El ''dt'' [] [Txt (t ''adminProductUpdatedAt'')],
           El ''dd'' [] [Txt (fmt (pd_updated_at product))]]],
       El ''div'' [] [
         button [] (OpenEdit product) [Icon ''EditOutlined'', Txt (t ''adminProductEdit'')],
         button [Flag ''disabled'' (pg_deletingId s = Some (pd_id product))] (DeleteItem product)
           [Icon ''DeleteOutlined'', Txt (t ''adminProductDelete'')]]]) (pg_products s))"

definition product_dialog :: "(string \<Rightarrow> string) \<Rightarrow> form_mode \<Rightarrow> 'w product_page_scheme \<Rightarrow> product_action node" where
  "product_dialog t formMode s =
     El ''div'' [Attr ''role'' ''dialog'', Attr ''aria-modal'' ''true'', Attr ''aria-labelledby'' ''product-form-title''] [
       El ''section'' [] [
         El ''div'' [] [
           El ''h3'' [Attr ''id'' ''product-form-title'']
             [Txt (if formMode = Create then t ''adminProductCreateTitle'' else t ''adminProductEditTitle'')],
           button [Attr ''aria-label'' (t ''adminProductCancel'')] CloseForm [Icon ''CloseOutlined'']],
         El ''form'' [OnSubmit Submit] [
           El ''label'' [] [Txt (t ''adminProductKey''),
             El ''input'' [Attr ''value'' (pf_key (pg_form s)),
               OnChange (\<lambda>value. SetForm (\<lambda>form. form\<lparr>pf_key := value\<rparr>)),
               Flag ''disabled'' (formMode = Edit), Flag ''required'' True] []],
           El ''label'' [] [Txt (t ''adminProductName''),
             El ''input'' [Attr ''value'' (pf_name (pg_form s)),
               OnChange (\<lambda>value. SetForm (\<lambda>form. form\<lparr>pf_name := value\<rparr>)), Flag ''required'' True] []],
           El ''label'' [] [Txt (t ''adminProductNodeType''),
             El ''select'' [Attr ''value'' (node_type_text (pf_node_type (pg_form s))),
               OnChange (\<lambda>value. SetForm (\<lambda>form. form\<lparr>pf_node_type :=
                 typed node_type_text [Direct, Gateway, SubDevice] value\<rparr>))]
               [option_node ''direct'' (t ''adminProductNodeDirect''), option_node ''gateway'' (t ''adminProductNodeGateway''),
                option_node ''sub_device'' (t ''adminProductNodeSubDevice'')]],
           El ''label'' [] [Txt (t ''adminProductAuthType''),
             El ''select'' [Attr ''value'' (auth_type_text (pf_auth_type (pg_form s))),
               OnChange (\<lambda>value. SetForm (\<lambda>form. form\<lparr>pf_auth_type :=
                 typed auth_type_text [Secret, Certificate, Anonymous] value\<rparr>))]
               [option_node ''secret'' (t ''adminProductAuthSecret''),
                option_node ''certificate'' (t ''adminProductAuthCertificate''),
                option_node ''anonymous'' (t ''adminProductAuthAnonymous'')]],
           El ''label'' [] [Txt (t ''adminProductProtocolType''),
             El ''select'' [Attr ''value'' (protocol_type_text (pf_protocol_type (pg_form s))),
               OnChange (\<lambda>value. SetForm (\<lambda>form. form\<lparr>pf_protocol_type :=
                 typed protocol_type_text [Mqtt, Http, Coap, Modbus, Opcua, Lora] value\<rparr>))]
               [option_node ''mqtt'' ''MQTT'', option_node ''http'' ''HTTP'', option_node ''coap'' ''CoAP'',
                option_node ''modbus'' ''Modbus'', option_node ''opcua'' ''OPC UA'', option_node ''lora'' ''LoRa'']],
           El ''label'' [] [Txt (t ''adminProductStatus''),
             El ''select'' [Attr ''value'' (status_text (pf_status (pg_form s))),
               OnChange (\<lambda>value. SetForm (\<lambda>form. form\<lparr>pf_status := typed status_text [Active, Disabled] value\<rparr>)),
               Flag ''disabled'' (formMode = Create)]
               [option_node ''active'' (t ''adminProductStatusActive''),
                option_node ''disabled'' (t ''adminProductStatusDisabled'')]],
           El ''label'' [] [Txt (t ''adminProductDescription''),
             El ''textarea'' [Attr ''value'' (pf_description (pg_form s)),
               OnChange (\<lambda>value. SetForm (\<lambda>form. form\<lparr>pf_description := value\<rparr>))] []],
           El ''div'' [] [
             El ''button'' [Attr ''type'' ''submit'', Flag ''disabled'' (pg_saving s)]
               [Icon ''SaveOutlined'', Txt (if pg_saving s then t ''adminProductSaving'' else t ''adminProductSave'')],
             button [] CloseForm [Txt (t ''adminProductCancel'')]]]]]"

definition product_pagination :: "(string \<Rightarrow> string) \<Rightarrow> 'w product_page_scheme \<Rightarrow> product_action pagination" where
  "product_pagination t s =
     list_bar t ''adminProduct'' [10, 20, 50] (pg_loading s) (pg_page s) (pg_pageSize s) (pg_total s)"

definition product_view ::
  "(string \<Rightarrow> string) \<Rightarrow> (string \<Rightarrow> string) \<Rightarrow> string \<Rightarrow> 'w product_page_scheme \<Rightarrow> product_action table_action node" where
  "product_view t fmt jumpPage s =
     El ''section'' [] [
       El ''div'' [] [
         tenant_select t (pg_tenants s) (pg_tenantId s) (\<lambda>value. Outer (Extra (ChooseTenant value))),
         button [Flag ''disabled'' (pg_tenantId s = [])] (Outer OpenCreate)
           [Icon ''PlusOutlined'', Txt (t ''adminProductCreate'')]],
       (case pg_formMode s of None \<Rightarrow> Null | Some m \<Rightarrow> map_node Outer (product_dialog t m s)),
       AdminDataTable (product_columns t fmt s) (t ''adminProductEmptyDescription'') (t ''adminProductEmpty'') pd_id
         (pg_products s) (product_mobileItems t fmt s) (product_pagination t s) jumpPage]"

section \<open>The actions\<close>

fun product_perform ::
  "'w product_page_scheme product_api \<Rightarrow> product_action \<Rightarrow> 'w product_page_scheme \<Rightarrow> ('w product_page_scheme, unit) act" where
  "product_perform api OpenCreate cl = update product_openCreateForm"
| "product_perform api (OpenEdit product) cl = update (product_openEditForm product)"
| "product_perform api CloseForm cl = update product_closeForm"
| "product_perform api (SetForm f) cl = update (product_updateFormField f)"
| "product_perform api Submit cl = product_handleSubmit api cl"
| "product_perform api (DeleteItem product) cl = product_handleDelete api cl product"
| "product_perform api (SetPage n) cl = update (\<lambda>s. s\<lparr>pg_page := page_int n\<rparr>)"
| "product_perform api (SetPageSize n) cl = update (\<lambda>s. s\<lparr>pg_page := 1, pg_pageSize := page_int n\<rparr>)"
| "product_perform api (Extra (ChooseTenant nextTenantId)) cl = update (product_handleTenantChange nextTenantId)"

section \<open>What a user can do\<close>

lemma product_dialog_offers:
  "offers (product_dialog t m s) Submit \<longleftrightarrow>
     \<not> pg_saving s \<and> (m = Edit \<or> pf_key (pg_form s) \<noteq> []) \<and> pf_name (pg_form s) \<noteq> []"
  by (cases m) (auto simp: product_dialog_def o_def)

lemma product_submit_offered:
  "offers (product_view t fmt jumpPage s) (Outer Submit) \<longleftrightarrow>
     (\<exists>m. pg_formMode s = Some m \<and> \<not> pg_saving s \<and> (m = Edit \<or> pf_key (pg_form s) \<noteq> []) \<and> pf_name (pg_form s) \<noteq> [])"
  by (auto simp: product_view_def tenant_select_def table_offers bar_offers product_columns_def product_mobileItems_def
      product_pagination_def list_ex_iff o_def offers_map product_dialog_offers split: option.split)

section \<open>One submission at a time\<close>

record product_screen = product_page +
  ps_jumpPage :: string

definition product_shown ::
  "(string \<Rightarrow> string) \<Rightarrow> (string \<Rightarrow> string) \<Rightarrow> product_screen \<Rightarrow> product_action table_action node" where
  "product_shown t fmt s = product_view t fmt (ps_jumpPage s) s"

definition product_react ::
  "(string \<Rightarrow> string) \<Rightarrow> product_screen product_api \<Rightarrow> product_action table_action \<Rightarrow> product_screen \<Rightarrow> (product_screen, unit) act" where
  "product_react t api =
     table_act (product_pagination t) ps_jumpPage (\<lambda>text s. s\<lparr>ps_jumpPage := text\<rparr>) (product_perform api)"

definition product_undisturbed :: "product_screen product_api \<Rightarrow> bool" where
  "product_undisturbed api \<longleftrightarrow> quiet pg_saving (pa_list api) \<and> quiet pg_saving (pa_product api) \<and> quiet pg_saving (pa_delete api)"

lemma product_others_keep:
  "product_undisturbed api \<Longrightarrow> a \<noteq> Submit \<Longrightarrow> keeps pg_saving (product_perform api a cl)"
  by (cases "(api, a, cl)" rule: product_perform.cases)
    (auto simp: product_undisturbed_def product_handleDelete_def loadProducts_def listProducts_def deleteProduct_def
      product_openCreateForm_def product_openEditForm_def product_closeForm_def product_updateFormField_def
      product_handleTenantChange_def product_loaded_def product_cleared_def
      intro!: keeps_rules keeps_update keeps_finally keeps_apiRequest)

interpretation product_busy: busy_form "product_shown t fmt" "product_react t" "Outer Submit" pg_saving product_undisturbed
  for t fmt
proof
  show "\<not> offers (product_shown t fmt s) (Outer Submit)" if "pg_saving s" for s
    using that by (simp add: product_shown_def product_submit_offered)
  show "keeps pg_saving (product_react t api a cl)" if "product_undisturbed api" "a \<noteq> Outer Submit" for api a cl
    unfolding product_react_def
    by (rule keeps_table_act) (use that in \<open>auto simp: product_pagination_def intro: product_others_keep\<close>)
qed

end
