(* ===== verification/ThingsModelView.thy ===== *)
theory ThingsModelView
  imports ThingsModelIds ThingsModelPresets DevicePage TenantView
begin

text \<open>
  The view of the things model page (\<open>pages/Admin/ThingsModelManagement.tsx\<close>): the list, and the
  editor with its tabs, rows, presets and previews; its actions; and what a user can do with it.
\<close>

section \<open>The parts of the editor\<close>

datatype model_extra =
    Op model_op
  | FilterProducts string
  | ChooseTab definition_tab

type_synonym model_action = "(things_model, model_form, model_extra) page_action"

abbreviation edit :: "model_op \<Rightarrow> model_action" where
  "edit op \<equiv> Extra (Op op)"

definition DefinitionPresetBar :: "(string \<Rightarrow> string) \<Rightarrow> (js_object \<Rightarrow> 'a) \<Rightarrow> preset list \<Rightarrow> string \<Rightarrow> 'a node" where
  "DefinitionPresetBar t onApply presets title =
     El ''section'' [] [
       El ''div'' [] [Txt title],
       El ''div'' [] (map (\<lambda>preset. button [Attr ''key'' (ps_labelKey preset)] (onApply (ps_template preset))
         [Txt (t (ps_labelKey preset))]) presets)]"

definition JSONPreviewField :: "string \<Rightarrow> string \<Rightarrow> 'a node" where
  "JSONPreviewField label value =
     El ''label'' [] [
       El ''span'' [] [El ''span'' [] [Txt label], El ''span'' [] [Txt ''JSON'']],
       El ''pre'' [Attr ''title'' value] [Txt value],
       El ''textarea'' [Attr ''value'' value, Flag ''readOnly'' True, Flag ''required'' True] []]"

abbreviation data_type_options :: "(string \<times> string) list" where
  "data_type_options \<equiv> [(''string'', ''string''), (''int'', ''int''), (''float'', ''float''), (''double'', ''double''), (''bool'', ''bool'')]"

abbreviation data_type_of :: "string \<Rightarrow> data_type" where
  "data_type_of \<equiv> typed data_type_text [TString, TInt, TFloat, TDouble, TBool]"

text \<open>The fields that parameter rows and property rows share, after the choice of the type.\<close>

definition spec_fields :: "(string \<Rightarrow> string) \<Rightarrow> 'w param_draft_scheme \<Rightarrow> (param_edit \<Rightarrow> 'a) \<Rightarrow> 'a node list" where
  "spec_fields t draft change =
     [El ''label'' [] [
        El ''input'' [Attr ''type'' ''checkbox'', Flag ''checked'' (dr_required draft), OnCheck (\<lambda>b. change (SetRequired b))] [],
        Txt (t ''adminThingsModelRequired'')],
      field (t ''adminThingsModelSpecMin'') ''input'' [Attr ''inputMode'' ''decimal'', Attr ''placeholder'' ''-40'']
        (dr_min draft) (\<lambda>v. change (SetMin v)),
      field (t ''adminThingsModelSpecMax'') ''input'' [Attr ''inputMode'' ''decimal'', Attr ''placeholder'' ''125'']
        (dr_max draft) (\<lambda>v. change (SetMax v)),
      field (t ''adminThingsModelSpecStep'') ''input'' [Attr ''inputMode'' ''decimal'', Attr ''placeholder'' ''0.1'']
        (dr_step draft) (\<lambda>v. change (SetStep v)),
      field (t ''adminThingsModelSpecUnit'') ''input'' [Attr ''placeholder'' ''celsius'']
        (dr_unit draft) (\<lambda>v. change (SetUnit v)),
      field (t ''adminThingsModelSpecPrecision'') ''input'' [Attr ''inputMode'' ''numeric'', Attr ''placeholder'' ''1'']
        (dr_precision draft) (\<lambda>v. change (SetPrecision v))]"

definition ParamDraftList ::
  "(string \<Rightarrow> string) \<Rightarrow> string \<Rightarrow> 'a \<Rightarrow> (string \<Rightarrow> param_edit \<Rightarrow> 'a) \<Rightarrow> (string \<Rightarrow> 'a) \<Rightarrow> param_row list \<Rightarrow> string \<Rightarrow> 'a node" where
  "ParamDraftList t addLabel onAddRow onChangeRow onRemoveRow rows title =
     El ''section'' [] [
       El ''div'' [] [
         El ''h4'' [] [Txt title],
         button [] onAddRow [Icon ''PlusOutlined'', Txt addLabel]],
       (if 0 < length rows then El ''div'' [] (map (\<lambda>(index, draft).
            El ''div'' [Attr ''key'' (pr_localId draft)] [
              El ''div'' [] [
                El ''span'' [] [Txt ''#'', Txt (dec (index + 1))],
                button [] (onRemoveRow (pr_localId draft)) [Icon ''DeleteOutlined'', Txt (t ''adminThingsModelRemoveParam'')]],
              El ''div'' [] (
                [field (t ''adminThingsModelParamIdentifier'') ''input'' [Attr ''placeholder'' ''temperature'']
                   (dr_identifier draft) (\<lambda>v. onChangeRow (pr_localId draft) (SetIdentifier v)),
                 field (t ''adminThingsModelParamName'') ''input''
                   [Attr ''placeholder'' (t ''adminThingsModelPropertyNameExample'')]
                   (dr_name draft) (\<lambda>v. onChangeRow (pr_localId draft) (SetName v)),
                 choice (t ''adminThingsModelDataType'') [] (data_type_text (dr_dataType draft))
                   (\<lambda>v. onChangeRow (pr_localId draft) (SetDataType (data_type_of v))) data_type_options] @
                spec_fields t draft (onChangeRow (pr_localId draft)))])
            (enumerate 0 rows))
        else El ''div'' [] [Txt (t ''adminThingsModelNoParams'')])]"

text \<open>\<open>identifier.trim() || `${label} #${index + 1}`\<close>\<close>

definition row_title :: "string \<Rightarrow> string \<Rightarrow> nat \<Rightarrow> string" where
  "row_title identifier label index = (if trim identifier \<noteq> [] then trim identifier else label @ '' #'' @ dec (index + 1))"

definition property_row_view :: "(string \<Rightarrow> string) \<Rightarrow> nat \<times> property_row \<Rightarrow> model_action node" where
  "property_row_view t = (\<lambda>(index, row).
     El ''section'' [Attr ''key'' (pw_localId row)] [
       El ''div'' [] [
         El ''h4'' [] [Txt (row_title (dr_identifier row) (t ''adminThingsModelPropertiesTab'') index)],
         button [] (edit (RemoveProperty (pw_localId row)))
           [Icon ''DeleteOutlined'', Txt (t ''adminThingsModelRemoveDefinition'')]],
       El ''div'' [] (
         [field (t ''adminThingsModelIdentifier'') ''input'' [Attr ''placeholder'' ''temperature'']
            (dr_identifier row) (\<lambda>v. edit (UpdateProperty (pw_localId row) (SetParam (SetIdentifier v)))),
          field (t ''adminThingsModelDisplayName'') ''input''
            [Attr ''placeholder'' (t ''adminThingsModelPropertyNameExample'')]
            (dr_name row) (\<lambda>v. edit (UpdateProperty (pw_localId row) (SetParam (SetName v)))),
          choice (t ''adminThingsModelDataType'') [] (data_type_text (dr_dataType row))
            (\<lambda>v. edit (UpdateProperty (pw_localId row) (SetParam (SetDataType (data_type_of v))))) data_type_options,
          choice (t ''adminThingsModelAccessMode'') [] (access_mode_text (dr_accessMode row))
            (\<lambda>v. edit (UpdateProperty (pw_localId row)
               (SetAccessMode (typed access_mode_text [Read, Write, ReadWrite] v))))
            [(''read'', t ''adminThingsModelAccessRead''), (''write'', t ''adminThingsModelAccessWrite''),
             (''readwrite'', t ''adminThingsModelAccessReadWrite'')]] @
         spec_fields t row (\<lambda>e. edit (UpdateProperty (pw_localId row) (SetParam e))))])"

definition event_row_view :: "(string \<Rightarrow> string) \<Rightarrow> nat \<times> event_row \<Rightarrow> model_action node" where
  "event_row_view t = (\<lambda>(index, row).
     El ''section'' [Attr ''key'' (ew_localId row)] [
       El ''div'' [] [
         El ''h4'' [] [Txt (row_title (ed_identifier row) (t ''adminThingsModelEventsTab'') index)],
         button [] (edit (RemoveEvent (ew_localId row)))
           [Icon ''DeleteOutlined'', Txt (t ''adminThingsModelRemoveDefinition'')]],
       El ''div'' [] [
         field (t ''adminThingsModelIdentifier'') ''input'' [Attr ''placeholder'' ''temperature_alarm'']
           (ed_identifier row) (\<lambda>v. edit (UpdateEvent (ew_localId row) (SetEventIdentifier v))),
         field (t ''adminThingsModelDisplayName'') ''input''
           [Attr ''placeholder'' (t ''adminThingsModelEventNameExample'')]
           (ed_name row) (\<lambda>v. edit (UpdateEvent (ew_localId row) (SetEventName v))),
         choice (t ''adminThingsModelEventLevel'') [] (event_level_text (ed_level row))
           (\<lambda>v. edit (UpdateEvent (ew_localId row) (SetEventLevel (typed event_level_text [Info, Warning, ErrorLevel] v))))
           [(''info'', ''info''), (''warning'', ''warning''), (''error'', ''error'')]],
       field (t ''adminThingsModelDescriptionField'') ''textarea''
         [Attr ''placeholder'' (t ''adminThingsModelEventDescExample'')]
         (ed_desc row) (\<lambda>v. edit (UpdateEvent (ew_localId row) (SetEventDesc v))),
       ParamDraftList t (t ''adminThingsModelNewParam'') (edit (AddEventOutput (ew_localId row)))
         (\<lambda>localId e. edit (UpdateEventOutput (ew_localId row) localId e))
         (\<lambda>localId. edit (RemoveEventOutput (ew_localId row) localId))
         (ew_outputParams row) (t ''adminThingsModelEventOutput'')])"

definition service_row_view :: "(string \<Rightarrow> string) \<Rightarrow> nat \<times> service_row \<Rightarrow> model_action node" where
  "service_row_view t = (\<lambda>(index, row).
     El ''section'' [Attr ''key'' (sw_localId row)] [
       El ''div'' [] [
         El ''h4'' [] [Txt (row_title (sd_identifier row) (t ''adminThingsModelServicesTab'') index)],
         button [] (edit (RemoveService (sw_localId row)))
           [Icon ''DeleteOutlined'', Txt (t ''adminThingsModelRemoveDefinition'')]],
       El ''div'' [] [
         field (t ''adminThingsModelIdentifier'') ''input'' [Attr ''placeholder'' ''reboot'']
           (sd_identifier row) (\<lambda>v. edit (UpdateService (sw_localId row) (SetServiceIdentifier v))),
         field (t ''adminThingsModelDisplayName'') ''input''
           [Attr ''placeholder'' (t ''adminThingsModelServiceNameExample'')]
           (sd_name row) (\<lambda>v. edit (UpdateService (sw_localId row) (SetServiceName v))),
         choice (t ''adminThingsModelCallType'') [] (call_type_text (sd_callType row))
           (\<lambda>v. edit (UpdateService (sw_localId row) (SetServiceCallType (typed call_type_text [Sync, Async] v))))
           [(''sync'', ''sync''), (''async'', ''async'')]],
       field (t ''adminThingsModelDescriptionField'') ''textarea''
         [Attr ''placeholder'' (t ''adminThingsModelServiceDescExample'')]
         (sd_desc row) (\<lambda>v. edit (UpdateService (sw_localId row) (SetServiceDesc v))),
       ParamDraftList t (t ''adminThingsModelNewParam'') (edit (AddServiceInput (sw_localId row)))
         (\<lambda>localId e. edit (UpdateServiceInput (sw_localId row) localId e))
         (\<lambda>localId. edit (RemoveServiceInput (sw_localId row) localId))
         (sw_inputParams row) (t ''adminThingsModelServiceInput''),
       ParamDraftList t (t ''adminThingsModelNewParam'') (edit (AddServiceOutput (sw_localId row)))
         (\<lambda>localId e. edit (UpdateServiceOutput (sw_localId row) localId e))
         (\<lambda>localId. edit (RemoveServiceOutput (sw_localId row) localId))
         (sw_outputParams row) (t ''adminThingsModelServiceOutput'')])"

text \<open>One tab: the tip, the presets, the add button, the rows and the preview.\<close>

definition definition_panel ::
  "(string \<Rightarrow> string) \<Rightarrow> string \<Rightarrow> definition_tab \<Rightarrow> preset list \<Rightarrow> model_op \<Rightarrow> string \<Rightarrow> model_action node list \<Rightarrow> string \<Rightarrow>
   model_action node" where
  "definition_panel t tip tab presets add addKey rows preview =
     El ''div'' [] [
       El ''p'' [] [Txt (t tip)],
       El ''div'' [] [
         DefinitionPresetBar t (\<lambda>template. edit (ApplyPreset tab template)) presets (t ''adminThingsModelCommonPresets''),
         button [] (edit add) [Icon ''PlusOutlined'', Txt (t addKey)]],
       El ''div'' [] rows,
       JSONPreviewField (t ''adminThingsModelJSONPreview'') preview]"

definition definitionTabs :: "(string \<times> definition_tab \<times> string) list" where
  "definitionTabs =
     [(''properties'', PropertiesTab, ''adminThingsModelPropertiesTab''), (''events'', EventsTab, ''adminThingsModelEventsTab''),
      (''services'', ServicesTab, ''adminThingsModelServicesTab'')]"

definition properties_panel :: "(string \<Rightarrow> string) \<Rightarrow> string \<Rightarrow> 'w model_page_scheme \<Rightarrow> model_action node" where
  "properties_panel t engine s =
     definition_panel t ''adminThingsModelPropertiesTip'' PropertiesTab propertyPresets AddProperty
       ''adminThingsModelAddProperty'' (map (property_row_view t) (enumerate 0 (mg_propertyRows s)))
       (safeDefinitionPreview engine (objectFromPropertyRows (mg_propertyRows s)))"

definition events_panel :: "(string \<Rightarrow> string) \<Rightarrow> string \<Rightarrow> 'w model_page_scheme \<Rightarrow> model_action node" where
  "events_panel t engine s =
     definition_panel t ''adminThingsModelEventsTip'' EventsTab eventPresets AddEvent
       ''adminThingsModelAddEvent'' (map (event_row_view t) (enumerate 0 (mg_eventRows s)))
       (safeDefinitionPreview engine (objectFromEventRows (mg_eventRows s)))"

definition services_panel :: "(string \<Rightarrow> string) \<Rightarrow> string \<Rightarrow> 'w model_page_scheme \<Rightarrow> model_action node" where
  "services_panel t engine s =
     definition_panel t ''adminThingsModelServicesTip'' ServicesTab servicePresets AddService
       ''adminThingsModelAddService'' (map (service_row_view t) (enumerate 0 (mg_serviceRows s)))
       (safeDefinitionPreview engine (objectFromServiceRows (mg_serviceRows s)))"

definition definitions_view :: "(string \<Rightarrow> string) \<Rightarrow> string \<Rightarrow> 'w model_page_scheme \<Rightarrow> model_action node" where
  "definitions_view t engine s =
     El ''section'' [] [
       El ''div'' [Attr ''role'' ''tablist'', Attr ''aria-label'' (t ''adminThingsModelDefinitionTabs'')]
         (map (\<lambda>(i, tab, labelKey).
            button [Attr ''key'' i, Attr ''role'' ''tab'', Flag ''aria-selected'' (mg_tab s = tab)]
              (Extra (ChooseTab tab)) [Txt (t labelKey)]) definitionTabs),
       when (mg_tab s = PropertiesTab) (properties_panel t engine s),
       when (mg_tab s = EventsTab) (events_panel t engine s),
       when (mg_tab s = ServicesTab) (services_panel t engine s)]"

lemmas definition_panels = properties_panel_def events_panel_def services_panel_def

section \<open>The page\<close>

definition model_dialog :: "(string \<Rightarrow> string) \<Rightarrow> string \<Rightarrow> form_mode \<Rightarrow> 'w model_page_scheme \<Rightarrow> model_action node" where
  "model_dialog t engine formMode s =
     El ''div'' [Attr ''role'' ''dialog'', Attr ''aria-modal'' ''true'', Attr ''aria-labelledby'' ''thingsmodel-form-title''] [
       El ''section'' [] [
         El ''div'' [] [
           El ''h3'' [Attr ''id'' ''thingsmodel-form-title'']
             [Txt (if formMode = Create then t ''adminThingsModelCreateTitle'' else t ''adminThingsModelEditTitle'')],
           button [Attr ''aria-label'' (t ''adminThingsModelCancel'')] page_action.CloseForm [Icon ''CloseOutlined'']],
         El ''form'' [OnSubmit Submit] [
           choice (t ''adminProductName'') [Flag ''disabled'' (formMode = Edit), Flag ''required'' True]
             (mf_product_id (mg_form s)) (\<lambda>value. SetForm (\<lambda>form. form\<lparr>mf_product_id := value\<rparr>))
             (map (\<lambda>product. (pd_id product, pd_name product)) (mg_products s)),
           field (t ''adminThingsModelVersion'') ''input''
             [Attr ''min'' ''1'', Attr ''type'' ''number'', Flag ''disabled'' (formMode = Edit), Flag ''required'' True]
             (mf_version (mg_form s)) (\<lambda>value. SetForm (\<lambda>form. form\<lparr>mf_version := value\<rparr>)),
           field (t ''adminThingsModelName'') ''input'' [Flag ''required'' True]
             (mf_name (mg_form s)) (\<lambda>value. SetForm (\<lambda>form. form\<lparr>mf_name := value\<rparr>)),
           choice (t ''adminThingsModelStatus'') [] (model_status_text (mf_status (mg_form s)))
             (\<lambda>value. edit (StatusChange (typed model_status_text [Draft, Published, Deprecated] value)))
             [(''draft'', t ''adminThingsModelStatusDraft''), (''published'', t ''adminThingsModelStatusPublished''),
              (''deprecated'', t ''adminThingsModelStatusDeprecated'')],
           field (t ''adminThingsModelDescription'') ''textarea'' []
             (mf_description (mg_form s)) (\<lambda>value. SetForm (\<lambda>form. form\<lparr>mf_description := value\<rparr>)),
           El ''label'' [] [
             El ''input'' [Attr ''type'' ''checkbox'', Flag ''checked'' (mf_is_current (mg_form s)),
               Flag ''disabled'' (mf_status (mg_form s) \<noteq> Published),
               OnCheck (\<lambda>b. SetForm (\<lambda>form. form\<lparr>mf_is_current := b\<rparr>))] [],
             Txt (t ''adminThingsModelCurrent'')],
           definitions_view t engine s,
           El ''div'' [] [
             El ''button'' [Attr ''type'' ''submit'', Flag ''disabled'' (mg_saving s)]
               [Icon ''SaveOutlined'', Txt (if mg_saving s then t ''adminThingsModelSaving'' else t ''adminThingsModelSave'')],
             button [] page_action.CloseForm [Txt (t ''adminThingsModelCancel'')]]]]]"

definition model_product_name :: "(string \<Rightarrow> string) \<Rightarrow> 'w model_page_scheme \<Rightarrow> things_model \<Rightarrow> string" where
  "model_product_name t s model =
     (case productNameById (mg_products s) (tm_product_id model) of None \<Rightarrow> t ''adminThingsModelUnknownProduct'' | Some n \<Rightarrow> n)"

definition schema_summary :: "(string \<Rightarrow> string) \<Rightarrow> things_model \<Rightarrow> string" where
  "schema_summary t model =
     replace_first ''{services}'' (dec (objectKeyCount (tm_services model)))
       (replace_first ''{events}'' (dec (objectKeyCount (tm_events model)))
         (replace_first ''{properties}'' (dec (objectKeyCount (tm_properties model))) (t ''adminThingsModelSchemaSummary'')))"

definition model_statusBadgeClassName :: "model_status \<Rightarrow> string" where
  "model_statusBadgeClassName status = ''inline-flex rounded-full px-2.5 py-1 text-xs font-bold '' @
     (if status = Published then ''bg-linkflow-primary-soft text-linkflow-primary''
      else if status = Deprecated then ''bg-slate-100 text-linkflow-muted dark:bg-slate-800 dark:text-linkflow-dark-muted''
      else ''bg-amber-50 text-amber-700 dark:bg-amber-950/30 dark:text-amber-300'')"

definition model_columns ::
  "(string \<Rightarrow> string) \<Rightarrow> (string \<Rightarrow> string) \<Rightarrow> 'w model_page_scheme \<Rightarrow> (things_model, model_action) column list" where
  "model_columns t fmt s =
     [\<lparr>cn_key = ''name'', cn_title = Txt (t ''adminThingsModelName''),
        cn_render = (\<lambda>model. El ''div'' []
          [El ''strong'' [] [Txt (tm_name model)], El ''span'' [] [Txt ''v'', Txt (dec_int (tm_version model))]])\<rparr>,
      \<lparr>cn_key = ''product'', cn_title = Txt (t ''adminProductName''),
        cn_render = (\<lambda>model. Txt (model_product_name t s model))\<rparr>,
      \<lparr>cn_key = ''status'', cn_title = Txt (t ''adminThingsModelStatus''),
        cn_render = (\<lambda>model. El ''span'' [Attr ''className'' (model_statusBadgeClassName (tm_status model))]
            [Txt (t (modelStatusLabelKey (tm_status model)))])\<rparr>,
      \<lparr>cn_key = ''current'', cn_title = Txt (t ''adminThingsModelCurrent''),
        cn_render = (\<lambda>model. El ''span'' []
          [Txt (if tm_is_current model then t ''adminThingsModelCurrent'' else t ''adminThingsModelCurrentNo'')])\<rparr>,
      \<lparr>cn_key = ''schema'', cn_title = Txt (t ''adminThingsModelSchema''),
        cn_render = (\<lambda>model. Txt (schema_summary t model))\<rparr>,
      \<lparr>cn_key = ''updatedAt'', cn_title = Txt (t ''adminThingsModelUpdatedAt''),
        cn_render = (\<lambda>model. Txt (fmt (tm_updated_at model)))\<rparr>,
      \<lparr>cn_key = ''actions'', cn_title = Txt (t ''adminThingsModelActions''),
        cn_render = (\<lambda>model. El ''div'' []
          [button [Attr ''aria-label'' (t ''adminThingsModelEdit'')] (page_action.OpenEdit model) [Icon ''EditOutlined''],
           button [Attr ''aria-label'' (t ''adminThingsModelDelete''), Flag ''disabled'' (mg_deletingId s = Some (tm_id model))]
             (DeleteItem model) [Icon ''DeleteOutlined'']])\<rparr>]"

definition model_mobileItems ::
  "(string \<Rightarrow> string) \<Rightarrow> (string \<Rightarrow> string) \<Rightarrow> 'w model_page_scheme \<Rightarrow> model_action node" where
  "model_mobileItems t fmt s = Many (map (\<lambda>model.
     El ''article'' [Attr ''key'' (tm_id model)] [
       when (tm_is_current model) (El ''span'' [] [Txt (t ''adminThingsModelCurrent'')]),
       El ''div'' [] [
         El ''div'' [] [El ''h4'' [] [Txt (tm_name model)],
           El ''p'' [] [Txt (model_product_name t s model), Txt '' '', Txt ''/ v'', Txt (dec_int (tm_version model))]],
         El ''span'' [Attr ''className'' (model_statusBadgeClassName (tm_status model))]
            [Txt (t (modelStatusLabelKey (tm_status model)))]],
       El ''dl'' [] [
         El ''div'' [] [El ''dt'' [] [Txt (t ''adminThingsModelCurrent'')],
           El ''dd'' [] [Txt (if tm_is_current model then t ''adminThingsModelCurrentYes'' else t ''adminThingsModelCurrentNo'')]],
         El ''div'' [] [El ''dt'' [] [Txt (t ''adminThingsModelUpdatedAt'')],
           El ''dd'' [] [Txt (fmt (tm_updated_at model))]],
         El ''div'' [] [El ''dt'' [] [Txt (t ''adminThingsModelSchema'')],
           El ''dd'' [] [Txt (schema_summary t model)]]],
       El ''div'' [] [
         button [] (page_action.OpenEdit model) [Icon ''EditOutlined'', Txt (t ''adminThingsModelEdit'')],
         button [Flag ''disabled'' (mg_deletingId s = Some (tm_id model))] (DeleteItem model)
           [Icon ''DeleteOutlined'', Txt (t ''adminThingsModelDelete'')]]]) (mg_models s))"

definition model_pagination :: "(string \<Rightarrow> string) \<Rightarrow> 'w model_page_scheme \<Rightarrow> model_action pagination" where
  "model_pagination t s =
     list_bar t ''adminThingsModel'' [10, 20, 50] (mg_loading s) (mg_page s) (mg_pageSize s) (mg_total s)"

definition model_view ::
  "(string \<Rightarrow> string) \<Rightarrow> (string \<Rightarrow> string) \<Rightarrow> string \<Rightarrow> string \<Rightarrow> 'w model_page_scheme \<Rightarrow> model_action table_action node" where
  "model_view t fmt engine jumpPage s =
     El ''section'' [] [
       El ''div'' [] [
         El ''div'' [] [
           tenant_select t (mg_tenants s) (mg_tenantId s) (\<lambda>value. Outer (edit (TenantChange value))),
           choice (t ''adminProductName'') [] (mg_productFilter s) (\<lambda>value. Outer (Extra (FilterProducts value)))
             (([], t ''adminThingsModelAllProducts'') # map (\<lambda>product. (pd_id product, pd_name product)) (mg_products s))],
         button [Flag ''disabled'' (mg_tenantId s = [] \<or> length (mg_products s) = 0)] (Outer page_action.OpenCreate)
           [Icon ''PlusOutlined'', Txt (t ''adminThingsModelCreate'')]],
       (case mg_formMode s of None \<Rightarrow> Null | Some m \<Rightarrow> map_node Outer (model_dialog t engine m s)),
       AdminDataTable (model_columns t fmt s) (t ''adminThingsModelEmptyDescription'') (t ''adminThingsModelEmpty'') tm_id
         (mg_models s) (model_mobileItems t fmt s) (model_pagination t s) jumpPage]"

section \<open>The actions\<close>

fun model_perform ::
  "(nat \<Rightarrow> string) \<Rightarrow> 'w model_page_scheme model_api \<Rightarrow> model_action \<Rightarrow> 'w model_page_scheme \<Rightarrow> ('w model_page_scheme, unit) act" where
  "model_perform fresh api page_action.OpenCreate cl = update (model_openCreateForm fresh cl)"
| "model_perform fresh api (page_action.OpenEdit model) cl = update (model_openEditForm fresh model)"
| "model_perform fresh api page_action.CloseForm cl = update model_closeForm"
| "model_perform fresh api (SetForm f) cl = update (model_updateFormField f)"
| "model_perform fresh api Submit cl = model_handleSubmit api cl"
| "model_perform fresh api (DeleteItem model) cl = model_handleDelete api cl model"
| "model_perform fresh api (SetPage n) cl = update (\<lambda>s. s\<lparr>mg_page := page_int n\<rparr>)"
| "model_perform fresh api (SetPageSize n) cl = update (\<lambda>s. s\<lparr>mg_page := 1, mg_pageSize := page_int n\<rparr>)"
| "model_perform fresh api (Extra (Op op)) cl = update (model_exec fresh op)"
| "model_perform fresh api (Extra (FilterProducts i)) cl = update (\<lambda>s. s\<lparr>mg_productFilter := i, mg_page := 1\<rparr>)"
| "model_perform fresh api (Extra (ChooseTab tab)) cl = update (\<lambda>s. s\<lparr>mg_tab := tab\<rparr>)"

section \<open>What the editor offers\<close>

lemmas control_defs = field_def choice_def

lemma in_enumerate: "x \<in> set (enumerate n rows) \<Longrightarrow> snd x \<in> set rows"
  by (metis in_set_enumerate_eq nth_mem prod.collapse diff_less_mono2 less_diff_conv2 le_add_diff_inverse add.commute
      add_less_cancel_left)

lemma spec_fields_offer: "n \<in> set (spec_fields t draft change) \<Longrightarrow> offers n a \<Longrightarrow> \<exists>e. a = change e"
  by (auto simp: spec_fields_def control_defs)

lemma params_offer:
  assumes "offers (ParamDraftList t addLabel onAddRow onChangeRow onRemoveRow rows title) a"
  shows "a = onAddRow \<or> (\<exists>row \<in> set rows. a = onRemoveRow (pr_localId row) \<or> (\<exists>e. a = onChangeRow (pr_localId row) e))"
  using assms
  by (auto simp: ParamDraftList_def control_defs list_ex_iff image_iff dest!: in_enumerate split: if_splits)
    (blast dest: spec_fields_offer)

text \<open>The number of rows that an operation addresses by local id; one where it addresses none.\<close>

fun addressed :: "model_op \<Rightarrow> 'w model_page_scheme \<Rightarrow> nat" where
  "addressed (UpdateProperty i e) s = count_list (map pw_localId (mg_propertyRows s)) i"
| "addressed (RemoveProperty i) s = count_list (map pw_localId (mg_propertyRows s)) i"
| "addressed (UpdateEvent i e) s = count_list (map ew_localId (mg_eventRows s)) i"
| "addressed (RemoveEvent i) s = count_list (map ew_localId (mg_eventRows s)) i"
| "addressed (AddEventOutput i) s = count_list (map ew_localId (mg_eventRows s)) i"
| "addressed (UpdateEventOutput i j e) s = count_list (concat (map (\<lambda>r. if ew_localId r = i
     then map pr_localId (ew_outputParams r) else []) (mg_eventRows s))) j"
| "addressed (RemoveEventOutput i j) s = count_list (concat (map (\<lambda>r. if ew_localId r = i
     then map pr_localId (ew_outputParams r) else []) (mg_eventRows s))) j"
| "addressed (UpdateService i e) s = count_list (map sw_localId (mg_serviceRows s)) i"
| "addressed (RemoveService i) s = count_list (map sw_localId (mg_serviceRows s)) i"
| "addressed (AddServiceInput i) s = count_list (map sw_localId (mg_serviceRows s)) i"
| "addressed (AddServiceOutput i) s = count_list (map sw_localId (mg_serviceRows s)) i"
| "addressed (UpdateServiceInput i j e) s = count_list (concat (map (\<lambda>r. if sw_localId r = i
     then map pr_localId (sw_inputParams r) else []) (mg_serviceRows s))) j"
| "addressed (RemoveServiceInput i j) s = count_list (concat (map (\<lambda>r. if sw_localId r = i
     then map pr_localId (sw_inputParams r) else []) (mg_serviceRows s))) j"
| "addressed (UpdateServiceOutput i j e) s = count_list (concat (map (\<lambda>r. if sw_localId r = i
     then map pr_localId (sw_outputParams r) else []) (mg_serviceRows s))) j"
| "addressed (RemoveServiceOutput i j) s = count_list (concat (map (\<lambda>r. if sw_localId r = i
     then map pr_localId (sw_outputParams r) else []) (mg_serviceRows s))) j"
| "addressed _ s = 1"

lemma count_one: "distinct xs \<Longrightarrow> x \<in> set xs \<Longrightarrow> count_list xs x = Suc 0"
  by (induction xs) auto

lemma concat_const_Nil: "concat (map (\<lambda>_. []) xs) = []"
  by (induction xs) auto

lemma count_nested:
  assumes "distinct (map key rows)" "row \<in> set rows" "distinct (ids row)" "j \<in> set (ids row)"
  shows "count_list (concat (map (\<lambda>r. if key r = key row then ids r else []) rows)) j = Suc 0"
proof -
  obtain us vs where rows: "rows = us @ row # vs" using assms(2) by (metis split_list)
  have "key r \<noteq> key row" if "r \<in> set us \<union> set vs" for r
    using assms(1) that unfolding rows by (auto simp: image_iff)
  then have "map (\<lambda>r. if key r = key row then ids r else []) rows =
      map (\<lambda>_. []) us @ ids row # map (\<lambda>_. []) vs"
    unfolding rows by simp
  then show ?thesis using count_one [OF assms(3,4)]
    by (simp only: concat_append concat.simps concat_const_Nil append_Nil append_Nil2)
qed

lemma distinct_part: "distinct (concat (map f xs)) \<Longrightarrow> x \<in> set xs \<Longrightarrow> distinct (f x)"
  by (induction xs) auto

lemma nested_distinct:
  assumes "ids_ok fresh s"
  shows "er \<in> set (mg_eventRows s) \<Longrightarrow> distinct (map pr_localId (ew_outputParams er))"
    and "sr \<in> set (mg_serviceRows s) \<Longrightarrow> distinct (map pr_localId (sw_inputParams sr))"
    and "sr \<in> set (mg_serviceRows s) \<Longrightarrow> distinct (map pr_localId (sw_outputParams sr))"
proof -
  have "distinct (concat (map event_ids (mg_eventRows s)))" "distinct (concat (map service_ids (mg_serviceRows s)))"
    using assms by (simp_all add: ids_ok_def page_ids_def)
  note parts = distinct_part [OF this(1)] distinct_part [OF this(2)]
  show "er \<in> set (mg_eventRows s) \<Longrightarrow> distinct (map pr_localId (ew_outputParams er))"
    using parts(1) [of er] by (simp add: event_ids_def)
  show "sr \<in> set (mg_serviceRows s) \<Longrightarrow> distinct (map pr_localId (sw_inputParams sr))"
    "sr \<in> set (mg_serviceRows s) \<Longrightarrow> distinct (map pr_localId (sw_outputParams sr))"
    using parts(2) [of sr] by (simp_all add: service_ids_def)
qed

lemma property_row_offer:
  "offers (property_row_view t x) a \<Longrightarrow>
   a = edit (RemoveProperty (pw_localId (snd x))) \<or> (\<exists>e. a = edit (UpdateProperty (pw_localId (snd x)) e))"
  by (cases x) (auto simp: property_row_view_def control_defs list_ex_iff dest: spec_fields_offer)

lemma event_row_offer:
  "offers (event_row_view t x) a \<Longrightarrow> let i = ew_localId (snd x); js = map pr_localId (ew_outputParams (snd x)) in
   a \<in> {edit (RemoveEvent i), edit (AddEventOutput i)} \<or> (\<exists>e. a = edit (UpdateEvent i e)) \<or>
   (\<exists>j \<in> set js. a = edit (RemoveEventOutput i j) \<or> (\<exists>e. a = edit (UpdateEventOutput i j e)))"
  by (cases x) (auto simp: event_row_view_def control_defs Let_def dest!: params_offer)

lemma service_row_offer:
  "offers (service_row_view t x) a \<Longrightarrow> let i = sw_localId (snd x); js = map pr_localId (sw_inputParams (snd x));
     ks = map pr_localId (sw_outputParams (snd x)) in
   a \<in> {edit (RemoveService i), edit (AddServiceInput i), edit (AddServiceOutput i)} \<or> (\<exists>e. a = edit (UpdateService i e)) \<or>
   (\<exists>j \<in> set js. a = edit (RemoveServiceInput i j) \<or> (\<exists>e. a = edit (UpdateServiceInput i j e))) \<or>
   (\<exists>j \<in> set ks. a = edit (RemoveServiceOutput i j) \<or> (\<exists>e. a = edit (UpdateServiceOutput i j e)))"
  by (cases x) (auto simp: service_row_view_def control_defs Let_def dest!: params_offer)

lemma panel_offer:
  "offers (definition_panel t tip tab presets add addKey rows preview) a \<Longrightarrow>
   (\<exists>template. a = edit (ApplyPreset tab template)) \<or> a = edit add \<or> (\<exists>row \<in> set rows. offers row a)"
  by (auto simp: definition_panel_def DefinitionPresetBar_def JSONPreviewField_def list_ex_iff)

text \<open>The edits of the definitions part address rows of the state.\<close>

lemma offered_addressed:
  assumes ok: "ids_ok fresh s" and offer: "offers (definitions_view t engine s) (edit op)"
  shows "addressed op s = 1"
proof -
  have tab: "\<And>i labelKey tab. Extra (Op op) \<noteq> (Extra (ChooseTab tab) :: model_action)" by simp
  consider x where "x \<in> set (enumerate 0 (mg_propertyRows s))" "offers (property_row_view t x) (edit op)"
    | x where "x \<in> set (enumerate 0 (mg_eventRows s))" "offers (event_row_view t x) (edit op)"
    | x where "x \<in> set (enumerate 0 (mg_serviceRows s))" "offers (service_row_view t x) (edit op)"
    | "\<exists>tab template. op = ApplyPreset tab template" | "op \<in> {AddProperty, AddEvent, AddService}"
    using offer by (auto simp: definitions_view_def definition_panels definitionTabs_def split: if_splits dest!: panel_offer)
  then show ?thesis
  proof cases
    case 1
    then show ?thesis using property_row_offer [OF 1(2)] in_enumerate [OF 1(1)] distinct_rows(1) [OF ok]
      by (auto simp: count_one)
  next
    case 2
    note nested = count_nested [OF distinct_rows(2) [OF ok] in_enumerate [OF 2(1)],
      where ids = "\<lambda>r. map pr_localId (ew_outputParams r)", OF nested_distinct(1) [OF ok in_enumerate [OF 2(1)]]]
    show ?thesis using event_row_offer [OF 2(2)] in_enumerate [OF 2(1)] distinct_rows(2) [OF ok] nested
      by (auto simp: Let_def count_one)
  next
    case 3
    note row = in_enumerate [OF 3(1)]
    note nested = count_nested [OF distinct_rows(3) [OF ok] row, where ids = "\<lambda>r. map pr_localId (sw_inputParams r)",
        OF nested_distinct(2) [OF ok row]]
      count_nested [OF distinct_rows(3) [OF ok] row, where ids = "\<lambda>r. map pr_localId (sw_outputParams r)",
        OF nested_distinct(3) [OF ok row]]
    show ?thesis using service_row_offer [OF 3(2)] row distinct_rows(3) [OF ok] nested
      by (auto simp: Let_def count_one)
  qed auto
qed

text \<open>Everything the definitions part offers is an edit or the choice of a tab.\<close>

lemma definitions_offer:
  "offers (definitions_view t engine s) a \<Longrightarrow> (\<exists>op. a = edit op) \<or> (\<exists>tab. a = Extra (ChooseTab tab))"
  by (auto simp: definitions_view_def definition_panels definitionTabs_def Let_def split: if_splits
      dest!: panel_offer property_row_offer event_row_offer service_row_offer)

lemma no_submit_parts:
  "n \<in> set (spec_fields t draft change) \<Longrightarrow> \<not> can_submit n"
  "\<not> can_submit (ParamDraftList t addLabel onAddRow onChangeRow onRemoveRow rows title)"
  "\<not> can_submit (DefinitionPresetBar t onApply presets title)" "\<not> can_submit (JSONPreviewField label value)"
  by (auto simp: spec_fields_def ParamDraftList_def DefinitionPresetBar_def JSONPreviewField_def control_defs list_ex_iff
      split: if_splits)

lemma definitions_no_submit: "\<not> can_submit (definitions_view t engine s)"
  by (auto simp: definitions_view_def definition_panels definition_panel_def definitionTabs_def property_row_view_def event_row_view_def
      service_row_view_def control_defs list_ex_iff no_submit_parts dest: no_submit_parts(1) split: if_splits)

lemma model_dialog_offer:
  assumes "offers (model_dialog t engine m s) a"
  shows "a \<noteq> Submit \<or> \<not> mg_saving s"
    and "a = edit op \<Longrightarrow> offers (definitions_view t engine s) a \<or> (\<exists>status. op = StatusChange status)"
  using assms
  by (auto simp: model_dialog_def control_defs list_ex_iff definitions_no_submit
      dest: definitions_offer split: if_splits)

lemma model_table_offer:
  "offers (AdminDataTable (model_columns t fmt s) d e tm_id (mg_models s) (model_mobileItems t fmt s)
     (model_pagination t s) jumpPage) (Outer a) \<Longrightarrow> a \<noteq> Submit \<and> (\<forall>op. a \<noteq> edit op)"
  by (auto simp: table_offers bar_offers model_columns_def model_mobileItems_def model_pagination_def list_ex_iff split: if_splits)

lemma model_view_offer:
  assumes "offers (model_view t fmt engine jumpPage s) (Outer a)"
  shows "a = Submit \<Longrightarrow> \<not> mg_saving s"
    and "a = edit op \<Longrightarrow> offers (definitions_view t engine s) a \<or> (\<exists>status. op = StatusChange status) \<or>
      (\<exists>i. op = TenantChange i)"
  using assms model_table_offer [of t fmt s _ _ jumpPage a]
  by (auto simp: model_view_def tenant_select_def control_defs offers_map list_ex_iff
      dest: model_dialog_offer split: if_splits option.splits)

section \<open>One submission at a time\<close>

record model_screen = model_page +
  ms_jumpPage :: string

definition model_shown ::
  "(string \<Rightarrow> string) \<Rightarrow> (string \<Rightarrow> string) \<Rightarrow> string \<Rightarrow> model_screen \<Rightarrow> model_action table_action node" where
  "model_shown t fmt engine s = model_view t fmt engine (ms_jumpPage s) s"

definition model_react ::
  "(string \<Rightarrow> string) \<Rightarrow> (nat \<Rightarrow> string) \<Rightarrow> model_screen model_api \<Rightarrow> model_action table_action \<Rightarrow> model_screen \<Rightarrow>
   (model_screen, unit) act" where
  "model_react t fresh api =
     table_act (model_pagination t) ms_jumpPage (\<lambda>text s. s\<lparr>ms_jumpPage := text\<rparr>) (model_perform fresh api)"

definition model_undisturbed :: "model_screen model_api \<Rightarrow> bool" where
  "model_undisturbed api \<longleftrightarrow> quiet mg_saving (ma_list api) \<and> quiet mg_saving (ma_model api) \<and> quiet mg_saving (ma_delete api)"

lemma model_exec_saving: "mg_saving (model_exec fresh op s) = mg_saving s"
  by (cases op)
    (auto simp: on_events_def on_services_def drawing_def model_openCreateForm_def model_openEditForm_def model_closeForm_def
      model_handleTenantChange_def handleStatusChange_def handleApplyPreset_def handleAddProperty_def handleRemoveProperty_def
      handleAddEvent_def handleRemoveEvent_def handleAddService_def handleRemoveService_def
      split: prod.split definition_tab.split)

lemma model_others_keep:
  "model_undisturbed api \<Longrightarrow> a \<noteq> Submit \<Longrightarrow> keeps mg_saving (model_perform fresh api a cl)"
  by (cases "(fresh, api, a, cl)" rule: model_perform.cases)
    (auto simp: model_undisturbed_def model_handleDelete_def loadModels_def listThingsModels_def deleteThingsModel_def
      model_openCreateForm_def model_openEditForm_def model_closeForm_def model_updateFormField_def
      model_loaded_def model_cleared_def model_exec_saving split: prod.split
      intro!: keeps_rules keeps_update keeps_finally keeps_apiRequest)

interpretation model_busy: busy_form "model_shown t fmt engine" "model_react t fresh" "Outer Submit" mg_saving model_undisturbed
  for t fmt engine fresh
proof
  show "\<not> offers (model_shown t fmt engine s) (Outer Submit)" if "mg_saving s" for s
    using that model_view_offer(1) [of t fmt engine "ms_jumpPage s" s Submit] by (auto simp: model_shown_def)
  show "keeps mg_saving (model_react t fresh api a cl)" if "model_undisturbed api" "a \<noteq> Outer Submit" for api a cl
    unfolding model_react_def
    by (rule keeps_table_act) (use that in \<open>auto simp: model_pagination_def intro: model_others_keep\<close>)
qed

section \<open>Properties\<close>


lemma remove_offered:
  assumes "mg_formMode s = Some m" "mg_tab s = PropertiesTab" "row \<in> set (mg_propertyRows s)"
  shows "offers (model_view t fmt engine jumpPage s) (Outer (edit (RemoveProperty (pw_localId row))))"
proof -
  obtain k where "k < length (mg_propertyRows s)" "mg_propertyRows s ! k = row"
    using assms(3) by (auto simp: in_set_conv_nth)
  then have "(k, row) \<in> set (enumerate 0 (mg_propertyRows s))" by (simp add: in_set_enumerate_eq)
  moreover have "offers (property_row_view t (k, row)) (edit (RemoveProperty (pw_localId row)))"
    by (simp add: property_row_view_def)
  ultimately have "offers (definitions_view t engine s) (edit (RemoveProperty (pw_localId row)))"
    using assms(2) by (auto simp: definitions_view_def definition_panels definition_panel_def list_ex_iff)
  then show ?thesis using assms(1) by (simp add: model_view_def model_dialog_def offers_map)
qed


end
