(* ===== verification/AuditView.thy ===== *)
theory AuditView
  imports AuditPage BusyForm
begin

text \<open>
  The view of the audit log page (\<open>pages/Admin/AuditLogManagement.tsx\<close>) with its detail dialog, and
  its actions. The tags keep the class names that depend on the entry; \<open>t\<close> translates a message
  key, \<open>fmt\<close> is \<open>formatDateTime\<close>.
\<close>

section \<open>Tags\<close>

text \<open>\<open>toUpperCase\<close>, for the ASCII letters of method names.\<close>

definition upper_char :: "char \<Rightarrow> char" where
  "upper_char c = (let n = of_char c :: nat in if 97 \<le> n \<and> n \<le> 122 then char_of (n - 32) else c)"

definition toUpperCase :: "string \<Rightarrow> string" where
  "toUpperCase = map upper_char"

definition methodClassName :: "(string \<times> string) list" where
  "methodClassName =
     [(''DELETE'', ''bg-red-50 text-red-600 dark:bg-red-950/30 dark:text-red-300''),
      (''GET'', ''bg-sky-50 text-sky-700 dark:bg-sky-950/40 dark:text-sky-300''),
      (''POST'', ''bg-emerald-50 text-emerald-700 dark:bg-emerald-950/40 dark:text-emerald-300''),
      (''PUT'', ''bg-amber-50 text-amber-700 dark:bg-amber-950/40 dark:text-amber-300'')]"

definition tagBaseClassName :: string where
  "tagBaseClassName = ''inline-flex whitespace-nowrap rounded-full px-2.5 py-1 text-xs font-bold leading-none''"

definition renderMethodTag :: "string \<Rightarrow> 'a node" where
  "renderMethodTag method =
     (let normalizedMethod = toUpperCase method
      in El ''span'' [Attr ''className'' (tagBaseClassName @ '' '' @
             (case map_of methodClassName normalizedMethod of Some c \<Rightarrow> c
              | None \<Rightarrow> ''bg-slate-100 text-linkflow-muted dark:bg-slate-800 dark:text-linkflow-dark-muted''))]
           [Txt normalizedMethod])"

definition renderStatusTag :: "int \<Rightarrow> 'a node" where
  "renderStatusTag statusCode =
     El ''span'' [Attr ''className'' (tagBaseClassName @ '' '' @ getStatusClassName (jsint statusCode))]
       [Txt (dec_int statusCode)]"

definition result_tag :: "(string \<Rightarrow> string) \<Rightarrow> audit_result \<Rightarrow> 'a node" where
  "result_tag t r =
     El ''span'' [Attr ''className'' (tagBaseClassName @ '' '' @ resultClassName r)]
       [Txt (if r = AuditSuccess then t ''adminAuditResultSuccess'' else t ''adminAuditResultFailure'')]"

definition resource_text :: "audit_log \<Rightarrow> string" where
  "resource_text entry = al_resource_type entry @ (if al_resource_id entry \<noteq> [] then '' / '' @ al_resource_id entry else [])"

definition duration_text :: "(string \<Rightarrow> string) \<Rightarrow> audit_log \<Rightarrow> string" where
  "duration_text t entry = replace_first ''{duration}'' (dec_int (al_duration_ms entry)) (t ''adminAuditDurationValue'')"

definition or_dash :: "string \<Rightarrow> string" where
  "or_dash s = (if s = [] then ''--'' else s)"

definition AuditDetailField :: "string \<Rightarrow> string \<Rightarrow> 'a node \<Rightarrow> 'a node" where
  "AuditDetailField label description children =
     El ''div'' [] [El ''dt'' [] [Txt label], El ''dd'' [] [children], El ''p'' [] [Txt description]]"

section \<open>The page\<close>

text \<open>The page has no form; its own action is \<open>setSelectedLog\<close>.\<close>

type_synonym audit_action = "(audit_log, unit, audit_log option) page_action"

definition audit_columns :: "(string \<Rightarrow> string) \<Rightarrow> (string \<Rightarrow> string) \<Rightarrow> (audit_log, audit_action) column list" where
  "audit_columns t fmt =
     [\<lparr>cn_key = ''action'', cn_title = Txt (t ''adminAuditAction''),
        cn_render = (\<lambda>entry. El ''div'' []
          [El ''strong'' [] [Txt (al_action entry)], El ''span'' [] [Txt (resource_text entry)]])\<rparr>,
      \<lparr>cn_key = ''result'', cn_title = Txt (t ''adminAuditResult''), cn_render = (\<lambda>entry. result_tag t (al_result entry))\<rparr>,
      \<lparr>cn_key = ''method'', cn_title = Txt (t ''adminAuditMethod''), cn_render = (\<lambda>entry. renderMethodTag (al_method entry))\<rparr>,
      \<lparr>cn_key = ''path'', cn_title = Txt (t ''adminAuditPath''),
        cn_render = (\<lambda>entry. El ''span'' [] [Txt (al_path entry)])\<rparr>,
      \<lparr>cn_key = ''status'', cn_title = Txt (t ''adminAuditStatusCode''),
        cn_render = (\<lambda>entry. renderStatusTag (al_status_code entry))\<rparr>,
      \<lparr>cn_key = ''duration'', cn_title = Txt (t ''adminAuditDuration''), cn_render = (\<lambda>entry. Txt (duration_text t entry))\<rparr>,
      \<lparr>cn_key = ''createdAt'', cn_title = Txt (t ''adminAuditCreatedAt''),
        cn_render = (\<lambda>entry. Txt (fmt (al_created_at entry)))\<rparr>,
      \<lparr>cn_key = ''actions'', cn_title = Txt (t ''adminAuditActions''),
        cn_render = (\<lambda>entry. El ''div'' []
          [button [Attr ''aria-label'' (t ''adminAuditViewDetail''), Attr ''title'' (t ''adminAuditViewDetail'')]
             (Extra (Some entry)) [Icon ''EyeOutlined'']])\<rparr>]"

definition audit_mobileItems :: "(string \<Rightarrow> string) \<Rightarrow> (string \<Rightarrow> string) \<Rightarrow> audit_log list \<Rightarrow> audit_action node" where
  "audit_mobileItems t fmt logs = Many (map (\<lambda>entry.
     El ''article'' [Attr ''key'' (al_id entry)] [
       El ''div'' [] [
         El ''div'' [] [El ''h4'' [] [Txt (al_action entry)], El ''p'' [] [Txt (al_method entry @ '' '' @ al_path entry)]],
         El ''span'' [Attr ''className'' (''shrink-0'' @ '' '' @ tagBaseClassName @ '' '' @ resultClassName (al_result entry))]
           [Txt (if al_result entry = AuditSuccess then t ''adminAuditResultSuccess'' else t ''adminAuditResultFailure'')]],
       El ''dl'' [] [
         El ''div'' [] [El ''dt'' [] [Txt (t ''adminAuditMethod'')], El ''dd'' [] [renderMethodTag (al_method entry)]],
         El ''div'' [] [El ''dt'' [] [Txt (t ''adminAuditResource'')], El ''dd'' [] [Txt (resource_text entry)]],
         El ''div'' [] [El ''dt'' [] [Txt (t ''adminAuditStatusCode'')], El ''dd'' [] [renderStatusTag (al_status_code entry)]],
         El ''div'' [] [El ''dt'' [] [Txt (t ''adminAuditDuration'')], El ''dd'' [] [Txt (duration_text t entry)]],
         El ''div'' [] [El ''dt'' [] [Txt (t ''adminAuditCreatedAt'')], El ''dd'' [] [Txt (fmt (al_created_at entry))]]],
       button [] (Extra (Some entry)) [Icon ''EyeOutlined'', Txt (t ''adminAuditViewDetail'')]]) logs)"

definition audit_pagination :: "(string \<Rightarrow> string) \<Rightarrow> audit_page \<Rightarrow> audit_action pagination" where
  "audit_pagination t s =
     list_bar t ''adminAudit'' [10, 20, 50] (ag_loading s) (ag_page s) (ag_pageSize s) (ag_total s)"

text \<open>The four sections of the detail dialog.\<close>

definition detail_business :: "(string \<Rightarrow> string) \<Rightarrow> audit_log \<Rightarrow> audit_action node" where
  "detail_business t entry =
     El ''section'' [] [El ''h4'' [] [Txt (t ''adminAuditDetailBusiness'')],
       El ''dl'' [] [
         AuditDetailField (t ''adminAuditAction'') (t ''adminAuditActionDescription'') (Txt (al_action entry)),
         AuditDetailField (t ''adminAuditResult'') (t ''adminAuditResultDescription'') (result_tag t (al_result entry)),
         AuditDetailField (t ''adminAuditResource'') (t ''adminAuditResourceDescription'')
           (El ''span'' [] [Txt (resource_text entry)])]]"

definition detail_http :: "(string \<Rightarrow> string) \<Rightarrow> (string \<Rightarrow> string) \<Rightarrow> audit_log \<Rightarrow> audit_action node" where
  "detail_http t fmt entry =
     El ''section'' [] [El ''h4'' [] [Txt (t ''adminAuditDetailHttp'')],
       El ''dl'' [] [
         AuditDetailField (t ''adminAuditMethod'') (t ''adminAuditMethodDescription'') (renderMethodTag (al_method entry)),
         AuditDetailField (t ''adminAuditStatusCode'') (t ''adminAuditStatusDescription'')
           (renderStatusTag (al_status_code entry)),
         AuditDetailField (t ''adminAuditPath'') (t ''adminAuditPathDescription'') (El ''span'' [] [Txt (al_path entry)]),
         AuditDetailField (t ''adminAuditDuration'') (t ''adminAuditDurationDescription'') (Txt (duration_text t entry)),
         AuditDetailField (t ''adminAuditCreatedAt'') (t ''adminAuditCreatedAtDescription'')
           (Txt (fmt (al_created_at entry)))]]"

definition detail_trace :: "(string \<Rightarrow> string) \<Rightarrow> audit_log \<Rightarrow> audit_action node" where
  "detail_trace t entry =
     El ''section'' [] [El ''h4'' [] [Txt (t ''adminAuditDetailTrace'')],
       El ''dl'' [] [
         AuditDetailField (t ''adminAuditRequestID'') (t ''adminAuditRequestIDDescription'')
           (El ''span'' [] [Txt (or_dash (al_request_id entry))]),
         AuditDetailField (t ''adminAuditTraceID'') (t ''adminAuditTraceIDDescription'')
           (El ''span'' [] [Txt (or_dash (al_trace_id entry))]),
         AuditDetailField (t ''adminAuditIP'') (t ''adminAuditIPDescription'')
           (El ''span'' [] [Txt (or_dash (al_ip entry))]),
         AuditDetailField (t ''adminAuditUserAgent'') (t ''adminAuditUserAgentDescription'')
           (El ''span'' [] [Txt (or_dash (al_user_agent entry))])]]"

definition audit_dialog :: "(string \<Rightarrow> string) \<Rightarrow> (string \<Rightarrow> string) \<Rightarrow> audit_log \<Rightarrow> audit_action node" where
  "audit_dialog t fmt entry =
     El ''div'' [Attr ''role'' ''dialog'', Attr ''aria-modal'' ''true'', Attr ''aria-labelledby'' ''audit-log-detail-title''] [
       El ''section'' [] [
         El ''div'' [] [
           El ''h3'' [Attr ''id'' ''audit-log-detail-title''] [Txt (t ''adminAuditDetailTitle'')],
           button [Attr ''aria-label'' (t ''adminAuditCloseDetail'')] (Extra None) [Icon ''CloseOutlined'']],
         El ''div'' [] [
           detail_business t entry, detail_http t fmt entry, detail_trace t entry,
           El ''section'' [] [El ''h4'' [] [Txt (t ''adminAuditMetadata'')],
             El ''p'' [] [Txt (t ''adminAuditMetadataDescription'')],
             El ''pre'' [] [Txt (formatMetadata (al_metadata entry))]]]]]"

definition audit_view ::
  "(string \<Rightarrow> string) \<Rightarrow> (string \<Rightarrow> string) \<Rightarrow> string \<Rightarrow> audit_page \<Rightarrow> audit_action table_action node" where
  "audit_view t fmt jumpPage s =
     El ''section'' [] [
       AdminDataTable (audit_columns t fmt) (t ''adminAuditEmptyDescription'') (t ''adminAuditEmpty'') al_id
         (ag_logs s) (audit_mobileItems t fmt (ag_logs s)) (audit_pagination t s) jumpPage,
       (case ag_selected s of None \<Rightarrow> Null | Some entry \<Rightarrow> map_node Outer (audit_dialog t fmt entry))]"

fun audit_perform :: "audit_action \<Rightarrow> audit_page \<Rightarrow> audit_page" where
  "audit_perform (Extra entry) s = audit_select entry s"
| "audit_perform (SetPage n) s = s\<lparr>ag_page := page_int n\<rparr>"
| "audit_perform (SetPageSize n) s = audit_onPageSizeChange (page_int n) s"
| "audit_perform _ s = s"

section \<open>What the dialog shows\<close>

lemma tag_texts [simp]:
  "texts (result_tag t r) = [if r = AuditSuccess then t ''adminAuditResultSuccess'' else t ''adminAuditResultFailure'']"
  "texts (renderMethodTag m) = [toUpperCase m]" "texts (renderStatusTag c) = [dec_int c]"
  by (simp_all add: result_tag_def renderMethodTag_def renderStatusTag_def Let_def)

text \<open>The tags offer nothing.\<close>

lemma tag_offers [simp]: "\<not> offers (result_tag t r) a" "\<not> offers (renderMethodTag m) a" "\<not> offers (renderStatusTag c) a"
  by (simp_all add: result_tag_def renderMethodTag_def renderStatusTag_def Let_def)

lemma audit_dialog_offers: "offers (audit_dialog t fmt entry) a \<longleftrightarrow> a = Extra None"
  by (simp add: audit_dialog_def detail_business_def detail_http_def detail_trace_def AuditDetailField_def)

text \<open>
  The page offers the details of exactly the listed entries, closes them when one is open, and asks
  for pages; it cannot change anything on the server.
\<close>

lemma audit_offers:
  "offers (audit_view t fmt jumpPage s) (Outer a) \<longleftrightarrow>
     (\<exists>entry \<in> set (ag_logs s). a = Extra (Some entry)) \<or> a = Extra None \<and> ag_selected s \<noteq> None \<or>
     offers (AdminTablePagination (audit_pagination t s) jumpPage) (Outer a)"
  by (auto simp: audit_view_def table_offers audit_columns_def audit_mobileItems_def list_ex_iff offers_map
      audit_dialog_offers split: option.split)

text \<open>Metadata reads back from the dialog, whatever was logged.\<close>

lemma audit_metadata_shown:
  assumes "js_wf (JObj (al_metadata entry))" "al_metadata entry \<noteq> []"
  shows "\<exists>text. elements ''pre'' (audit_dialog t fmt entry) = [([], [Txt text])] \<and>
    json_parse text = Some (JObj (al_metadata entry))"
  using metadata_readable [OF assms]
  by (simp add: audit_dialog_def detail_business_def detail_http_def detail_trace_def AuditDetailField_def
      result_tag_def renderMethodTag_def renderStatusTag_def Let_def)

end
