(* ===== verification/AuthView.thy ===== *)
theory AuthView
  imports AuthPages BusyForm
begin

text \<open>
  The view of the login and register pages (\<open>pages/Auth/Login.tsx\<close>, \<open>Register.tsx\<close>) and of their
  controls (\<open>components/AuthCard.tsx\<close>, \<open>EmailInput.tsx\<close>, \<open>PasswordInput.tsx\<close>), with the actions
  bound to it. The flag that shows a password belongs to its control; the screens below add these
  flags to the state of their page.
\<close>

section \<open>The controls\<close>

definition AuthCard :: "bool \<Rightarrow> string \<Rightarrow> 'a node list \<Rightarrow> 'a node" where
  "AuthCard darkMode title children =
     El ''main'' [Attr ''className'' (if darkMode then ''dark'' else [])] [
       El ''motion.div'' [] [
         El ''motion.section'' [Attr ''aria-labelledby'' ''auth-title'']
           (El ''div'' [] [
              El ''div'' [] [El ''span'' [] [Txt ''LF''], El ''span'' [] [Txt ''LinkFlow'']],
              El ''h1'' [Attr ''id'' ''auth-title''] [Txt title]] # children)]]"

definition EmailInput :: "(string \<Rightarrow> string) \<Rightarrow> string \<Rightarrow> (string \<Rightarrow> 'a) \<Rightarrow> 'a node" where
  "EmailInput t value onChange =
     El ''label'' [Attr ''htmlFor'' ''email''] [
       El ''span'' [] [Txt (t ''email'')],
       El ''div'' [] [
         El ''input'' [Attr ''id'' ''email'', Attr ''name'' ''email'', Attr ''type'' ''email'',
           Attr ''autoComplete'' ''email'', Attr ''value'' value, OnChange onChange,
           Attr ''placeholder'' (t ''emailPlaceholder'')] [],
         when (value \<noteq> []) (button [Attr ''aria-label'' (t ''clearEmail'')] (onChange []) [Icon ''CloseOutlined''])]]"

text \<open>The optional properties of a password control.\<close>

record password_props =
  pw_autoComplete :: "string option"
  pw_id :: string
  pw_label :: "string option"
  pw_placeholder :: "string option"

definition or_else :: "'b option \<Rightarrow> 'b \<Rightarrow> 'b" where
  "or_else x d = (case x of None \<Rightarrow> d | Some v \<Rightarrow> v)"

definition PasswordInput ::
  "(string \<Rightarrow> string) \<Rightarrow> password_props \<Rightarrow> bool \<Rightarrow> string \<Rightarrow> (string \<Rightarrow> 'a) \<Rightarrow> 'a \<Rightarrow> 'a node" where
  "PasswordInput t p showPassword value onChange toggleShow =
     El ''label'' [Attr ''htmlFor'' (pw_id p)] [
       El ''span'' [] [Txt (or_else (pw_label p) (t ''password''))],
       El ''div'' [] [
         El ''input'' [Attr ''id'' (pw_id p), Attr ''name'' ''password'',
           Attr ''type'' (if showPassword then ''text'' else ''password''),
           Attr ''autoComplete'' (or_else (pw_autoComplete p) ''current-password''), Attr ''value'' value,
           OnChange onChange, Attr ''placeholder'' (or_else (pw_placeholder p) (t ''passwordPlaceholder''))] [],
         when (value \<noteq> []) (button [Attr ''aria-label'' (t ''clearPassword'')] (onChange []) [Icon ''CloseOutlined'']),
         button [Attr ''aria-label'' (if showPassword then t ''hidePassword'' else t ''showPassword'')] toggleShow
           [Icon (if showPassword then ''EyeInvisibleOutlined'' else ''EyeOutlined'')]]]"

section \<open>Login\<close>

record login_screen = login_state +
  ls_show :: bool

datatype login_action =
    SetEmail string
  | SetPassword string
  | ToggleShow
  | SubmitLogin
  | GoRegister

definition login_view :: "(string \<Rightarrow> string) \<Rightarrow> bool \<Rightarrow> string \<Rightarrow> login_screen \<Rightarrow> login_action node" where
  "login_view t darkMode search s =
     AuthCard darkMode (t ''loginTitle'') [
       El ''form'' [OnSubmit SubmitLogin] [
         EmailInput t (lg_email s) SetEmail,
         PasswordInput t \<lparr>pw_autoComplete = None, pw_id = ''password'', pw_label = None, pw_placeholder = None\<rparr>
           (ls_show s) (lg_password s) SetPassword ToggleShow,
         El ''button'' [Attr ''type'' ''submit'', Flag ''disabled'' (\<not> login_canSubmit s)]
           [Txt (if lg_submitting s then t ''loggingIn'' else t ''loginButton'')],
         El ''p'' [] [Txt (t ''noAccount''), Txt '' '',
           link (registerPath search) GoRegister [] [Txt (t ''goRegister'')]]]]"

fun login_perform ::
  "string \<Rightarrow> (login_screen, auth_result) request \<Rightarrow> login_action \<Rightarrow> login_screen \<Rightarrow> (login_screen, unit) act" where
  "login_perform search rq (SetEmail v) cl = update (\<lambda>s. s\<lparr>lg_email := v\<rparr>)"
| "login_perform search rq (SetPassword v) cl = update (\<lambda>s. s\<lparr>lg_password := v\<rparr>)"
| "login_perform search rq ToggleShow cl = update (\<lambda>s. s\<lparr>ls_show := \<not> ls_show s\<rparr>)"
| "login_perform search rq SubmitLogin cl = login_handleSubmit rq search cl"
| "login_perform search rq GoRegister cl = emit (Navigate (registerPath search))"

section \<open>Registration\<close>

record register_screen = register_state +
  rs_show :: bool
  rs_showConfirm :: bool

datatype register_action =
    SetRegisterEmail string
  | SetRegisterPassword string
  | SetConfirm string
  | ToggleRegisterShow
  | ToggleConfirmShow
  | SubmitRegister
  | GoLogin

definition register_view :: "(string \<Rightarrow> string) \<Rightarrow> bool \<Rightarrow> string \<Rightarrow> register_screen \<Rightarrow> register_action node" where
  "register_view t darkMode search s =
     AuthCard darkMode (t ''registerTitle'') [
       El ''form'' [OnSubmit SubmitRegister] [
         EmailInput t (rg_email s) SetRegisterEmail,
         PasswordInput t \<lparr>pw_autoComplete = Some ''new-password'', pw_id = ''register-password'', pw_label = None,
           pw_placeholder = None\<rparr> (rs_show s) (rg_password s) SetRegisterPassword ToggleRegisterShow,
         El ''div'' [] [
           PasswordInput t \<lparr>pw_autoComplete = Some ''new-password'', pw_id = ''confirm-password'',
             pw_label = Some (t ''confirmPassword''), pw_placeholder = Some (t ''confirmPasswordPlaceholder'')\<rparr>
             (rs_showConfirm s) (rg_confirm s) SetConfirm ToggleConfirmShow,
           when (showPasswordMismatch s) (El ''p'' [] [Txt (t ''passwordMismatch'')])],
         El ''button'' [Attr ''type'' ''submit'', Flag ''disabled'' (\<not> register_canSubmit s)]
           [Txt (if rg_submitting s then t ''registering'' else t ''registerButton'')],
         El ''p'' [] [Txt (t ''hasAccount''), Txt '' '',
           link (loginPath search) GoLogin [] [Txt (t ''goLogin'')]]]]"

fun register_perform ::
  "string \<Rightarrow> (register_screen, auth_result) request \<Rightarrow> register_action \<Rightarrow> register_screen \<Rightarrow> (register_screen, unit) act" where
  "register_perform search rq (SetRegisterEmail v) cl = update (\<lambda>s. s\<lparr>rg_email := v\<rparr>)"
| "register_perform search rq (SetRegisterPassword v) cl = update (\<lambda>s. s\<lparr>rg_password := v\<rparr>)"
| "register_perform search rq (SetConfirm v) cl = update (\<lambda>s. s\<lparr>rg_confirm := v\<rparr>)"
| "register_perform search rq ToggleRegisterShow cl = update (\<lambda>s. s\<lparr>rs_show := \<not> rs_show s\<rparr>)"
| "register_perform search rq ToggleConfirmShow cl = update (\<lambda>s. s\<lparr>rs_showConfirm := \<not> rs_showConfirm s\<rparr>)"
| "register_perform search rq SubmitRegister cl = register_handleSubmit rq search cl"
| "register_perform search rq GoLogin cl = emit (Navigate (loginPath search))"

section \<open>What a user can do\<close>

lemmas control_defs = AuthCard_def EmailInput_def PasswordInput_def

lemma login_submit_offered: "offers (login_view t d search s) SubmitLogin \<longleftrightarrow> login_canSubmit s"
  by (auto simp: login_view_def control_defs)

lemma register_submit_offered: "offers (register_view t d search s) SubmitRegister \<longleftrightarrow> register_canSubmit s"
  by (auto simp: register_view_def control_defs)

text \<open>A password stands in a control that hides it until its user asks to see it.\<close>

lemma passwords_hidden:
  "\<not> ls_show s \<Longrightarrow> \<forall>(as, ns) \<in> set (elements ''input'' (login_view t d search s)).
     attr_value ''name'' as = ''password'' \<longrightarrow> attr_value ''type'' as = ''password''"
  by (simp add: login_view_def control_defs)

interpretation login_busy: busy_form "login_view t d search" "login_perform search" SubmitLogin lg_submitting "\<lambda>rq. True"
  for t d search
proof
  show "\<not> offers (login_view t d search s) SubmitLogin" if "lg_submitting s" for s
    using that by (simp add: login_submit_offered login_canSubmit_def)
  show "keeps lg_submitting (login_perform search rq a cl)" if "a \<noteq> SubmitLogin" for rq a cl
    using that by (cases a) (auto intro!: keeps_rules keeps_update)
qed

interpretation register_busy:
  busy_form "register_view t d search" "register_perform search" SubmitRegister rg_submitting "\<lambda>rq. True"
  for t d search
proof
  show "\<not> offers (register_view t d search s) SubmitRegister" if "rg_submitting s" for s
    using that by (simp add: register_submit_offered register_canSubmit_def)
  show "keeps rg_submitting (register_perform search rq a cl)" if "a \<noteq> SubmitRegister" for rq a cl
    using that by (cases a) (auto intro!: keeps_rules keeps_update)
qed

section \<open>Properties\<close>


definition filled_register :: register_screen where
  "filled_register = \<lparr>rg_email = ''a@b'', rg_password = ''p'', rg_confirm = ''p'', rg_submitting = False, rg_auth = auth_init,
     rs_show = False, rs_showConfirm = False\<rparr>"


end
