(* ===== verification/AdminView.thy ===== *)
theory AdminView
  imports AdminShell Views
begin

text \<open>
  The view of the console (\<open>pages/Admin/index.tsx\<close>): the sidebar, the header with the event inbox,
  the tabs and the content area, and the actions bound to them. The management pages stand in it as
  elements of their names; their views are in the theories of the pages. Class names and the
  parameters of the animations are left out. \<open>t\<close> translates a message key, \<open>fmt\<close> is
  \<open>formatDateTime\<close>, \<open>name_of\<close> and \<open>place_of\<close> read the event name and the place of a payload.
\<close>

section \<open>Actions\<close>

datatype shell_action =
    GoHome
  | OpenNav nav_item
  | OpenTab string
  | OpenEntry nav_item
  | CloseTabButton string
  | OpenInboxEvent string
  | MarkAllInboxRead
  | SidebarButton
  | SidebarOverlay
  | ExpandButton
  | ThemeButton
  | ChooseLocale string
  | LogoutButton

text \<open>
  What an action does, with \<open>remounted\<close> telling whether the router mounts the page anew when it
  navigates. Following the home link or logging out leaves the console.
\<close>

fun shell_perform :: "bool \<Rightarrow> shell_action \<Rightarrow> shell \<Rightarrow> shell" where
  "shell_perform r GoHome s = s\<lparr>sh_sidebarOpen := False, sh_path := ''/home''\<rparr>"
| "shell_perform r (OpenNav item) s = nav_click r item s"
| "shell_perform r (OpenTab tabId) s = navigate r (ni_path (getNavItemById tabId)) s"
| "shell_perform r (OpenEntry item) s = navigate r (ni_path item) (s\<lparr>sh_ui := addVisitedTab (ni_id item) (sh_ui s)\<rparr>)"
| "shell_perform r (CloseTabButton tabId) s = handleCloseTab r tabId s"
| "shell_perform r (OpenInboxEvent eventID) s = inbox_click r eventID s"
| "shell_perform r MarkAllInboxRead s = s\<lparr>sh_inbox := markAllRead (sh_inbox s)\<rparr>"
| "shell_perform r SidebarButton s = toggle_sidebar s"
| "shell_perform r SidebarOverlay s = s\<lparr>sh_sidebarOpen := False\<rparr>"
| "shell_perform r ExpandButton s = toggle_expanded s"
| "shell_perform r ThemeButton s = s\<lparr>sh_ui := toggleDarkMode (sh_ui s)\<rparr>"
| "shell_perform r (ChooseLocale l) s = s\<lparr>sh_ui := setLocale (Value (JStr l)) (sh_ui s)\<rparr>"
| "shell_perform r LogoutButton s = handleLogout s"

definition leaves_console :: "shell_action \<Rightarrow> bool" where
  "leaves_console a \<longleftrightarrow> a = GoHome \<or> a = LogoutButton"

section \<open>The theme\<close>

text \<open>
  What \<open>contexts/ThemeContext.tsx\<close> passes on from the settings store; outside its provider the hook
  throws.
\<close>

record theme_value =
  th_darkMode :: js
  th_setDarkMode :: "js setter \<Rightarrow> ui_state \<Rightarrow> ui_state"
  th_toggleDarkMode :: "ui_state \<Rightarrow> ui_state"

definition ThemeProvider :: "ui_state \<Rightarrow> theme_value" where
  "ThemeProvider st = \<lparr>th_darkMode = ui_dark st, th_setDarkMode = setDarkMode, th_toggleDarkMode = toggleDarkMode\<rparr>"

definition useTheme :: "theme_value option \<Rightarrow> js_exn + theme_value" where
  "useTheme value =
     (case value of None \<Rightarrow> Inl (PlainError ''useTheme must be used inside ThemeProvider'') | Some v \<Rightarrow> Inr v)"

text \<open>Toggling twice gives the theme back.\<close>

lemma toggle_twice:
  assumes "useTheme (Some (ThemeProvider st)) = Inr v" "ui_dark st = JBool b"
  shows "th_darkMode (ThemeProvider (th_toggleDarkMode v (th_toggleDarkMode v st))) = th_darkMode v"
  using assms by (auto simp: useTheme_def ThemeProvider_def toggleDarkMode_def)

section \<open>The views\<close>

text \<open>The icons of the sections.\<close>

definition nav_icon :: "string \<Rightarrow> string" where
  "nav_icon i =
     (if i = ''overview'' then ''DashboardOutlined''
      else if i = ''tenants'' then ''DeploymentUnitOutlined''
      else if i = ''products'' then ''DatabaseOutlined''
      else if i = ''thingsModels'' then ''ApartmentOutlined''
      else if i = ''devices'' then ''DeploymentUnitOutlined''
      else if i = ''deviceProperties'' then ''LineChartOutlined''
      else if i = ''auditLogs'' then ''FileSearchOutlined''
      else ''SettingOutlined'')"

definition EventInboxButton ::
  "(string \<Rightarrow> string) \<Rightarrow> (string \<Rightarrow> string) \<Rightarrow> ('p \<Rightarrow> string) \<Rightarrow> ('p \<Rightarrow> string) \<Rightarrow>
   'p inbox_item list \<Rightarrow> nat \<Rightarrow> shell_action node" where
  "EventInboxButton t fmt name_of place_of items unreadCount =
     El ''Popover'' [Attr ''placement'' ''bottomRight'', Attr ''trigger'' ''hover''] [
       El ''div'' [] [
         El ''div'' [] [
           El ''div'' [] [El ''p'' [] [Txt (t ''adminEventInboxTitle'')],
             El ''p'' [] [Txt (replace_first ''{count}'' (dec unreadCount) (t ''adminEventInboxUnread''))]],
           button [Flag ''disabled'' (mark_all_disabled unreadCount)] MarkAllInboxRead
             [Txt (t ''adminEventInboxMarkAllRead'')]],
         (if length items = 0 then El ''div'' [] [Txt (t ''adminEventInboxEmpty'')]
          else El ''div'' [] (map (\<lambda>item.
            button [Attr ''key'' (ib_event_id item)] (OpenInboxEvent (ib_event_id item)) [
              El ''div'' [] [El ''strong'' [] [Txt (name_of (ib_payload item))],
                when (\<not> ib_read item) (El ''span'' [] [Txt (t ''adminEventInboxUnreadBadge'')])],
              El ''p'' [] [Txt (place_of (ib_payload item))],
              El ''p'' [] [Txt (fmt (ib_occurred_at item))]]) items))],
       El ''button'' [Attr ''type'' ''button'', Attr ''aria-label'' (t ''adminEventInboxTitle'')] [
         Icon ''MailOutlined'',
         (case unread_badge unreadCount of None \<Rightarrow> Null | Some n \<Rightarrow> El ''span'' [] [Txt n])]]"

definition console_sidebar :: "(string \<Rightarrow> string) \<Rightarrow> bool \<Rightarrow> string \<Rightarrow> shell_action node" where
  "console_sidebar t expanded active =
     El ''aside'' [] [
       El ''div'' [] [
         link ''/home'' GoHome [Attr ''aria-label'' ''LinkFlow''] [Txt ''LF''],
         when expanded (El ''div'' [] [El ''p'' [] [Txt ''LinkFlow''], El ''p'' [] [Txt (t ''adminConsole'')]])],
       El ''nav'' [Attr ''aria-label'' (t ''adminConsole'')]
         (map (\<lambda>item. link (ni_path item) (OpenNav item)
            ((if ni_id item = active then [Attr ''aria-current'' ''page''] else []) @
             [Attr ''key'' (ni_id item), Attr ''aria-label'' (t (ni_labelKey item)), Attr ''title'' (t (ni_labelKey item))]) [
            when (ni_id item = active) (El ''motion.span'' [Attr ''layoutId'' ''admin-active-route''] []),
            El ''span'' [] [Icon (nav_icon (ni_id item))],
            when expanded (El ''span'' [] [Txt (t (ni_labelKey item))])]) navItems)]"

text \<open>The buttons at the left of the header, and those at its right.\<close>

definition sidebar_buttons :: "(string \<Rightarrow> string) \<Rightarrow> bool \<Rightarrow> bool \<Rightarrow> shell_action node" where
  "sidebar_buttons t sidebarOpen expanded =
     El ''div'' [] [
       button [Attr ''aria-label'' (if sidebarOpen then ''Close sidebar'' else ''Open sidebar'')] SidebarButton
         [Icon (if sidebarOpen then ''MenuFoldOutlined'' else ''MenuUnfoldOutlined'')],
       button [Attr ''aria-label'' (if expanded then t ''adminCollapseNav'' else t ''adminExpandNav''),
           Attr ''title'' (if expanded then t ''adminCollapseNav'' else t ''adminExpandNav'')] ExpandButton
         [Icon (if expanded then ''MenuFoldOutlined'' else ''MenuUnfoldOutlined'')]]"

definition header_controls ::
  "(string \<Rightarrow> string) \<Rightarrow> bool \<Rightarrow> string \<Rightarrow> shell_action node \<Rightarrow> shell_action node" where
  "header_controls t darkMode locale inbox =
     El ''div'' [] [
       inbox,
       button [Attr ''aria-label'' (if darkMode then t ''adminToggleLight'' else t ''adminToggleDark'')] ThemeButton
         [Icon (if darkMode then ''SunOutlined'' else ''MoonOutlined'')],
       El ''div'' [] [Icon ''GlobalOutlined'',
         El ''select'' [Attr ''aria-label'' (t ''adminLanguage''), Attr ''value'' locale, OnChange ChooseLocale]
           [option_node ''zh-CN'' [CHR 0xE4, CHR 0xB8, CHR 0xAD, CHR 0xE6, CHR 0x96, CHR 0x87],
            option_node ''en-US'' ''EN'']],
       button [Attr ''aria-label'' (t ''adminLogout'')] LogoutButton [Icon ''LogoutOutlined'']]"

definition visited_tabs :: "(string \<Rightarrow> string) \<Rightarrow> string list \<Rightarrow> string \<Rightarrow> shell_action node" where
  "visited_tabs t tabs active =
     El ''nav'' [Attr ''aria-label'' (t ''adminVisitedTabs'')]
       (map (\<lambda>tabId. let item = getNavItemById tabId in
          link (ni_path item) (OpenTab tabId)
            ((if tabId = active then [Attr ''aria-current'' ''page''] else []) @ [Attr ''key'' tabId]) [
            when (tabId = active) (El ''motion.span'' [Attr ''layoutId'' ''admin-active-tab''] []),
            El ''span'' [] [Icon (nav_icon (ni_id item))],
            El ''span'' [] [Txt (t (ni_labelKey item))],
            button [Attr ''aria-label'' (t ''adminCloseTab'' @ '': '' @ t (ni_labelKey item))] (CloseTabButton tabId)
              [Icon ''CloseOutlined'']]) tabs)"

text \<open>The dashboard of the overview and settings sections.\<close>

definition dashboard :: "(string \<Rightarrow> string) \<Rightarrow> section_content \<Rightarrow> shell_action node" where
  "dashboard t activeContent = Many [
     El ''section'' [Attr ''aria-label'' (t ''adminOverviewTitle'')]
       (map (\<lambda>(labelKey, value, descriptionKey). El ''article'' [Attr ''key'' labelKey]
          [El ''p'' [] [Txt (t labelKey)], El ''strong'' [] [Txt value], El ''p'' [] [Txt (t descriptionKey)]]) metrics),
     El ''section'' [Attr ''aria-labelledby'' ''admin-entry-title''] [
       El ''h3'' [Attr ''id'' ''admin-entry-title''] [Txt (t ''adminEntryTitle'')],
       El ''div'' [] (map (\<lambda>item. link (ni_path item) (OpenEntry item) [Attr ''key'' (ni_id item)] [
          El ''span'' [] [Icon (nav_icon (ni_id item))],
          El ''span'' [] [Txt (t (ni_labelKey item))],
          (case entry_description (ni_id item) of None \<Rightarrow> Null | Some k \<Rightarrow> El ''p'' [] [Txt (t k)])]) (drop 1 navItems))],
     when (sc_id activeContent \<noteq> ''settings'')
       (El ''section'' [] [El ''h3'' [] [Txt (t ''adminContentAreaTitle'')],
          El ''p'' [] [Txt (t (sc_contentKey activeContent))]])]"

fun page_element :: "admin_view \<Rightarrow> shell_action node \<Rightarrow> shell_action node" where
  "page_element TenantsView other = El ''TenantManagement'' [] []"
| "page_element ProductsView other = El ''ProductManagement'' [] []"
| "page_element ThingsModelsView other = El ''ThingsModelManagement'' [] []"
| "page_element DevicesView other = El ''DeviceManagement'' [] []"
| "page_element DevicePropertiesView other = El ''DevicePropertyManagement'' [] []"
| "page_element AuditLogsView other = El ''AuditLogManagement'' [] []"
| "page_element DashboardView other = other"

definition console_content :: "(string \<Rightarrow> string) \<Rightarrow> section_content \<Rightarrow> shell_action node" where
  "console_content t activeContent =
     El ''motion.section'' [Attr ''key'' (sc_id activeContent)] [
       when (shown_page (sc_id activeContent) = DashboardView)
         (El ''section'' [] [El ''p'' [] [Txt (t ''adminDashboardEyebrow'')],
            El ''h2'' [] [Txt (t (sc_titleKey activeContent))],
            when (t (sc_summaryKey activeContent) \<noteq> []) (El ''p'' [] [Txt (t (sc_summaryKey activeContent))])]),
       page_element (shown_page (sc_id activeContent)) (dashboard t activeContent)]"

definition console_view ::
  "(string \<Rightarrow> string) \<Rightarrow> (string \<Rightarrow> string) \<Rightarrow> (js \<Rightarrow> string) \<Rightarrow> (js \<Rightarrow> string) \<Rightarrow> shell \<Rightarrow> shell_action node" where
  "console_view t fmt name_of place_of s =
     (let expanded = truthy (ui_sidebar (sh_ui s)); darkMode = truthy (ui_dark (sh_ui s));
          active = activeSectionId s
      in El ''main'' [Attr ''className'' (if darkMode then ''dark'' else [])] [
           El ''div'' [] [
             console_sidebar t expanded active,
             when (sh_sidebarOpen s) (button [Attr ''aria-label'' ''Close sidebar''] SidebarOverlay []),
             El ''section'' [] [
               El ''header'' [] [
                 sidebar_buttons t (sh_sidebarOpen s) expanded,
                 header_controls t darkMode (tab_text (ui_locale (sh_ui s)))
                   (EventInboxButton t fmt name_of place_of (ib_items (sh_inbox s)) (ib_unread (sh_inbox s)))],
               visited_tabs t (ui_tabs (sh_ui s)) active,
               El ''div'' [] [console_content t (the (map_of sectionContent active))]]]])"

section \<open>What a user can do\<close>

lemma inbox_offers:
  "offers (EventInboxButton t fmt n p items unread) a \<longleftrightarrow>
     a = MarkAllInboxRead \<and> 0 < unread \<or> (\<exists>item \<in> set items. a = OpenInboxEvent (ib_event_id item))"
  by (auto simp: EventInboxButton_def mark_all_disabled_def list_ex_iff split: option.split)

lemma sidebar_offers: "offers (console_sidebar t e active) a \<longleftrightarrow> a = GoHome \<or> (\<exists>item \<in> set navItems. a = OpenNav item)"
  by (auto simp: console_sidebar_def list_ex_iff)

lemma tabs_offers:
  "offers (visited_tabs t tabs active) a \<longleftrightarrow> (\<exists>tab \<in> set tabs. a = OpenTab tab \<or> a = CloseTabButton tab)"
  by (auto simp: visited_tabs_def list_ex_iff Let_def)

lemma dashboard_offers: "offers (dashboard t c) a \<longleftrightarrow> (\<exists>item \<in> set (drop 1 navItems). a = OpenEntry item)"
  by (auto simp: dashboard_def list_ex_iff metrics_def split: option.split)

lemma content_offers: "offers (console_content t c) a \<Longrightarrow> \<exists>item \<in> set navItems. a = OpenEntry item"
  by (cases "shown_page (sc_id c)")
    (auto simp: console_content_def dashboard_offers split: if_splits dest: in_set_dropD)

lemma console_offers:
  assumes "offers (console_view t fmt n p s) a" and "\<not> leaves_console a"
  shows "(\<exists>item \<in> set navItems. a \<in> {OpenNav item, OpenEntry item}) \<or>
    (\<exists>tab \<in> set (ui_tabs (sh_ui s)). a \<in> {OpenTab tab, CloseTabButton tab}) \<or>
    (\<exists>item \<in> set (ib_items (sh_inbox s)). a = OpenInboxEvent (ib_event_id item)) \<or>
    a \<in> {MarkAllInboxRead, SidebarButton, SidebarOverlay, ExpandButton, ThemeButton, ChooseLocale ''zh-CN'', ChooseLocale ''en-US''}"
  using assms
  by (auto simp: console_view_def Let_def sidebar_offers sidebar_buttons_def header_controls_def inbox_offers tabs_offers
      leaves_console_def dest: content_offers split: if_splits)

end
