(* ===== verification/ConsoleUse.thy ===== *)
theory ConsoleUse
  imports AdminView I18n
begin

text \<open>
  The console in use: what a user does with the controls of its view, together with the events that
  arrive and the addresses that are typed. The views, the settings store and the translations fit
  together in every state that such a course leads to.
\<close>

inductive console_run ::
  "(string \<Rightarrow> string) \<Rightarrow> (string \<Rightarrow> string) \<Rightarrow> (js \<Rightarrow> string) \<Rightarrow> (js \<Rightarrow> string) \<Rightarrow> string \<Rightarrow> shell \<Rightarrow> bool"
  for t fmt n p path where
  run_mount: "console_run t fmt n p path (shell_mount path)"
| run_user: "console_run t fmt n p path s \<Longrightarrow> offers (console_view t fmt n p s) a \<Longrightarrow> \<not> leaves_console a \<Longrightarrow>
    console_run t fmt n p path (shell_perform r a s)"
| run_event: "console_run t fmt n p path s \<Longrightarrow> console_run t fmt n p path (inbox_push now payload meta s)"
| run_address: "console_run t fmt n p path s \<Longrightarrow> console_run t fmt n p path (navigate r address s)"

text \<open>
  The providers around the application (\<open>rootContainer\<close> in \<open>app.tsx\<close>): what the two hooks read, for
  the settings of the render. \<open>container\<close> stands for what is rendered inside.
\<close>

record i18n_value =
  in_locale :: js
  in_setLocale :: "js setter \<Rightarrow> ui_state \<Rightarrow> ui_state"
  in_t :: "string \<Rightarrow> js_exn + string option"

definition I18nProvider :: "ui_state \<Rightarrow> i18n_value" where
  "I18nProvider st = \<lparr>in_locale = ui_locale st, in_setLocale = setLocale,
     in_t = (\<lambda>key. translate (tab_text (ui_locale st)) key)\<rparr>"

definition useI18n :: "i18n_value option \<Rightarrow> js_exn + i18n_value" where
  "useI18n value =
     (case value of None \<Rightarrow> Inl (PlainError ''useI18n must be used inside I18nProvider'') | Some v \<Rightarrow> Inr v)"

definition rootContainer :: "(i18n_value option \<Rightarrow> theme_value option \<Rightarrow> 'a) \<Rightarrow> ui_state \<Rightarrow> 'a" where
  "rootContainer container st = container (Some (I18nProvider st)) (Some (ThemeProvider st))"

text \<open>Inside the container neither hook throws, and a change of the language reaches the texts.\<close>

lemma hooks_in_container:
  "rootContainer (\<lambda>i th. (useI18n i, useTheme th)) st = (Inr (I18nProvider st), Inr (ThemeProvider st))"
  by (simp add: rootContainer_def useI18n_def useTheme_def)

lemma language_reaches_texts:
  assumes "useI18n (Some (I18nProvider st)) = Inr v"
  shows "in_t (I18nProvider (in_setLocale v (Value (JStr l)) st)) key = translate l key"
  using assms by (auto simp: useI18n_def I18nProvider_def setLocale_def)

text \<open>The languages of the selector are those that have texts.\<close>

definition locale_known :: "ui_state \<Rightarrow> bool" where
  "locale_known st \<longleftrightarrow> tab_text (ui_locale st) \<in> fst ` set messages"

lemma locale_known_iff: "locale_known st \<longleftrightarrow> tab_text (ui_locale st) \<in> {''zh-CN'', ''en-US''}"
  by (auto simp: locale_known_def messages_def)

lemma known_translates: "locale_known st \<Longrightarrow> \<exists>text. translate (tab_text (ui_locale st)) key = Inr text"
  by (auto simp: locale_known_iff messages_def translate_def)

lemma locale_kept [simp]:
  "ui_locale (addVisitedTab i st) = ui_locale st" "ui_locale (removeVisitedTab i st) = ui_locale st"
  "ui_locale (setSidebarExpanded v st) = ui_locale st" "ui_locale (toggleDarkMode st) = ui_locale st"
  by (simp_all add: addVisitedTab_def removeVisitedTab_def setSidebarExpanded_def toggleDarkMode_def Let_def)

lemma navigate_locale [simp]: "ui_locale (sh_ui (navigate r path s)) = ui_locale (sh_ui s)"
  by (simp add: navigate_def tab_effect_def Let_def)

lemma close_locale [simp]: "ui_locale (sh_ui (handleCloseTab r tab s)) = ui_locale (sh_ui s)"
  by (simp add: handleCloseTab_def Let_def)

lemma perform_locale:
  assumes "locale_known (sh_ui s)" "offers (console_view t fmt n p s) a" "\<not> leaves_console a"
  shows "locale_known (sh_ui (shell_perform r a s))"
  using console_offers [OF assms(2,3)] assms(1)
  by (auto simp: locale_known_iff nav_click_def inbox_click_def toggle_sidebar_def toggle_expanded_def
      setLocale_def Let_def)

lemma navigate_sidebar:
  "shell_inv (navigate r path (s\<lparr>sh_ui := u, sh_sidebarOpen := b\<rparr>)) = shell_inv (navigate r path (s\<lparr>sh_ui := u\<rparr>))"
  by (simp add: navigate_def shell_inv_def activeSectionId_def tab_effect_def Let_def)

lemma perform_inv:
  assumes "shell_inv s" "offers (console_view t fmt n p s) a" "\<not> leaves_console a"
  shows "shell_inv (shell_perform r a s)"
proof -
  have step: "shell_inv (shell_step e s)" for e using assms(1) by (rule shell_step_inv)
  have entry: "shell_inv (shell_perform r (OpenEntry item) s)" if "item \<in> set navItems" for item
    using step [of "NavClick r item"] that by (simp add: nav_click_def navigate_sidebar)
  consider item where "item \<in> set navItems" "a \<in> {OpenNav item, OpenEntry item}"
    | tab where "tab \<in> set (ui_tabs (sh_ui s))" "a \<in> {OpenTab tab, CloseTabButton tab}"
    | i where "a = OpenInboxEvent i"
    | "a \<in> {MarkAllInboxRead, SidebarButton, SidebarOverlay, ExpandButton, ThemeButton, ChooseLocale ''zh-CN'', ChooseLocale ''en-US''}"
    using console_offers [OF assms(2,3)] by blast
  then show ?thesis
  proof cases
    case 1 then show ?thesis using step [of "NavClick r item"] entry by auto
  next
    case 2 then show ?thesis using step [of "CloseTab r tab"] step [of "Go r (ni_path (getNavItemById tab))"] by auto
  next
    case 3 then show ?thesis using step [of "InboxClick r i"] by simp
  next
    case 4 then show ?thesis
      using step [of InboxReadAll] step [of ToggleSidebar] step [of ToggleExpanded] step [of ToggleTheme] assms(1)
      by (auto simp: shell_inv_def activeSectionId_def setLocale_def)
  qed
qed

lemma console_run_inv: "console_run t fmt n p path s \<Longrightarrow> shell_inv s \<and> locale_known (sh_ui s)"
proof (induction rule: console_run.induct)
  case run_mount
  have "locale_known (sh_ui (shell_mount path))"
    by (simp add: shell_mount_def tab_effect_def ui_init_def locale_known_iff)
  then show ?case using shell.inv_run [of path "[]"] by (simp add: shell.run_def)
next
  case (run_user s a r)
  then show ?case using perform_inv perform_locale by blast
next
  case (run_event s now payload meta)
  then show ?case using shell_step_inv [of s "InboxPush now payload meta"] by (simp add: inbox_push_def)
next
  case (run_address s r address)
  then show ?case using shell_step_inv [of s "Go r address"] by (simp add: locale_known_iff)
qed

lemma section_has_content:
  "i \<in> set validSectionIds \<Longrightarrow> \<exists>c. map_of sectionContent i = Some c \<and> sc_id c = i"
proof -
  have "list_all (\<lambda>i. map_option sc_id (map_of sectionContent i) = Some i) validSectionIds" by code_simp
  then show "i \<in> set validSectionIds \<Longrightarrow> ?thesis" by (auto simp: list_all_iff)
qed



end
