(* ===== verification/EffectDeps.thy ===== *)
theory EffectDeps
  imports PageEffects
begin

text \<open>
  When the loading effects run. An effect belongs to a render: it reads the values of that render
  (\<open>reads\<close>), and the runtime runs it again, after the cleanup of the run before, when an entry of its
  dependency array has changed (\<open>deps\<close>; the entry \<open>t\<close> changes exactly with the language). The
  runtime may also run it when nothing changed, since it compares arrays by identity. The locale
  asks of a page that the array covers what the effect reads, and proves that a committed page, one
  whose effects have seen the present dependencies, has asked for exactly what it shows selected.
\<close>

record ('s, 'p, 'l, 'k) sched =
  sc_fx :: "('s, 'p) fx"
  sc_locale :: 'l
  sc_seen :: "'k option"

datatype ('s, 'l, 'd) sched_event =
    Changed 's
  | Language 'l
  | Commit
  | Answer nat "js_exn + 'd"

definition sched_init :: "'s \<Rightarrow> 'l \<Rightarrow> ('s, 'p, 'l, 'k) sched" where
  "sched_init s l = \<lparr>sc_fx = fx_init s, sc_locale = l, sc_seen = None\<rparr>"

locale dependent_effect = fetch_effect starts asks settles
  for starts :: "'p \<Rightarrow> 's \<Rightarrow> 's"
    and asks :: "'p \<Rightarrow> http_request option"
    and settles :: "bool \<Rightarrow> 'p \<Rightarrow> js_exn + 'd \<Rightarrow> 's \<Rightarrow> 's \<times> effect list" +
  fixes reads :: "'s \<Rightarrow> 'p"
    and deps :: "'l \<Rightarrow> 's \<Rightarrow> 'k"
  assumes deps_cover: "deps l s = deps l' s' \<Longrightarrow> reads s = reads s'"
    and settles_silent: "requests (snd (settles c p a s)) = []"
begin

text \<open>The page of the machine, and whether its effects have seen its present dependencies.\<close>

abbreviation page :: "('s, 'p, 'l, 'k) sched \<Rightarrow> 's" where
  "page m \<equiv> fx_state (sc_fx m)"

definition committed :: "('s, 'p, 'l, 'k) sched \<Rightarrow> bool" where
  "committed m \<longleftrightarrow> sc_seen m = Some (deps (sc_locale m) (page m))"

inductive sched_step ::
  "('s, 'p, 'l, 'k) sched \<Rightarrow> ('s, 'l, 'd) sched_event \<Rightarrow> ('s, 'p, 'l, 'k) sched \<Rightarrow> bool" where
  changed: "sched_step m (Changed s') (m\<lparr>sc_fx := (sc_fx m)\<lparr>fx_state := s'\<rparr>\<rparr>)"
| language: "sched_step m (Language l) (m\<lparr>sc_locale := l\<rparr>)"
| commit: "fx_step (sc_fx m) (Run (reads (page m))) f \<Longrightarrow>
    sched_step m Commit (m\<lparr>sc_fx := f, sc_seen := Some (deps (sc_locale m) (page m))\<rparr>)"
| answer: "fx_step (sc_fx m) (Settle i a) f \<Longrightarrow> sched_step m (Answer i a) (m\<lparr>sc_fx := f\<rparr>)"

inductive sched_reachable :: "'s \<Rightarrow> 'l \<Rightarrow> ('s, 'p, 'l, 'k) sched \<Rightarrow> bool" for s0 l0 where
  sched_start: "sched_reachable s0 l0 (sched_init s0 l0)"
| sched_next: "sched_reachable s0 l0 m \<Longrightarrow> sched_step m e m' \<Longrightarrow> sched_reachable s0 l0 m'"

inductive_cases run_cases: "fx_step m (Run p) m'"
inductive_cases settle_cases: "fx_step m (Settle i a) m'"

lemma sched_fx_reachable: "sched_reachable s0 l0 m \<Longrightarrow> fx_reachable s0 (sc_fx m)"
proof (induction rule: sched_reachable.induct)
  case sched_start
  show ?case by (simp add: sched_init_def fx_start)
next
  case (sched_next m e m')
  from sched_next.hyps(2) show ?case
    by (cases rule: sched_step.cases) (auto intro: fx_next [OF sched_next.IH] other sched_next.IH)
qed

text \<open>
  What the page has asked for: the live run and the latest request belong to the dependencies that
  were seen last.
\<close>

definition asked_for :: "'p \<Rightarrow> ('s, 'p) fx \<Rightarrow> bool" where
  "asked_for p f \<longleftrightarrow> (\<forall>i q. fx_current f = Some (i, q) \<longrightarrow> q = p) \<and> (asks p = None \<longrightarrow> fx_current f = None) \<and>
     (\<forall>r. asks p = Some r \<longrightarrow> (\<exists>rs. requests (fx_log f) = rs @ [r]))"

definition sched_inv :: "('s, 'p, 'l, 'k) sched \<Rightarrow> bool" where
  "sched_inv m \<longleftrightarrow> (\<forall>l s. sc_seen m = Some (deps l s) \<longrightarrow> asked_for (reads s) (sc_fx m))"

lemma run_result:
  assumes "fx_step f (Run p) f'"
  shows "(case asks p of
      None \<Rightarrow> fx_current f' = None \<and> requests (fx_log f') = requests (fx_log f)
    | Some r \<Rightarrow> (\<exists>i. fx_current f' = Some (i, p)) \<and> requests (fx_log f') = requests (fx_log f) @ [r]) \<and>
    fx_state f' = starts p (fx_state f)"
  using assms by (cases rule: run_cases) (auto simp: fx_cancel_def)

lemma settle_result:
  assumes "fx_step f (Settle i a) f'"
  shows "fx_current f' = fx_current f \<and> requests (fx_log f') = requests (fx_log f)"
proof -
  obtain c p s' es where "settles c p a (fx_state f) = (s', es)"
      "f' = f\<lparr>fx_state := s', fx_log := fx_log f @ es, fx_runs := filter (\<lambda>(j, q, d). j \<noteq> i) (fx_runs f)\<rparr>"
    using assms by (cases rule: settle_cases) blast
  then show ?thesis using settles_silent [of c p a "fx_state f"] by simp
qed

lemma sched_step_inv: "sched_step m e m' \<Longrightarrow> sched_inv m \<Longrightarrow> sched_inv m'"
proof (induction rule: sched_step.induct)
  case (commit m f)
  have "asked_for (reads (page m)) f"
    using run_result [OF commit.hyps] by (auto simp: asked_for_def split: option.splits)
  then show ?case unfolding sched_inv_def using deps_cover by (metis option.inject sched.select_convs(1,3) sched.surjective sched.update_convs(1,3))
next
  case (answer m i a f)
  then show ?case using settle_result [OF answer.hyps] by (simp add: sched_inv_def asked_for_def)
qed (simp_all add: sched_inv_def asked_for_def)

lemma sched_reachable_inv: "sched_reachable s0 l0 m \<Longrightarrow> sched_inv m"
proof (induction rule: sched_reachable.induct)
  case sched_start
  show ?case by (simp add: sched_inv_def sched_init_def)
next
  case (sched_next m e m')
  then show ?case using sched_step_inv by blast
qed

text \<open>
  In a committed page the latest request of the effect is the one for the values the page has now,
  and only an answer to a run for these values changes the page; where the values ask for nothing,
  no answer changes it.
\<close>

lemma committed_asked: "sched_reachable s0 l0 m \<Longrightarrow> committed m \<Longrightarrow> asked_for (reads (page m)) (sc_fx m)"
  using sched_reachable_inv unfolding sched_inv_def committed_def by blast

lemma committed_request:
  assumes "sched_reachable s0 l0 m" "committed m" "asks (reads (page m)) = Some r"
  shows "\<exists>rs. requests (fx_log (sc_fx m)) = rs @ [r]"
  using committed_asked [OF assms(1,2)] assms(3) by (simp add: asked_for_def)

lemma committed_run:
  assumes "sched_reachable s0 l0 m" "committed m" "fx_current (sc_fx m) = Some (i, p)"
  shows "p = reads (page m) \<and> asks p \<noteq> None"
  using committed_asked [OF assms(1,2)] assms(3) by (auto simp: asked_for_def)

lemma committed_answer:
  assumes "sched_reachable s0 l0 m" "committed m" "sched_step m (Answer i a) m'" "page m' \<noteq> page m"
  shows "page m' = fst (settles False (reads (page m)) a (page m)) \<and> asks (reads (page m)) \<noteq> None"
proof -
  obtain f where f: "fx_step (sc_fx m) (Settle i a) f" "m' = m\<lparr>sc_fx := f\<rparr>"
    using assms(3) by (cases rule: sched_step.cases) auto
  then obtain p where "fx_current (sc_fx m) = Some (i, p)" "page m' = fst (settles False p a (page m))"
    using latest_answer_applied [OF sched_fx_reachable [OF assms(1)] f(1)] assms(4) by auto
  then show ?thesis using committed_run [OF assms(1,2)] by blast
qed

text \<open>After a commit the page is committed again, unless the start of the run changed what it reads.\<close>

lemma commit_commits:
  assumes "sched_step m Commit m'" "deps (sc_locale m) (starts (reads (page m)) (page m)) = deps (sc_locale m) (page m)"
  shows "committed m'"
  using assms(1)
proof (cases rule: sched_step.cases)
  case (commit f)
  then show ?thesis using run_result [OF commit(2)] assms(2) by (simp add: committed_def)
qed

end

text \<open>
  A list with pages stores the page number and the page size that the server answers, and reads
  them. \<open>round\<close> is a run of the effect with its answer: what the user waits for after a change.
\<close>

locale paged_effect = dependent_effect starts asks settles reads deps
  for starts :: "'p \<Rightarrow> 's \<Rightarrow> 's"
    and asks :: "'p \<Rightarrow> http_request option"
    and settles :: "bool \<Rightarrow> 'p \<Rightarrow> js_exn + 'd \<Rightarrow> 's \<Rightarrow> 's \<times> effect list"
    and reads :: "'s \<Rightarrow> 'p"
    and deps :: "'l \<Rightarrow> 's \<Rightarrow> 'k" +
  fixes answered :: "'d \<Rightarrow> 'p \<Rightarrow> 'p"
  assumes reads_answered: "reads (fst (settles False p (Inr d) (starts p s))) = answered d (reads s)"
    and deps_exact: "reads s = reads s' \<Longrightarrow> deps l s = deps l s'"
begin

definition round :: "('p \<Rightarrow> 'd) \<Rightarrow> 's \<Rightarrow> 's" where
  "round server s = fst (settles False (reads s) (Inr (server (reads s))) (starts (reads s) s))"

definition served :: "('p \<Rightarrow> 'd) \<Rightarrow> 'p \<Rightarrow> 'p" where
  "served server p = answered (server p) p"

lemma reads_round: "reads (round server s) = served server (reads s)"
  by (simp add: round_def served_def reads_answered)

text \<open>
  With a server whose answer to the page it named is that page again, the second answer changes no
  dependency, so the effect comes to rest after at most two requests.
\<close>

lemma rounds_settle:
  assumes "served server (served server (reads s)) = served server (reads s)"
  shows "deps l (round server (round server s)) = deps l (round server s)"
  by (rule deps_exact) (simp add: reads_round assms)

lemma round_settles_at_once:
  assumes "served server (reads s) = reads s"
  shows "deps l (round server s) = deps l s"
  by (rule deps_exact) (simp add: reads_round assms)

text \<open>With any other server it asks again and again, one request per answer.\<close>

lemma rounds_never_settle:
  assumes "\<And>p. served server p \<noteq> p"
  shows "deps l (round server ((round server ^^ n) s)) \<noteq> deps l ((round server ^^ n) s)"
  using deps_cover assms reads_round by metis

end

end
