(* ===== verification/BackendPaging.thy ===== *)
theory BackendPaging
  imports Pagination "HOL-Library.Word"
begin

text \<open>
  The other end of the pagination: how the backend reads page and page size of a list request
  (\<open>service/backend/internal/service/pagination.go\<close> and \<open>pageInputFromRequest\<close>), in Go's \<open>int\<close> of 64
  bits. The list queries are ordered by a total order and end in \<open>LIMIT\<close> and \<open>OFFSET\<close> with the values
  of this module, so the rows of a page are a window of the list of all rows.
\<close>

type_synonym go_int = "64 word"

record page_input =
  pin_Page :: go_int
  pin_PageSize :: go_int

record 'e go_page_result =
  gpr_Items :: "'e list"
  gpr_Total :: go_int
  gpr_Page :: go_int
  gpr_PageSize :: go_int

definition defaultPage :: go_int where "defaultPage = 1"
definition defaultPageSize :: go_int where "defaultPageSize = 20"
definition maxPageSize :: go_int where "maxPageSize = 100"

definition NormalizePageInput :: "page_input \<Rightarrow> page_input" where
  "NormalizePageInput i =
     (let i1 = (if pin_Page i \<le>s 0 then i\<lparr>pin_Page := defaultPage\<rparr> else i);
          i2 = (if pin_PageSize i1 \<le>s 0 then i1\<lparr>pin_PageSize := defaultPageSize\<rparr> else i1)
      in if maxPageSize <s pin_PageSize i2 then i2\<lparr>pin_PageSize := maxPageSize\<rparr> else i2)"

text \<open>A \<open>nil\<close> slice and an empty one are both the empty list.\<close>

definition NewPageResult :: "'e list \<Rightarrow> go_int \<Rightarrow> page_input \<Rightarrow> 'e go_page_result" where
  "NewPageResult items cnt page =
     (let page = NormalizePageInput page
      in \<lparr>gpr_Items = items, gpr_Total = cnt, gpr_Page = pin_Page page, gpr_PageSize = pin_PageSize page\<rparr>)"

definition Limit :: "page_input \<Rightarrow> go_int" where
  "Limit p = pin_PageSize (NormalizePageInput p)"

definition Offset :: "page_input \<Rightarrow> go_int" where
  "Offset p = (let p = NormalizePageInput p in (pin_Page p - 1) * pin_PageSize p)"

text \<open>
  \<open>strconv.Atoi\<close> is a parameter: the number that a text denotes, or none where it fails.
\<close>

definition parsePositiveInt :: "(string \<Rightarrow> go_int option) \<Rightarrow> string \<Rightarrow> go_int" where
  "parsePositiveInt Atoi raw =
     (if raw = [] then 0 else case Atoi raw of None \<Rightarrow> 0 | Some n \<Rightarrow> if n \<le>s 0 then 0 else n)"

definition pageInputFromRequest :: "(string \<Rightarrow> go_int option) \<Rightarrow> (string \<Rightarrow> string) \<Rightarrow> page_input" where
  "pageInputFromRequest Atoi query =
     \<lparr>pin_Page = parsePositiveInt Atoi (query ''page''), pin_PageSize = parsePositiveInt Atoi (query ''page_size'')\<rparr>"

section \<open>Normalising\<close>

lemma go_int_consts [simp]: "sint (0 :: go_int) = 0" "sint (1 :: go_int) = 1" "sint (20 :: go_int) = 20" "sint (100 :: go_int) = 100"
  by simp_all

lemma normalized_page: "sint (pin_Page (NormalizePageInput i)) = (if sint (pin_Page i) \<le> 0 then 1 else sint (pin_Page i))"
  by (simp add: NormalizePageInput_def Let_def defaultPage_def word_sle_eq)

lemma normalized_size: "sint (pin_PageSize (NormalizePageInput i)) =
    (if sint (pin_PageSize i) \<le> 0 then 20 else min 100 (sint (pin_PageSize i)))"
  by (auto simp: NormalizePageInput_def Let_def defaultPage_def defaultPageSize_def maxPageSize_def word_sle_eq word_sless_alt)

lemma normalized_bounds:
  "1 \<le> sint (pin_Page (NormalizePageInput i))"
  "1 \<le> sint (pin_PageSize (NormalizePageInput i))" "sint (pin_PageSize (NormalizePageInput i)) \<le> 100"
  by (simp_all add: normalized_page normalized_size)

text \<open>A normal input stays as it is, so normalising twice is normalising once.\<close>

lemma normalize_normal:
  assumes "1 \<le> sint (pin_Page i)" "1 \<le> sint (pin_PageSize i)" "sint (pin_PageSize i) \<le> 100"
  shows "NormalizePageInput i = i"
  using assms by (auto simp: NormalizePageInput_def Let_def maxPageSize_def word_sle_eq word_sless_alt)

lemma normalize_idem: "NormalizePageInput (NormalizePageInput i) = NormalizePageInput i"
  using normalized_bounds by (intro normalize_normal)

text \<open>
  The answer to a request for a page of the console: \<open>Atoi\<close> reads the numeral of a number that fits,
  and fails for any other.
\<close>

definition atoi_int :: "int \<Rightarrow> go_int option" where
  "atoi_int n = (if - (2 ^ 63) \<le> n \<and> n < 2 ^ 63 then Some (word_of_int n) else None)"

definition asked_input :: "int \<Rightarrow> int \<Rightarrow> page_input" where
  "asked_input page psz =
     (let parse = (\<lambda>n. case atoi_int n of None \<Rightarrow> 0 | Some w \<Rightarrow> if w \<le>s 0 then 0 else w)
      in \<lparr>pin_Page = parse page, pin_PageSize = parse psz\<rparr>)"

lemma asked_input_request:
  assumes "query ''page'' \<noteq> []" "query ''page_size'' \<noteq> []"
    and "Atoi (query ''page'') = atoi_int page" "Atoi (query ''page_size'') = atoi_int psz"
  shows "pageInputFromRequest Atoi query = asked_input page psz"
  using assms by (simp add: pageInputFromRequest_def parsePositiveInt_def asked_input_def)

definition answers_page :: "int \<Rightarrow> int \<Rightarrow> 'e page_result \<Rightarrow> bool" where
  "answers_page page psz result \<longleftrightarrow>
     pr_page result = sint (pin_Page (NormalizePageInput (asked_input page psz))) \<and>
     pr_page_size result = sint (pin_PageSize (NormalizePageInput (asked_input page psz)))"

text \<open>The page it names is within the bounds of the API, and asking for it gives it again.\<close>

lemma answers_page_bounds: "answers_page page psz r \<Longrightarrow> 1 \<le> pr_page r \<and> 1 \<le> pr_page_size r \<and> pr_page_size r \<le> 100"
  by (simp add: answers_page_def normalized_bounds)

lemma answers_page_again:
  assumes "answers_page page psz r" "answers_page (pr_page r) (pr_page_size r) r'"
  shows "pr_page r' = pr_page r \<and> pr_page_size r' = pr_page_size r"
proof -
  let ?i = "NormalizePageInput (asked_input page psz)"
  have w: "atoi_int (sint w) = Some w" for w :: go_int
    using sint_ge [of w] sint_lt [of w] by (simp add: atoi_int_def)
  have "\<not> pin_Page ?i \<le>s 0" "\<not> pin_PageSize ?i \<le>s 0"
    using normalized_bounds [of "asked_input page psz"] by (simp_all add: word_sle_eq)
  then have "asked_input (pr_page r) (pr_page_size r) = ?i"
    using assms(1) by (simp add: answers_page_def asked_input_def Let_def w)
  then show ?thesis using assms by (simp add: answers_page_def normalize_idem)
qed

section \<open>Windows\<close>

text \<open>The offset does not wrap around while it is below the greatest integer.\<close>

lemma offset_exact:
  assumes "(sint (pin_Page (NormalizePageInput p)) - 1) * sint (pin_PageSize (NormalizePageInput p)) < 2 ^ 63"
  shows "sint (Offset p) = (sint (pin_Page (NormalizePageInput p)) - 1) * sint (pin_PageSize (NormalizePageInput p))"
proof -
  let ?g = "sint (pin_Page (NormalizePageInput p))" and ?z = "sint (pin_PageSize (NormalizePageInput p))"
  have b: "1 \<le> ?g" "1 \<le> ?z" by (rule normalized_bounds)+
  have s: "sint (pin_Page (NormalizePageInput p) - 1) = ?g - 1"
    using b(1) sint_lt [of "pin_Page (NormalizePageInput p)"] by (simp add: sint_word_ariths signed_take_bit_int_eq_self)
  have "0 \<le> (?g - 1) * ?z" using b by simp
  then show ?thesis using assms s by (simp add: Offset_def Let_def sint_word_ariths signed_take_bit_int_eq_self)
qed

text \<open>For a page that is too large it does, and the database refuses a negative offset.\<close>

lemma offset_wraps: "sint (Offset \<lparr>pin_Page = 2 ^ 62, pin_PageSize = 3\<rparr>) < 0"
  by (simp add: Offset_def NormalizePageInput_def Let_def maxPageSize_def word_sle_eq word_sless_alt)

text \<open>The rows of a page: the window that \<open>LIMIT\<close> and \<open>OFFSET\<close> select from all rows.\<close>

definition page_rows :: "'e list \<Rightarrow> page_input \<Rightarrow> 'e list" where
  "page_rows rows p = take (nat (sint (Limit p))) (drop (nat (sint (Offset p))) rows)"

definition page_of :: "int \<Rightarrow> int \<Rightarrow> page_input" where
  "page_of n psz = \<lparr>pin_Page = word_of_int n, pin_PageSize = word_of_int psz\<rparr>"

lemma page_rows_window:
  assumes "1 \<le> n" "1 \<le> psz" "psz \<le> 100" "n < 2 ^ 56"
  shows "page_rows rows (page_of n psz) = take (nat psz) (drop (nat ((n - 1) * psz)) rows)"
proof -
  have s: "sint (word_of_int n :: go_int) = n" "sint (word_of_int psz :: go_int) = psz"
    using assms by (simp_all add: signed_of_int signed_take_bit_int_eq_self)
  have k: "NormalizePageInput (page_of n psz) = page_of n psz"
    using assms s by (intro normalize_normal) (simp_all add: page_of_def)
  have "(n - 1) * psz \<le> (n - 1) * 100" using assms by (intro mult_left_mono) simp_all
  then have "(n - 1) * psz < 2 ^ 63" using assms(4) by simp
  then have "sint (Offset (page_of n psz)) = (n - 1) * psz"
    using offset_exact [of "page_of n psz"] s by (simp add: k) (simp add: page_of_def)
  then show ?thesis using s by (simp add: page_rows_def Limit_def k) (simp add: page_of_def)
qed

lemma windows_concat:
  "concat (map (\<lambda>k. take z (drop (k * z) xs)) [0..<n]) = take (n * z) xs"
proof (induction n)
  case (Suc n)
  have "take (n * z + z) xs = take (n * z) xs @ take z (drop (n * z) xs)" by (rule take_add)
  then show ?case using Suc by (simp add: add.commute)
qed simp

section \<open>Property\<close>

text \<open>
  C19: the pages of the bar show all rows. For every list of rows that the server counts, with a page
  size of the API, the pages from the first to the last one that the bar of the table offers are,
  put together, the list of all rows: none is missing, none is shown twice, in the same order.
\<close>

theorem pages_show_all_rows:
  assumes "1 \<le> psz" "psz \<le> 100" "int (length rows) < 2 ^ 53" "totalPages (int (length rows)) psz = jsint n"
  shows "concat (map (\<lambda>k. page_rows rows (page_of k psz)) [1..n]) = rows"
proof -
  let ?len = "int (length rows)"
  have n: "n = max 1 ((?len + psz - 1) div psz)"
    using totalPages_int [of ?len psz] assms by simp
  have "(?len + psz - 1) div psz \<le> ?len + psz - 1"
    using assms(1) int_div_le_self [of "?len + psz - 1" psz] by (cases "?len + psz - 1 = 0") simp_all
  then have small: "n < 2 ^ 56" using n assms(2,3) by simp
  have "(?len + psz - 1) div psz * psz + (?len + psz - 1) mod psz = ?len + psz - 1" by simp
  then have "?len \<le> (?len + psz - 1) div psz * psz" using assms(1) pos_mod_bound [of psz "?len + psz - 1"] by linarith
  also have "\<dots> \<le> n * psz" using assms(1) by (simp add: n mult_right_mono)
  finally have all: "?len \<le> n * psz" .
  have "map (\<lambda>k. page_rows rows (page_of k psz)) [1..n] =
      map (\<lambda>k. take (nat psz) (drop (k * nat psz) rows)) [0..<nat n]"
  proof (rule nth_equalityI)
    fix i assume "i < length (map (\<lambda>k. page_rows rows (page_of k psz)) [1..n])"
    then have i: "i < nat n" by simp
    then have "[1..n] ! i = 1 + int i" by (simp add: nth_upto)
    then show "map (\<lambda>k. page_rows rows (page_of k psz)) [1..n] ! i =
        map (\<lambda>k. take (nat psz) (drop (k * nat psz) rows)) [0..<nat n] ! i"
      using i page_rows_window [of "1 + int i" psz rows] assms(1,2) small by (simp add: nat_mult_distrib)
  qed simp
  moreover have "length rows \<le> nat n * nat psz"
  proof -
    have "length rows \<le> nat (n * psz)" using all by linarith
    also have "nat (n * psz) = nat n * nat psz" by (rule nat_mult_distrib) (simp add: n)
    finally show ?thesis .
  qed
  ultimately show ?thesis by (simp add: windows_concat)
qed

lemma pages_show_all_rows_witness:
  "concat (map (\<lambda>k. page_rows (replicate 21 CHR ''x'') (page_of k 10)) [1..3]) = replicate 21 CHR ''x''"
  using pages_show_all_rows [of 10 "replicate 21 CHR ''x''" 3] totalPages_int [of 21 10] by simp

end
