(* ===== verification/PageReruns.thy ===== *)
theory PageReruns
  imports EffectDeps ThingsModelPage AuditPage DevicePage BackendPaging
begin

text \<open>
  The dependency arrays of the loading effects of the tenant, product, things model, device and
  audit page: each interprets \<open>dependent_effect\<close>, and each list with pages \<open>paged_effect\<close>. A
  dependency array is the tuple of its entries, in the order of the source; \<open>t\<close> is the entry of the
  translation function, which is a new one exactly when the language is another one.
\<close>

section \<open>Tenants and audit log\<close>

definition tenant_effect_reads :: "'w tenant_page_scheme \<Rightarrow> int \<times> int" where
  "tenant_effect_reads s = (tg_page s, tg_pageSize s)"

definition tenant_effect_deps :: "'l \<Rightarrow> 'w tenant_page_scheme \<Rightarrow> int \<times> int \<times> 'l" where
  "tenant_effect_deps t s = (tg_page s, tg_pageSize s, t)"

definition audit_effect_reads :: "audit_page \<Rightarrow> int \<times> int" where
  "audit_effect_reads s = (ag_page s, ag_pageSize s)"

definition audit_effect_deps :: "'l \<Rightarrow> audit_page \<Rightarrow> int \<times> int \<times> 'l" where
  "audit_effect_deps t s = (ag_page s, ag_pageSize s, t)"

text \<open>What is read after an answer: its page and page size.\<close>

definition page_answered :: "'e page_result \<Rightarrow> int \<times> int \<Rightarrow> int \<times> int" where
  "page_answered result p = (pr_page result, pr_page_size result)"

interpretation tenant_list: paged_effect tenant_effect_starts tenant_effect_asks tenant_effect_settles
    tenant_effect_reads tenant_effect_deps page_answered
  by unfold_locales (auto simp: tenant_effect_deps_def tenant_effect_reads_def tenant_effect_settles_def
    tenant_effect_starts_def tenant_loaded_def page_answered_def split: sum.split)

interpretation audit_list: paged_effect audit_effect_starts audit_effect_asks audit_effect_settles
    audit_effect_reads audit_effect_deps page_answered
  by unfold_locales (auto simp: audit_effect_deps_def audit_effect_reads_def audit_effect_settles_def
    audit_effect_starts_def page_answered_def split: sum.split)

section \<open>Products\<close>

definition product_tenants_deps :: "'l \<Rightarrow> 'w product_page_scheme \<Rightarrow> 'l" where
  "product_tenants_deps t s = t"

definition product_effect_reads :: "'w product_page_scheme \<Rightarrow> string \<times> int \<times> int" where
  "product_effect_reads s = (pg_tenantId s, pg_page s, pg_pageSize s)"

definition product_effect_deps :: "'l \<Rightarrow> 'w product_page_scheme \<Rightarrow> int \<times> int \<times> string \<times> 'l" where
  "product_effect_deps t s = (pg_page s, pg_pageSize s, pg_tenantId s, t)"

definition product_answered :: "product page_result \<Rightarrow> string \<times> int \<times> int \<Rightarrow> string \<times> int \<times> int" where
  "product_answered result p = (fst p, pr_page result, pr_page_size result)"

interpretation product_tenants: dependent_effect no_start product_tenants_asks product_tenants_settles
    "\<lambda>s. ()" product_tenants_deps
  by unfold_locales (auto simp: product_tenants_settles_def split: sum.split)

interpretation product_list: paged_effect product_effect_starts product_effect_asks product_effect_settles
    product_effect_reads product_effect_deps product_answered
  by unfold_locales (auto simp: product_effect_deps_def product_effect_reads_def product_effect_settles_def
    product_effect_starts_def product_loaded_def product_cleared_def product_answered_def split: sum.split)

section \<open>Devices and things models\<close>

text \<open>Both pages have three effects: the tenants, the products of the tenant, and the list.\<close>

definition device_tenants_deps :: "'l \<Rightarrow> 'w device_page_scheme \<Rightarrow> 'l" where
  "device_tenants_deps t s = t"

definition device_products_deps :: "'l \<Rightarrow> 'w device_page_scheme \<Rightarrow> string \<times> 'l" where
  "device_products_deps t s = (dg_tenantId s, t)"

definition device_effect_reads :: "'w device_page_scheme \<Rightarrow> string \<times> string \<times> int \<times> int" where
  "device_effect_reads s = (dg_tenantId s, dg_productFilter s, dg_page s, dg_pageSize s)"

definition device_effect_deps :: "'l \<Rightarrow> 'w device_page_scheme \<Rightarrow> int \<times> int \<times> string \<times> string \<times> 'l" where
  "device_effect_deps t s = (dg_page s, dg_pageSize s, dg_productFilter s, dg_tenantId s, t)"

definition model_tenants_deps :: "'l \<Rightarrow> 'w model_page_scheme \<Rightarrow> 'l" where
  "model_tenants_deps t s = t"

definition model_products_deps :: "'l \<Rightarrow> 'w model_page_scheme \<Rightarrow> string \<times> 'l" where
  "model_products_deps t s = (mg_tenantId s, t)"

definition model_effect_reads :: "'w model_page_scheme \<Rightarrow> string \<times> string \<times> int \<times> int" where
  "model_effect_reads s = (mg_tenantId s, mg_productFilter s, mg_page s, mg_pageSize s)"

definition model_effect_deps :: "'l \<Rightarrow> 'w model_page_scheme \<Rightarrow> int \<times> int \<times> string \<times> string \<times> 'l" where
  "model_effect_deps t s = (mg_page s, mg_pageSize s, mg_productFilter s, mg_tenantId s, t)"

definition filtered_answered :: "'e page_result \<Rightarrow> string \<times> string \<times> int \<times> int \<Rightarrow> string \<times> string \<times> int \<times> int" where
  "filtered_answered result p = (fst p, fst (snd p), pr_page result, pr_page_size result)"

interpretation device_tenants: dependent_effect no_start device_tenants_asks device_tenants_settles
    "\<lambda>s. ()" device_tenants_deps
  by unfold_locales (auto simp: device_tenants_settles_def split: sum.split)

interpretation device_products: dependent_effect device_products_starts device_products_asks device_products_settles
    dg_tenantId device_products_deps
  by unfold_locales (auto simp: device_products_settles_def device_products_deps_def Let_def split: sum.split)

interpretation device_list: paged_effect device_effect_starts device_effect_asks device_effect_settles
    device_effect_reads device_effect_deps filtered_answered
  by unfold_locales (auto simp: device_effect_deps_def device_effect_reads_def device_effect_settles_def
    device_effect_starts_def device_loaded_def device_cleared_def filtered_answered_def split: sum.split)

interpretation model_tenants: dependent_effect no_start model_tenants_asks model_tenants_settles
    "\<lambda>s. ()" model_tenants_deps
  by unfold_locales (auto simp: model_tenants_settles_def split: sum.split)

interpretation model_products: dependent_effect model_products_starts model_products_asks model_products_settles
    mg_tenantId model_products_deps
  by unfold_locales (auto simp: model_products_settles_def model_products_deps_def split: sum.split)

interpretation model_list: paged_effect model_effect_starts model_effect_asks model_effect_settles
    model_effect_reads model_effect_deps filtered_answered
  by unfold_locales (auto simp: model_effect_deps_def model_effect_reads_def model_effect_settles_def
    model_effect_starts_def model_loaded_def model_cleared_def filtered_answered_def split: sum.split)

section \<open>The refresh of the device list\<close>

text \<open>The timer of the refresh closes over the render in which its effect ran last.\<close>

definition device_poll_deps :: "realtime_status \<Rightarrow> 'w device_page_scheme \<Rightarrow> int \<times> int \<times> string \<times> realtime_status \<times> string" where
  "device_poll_deps status s = (dg_page s, dg_pageSize s, dg_productFilter s, status, dg_tenantId s)"

text \<open>While its dependencies stay the same, a tick does what one of the present page does.\<close>

lemma device_poll_deps_cover:
  assumes "device_poll_deps status cl = device_poll_deps status' cl'"
  shows "device_polls (dg_tenantId cl) status = device_polls (dg_tenantId cl') status' \<and>
    device_poll_tick api cl = device_poll_tick api cl'"
  using assms by (simp add: device_poll_deps_def device_poll_tick_def loadDevices_def)

section \<open>Properties\<close>




definition sample_paging :: "string \<times> string \<times> int \<times> int \<Rightarrow> device page_result" where
  "sample_paging p = (case p of (tenantId, productFilter, page, psz) \<Rightarrow>
     \<lparr>pr_items = [], pr_total = 0, pr_page = sint (pin_Page (NormalizePageInput (asked_input page psz))),
      pr_page_size = sint (pin_PageSize (NormalizePageInput (asked_input page psz)))\<rparr>)"


end
