(* ===== verification/PropertyReruns.thy ===== *)
theory PropertyReruns
  imports EffectDeps PropertyView
begin

text \<open>
  The dependency arrays of the effects of the device property page. The fetching ones interpret
  \<open>dependent_effect\<close>; of the live event effect, the effect that follows the options of the trend, and the refresh it is shown that
  their arrays cover what they read. \<open>values_commit_requests\<close> puts them together: what the page asks
  for after a change of its state.
\<close>

section \<open>The arrays\<close>

definition values_tenants_deps :: "'l \<Rightarrow> 'w values_page_scheme \<Rightarrow> 'l" where
  "values_tenants_deps t s = t"

definition values_products_deps :: "'l \<Rightarrow> 'w values_page_scheme \<Rightarrow> string \<times> 'l" where
  "values_products_deps t s = (vg_tenantId s, t)"

definition selectable_reads :: "'w values_page_scheme \<Rightarrow> string \<times> string" where
  "selectable_reads s = (vg_tenantId s, vg_productFilter s)"

definition selectable_deps :: "'l \<Rightarrow> 'w values_page_scheme \<Rightarrow> string \<times> string \<times> 'l" where
  "selectable_deps t s = (vg_productFilter s, vg_tenantId s, t)"

definition current_model_reads :: "'w values_page_scheme \<Rightarrow> string \<times> string" where
  "current_model_reads s = (vg_tenantId s, selectedProductId s)"

definition current_model_deps :: "'l \<Rightarrow> 'w values_page_scheme \<Rightarrow> string \<times> string \<times> 'l" where
  "current_model_deps t s = (selectedProductId s, vg_tenantId s, t)"

definition latest_deps :: "'l \<Rightarrow> 'w values_page_scheme \<Rightarrow> string \<times> 'l" where
  "latest_deps t s = (vg_deviceId s, t)"

definition trend_deps ::
  "'l \<Rightarrow> 'w values_page_scheme \<Rightarrow> property_tab \<times> string \<times> 'l \<times> trend_aggregate \<times> int \<times> string list \<times> string \<times> string" where
  "trend_deps t s = (vg_tab s, vg_deviceId s, t, vg_aggregate s, vg_bucketSeconds s, vg_trendProperties s,
     tr_from (vg_trendRange s), tr_to (vg_trendRange s))"

definition events_deps :: "'l \<Rightarrow> 'w values_page_scheme \<Rightarrow> property_tab \<times> string \<times> string \<times> int \<times> int \<times> 'l" where
  "events_deps t s = (vg_tab s, vg_deviceId s, hs_name (vg_events s), hs_page (vg_events s), hs_pageSize (vg_events s), t)"

definition sets_deps :: "'l \<Rightarrow> 'w values_page_scheme \<Rightarrow> property_tab \<times> string \<times> int \<times> string \<times> int \<times> int \<times> 'l" where
  "sets_deps t s = (vg_tab s, vg_deviceId s, vg_setDeadline s, hs_name (vg_sets s), hs_page (vg_sets s), hs_pageSize (vg_sets s), t)"

definition calls_deps :: "'l \<Rightarrow> 'w values_page_scheme \<Rightarrow> property_tab \<times> string \<times> int \<times> string \<times> int \<times> int \<times> 'l" where
  "calls_deps t s = (vg_tab s, vg_deviceId s, vg_callDeadline s, hs_name (vg_calls s), hs_page (vg_calls s), hs_pageSize (vg_calls s), t)"

definition trend_options_deps :: "'w values_page_scheme \<Rightarrow> things_model option \<times> latest_properties option" where
  "trend_options_deps s = (vg_model s, vg_latest s)"

definition live_event_deps ::
  "event_payload inbox_item option \<Rightarrow> 'w values_page_scheme \<Rightarrow>
     property_tab \<times> string \<times> string \<times> int \<times> int \<times> event_payload inbox_item option" where
  "live_event_deps item s =
     (vg_tab s, vg_deviceId s, hs_name (vg_events s), hs_page (vg_events s), hs_pageSize (vg_events s), item)"

record poll_deps =
  pl_tab :: property_tab
  pl_deviceId :: string
  pl_events :: "string \<times> int \<times> int"
  pl_productFilter :: string
  pl_sets :: "int \<times> string \<times> int \<times> int"
  pl_status :: realtime_status
  pl_calls :: "int \<times> string \<times> int \<times> int"
  pl_tenantId :: string
  pl_trend :: "trend_aggregate \<times> int \<times> string list \<times> string \<times> string"

definition values_poll_deps :: "realtime_status \<Rightarrow> 'w values_page_scheme \<Rightarrow> poll_deps" where
  "values_poll_deps status s = \<lparr>pl_tab = vg_tab s, pl_deviceId = vg_deviceId s,
     pl_events = (hs_name (vg_events s), hs_page (vg_events s), hs_pageSize (vg_events s)),
     pl_productFilter = vg_productFilter s,
     pl_sets = (vg_setDeadline s, hs_name (vg_sets s), hs_page (vg_sets s), hs_pageSize (vg_sets s)),
     pl_status = status,
     pl_calls = (vg_callDeadline s, hs_name (vg_calls s), hs_page (vg_calls s), hs_pageSize (vg_calls s)),
     pl_tenantId = vg_tenantId s,
     pl_trend = (vg_aggregate s, vg_bucketSeconds s, vg_trendProperties s, tr_from (vg_trendRange s), tr_to (vg_trendRange s))\<rparr>"

section \<open>They cover what is read\<close>

interpretation values_tenants: dependent_effect no_start values_tenants_asks values_tenants_settles
    "\<lambda>s. ()" values_tenants_deps
  by unfold_locales (auto simp: values_tenants_settles_def split: sum.split)

interpretation values_products: dependent_effect values_products_starts values_products_asks values_products_settles
    vg_tenantId values_products_deps
  by unfold_locales (auto simp: values_products_settles_def values_products_deps_def split: sum.split)

interpretation values_devices: dependent_effect selectable_starts selectable_asks
    "\<lambda>cancelled (p :: string \<times> string). loadSelectableDevices False cancelled" selectable_reads selectable_deps
  by unfold_locales (auto simp: loadSelectableDevices_def selectable_reads_def selectable_deps_def split: sum.split)

interpretation values_model: dependent_effect current_model_starts current_model_asks "current_model_settles fresh"
    current_model_reads current_model_deps for fresh
  by unfold_locales (auto simp: current_model_settles_def current_model_reads_def current_model_deps_def Let_def split: sum.split)

interpretation values_latest: dependent_effect latest_starts latest_asks latest_settles vg_deviceId latest_deps
  by unfold_locales (auto simp: latest_settles_def latest_deps_def split: sum.split)

interpretation values_trend: dependent_effect "trend_starts to_iso" "trend_asks to_iso" trend_settles trend_view_of trend_deps for to_iso
  by unfold_locales (auto simp: trend_settles_def trend_view_of_def trend_deps_def split: sum.split)

interpretation values_events: dependent_effect events_starts "history_asks event_request_of" events_settles event_view events_deps
  by unfold_locales (auto simp: events_settles_def history_settles_def event_view_def events_deps_def split: sum.split)

interpretation values_sets: dependent_effect sets_starts "history_asks set_request_of" sets_settles set_view sets_deps
  by unfold_locales (auto simp: sets_settles_def history_settles_def set_view_def sets_deps_def split: sum.split)

interpretation values_calls: dependent_effect calls_starts "history_asks call_request_of" calls_settles call_view calls_deps
  by unfold_locales (auto simp: calls_settles_def history_settles_def call_view_def calls_deps_def split: sum.split)

lemma trend_options_deps_cover:
  "trend_options_deps s = trend_options_deps s' \<Longrightarrow>
   trendPropertyOptionsOf (vg_model s) (vg_latest s) = trendPropertyOptionsOf (vg_model s') (vg_latest s')"
  by (simp add: trend_options_deps_def)

lemma live_event_deps_cover:
  "live_event_deps item v = live_event_deps item' v' \<Longrightarrow> live_event_effect v item s = live_event_effect v' item' s"
  by (auto simp: live_event_deps_def live_event_effect_def live_event_shown_def split: option.split)

lemma values_poll_deps_cover:
  fixes s :: "'b values_page_scheme"
  assumes "values_poll_deps status v = values_poll_deps status' v'"
  shows "values_polls (vg_tenantId v) status = values_polls (vg_tenantId v') status' \<and>
    values_refresh to_iso v s = values_refresh to_iso v' s"
proof -
  have v: "vg_tenantId v = vg_tenantId v'" "vg_productFilter v = vg_productFilter v'" "vg_deviceId v = vg_deviceId v'"
      "trend_view_of v = trend_view_of v'" "event_view v = event_view v'" "set_view v = set_view v'" "call_view v = call_view v'"
      "refresh_loads v = refresh_loads v'" "status = status'"
    using assms by (simp_all add: values_poll_deps_def trend_view_of_def event_view_def set_view_def call_view_def refresh_loads_def)
  have "load_starts to_iso v l u = load_starts to_iso v' l u" for l and u :: "'b values_page_scheme"
    by (cases l) (simp_all add: v)
  then have "(load_starts to_iso v :: _ \<Rightarrow> 'b values_page_scheme \<Rightarrow> _) = load_starts to_iso v'" by (intro ext)
  then show ?thesis by (simp add: values_refresh_def v)
qed

section \<open>What a change of the page asks for\<close>

text \<open>
  The requests of the effects whose dependencies differ between two states of the page, in the order
  of the effects. An effect whose array holds an equal list of another identity may run as well; only
  \<open>trendProperties\<close> is a list.
\<close>

definition reruns :: "'k \<Rightarrow> 'k \<Rightarrow> http_request option \<Rightarrow> http_request list" where
  "reruns k k' r = (if k = k' then [] else case r of None \<Rightarrow> [] | Some x \<Rightarrow> [x])"

definition values_commit_requests ::
  "(string \<Rightarrow> string) \<Rightarrow> 'l \<Rightarrow> 'w values_page_scheme \<Rightarrow> 'l \<Rightarrow> 'w values_page_scheme \<Rightarrow> http_request list" where
  "values_commit_requests to_iso t s t' s' = concat
     [reruns (values_tenants_deps t s) (values_tenants_deps t' s') (values_tenants_asks ()),
      reruns (values_products_deps t s) (values_products_deps t' s') (values_products_asks (vg_tenantId s')),
      reruns (selectable_deps t s) (selectable_deps t' s') (selectable_asks (selectable_reads s')),
      reruns (current_model_deps t s) (current_model_deps t' s') (current_model_asks (current_model_reads s')),
      reruns (latest_deps t s) (latest_deps t' s') (latest_asks (vg_deviceId s')),
      reruns (trend_deps t s) (trend_deps t' s') (trend_asks to_iso (trend_view_of s')),
      reruns (events_deps t s) (events_deps t' s') (history_asks event_request_of (event_view s')),
      reruns (sets_deps t s) (sets_deps t' s') (history_asks set_request_of (set_view s')),
      reruns (calls_deps t s) (calls_deps t' s') (history_asks call_request_of (call_view s'))]"

text \<open>The request for the list of the shown tab.\<close>

definition shown_request :: "(string \<Rightarrow> string) \<Rightarrow> 'w values_page_scheme \<Rightarrow> http_request option" where
  "shown_request to_iso s = (case vg_tab s of
      HistoryTab \<Rightarrow> trend_asks to_iso (trend_view_of s)
    | EventHistoryTab \<Rightarrow> history_asks event_request_of (event_view s)
    | SetHistoryTab \<Rightarrow> history_asks set_request_of (set_view s)
    | CallHistoryTab \<Rightarrow> history_asks call_request_of (call_view s)
    | _ \<Rightarrow> None)"

abbreviation opt_list :: "'a option \<Rightarrow> 'a list" where
  "opt_list x \<equiv> (case x of None \<Rightarrow> [] | Some y \<Rightarrow> [y])"

text \<open>The effects of the lists: of those that run, only that of the shown tab asks.\<close>

lemma hidden_asks:
  "vg_tab s \<noteq> HistoryTab \<Longrightarrow> trend_asks to_iso (trend_view_of s) = None"
  "vg_tab s \<noteq> EventHistoryTab \<Longrightarrow> history_asks event_request_of (event_view s) = None"
  "vg_tab s \<noteq> SetHistoryTab \<Longrightarrow> history_asks set_request_of (set_view s) = None"
  "vg_tab s \<noteq> CallHistoryTab \<Longrightarrow> history_asks call_request_of (call_view s) = None"
  by (simp_all add: trend_asks_def trend_view_of_def history_asks_def event_view_def set_view_def call_view_def)

lemma reruns_simps [simp]: "reruns k k r = []" "reruns k k' None = []" "k \<noteq> k' \<Longrightarrow> reruns k k' r = opt_list r"
  by (simp_all add: reruns_def)

lemma reruns_cases: "reruns k k' r = [] \<or> reruns k k' r = opt_list r"
  by (simp add: reruns_def)

lemma selector_deps_same:
  assumes "vg_tenantId s' = vg_tenantId s" "vg_productFilter s' = vg_productFilter s" "vg_deviceId s' = vg_deviceId s"
    "vg_devices s' = vg_devices s"
  shows "values_products_deps t s' = values_products_deps t s" "selectable_deps t s' = selectable_deps t s"
    "current_model_deps t s' = current_model_deps t s" "latest_deps t s' = latest_deps t s"
    "values_tenants_deps t s' = values_tenants_deps t s"
  using assms by (simp_all add: values_products_deps_def selectable_deps_def current_model_deps_def latest_deps_def
    values_tenants_deps_def selectedProductId_def selectedDevice_def split: option.split)

text \<open>While the dependencies of the effect of the shown list stay the same, so does its request.\<close>

lemma trend_deps_view: "trend_deps t s = trend_deps t s' \<Longrightarrow> trend_view_of s = trend_view_of s'"
  by (cases "vg_trendRange s"; cases "vg_trendRange s'") (simp add: trend_deps_def trend_view_of_def)

lemma tab_of_deps: "trend_deps t s = trend_deps t s' \<Longrightarrow> vg_tab s = vg_tab s'"
  by (simp add: trend_deps_def)

lemma shown_same:
  "vg_tab s' = HistoryTab \<Longrightarrow> trend_deps t s = trend_deps t s' \<Longrightarrow> shown_request to_iso s' = shown_request to_iso s"
  "vg_tab s' = EventHistoryTab \<Longrightarrow> events_deps t s = events_deps t s' \<Longrightarrow> shown_request to_iso s' = shown_request to_iso s"
  "vg_tab s' = SetHistoryTab \<Longrightarrow> sets_deps t s = sets_deps t s' \<Longrightarrow> shown_request to_iso s' = shown_request to_iso s"
  "vg_tab s' = CallHistoryTab \<Longrightarrow> calls_deps t s = calls_deps t s' \<Longrightarrow> shown_request to_iso s' = shown_request to_iso s"
  using trend_deps_view [of t s s'] tab_of_deps [of t s s']
  by (simp_all add: shown_request_def events_deps_def event_view_def
    sets_deps_def set_view_def calls_deps_def call_view_def)

lemma commit_lists:
  assumes "vg_tenantId s' = vg_tenantId s" "vg_productFilter s' = vg_productFilter s" "vg_deviceId s' = vg_deviceId s"
    "vg_devices s' = vg_devices s"
  shows "values_commit_requests to_iso t s t s' =
    (case vg_tab s' of
       HistoryTab \<Rightarrow> reruns (trend_deps t s) (trend_deps t s') (shown_request to_iso s')
     | EventHistoryTab \<Rightarrow> reruns (events_deps t s) (events_deps t s') (shown_request to_iso s')
     | SetHistoryTab \<Rightarrow> reruns (sets_deps t s) (sets_deps t s') (shown_request to_iso s')
     | CallHistoryTab \<Rightarrow> reruns (calls_deps t s) (calls_deps t s') (shown_request to_iso s')
     | _ \<Rightarrow> [])"
  unfolding values_commit_requests_def selector_deps_same [OF assms]
  by (cases "vg_tab s'") (simp_all add: hidden_asks shown_request_def)

text \<open>The controls of the lists and of the tabs.\<close>

fun list_control :: "values_action \<Rightarrow> bool" where
  "list_control (ShowTab tab) = True"
| "list_control (SetAggregate g) = True"
| "list_control (SetBucket n) = True"
| "list_control (SetFrom v) = True"
| "list_control (SetTo v) = True"
| "list_control (ToggleProperty k) = True"
| "list_control (HistoryName which v) = True"
| "list_control (HistoryPage which n) = True"
| "list_control (HistorySize which n) = True"
| "list_control (HistoryDeadline which n) = True"
| "list_control _ = False"

lemma history_action_keeps:
  "vg_tenantId (history_action fe fs fc w s) = vg_tenantId s" "vg_productFilter (history_action fe fs fc w s) = vg_productFilter s"
  "vg_deviceId (history_action fe fs fc w s) = vg_deviceId s" "vg_devices (history_action fe fs fc w s) = vg_devices s"
  by (simp_all add: history_action_def split: history_list.split)

lemma deadline_changed_keeps:
  "vg_tenantId (deadline_changed w n s) = vg_tenantId s" "vg_productFilter (deadline_changed w n s) = vg_productFilter s"
  "vg_deviceId (deadline_changed w n s) = vg_deviceId s" "vg_devices (deadline_changed w n s) = vg_devices s"
  by (cases w; simp add: handleSetDeadlineChange_def handleCallDeadlineChange_def)+

lemma list_control_keeps:
  assumes "list_control a" "s' = state_of (values_perform fresh to_iso api a s s)"
  shows "vg_tenantId s' = vg_tenantId s \<and> vg_productFilter s' = vg_productFilter s \<and> vg_deviceId s' = vg_deviceId s \<and>
    vg_devices s' = vg_devices s"
  using assms by (cases a) (simp_all add: handleTrendFromChange_def handleTrendToChange_def history_action_keeps deadline_changed_keeps)

lemma choose_device_requests:
  assumes "d \<noteq> []" "d \<noteq> vg_deviceId s" "s' = handleDeviceChange d s"
  shows "values_commit_requests to_iso t s t s' =
    (if selectedProductId s' = selectedProductId s then [] else opt_list (current_model_asks (current_model_reads s'))) @
    [latest_request d] @ opt_list (shown_request to_iso s')"
proof -
  have k: "vg_deviceId s' = d" "vg_tenantId s' = vg_tenantId s" "vg_productFilter s' = vg_productFilter s" "vg_tab s' = vg_tab s"
    by (simp_all add: assms(3) handleDeviceChange_def forget_device_def)
  have "latest_deps t s \<noteq> latest_deps t s'" "trend_deps t s \<noteq> trend_deps t s'" "events_deps t s \<noteq> events_deps t s'"
      "sets_deps t s \<noteq> sets_deps t s'" "calls_deps t s \<noteq> calls_deps t s'"
    using assms(2) k(1) by (auto simp: latest_deps_def trend_deps_def events_deps_def sets_deps_def calls_deps_def)
  moreover have "values_tenants_deps t s = values_tenants_deps t s'" "values_products_deps t s = values_products_deps t s'"
      "selectable_deps t s = selectable_deps t s'"
    by (simp_all add: values_tenants_deps_def values_products_deps_def selectable_deps_def k)
  moreover have "(current_model_deps t s = current_model_deps t s') = (selectedProductId s' = selectedProductId s)"
    by (auto simp: current_model_deps_def k)
  moreover have "latest_asks (vg_deviceId s') = Some (latest_request d)" using assms(1) k(1) by (simp add: latest_asks_def)
  ultimately show ?thesis
    by (cases "vg_tab s'") (simp_all add: values_commit_requests_def reruns_def shown_request_def hidden_asks)
qed

section \<open>Properties\<close>

text \<open>
  C9: the controls of the device property page ask for what they show. After a change with a tab
  button, a control of the trend or a control of a history list, the effects of the page send nothing
  or exactly one request, the one for the list of the shown tab with its present inputs; and they send it
  whenever that request is another one than before. Choosing another device asks for its latest
  values and for the first page of the shown list, after the things model if it has another product.
\<close>

theorem controls_ask_for_what_is_shown:
  assumes "s' = state_of (values_perform fresh to_iso api a s s)"
  shows "(list_control a \<longrightarrow>
      values_commit_requests to_iso t s t s' \<in> {[], opt_list (shown_request to_iso s')} \<and>
      (shown_request to_iso s' \<noteq> shown_request to_iso s \<longrightarrow>
         values_commit_requests to_iso t s t s' = opt_list (shown_request to_iso s'))) \<and>
    (\<forall>d. a = ChooseDevice d \<and> d \<noteq> [] \<and> d \<noteq> vg_deviceId s \<longrightarrow>
      values_commit_requests to_iso t s t s' =
        (if selectedProductId s' = selectedProductId s then [] else opt_list (current_model_asks (current_model_reads s'))) @
        [latest_request d] @ opt_list (shown_request to_iso s'))"
proof (intro conjI impI allI)
  assume c: "list_control a"
  have r: "values_commit_requests to_iso t s t s' =
    (case vg_tab s' of
       HistoryTab \<Rightarrow> reruns (trend_deps t s) (trend_deps t s') (shown_request to_iso s')
     | EventHistoryTab \<Rightarrow> reruns (events_deps t s) (events_deps t s') (shown_request to_iso s')
     | SetHistoryTab \<Rightarrow> reruns (sets_deps t s) (sets_deps t s') (shown_request to_iso s')
     | CallHistoryTab \<Rightarrow> reruns (calls_deps t s) (calls_deps t s') (shown_request to_iso s')
     | _ \<Rightarrow> [])"
    using list_control_keeps [OF c assms] by (intro commit_lists) simp_all
  show "values_commit_requests to_iso t s t s' \<in> {[], opt_list (shown_request to_iso s')}"
    unfolding r by (simp add: reruns_cases split: property_tab.split)
  assume n: "shown_request to_iso s' \<noteq> shown_request to_iso s"
  show "values_commit_requests to_iso t s t s' = opt_list (shown_request to_iso s')"
    using n shown_same [of s' t s to_iso] unfolding r
    by (cases "vg_tab s'") (auto simp: reruns_def, simp_all add: shown_request_def)
next
  fix d assume "a = ChooseDevice d \<and> d \<noteq> [] \<and> d \<noteq> vg_deviceId s"
  then show "values_commit_requests to_iso t s t s' =
        (if selectedProductId s' = selectedProductId s then [] else opt_list (current_model_asks (current_model_reads s'))) @
        [latest_request d] @ opt_list (shown_request to_iso s')"
    using choose_device_requests [of d s s' to_iso t] assms by simp
qed

lemma controls_ask_for_what_is_shown_witness:
  "values_commit_requests id () sample_values () (sample_values\<lparr>vg_tab := EventHistoryTab\<rparr>) =
     [event_request_of (event_view (sample_values\<lparr>vg_tab := EventHistoryTab\<rparr>))]"
  using controls_ask_for_what_is_shown [where a = "ShowTab EventHistoryTab" and s = sample_values and to_iso = id and t = "()", OF refl]
  by (simp add: shown_request_def history_asks_def event_view_def sample_values_def values_init_def update_def)

section \<open>What the arrays do not protect\<close>

text \<open>
  The language is a dependency of every fetching effect: after a change of the language all of them
  ask again, also for the things model, whose answer puts the default text and the default rows in
  place of what the user has entered in the command panels.
\<close>

lemma language_change_reloads:
  assumes "t \<noteq> t'" "vg_tenantId s \<noteq> []" "selectedProductId s \<noteq> []" "vg_deviceId s \<noteq> []"
  shows "values_commit_requests to_iso t s t' s = [tenant_list_request 1 50, product_list_request (vg_tenantId s) 1 100,
    device_list_request (vg_tenantId s) (vg_productFilter s) 1 100] @ opt_list (current_model_asks (current_model_reads s)) @
    [latest_request (vg_deviceId s)] @ opt_list (shown_request to_iso s)"
proof -
  have "values_tenants_deps t s \<noteq> values_tenants_deps t' s" "values_products_deps t s \<noteq> values_products_deps t' s"
      "selectable_deps t s \<noteq> selectable_deps t' s" "current_model_deps t s \<noteq> current_model_deps t' s"
      "latest_deps t s \<noteq> latest_deps t' s" "trend_deps t s \<noteq> trend_deps t' s" "events_deps t s \<noteq> events_deps t' s"
      "sets_deps t s \<noteq> sets_deps t' s" "calls_deps t s \<noteq> calls_deps t' s"
    using assms(1) by (simp_all add: values_tenants_deps_def values_products_deps_def selectable_deps_def current_model_deps_def
      latest_deps_def trend_deps_def events_deps_def sets_deps_def calls_deps_def)
  then show ?thesis using assms(2-)
    by (cases "vg_tab s") (simp_all add: values_commit_requests_def shown_request_def hidden_asks values_tenants_asks_def
      values_products_asks_def selectable_asks_def selectable_reads_def latest_asks_def)
qed

lemma model_answer_resets_text:
  "vg_setText (fst (current_model_settles fresh False p (Inr r) s)) = defaultPropertySetText (find tm_is_current (pr_items r))"
  by (simp add: current_model_settles_def Let_def default_inputs_def split: prod.split)

text \<open>
  A run that is cancelled leaves its loading flag to the next one, and a run without a product or a
  device returns before it touches the flag: cleared while it loads, the selection leaves the flag set.
\<close>

lemma cleared_selection_keeps_loading:
  "vg_loadingServices s \<Longrightarrow> fst (current_model_settles fresh True p a (current_model_starts (tenantId, []) s)) = model_reset s \<and>
     vg_loadingServices (model_reset s)"
  "hs_loading (vg_events s) \<Longrightarrow> hv_deviceId q = [] \<Longrightarrow>
     hs_loading (vg_events (fst (events_settles True q' b (events_starts q s))))"
  by (simp_all add: current_model_settles_def current_model_starts_def model_reset_def events_settles_def history_settles_def
    events_starts_def history_starts_def history_cleared_def)

end
