(* ===== verification/ChartObject.thy ===== *)
theory ChartObject
  imports PropertyPanels StateMachine
begin

text \<open>
  The chart of the trend (\<open>TrendChart\<close> in \<open>DevicePropertyManagement.tsx\<close>): the options given to the
  chart library and the life of the chart object. The library is third-party code; of it the model has that a chart
  is created on an element, shows the options it was given last, and stays on the element until it
  is disposed. The runtime keeps an element of the page when the element at the same place of the
  next tree has the same tag; it does not touch what others have put into it.
\<close>

section \<open>Options\<close>

record chart_host = host +
  ah_axis :: "int \<Rightarrow> string"
  ah_tooltip :: "int \<Rightarrow> string"
  ah_time_of :: "jsnum \<Rightarrow> int option"

record line_series =
  ls_name :: string
  ls_style :: js_object
  ls_data :: "js list"

record trend_chart_option =
  op_color :: "string list"
  op_animationDuration :: int
  op_grid :: js_object
  op_legend :: js_object
  op_tooltip :: js_object
  op_tooltipFormatter :: "js \<Rightarrow> string"
  op_xAxis :: js_object
  op_xFormatter :: "jsnum \<Rightarrow> string"
  op_yAxis :: js_object
  op_yFormatter :: "jsnum \<Rightarrow> string"
  op_dataZoom :: "js_object list"
  op_series :: "line_series list"

definition label_style :: "string \<Rightarrow> int \<Rightarrow> js" where
  "label_style color weight = JObj [(''color'', JStr color), (''fontWeight'', jint weight)]"

definition chart_grid :: js_object where
  "chart_grid = [(''top'', jint 56), (''right'', jint 34), (''bottom'', jint 84), (''left'', jint 68),
     (''containLabel'', JBool True)]"

definition chart_legend :: js_object where
  "chart_legend = [(''top'', jint 14), (''left'', jint 18), (''itemGap'', jint 18),
     (''textStyle'', label_style ''#64748b'' 700), (''type'', JStr ''scroll'')]"

definition chart_tooltip :: js_object where
  "chart_tooltip = [(''trigger'', JStr ''axis''), (''confine'', JBool True),
     (''axisPointer'', JObj [(''type'', JStr ''cross''), (''label'', JObj [(''backgroundColor'', JStr ''#128999'')])]),
     (''borderColor'', JStr ''#d8e1ea''), (''borderWidth'', jint 1), (''padding'', jint 12),
     (''textStyle'', label_style ''#172033'' 600)]"

text \<open>The members of the axes other than the formatter of \<open>axisLabel\<close>.\<close>

definition chart_xAxis :: "(string \<Rightarrow> string) \<Rightarrow> trend_aggregate \<Rightarrow> nat \<Rightarrow> js_object" where
  "chart_xAxis t aggregate bucketSeconds =
     [(''type'', JStr ''time''), (''name'', JStr (axis_name t aggregate bucketSeconds)),
      (''nameLocation'', JStr ''middle''), (''nameGap'', jint 42),
      (''axisLabel'', label_style ''#64748b'' 700),
      (''axisLine'', JObj [(''lineStyle'', JObj [(''color'', JStr ''#cbd5e1'')])]),
      (''splitLine'', JObj [(''show'', JBool True),
         (''lineStyle'', JObj [(''color'', JStr ''#e2e8f0''), (''type'', JStr ''dashed'')])])]"

definition chart_yAxis :: "(string \<Rightarrow> string) \<Rightarrow> js_object" where
  "chart_yAxis t =
     [(''type'', JStr ''value''), (''name'', JStr (t ''adminDevicePropertyValue'')), (''nameGap'', jint 48),
      (''scale'', JBool True), (''splitNumber'', jint 8),
      (''axisLabel'', label_style ''#64748b'' 700),
      (''axisLine'', JObj [(''show'', JBool True), (''lineStyle'', JObj [(''color'', JStr ''#cbd5e1'')])]),
      (''splitLine'', JObj [(''lineStyle'', JObj [(''color'', JStr ''#e2e8f0''), (''type'', JStr ''dashed'')])])]"

definition chart_dataZoom :: "js_object list" where
  "chart_dataZoom =
     [[(''type'', JStr ''inside''), (''throttle'', jint 80)],
      [(''type'', JStr ''slider''), (''height'', jint 22), (''bottom'', jint 22), (''borderColor'', JStr ''#d8e1ea''),
       (''fillerColor'', JStr ''rgba(18, 137, 153, 0.16)''), (''handleStyle'', JObj [(''color'', JStr ''#128999'')]),
       (''textStyle'', label_style ''#64748b'' 700)]]"

definition series_style :: js_object where
  "series_style = [(''type'', JStr ''line''), (''smooth'', JBool True), (''showSymbol'', JBool True),
     (''symbol'', JStr ''circle''), (''symbolSize'', jint 6), (''lineStyle'', JObj [(''width'', jint 3)]),
     (''emphasis'', JObj [(''focus'', JStr ''series'')]), (''areaStyle'', JObj [(''opacity'', JNum (rnd (8 / 100)))])]"

definition chart_option ::
  "chart_host \<Rightarrow> trend_aggregate \<Rightarrow> nat \<Rightarrow> trend_option list \<Rightarrow> property_trend option \<Rightarrow> trend_chart_option" where
  "chart_option h aggregate bucketSeconds propertyOptions trend =
     \<lparr>op_color = trendLineColors, op_animationDuration = 450, op_grid = chart_grid, op_legend = chart_legend,
      op_tooltip = chart_tooltip,
      op_tooltipFormatter = (\<lambda>params. trendTooltipFormatter (ho_parse h) (ah_tooltip h) params propertyOptions),
      op_xAxis = chart_xAxis (ho_t h) aggregate bucketSeconds, op_xFormatter = formatAxisTime (ah_time_of h) (ah_axis h),
      op_yAxis = chart_yAxis (ho_t h), op_yFormatter = axis_value_label,
      op_dataZoom = chart_dataZoom,
      op_series = map (\<lambda>(name, rows). \<lparr>ls_name = name, ls_style = series_style, ls_data = rows\<rparr>)
        (chart_series (ho_parse h) propertyOptions trend)\<rparr>"

text \<open>
  What the library passes to the tooltip for a point: the row of the point and the name of its
  series. The tooltip reads the row at the places at which \<open>chart_row\<close> has written it.
\<close>

definition tooltip_item :: "string \<Rightarrow> js \<Rightarrow> js" where
  "tooltip_item name row = JObj [(''seriesName'', JStr name), (''data'', row)]"

lemma tooltip_row_of_point:
  "tooltip_row options (Some (tooltip_item name (chart_row parse property point))) = concat
     [''<div style=\"display:flex;align-items:center;gap:8px;margin-top:8px;\">'',
      ''<span style=\"width:9px;height:9px;border-radius:999px;background:var(--color-linkflow-primary);display:inline-block;\"></span>'',
      ''<strong>'' @ name @ ''</strong>'', ''</div>'', ''<div style=\"padding-left:17px;line-height:1.7;\">'',
      ''value: '' @ formatTrendNumber (Some (JNum (tp_value point))) @ ''<br/>'',
      ''min: '' @ formatTrendNumber (Some (JNum (tp_min point))) @ '' / max: '' @ formatTrendNumber (Some (JNum (tp_max point))) @ ''<br/>'',
      ''count: '' @ num_str (Fin (of_int (tp_count point))), ''</div>'']"
  by (simp add: tooltip_row_def tooltip_label_def tooltip_item_def chart_row_def member_def jint_def nth_opt_def array_or_empty_def string_or_def Let_def)

section \<open>The chart object\<close>

record chart_instance =
  ci_node :: nat
  ci_option :: "trend_chart_option option"
  ci_disposed :: bool

text \<open>
  The mounted component: the tree it has rendered, the element at the place of the container and the
  number of the next new element; \<open>chartRef\<close>; the charts that were created, and \<open>chartInstanceRef\<close> as an index into
  them; the observers at work (an element and the chart it resizes), and the one that the cleanup of
  the last run of the effect disconnects.
\<close>

record chart_life =
  cf_view :: "unit node"
  cf_node :: nat
  cf_next :: nat
  cf_ref :: "nat option"
  cf_charts :: "chart_instance list"
  cf_instance :: "nat option"
  cf_observers :: "(nat \<times> nat) list"
  cf_cleanup :: "(nat \<times> nat) option"

definition chart_mount :: chart_life where
  "chart_mount = \<lparr>cf_view = Null, cf_node = 0, cf_next = 1, cf_ref = None, cf_charts = [], cf_instance = None,
     cf_observers = [], cf_cleanup = None\<rparr>"

text \<open>Whether the element at a place of the tree is kept when the next tree is put in its place.\<close>

fun element_kept :: "nat list \<Rightarrow> 'a node \<Rightarrow> 'a node \<Rightarrow> bool" where
  "element_kept [] (El tag as ns) (El tag' as' ns') = (tag = tag')"
| "element_kept (i # place) (El tag as ns) (El tag' as' ns') =
     (tag = tag' \<and> i < length ns \<and> i < length ns' \<and> element_kept place (ns ! i) (ns' ! i))"
| "element_kept place _ _ = False"

definition chart_cleanup :: "chart_life \<Rightarrow> chart_life" where
  "chart_cleanup st = (case cf_cleanup st of None \<Rightarrow> st
     | Some resizeObserver \<Rightarrow> st\<lparr>cf_observers := remove1 resizeObserver (cf_observers st), cf_cleanup := None\<rparr>)"

text \<open>The effect, with the options and the number of valid points of its render.\<close>

definition chart_effect :: "nat \<Rightarrow> trend_chart_option \<Rightarrow> chart_life \<Rightarrow> chart_life" where
  "chart_effect validCount opt st =
     (case cf_ref st of
        None \<Rightarrow> st
      | Some elem \<Rightarrow>
          if validCount = 0 then st
          else let st = (case cf_instance st of
                     Some i \<Rightarrow> st
                   | None \<Rightarrow> st\<lparr>cf_charts := cf_charts st @ [\<lparr>ci_node = elem, ci_option = None, ci_disposed = False\<rparr>],
                                cf_instance := Some (length (cf_charts st))\<rparr>);
                   i = the (cf_instance st)
               in st\<lparr>cf_charts := (cf_charts st)[i := (cf_charts st ! i)\<lparr>ci_option := Some opt\<rparr>],
                     cf_observers := cf_observers st @ [(elem, i)], cf_cleanup := Some (elem, i)\<rparr>)"

text \<open>
  A render: the tree is put in the place of the former one, the reference follows the element, and the
  effect runs after the cleanup of its last run. It runs at every render, since \<open>propertyOptions\<close> is a
  new array in each.
\<close>

definition chart_render ::
  "chart_host \<Rightarrow> trend_aggregate \<Rightarrow> nat \<Rightarrow> trend_option list \<Rightarrow> property_trend option \<Rightarrow> chart_life \<Rightarrow> chart_life" where
  "chart_render h aggregate bucketSeconds propertyOptions trend st =
     (let view = TrendChart (host.truncate h) trend;
          st = (if element_kept [0] (cf_view st) view then st else st\<lparr>cf_node := cf_next st, cf_next := Suc (cf_next st)\<rparr>);
          st = st\<lparr>cf_view := view, cf_ref := (if chart_shown (ho_parse h) trend then Some (cf_node st) else None)\<rparr>
      in chart_effect (length (validPoints (ho_parse h) trend)) (chart_option h aggregate bucketSeconds propertyOptions trend)
           (chart_cleanup st))"

text \<open>The component goes away: the cleanups of both effects run.\<close>

definition chart_dispose :: "chart_life \<Rightarrow> chart_life" where
  "chart_dispose st =
     (case cf_instance st of
        None \<Rightarrow> st
      | Some i \<Rightarrow> st\<lparr>cf_charts := (cf_charts st)[i := (cf_charts st ! i)\<lparr>ci_disposed := True\<rparr>], cf_instance := None\<rparr>)"

definition chart_unmount :: "chart_life \<Rightarrow> chart_life" where
  "chart_unmount st = chart_dispose (chart_cleanup (st\<lparr>cf_ref := None\<rparr>))"

text \<open>A render with its values, and the charts that are on the element of the container.\<close>

datatype chart_event = ChartRender chart_host trend_aggregate nat "trend_option list" "property_trend option"

fun chart_step :: "chart_event \<Rightarrow> chart_life \<Rightarrow> chart_life" where
  "chart_step (ChartRender h aggregate bucketSeconds propertyOptions trend) st =
     chart_render h aggregate bucketSeconds propertyOptions trend st"

definition charts_alive :: "chart_life \<Rightarrow> chart_instance list" where
  "charts_alive st = filter (\<lambda>c. \<not> ci_disposed c) (cf_charts st)"

definition chart_inv :: "chart_life \<Rightarrow> bool" where
  "chart_inv st \<longleftrightarrow>
     (cf_view st = Null \<and> cf_instance st = None \<or> (\<exists>h trend. cf_view st = TrendChart h trend)) \<and>
     (case cf_instance st of
        None \<Rightarrow> cf_charts st = []
      | Some i \<Rightarrow> i = 0 \<and> (\<exists>opt. cf_charts st = [\<lparr>ci_node = cf_node st, ci_option = opt, ci_disposed = False\<rparr>])) \<and>
     cf_observers st = (case cf_cleanup st of None \<Rightarrow> [] | Some resizeObserver \<Rightarrow> [resizeObserver])"

text \<open>The container and the placeholder are at the same place of trees with the same tags.\<close>

lemma container_kept: "element_kept [0] (TrendChart h trend) (TrendChart h' trend')"
  by (simp add: TrendChart_def)

lemma cleanup_observers: "chart_inv st \<Longrightarrow> cf_observers (chart_cleanup st) = [] \<and> cf_cleanup (chart_cleanup st) = None"
  by (auto simp: chart_inv_def chart_cleanup_def split: option.splits)

lemma render_result:
  assumes "chart_inv st" "st' = chart_render h aggregate bucketSeconds propertyOptions trend st"
  shows "chart_inv st' \<and>
    (if chart_shown (ho_parse h) trend
     then cf_ref st' = Some (cf_node st') \<and> cf_observers st' = [(cf_node st', 0)] \<and>
       cf_charts st' = [\<lparr>ci_node = cf_node st',
         ci_option = Some (chart_option h aggregate bucketSeconds propertyOptions trend), ci_disposed = False\<rparr>]
     else cf_ref st' = None \<and> cf_observers st' = [] \<and> cf_charts st' = cf_charts st)"
proof -
  let ?view = "TrendChart (host.truncate h) trend :: unit node"
  define st1 where "st1 = (if element_kept [0] (cf_view st) ?view then st else st\<lparr>cf_node := cf_next st, cf_next := Suc (cf_next st)\<rparr>)"
  define st2 where "st2 = chart_cleanup (st1\<lparr>cf_view := ?view, cf_ref := (if chart_shown (ho_parse h) trend then Some (cf_node st1) else None)\<rparr>)"
  have st': "st' = chart_effect (length (validPoints (ho_parse h) trend)) (chart_option h aggregate bucketSeconds propertyOptions trend) st2"
    using assms(2) by (simp add: chart_render_def st1_def st2_def Let_def)
  have inv1: "chart_inv (st1\<lparr>cf_view := ?view, cf_ref := r\<rparr>)" for r
    using assms(1) by (auto simp: chart_inv_def st1_def container_kept split: option.splits)
  have s2: "cf_view st2 = ?view" "cf_node st2 = cf_node st1" "cf_charts st2 = cf_charts st" "cf_instance st2 = cf_instance st"
      "cf_observers st2 = []" "cf_cleanup st2 = None"
      "cf_ref st2 = (if chart_shown (ho_parse h) trend then Some (cf_node st1) else None)"
    using cleanup_observers [OF inv1] by (simp_all add: st2_def st1_def chart_cleanup_def split: option.split)
  have charts: "case cf_instance st of None \<Rightarrow> cf_charts st = []
      | Some i \<Rightarrow> i = 0 \<and> (\<exists>opt. cf_charts st = [\<lparr>ci_node = cf_node st1, ci_option = opt, ci_disposed = False\<rparr>])"
    using assms(1) by (auto simp: chart_inv_def st1_def container_kept split: option.splits)
  show ?thesis
  proof (cases "chart_shown (ho_parse h) trend")
    case False
    then have "st' = st2" by (simp add: st' chart_effect_def s2)
    then show ?thesis using False charts by (auto simp: s2 chart_inv_def split: option.splits)
  next
    case True
    then have "length (validPoints (ho_parse h) trend) \<noteq> 0" by (simp add: chart_shown_def)
    then show ?thesis using True charts
      by (auto simp: st' chart_effect_def s2 chart_inv_def Let_def split: option.splits)
  qed
qed

lemma effect_keeps: "cf_view (chart_effect n opt st) = cf_view st" "cf_node (chart_effect n opt st) = cf_node st"
  by (simp_all add: chart_effect_def Let_def split: option.split)

lemma cleanup_keeps: "cf_view (chart_cleanup st) = cf_view st" "cf_node (chart_cleanup st) = cf_node st"
  by (simp_all add: chart_cleanup_def split: option.split)

lemma render_view: "st' = chart_render h g b opts trend st \<Longrightarrow> cf_view st' = TrendChart (host.truncate h) trend"
  by (simp add: chart_render_def Let_def effect_keeps cleanup_keeps)

lemma render_keeps_node: "cf_view st = TrendChart h' trend' \<Longrightarrow> cf_node (chart_render h g b opts trend st) = cf_node st"
  by (simp add: chart_render_def Let_def effect_keeps cleanup_keeps container_kept)

interpretation chart_machine: invariant_machine chart_mount chart_step chart_inv
proof
  show "chart_inv chart_mount" by (simp add: chart_inv_def chart_mount_def)
  show "chart_inv st \<Longrightarrow> chart_inv (chart_step e st)" for e st
    by (cases e) (simp add: render_result [OF _ refl])
qed

lemma unmount_result:
  assumes "chart_inv st"
  shows "charts_alive (chart_unmount st) = [] \<and> cf_observers (chart_unmount st) = []"
proof -
  have "chart_inv (st\<lparr>cf_ref := None\<rparr>)" using assms by (simp add: chart_inv_def cong: option.case_cong)
  from cleanup_observers [OF this] assms show ?thesis
    by (auto simp: chart_unmount_def chart_dispose_def chart_cleanup_def chart_inv_def charts_alive_def split: option.splits)
qed

section \<open>Properties\<close>


text \<open>
  Without points the placeholder takes the place of the container, on the same element, and the chart
  that was drawn there is not disposed: it stays on the page, with the trend shown before.
\<close>

lemma drawn_chart_stays:
  assumes "st = chart_machine.run (es @ [ChartRender h g b opts trend, ChartRender h g' b' opts' None])"
    and "chart_shown (ho_parse h) trend"
  shows "cf_view st = TrendChart (host.truncate h) None \<and>
    charts_alive st = [\<lparr>ci_node = cf_node st, ci_option = Some (chart_option h g b opts trend), ci_disposed = False\<rparr>]"
proof -
  define st0 where "st0 = chart_machine.run (es @ [ChartRender h g b opts trend])"
  have st: "st = chart_render h g' b' opts' None st0"
    using chart_machine.run_snoc [of "es @ [ChartRender h g b opts trend]"] by (simp add: assms(1) st0_def)
  have st0: "st0 = chart_render h g b opts trend (chart_machine.run es)"
    by (simp add: st0_def chart_machine.run_snoc)
  note r = render_result [OF chart_machine.inv_run st0] render_view [OF st0]
  have "cf_node st = cf_node st0" unfolding st by (rule render_keeps_node [OF r(2)])
  moreover have "chart_inv st0" using r(1) by simp
  ultimately show ?thesis using render_result [OF _ st] render_view [OF st] r(1) assms(2)
    by (auto simp: charts_alive_def chart_shown_def validPoints_def allPoints_def)
qed

end
