(* ===== verification/AppRoutes.thy ===== *)
theory AppRoutes
  imports AuthPages AdminShell Views
begin

text \<open>
  The routes of the application (\<open>.umirc.ts\<close>) with what else its configuration and \<open>app.tsx\<close> say
  of the layout, the two static pages (\<open>pages/Home\<close>, \<open>pages/ApiDocs\<close>), and where a visit ends. The
  router is third-party code; of it the model has that the route whose path is the path of the
  location is the one shown, inside its wrappers, or that its redirect is followed.
\<close>

section \<open>Configuration\<close>

record route =
  ro_name :: "string option"
  ro_path :: string
  ro_component :: "string option"
  ro_redirect :: "string option"
  ro_layout :: "bool option"
  ro_wrappers :: "string list"

definition routes :: "route list" where
  "routes =
     [
      \<lparr>ro_name = None, ro_path = ''/'', ro_component = None,
        ro_redirect = Some ''/admin'', ro_layout = None, ro_wrappers = []\<rparr>,
      \<lparr>ro_name = Some [CHR 0xE7, CHR 0xAE, CHR 0xA1, CHR 0xE7, CHR 0x90, CHR 0x86], ro_path = ''/admin'', ro_component = Some ''./Admin'',
        ro_redirect = None, ro_layout = Some False, ro_wrappers = [''@/wrappers/AuthGuard'']\<rparr>,
      \<lparr>ro_name = Some [CHR 0xE7, CHR 0xA7, CHR 0x9F, CHR 0xE6, CHR 0x88, CHR 0xB7, CHR 0xE7, CHR 0xAE, CHR 0xA1, CHR 0xE7,
        CHR 0x90, CHR 0x86], ro_path = ''/admin/tenants'', ro_component = Some ''./Admin'',
        ro_redirect = None, ro_layout = Some False, ro_wrappers = [''@/wrappers/AuthGuard'']\<rparr>,
      \<lparr>ro_name = Some [CHR 0xE4, CHR 0xBA, CHR 0xA7, CHR 0xE5, CHR 0x93, CHR 0x81, CHR 0xE7, CHR 0xAE, CHR 0xA1, CHR 0xE7,
        CHR 0x90, CHR 0x86], ro_path = ''/admin/tenants/products'', ro_component = Some ''./Admin'',
        ro_redirect = None, ro_layout = Some False, ro_wrappers = [''@/wrappers/AuthGuard'']\<rparr>,
      \<lparr>ro_name = Some [CHR 0xE7, CHR 0x89, CHR 0xA9, CHR 0xE6, CHR 0xA8, CHR 0xA1, CHR 0xE5, CHR 0x9E, CHR 0x8B, CHR 0xE7,
        CHR 0xAE, CHR 0xA1, CHR 0xE7, CHR 0x90, CHR 0x86], ro_path = ''/admin/tenants/thingsmodels'', ro_component = Some ''./Admin'',
        ro_redirect = None, ro_layout = Some False, ro_wrappers = [''@/wrappers/AuthGuard'']\<rparr>,
      \<lparr>ro_name = Some [CHR 0xE8, CHR 0xAE, CHR 0xBE, CHR 0xE5, CHR 0xA4, CHR 0x87, CHR 0xE7, CHR 0xAE, CHR 0xA1, CHR 0xE7,
        CHR 0x90, CHR 0x86], ro_path = ''/admin/tenants/devices'', ro_component = Some ''./Admin'',
        ro_redirect = None, ro_layout = Some False, ro_wrappers = [''@/wrappers/AuthGuard'']\<rparr>,
      \<lparr>ro_name = Some [CHR 0xE8, CHR 0xAE, CHR 0xBE, CHR 0xE5, CHR 0xA4, CHR 0x87, CHR 0xE5, CHR 0xB1, CHR 0x9E, CHR 0xE6,
        CHR 0x80, CHR 0xA7], ro_path = ''/admin/tenants/device-properties'', ro_component = Some ''./Admin'',
        ro_redirect = None, ro_layout = Some False, ro_wrappers = [''@/wrappers/AuthGuard'']\<rparr>,
      \<lparr>ro_name = Some [CHR 0xE5, CHR 0xAE, CHR 0xA1, CHR 0xE8, CHR 0xAE, CHR 0xA1, CHR 0xE6, CHR 0x97, CHR 0xA5, CHR 0xE5,
        CHR 0xBF, CHR 0x97], ro_path = ''/admin/audit-logs'', ro_component = Some ''./Admin'',
        ro_redirect = None, ro_layout = Some False, ro_wrappers = [''@/wrappers/AuthGuard'']\<rparr>,
      \<lparr>ro_name = Some [CHR 0xE8, CHR 0xAE, CHR 0xBE, CHR 0xE5, CHR 0xA4, CHR 0x87, CHR 0xE7, CHR 0xAE, CHR 0xA1, CHR 0xE7,
        CHR 0x90, CHR 0x86], ro_path = ''/admin/device-management'', ro_component = Some ''./Admin'',
        ro_redirect = None, ro_layout = Some False, ro_wrappers = [''@/wrappers/AuthGuard'']\<rparr>,
      \<lparr>ro_name = Some [CHR 0xE5, CHR 0xB9, CHR 0xB3, CHR 0xE5, CHR 0x8F, CHR 0xB0, CHR 0xE8, CHR 0xAE, CHR 0xBE, CHR 0xE7,
        CHR 0xBD, CHR 0xAE], ro_path = ''/admin/settings'', ro_component = Some ''./Admin'',
        ro_redirect = None, ro_layout = Some False, ro_wrappers = [''@/wrappers/AuthGuard'']\<rparr>,
      \<lparr>ro_name = Some [CHR 0xE9, CHR 0xA6, CHR 0x96, CHR 0xE9, CHR 0xA1, CHR 0xB5], ro_path = ''/home'', ro_component = Some ''./Home'',
        ro_redirect = None, ro_layout = Some False, ro_wrappers = [''@/wrappers/AuthGuard'']\<rparr>,
      \<lparr>ro_name = Some [CHR 0xE7, CHR 0x99, CHR 0xBB, CHR 0xE5, CHR 0xBD, CHR 0x95], ro_path = ''/login'', ro_component = Some ''./Auth/Login'',
        ro_redirect = None, ro_layout = Some False, ro_wrappers = []\<rparr>,
      \<lparr>ro_name = Some [CHR 0xE6, CHR 0xB3, CHR 0xA8, CHR 0xE5, CHR 0x86, CHR 0x8C], ro_path = ''/register'', ro_component = Some ''./Auth/Register'',
        ro_redirect = None, ro_layout = Some False, ro_wrappers = []\<rparr>,
      \<lparr>ro_name = Some [CHR 0x41, CHR 0x50, CHR 0x49, CHR 0xE6, CHR 0x96, CHR 0x87, CHR 0xE6, CHR 0xA1, CHR 0xA3], ro_path = ''/apidocs'', ro_component = Some ''./ApiDocs'',
        ro_redirect = None, ro_layout = Some False, ro_wrappers = [''@/wrappers/AuthGuard'']\<rparr>]"

record proxy_rule =
  pr_target :: string
  pr_changeOrigin :: bool
  pr_ws :: bool

definition proxy :: "(string \<times> proxy_rule) list" where
  "proxy = [(''/api'', \<lparr>pr_target = ''http://127.0.0.1:18080'', pr_changeOrigin = True, pr_ws = True\<rparr>)]"

definition getInitialState :: "unit \<Rightarrow> string" where
  "getInitialState u = ''@umijs/max''"

text \<open>The logo and whether the menu is translated.\<close>

definition layout :: "string \<times> bool" where
  "layout = (''https://img.alicdn.com/tfs/TB1YHEpwUT1gK0jSZFhXXaAtVXa-28-27.svg'', False)"

text \<open>The initial state gives access.\<close>

lemma initial_access: "canSeeAdmin (Some (getInitialState ()))"
  by (simp add: canSeeAdmin_def getInitialState_def)

section \<open>The static pages\<close>

record page_link =
  pl_title :: string
  pl_path :: string
  pl_description :: string

record learning_item =
  li_title :: string
  li_content :: string

definition pageLinks :: "page_link list" where
  "pageLinks =
     [
      \<lparr>pl_title = [CHR 0x41, CHR 0x50, CHR 0x49, CHR 0x20, CHR 0xE6, CHR 0x96, CHR 0x87, CHR 0xE6, CHR 0xA1, CHR 0xA3], pl_path = ''/apidocs'',
        pl_description = [CHR 0xE6, CHR 0x9F, CHR 0xA5, CHR 0xE7, CHR 0x9C, CHR 0x8B, CHR 0xE5, CHR 0xBD, CHR 0x93, CHR 0xE5,
        CHR 0x89, CHR 0x8D, CHR 0xE5, CHR 0x89, CHR 0x8D, CHR 0xE7, CHR 0xAB, CHR 0xAF, CHR 0xE5,
        CHR 0xB7, CHR 0xB2, CHR 0xE7, CHR 0xBB, CHR 0x8F, CHR 0xE9, CHR 0x85, CHR 0x8D, CHR 0xE7,
        CHR 0xBD, CHR 0xAE, CHR 0xE5, CHR 0xA5, CHR 0xBD, CHR 0xE7, CHR 0x9A, CHR 0x84, CHR 0x20,
        CHR 0x41, CHR 0x50, CHR 0x49, CHR 0x20, CHR 0xE6, CHR 0x96, CHR 0x87, CHR 0xE6, CHR 0xA1,
        CHR 0xA3, CHR 0xE9, CHR 0xA1, CHR 0xB5, CHR 0xE9, CHR 0x9D, CHR 0xA2, CHR 0xE3, CHR 0x80,
        CHR 0x82]\<rparr>,
      \<lparr>pl_title = [CHR 0xE7, CHR 0x99, CHR 0xBB, CHR 0xE5, CHR 0xBD, CHR 0x95, CHR 0xE9, CHR 0xA1, CHR 0xB5], pl_path = ''/login'',
        pl_description = [CHR 0xE5, CHR 0x90, CHR 0x8E, CHR 0xE7, CHR 0xBB, CHR 0xAD, CHR 0xE5, CHR 0xAD, CHR 0xA6, CHR 0xE4,
        CHR 0xB9, CHR 0xA0, CHR 0xE8, CHR 0xA1, CHR 0xA8, CHR 0xE5, CHR 0x8D, CHR 0x95, CHR 0xE3,
        CHR 0x80, CHR 0x81, CHR 0xE8, CHR 0xBE, CHR 0x93, CHR 0xE5, CHR 0x85, CHR 0xA5, CHR 0xE6,
        CHR 0xA1, CHR 0x86, CHR 0xE3, CHR 0x80, CHR 0x81, CHR 0xE6, CHR 0x8C, CHR 0x89, CHR 0xE9,
        CHR 0x92, CHR 0xAE, CHR 0xE5, CHR 0x92, CHR 0x8C, CHR 0xE6, CHR 0x8F, CHR 0x90, CHR 0xE4,
        CHR 0xBA, CHR 0xA4, CHR 0xE4, CHR 0xBA, CHR 0x8B, CHR 0xE4, CHR 0xBB, CHR 0xB6, CHR 0xE6,
        CHR 0x97, CHR 0xB6, CHR 0xE4, CHR 0xBC, CHR 0x9A, CHR 0xE7, CHR 0x94, CHR 0xA8, CHR 0xE5,
        CHR 0x88, CHR 0xB0, CHR 0xE3, CHR 0x80, CHR 0x82]\<rparr>]"

definition learningItems :: "learning_item list" where
  "learningItems =
     [
      \<lparr>li_title = [CHR 0x31, CHR 0x2E, CHR 0x20, CHR 0x43, CHR 0x6F, CHR 0x6D, CHR 0x70, CHR 0x6F, CHR 0x6E, CHR 0x65,
        CHR 0x6E, CHR 0x74, CHR 0x20, CHR 0xE7, CHR 0xBB, CHR 0x84, CHR 0xE4, CHR 0xBB, CHR 0xB6],
        li_content = [CHR 0x52, CHR 0x65, CHR 0x61, CHR 0x63, CHR 0x74, CHR 0x20, CHR 0xE9, CHR 0xA1, CHR 0xB5, CHR 0xE9,
        CHR 0x9D, CHR 0xA2, CHR 0xE7, CHR 0x94, CHR 0xB1, CHR 0xE7, CHR 0xBB, CHR 0x84, CHR 0xE4,
        CHR 0xBB, CHR 0xB6, CHR 0xE7, CHR 0xBB, CHR 0x84, CHR 0xE6, CHR 0x88, CHR 0x90, CHR 0xE3,
        CHR 0x80, CHR 0x82, CHR 0xE8, CHR 0xBF, CHR 0x99, CHR 0xE4, CHR 0xB8, CHR 0xAA, CHR 0x20,
        CHR 0x48, CHR 0x6F, CHR 0x6D, CHR 0x65, CHR 0x50, CHR 0x61, CHR 0x67, CHR 0x65, CHR 0x20,
        CHR 0xE6, CHR 0x9C, CHR 0xAC, CHR 0xE8, CHR 0xBA, CHR 0xAB, CHR 0xE5, CHR 0xB0, CHR 0xB1,
        CHR 0xE6, CHR 0x98, CHR 0xAF, CHR 0xE4, CHR 0xB8, CHR 0x80, CHR 0xE4, CHR 0xB8, CHR 0xAA,
        CHR 0xE7, CHR 0xBB, CHR 0x84, CHR 0xE4, CHR 0xBB, CHR 0xB6, CHR 0xE3, CHR 0x80, CHR 0x82]\<rparr>,
      \<lparr>li_title = ''2. JSX'',
        li_content = [CHR 0x4A, CHR 0x53, CHR 0x58, CHR 0x20, CHR 0xE8, CHR 0xAE, CHR 0xA9, CHR 0xE6, CHR 0x88, CHR 0x91,
        CHR 0xE4, CHR 0xBB, CHR 0xAC, CHR 0xE5, CHR 0x9C, CHR 0xA8, CHR 0x20, CHR 0x54, CHR 0x79,
        CHR 0x70, CHR 0x65, CHR 0x53, CHR 0x63, CHR 0x72, CHR 0x69, CHR 0x70, CHR 0x74, CHR 0x20,
        CHR 0xE4, CHR 0xB8, CHR 0xAD, CHR 0xE5, CHR 0x86, CHR 0x99, CHR 0xE7, CHR 0xB1, CHR 0xBB,
        CHR 0xE4, CHR 0xBC, CHR 0xBC, CHR 0x20, CHR 0x48, CHR 0x54, CHR 0x4D, CHR 0x4C, CHR 0x20,
        CHR 0xE7, CHR 0x9A, CHR 0x84, CHR 0xE7, CHR 0xBB, CHR 0x93, CHR 0xE6, CHR 0x9E, CHR 0x84,
        CHR 0xEF, CHR 0xBC, CHR 0x8C, CHR 0xE6, CHR 0x9C, CHR 0x80, CHR 0xE5, CHR 0x90, CHR 0x8E,
        CHR 0xE7, CHR 0x94, CHR 0xB1, CHR 0x20, CHR 0x52, CHR 0x65, CHR 0x61, CHR 0x63, CHR 0x74,
        CHR 0x20, CHR 0xE6, CHR 0xB8, CHR 0xB2, CHR 0xE6, CHR 0x9F, CHR 0x93, CHR 0xE6, CHR 0x88,
        CHR 0x90, CHR 0xE9, CHR 0xA1, CHR 0xB5, CHR 0xE9, CHR 0x9D, CHR 0xA2, CHR 0xE3, CHR 0x80,
        CHR 0x82]\<rparr>,
      \<lparr>li_title = ''3. Props'',
        li_content = [CHR 0x50, CHR 0x72, CHR 0x6F, CHR 0x70, CHR 0x73, CHR 0x20, CHR 0xE6, CHR 0x98, CHR 0xAF, CHR 0xE7,
        CHR 0xBB, CHR 0x84, CHR 0xE4, CHR 0xBB, CHR 0xB6, CHR 0xE7, CHR 0x9A, CHR 0x84, CHR 0xE8,
        CHR 0xBE, CHR 0x93, CHR 0xE5, CHR 0x85, CHR 0xA5, CHR 0xE3, CHR 0x80, CHR 0x82, CHR 0xE5,
        CHR 0x90, CHR 0x8E, CHR 0xE9, CHR 0x9D, CHR 0xA2, CHR 0xE6, CHR 0x88, CHR 0x91, CHR 0xE4,
        CHR 0xBB, CHR 0xAC, CHR 0xE4, CHR 0xBC, CHR 0x9A, CHR 0xE6, CHR 0x8A, CHR 0x8A, CHR 0xE9,
        CHR 0x87, CHR 0x8D, CHR 0xE5, CHR 0xA4, CHR 0x8D, CHR 0xE7, CHR 0x9A, CHR 0x84, CHR 0xE5,
        CHR 0x8D, CHR 0xA1, CHR 0xE7, CHR 0x89, CHR 0x87, CHR 0xE6, CHR 0x8A, CHR 0xBD, CHR 0xE6,
        CHR 0x88, CHR 0x90, CHR 0xE7, CHR 0xBB, CHR 0x84, CHR 0xE4, CHR 0xBB, CHR 0xB6, CHR 0xEF,
        CHR 0xBC, CHR 0x8C, CHR 0xE5, CHR 0x86, CHR 0x8D, CHR 0xE7, CHR 0x94, CHR 0xA8, CHR 0x20,
        CHR 0x70, CHR 0x72, CHR 0x6F, CHR 0x70, CHR 0x73, CHR 0x20, CHR 0xE4, CHR 0xBC, CHR 0xA0,
        CHR 0xE5, CHR 0x85, CHR 0xA5, CHR 0xE6, CHR 0xA0, CHR 0x87, CHR 0xE9, CHR 0xA2, CHR 0x98,
        CHR 0xE5, CHR 0x92, CHR 0x8C, CHR 0xE5, CHR 0x86, CHR 0x85, CHR 0xE5, CHR 0xAE, CHR 0xB9,
        CHR 0xE3, CHR 0x80, CHR 0x82]\<rparr>,
      \<lparr>li_title = ''4. List Rendering'',
        li_content = [CHR 0xE8, CHR 0xBF, CHR 0x99, CHR 0xE9, CHR 0x87, CHR 0x8C, CHR 0xE7, CHR 0x9A, CHR 0x84, CHR 0xE5,
        CHR 0xAD, CHR 0xA6, CHR 0xE4, CHR 0xB9, CHR 0xA0, CHR 0xE5, CHR 0x86, CHR 0x85, CHR 0xE5,
        CHR 0xAE, CHR 0xB9, CHR 0xE6, CHR 0x9D, CHR 0xA5, CHR 0xE8, CHR 0x87, CHR 0xAA, CHR 0xE6,
        CHR 0x95, CHR 0xB0, CHR 0xE7, CHR 0xBB, CHR 0x84, CHR 0xEF, CHR 0xBC, CHR 0x8C, CHR 0xE5,
        CHR 0xB9, CHR 0xB6, CHR 0xE7, CHR 0x94, CHR 0xA8, CHR 0x20, CHR 0x6D, CHR 0x61, CHR 0x70,
        CHR 0x20, CHR 0xE6, CHR 0xB8, CHR 0xB2, CHR 0xE6, CHR 0x9F, CHR 0x93, CHR 0xE5, CHR 0x87,
        CHR 0xBA, CHR 0xE6, CHR 0x9D, CHR 0xA5, CHR 0xEF, CHR 0xBC, CHR 0x8C, CHR 0xE8, CHR 0xBF,
        CHR 0x99, CHR 0xE6, CHR 0x98, CHR 0xAF, CHR 0x20, CHR 0x52, CHR 0x65, CHR 0x61, CHR 0x63,
        CHR 0x74, CHR 0x20, CHR 0xE4, CHR 0xB8, CHR 0xAD, CHR 0xE5, CHR 0xBE, CHR 0x88, CHR 0xE5,
        CHR 0xB8, CHR 0xB8, CHR 0xE8, CHR 0xA7, CHR 0x81, CHR 0xE7, CHR 0x9A, CHR 0x84, CHR 0xE5,
        CHR 0x86, CHR 0x99, CHR 0xE6, CHR 0xB3, CHR 0x95, CHR 0xE3, CHR 0x80, CHR 0x82]\<rparr>]"

text \<open>A click on a link of the page goes to its path.\<close>

definition HomePage :: "string node" where
  "HomePage =
     El ''main'' [] [
       El ''section'' [] [
         El ''p'' [] [Txt ''LinkFlow Web''],
         El ''h1'' [] [Txt
          [CHR 0x52, CHR 0x65, CHR 0x61, CHR 0x63, CHR 0x74, CHR 0x20, CHR 0xE5, CHR 0xAD, CHR 0xA6, CHR 0xE4,
          CHR 0xB9, CHR 0xA0, CHR 0xE9, CHR 0xA6, CHR 0x96, CHR 0xE9, CHR 0xA1, CHR 0xB5]],
         El ''p'' [] [Txt
          [CHR 0xE8, CHR 0xBF, CHR 0x99, CHR 0xE4, CHR 0xB8, CHR 0xAA, CHR 0xE9, CHR 0xA1, CHR 0xB5, CHR 0xE9,
          CHR 0x9D, CHR 0xA2, CHR 0xE5, CHR 0x85, CHR 0x88, CHR 0xE4, CHR 0xBD, CHR 0x9C, CHR 0xE4,
          CHR 0xB8, CHR 0xBA, CHR 0xE5, CHR 0xAD, CHR 0xA6, CHR 0xE4, CHR 0xB9, CHR 0xA0, CHR 0xE5,
          CHR 0x85, CHR 0xA5, CHR 0xE5, CHR 0x8F, CHR 0xA3, CHR 0xEF, CHR 0xBC, CHR 0x9A, CHR 0xE4,
          CHR 0xB8, CHR 0x8A, CHR 0xE9, CHR 0x9D, CHR 0xA2, CHR 0xE6, CHR 0x94, CHR 0xBE, CHR 0xE9,
          CHR 0xA1, CHR 0xB9, CHR 0xE7, CHR 0x9B, CHR 0xAE, CHR 0xE9, CHR 0xA1, CHR 0xB5, CHR 0xE9,
          CHR 0x9D, CHR 0xA2, CHR 0xE9, CHR 0x93, CHR 0xBE, CHR 0xE6, CHR 0x8E, CHR 0xA5, CHR 0xEF,
          CHR 0xBC, CHR 0x8C, CHR 0xE4, CHR 0xB8, CHR 0x8B, CHR 0xE9, CHR 0x9D, CHR 0xA2, CHR 0xE6,
          CHR 0x94, CHR 0xBE, CHR 0x20, CHR 0x52, CHR 0x65, CHR 0x61, CHR 0x63, CHR 0x74, CHR 0x20,
          CHR 0xE5, CHR 0x9F, CHR 0xBA, CHR 0xE7, CHR 0xA1, CHR 0x80, CHR 0xE6, CHR 0xA6, CHR 0x82,
          CHR 0xE5, CHR 0xBF, CHR 0xB5, CHR 0xE3, CHR 0x80, CHR 0x82, CHR 0xE6, CHR 0xAF, CHR 0x8F,
          CHR 0xE4, CHR 0xB8, CHR 0x80, CHR 0xE6, CHR 0xAD, CHR 0xA5, CHR 0xE9, CHR 0x83, CHR 0xBD,
          CHR 0xE4, CHR 0xBF, CHR 0x9D, CHR 0xE6, CHR 0x8C, CHR 0x81, CHR 0xE5, CHR 0xB0, CHR 0x8F,
          CHR 0xE6, CHR 0x94, CHR 0xB9, CHR 0xE5, CHR 0x8A, CHR 0xA8, CHR 0xEF, CHR 0xBC, CHR 0x8C,
          CHR 0xE6, CHR 0x96, CHR 0xB9, CHR 0xE4, CHR 0xBE, CHR 0xBF, CHR 0xE4, CHR 0xBD, CHR 0xA0,
          CHR 0xE5, CHR 0xAF, CHR 0xB9, CHR 0xE7, CHR 0x85, CHR 0xA7, CHR 0xE4, CHR 0xBB, CHR 0xA3,
          CHR 0xE7, CHR 0xA0, CHR 0x81, CHR 0xE7, CHR 0x90, CHR 0x86, CHR 0xE8, CHR 0xA7, CHR 0xA3,
          CHR 0xE3, CHR 0x80, CHR 0x82]]],
       El ''section'' [Attr ''aria-labelledby'' ''page-links-title''] [
         El ''h2'' [Attr ''id'' ''page-links-title''] [Txt
          [CHR 0xE9, CHR 0xA1, CHR 0xB9, CHR 0xE7, CHR 0x9B, CHR 0xAE, CHR 0xE9, CHR 0xA1, CHR 0xB5, CHR 0xE9,
          CHR 0x9D, CHR 0xA2, CHR 0xE9, CHR 0x93, CHR 0xBE, CHR 0xE6, CHR 0x8E, CHR 0xA5]],
         El ''div'' [] (map (\<lambda>item. link (pl_path item) (pl_path item) []
           [El ''span'' [] [Txt (pl_title item)], El ''p'' [] [Txt (pl_description item)]]) pageLinks)],
       El ''section'' [Attr ''aria-labelledby'' ''learning-title''] [
         El ''h2'' [Attr ''id'' ''learning-title''] [Txt
          [CHR 0x52, CHR 0x65, CHR 0x61, CHR 0x63, CHR 0x74, CHR 0x20, CHR 0xE5, CHR 0x9F, CHR 0xBA, CHR 0xE7,
          CHR 0xA1, CHR 0x80, CHR 0xE5, CHR 0xAD, CHR 0xA6, CHR 0xE4, CHR 0xB9, CHR 0xA0, CHR 0xE5,
          CHR 0x86, CHR 0x85, CHR 0xE5, CHR 0xAE, CHR 0xB9]],
         El ''div'' [] (map (\<lambda>item. El ''article'' []
           [El ''h3'' [] [Txt (li_title item)], El ''p'' [] [Txt (li_content item)]]) learningItems)],
       El ''section'' [Attr ''aria-labelledby'' ''code-title''] [
         El ''h2'' [Attr ''id'' ''code-title''] [Txt
          [CHR 0xE8, CHR 0xBF, CHR 0x99, CHR 0xE4, CHR 0xB8, CHR 0x80, CHR 0xE6, CHR 0xAD, CHR 0xA5, CHR 0xE9,
          CHR 0x87, CHR 0x8D, CHR 0xE7, CHR 0x82, CHR 0xB9, CHR 0xE7, CHR 0x9C, CHR 0x8B, CHR 0xE4,
          CHR 0xBB, CHR 0x80, CHR 0xE4, CHR 0xB9, CHR 0x88]],
         El ''pre'' [] [El ''code'' [] [Txt
          [CHR 0x63, CHR 0x6F, CHR 0x6E, CHR 0x73, CHR 0x74, CHR 0x20, CHR 0x69, CHR 0x74, CHR 0x65, CHR 0x6D,
          CHR 0x73, CHR 0x20, CHR 0x3D, CHR 0x20, CHR 0x5B, CHR 0x27, CHR 0x43, CHR 0x6F, CHR 0x6D,
          CHR 0x70, CHR 0x6F, CHR 0x6E, CHR 0x65, CHR 0x6E, CHR 0x74, CHR 0x27, CHR 0x2C, CHR 0x20,
          CHR 0x27, CHR 0x4A, CHR 0x53, CHR 0x58, CHR 0x27, CHR 0x2C, CHR 0x20, CHR 0x27, CHR 0x50,
          CHR 0x72, CHR 0x6F, CHR 0x70, CHR 0x73, CHR 0x27, CHR 0x5D, CHR 0x3B, CHR 0x0A, CHR 0x0A,
          CHR 0x69, CHR 0x74, CHR 0x65, CHR 0x6D, CHR 0x73, CHR 0x2E, CHR 0x6D, CHR 0x61, CHR 0x70,
          CHR 0x28, CHR 0x28, CHR 0x69, CHR 0x74, CHR 0x65, CHR 0x6D, CHR 0x29, CHR 0x20, CHR 0x3D,
          CHR 0x3E, CHR 0x20, CHR 0x28, CHR 0x0A, CHR 0x20, CHR 0x20, CHR 0x3C, CHR 0x64, CHR 0x69,
          CHR 0x76, CHR 0x20, CHR 0x6B, CHR 0x65, CHR 0x79, CHR 0x3D, CHR 0x7B, CHR 0x69, CHR 0x74,
          CHR 0x65, CHR 0x6D, CHR 0x7D, CHR 0x3E, CHR 0x7B, CHR 0x69, CHR 0x74, CHR 0x65, CHR 0x6D,
          CHR 0x7D, CHR 0x3C, CHR 0x2F, CHR 0x64, CHR 0x69, CHR 0x76, CHR 0x3E, CHR 0x0A, CHR 0x29,
          CHR 0x29, CHR 0x3B]]]]]"

definition ApiDocsPage :: "string node" where
  "ApiDocsPage = El ''main'' [] [Txt ''API document page'']"

section \<open>Visits\<close>

text \<open>The parts of a URL without origin.\<close>

definition location_of :: "string \<Rightarrow> app_location" where
  "location_of url =
     (let pathname = takeWhile (\<lambda>c. c \<noteq> CHR ''?'' \<and> c \<noteq> CHR ''#'') url;
          rest = drop (length pathname) url;
          search = takeWhile (\<lambda>c. c \<noteq> CHR ''#'') rest
      in \<lparr>loc_pathname = pathname, loc_search = search, loc_hash = drop (length search) rest\<rparr>)"

datatype visit_result = Shown string | GoTo string | NotFound

definition route_of :: "string \<Rightarrow> route option" where
  "route_of pathname = find (\<lambda>r. ro_path r = pathname) routes"

definition visit :: "auth_state \<Rightarrow> app_location \<Rightarrow> visit_result" where
  "visit auth loc =
     (case route_of (loc_pathname loc) of
        None \<Rightarrow> NotFound
      | Some r \<Rightarrow>
          (case ro_redirect r of
             Some url \<Rightarrow> GoTo url
           | None \<Rightarrow>
               (case ro_component r of
                  None \<Rightarrow> NotFound
                | Some component \<Rightarrow>
                    if ''@/wrappers/AuthGuard'' \<in> set (ro_wrappers r)
                    then (case AuthGuard auth loc of RedirectReplace url \<Rightarrow> GoTo url | Outlet \<Rightarrow> Shown component)
                    else Shown component)))"

text \<open>Redirects followed, at most \<open>n\<close> of them; \<open>None\<close> while there is another one.\<close>

fun landing :: "nat \<Rightarrow> auth_state \<Rightarrow> app_location \<Rightarrow> (app_location \<times> string) option" where
  "landing n auth loc =
     (case visit auth loc of
        Shown component \<Rightarrow> Some (loc, component)
      | NotFound \<Rightarrow> None
      | GoTo url \<Rightarrow> (case n of 0 \<Rightarrow> None | Suc m \<Rightarrow> landing m auth (location_of url)))"

definition signed_in :: "auth_state \<Rightarrow> bool" where
  "signed_in auth \<longleftrightarrow> as_token auth \<noteq> None \<and> as_token auth \<noteq> Some []"

lemma hex_no_fragment: "d < 16 \<Longrightarrow> hex_upper d \<noteq> CHR ''#''"
  using hex_upper_ok(2) [of d] by (auto simp: is_hex_def char_val_def)

lemma encode_char_no_fragment: "CHR ''#'' \<notin> set (encode_char c)"
  using hex_no_fragment [OF of_char_halves(1) [of c]] hex_no_fragment [OF of_char_halves(2) [of c]]
  by (auto simp: encode_char_def uri_unreserved_def Let_def is_digit_def)

lemma encode_no_fragment: "CHR ''#'' \<notin> set (encodeURIComponent v)"
  unfolding encodeURIComponent_def by (auto simp: encode_char_no_fragment)

lemma login_location:
  "location_of (login_path v) = \<lparr>loc_pathname = ''/login'', loc_search = redirect_query v, loc_hash = []\<rparr>"
proof -
  have "takeWhile (\<lambda>c. c \<noteq> CHR ''#'') (encodeURIComponent v) = encodeURIComponent v"
    using encode_no_fragment [of v] by (auto simp: takeWhile_eq_all_conv)
  then show ?thesis by (simp add: location_of_def login_path_def redirect_query_def del: takeWhile_eq_all_conv)
qed

text \<open>The location of a browser: a path, a query and a fragment.\<close>

definition query_ok :: "string \<Rightarrow> bool" where
  "query_ok search \<longleftrightarrow> search = [] \<or> (hd search = CHR ''?'' \<and> CHR ''#'' \<notin> set search)"

lemma location_of_parts:
  assumes "CHR ''?'' \<notin> set pathname" "CHR ''#'' \<notin> set pathname" "query_ok search"
  shows "location_of (pathname @ search) = \<lparr>loc_pathname = pathname, loc_search = search, loc_hash = []\<rparr>"
proof -
  have "takeWhile (\<lambda>c. c \<noteq> CHR ''?'' \<and> c \<noteq> CHR ''#'') (pathname @ search) = pathname"
    using assms by (cases search) (auto simp: takeWhile_append query_ok_def takeWhile_eq_all_conv)
  moreover have "takeWhile (\<lambda>c. c \<noteq> CHR ''#'') search = search"
    using assms(3) by (auto simp: takeWhile_eq_all_conv query_ok_def)
  ultimately show ?thesis by (simp add: location_of_def Let_def del: takeWhile_eq_all_conv)
qed

section \<open>The table\<close>

lemma routes_distinct: "distinct (map ro_path routes)"
  by (simp add: routes_def)

lemma find_key: "distinct (map f xs) \<Longrightarrow> x \<in> set xs \<Longrightarrow> find (\<lambda>y. f y = f x) xs = Some x"
  by (induction xs) auto

lemma route_of_route: "r \<in> set routes \<Longrightarrow> route_of (ro_path r) = Some r"
  unfolding route_of_def by (rule find_key [OF routes_distinct])

lemma routes_plain: "r \<in> set routes \<Longrightarrow> CHR ''?'' \<notin> set (ro_path r) \<and> CHR ''#'' \<notin> set (ro_path r) \<and> ro_path r \<noteq> []"
  by (auto simp: routes_def)

text \<open>A route redirects to the console, or shows a page; the pages without a guard are the two forms.\<close>

lemma routes_guarded:
  "r \<in> set routes \<Longrightarrow> ro_path r = ''/'' \<and> ro_redirect r = Some ''/admin'' \<and> ro_component r = None \<or>
     ro_redirect r = None \<and> (\<exists>component. ro_component r = Some component \<and>
       (''@/wrappers/AuthGuard'' \<in> set (ro_wrappers r) \<longleftrightarrow> component \<notin> {''./Auth/Login'', ''./Auth/Register''}))"
  by (auto simp: routes_def)

text \<open>Every path that the program links to or navigates to has its route.\<close>

lemma links_have_routes:
  "url \<in> set (map ni_path navItems @ map pl_path pageLinks @ [''/home'', ''/login'', ''/register'', ''/admin'']) \<Longrightarrow>
   route_of url \<noteq> None"
  by (auto simp: navItems_def pageLinks_def routes_def route_of_def)

lemma console_paths_show_console:
  "item \<in> set navItems \<Longrightarrow> map_option ro_component (route_of (ni_path item)) = Some (Some ''./Admin'')"
  by (auto simp: navItems_def routes_def route_of_def)

lemma home_offers: "offers HomePage a \<longleftrightarrow> a \<in> {''/apidocs'', ''/login''}"
  by (auto simp: HomePage_def pageLinks_def learningItems_def list_ex_iff)

lemma visit_route:
  assumes "r \<in> set routes" "loc_pathname loc = ro_path r" "ro_component r = Some component"
  shows "visit auth loc =
    (if signed_in auth \<or> component \<in> {''./Auth/Login'', ''./Auth/Register''} then Shown component
     else GoTo (login_path (loc_pathname loc @ loc_search loc)))"
  using routes_guarded [OF assms(1)] route_of_route [OF assms(1)] assms(2,3)
  by (auto simp: visit_def AuthGuard_def signed_in_def)

lemma visit_login:
  assumes "loc_pathname loc = ''/login''"
  shows "visit auth loc = Shown ''./Auth/Login''"
  using assms by (simp add: visit_def route_of_def routes_def)

section \<open>Properties\<close>



text \<open>The root shows the console, or the login page from which the console is the next one.\<close>

lemma root_visit:
  assumes "loc_pathname loc = ''/''"
  shows "landing 2 auth loc =
    (if signed_in auth then Some (location_of ''/admin'', ''./Admin'')
     else Some (location_of (login_path ''/admin''), ''./Auth/Login''))"
proof -
  have v: "visit auth loc = GoTo ''/admin''" using assms by (simp add: visit_def route_of_def routes_def)
  have a: "loc_pathname (location_of ''/admin'') = ''/admin''" "loc_search (location_of ''/admin'') = []"
    by (simp_all add: location_of_def)
  have "visit auth (location_of ''/admin'') =
      (if signed_in auth then Shown ''./Admin'' else GoTo (login_path ''/admin''))"
    using visit_route [of "routes ! 1" "location_of ''/admin''" "''./Admin''" auth] a by (simp add: routes_def)
  then show ?thesis using v visit_login [of "location_of (login_path ''/admin'')"]
    by (simp add: login_location numeral_2_eq_2)
qed

end
