(* ===== verification/Spec2Isabelle.thy ===== *)
theory Spec2Isabelle
  imports ThingsModelSave ThingsModelIds ThingsModelPresets AuthPages AdminUiStore AdminShell AuditPage PropertyInvariant
    PropertyCommands PropertyView I18n DeviceStream ProductView ThingsModelView AuditView AuthView ConsoleUse
    PageReruns PropertyReruns ChartObject AppRoutes BackendPaging
begin

text \<open>
  A model of the LinkFlow web console (\<open>web/src\<close>, TypeScript with React) and its correctness.

  The program. The console is a single page application that administrates an IoT platform:
  tenants own products, a product has versioned things models (properties, events and services of
  its devices), and devices report properties and events, accept property settings and service
  calls. A page keeps its state in React hooks, loads its lists with \<open>async\<close> effects through the
  service modules, which all go through one HTTP client; a global error handler (\<open>app.tsx\<close>) shows
  notices and sends an expired session to the login page. Three stores outlive the pages: the
  session, the interface settings and the event inbox. A WebSocket hook delivers property values,
  events and connection changes to the device pages and to the inbox; while it has no socket the
  pages poll.

  Conventions. A string is a \<open>char list\<close> that holds the UTF-8 bytes of the text. A JavaScript
  number is a binary64 value (an exact rational, or \<open>NaN\<close> or an infinity), an integer where the
  source only counts. \<open>undefined\<close> is \<open>None\<close>. A value of unknown shape is a \<open>js\<close>, an object the list
  of its own properties in the order in which JavaScript enumerates them. A handler is a function
  from the state to an outcome (a value or the exception thrown), the new state and the observable
  effects in order (requests, notices, confirmations, navigation). It reads the render it belongs
  to (\<open>cl\<close>) and changes the current state, which may differ after an \<open>await\<close>: the functions that
  answer requests are parameters and return the state in which the handler goes on. A loading
  effect is three functions: what it changes at once, the request it makes, and what an answer
  does, given whether the run was cancelled meanwhile.

  What a component returns is a tree of elements with their texts, attributes and bound actions
  (\<open>Views\<close>), and \<open>offers\<close> says which actions a user can trigger on a tree: nothing through a disabled
  control, only the options of a selector, a form only through its enabled submit button and with
  its required controls filled in. An action of a page is run by the handler it names
  (\<open>tenant_perform\<close> and its likes), against the latest render. So a statement about \<open>offers\<close> is one
  about what users can do, and says which guards of the handlers the controls already meet.

  The theories, from the bottom up.

  \<^item> \<open>JsPrelude\<close>, \<open>JsNumber\<close>, \<open>JsValue\<close>, \<open>JsonText\<close>, \<open>Uri\<close>: what the source uses of the language.
    String functions, rounding, \<open>Number(text)\<close> and \<open>String(number)\<close>, objects, \<open>JSON.stringify\<close> and
    \<open>JSON.parse\<close>, \<open>encodeURIComponent\<close> and \<open>URLSearchParams.get\<close>. Main results: numbers and JSON
    values survive being printed and read. The parser has fuel, one unit per call; it starts with
    two more than twice the length of the text, and \<open>parse_value_fuel\<close> shows that more fuel never
    changes its answer.
  \<^item> \<open>StateMachine\<close>: the locale \<open>invariant_machine\<close> of a machine with an invariant, interpreted by
    every store, by the console, the realtime hook and the things model editor. \<open>ReactMonad\<close>:
    handlers with their exceptions and effects. \<open>PageEffects\<close>: the locale \<open>fetch_effect\<close>, which
    proves once that a late answer of a cancelled run changes nothing; every page interprets it for
    each of its effects. \<open>EffectDeps\<close>: the locale \<open>dependent_effect\<close> adds the dependency array, with the
    law that it covers what the effect reads, and proves that the latest request is the one for the
    values shown; \<open>paged_effect\<close> adds that an answer may correct the page, and when this ends.
  \<^item> \<open>PageReruns\<close>, \<open>PropertyReruns\<close>: the dependency arrays of all effects of the pages, interpreted; the
    device list is the one of the selection, and comes to rest; the controls of the device property
    page ask for what they show.
  \<^item> \<open>BackendPaging\<close>: the pagination module of the backend (\<open>service/backend/internal/service/pagination.go\<close>)
    in words of 64 bits, the other end of every list request: the pages that the bar of a table offers are
    together the list of all rows.
  \<^item> \<open>AppRoutes\<close> (\<open>.umirc.ts\<close>, \<open>pages/Home\<close>, \<open>pages/ApiDocs\<close>): the route table, the two static pages, and where a
    visit ends; a visitor without a session signs in first and then gets the page asked for.
  \<^item> \<open>ChartObject\<close>: the options of the trend chart and the life of the chart object over renders of its
    component; one chart at most is alive, with the options of the last render, and none after unmounting.
  \<^item> \<open>Services\<close> (\<open>services\<close>): the HTTP client, its errors, and every function of the service modules
    as the request it sends. \<open>AuthStore\<close>, \<open>AdminUiStore\<close>, \<open>EventInbox\<close> (\<open>stores\<close>): their states and
    operations; what persistence gives back is merged as the code does it. \<open>AppShell\<close> (\<open>app.tsx\<close>,
    \<open>access.ts\<close>, \<open>wrappers/AuthGuard.tsx\<close>): interceptor, error handler, guard.
  \<^item> \<open>Realtime\<close> (\<open>hooks/useDevicesRealtime.ts\<close>): the hook as a machine over browser events (socket
    opened, message, closed, timer, unmount). At most one socket or timer exists; the delay doubles
    from one second to thirty; a close with code 1008 is final; from every other state three events
    suffice to be connected again; an unmounted hook is silent; between two firings of the timer it makes
    at most a bounded number of steps, so it never retries without waiting.
  \<^item> \<open>AuthPages\<close> (\<open>pages/Auth\<close>): the two forms, the redirect after an expired session. \<open>AdminShell\<close>
    (\<open>pages/Admin/index.tsx\<close>): navigation, tabs, inbox button, logout. \<open>Pagination\<close>
    (\<open>AdminDataTable.tsx\<close>): the page count in binary64 arithmetic, which is exact for totals below
    \<open>2 ^ 53\<close>, the jump box and the row numbers.
  \<^item> \<open>Views\<close>: the trees and what they offer. \<open>TableView\<close> (\<open>AdminDataTable.tsx\<close>): the table and its
    bar, whose user can only ask for pages that exist and for sizes that are options. \<open>BusyForm\<close>: the
    locale \<open>busy_form\<close> of a page whose submit control is disabled while a submission runs; every page
    with a form or a command interprets it, and gets that no second one can be started meanwhile.
  \<^item> \<open>TenantView\<close>, \<open>ProductView\<close>, \<open>DeviceView\<close>, \<open>AuditView\<close>, \<open>AuthView\<close>, \<open>AdminView\<close> with \<open>ConsoleUse\<close>,
    \<open>ThingsModelView\<close>, and \<open>PropertyPanels\<close>, \<open>HistoryPanels\<close>, \<open>CommandPanels\<close>, \<open>PropertyView\<close>: the views of
    the pages named by them, their actions, and what a user can do. Each control of the things model
    editor works on one row; a command goes only to an active, online device; every action on the
    device property page is a step of the relation in \<open>PropertyInvariant\<close>; the console always shows a
    section with its tab, in a language that has texts.
  \<^item> \<open>TenantPage\<close>, \<open>ProductPage\<close>, \<open>DevicePage\<close>, \<open>AuditPage\<close> (\<open>pages/Admin\<close>): one page each, with its
    selectors, loaders, form and handlers; what each handler does on every branch. For the device
    page also the refinement: after any realtime events the list shows of each device what the
    events of its tenant, read as a log, say of it. \<open>DeviceStream\<close> puts the realtime hook and the
    device page together: the same holds when the events arrive as texts on the hook's sockets.
  \<^item> \<open>ThingsModelDrafts\<close>, \<open>ThingsModelRows\<close>, \<open>ThingsModelPage\<close>, \<open>ThingsModelIds\<close>, \<open>ThingsModelSave\<close>,
    \<open>ThingsModelPresets\<close> (\<open>ThingsModelManagement.tsx\<close>). Drafts: the editor rows and the conversions
    between rows and definitions; the locale \<open>row_codec\<close> holds the laws that parameters, properties,
    events and services share, and gives that a saved model is read and saved again unchanged. Rows
    and Ids: the row operations; every operation keeps the local ids of all rows and nested rows
    different, so an edit reaches one row. Page and Save: the page and what submitting sends;
    \<open>valid_codec\<close> extends \<open>row_codec\<close> with the validation of a form. Presets: the tables of built-in
    rows, which pass the validation and are saved as they are written.
  \<^item> \<open>PropertyValues\<close>, \<open>PropertyPage\<close>, \<open>PropertyInvariant\<close>, \<open>PropertyCommands\<close>, \<open>PropertyViews\<close>
    (\<open>DevicePropertyManagement.tsx\<close>). Values: the helpers over definitions and values. Page: state,
    nine effects, live events, refresh, handlers. Invariant: the page as a step relation in which
    answers come in any order. Commands: what setting properties and calling a service send. Views
    (\<open>PropertyViews\<close>): the values of the cards, the chart points, the axis labels and the tooltip.
  \<^item> \<open>Messages\<close>, \<open>I18n\<close> (\<open>i18n\<close>, \<open>contexts/I18nContext.tsx\<close>): the texts of both languages, which have
    the same keys and placeholders, and the lookup; the provider and its hook are in \<open>ConsoleUse\<close>.

  Parameters of the model. The answers of the server and of the user, the state of the page when an
  answer arrives, the fresh local ids (an injective sequence; the source takes them from \<open>crypto.randomUUID\<close>,
  or from the clock and random digits), the browser's \<open>Date\<close> and \<open>Intl\<close>, and the order in which answers and
  socket events arrive.

  Not modelled. Class names, other than those of badges and tags that depend on the data of an entry (the
  highlight of the current things model in its table is left out), and animations; constraints of the browser on form controls other than \<open>required\<close>; mocks and template leftovers, which no page uses.
  React, zustand, Umi, Ant Design and ECharts are third-party code: of React
  the model relies on state updates, on effects that run again exactly when an entry of their array has changed,
  after the cleanup of the last run, on closures over a
  render and on keeping an element whose tag stays the same, of zustand on set, get and merging persisted state, of
  the router on showing the route of the path within its wrappers, of ECharts on a chart that shows the options
  set last on its element until it is disposed.
  The Go services other than the paging of lists, the MQTT gateway and the deployment files are other programs.
\<close>

end
